(* ===== verification/Prelude.thy ===== *)
theory Prelude
  imports Main "HOL-Library.Finite_Map"
begin

text \<open>
  Shared vocabulary of the development: Go errors as values, Go results (a value, an error or a
  panic), programs that act on an abstract world, Go maps (nil or a finite map) and the few string
  functions of Go's \<open>strings\<close> package that several components use.
\<close>

named_theorems res_simps "evaluation of Go results"
named_theorems prog_simps "evaluation of effectful programs"
named_theorems gomap_simps "lookup in Go maps"

section \<open>Errors and results\<close>

text \<open>
  \<open>StatusError\<close> is the API machinery's error with its HTTP code and reason, \<open>ErrWaitTimeout\<close> the
  sentinel of the polling package, \<open>ErrorString\<close> an error made by \<open>errors.New\<close> or
  \<open>errors.Errorf\<close>, \<open>Wrapped\<close> the result of \<open>errors.Wrap\<close>, and \<open>TaskErr\<close> the task runner's
  error that carries the name of the failed task.
\<close>

datatype error =
    StatusError int string
  | ErrWaitTimeout
  | ErrorString string
  | Wrapped string error
  | TaskErr error string

text \<open>A Go call that returns a value and an error, or does not return because it panics.\<close>

datatype 'a res = Ok 'a | Err error | Panic

fun r_bind :: "'a res \<Rightarrow> ('a \<Rightarrow> 'b res) \<Rightarrow> 'b res" where
  "r_bind (Ok a) k = k a"
| "r_bind (Err e) k = Err e"
| "r_bind Panic k = Panic"

text \<open>\<open>errors.Wrap(err, msg)\<close> is nil when the error is nil.\<close>

fun errors_Wrap :: "string \<Rightarrow> 'a res \<Rightarrow> 'a res" where
  "errors_Wrap msg (Ok a) = Ok a"
| "errors_Wrap msg (Err e) = Err (Wrapped msg e)"
| "errors_Wrap msg Panic = Panic"

text \<open>\<open>errors.As\<close> looks through wrapped errors for the API status; \<open>IsNotFound\<close> tests its reason.\<close>

fun ReasonForError :: "error \<Rightarrow> string" where
  "ReasonForError (StatusError code reason) = reason"
| "ReasonForError (Wrapped m e) = ReasonForError e"
| "ReasonForError _ = ''''"

definition IsNotFound :: "error \<Rightarrow> bool" where
  "IsNotFound e \<longleftrightarrow> ReasonForError e = ''NotFound''"

definition NotFound :: error where
  "NotFound = StatusError 404 ''NotFound''"

definition AlreadyExists :: error where
  "AlreadyExists = StatusError 409 ''AlreadyExists''"

lemma IsNotFound_simps [simp]:
  "IsNotFound (StatusError c r) \<longleftrightarrow> r = ''NotFound''"
  "IsNotFound (Wrapped m e) = IsNotFound e"
  "\<not> IsNotFound ErrWaitTimeout"
  "\<not> IsNotFound (ErrorString s)"
  "\<not> IsNotFound (TaskErr e n)"
  "IsNotFound NotFound"
  "\<not> IsNotFound AlreadyExists"
  by (simp_all add: IsNotFound_def NotFound_def AlreadyExists_def)

lemma r_bind_Ok_iff [res_simps]:
  "r_bind r k = Ok b \<longleftrightarrow> (\<exists>a. r = Ok a \<and> k a = Ok b)"
  by (cases r) auto

lemma r_bind_Err_iff [res_simps]:
  "r_bind r k = Err e \<longleftrightarrow> r = Err e \<or> (\<exists>a. r = Ok a \<and> k a = Err e)"
  by (cases r) auto

lemma errors_Wrap_Ok_iff [res_simps, simp]: "errors_Wrap m r = Ok a \<longleftrightarrow> r = Ok a"
  by (cases r) auto

lemma errors_Wrap_Err_iff [res_simps]:
  "errors_Wrap m r = Err e \<longleftrightarrow> (\<exists>e'. r = Err e' \<and> e = Wrapped m e')"
  by (cases r) auto

lemma errors_Wrap_Panic_iff [res_simps, simp]: "errors_Wrap m r = Panic \<longleftrightarrow> r = Panic"
  by (cases r) auto

section \<open>Programs on a world\<close>

text \<open>
  A method that talks to the API server is a function from the world to a result and the next
  world. \<open>attempt msg m k\<close> is the idiom \<open>x, err := m; if err != nil { return errors.Wrap(err, msg) }\<close>
  followed by \<open>k x\<close>.
\<close>

type_synonym ('w, 'a) prog = "'w \<Rightarrow> 'a res \<times> 'w"

definition p_return :: "'a res \<Rightarrow> ('w, 'a) prog" where
  "p_return r = (\<lambda>w. (r, w))"

definition p_bind :: "('w, 'a) prog \<Rightarrow> ('a \<Rightarrow> ('w, 'b) prog) \<Rightarrow> ('w, 'b) prog" where
  "p_bind m k = (\<lambda>w. case m w of
      (Ok a, w') \<Rightarrow> k a w'
    | (Err e, w') \<Rightarrow> (Err e, w')
    | (Panic, w') \<Rightarrow> (Panic, w'))"

definition p_wrap :: "string \<Rightarrow> ('w, 'a) prog \<Rightarrow> ('w, 'a) prog" where
  "p_wrap msg m = (\<lambda>w. let (r, w') = m w in (errors_Wrap msg r, w'))"

definition attempt :: "string \<Rightarrow> ('w, 'a) prog \<Rightarrow> ('a \<Rightarrow> ('w, 'b) prog) \<Rightarrow> ('w, 'b) prog" where
  "attempt msg m k = p_bind (p_wrap msg m) k"

text \<open>\<open>p_catch m h\<close> hands the result of \<open>m\<close>, error included, to \<open>h\<close>; a panic goes through.\<close>

definition p_catch :: "('w, 'a) prog \<Rightarrow> (error + 'a \<Rightarrow> ('w, 'b) prog) \<Rightarrow> ('w, 'b) prog" where
  "p_catch m h = (\<lambda>w. case m w of
      (Ok a, w') \<Rightarrow> h (Inr a) w'
    | (Err e, w') \<Rightarrow> h (Inl e) w'
    | (Panic, w') \<Rightarrow> (Panic, w'))"

lemma p_return_apply [simp]: "p_return r w = (r, w)"
  by (simp add: p_return_def)

lemma p_bind_return_Ok [simp]: "p_bind (p_return (Ok x)) k = k x"
  by (simp add: p_bind_def p_return_def)

lemma p_bind_Ok_iff [prog_simps]:
  "p_bind m k w = (Ok b, w'') \<longleftrightarrow> (\<exists>a w'. m w = (Ok a, w') \<and> k a w' = (Ok b, w''))"
  by (auto simp: p_bind_def split: prod.splits res.splits)

lemma p_bind_Err_iff [prog_simps]:
  "p_bind m k w = (Err e, w'') \<longleftrightarrow>
     m w = (Err e, w'') \<or> (\<exists>a w'. m w = (Ok a, w') \<and> k a w' = (Err e, w''))"
  by (auto simp: p_bind_def split: prod.splits res.splits)

lemma p_wrap_Ok_iff [prog_simps, simp]: "p_wrap msg m w = (Ok a, w') \<longleftrightarrow> m w = (Ok a, w')"
  by (cases "m w") (auto simp: p_wrap_def Let_def)

lemma p_wrap_Err_iff [prog_simps]:
  "p_wrap msg m w = (Err e, w') \<longleftrightarrow> (\<exists>e'. m w = (Err e', w') \<and> e = Wrapped msg e')"
  by (cases "m w") (auto simp: p_wrap_def Let_def res_simps)

lemma p_wrap_eqs:
  "m w = (Ok a, w') \<Longrightarrow> p_wrap msg m w = (Ok a, w')"
  "m w = (Err e, w') \<Longrightarrow> p_wrap msg m w = (Err (Wrapped msg e), w')"
  "m w = (Panic, w') \<Longrightarrow> p_wrap msg m w = (Panic, w')"
  by (simp_all add: p_wrap_def)

lemma attempt_Ok_iff [prog_simps]:
  "attempt msg m k w = (Ok b, w'') \<longleftrightarrow> (\<exists>a w'. m w = (Ok a, w') \<and> k a w' = (Ok b, w''))"
  by (simp add: attempt_def prog_simps)

lemma attempt_Err_iff [prog_simps]:
  "attempt msg m k w = (Err e, w'') \<longleftrightarrow>
     (\<exists>e'. m w = (Err e', w'') \<and> e = Wrapped msg e') \<or>
     (\<exists>a w'. m w = (Ok a, w') \<and> k a w' = (Err e, w''))"
  by (auto simp: attempt_def prog_simps)

lemma attempt_eqs:
  "m w = (Ok a, w') \<Longrightarrow> attempt msg m k w = k a w'"
  "m w = (Err e, w') \<Longrightarrow> attempt msg m k w = (Err (Wrapped msg e), w')"
  "m w = (Panic, w') \<Longrightarrow> attempt msg m k w = (Panic, w')"
  by (simp_all add: attempt_def p_bind_def p_wrap_def)

lemma p_catch_Ok_iff [prog_simps]:
  "p_catch m h w = (Ok b, w'') \<longleftrightarrow>
     (\<exists>a w'. m w = (Ok a, w') \<and> h (Inr a) w' = (Ok b, w'')) \<or>
     (\<exists>e w'. m w = (Err e, w') \<and> h (Inl e) w' = (Ok b, w''))"
  by (auto simp: p_catch_def split: prod.splits res.splits)

lemma p_catch_eqs:
  "m w = (Ok a, w') \<Longrightarrow> p_catch m h w = h (Inr a) w'"
  "m w = (Err e, w') \<Longrightarrow> p_catch m h w = h (Inl e) w'"
  "m w = (Panic, w') \<Longrightarrow> p_catch m h w = (Panic, w')"
  by (simp_all add: p_catch_def)

text \<open>The loop \<open>for _, x := range xs { if err := f(x); err != nil { return err } }\<close>.\<close>

fun p_for :: "'a list \<Rightarrow> ('a \<Rightarrow> ('w, unit) prog) \<Rightarrow> ('w, unit) prog" where
  "p_for [] f = p_return (Ok ())"
| "p_for (x # xs) f = p_bind (f x) (\<lambda>_. p_for xs f)"

text \<open>
  A program keeps an observation of the world: the frame rule of every component that only reads,
  or writes elsewhere.
\<close>

definition keeps :: "('w \<Rightarrow> 'v) \<Rightarrow> ('w, 'a) prog \<Rightarrow> bool" where
  "keeps obs m \<longleftrightarrow> (\<forall>w r w'. m w = (r, w') \<longrightarrow> obs w' = obs w)"

lemma keepsI: "(\<And>w r w'. m w = (r, w') \<Longrightarrow> obs w' = obs w) \<Longrightarrow> keeps obs m"
  by (auto simp: keeps_def)

lemma keepsD: "keeps obs m \<Longrightarrow> m w = (r, w') \<Longrightarrow> obs w' = obs w"
  by (auto simp: keeps_def)

lemma keeps_return [intro, simp]: "keeps obs (p_return r)"
  by (rule keepsI) simp

lemma keeps_bind [intro]:
  assumes "keeps obs m" and "\<And>a. keeps obs (k a)"
  shows "keeps obs (p_bind m k)"
proof (rule keepsI)
  fix w r w'
  assume *: "p_bind m k w = (r, w')"
  obtain s u where mw: "m w = (s, u)" by (cases "m w")
  with assms(1) have "obs u = obs w" by (rule keepsD)
  with * mw show "obs w' = obs w"
    by (cases s) (auto simp: p_bind_def dest: keepsD [OF assms(2)])
qed

lemma keeps_wrap [intro]: "keeps obs m \<Longrightarrow> keeps obs (p_wrap msg m)"
  by (auto simp: keeps_def p_wrap_def Let_def split: prod.splits)

lemma keeps_attempt [intro]:
  "keeps obs m \<Longrightarrow> (\<And>a. keeps obs (k a)) \<Longrightarrow> keeps obs (attempt msg m k)"
  unfolding attempt_def by (intro keeps_bind keeps_wrap)

lemma keeps_catch [intro]:
  assumes "keeps obs m" and "\<And>r. keeps obs (h r)"
  shows "keeps obs (p_catch m h)"
proof (rule keepsI)
  fix w r w'
  assume *: "p_catch m h w = (r, w')"
  obtain s u where mw: "m w = (s, u)" by (cases "m w")
  with assms(1) have "obs u = obs w" by (rule keepsD)
  with * mw show "obs w' = obs w"
    by (cases s) (auto simp: p_catch_def dest: keepsD [OF assms(2)])
qed

lemma keeps_for [intro]: "(\<And>x. keeps obs (f x)) \<Longrightarrow> keeps obs (p_for xs f)"
  by (induction xs) auto

text \<open>A program returns: it never panics, in any world.\<close>

definition returns :: "('w, 'a) prog \<Rightarrow> bool" where
  "returns m \<longleftrightarrow> (\<forall>w. fst (m w) \<noteq> Panic)"

lemma returnsD: "returns m \<Longrightarrow> m w \<noteq> (Panic, w')"
  by (auto simp: returns_def) (metis fst_conv)

lemma returns_return [simp]: "returns (p_return r) \<longleftrightarrow> r \<noteq> Panic"
  by (simp add: returns_def p_return_def)

lemma returns_catch [intro]:
  assumes "returns m" and "\<And>r. returns (h r)"
  shows "returns (p_catch m h)"
  unfolding returns_def
proof
  fix w
  obtain s u where mw: "m w = (s, u)" by (cases "m w")
  with returnsD [OF assms(1)] assms(2) show "fst (p_catch m h w) \<noteq> Panic"
    by (cases s) (auto simp: p_catch_def returns_def)
qed

lemma returns_bind [intro]:
  assumes "returns m" and "\<And>a. returns (k a)"
  shows "returns (p_bind m k)"
  unfolding returns_def
proof
  fix w
  obtain s u where mw: "m w = (s, u)" by (cases "m w")
  with returnsD [OF assms(1)] assms(2) show "fst (p_bind m k w) \<noteq> Panic"
    by (cases s) (auto simp: p_bind_def returns_def)
qed

lemma returns_wrap [intro]: "returns m \<Longrightarrow> returns (p_wrap msg m)"
  unfolding returns_def [of "p_wrap msg m"]
  by (auto simp: p_wrap_def Let_def dest: returnsD split: prod.splits)

lemma returns_attempt [intro]:
  "returns m \<Longrightarrow> (\<And>a. returns (k a)) \<Longrightarrow> returns (attempt msg m k)"
  unfolding attempt_def by (intro returns_bind returns_wrap)

lemma returns_for [intro]: "(\<And>x. returns (f x)) \<Longrightarrow> returns (p_for xs f)"
  by (induction xs) auto

section \<open>Go maps\<close>

text \<open>
  A Go map is nil or a finite map. Reading a missing key of either gives the zero value; writing
  into a nil map panics; deleting from it does nothing.
\<close>

type_synonym 'v gomap = "(string, 'v) fmap option"

definition gm_lookup :: "'v gomap \<Rightarrow> string \<Rightarrow> 'v option" where
  "gm_lookup m k = (case m of None \<Rightarrow> None | Some f \<Rightarrow> fmlookup f k)"

definition gm_get :: "string gomap \<Rightarrow> string \<Rightarrow> string" where
  "gm_get m k = (case gm_lookup m k of None \<Rightarrow> '''' | Some v \<Rightarrow> v)"

definition gm_has :: "'v gomap \<Rightarrow> string \<Rightarrow> bool" where
  "gm_has m k \<longleftrightarrow> gm_lookup m k \<noteq> None"

definition gm_set :: "'v gomap \<Rightarrow> string \<Rightarrow> 'v \<Rightarrow> 'v gomap res" where
  "gm_set m k v = (case m of None \<Rightarrow> Panic | Some f \<Rightarrow> Ok (Some (fmupd k v f)))"

definition gm_delete :: "string \<Rightarrow> 'v gomap \<Rightarrow> 'v gomap" where
  "gm_delete k m = map_option (fmdrop k) m"

definition gm_nonempty :: "'v gomap \<Rightarrow> bool" where
  "gm_nonempty m \<longleftrightarrow> (case m of None \<Rightarrow> False | Some f \<Rightarrow> fmdom f \<noteq> {||})"

definition gm_of_list :: "(string \<times> 'v) list \<Rightarrow> 'v gomap" where
  "gm_of_list xs = Some (fmap_of_list xs)"

lemma gm_lookup_simps [simp]:
  "gm_lookup None k = None"
  "gm_lookup (Some f) k = fmlookup f k"
  "gm_lookup (gm_of_list xs) k = map_of xs k"
  "gm_lookup (gm_delete j m) k = (if k = j then None else gm_lookup m k)"
  by (auto simp: gm_lookup_def gm_delete_def gm_of_list_def fmlookup_of_list split: option.splits)

lemma gm_set_Ok_iff [res_simps]:
  "gm_set m k v = Ok m' \<longleftrightarrow> (\<exists>f. m = Some f \<and> m' = Some (fmupd k v f))"
  by (auto simp: gm_set_def split: option.splits)

lemma gm_set_simps [simp]:
  "gm_set (Some f) k v = Ok (Some (fmupd k v f))"
  "gm_set None k v = Panic"
  by (simp_all add: gm_set_def)

section \<open>Strings\<close>

text \<open>\<open>strings.Join\<close>, \<open>strings.HasPrefix\<close> and \<open>strings.Split\<close> with a one-byte separator.\<close>

fun strings_Join :: "string \<Rightarrow> string list \<Rightarrow> string" where
  "strings_Join sep [] = ''''"
| "strings_Join sep [s] = s"
| "strings_Join sep (s # t # ts) = s @ sep @ strings_Join sep (t # ts)"

fun strings_HasPrefix :: "string \<Rightarrow> string \<Rightarrow> bool" where
  "strings_HasPrefix s [] = True"
| "strings_HasPrefix [] (c # p) = False"
| "strings_HasPrefix (d # s) (c # p) = (d = c \<and> strings_HasPrefix s p)"

fun strings_Split :: "char \<Rightarrow> string \<Rightarrow> string list" where
  "strings_Split sep [] = [[]]"
| "strings_Split sep (c # s) =
     (if c = sep then [] # strings_Split sep s
      else case strings_Split sep s of
             [] \<Rightarrow> [[c]]
           | p # ps \<Rightarrow> (c # p) # ps)"

lemma strings_HasPrefix_iff: "strings_HasPrefix s p \<longleftrightarrow> (\<exists>t. s = p @ t)"
  by (induction s p rule: strings_HasPrefix.induct) auto

lemma strings_Split_nonempty [simp]: "strings_Split sep s \<noteq> []"
  by (induction s) (auto split: list.splits)

lemma strings_Join_Cons_nonempty:
  "xs \<noteq> [] \<Longrightarrow> strings_Join sep (x # xs) = x @ sep @ strings_Join sep xs"
  by (cases xs) auto

lemma strings_Join_snoc:
  "xs \<noteq> [] \<Longrightarrow> strings_Join sep (xs @ [x]) = strings_Join sep xs @ sep @ x"
  by (induction sep xs rule: strings_Join.induct) auto

lemma strings_Join_Split: "strings_Join [sep] (strings_Split sep s) = s"
proof (induction s)
  case Nil
  then show ?case by simp
next
  case (Cons c s)
  obtain p ps where sp: "strings_Split sep s = p # ps"
    by (cases "strings_Split sep s") auto
  with Cons.IH show ?case
    by (cases ps) (auto simp: strings_Join_Cons_nonempty)
qed

lemma strings_Split_no_sep: "x \<in> set (strings_Split sep s) \<Longrightarrow> sep \<notin> set x"
proof (induction s arbitrary: x)
  case Nil
  then show ?case by simp
next
  case (Cons c s)
  obtain p ps where sp: "strings_Split sep s = p # ps"
    by (cases "strings_Split sep s") auto
  with Cons show ?case by (auto split: if_splits)
qed

lemma strings_Split_plain: "sep \<notin> set s \<Longrightarrow> strings_Split sep s = [s]"
  by (induction s) auto

lemma strings_Split_append:
  "sep \<notin> set p \<Longrightarrow> strings_Split sep (p @ sep # s) = p # strings_Split sep s"
  by (induction p) auto

text \<open>The decimal notation of the \<open>%d\<close> verb.\<close>

fun decimal_digits :: "nat \<Rightarrow> string \<Rightarrow> string" where
  "decimal_digits n acc = (
     let acc' = char_of (48 + n mod 10) # acc
     in if n < 10 then acc' else decimal_digits (n div 10) acc')"

declare decimal_digits.simps [simp del]

definition decimal :: "int \<Rightarrow> string" where
  "decimal i = (if i < 0 then CHR ''-'' # decimal_digits (nat (- i)) [] else decimal_digits (nat i) [])"

section \<open>Text of an error\<close>

text \<open>
  What \<open>err.Error()\<close> (and the \<open>%v\<close> verb) prints. The message that the server puts into an API
  status is represented by the status's reason.
\<close>

fun error_message :: "error \<Rightarrow> string" where
  "error_message (StatusError code reason) = reason"
| "error_message ErrWaitTimeout = ''timed out waiting for the condition''"
| "error_message (ErrorString s) = s"
| "error_message (Wrapped msg e) = msg @ '': '' @ error_message e"
| "error_message (TaskErr e name) = error_message e"

section \<open>Pointers\<close>

text \<open>A pointer is an option; following a nil pointer panics.\<close>

definition deref :: "'a option \<Rightarrow> 'a res" where
  "deref p = (case p of None \<Rightarrow> Panic | Some x \<Rightarrow> Ok x)"

text \<open>\<open>p.field = v\<close> through a pointer, as an update of the value that it points to.\<close>

definition through :: "'a option \<Rightarrow> ('a \<Rightarrow> 'a) \<Rightarrow> 'a option res" where
  "through p f = (case p of None \<Rightarrow> Panic | Some x \<Rightarrow> Ok (Some (f x)))"

text \<open>\<open>if p == nil { p = &d }\<close>.\<close>

definition default_to :: "'a \<Rightarrow> 'a option \<Rightarrow> 'a option" where
  "default_to d p = (case p of None \<Rightarrow> Some d | Some x \<Rightarrow> Some x)"

lemma deref_simps [simp]: "deref (Some x) = Ok x" "deref None = Panic"
  by (simp_all add: deref_def)

lemma through_simps [simp]: "through (Some x) f = Ok (Some (f x))" "through None f = Panic"
  by (simp_all add: through_def)

lemma default_to_simps [simp]: "default_to d (Some x) = Some x" "default_to d None = Some d"
  by (simp_all add: default_to_def)

lemma default_to_not_None [simp]: "default_to d p \<noteq> None"
  by (cases p) simp_all

lemma default_to_idem [simp]: "default_to d (default_to d' p) = default_to d' p"
  by (cases p) simp_all

lemma deref_Ok_iff [res_simps]: "deref p = Ok x \<longleftrightarrow> p = Some x"
  by (cases p) auto

lemma deref_Err_iff [res_simps]: "deref p \<noteq> Err e"
  by (cases p) auto

end
