(* ===== verification/Pascal_Case.thy ===== *)
theory Pascal_Case
  imports Prelude
begin

text \<open>
  The package \<open>pkg/strings\<close>: \<open>ToPascalCase\<close>, which the status reporter applies to the reason of a
  failed rollout. Strings are lists of bytes; the letters are the ASCII ones, which the regular
  expression of the source is limited to, so that \<open>strings.Title\<close> is modelled on ASCII text.
\<close>

section \<open>Characters\<close>

definition is_upper :: "char \<Rightarrow> bool" where
  "is_upper c \<longleftrightarrow> 65 \<le> (of_char c :: nat) \<and> (of_char c :: nat) \<le> 90"

definition is_lower :: "char \<Rightarrow> bool" where
  "is_lower c \<longleftrightarrow> 97 \<le> (of_char c :: nat) \<and> (of_char c :: nat) \<le> 122"

definition is_letter :: "char \<Rightarrow> bool" where
  "is_letter c \<longleftrightarrow> is_upper c \<or> is_lower c"

definition is_digit :: "char \<Rightarrow> bool" where
  "is_digit c \<longleftrightarrow> 48 \<le> (of_char c :: nat) \<and> (of_char c :: nat) \<le> 57"

definition to_upper :: "char \<Rightarrow> char" where
  "to_upper c = (if is_lower c then char_of ((of_char c :: nat) - 32) else c)"

definition to_lower :: "char \<Rightarrow> char" where
  "to_lower c = (if is_upper c then char_of ((of_char c :: nat) + 32) else c)"

section \<open>The standard library's Trim and Title\<close>

definition strings_Trim_space :: "string \<Rightarrow> string" where
  "strings_Trim_space s = rev (dropWhile (\<lambda>c. c = CHR '' '') (rev (dropWhile (\<lambda>c. c = CHR '' '') s)))"

text \<open>\<open>isSeparator\<close> of package \<open>strings\<close>: letters, digits and underscore do not separate words.\<close>

definition is_separator :: "char \<Rightarrow> bool" where
  "is_separator c \<longleftrightarrow> \<not> (is_letter c \<or> is_digit c \<or> c = CHR ''_'')"

fun title_from :: "char \<Rightarrow> string \<Rightarrow> string" where
  "title_from prev [] = []"
| "title_from prev (c # s) = (if is_separator prev then to_upper c else c) # title_from c s"

definition strings_Title :: "string \<Rightarrow> string" where
  "strings_Title s = title_from CHR '' '' s"

section \<open>The package's own functions\<close>

text \<open>
  \<open>numberSequence.ReplaceAll\<close>: the leftmost matches of a letter, a run of digits and an optional
  letter, none overlapping, each replaced by its three groups separated by spaces.
\<close>

function addWordBoundariesToNumbers :: "string \<Rightarrow> string" where
  "addWordBoundariesToNumbers [] = []"
| "addWordBoundariesToNumbers (c # s) =
     (if is_letter c \<and> takeWhile is_digit s \<noteq> [] then
        (case dropWhile is_digit s of
           [] \<Rightarrow> c # '' '' @ takeWhile is_digit s @ '' ''
         | l # r \<Rightarrow>
             if is_letter l
             then c # '' '' @ takeWhile is_digit s @ '' '' @ l # addWordBoundariesToNumbers r
             else c # '' '' @ takeWhile is_digit s @ '' '' @ addWordBoundariesToNumbers (l # r))
      else c # addWordBoundariesToNumbers s)"
  by pat_completeness auto
termination
proof (relation "measure length", goal_cases)
  case (2 c s l r)
  then have "length (l # r) \<le> length s" by (metis length_dropWhile_le)
  then show ?case by simp
next
  case (3 c s l r)
  then have "length (l # r) \<le> length s" by (metis length_dropWhile_le)
  then show ?case by simp
qed auto

definition wordMapping :: "(string \<times> string) list" where
  "wordMapping = [(''http'', ''HTTP''), (''url'', ''URL''), (''ip'', ''IP'')]"

definition translateWord :: "string \<Rightarrow> bool \<Rightarrow> string" where
  "translateWord word initCase =
     (case map_of wordMapping word of
        Some val \<Rightarrow> val
      | None \<Rightarrow> if initCase then strings_Title word else word)"

definition is_word_break :: "char \<Rightarrow> bool" where
  "is_word_break c \<longleftrightarrow> c = CHR ''_'' \<or> c = CHR '' '' \<or> c = CHR ''-''"

text \<open>The loop that cuts the string into \<open>bits\<close>; \<open>n\<close> is the word read so far.\<close>

fun word_bits :: "string \<Rightarrow> string \<Rightarrow> string list" where
  "word_bits n [] = [n]"
| "word_bits n (v # s) = (if is_word_break v then n # word_bits [] s else word_bits (n @ [v]) s)"

text \<open>The second loop: every word but the first is translated with \<open>initCase\<close>.\<close>

fun join_words :: "bool \<Rightarrow> string list \<Rightarrow> string" where
  "join_words initCase [] = []"
| "join_words initCase (w # ws) = translateWord w initCase @ join_words True ws"

definition ToPascalCase :: "string \<Rightarrow> string" where
  "ToPascalCase s =
     strings_Title (join_words False (word_bits [] (strings_Trim_space (addWordBoundariesToNumbers s))))"

section \<open>Lemmas\<close>

lemma to_lower_to_upper [simp]: "to_lower (to_upper c) = to_lower c"
  by (auto simp: to_lower_def to_upper_def is_lower_def is_upper_def)

lemma to_upper_not_lower: "\<not> is_lower (to_upper c)"
  by (auto simp: to_upper_def is_lower_def)

lemma to_upper_eq_nonletter: "\<not> is_letter x \<Longrightarrow> to_upper c = x \<longleftrightarrow> c = x"
  by (auto simp: to_upper_def is_lower_def is_letter_def is_upper_def)

lemma title_from_lower: "map to_lower (title_from p s) = map to_lower s"
  by (induction s arbitrary: p) auto

lemma strings_Title_lower [simp]: "map to_lower (strings_Title s) = map to_lower s"
  by (simp add: strings_Title_def title_from_lower)

lemma set_title_from: "x \<in> set (title_from p s) \<Longrightarrow> \<exists>y\<in>set s. x = y \<or> x = to_upper y"
  by (induction s arbitrary: p) (auto split: if_splits)

lemma is_word_break_to_upper [simp]: "is_word_break (to_upper c) = is_word_break c"
proof -
  have "\<not> is_letter CHR ''_''" "\<not> is_letter CHR '' ''" "\<not> is_letter CHR ''-''"
    by (simp_all add: is_letter_def is_upper_def is_lower_def)
  then show ?thesis by (simp add: is_word_break_def to_upper_eq_nonletter)
qed

lemma title_no_break: "\<forall>c\<in>set s. \<not> is_word_break c \<Longrightarrow> c \<in> set (strings_Title s) \<Longrightarrow> \<not> is_word_break c"
  by (auto simp: strings_Title_def dest!: set_title_from)

lemma wordMapping_val:
  "map_of wordMapping w = Some v \<Longrightarrow> map to_lower v = map to_lower w \<and> (\<forall>c\<in>set v. \<not> is_word_break c)"
proof -
  have all: "list_all (\<lambda>(k, v). map to_lower v = map to_lower k \<and> list_all (\<lambda>c. \<not> is_word_break c) v) wordMapping"
    by code_simp
  assume "map_of wordMapping w = Some v"
  then have "(w, v) \<in> set wordMapping" by (rule map_of_SomeD)
  with all show ?thesis by (auto simp: list_all_iff)
qed

lemma translateWord_no_break:
  "\<forall>c\<in>set w. \<not> is_word_break c \<Longrightarrow> c \<in> set (translateWord w b) \<Longrightarrow> \<not> is_word_break c"
  using wordMapping_val [of w] title_no_break [of w c]
  by (auto simp: translateWord_def split: option.splits if_splits)

lemma join_words_no_break:
  "\<forall>w\<in>set ws. \<forall>c\<in>set w. \<not> is_word_break c \<Longrightarrow> c \<in> set (join_words b ws) \<Longrightarrow> \<not> is_word_break c"
  by (induction ws arbitrary: b) (auto dest: translateWord_no_break)

lemma word_bits_no_break:
  "\<forall>c\<in>set n. \<not> is_word_break c \<Longrightarrow> \<forall>w\<in>set (word_bits n s). \<forall>c\<in>set w. \<not> is_word_break c"
proof (induction s arbitrary: n)
  case (Cons v s)
  show ?case
  proof (cases "is_word_break v")
    case True
    have "\<forall>w\<in>set (word_bits [] s). \<forall>c\<in>set w. \<not> is_word_break c" by (rule Cons.IH) simp
    with True Cons.prems show ?thesis by (simp only: word_bits.simps if_True list.set) blast
  next
    case False
    have "\<forall>w\<in>set (word_bits (n @ [v]) s). \<forall>c\<in>set w. \<not> is_word_break c"
      by (rule Cons.IH) (use False Cons.prems in auto)
    with False show ?thesis by (simp only: word_bits.simps if_False)
  qed
qed simp

lemma is_word_break_simps [simp]: "is_word_break CHR '' ''" "is_word_break CHR ''_''" "is_word_break CHR ''-''"
  by (simp_all add: is_word_break_def)

lemma translateWord_lower [simp]: "map to_lower (translateWord w b) = map to_lower w"
  using wordMapping_val [of w] by (auto simp: translateWord_def split: option.splits)

lemma join_words_lower: "map to_lower (join_words b ws) = map to_lower (concat ws)"
  by (induction ws arbitrary: b) auto

lemma concat_word_bits: "concat (word_bits n s) = n @ filter (\<lambda>c. \<not> is_word_break c) s"
  by (induction s arbitrary: n) auto

lemma filter_dropWhile_space:
  "filter (\<lambda>c. \<not> is_word_break c) (dropWhile (\<lambda>c. c = CHR '' '') s) = filter (\<lambda>c. \<not> is_word_break c) s"
  by (induction s) auto

lemma filter_Trim: "filter (\<lambda>c. \<not> is_word_break c) (strings_Trim_space s) = filter (\<lambda>c. \<not> is_word_break c) s"
  by (simp add: strings_Trim_space_def rev_filter [symmetric] filter_dropWhile_space)

lemma filter_addWordBoundaries:
  "filter (\<lambda>c. \<not> is_word_break c) (addWordBoundariesToNumbers s) = filter (\<lambda>c. \<not> is_word_break c) s"
proof (induction s rule: addWordBoundariesToNumbers.induct)
  case 1
  then show ?case by simp
next
  case (2 c s)
  let ?P = "\<lambda>c. \<not> is_word_break c"
  have split: "filter ?P s = filter ?P (takeWhile is_digit s) @ filter ?P (dropWhile is_digit s)"
    by (metis filter_append takeWhile_dropWhile_id)
  show ?case
  proof (cases "is_letter c \<and> takeWhile is_digit s \<noteq> []")
    case False
    then show ?thesis using 2(3) by auto
  next
    case m: True
    show ?thesis
    proof (cases "dropWhile is_digit s")
      case Nil
      with m split show ?thesis by (simp del: dropWhile_eq_Nil_conv)
    next
      case (Cons l r)
      with m split 2(1,2) [OF m Cons] show ?thesis by (cases "is_letter l") auto
    qed
  qed
qed

lemma filter_no_break: "\<forall>c\<in>set s. \<not> is_word_break c \<Longrightarrow> filter (\<lambda>c. \<not> is_word_break c) s = s"
  by (simp add: filter_id_conv)

lemma title_from_first: "is_separator p \<Longrightarrow> title_from p s \<noteq> [] \<Longrightarrow> \<not> is_lower (hd (title_from p s))"
  by (cases s) (auto simp: to_upper_not_lower)

section \<open>Properties\<close>

text \<open>The name that \<open>ToPascalCase\<close> builds never contains a blank, an underscore or a hyphen: the
  reason it puts into a ClusterOperator condition is a single word.\<close>

theorem ToPascalCase_one_word: "filter is_word_break (ToPascalCase s) = []"
proof -
  let ?ws = "word_bits [] (strings_Trim_space (addWordBoundariesToNumbers s))"
  have "\<forall>w\<in>set ?ws. \<forall>c\<in>set w. \<not> is_word_break c"
    by (rule word_bits_no_break) simp
  then have "\<forall>c\<in>set (join_words False ?ws). \<not> is_word_break c"
    using join_words_no_break by blast
  then have "\<not> is_word_break c" if "c \<in> set (ToPascalCase s)" for c
    using that unfolding ToPascalCase_def by (rule title_no_break)
  then show ?thesis by (simp add: filter_empty_conv)
qed

text \<open>up to the case of letters, \<open>ToPascalCase\<close> keeps the text: dropping blanks, underscores and
  hyphens from the input gives the output, so no letter, digit or other character is lost, added or
  moved by the number boundaries, the word mapping or the title casing.\<close>

lemma ToPascalCase_content:
  "map to_lower (ToPascalCase s) = map to_lower (filter (\<lambda>c. \<not> is_word_break c) s)"
  by (simp add: ToPascalCase_def join_words_lower concat_word_bits filter_Trim filter_addWordBoundaries)

text \<open>a non-empty name never starts with a lower case letter.\<close>

lemma ToPascalCase_capital:
  assumes "ToPascalCase s \<noteq> []"
  shows "\<not> is_lower (hd (ToPascalCase s))"
  using assms unfolding ToPascalCase_def strings_Title_def
  by (intro title_from_first) (simp_all add: is_separator_def is_letter_def is_upper_def is_lower_def is_digit_def)

lemma ToPascalCase_capital_witness:
  "ToPascalCase ''http_numbers2And'' = ''HTTPNumbers2And'' \<and> \<not> is_lower (hd (ToPascalCase ''http_numbers2And''))"
proof -
  have e: "ToPascalCase ''http_numbers2And'' = ''HTTPNumbers2And''" by code_simp
  then show ?thesis using ToPascalCase_capital [of "''http_numbers2And''"] by simp
qed

end
