(* ===== verification/Promqlgen.thy ===== *)
theory Promqlgen
  imports Prelude "HOL-Library.Char_ord" "HOL-Library.List_Lexorder" "HOL-Library.Multiset"
begin

text \<open>
  The package \<open>pkg/promqlgen\<close>, which turns the telemetry matchers of the operator into a relabelling
  rule (for remote write) and into one PromQL selector (for the telemeter rule). The PromQL parser
  \<open>promql.ParseMetricSelector\<close> is a parameter \<open>parse\<close>; the iteration order of a Go map is a parameter
  \<open>order\<close>.
\<close>

record Matcher =
  Matcher_Name :: string
  Matcher_Value :: string

record RelabelConfig =
  Action :: string
  SourceLabels :: "string list"
  Regex :: string
  TargetLabel :: string
  Replacement :: string

type_synonym parser = "string \<Rightarrow> Matcher list res"

fun parseMetricSelectorFromArray :: "parser \<Rightarrow> string list \<Rightarrow> Matcher list list res" where
  "parseMetricSelectorFromArray parse [] = Ok []"
| "parseMetricSelectorFromArray parse (m # ms) =
     r_bind (parse m) (\<lambda>ls.
     r_bind (parseMetricSelectorFromArray parse ms) (\<lambda>lss. Ok (ls # lss)))"

section \<open>Relabelling\<close>

text \<open>The first pair of loops: \<open>labelPositions\<close>, \<open>sourceLabels\<close> and the counter \<open>i\<close>.\<close>

fun label_positions ::
  "Matcher list \<Rightarrow> (string, nat) fmap \<times> string list \<times> nat \<Rightarrow> (string, nat) fmap \<times> string list \<times> nat" where
  "label_positions [] st = st"
| "label_positions (lm # ls) (pos, src, i) =
     (if fmlookup pos (Matcher_Name lm) \<noteq> None then label_positions ls (pos, src, i)
      else label_positions ls (fmupd (Matcher_Name lm) i pos, src @ [Matcher_Name lm], Suc i))"

text \<open>The second: the values of one selector, at the positions of their labels.\<close>

fun label_values :: "(string, nat) fmap \<Rightarrow> Matcher list \<Rightarrow> string list \<Rightarrow> string list" where
  "label_values pos [] vals = vals"
| "label_values pos (lm # ls) vals =
     label_values pos ls
       (vals[(case fmlookup pos (Matcher_Name lm) of None \<Rightarrow> 0 | Some p \<Rightarrow> p) := Matcher_Value lm])"

definition relabel_config :: "Matcher list list \<Rightarrow> RelabelConfig" where
  "relabel_config labelSets =
     (let (pos, src, i) = fold label_positions labelSets (fmempty, [], 0);
          regexParts = map (\<lambda>ls. strings_Join '';'' (label_values pos ls (replicate (length src) ''''))) labelSets
      in \<lparr>Action = ''keep'', SourceLabels = src,
          Regex = ''('' @ strings_Join ''|'' regexParts @ '')'', TargetLabel = '''', Replacement = ''''\<rparr>)"

definition LabelSelectorsToRelabelConfig :: "parser \<Rightarrow> string list \<Rightarrow> RelabelConfig res" where
  "LabelSelectorsToRelabelConfig parse matches =
     r_bind (errors_Wrap ''could not parse metric selectors from matches array''
               (parseMetricSelectorFromArray parse matches))
       (\<lambda>labelSets. Ok (relabel_config labelSets))"

section \<open>Grouping\<close>

fun group_values :: "Matcher list \<Rightarrow> (string, string list) fmap \<Rightarrow> (string, string list) fmap" where
  "group_values [] new = new"
| "group_values (lm # ls) new =
     (case fmlookup new (Matcher_Name lm) of
        Some vs \<Rightarrow> group_values ls (fmupd (Matcher_Name lm) (vs @ [Matcher_Value lm]) new)
      | None \<Rightarrow> group_values ls (fmupd (Matcher_Name lm) [Matcher_Value lm] new))"

definition quote :: string where
  "quote = [CHR 0x22]"

text \<open>The loop over the sorted keys; \<open>i\<close> counts the keys written, \<open>n\<close> is \<open>len(newLabelSet)\<close>.\<close>

fun group_loop :: "(string \<Rightarrow> string list) \<Rightarrow> nat \<Rightarrow> string \<Rightarrow> nat \<Rightarrow> string list \<Rightarrow> string" where
  "group_loop new n res i [] = res"
| "group_loop new n res i (k # ks) =
     (let res = res @ k @ ''=~'' @ quote;
          res = res @ strings_Join ''|'' (new k);
          i = Suc i;
          res = (if k \<noteq> ''__name__'' then res @ ''|'' else res)
      in if i = n then group_loop new n (res @ quote) i ks
         else group_loop new n (res @ quote @ '','') i ks)"

definition GroupLabelSelectors :: "parser \<Rightarrow> (string list \<Rightarrow> string list) \<Rightarrow> string list \<Rightarrow> string res" where
  "GroupLabelSelectors parse order matches =
     r_bind (errors_Wrap ''could not parse metric selectors from matches array''
               (parseMetricSelectorFromArray parse matches))
       (\<lambda>labelSets.
          let new = fold group_values labelSets fmempty;
              keys = sort (order (sorted_list_of_fset (fmdom new)));
              values = (\<lambda>k. case fmlookup new k of None \<Rightarrow> [] | Some vs \<Rightarrow> vs)
          in Ok (group_loop values (fcard (fmdom new)) ''{'' 0 keys @ ''}''))"

section \<open>What the loops compute\<close>

text \<open>A selector's last value for a label, empty when it does not mention the label.\<close>

definition last_value :: "Matcher list \<Rightarrow> string \<Rightarrow> string" where
  "last_value ls l =
     (case map_of (rev (map (\<lambda>m. (Matcher_Name m, Matcher_Value m)) ls)) l of None \<Rightarrow> '''' | Some v \<Rightarrow> v)"

definition label_names :: "Matcher list list \<Rightarrow> string list" where
  "label_names lss = map Matcher_Name (concat lss)"

definition positions_inv :: "(string, nat) fmap \<times> string list \<times> nat \<Rightarrow> bool" where
  "positions_inv st \<longleftrightarrow> (case st of (pos, src, i) \<Rightarrow>
     i = length src \<and> distinct src \<and>
     (\<forall>l p. fmlookup pos l = Some p \<longleftrightarrow> p < length src \<and> src ! p = l))"

lemma positions_inv_None:
  "positions_inv (pos, src, i) \<Longrightarrow> fmlookup pos l = None \<longleftrightarrow> l \<notin> set src"
  by (force simp: positions_inv_def in_set_conv_nth simp flip: not_Some_eq)

lemma positions_inv_empty [simp]: "positions_inv (fmempty, [], 0)"
  by (simp add: positions_inv_def)

lemma positions_inv_add:
  assumes inv: "positions_inv (pos, src, i)" and new: "fmlookup pos l = None"
  shows "positions_inv (fmupd l i pos, src @ [l], Suc i)"
proof -
  from positions_inv_None [OF inv] new have "l \<notin> set src" by simp
  moreover then have "src ! p \<noteq> l" if "p < length src" for p
    using that by (auto simp: in_set_conv_nth)
  ultimately show ?thesis
    using inv unfolding positions_inv_def
    by (auto simp: nth_append less_Suc_eq)
qed

lemma label_positions_inv:
  "positions_inv st \<Longrightarrow> positions_inv (label_positions ls st) \<and>
     set (fst (snd (label_positions ls st))) = set (fst (snd st)) \<union> Matcher_Name ` set ls"
proof (induction ls st rule: label_positions.induct)
  case (2 lm ls pos src i)
  show ?case
  proof (cases "fmlookup pos (Matcher_Name lm)")
    case None
    with 2(2) [OF _ positions_inv_add [OF 2(3) None]] show ?thesis by auto
  next
    case (Some p)
    then have "Matcher_Name lm \<in> set src"
      using positions_inv_None [OF 2(3)] by (metis option.distinct(1))
    with Some 2(1) [OF _ 2(3)] show ?thesis by auto
  qed
qed simp

lemma fold_label_positions_inv:
  "positions_inv st \<Longrightarrow> positions_inv (fold label_positions lss st) \<and>
     set (fst (snd (fold label_positions lss st))) = set (fst (snd st)) \<union> set (label_names lss)"
proof (induction lss arbitrary: st)
  case (Cons ls lss)
  with label_positions_inv [OF Cons.prems, of ls] Cons.IH [of "label_positions ls st"]
  show ?case by (auto simp: label_names_def)
qed (simp add: label_names_def)

lemma length_label_values [simp]: "length (label_values pos ls vals) = length vals"
  by (induction pos ls vals rule: label_values.induct) auto

lemma label_values_nth:
  assumes inv: "positions_inv (pos, src, i)" and len: "length vals = length src"
    and sub: "Matcher_Name ` set ls \<subseteq> set src" and p: "p < length src"
  shows "label_values pos ls vals ! p =
    (case map_of (rev (map (\<lambda>m. (Matcher_Name m, Matcher_Value m)) ls)) (src ! p) of
       None \<Rightarrow> vals ! p | Some v \<Rightarrow> v)"
  using len sub
proof (induction ls arbitrary: vals)
  case (Cons lm ls)
  from Cons.prems(2) positions_inv_None [OF inv] obtain q where q: "fmlookup pos (Matcher_Name lm) = Some q"
    by fastforce
  with inv have q': "q < length src" "src ! q = Matcher_Name lm" and d: "distinct src"
    by (auto simp: positions_inv_def)
  have eq: "src ! p = Matcher_Name lm \<longleftrightarrow> p = q"
    using q' d p by (metis nth_eq_iff_index_eq)
  show ?case using Cons.IH [of "vals[q := Matcher_Value lm]"] Cons.prems q q' p eq
    by (auto simp: map_add_def nth_list_update split: option.splits)
qed simp

lemma label_values_eq:
  assumes inv: "positions_inv (pos, src, i)" and sub: "Matcher_Name ` set ls \<subseteq> set src"
  shows "label_values pos ls (replicate (length src) '''') = map (last_value ls) src"
  by (rule nth_equalityI)
     (auto simp: label_values_nth [OF inv _ sub] last_value_def split: option.splits)

text \<open>The closed form of the relabelling rule.\<close>

lemma relabel_config_eq:
  shows "distinct (SourceLabels (relabel_config lss))"
    and "set (SourceLabels (relabel_config lss)) = set (label_names lss)"
    and "Regex (relabel_config lss) =
      ''('' @ strings_Join ''|'' (map (\<lambda>ls. strings_Join '';'' (map (last_value ls) (SourceLabels (relabel_config lss)))) lss) @ '')''"
proof -
  obtain pos src i where st: "fold label_positions lss (fmempty, [], 0) = (pos, src, i)"
    by (cases "fold label_positions lss (fmempty, [], 0)")
  with fold_label_positions_inv [of "(fmempty, [], 0)" lss]
  have inv: "positions_inv (pos, src, i)" and src: "set src = set (label_names lss)"
    by simp_all
  from src st show "set (SourceLabels (relabel_config lss)) = set (label_names lss)"
    by (simp add: relabel_config_def)
  from inv st show "distinct (SourceLabels (relabel_config lss))"
    by (simp add: relabel_config_def positions_inv_def)
  have "label_values pos ls (replicate (length src) '''') = map (last_value ls) src" if "ls \<in> set lss" for ls
    using that src by (intro label_values_eq [OF inv]) (auto simp: label_names_def)
  with st show "Regex (relabel_config lss) =
      ''('' @ strings_Join ''|'' (map (\<lambda>ls. strings_Join '';'' (map (last_value ls) (SourceLabels (relabel_config lss)))) lss) @ '')''"
    by (simp add: relabel_config_def cong: map_cong)
qed

lemma group_values_lookup:
  "fmlookup (group_values ls new) k =
     (case map Matcher_Value (filter (\<lambda>m. Matcher_Name m = k) ls) of
        [] \<Rightarrow> fmlookup new k
      | v # vs \<Rightarrow> Some ((case fmlookup new k of None \<Rightarrow> [] | Some us \<Rightarrow> us) @ v # vs))"
  by (induction ls new rule: group_values.induct) (auto split: option.splits list.splits)

lemma fold_group_values_lookup:
  "fmlookup (fold group_values lss new) k =
     (case map Matcher_Value (filter (\<lambda>m. Matcher_Name m = k) (concat lss)) of
        [] \<Rightarrow> fmlookup new k
      | v # vs \<Rightarrow> Some ((case fmlookup new k of None \<Rightarrow> [] | Some us \<Rightarrow> us) @ v # vs))"
  by (induction lss arbitrary: new) (auto simp: group_values_lookup split: option.splits list.splits)

definition group_part :: "(string \<Rightarrow> string list) \<Rightarrow> string \<Rightarrow> string" where
  "group_part new k =
     k @ ''=~'' @ quote @ strings_Join ''|'' (new k) @ (if k \<noteq> ''__name__'' then ''|'' else '''') @ quote"

lemma group_loop_Cons:
  "group_loop new n res i (k # ks) =
     group_loop new n (res @ group_part new k @ (if Suc i = n then [] else '','')) (Suc i) ks"
  by (simp add: Let_def group_part_def)

lemma group_loop_eq:
  "i + length ks = n \<Longrightarrow> group_loop new n res i ks = res @ strings_Join '','' (map (group_part new) ks)"
proof (induction ks arbitrary: res i)
  case (Cons k ks)
  let ?res = "res @ group_part new k @ (if Suc i = n then [] else '','')"
  have "group_loop new n res i (k # ks) = group_loop new n ?res (Suc i) ks"
    by (rule group_loop_Cons)
  also have "\<dots> = ?res @ strings_Join '','' (map (group_part new) ks)"
    by (rule Cons.IH) (use Cons.prems in simp)
  also have "\<dots> = res @ strings_Join '','' (map (group_part new) (k # ks))"
    using Cons.prems by (cases ks) auto
  finally show ?case .
qed simp

text \<open>The values that the selectors give a label, in the order of the selectors.\<close>

definition values_of :: "Matcher list list \<Rightarrow> string \<Rightarrow> string list" where
  "values_of lss k = map Matcher_Value (filter (\<lambda>m. Matcher_Name m = k) (concat lss))"

lemma fmdom_group: "fset (fmdom (fold group_values lss fmempty)) = set (label_names lss)"
proof -
  have "k |\<in>| fmdom (fold group_values lss fmempty) \<longleftrightarrow> k \<in> set (label_names lss)" for k
  proof -
    have "k |\<in>| fmdom (fold group_values lss fmempty) \<longleftrightarrow> values_of lss k \<noteq> []"
      by (auto simp: fmdom_notI fmlookup_dom_iff fold_group_values_lookup values_of_def split: list.splits)
    also have "\<dots> \<longleftrightarrow> k \<in> set (label_names lss)"
      by (auto simp: values_of_def label_names_def filter_empty_conv)
    finally show ?thesis .
  qed
  then show ?thesis by auto
qed

lemma group_values_of: 
  "(case fmlookup (fold group_values lss fmempty) k of None \<Rightarrow> [] | Some vs \<Rightarrow> vs) = values_of lss k"
  by (simp add: fold_group_values_lookup values_of_def split: list.splits)

section \<open>Properties\<close>

text \<open>C39. the relabelling rule for remote write. Its source labels are the labels that the selectors
  mention, each once; its regular expression has one alternative per selector, in order, and each
  alternative has exactly one field per source label: the selector's last value for that label, or
  nothing. So field and label positions agree, whatever labels the other selectors use.\<close>

theorem LabelSelectorsToRelabelConfig_spec:
  assumes "parseMetricSelectorFromArray parse ms = Ok lss"
  shows "\<exists>rc. LabelSelectorsToRelabelConfig parse ms = Ok rc \<and> Action rc = ''keep'' \<and>
    distinct (SourceLabels rc) \<and> set (SourceLabels rc) = set (label_names lss) \<and>
    Regex rc = ''('' @ strings_Join ''|''
      (map (\<lambda>ls. strings_Join '';'' (map (last_value ls) (SourceLabels rc))) lss) @ '')''"
proof (intro exI conjI)
  show "LabelSelectorsToRelabelConfig parse ms = Ok (relabel_config lss)"
    using assms by (simp add: LabelSelectorsToRelabelConfig_def)
  show "Action (relabel_config lss) = ''keep''"
    by (simp add: relabel_config_def split: prod.splits)
qed (fact relabel_config_eq)+

definition example_parse :: parser where
  "example_parse s =
     (if s = ''a'' then Ok [\<lparr>Matcher_Name = ''__name__'', Matcher_Value = ''up''\<rparr>]
      else if s = ''b'' then Ok [\<lparr>Matcher_Name = ''job'', Matcher_Value = ''etcd''\<rparr>,
                               \<lparr>Matcher_Name = ''__name__'', Matcher_Value = ''down''\<rparr>]
      else Err (ErrorString ''parse error''))"

lemma LabelSelectorsToRelabelConfig_spec_witness:
  "\<exists>rc. LabelSelectorsToRelabelConfig example_parse [''a'', ''b''] = Ok rc \<and>
     SourceLabels rc = [''__name__'', ''job''] \<and> Regex rc = ''(up;|down;etcd)''"
proof -
  let ?lss = "[[\<lparr>Matcher_Name = ''__name__'', Matcher_Value = ''up''\<rparr>],
     [\<lparr>Matcher_Name = ''job'', Matcher_Value = ''etcd''\<rparr>, \<lparr>Matcher_Name = ''__name__'', Matcher_Value = ''down''\<rparr>]]"
  have p: "parseMetricSelectorFromArray example_parse [''a'', ''b''] = Ok ?lss"
    by (simp add: example_parse_def)
  obtain rc where "LabelSelectorsToRelabelConfig example_parse [''a'', ''b''] = Ok rc"
    using LabelSelectorsToRelabelConfig_spec [OF p] by blast
  moreover from this have "rc = relabel_config ?lss"
    using p by (simp add: LabelSelectorsToRelabelConfig_def)
  ultimately show ?thesis by (simp add: relabel_config_def)
qed

text \<open>The generated query, for every order of the labels; a parser that does not panic does not make it panic.\<close>

lemma grouped_selector:
  assumes "parseMetricSelectorFromArray parse ms = Ok lss"
    and order: "\<And>xs. mset (order xs) = mset xs"
  shows "GroupLabelSelectors parse order ms =
    Ok (''{'' @ strings_Join '','' (map (group_part (values_of lss)) (sorted_list_of_set (set (label_names lss)))) @ ''}'')"
proof -
  let ?new = "fold group_values lss fmempty"
  have keys: "sorted_list_of_fset (fmdom ?new) = sorted_list_of_set (set (label_names lss))"
    by (simp add: sorted_list_of_fset.rep_eq fmdom_group)
  have "sort (order (sorted_list_of_fset (fmdom ?new))) = sorted_list_of_fset (fmdom ?new)"
    by (rule properties_for_sort) (simp_all add: order keys)
  moreover have "fcard (fmdom ?new) = length (sorted_list_of_fset (fmdom ?new))"
    by (simp add: keys fcard.rep_eq fmdom_group)
  ultimately show ?thesis
    using assms(1) by (simp add: GroupLabelSelectors_def Let_def group_loop_eq group_values_of keys)
qed

lemma parse_all_returns: "(\<And>m. parse m \<noteq> Panic) \<Longrightarrow> parseMetricSelectorFromArray parse ms \<noteq> Panic"
proof (induction ms)
  case (Cons m ms)
  then show ?case by (cases "parse m"; cases "parseMetricSelectorFromArray parse ms") simp_all
qed simp

text \<open>C40. the grouped selector does not depend on the order in which Go iterates over the map of
  labels. It lists every label that a selector mentions once, in sorted order, each with the
  alternatives the selectors give it in their order; every label but \<open>__name__\<close> also admits the
  empty value.\<close>

theorem GroupLabelSelectors_spec:
  assumes "parseMetricSelectorFromArray parse ms = Ok lss"
    and order: "\<And>xs. mset (order xs) = mset xs"
  shows "GroupLabelSelectors parse order ms =
    Ok (''{'' @ strings_Join '','' (map (group_part (values_of lss)) (sorted_list_of_set (set (label_names lss)))) @ ''}'')"
  using grouped_selector [OF assms] .

lemma GroupLabelSelectors_spec_witness:
  "GroupLabelSelectors example_parse rev [''a'', ''b''] =
     Ok (''{__name__=~'' @ quote @ ''up|down'' @ quote @ '',job=~'' @ quote @ ''etcd|'' @ quote @ ''}'')"
proof -
  let ?lss = "[[\<lparr>Matcher_Name = ''__name__'', Matcher_Value = ''up''\<rparr>],
     [\<lparr>Matcher_Name = ''job'', Matcher_Value = ''etcd''\<rparr>, \<lparr>Matcher_Name = ''__name__'', Matcher_Value = ''down''\<rparr>]]"
  have p: "parseMetricSelectorFromArray example_parse [''a'', ''b''] = Ok ?lss"
    by (simp add: example_parse_def)
  have s: "sorted_list_of_set (set (label_names ?lss)) = [''__name__'', ''job'']"
    by code_simp
  from GroupLabelSelectors_spec [OF p, of rev] s show ?thesis
    by (simp add: group_part_def values_of_def)
qed

end
