(* ===== verification/Images.thy ===== *)
theory Images
  imports Prelude
begin

text \<open>
  Image references (\<open>pkg/manifests/image.go\<close>) and the \<open>--images\<close> flag of the operator's binary
  (\<open>cmd/operator/main.go\<close>): parsing, printing and the round trips between them.
\<close>

section \<open>Image references\<close>

record image =
  repo :: string
  tag :: string

definition InvalidImage :: error where
  "InvalidImage = ErrorString ''image string invalid''"

definition imageFromString :: "string \<Rightarrow> image res" where
  "imageFromString s =
     (let parts = strings_Split CHR '':'' s
      in if length parts < 2 then Err InvalidImage
         else Ok \<lparr>repo = strings_Join '':'' (take (length parts - 1) parts),
                  tag = parts ! (length parts - 1)\<rparr>)"

definition image_String :: "image \<Rightarrow> string" where
  "image_String i = repo i @ '':'' @ tag i"

definition SetTagIfNotEmpty :: "string \<Rightarrow> image \<Rightarrow> image" where
  "SetTagIfNotEmpty t i = (if t \<noteq> '''' then i\<lparr>tag := t\<rparr> else i)"

section \<open>The images flag\<close>

type_synonym images = "(string, string) fmap"

text \<open>
  The loop of \<open>Set\<close>: a malformed pair ends it with an error, and the pairs before it stay in the map.
  The message shows the flag as \<open>%q\<close> prints it if no character has to be escaped.
\<close>

definition malformed_hint :: string where
  "malformed_hint = ''key-value pairs must be in the form of \"key=value\"; multiple pairs must be comma-separated''"

fun images_set_pairs :: "string \<Rightarrow> string list \<Rightarrow> images \<Rightarrow> unit res \<times> images" where
  "images_set_pairs val [] m = (Ok (), m)"
| "images_set_pairs val (pair # pairs) m =
     (case strings_Split CHR ''='' pair of
        [imageName, imageTag] \<Rightarrow> images_set_pairs val pairs (fmupd imageName imageTag m)
      | _ \<Rightarrow> (Err (ErrorString (''pair \"'' @ val @ ''\" is malformed; '' @ malformed_hint)), m))"

definition images_Set :: "string \<Rightarrow> images \<Rightarrow> unit res \<times> images" where
  "images_Set val m = images_set_pairs val (strings_Split CHR '','' val) m"

text \<open>
  \<open>asSlice\<close> ranges over a Go map: \<open>names\<close> is the order in which the runtime yields its keys, any
  enumeration of them without repetition.
\<close>

definition range_of :: "string list \<Rightarrow> images \<Rightarrow> bool" where
  "range_of names i \<longleftrightarrow> distinct names \<and> fset_of_list names = fmdom i"

definition image_tag :: "images \<Rightarrow> string \<Rightarrow> string" where
  "image_tag i name = (case fmlookup i name of None \<Rightarrow> '''' | Some t \<Rightarrow> t)"

definition images_asSlice :: "string list \<Rightarrow> images \<Rightarrow> string list" where
  "images_asSlice names i = map (\<lambda>name. name @ ''='' @ image_tag i name) names"

definition images_String :: "string list \<Rightarrow> images \<Rightarrow> string" where
  "images_String names i = strings_Join '','' (images_asSlice names i)"

text \<open>\<open>asMap\<close> copies the map entry by entry.\<close>

definition images_asMap :: "string list \<Rightarrow> images \<Rightarrow> (string, string) fmap" where
  "images_asMap names i = fold (\<lambda>k res. fmupd k (image_tag i k) res) names fmempty"

section \<open>Lemmas\<close>

lemma strings_Split_snoc:
  "sep \<notin> set t \<Longrightarrow> strings_Split sep (s @ sep # t) = strings_Split sep s @ [t]"
proof (induction s)
  case (Cons c s)
  then show ?case
    by (cases "strings_Split sep s") (auto simp: strings_Split_plain)
qed (simp add: strings_Split_plain)

lemma strings_Split_Join:
  "xs \<noteq> [] \<Longrightarrow> \<forall>x\<in>set xs. sep \<notin> set x \<Longrightarrow> strings_Split sep (strings_Join [sep] xs) = xs"
proof (induction "[sep]" xs rule: strings_Join.induct)
  case (2 s)
  then show ?case by (simp add: strings_Split_plain)
next
  case (3 s t ts)
  then show ?case by (simp add: strings_Split_append)
qed simp

lemma strings_Split_length: "length (strings_Split sep s) < 2 \<longleftrightarrow> sep \<notin> set s"
proof
  assume "sep \<notin> set s"
  then show "length (strings_Split sep s) < 2" by (simp add: strings_Split_plain)
next
  assume short: "length (strings_Split sep s) < 2"
  then obtain x where x: "strings_Split sep s = [x]"
    by (cases "strings_Split sep s") auto
  with strings_Join_Split [of sep s] strings_Split_no_sep [of x sep s] show "sep \<notin> set s"
    by simp
qed

lemma imageFromString_snoc:
  "CHR '':'' \<notin> set t \<Longrightarrow> imageFromString (r @ '':'' @ t) = Ok \<lparr>repo = r, tag = t\<rparr>"
  by (simp add: imageFromString_def strings_Split_snoc strings_Join_Split nth_append Suc_le_eq)

lemma images_set_pairs_ok:
  assumes "\<forall>k\<in>set names. CHR ''='' \<notin> set k \<and> CHR ''='' \<notin> set (image_tag i k)"
  shows "images_set_pairs val (images_asSlice names i) m =
    (Ok (), fold (\<lambda>k res. fmupd k (image_tag i k) res) names m)"
  using assms
  by (induction names arbitrary: m)
     (simp_all add: images_asSlice_def strings_Split_append strings_Split_plain)

lemma fold_fmupd_lookup:
  "fmlookup (fold (\<lambda>k res. fmupd k (f k) res) ks m) k = (if k \<in> set ks then Some (f k) else fmlookup m k)"
  by (induction ks arbitrary: m) auto

lemma images_asMap_eq:
  assumes "range_of names i"
  shows "images_asMap names i = i"
proof (rule fmap_ext)
  fix k
  from assms have "k \<in> set names \<longleftrightarrow> k |\<in>| fmdom i"
    unfolding range_of_def by (metis fset_of_list_elem)
  then show "fmlookup (images_asMap names i) k = fmlookup i k"
    by (cases "fmlookup i k")
       (auto simp: images_asMap_def fold_fmupd_lookup image_tag_def fmlookup_dom_iff)
qed

section \<open>Properties\<close>

text \<open>parsing an image reference and printing it gives the text back; the tag is what follows the
  last colon, so registry ports stay in the repository part; a text without a colon is refused.\<close>

theorem imageFromString_roundtrip:
  "case imageFromString s of
     Ok i \<Rightarrow> image_String i = s \<and> CHR '':'' \<notin> set (tag i)
   | Err e \<Rightarrow> e = InvalidImage \<and> CHR '':'' \<notin> set s
   | Panic \<Rightarrow> False"
proof (cases "CHR '':'' \<in> set s")
  case True
  then obtain r t where s: "s = r @ CHR '':'' # t" and t: "CHR '':'' \<notin> set t"
    by (meson split_list_last)
  then have "imageFromString s = Ok \<lparr>repo = r, tag = t\<rparr>"
    using imageFromString_snoc [OF t, of r] by simp
  with s t show ?thesis by (simp add: image_String_def)
next
  case False
  then show ?thesis by (simp add: imageFromString_def strings_Split_plain)
qed

text \<open>the images flag survives printing and parsing: setting the flag to the text of a non-empty
  map, in whatever order Go ranges over it, restores exactly that map, as long as no name or tag
  contains the separators.\<close>

lemma images_Set_String:
  assumes r: "range_of names i" and ne: "names \<noteq> []"
    and clean: "\<forall>k\<in>set names. \<forall>s\<in>{k, image_tag i k}. CHR '','' \<notin> set s \<and> CHR ''='' \<notin> set s"
  shows "images_Set (images_String names i) fmempty = (Ok (), i)"
proof -
  have "strings_Split CHR '','' (images_String names i) = images_asSlice names i"
    unfolding images_String_def
    by (rule strings_Split_Join) (use ne clean in \<open>auto simp: images_asSlice_def\<close>)
  moreover have "fold (\<lambda>k res. fmupd k (image_tag i k) res) names fmempty = i"
    using images_asMap_eq [OF r] by (simp add: images_asMap_def)
  ultimately show ?thesis
    using clean by (simp add: images_Set_def images_set_pairs_ok)
qed

lemma images_Set_String_witness:
  "images_Set (images_String [''thanos'', ''grafana'']
     (fmap_of_list [(''grafana'', ''quay.io/g:1''), (''thanos'', ''quay.io/t'')])) fmempty =
   (Ok (), fmap_of_list [(''grafana'', ''quay.io/g:1''), (''thanos'', ''quay.io/t'')])"
  by (rule images_Set_String)
     (auto simp: range_of_def image_tag_def fmlookup_of_list)

end
