(* ===== verification/Manifest_Helpers.thy ===== *)
theory Manifest_Helpers
  imports Prelude
begin

text \<open>
  The small helpers of \<open>pkg/manifests\<close>: the map reader that remembers its first error
  (\<open>errmapreader.go\<close>), the cache of asset files (\<open>assets.go\<close>) and the random passwords
  (\<open>password.go\<close>). The JSON decoder, the file system and the random source are parameters.
\<close>

section \<open>The map reader\<close>

record errMapReader =
  src :: "string gomap"
  err :: "error option"

definition newErrMapReader :: "string gomap \<Rightarrow> errMapReader" where
  "newErrMapReader s = \<lparr>src = s, err = None\<rparr>"

definition reader_value :: "string \<Rightarrow> errMapReader \<Rightarrow> string \<times> errMapReader" where
  "reader_value key r =
     (if err r \<noteq> None then ('''', r)
      else case gm_lookup (src r) key of
             None \<Rightarrow> ('''', r\<lparr>err := Some (ErrorString (''key '' @ key @ '' is missing''))\<rparr>)
           | Some result \<Rightarrow> (result, r))"

text \<open>\<open>unmarshal\<close> is \<open>json.Unmarshal\<close> into a list of strings.\<close>

definition reader_slice ::
  "(string \<Rightarrow> string list res) \<Rightarrow> string \<Rightarrow> errMapReader \<Rightarrow> string list \<times> errMapReader" where
  "reader_slice unmarshal key r =
     (if err r \<noteq> None then ([], r)
      else let (v, r) = reader_value key r
           in if err r \<noteq> None then ([], r)
              else if length v = 0 then ([], r)
              else case unmarshal v of
                     Ok ret \<Rightarrow> (ret, r)
                   | Err e \<Rightarrow> ([], r\<lparr>err := Some e\<rparr>)
                   | Panic \<Rightarrow> ([], r))"

definition reader_Error :: "errMapReader \<Rightarrow> error option" where
  "reader_Error r = err r"

text \<open>Reading several keys in a row, as the callers do before they look at the error once.\<close>

fun read_values :: "string list \<Rightarrow> errMapReader \<Rightarrow> string list \<times> errMapReader" where
  "read_values [] r = ([], r)"
| "read_values (k # ks) r =
     (let (v, r) = reader_value k r; (vs, r) = read_values ks r in (v # vs, r))"

lemma src_reader_value [simp]: "src (snd (reader_value k r)) = src r"
  by (auto simp: reader_value_def split: option.splits)

lemma read_values_sticky: "err r \<noteq> None \<Longrightarrow> read_values ks r = (replicate (length ks) '''', r)"
  by (induction ks) (auto simp: reader_value_def)

lemma read_values_found:
  "err r = None \<Longrightarrow> \<forall>k\<in>set ks. gm_has (src r) k \<Longrightarrow>
     read_values ks r = (map (gm_get (src r)) ks, r)"
  by (induction ks) (auto simp: reader_value_def gm_has_def gm_get_def split: option.splits)

lemma read_values_missing:
  assumes "err r = None" and "\<forall>k\<in>set ks. gm_has (src r) k" and "\<not> gm_has (src r) m"
  shows "read_values (ks @ m # ms) r =
    (map (gm_get (src r)) ks @ replicate (Suc (length ms)) '''',
     r\<lparr>err := Some (ErrorString (''key '' @ m @ '' is missing''))\<rparr>)"
  using assms
  by (induction ks)
     (auto simp: reader_value_def gm_has_def gm_get_def read_values_sticky split: option.splits)

section \<open>The asset cache\<close>

record Assets =
  assetsDir :: string
  data :: "(string, string) fmap"

definition NewAssets :: "string \<Rightarrow> Assets" where
  "NewAssets dir = \<lparr>assetsDir = dir, data = fmempty\<rparr>"

text \<open>\<open>filepath.Join\<close> on a clean directory and a clean relative name.\<close>

definition filepath_Join :: "string \<Rightarrow> string \<Rightarrow> string" where
  "filepath_Join dir name =
     (if dir = '''' then name else if name = '''' then dir else dir @ ''/'' @ name)"

text \<open>\<open>ReadFile\<close> is the file system at the time of the call.\<close>

definition GetAsset :: "(string \<Rightarrow> string res) \<Rightarrow> string \<Rightarrow> Assets \<Rightarrow> string res \<times> Assets" where
  "GetAsset ReadFile name a =
     (let filePath = filepath_Join (assetsDir a) name
      in case fmlookup (data a) filePath of
           Some b \<Rightarrow> (Ok b, a)
         | None \<Rightarrow>
             (case ReadFile filePath of
                Ok f \<Rightarrow> (Ok f, a\<lparr>data := fmupd filePath f (data a)\<rparr>)
              | Err e \<Rightarrow> (Err (Wrapped (''failed to read asset '' @ name) e), a)
              | Panic \<Rightarrow> (Panic, a)))"

definition MustNewAssetReader :: "(string \<Rightarrow> string res) \<Rightarrow> string \<Rightarrow> Assets \<Rightarrow> string res \<times> Assets" where
  "MustNewAssetReader ReadFile name a =
     (case GetAsset ReadFile name a of
        (Ok f, a') \<Rightarrow> (Ok f, a')
      | (_, a') \<Rightarrow> (Panic, a'))"

text \<open>A run of the operator: reads of assets, each with the file system as it is at that moment.\<close>

fun get_assets :: "((string \<Rightarrow> string res) \<times> string) list \<Rightarrow> Assets \<Rightarrow> string res list \<times> Assets" where
  "get_assets [] a = ([], a)"
| "get_assets ((fs, name) # rs) a =
     (let (r, a) = GetAsset fs name a; (out, a) = get_assets rs a in (r # out, a))"

lemma GetAsset_dir [simp]: "assetsDir (snd (GetAsset fs n a)) = assetsDir a"
  by (auto simp: GetAsset_def Let_def split: option.splits res.splits)

lemma GetAsset_cached:
  "fmlookup (data a) p = Some b \<Longrightarrow> fmlookup (data (snd (GetAsset fs n a))) p = Some b"
  by (auto simp: GetAsset_def Let_def split: option.splits res.splits)

lemma get_assets_cached:
  "fmlookup (data a) p = Some b \<Longrightarrow>
     fmlookup (data (snd (get_assets rs a))) p = Some b \<and> assetsDir (snd (get_assets rs a)) = assetsDir a"
proof (induction rs arbitrary: a)
  case (Cons r rs)
  obtain fs n where r: "r = (fs, n)" by (cases r)
  obtain x a' where g: "GetAsset fs n a = (x, a')" by (cases "GetAsset fs n a")
  with Cons.prems GetAsset_cached [of a p b fs n] GetAsset_dir [of fs n a]
  have "fmlookup (data a') p = Some b" "assetsDir a' = assetsDir a" by simp_all
  with Cons.IH [of a'] g r show ?case by (simp add: split_def Let_def)
qed simp

section \<open>Passwords\<close>

text \<open>\<open>base64.StdEncoding\<close> on bytes.\<close>

definition base64_alphabet :: string where
  "base64_alphabet = ''ABCDEFGHIJKLMNOPQRSTUVWXYZabcdefghijklmnopqrstuvwxyz0123456789+/''"

definition base64_digit :: "nat \<Rightarrow> char" where
  "base64_digit n = base64_alphabet ! (n mod 64)"

fun base64_EncodeToString :: "string \<Rightarrow> string" where
  "base64_EncodeToString [] = []"
| "base64_EncodeToString [a] =
     (let v = of_char a * 65536
      in [base64_digit (v div 262144), base64_digit (v div 4096), CHR ''='', CHR ''=''])"
| "base64_EncodeToString [a, b] =
     (let v = of_char a * 65536 + of_char b * 256
      in [base64_digit (v div 262144), base64_digit (v div 4096), base64_digit (v div 64), CHR ''=''])"
| "base64_EncodeToString (a # b # c # s) =
     (let v = of_char a * 65536 + of_char b * 256 + of_char c
      in [base64_digit (v div 262144), base64_digit (v div 4096), base64_digit (v div 64), base64_digit v]
         @ base64_EncodeToString s)"

text \<open>\<open>rand_Read n\<close> is what the random source yields for \<open>n\<close> bytes.\<close>

definition GeneratePassword :: "(nat \<Rightarrow> string res) \<Rightarrow> nat \<Rightarrow> string res" where
  "GeneratePassword rand_Read n = r_bind (rand_Read n) (\<lambda>b. Ok (base64_EncodeToString b))"

lemma length_base64: "length (base64_EncodeToString s) = 4 * ((length s + 2) div 3)"
proof (induction s rule: base64_EncodeToString.induct)
  case (4 a b c s)
  have "(length s + 5) div 3 = Suc ((length s + 2) div 3)"
    using div_add_self2 [of 3 "length s + 2"] by simp
  with 4 show ?case by (simp add: Let_def add.commute)
qed (simp_all add: Let_def)

section \<open>Properties\<close>

text \<open>the map reader reports the first key that is missing, whatever is read after it: the values
  before it are the map's, the values from it on are empty, and the error names exactly that key. When
  no key is missing there is no error and every value is the map's.\<close>

theorem errMapReader_first_error:
  "(case dropWhile (gm_has m) keys of
      [] \<Rightarrow> read_values keys (newErrMapReader m) = (map (gm_get m) keys, newErrMapReader m)
    | k # rest \<Rightarrow>
        fst (read_values keys (newErrMapReader m)) =
          map (gm_get m) (takeWhile (gm_has m) keys) @ replicate (Suc (length rest)) '''' \<and>
        reader_Error (snd (read_values keys (newErrMapReader m))) =
          Some (ErrorString (''key '' @ k @ '' is missing'')))"
proof (cases "dropWhile (gm_has m) keys")
  case Nil
  then have "\<forall>k\<in>set keys. gm_has m k" by simp
  then have "read_values keys (newErrMapReader m) = (map (gm_get m) keys, newErrMapReader m)"
    by (simp add: read_values_found newErrMapReader_def)
  then show ?thesis unfolding Nil by (simp del: dropWhile_eq_Nil_conv)
next
  case (Cons k rest)
  let ?ks = "takeWhile (gm_has m) keys"
  have keys: "keys = ?ks @ k # rest" using Cons by (metis takeWhile_dropWhile_id)
  have "\<not> gm_has m k" using Cons by (simp add: dropWhile_eq_Cons_conv)
  moreover have "\<forall>j\<in>set ?ks. gm_has m j" by (auto dest: set_takeWhileD)
  ultimately have "read_values (?ks @ k # rest) (newErrMapReader m) =
      (map (gm_get m) ?ks @ replicate (Suc (length rest)) '''',
       newErrMapReader m\<lparr>err := Some (ErrorString (''key '' @ k @ '' is missing''))\<rparr>)"
    using read_values_missing [of "newErrMapReader m" ?ks k rest] by (simp add: newErrMapReader_def)
  then show ?thesis using Cons keys by (simp add: reader_Error_def)
qed

text \<open>an asset is read from disk at most once. After one successful read of a name, every later
  read of it, after any other reads and with any state of the file system, returns the same bytes and
  leaves the cache as it is.\<close>

lemma GetAsset_memoised:
  assumes "GetAsset fs name a = (Ok b, a1)"
  shows "GetAsset fs' name (snd (get_assets reads a1)) = (Ok b, snd (get_assets reads a1))"
proof -
  let ?p = "filepath_Join (assetsDir a) name"
  from assms have c: "fmlookup (data a1) ?p = Some b" and d: "assetsDir a1 = assetsDir a"
    by (auto simp: GetAsset_def Let_def split: option.splits res.splits)
  from get_assets_cached [OF c, of reads] d show ?thesis
    by (simp add: GetAsset_def)
qed

lemma GetAsset_memoised_witness:
  "GetAsset (\<lambda>_. Err (ErrorString ''gone'')) ''grafana/route.yaml''
     (snd (get_assets [(\<lambda>p. Ok (p @ ''!''), ''alertmanager/route.yaml'')]
        (snd (GetAsset (\<lambda>p. Ok p) ''grafana/route.yaml'' (NewAssets ''/assets''))))) =
   (Ok ''/assets/grafana/route.yaml'',
    snd (get_assets [(\<lambda>p. Ok (p @ ''!''), ''alertmanager/route.yaml'')]
        (snd (GetAsset (\<lambda>p. Ok p) ''grafana/route.yaml'' (NewAssets ''/assets'')))))"
  by (rule GetAsset_memoised [where fs = Ok and a = "NewAssets ''/assets''"])
     (simp add: GetAsset_def NewAssets_def filepath_Join_def Let_def)

end
