(* ===== verification/K8s_Objects.thy ===== *)
theory K8s_Objects
  imports Prelude Promqlgen "HOL-Library.Word"
begin

text \<open>
  The API objects the operator handles, one record per kind. Every kind extends \<open>ObjectMeta\<close>, as the
  Go types embed it. A record has the fields that the operator reads or writes; the rest of a
  document is carried along as text (a field whose name ends in \<open>_rest\<close>) and only ever copied or
  compared. Values that the operator passes through without looking at them (resource requirements,
  tolerations, volume claims) are text as well. A pointer is an \<open>option\<close>.
\<close>

type_synonym ResourceRequirements = string
type_synonym Toleration = string
type_synonym VolumeClaim = string

record ObjectMeta =
  Name :: string
  Namespace :: string
  Labels :: "string gomap"
  Annotations :: "string gomap"
  ResourceVersion :: string
  Generation :: int

section \<open>Core kinds\<close>

record Secret = ObjectMeta +
  Secret_Type :: string
  Data :: "string gomap"
  StringData :: "string gomap"

record ConfigMap = ObjectMeta +
  CM_Data :: "string gomap"

record ServiceSpec =
  Service_Type :: string
  ClusterIP :: string
  Service_rest :: string

record Service = ObjectMeta +
  Service_Spec :: ServiceSpec

record ServiceAccount = ObjectMeta +
  SA_rest :: string

record NamespaceObject = ObjectMeta +
  NS_rest :: string

record Pod = ObjectMeta +
  Pod_rest :: string

section \<open>Access control\<close>

record Subject =
  Subject_Kind :: string
  Subject_Name :: string
  Subject_Namespace :: string

record Role = ObjectMeta +
  Role_Rules :: string

record ClusterRole = ObjectMeta +
  ClusterRole_Rules :: string

record RoleBinding = ObjectMeta +
  RoleRef :: string
  Subjects :: "Subject list"

record ClusterRoleBinding = ObjectMeta +
  CRB_RoleRef :: string
  CRB_Subjects :: "Subject list"

record SecurityContextConstraints = ObjectMeta +
  SCC_rest :: string

record ValidatingWebhookConfiguration = ObjectMeta +
  Webhook_rest :: string

record APIService = ObjectMeta +
  CABundle :: string
  APIService_rest :: string

section \<open>Workloads\<close>

record EnvVar =
  Env_Name :: string
  Env_Value :: string

record VolumeMount =
  Mount_Name :: string
  ReadOnly :: bool
  MountPath :: string

record KeyToPath =
  Key :: string
  Path :: string

record ConfigMapVolumeSource =
  CMV_Name :: string
  CMV_Items :: "KeyToPath list"
  CMV_Optional :: "bool option"

datatype VolumeSource =
    SecretVolume string
  | ConfigMapVolume ConfigMapVolumeSource
  | OtherVolume string

record Volume =
  Volume_Name :: string
  Volume_Source :: VolumeSource

record Container =
  Container_Name :: string
  Image :: string
  Args :: "string list"
  Command :: "string list"
  Env :: "EnvVar list"
  VolumeMounts :: "VolumeMount list"
  Container_Resources :: ResourceRequirements
  Container_rest :: string

record PodSpec =
  Containers :: "Container list"
  InitContainers :: "Container list"
  Volumes :: "Volume list"
  NodeSelector :: "string gomap"
  Tolerations :: "Toleration list"
  PodSpec_rest :: string

record DeploymentSpec =
  Template_Spec :: PodSpec
  DeploymentSpec_rest :: string

record DeploymentStatus =
  ObservedGeneration :: int
  Replicas :: int
  UpdatedReplicas :: int
  UnavailableReplicas :: int

record Deployment = ObjectMeta +
  Deployment_Spec :: DeploymentSpec
  Deployment_Status :: DeploymentStatus

record DaemonSetStatus =
  DS_ObservedGeneration :: int
  UpdatedNumberScheduled :: int
  DesiredNumberScheduled :: int
  NumberUnavailable :: int

record DaemonSet = ObjectMeta +
  DS_Template_Spec :: PodSpec
  DS_rest :: string
  DaemonSet_Status :: DaemonSetStatus

record StatefulSetStatus =
  STS_ObservedGeneration :: int
  STS_Replicas :: int
  STS_UpdatedReplicas :: int
  ReadyReplicas :: int

record StatefulSet = ObjectMeta +
  StatefulSet_Status :: StatefulSetStatus

section \<open>Routes\<close>

record RouteCondition =
  RC_Type :: string
  RC_Status :: string

record Route = ObjectMeta +
  Host :: string
  Route_Path :: string
  TLS_Termination :: "string option"
  Ingress :: "RouteCondition list list"

section \<open>Monitoring kinds\<close>

record QueueConfig =
  Capacity :: int
  MaxSamplesPerSend :: int
  BatchSendDeadline :: string
  MinBackoff :: string
  MaxBackoff :: string

record RemoteWriteSpec =
  RW_URL :: string
  BearerToken :: string
  RW_QueueConfig :: "QueueConfig option"
  WriteRelabelConfigs :: "RelabelConfig list"
  ProxyURL :: string
  RW_rest :: string

record AlertmanagerEndpoints =
  AE_Namespace :: string
  AE_ServerName :: "string option"
  AE_rest :: string

record PrometheusSpec =
  LogLevel :: string
  Retention :: string
  Prom_Image :: "string option"
  ExternalURL :: string
  Prom_Resources :: ResourceRequirements
  Prom_NodeSelector :: "string gomap"
  Prom_Tolerations :: "Toleration list"
  ExternalLabels :: "string gomap"
  Storage :: "VolumeClaim option"
  RemoteWrite :: "RemoteWriteSpec list"
  Prom_Secrets :: "string list"
  Thanos_Image :: "string option option"
  Alerting :: "AlertmanagerEndpoints list option"
  Prom_Containers :: "Container list"
  Prom_Volumes :: "Volume list"
  Prom_Replicas :: "int option"
  EnforcedSampleLimit :: "64 word option"
  PrometheusSpec_rest :: string

record Prometheus = ObjectMeta +
  Prometheus_Spec :: PrometheusSpec

record AlertmanagerSpec =
  AM_Image :: "string option"
  AM_ExternalURL :: string
  AM_Resources :: ResourceRequirements
  AM_Storage :: "VolumeClaim option"
  AM_NodeSelector :: "string gomap"
  AM_Tolerations :: "Toleration list"
  AM_Containers :: "Container list"
  AM_VolumeMounts :: "VolumeMount list"
  AM_Volumes :: "Volume list"
  AM_Replicas :: "int option"
  AlertmanagerSpec_rest :: string

record Alertmanager = ObjectMeta +
  Alertmanager_Spec :: AlertmanagerSpec

record ThanosRulerSpec =
  TR_Image :: string
  TR_LogLevel :: string
  TR_Resources :: ResourceRequirements
  TR_Storage :: "VolumeClaim option"
  TR_NodeSelector :: "string gomap"
  TR_Tolerations :: "Toleration list"
  TR_Containers :: "Container list"
  TR_Volumes :: "Volume list"
  AlertQueryURL :: string
  TR_Replicas :: "int option"
  ThanosRulerSpec_rest :: string

record ThanosRuler = ObjectMeta +
  ThanosRuler_Spec :: ThanosRulerSpec

record Rule =
  Record :: string
  Expr :: string
  Rule_rest :: string

record RuleGroup =
  Group_Name :: string
  Rules :: "Rule list"

record PrometheusRule = ObjectMeta +
  Groups :: "RuleGroup list"

record Endpoint =
  Port :: string
  TLSConfig_ServerName :: "string option"
  Endpoint_rest :: string

record ServiceMonitor = ObjectMeta +
  Endpoints :: "Endpoint list"
  ServiceMonitor_rest :: string

text \<open>The part of a workload's status that the prometheus-operator library reports.\<close>

record ReplicaStatus =
  RS_UpdatedReplicas :: int
  RS_AvailableReplicas :: int

section \<open>Cluster configuration kinds\<close>

record CRDCondition =
  CRDC_Type :: string
  CRDC_Status :: string
  CRDC_Reason :: string

record CustomResourceDefinition = ObjectMeta +
  CRD_Conditions :: "CRDCondition list"

record ClusterVersion = ObjectMeta +
  Spec_ClusterID :: string

record Proxy = ObjectMeta +
  Status_HTTPProxy :: string
  Status_HTTPSProxy :: string
  Status_NoProxy :: string

record Infrastructure = ObjectMeta +
  Status_Platform :: string

datatype ConditionStatus = ConditionTrue | ConditionFalse | ConditionUnknown

record ClusterOperatorStatusCondition =
  Cond_Type :: string
  Cond_Status :: ConditionStatus
  LastTransitionTime :: int
  Reason :: string
  Message :: string

record OperandVersion =
  OV_Name :: string
  OV_Version :: string

record ObjectReference =
  Ref_Group :: string
  Ref_Resource :: string
  Ref_Name :: string

record ClusterOperatorStatus =
  Conditions :: "ClusterOperatorStatusCondition list"
  Versions :: "OperandVersion list"
  RelatedObjects :: "ObjectReference list"

record ClusterOperator = ObjectMeta +
  Status :: ClusterOperatorStatus

end
