(* ===== verification/Api_Server.thy ===== *)
theory Api_Server
  imports K8s_Objects "HOL-Library.Product_Lexorder"
begin

text \<open>
  The API server as the operator's client packages see it: a \<open>resource\<close> is a typed client of one
  kind (get, list, create, update, delete), the locales \<open>api_reader\<close> and \<open>api_resource\<close> state what
  its calls promise, and the tracker at the end is the model of the object tracker of the vendored
  client library (\<open>k8s.io/client-go/testing/fixture.go\<close>) that keeps these promises.
\<close>

section \<open>Label selectors\<close>

text \<open>
  Selectors in the equality-based syntax that the operator writes: requirements separated by
  commas, each \<open>key=value\<close>, \<open>key==value\<close> or \<open>key!=value\<close>. As in the vendored labels package
  (\<open>Requirement.Matches\<close>), \<open>!=\<close> also selects an object that has no such label.
\<close>

datatype Requirement = Equals string string | NotEquals string string | Exists string

definition parse_requirement :: "string \<Rightarrow> Requirement" where
  "parse_requirement s = (
     let key = takeWhile (\<lambda>c. c \<noteq> CHR ''='' \<and> c \<noteq> CHR ''!'') s;
         op_value = dropWhile (\<lambda>c. c \<noteq> CHR ''='' \<and> c \<noteq> CHR ''!'') s
     in if strings_HasPrefix op_value ''!='' then NotEquals key (drop 2 op_value)
        else if strings_HasPrefix op_value ''=='' then Equals key (drop 2 op_value)
        else if strings_HasPrefix op_value ''='' then Equals key (drop 1 op_value)
        else Exists key)"

fun Requirement_Matches :: "Requirement \<Rightarrow> string gomap \<Rightarrow> bool" where
  "Requirement_Matches (Equals k v) ls \<longleftrightarrow> gm_lookup ls k = Some v"
| "Requirement_Matches (NotEquals k v) ls \<longleftrightarrow> gm_lookup ls k \<noteq> Some v"
| "Requirement_Matches (Exists k) ls \<longleftrightarrow> gm_has ls k"

definition selector_matches :: "string \<Rightarrow> string gomap \<Rightarrow> bool" where
  "selector_matches sel ls \<longleftrightarrow> (sel = '''' \<or>
     list_all (\<lambda>s. Requirement_Matches (parse_requirement s) ls) (strings_Split CHR '','' sel))"

definition selector_safe :: "string \<Rightarrow> bool" where
  "selector_safe s \<longleftrightarrow> list_all (\<lambda>c. c \<noteq> CHR '','' \<and> c \<noteq> CHR ''='' \<and> c \<noteq> CHR ''!'') s"

lemma selector_safe_chars:
  "selector_safe s \<Longrightarrow> CHR '','' \<notin> set s"
  "selector_safe s \<Longrightarrow> c \<in> set s \<Longrightarrow> c \<noteq> CHR ''='' \<and> c \<noteq> CHR ''!''"
  by (auto simp: selector_safe_def list_all_iff)

lemma takeWhile_key:
  "selector_safe k \<Longrightarrow> c = CHR ''='' \<or> c = CHR ''!'' \<Longrightarrow>
     takeWhile (\<lambda>c. c \<noteq> CHR ''='' \<and> c \<noteq> CHR ''!'') (k @ c # v) = k \<and>
     dropWhile (\<lambda>c. c \<noteq> CHR ''='' \<and> c \<noteq> CHR ''!'') (k @ c # v) = c # v"
  by (induction k) (auto simp: selector_safe_def)

lemma parse_requirement_eq:
  "selector_safe k \<Longrightarrow> selector_safe v \<Longrightarrow>
     parse_requirement (k @ CHR ''='' # v) = Equals k v"
  by (cases v) (auto simp: parse_requirement_def takeWhile_key Let_def selector_safe_def)

lemma parse_requirement_neq:
  "selector_safe k \<Longrightarrow> parse_requirement (k @ CHR ''!'' # CHR ''='' # v) = NotEquals k v"
  by (simp add: parse_requirement_def takeWhile_key Let_def)

lemma selector_two:
  assumes "selector_safe k1" "selector_safe v1" "selector_safe k2" "selector_safe v2"
  shows "selector_matches (k1 @ ''='' @ v1 @ '','' @ k2 @ ''!='' @ v2) ls \<longleftrightarrow>
    gm_lookup ls k1 = Some v1 \<and> gm_lookup ls k2 \<noteq> Some v2"
proof -
  have "CHR '','' \<notin> set (k1 @ CHR ''='' # v1)" "CHR '','' \<notin> set (k2 @ CHR ''!'' # CHR ''='' # v2)"
    using assms by (auto dest: selector_safe_chars)
  then have "strings_Split CHR '','' ((k1 @ CHR ''='' # v1) @ CHR '','' # k2 @ CHR ''!'' # CHR ''='' # v2) =
    [k1 @ CHR ''='' # v1, k2 @ CHR ''!'' # CHR ''='' # v2]"
    by (simp only: strings_Split_append strings_Split_plain not_False_eq_True)
  with assms show ?thesis
    by (simp add: selector_matches_def parse_requirement_eq parse_requirement_neq)
qed

section \<open>Typed clients and what they promise\<close>

datatype DeleteOptions = DeleteDefault | DeletePropagationForeground | OrphanDependents bool

record ('w, 'o) resource =
  r_Get :: "string \<Rightarrow> string \<Rightarrow> ('w, 'o) prog"
  r_List :: "string \<Rightarrow> string \<Rightarrow> ('w, 'o list) prog"
  r_Create :: "string \<Rightarrow> 'o \<Rightarrow> ('w, 'o) prog"
  r_Update :: "string \<Rightarrow> 'o \<Rightarrow> ('w, 'o) prog"
  r_UpdateStatus :: "string \<Rightarrow> 'o \<Rightarrow> ('w, 'o) prog"
  r_Delete :: "string \<Rightarrow> string \<Rightarrow> DeleteOptions \<Rightarrow> ('w, unit) prog"

text \<open>
  \<open>view w\<close> is the collection of stored objects of this kind, by namespace and name (cluster-scoped
  kinds use the empty namespace). Reading does not change it and reports what is there; a read may
  always fail, but it reports \<open>NotFound\<close> only for an object that is absent.
\<close>

locale api_reader =
  fixes R :: "('w, 'z ObjectMeta_scheme) resource"
    and view :: "'w \<Rightarrow> string \<times> string \<Rightarrow> 'z ObjectMeta_scheme option"
  assumes get_ok: "r_Get R ns n w = (Ok x, w') \<Longrightarrow> view w' = view w \<and> view w (ns, n) = Some x"
    and get_err: "r_Get R ns n w = (Err e, w') \<Longrightarrow>
      view w' = view w \<and> (IsNotFound e \<longrightarrow> view w (ns, n) = None)"
    and list_ok: "r_List R ns sel w = (Ok xs, w') \<Longrightarrow> view w' = view w \<and>
      set xs = {x. \<exists>m n. (ns = '''' \<or> m = ns) \<and> view w (m, n) = Some x \<and> selector_matches sel (Labels x)}"
    and list_err: "r_List R ns sel w = (Err e, w') \<Longrightarrow> view w' = view w"
    and reads_return: "fst (r_Get R ns n w) \<noteq> Panic" "fst (r_List R ns sel w) \<noteq> Panic"

text \<open>
  A successful write stores an object that \<open>accepts\<close> relates to the submitted one (the server may
  fill in fields, but keeps the name, a given namespace, labels and annotations); a failed write
  stores nothing.
\<close>

locale api_resource = api_reader +
  fixes accepts :: "'z ObjectMeta_scheme \<Rightarrow> 'z ObjectMeta_scheme \<Rightarrow> bool"
  assumes create_ok: "r_Create R ns x w = (Ok y, w') \<Longrightarrow>
      view w (ns, Name x) = None \<and> view w' = (view w)((ns, Name x) \<mapsto> y) \<and> accepts x y"
    and create_err: "r_Create R ns x w = (Err e, w') \<Longrightarrow> view w' = view w"
    and update_ok: "r_Update R ns x w = (Ok y, w') \<Longrightarrow>
      view w (ns, Name x) \<noteq> None \<and> view w' = (view w)((ns, Name x) \<mapsto> y) \<and> accepts x y"
    and update_err: "r_Update R ns x w = (Err e, w') \<Longrightarrow> view w' = view w"
    and update_status_ok: "r_UpdateStatus R ns x w = (Ok y, w') \<Longrightarrow>
      view w (ns, Name x) \<noteq> None \<and> view w' = (view w)((ns, Name x) \<mapsto> y) \<and> accepts x y"
    and update_status_err: "r_UpdateStatus R ns x w = (Err e, w') \<Longrightarrow> view w' = view w"
    and delete_ok: "r_Delete R ns n opts w = (Ok u, w') \<Longrightarrow>
      view w (ns, n) \<noteq> None \<and> view w' = (view w)((ns, n) := None)"
    and delete_err: "r_Delete R ns n opts w = (Err e, w') \<Longrightarrow>
      view w' = view w \<and> (IsNotFound e \<longrightarrow> view w (ns, n) = None)"
    and accepts_meta: "accepts x y \<Longrightarrow>
      Name y = Name x \<and> Labels y = Labels x \<and> Annotations y = Annotations x \<and>
      (Namespace x \<noteq> '''' \<longrightarrow> Namespace y = Namespace x)"
    and writes_return: "fst (r_Create R ns x w) \<noteq> Panic" "fst (r_Update R ns x w) \<noteq> Panic"
      "fst (r_UpdateStatus R ns x w) \<noteq> Panic" "fst (r_Delete R ns n opts w) \<noteq> Panic"

context api_reader begin

lemma get_cases:
  obtains (found) x w' where "r_Get R ns n w = (Ok x, w')" "view w' = view w" "view w (ns, n) = Some x"
  | (missing) e w' where "r_Get R ns n w = (Err e, w')" "IsNotFound e" "view w' = view w" "view w (ns, n) = None"
  | (failed) e w' where "r_Get R ns n w = (Err e, w')" "\<not> IsNotFound e" "view w' = view w"
proof -
  obtain r w' where g: "r_Get R ns n w = (r, w')" by (cases "r_Get R ns n w")
  have "r \<noteq> Panic" using reads_return(1) [of ns n w] g by simp
  then show ?thesis
    using g get_ok [of ns n w _ w'] get_err [of ns n w _ w'] that by (cases r) metis+
qed

lemma get_keeps: "keeps view (r_Get R ns n)"
proof (rule keepsI)
  fix w r w' assume "r_Get R ns n w = (r, w')"
  then show "view w' = view w" by (cases rule: get_cases [of ns n w]) auto
qed

end

section \<open>The object tracker\<close>

text \<open>
  The tracker keeps the objects of each kind in a map from namespace and name. \<open>kind_store\<close> is
  access to the map of one kind inside the tracker's state. Reactors that a test puts before the
  tracker make single calls fail: each call consumes the head of the list \<open>faults\<close> of the state.
\<close>

datatype fault = Conflict | Invalid | Unavailable

fun fault_error :: "fault \<Rightarrow> error" where
  "fault_error Conflict = StatusError 409 ''Conflict''"
| "fault_error Invalid = StatusError 422 ''Invalid''"
| "fault_error Unavailable = StatusError 503 ''ServiceUnavailable''"

type_synonym 'o store = "(string \<times> string, 'o) fmap"

record ('w, 'o) kind_store =
  ks_get :: "'w \<Rightarrow> 'o store"
  ks_put :: "'o store \<Rightarrow> 'w \<Rightarrow> 'w"
  ks_faults :: "'w \<Rightarrow> fault option list"
  ks_pop :: "'w \<Rightarrow> 'w"

definition react :: "('w, 'o) kind_store \<Rightarrow> ('w, 'a) prog \<Rightarrow> ('w, 'a) prog" where
  "react K m w = (case ks_faults K w of
      Some f # _ \<Rightarrow> (Err (fault_error f), ks_pop K w)
    | _ \<Rightarrow> m (ks_pop K w))"

definition tracker_Get :: "('w, 'o) kind_store \<Rightarrow> string \<Rightarrow> string \<Rightarrow> ('w, 'o) prog" where
  "tracker_Get K ns n = (\<lambda>w. case fmlookup (ks_get K w) (ns, n) of
      None \<Rightarrow> (Err NotFound, w)
    | Some x \<Rightarrow> (Ok x, w))"

definition tracker_List :: "('w, 'z ObjectMeta_scheme) kind_store \<Rightarrow> string \<Rightarrow> string \<Rightarrow>
    ('w, 'z ObjectMeta_scheme list) prog" where
  "tracker_List K ns sel = (\<lambda>w.
     (Ok (filter (\<lambda>x. selector_matches sel (Labels x))
           (map (\<lambda>k. the (fmlookup (ks_get K w) k))
             (filter (\<lambda>(m, n). ns = '''' \<or> m = ns) (sorted_list_of_fset (fmdom (ks_get K w)))))), w))"

text \<open>\<open>tracker.add\<close>: \<open>replaceExisting\<close> distinguishes an update from a creation.\<close>

definition tracker_add :: "('w, 'z ObjectMeta_scheme) kind_store \<Rightarrow> bool \<Rightarrow> string \<Rightarrow>
    'z ObjectMeta_scheme \<Rightarrow> ('w, 'z ObjectMeta_scheme) prog" where
  "tracker_add K replaceExisting ns x = (\<lambda>w.
     let y = (if Namespace x = '''' then x\<lparr>Namespace := ns\<rparr> else x);
         key = (ns, Name y);
         stored = (Ok y, ks_put K (fmupd key y (ks_get K w)) w)
     in if Namespace y \<noteq> ns then (Err (StatusError 400 ''BadRequest''), w)
        else if key |\<in>| fmdom (ks_get K w)
        then (if replaceExisting then stored else (Err AlreadyExists, w))
        else (if replaceExisting then (Err NotFound, w) else stored))"

definition tracker_Delete :: "('w, 'o) kind_store \<Rightarrow> string \<Rightarrow> string \<Rightarrow> ('w, unit) prog" where
  "tracker_Delete K ns n = (\<lambda>w.
     if (ns, n) |\<in>| fmdom (ks_get K w)
     then (Ok (), ks_put K (fmdrop (ns, n) (ks_get K w)) w)
     else (Err NotFound, w))"

definition tracker_resource :: "('w, 'z ObjectMeta_scheme) kind_store \<Rightarrow>
    ('w, 'z ObjectMeta_scheme) resource" where
  "tracker_resource K = \<lparr>
     r_Get = (\<lambda>ns n. react K (tracker_Get K ns n)),
     r_List = (\<lambda>ns sel. react K (tracker_List K ns sel)),
     r_Create = (\<lambda>ns x. react K (tracker_add K False ns x)),
     r_Update = (\<lambda>ns x. react K (tracker_add K True ns x)),
     r_UpdateStatus = (\<lambda>ns x. react K (tracker_add K True ns x)),
     r_Delete = (\<lambda>ns n opts. react K (tracker_Delete K ns n))\<rparr>"

definition tracker_view :: "('w, 'o) kind_store \<Rightarrow> 'w \<Rightarrow> string \<times> string \<Rightarrow> 'o option" where
  "tracker_view K w = fmlookup (ks_get K w)"

definition tracker_accepts :: "'z ObjectMeta_scheme \<Rightarrow> 'z ObjectMeta_scheme \<Rightarrow> bool" where
  "tracker_accepts x y \<longleftrightarrow> (\<exists>ns. y = (if Namespace x = '''' then x\<lparr>Namespace := ns\<rparr> else x))"

definition lawful_store :: "('w, 'o) kind_store \<Rightarrow> bool" where
  "lawful_store K \<longleftrightarrow> (\<forall>w m. ks_get K (ks_put K m w) = m) \<and> (\<forall>w. ks_get K (ks_pop K w) = ks_get K w)"

lemma react_cases:
  "react K m w = (r, w') \<Longrightarrow>
     (\<exists>f. r = Err (fault_error f) \<and> w' = ks_pop K w) \<or> m (ks_pop K w) = (r, w')"
  by (auto simp: react_def split: list.splits option.splits)

lemma fault_error_not_NotFound [simp]: "\<not> IsNotFound (fault_error f)"
  by (cases f) auto

lemma tracker_List_set:
  "fst (tracker_List K ns sel w) = Ok xs \<Longrightarrow>
   set xs = {x. \<exists>m n. (ns = '''' \<or> m = ns) \<and> fmlookup (ks_get K w) (m, n) = Some x \<and> selector_matches sel (Labels x)}"
  by (auto simp: tracker_List_def fmlookup_dom_iff fmdomI image_iff)
    (metis fmdomI option.sel prod.case)+

lemma api_reader_tracker:
  assumes "lawful_store K"
  shows "api_reader (tracker_resource K) (tracker_view K)"
proof
  fix ns n w x w'
  assume "r_Get (tracker_resource K) ns n w = (Ok x, w')"
  then show "tracker_view K w' = tracker_view K w \<and> tracker_view K w (ns, n) = Some x"
    using assms by (auto simp: tracker_resource_def tracker_view_def tracker_Get_def lawful_store_def
        dest!: react_cases split: option.splits)
next
  fix ns n w e w'
  assume "r_Get (tracker_resource K) ns n w = (Err e, w')"
  then show "tracker_view K w' = tracker_view K w \<and> (IsNotFound e \<longrightarrow> tracker_view K w (ns, n) = None)"
    using assms by (auto simp: tracker_resource_def tracker_view_def tracker_Get_def lawful_store_def
        dest!: react_cases split: option.splits)
next
  fix ns sel w xs w'
  assume "r_List (tracker_resource K) ns sel w = (Ok xs, w')"
  then have l: "tracker_List K ns sel (ks_pop K w) = (Ok xs, w')"
    by (auto simp: tracker_resource_def dest!: react_cases)
  have v: "ks_get K (ks_pop K w) = ks_get K w" using assms by (simp add: lawful_store_def)
  have "w' = ks_pop K w" using l by (simp add: tracker_List_def)
  with l v tracker_List_set [of K ns sel "ks_pop K w" xs]
  show "tracker_view K w' = tracker_view K w \<and> set xs = {x. \<exists>m n. (ns = '''' \<or> m = ns) \<and>
      tracker_view K w (m, n) = Some x \<and> selector_matches sel (Labels x)}"
    by (simp add: tracker_view_def)
next
  fix ns sel w e w'
  assume "r_List (tracker_resource K) ns sel w = (Err e, w')"
  then show "tracker_view K w' = tracker_view K w"
    using assms by (auto simp: tracker_resource_def tracker_view_def tracker_List_def lawful_store_def
        dest!: react_cases)
next
  fix ns n sel w
  show "fst (r_Get (tracker_resource K) ns n w) \<noteq> Panic"
    by (auto simp: tracker_resource_def react_def tracker_Get_def split: list.splits option.splits)
  show "fst (r_List (tracker_resource K) ns sel w) \<noteq> Panic"
    by (auto simp: tracker_resource_def react_def tracker_List_def split: list.splits option.splits)
qed

lemma tracker_add_Ok:
  assumes "lawful_store K" "tracker_add K b ns x w = (Ok y, w')"
  shows "tracker_view K w (ns, Name x) = None \<longleftrightarrow> \<not> b"
    and "tracker_view K w' = (tracker_view K w)((ns, Name x) \<mapsto> y)"
    and "tracker_accepts x y"
  using assms
  by (auto simp: tracker_add_def tracker_view_def lawful_store_def tracker_accepts_def Let_def
      fmlookup_dom_iff split: if_splits)

lemma tracker_add_Err: "tracker_add K b ns x w = (Err e, w') \<Longrightarrow> w' = w"
  by (auto simp: tracker_add_def Let_def split: if_splits)

lemma tracker_add_returns: "fst (tracker_add K b ns x w) \<noteq> Panic"
  by (auto simp: tracker_add_def Let_def)

lemma tracker_Delete_Ok:
  assumes "lawful_store K" "tracker_Delete K ns n w = (Ok u, w')"
  shows "tracker_view K w (ns, n) \<noteq> None"
    and "tracker_view K w' = (tracker_view K w)((ns, n) := None)"
  using assms
  by (auto simp: tracker_Delete_def tracker_view_def lawful_store_def fmlookup_dom_iff split: if_splits)

lemma tracker_Delete_Err:
  "tracker_Delete K ns n w = (Err e, w') \<Longrightarrow> w' = w \<and> tracker_view K w (ns, n) = None"
  by (auto simp: tracker_Delete_def tracker_view_def fmdom_notD split: if_splits)

lemma tracker_view_pop: "lawful_store K \<Longrightarrow> tracker_view K (ks_pop K w) = tracker_view K w"
  by (simp add: tracker_view_def lawful_store_def)

lemma react_Ok: "react K m w = (Ok y, w') \<Longrightarrow> m (ks_pop K w) = (Ok y, w')"
  by (auto dest: react_cases)

lemma react_Err_view:
  assumes "lawful_store K" "react K m w = (Err e, w')"
    and "\<And>w w'. m w = (Err e, w') \<Longrightarrow> w' = w"
  shows "tracker_view K w' = tracker_view K w"
  using react_cases [OF assms(2)] assms(3) tracker_view_pop [OF assms(1)] by (metis prod.inject)

lemma react_returns: "(\<And>w. fst (m w) \<noteq> Panic) \<Longrightarrow> fst (react K m w) \<noteq> Panic"
  by (auto simp: react_def split: list.splits option.splits)

lemma api_resource_tracker:
  assumes K: "lawful_store K"
  shows "api_resource (tracker_resource K) (tracker_view K) tracker_accepts"
proof (rule api_resource.intro [OF api_reader_tracker [OF K]], unfold_locales)
  note calls = tracker_resource_def
  note view_pop = tracker_view_pop [OF K]
  show "tracker_view K w (ns, Name x) = None \<and>
      tracker_view K w' = (tracker_view K w)((ns, Name x) \<mapsto> y) \<and> tracker_accepts x y"
    if "r_Create (tracker_resource K) ns x w = (Ok y, w')" for ns x w y w'
    using that tracker_add_Ok [OF K, of False ns x "ks_pop K w" y w'] view_pop
    by (simp add: calls react_Ok)
  show update: "tracker_view K w (ns, Name x) \<noteq> None \<and>
      tracker_view K w' = (tracker_view K w)((ns, Name x) \<mapsto> y) \<and> tracker_accepts x y"
    if "r_Update (tracker_resource K) ns x w = (Ok y, w')" for ns x w y w'
    using that tracker_add_Ok [OF K, of True ns x "ks_pop K w" y w'] view_pop
    by (simp add: calls react_Ok)
  show "tracker_view K w (ns, Name x) \<noteq> None \<and>
      tracker_view K w' = (tracker_view K w)((ns, Name x) \<mapsto> y) \<and> tracker_accepts x y"
    if "r_UpdateStatus (tracker_resource K) ns x w = (Ok y, w')" for ns x w y w'
    using that update by (simp add: calls)
  show "tracker_view K w' = tracker_view K w"
    if "r_Create (tracker_resource K) ns x w = (Err e, w')" for ns x w e w'
    using that by (auto simp: calls intro: react_Err_view [OF K] dest: tracker_add_Err)
  show "tracker_view K w' = tracker_view K w"
    if "r_Update (tracker_resource K) ns x w = (Err e, w')" for ns x w e w'
    using that by (auto simp: calls intro: react_Err_view [OF K] dest: tracker_add_Err)
  show "tracker_view K w' = tracker_view K w"
    if "r_UpdateStatus (tracker_resource K) ns x w = (Err e, w')" for ns x w e w'
    using that by (auto simp: calls intro: react_Err_view [OF K] dest: tracker_add_Err)
  show "tracker_view K w (ns, n) \<noteq> None \<and> tracker_view K w' = (tracker_view K w)((ns, n) := None)"
    if "r_Delete (tracker_resource K) ns n opts w = (Ok u, w')" for ns n opts w u w'
    using that tracker_Delete_Ok [OF K, of ns n "ks_pop K w" u w'] view_pop
    by (simp add: calls react_Ok)
  show "tracker_view K w' = tracker_view K w \<and> (IsNotFound e \<longrightarrow> tracker_view K w (ns, n) = None)"
    if "r_Delete (tracker_resource K) ns n opts w = (Err e, w')" for ns n opts w e w'
    using that view_pop by (auto simp: calls dest!: react_cases tracker_Delete_Err)
  show "Name y = Name x \<and> Labels y = Labels x \<and> Annotations y = Annotations x \<and>
      (Namespace x \<noteq> '''' \<longrightarrow> Namespace y = Namespace x)"
    if "tracker_accepts x y" for x y
    using that by (auto simp: tracker_accepts_def)
  show "fst (r_Create (tracker_resource K) ns x w) \<noteq> Panic"
    "fst (r_Update (tracker_resource K) ns x w) \<noteq> Panic"
    "fst (r_UpdateStatus (tracker_resource K) ns x w) \<noteq> Panic" for ns x w
    by (auto simp: calls intro!: react_returns tracker_add_returns)
  show "fst (r_Delete (tracker_resource K) ns n opts w) \<noteq> Panic" for ns n opts w
    by (auto simp: calls tracker_Delete_def intro!: react_returns split: if_splits)
qed

end
