(* ===== verification/Wait_Poll.thy ===== *)
theory Wait_Poll
  imports Api_Server
begin

text \<open>
  The polling loop of the vendored wait package (\<open>k8s.io/apimachinery/pkg/util/wait\<close>) and the idiom
  the client builds on it: a condition that remembers its last complaint in a variable \<open>lastErr\<close>
  of the enclosing function, which replaces the time-out error when the poll gives up.
\<close>

section \<open>The polling loop\<close>

text \<open>
  \<open>next_tick\<close> is the wait on the poller's channel: it lets the rest of the cluster act on the world
  and says whether a tick was delivered (\<open>open\<close>) or the channel was closed by the time-out. The
  poller delivers at most \<open>timeout / interval\<close> ticks, which is the fuel of the loop; after the last
  one the channel is closed, and the condition is evaluated one final time.
\<close>

type_synonym 'w poller = "'w \<Rightarrow> bool \<times> 'w"

fun WaitFor :: "nat \<Rightarrow> 'w poller \<Rightarrow> ('w, bool) prog \<Rightarrow> ('w, unit) prog" where
  "WaitFor ticks next_tick cond w = (
     let (tick, w1) = next_tick w; open = (tick \<and> ticks > 0) in
     case cond w1 of
       (Ok ok, w2) \<Rightarrow>
         if ok then (Ok (), w2)
         else if \<not> open then (Err ErrWaitTimeout, w2)
         else WaitFor (ticks - 1) next_tick cond w2
     | (Err e, w2) \<Rightarrow> (Err e, w2)
     | (Panic, w2) \<Rightarrow> (Panic, w2))"

declare WaitFor.simps [simp del]

definition Poll :: "nat \<Rightarrow> nat \<Rightarrow> 'w poller \<Rightarrow> ('w, bool) prog \<Rightarrow> ('w, unit) prog" where
  "Poll interval timeout next_tick cond = WaitFor (timeout div interval) next_tick cond"

definition PollImmediate :: "nat \<Rightarrow> nat \<Rightarrow> 'w poller \<Rightarrow> ('w, bool) prog \<Rightarrow> ('w, unit) prog" where
  "PollImmediate interval timeout next_tick cond =
     p_bind cond (\<lambda>done. if done then p_return (Ok ()) else Poll interval timeout next_tick cond)"

lemma WaitFor_cases:
  assumes "WaitFor n next_tick cond w = (r, w')"
  obtains (approved) t w1 where "next_tick w = (t, w1)" "cond w1 = (Ok True, w')" "r = Ok ()"
  | (timeout) t w1 where "next_tick w = (t, w1)" "cond w1 = (Ok False, w')" "r = Err ErrWaitTimeout"
  | (error) t w1 e where "next_tick w = (t, w1)" "cond w1 = (Err e, w')" "r = Err e"
  | (panic) t w1 where "next_tick w = (t, w1)" "cond w1 = (Panic, w')" "r = Panic"
  | (again) m w1 w2 where "n = Suc m" "next_tick w = (True, w1)" "cond w1 = (Ok False, w2)"
      "WaitFor m next_tick cond w2 = (r, w')"
proof -
  obtain t w1 where t: "next_tick w = (t, w1)" by (cases "next_tick w")
  obtain s w2 where c: "cond w1 = (s, w2)" by (cases "cond w1")
  note unf = assms [unfolded WaitFor.simps [of n] Let_def t c, simplified]
  show thesis
  proof (cases s)
    case (Ok b)
    show thesis
    proof (cases b)
      case True
      with unf Ok c t show thesis by (auto intro: approved)
    next
      case b: False
      show thesis
      proof (cases "t \<and> n > 0")
        case True
        then obtain m where "n = Suc m" by (cases n) auto
        with unf Ok c t b True show thesis by (auto intro: again)
      next
        case False
        with unf Ok c t b show thesis by (auto intro: timeout split: if_splits)
      qed
    qed
  next
    case (Err e)
    with unf c t show thesis by (auto intro: error)
  next
    case Panic
    with unf c t show thesis by (auto intro: panic)
  qed
qed

text \<open>
  What the loop promises: it returns nil only in a state that the condition has just approved, it
  reports a time-out only in a state that the condition has just disapproved, and every other error
  is the condition's own.
\<close>

lemma WaitFor_Ok:
  assumes "WaitFor n next_tick cond w = (Ok u, w')"
  shows "\<exists>w1. cond w1 = (Ok True, w')"
  using assms
proof (induction n arbitrary: w)
  case 0
  from 0 show ?case by (cases rule: WaitFor_cases) auto
next
  case (Suc n)
  from Suc.prems show ?case by (cases rule: WaitFor_cases) (use Suc.IH in auto)
qed

lemma WaitFor_Err:
  assumes "WaitFor n next_tick cond w = (Err e, w')"
  shows "e = ErrWaitTimeout \<and> (\<exists>w1. cond w1 = (Ok False, w')) \<or> (\<exists>w1. cond w1 = (Err e, w'))"
  using assms
proof (induction n arbitrary: w)
  case 0
  from 0 show ?case by (cases rule: WaitFor_cases) auto
next
  case (Suc n)
  from Suc.prems show ?case by (cases rule: WaitFor_cases) (use Suc.IH in auto)
qed

text \<open>An invariant of the waits and of the condition is an invariant of the loop.\<close>

lemma WaitFor_invariant:
  assumes "WaitFor n next_tick cond w = (r, w')" and "I w"
    and tick: "\<And>w b w'. I w \<Longrightarrow> next_tick w = (b, w') \<Longrightarrow> I w'"
    and cond: "\<And>w s w'. I w \<Longrightarrow> cond w = (s, w') \<Longrightarrow> I w'"
  shows "I w'"
  using assms(1,2)
proof (induction n arbitrary: w)
  case 0
  from 0(1) show ?case by (cases rule: WaitFor_cases) (use 0(2) tick cond in blast)+
next
  case (Suc n)
  from Suc.prems(1) show ?case
    by (cases rule: WaitFor_cases) (use Suc tick cond in blast)+
qed

text \<open>
  The condition is evaluated at most once more than there are ticks: whatever each evaluation
  adds to a measure, the loop adds at most \<open>n + 1\<close> times as much.
\<close>

lemma WaitFor_bounded:
  assumes "WaitFor n next_tick cond w = (r, w')"
    and tick: "\<And>w b w'. next_tick w = (b, w') \<Longrightarrow> calls w' = calls w"
    and cond: "\<And>w s w'. cond w = (s, w') \<Longrightarrow> calls w' \<le> calls w + (k::nat)"
  shows "calls w' \<le> calls w + (n + 1) * k"
  using assms(1)
proof (induction n arbitrary: w)
  case 0
  from 0 show ?case by (cases rule: WaitFor_cases) (use tick cond in fastforce)+
next
  case (Suc n)
  from Suc.prems show ?case
  proof (cases rule: WaitFor_cases)
    case (again m w1 w2)
    with Suc.IH [of w2] tick [OF again(2)] cond [OF again(3)] show ?thesis by simp
  qed (use tick cond in fastforce)+
qed

section \<open>Conditions with a remembered error\<close>

text \<open>
  The condition is a closure that assigns to variables of the enclosing function: \<open>lastErr\<close> and,
  where the function returns something, a result. The state of such a closure is a triple of these
  variables and the world. \<open>world_call\<close> is a call that leaves the variables alone, \<open>not_yet e\<close> is
  \<open>lastErr = e; return false, nil\<close> and \<open>finished v\<close> is \<open>result = v; return true, nil\<close>.
\<close>

type_synonym ('v, 'w) closure = "(error option \<times> 'v) \<times> 'w"

definition world_call :: "('w, 'a) prog \<Rightarrow> ('s \<times> 'w, 'a) prog" where
  "world_call m = (\<lambda>(s, w). let (r, w') = m w in (r, (s, w')))"

definition world_tick :: "'w poller \<Rightarrow> ('s \<times> 'w) poller" where
  "world_tick t = (\<lambda>(s, w). let (b, w') = t w in (b, (s, w')))"

definition not_yet :: "error \<Rightarrow> (('v, 'w) closure, bool) prog" where
  "not_yet e = (\<lambda>((lastErr, v), w). (Ok False, ((Some e, v), w)))"

definition finished :: "'v \<Rightarrow> (('v, 'w) closure, bool) prog" where
  "finished v = (\<lambda>((lastErr, _), w). (Ok True, ((lastErr, v), w)))"

text \<open>
  \<open>if err := wait.Poll(interval, timeout, cond); err != nil { if err == wait.ErrWaitTimeout &&
  lastErr != nil { err = lastErr }; return errors.Wrapf(err, msg) }; return result\<close>
\<close>

definition PollLastErr :: "string \<Rightarrow> nat \<Rightarrow> nat \<Rightarrow> 'w poller \<Rightarrow> 'v \<Rightarrow>
    (('v, 'w) closure, bool) prog \<Rightarrow> ('w, 'v) prog" where
  "PollLastErr msg interval timeout next_tick v0 cond = (\<lambda>w.
     case Poll interval timeout (world_tick next_tick) cond ((None, v0), w) of
       (Ok u, ((lastErr, v), w')) \<Rightarrow> (Ok v, w')
     | (Panic, ((lastErr, v), w')) \<Rightarrow> (Panic, w')
     | (Err e, ((lastErr, v), w')) \<Rightarrow>
         (Err (Wrapped msg (if e = ErrWaitTimeout then (case lastErr of None \<Rightarrow> e | Some e' \<Rightarrow> e') else e)), w'))"

lemma world_call_iff [prog_simps]:
  "world_call m (s, w) = (r, (s', w')) \<longleftrightarrow> s' = s \<and> m w = (r, w')"
  by (auto simp: world_call_def Let_def split: prod.splits)

lemma world_tick_iff: "world_tick t (s, w) = (b, (s', w')) \<longleftrightarrow> s' = s \<and> t w = (b, w')"
  by (auto simp: world_tick_def Let_def split: prod.splits)

lemma not_yet_iff [prog_simps]:
  "not_yet e ((l, v), w) = (r, ((l', v'), w')) \<longleftrightarrow> r = Ok False \<and> l' = Some e \<and> v' = v \<and> w' = w"
  by (auto simp: not_yet_def)

lemma finished_iff [prog_simps]:
  "finished x ((l, v), w) = (r, ((l', v'), w')) \<longleftrightarrow> r = Ok True \<and> l' = l \<and> v' = x \<and> w' = w"
  by (auto simp: finished_def)

lemma PollLastErr_Ok:
  assumes "PollLastErr msg i t next_tick v0 cond w = (Ok v, w')"
  obtains s l w1 where "cond (s, w1) = (Ok True, ((l, v), w'))"
proof -
  obtain q l v' u where p: "WaitFor (t div i) (world_tick next_tick) cond ((None, v0), w) = (q, ((l, v'), u))"
    by (metis prod.exhaust)
  with assms obtain x where "q = Ok x" "v' = v" "u = w'"
    by (cases q) (auto simp: PollLastErr_def Poll_def)
  with WaitFor_Ok [of "t div i" "world_tick next_tick" cond "((None, v0), w)" x "((l, v), w')"] p
  obtain w1 where "cond w1 = (Ok True, ((l, v), w'))" by auto
  then show thesis using that [of "fst w1" "snd w1" l] by simp
qed

lemma PollLastErr_Err:
  assumes "PollLastErr msg i t next_tick v0 cond w = (Err e, w')"
  obtains (timeout) s l v w1 where "cond (s, w1) = (Ok False, ((l, v), w'))"
      "e = Wrapped msg (case l of None \<Rightarrow> ErrWaitTimeout | Some e' \<Rightarrow> e')"
  | (condition) s s' w1 e' where "cond (s, w1) = (Err e', (s', w'))"
proof -
  obtain q l v u where p: "WaitFor (t div i) (world_tick next_tick) cond ((None, v0), w) = (q, ((l, v), u))"
    by (metis prod.exhaust)
  with assms obtain e0 where q: "q = Err e0" and u: "u = w'"
    and e: "e = Wrapped msg (if e0 = ErrWaitTimeout then (case l of None \<Rightarrow> e0 | Some e' \<Rightarrow> e') else e0)"
    by (cases q) (auto simp: PollLastErr_def Poll_def)
  from WaitFor_Err [OF p [unfolded q]]
  show thesis
  proof (elim disjE conjE exE)
    fix w1 assume e0: "e0 = ErrWaitTimeout" and c: "cond w1 = (Ok False, ((l, v), u))"
    obtain s w2 where "w1 = (s, w2)" by (cases w1)
    with c e e0 u show thesis by (intro timeout [of s w2 l v]) (simp_all cong: option.case_cong)
  next
    fix w1 assume c: "cond w1 = (Err e0, ((l, v), u))"
    obtain s w2 where "w1 = (s, w2)" by (cases w1)
    with c u show thesis by (intro condition [of s w2 e0 "(l, v)"]) simp
  qed
qed

lemma PollLastErr_invariant:
  assumes "PollLastErr msg i t next_tick v0 cond w = (r, w')" and "I w"
    and tick: "\<And>w b w'. I w \<Longrightarrow> next_tick w = (b, w') \<Longrightarrow> I w'"
    and cond: "\<And>s w b s' w'. I w \<Longrightarrow> cond (s, w) = (b, (s', w')) \<Longrightarrow> I w'"
  shows "I w'"
proof -
  obtain q l v u where p: "Poll i t (world_tick next_tick) cond ((None, v0), w) = (q, ((l, v), u))"
    by (metis prod.exhaust)
  have "I (snd ((l, v), u))"
  proof (rule WaitFor_invariant [OF p [unfolded Poll_def], where I = "\<lambda>x. I (snd x)"])
    show "I (snd ((None, v0), w))" using assms(2) by simp
    show "I (snd y)" if "I (snd x)" "world_tick next_tick x = (b, y)" for x b y
      using that tick [of "snd x" b "snd y"] by (cases x; cases y) (simp add: world_tick_iff)
    show "I (snd y)" if "I (snd x)" "cond x = (b, y)" for x b y
      using that cond [of "snd x" "fst x" b "fst y" "snd y"] by simp
  qed
  moreover have "w' = u" using assms(1) p by (auto simp: PollLastErr_def split: res.splits)
  ultimately show ?thesis by simp
qed

end
