(* ===== verification/Client_Base.thy ===== *)
theory Client_Base
  imports Wait_Poll
begin

text \<open>
  The \<open>Client\<close> type of \<open>pkg/client/client.go\<close>, its read-only methods, \<open>mergeMetadata\<close>, and the two
  shapes that its writing methods have: get the object and create it when it is missing, and delete
  an object that may be missing. The specifications of these shapes are proved once, inside the
  interface of the API server.
\<close>

section \<open>The client\<close>

text \<open>
  The clientsets are one typed client per kind. \<open>PrometheusStatus\<close>, \<open>AlertmanagerStatus\<close> and
  \<open>ThanosRulerStatus\<close> are the functions of the prometheus-operator library that count updated and
  available replicas; \<open>next_tick\<close> is the passing of time during a poll.
\<close>

record 'w Client =
  version :: string
  namespace :: string
  userWorkloadNamespace :: string
  namespaceSelector :: string
  Secrets :: "('w, Secret) resource"
  ConfigMaps :: "('w, ConfigMap) resource"
  Services :: "('w, Service) resource"
  ServiceAccounts :: "('w, ServiceAccount) resource"
  Namespaces :: "('w, NamespaceObject) resource"
  Pods :: "('w, Pod) resource"
  Roles :: "('w, Role) resource"
  ClusterRoles :: "('w, ClusterRole) resource"
  RoleBindings :: "('w, RoleBinding) resource"
  ClusterRoleBindings :: "('w, ClusterRoleBinding) resource"
  ValidatingWebhookConfigurations :: "('w, ValidatingWebhookConfiguration) resource"
  Deployments :: "('w, Deployment) resource"
  DaemonSets :: "('w, DaemonSet) resource"
  StatefulSets :: "('w, StatefulSet) resource"
  SCCs :: "('w, SecurityContextConstraints) resource"
  Routes :: "('w, Route) resource"
  APIServices :: "('w, APIService) resource"
  Prometheuses :: "('w, Prometheus) resource"
  Alertmanagers :: "('w, Alertmanager) resource"
  ThanosRulers :: "('w, ThanosRuler) resource"
  PrometheusRules :: "('w, PrometheusRule) resource"
  ServiceMonitors :: "('w, ServiceMonitor) resource"
  CustomResourceDefinitions :: "('w, CustomResourceDefinition) resource"
  ClusterVersions :: "('w, ClusterVersion) resource"
  Proxies :: "('w, Proxy) resource"
  Infrastructures :: "('w, Infrastructure) resource"
  ClusterOperators :: "('w, ClusterOperator) resource"
  PrometheusStatus :: "Prometheus \<Rightarrow> ('w, ReplicaStatus) prog"
  AlertmanagerStatus :: "Alertmanager \<Rightarrow> ('w, ReplicaStatus) prog"
  ThanosRulerStatus :: "ThanosRuler \<Rightarrow> ('w, ReplicaStatus) prog"
  next_tick :: "'w poller"

definition GetClusterVersion :: "'w Client \<Rightarrow> string \<Rightarrow> ('w, ClusterVersion) prog" where
  "GetClusterVersion c name = r_Get (ClusterVersions c) '''' name"

definition GetProxy :: "'w Client \<Rightarrow> string \<Rightarrow> ('w, Proxy) prog" where
  "GetProxy c name = r_Get (Proxies c) '''' name"

definition GetInfrastructure :: "'w Client \<Rightarrow> string \<Rightarrow> ('w, Infrastructure) prog" where
  "GetInfrastructure c name = r_Get (Infrastructures c) '''' name"

definition GetConfigmap :: "'w Client \<Rightarrow> string \<Rightarrow> string \<Rightarrow> ('w, ConfigMap) prog" where
  "GetConfigmap c ns name = r_Get (ConfigMaps c) ns name"

definition GetSecret :: "'w Client \<Rightarrow> string \<Rightarrow> string \<Rightarrow> ('w, Secret) prog" where
  "GetSecret c ns name = r_Get (Secrets c) ns name"

definition NamespacesToMonitor :: "'w Client \<Rightarrow> ('w, string list) prog" where
  "NamespacesToMonitor c =
     attempt ''listing namespaces failed'' (r_List (Namespaces c) '''' (namespaceSelector c))
       (\<lambda>items. p_return (Ok (map Name items)))"

text \<open>A URL with the parts that the operator sets.\<close>

record URL =
  Scheme :: string
  URL_Host :: string
  URL_Path :: string

definition GetRouteURL :: "'w Client \<Rightarrow> Route \<Rightarrow> ('w, URL) prog" where
  "GetRouteURL c r =
     attempt ''getting Route object failed'' (r_Get (Routes c) (Namespace r) (Name r))
       (\<lambda>newRoute. p_return (Ok \<lparr>
          Scheme = (case TLS_Termination newRoute of
                      None \<Rightarrow> ''http''
                    | Some t \<Rightarrow> if t \<noteq> '''' then ''https'' else ''http''),
          URL_Host = Host newRoute, URL_Path = Route_Path newRoute\<rparr>))"

section \<open>Merging metadata\<close>

definition metadataPrefix :: string where
  "metadataPrefix = ''monitoring.openshift.io/''"

text \<open>The loop that deletes the keys with the prefix.\<close>

definition delete_prefixed :: "string gomap \<Rightarrow> string gomap" where
  "delete_prefixed m = map_option (fmfilter (\<lambda>k. \<not> strings_HasPrefix k metadataPrefix)) m"

text \<open>
  \<open>mergo.Merge(&dst, src)\<close> on maps of strings (vendored \<open>mergo/merge.go\<close>, \<open>deepMerge\<close>, case
  \<open>reflect.Map\<close>, without the overwrite option): a key of the source is copied when the destination
  lacks it or holds the empty string; a nil destination becomes a map when the source is one.
\<close>

definition mergo_Merge :: "string gomap \<Rightarrow> string gomap \<Rightarrow> string gomap" where
  "mergo_Merge dst src = (case src of
      None \<Rightarrow> dst
    | Some s \<Rightarrow> (let d = (case dst of None \<Rightarrow> fmempty | Some d \<Rightarrow> d) in
        Some (fmadd s (fmfilter (\<lambda>k. \<not> (fmlookup d k = Some '''' \<and> k |\<in>| fmdom s)) d))))"

definition mergeMetadata :: "'a ObjectMeta_scheme \<Rightarrow> 'b ObjectMeta_scheme \<Rightarrow> 'a ObjectMeta_scheme" where
  "mergeMetadata required existing = required\<lparr>
     Annotations := mergo_Merge (Annotations required) (delete_prefixed (Annotations existing)),
     Labels := mergo_Merge (Labels required) (delete_prefixed (Labels existing))\<rparr>"

lemma mergo_Merge_lookup:
  "gm_lookup (mergo_Merge dst src) k =
     (case gm_lookup src k of
        None \<Rightarrow> gm_lookup dst k
      | Some v \<Rightarrow> (case gm_lookup dst k of
            None \<Rightarrow> Some v
          | Some d \<Rightarrow> Some (if d = '''' then v else d)))"
  by (cases src; cases dst) (auto simp: mergo_Merge_def Let_def fmlookup_dom_iff split: option.splits)

lemma delete_prefixed_lookup:
  "gm_lookup (delete_prefixed m) k =
     (if strings_HasPrefix k metadataPrefix then None else gm_lookup m k)"
  by (cases m) (auto simp: delete_prefixed_def)

lemma mergeMetadata_simps [simp]:
  "Name (mergeMetadata x y) = Name x"
  "Namespace (mergeMetadata x y) = Namespace x"
  "ResourceVersion (mergeMetadata x y) = ResourceVersion x"
  "Generation (mergeMetadata x y) = Generation x"
  "ObjectMeta.more (mergeMetadata x y) = ObjectMeta.more x"
  by (simp_all add: mergeMetadata_def)

text \<open>
  C26. Metadata merging gives the required object's own labels and annotations precedence: a key that
  the required object sets to a non-empty value keeps it; every other key takes the existing
  object's value, unless the key has the operator's prefix, and then the existing value is dropped.
\<close>

theorem mergeMetadata_lookup:
  "gm_lookup (Labels (mergeMetadata required existing)) k =
     (case gm_lookup (Labels required) k of
        Some v \<Rightarrow> if v = '''' \<and> \<not> strings_HasPrefix k ''monitoring.openshift.io/''
                  then (case gm_lookup (Labels existing) k of None \<Rightarrow> Some v | Some u \<Rightarrow> Some u) else Some v
      | None \<Rightarrow> if strings_HasPrefix k ''monitoring.openshift.io/'' then None
                else gm_lookup (Labels existing) k) \<and>
   gm_lookup (Annotations (mergeMetadata required existing)) k =
     (case gm_lookup (Annotations required) k of
        Some v \<Rightarrow> if v = '''' \<and> \<not> strings_HasPrefix k ''monitoring.openshift.io/''
                  then (case gm_lookup (Annotations existing) k of None \<Rightarrow> Some v | Some u \<Rightarrow> Some u) else Some v
      | None \<Rightarrow> if strings_HasPrefix k ''monitoring.openshift.io/'' then None
                else gm_lookup (Annotations existing) k)"
  by (auto simp: mergeMetadata_def mergo_Merge_lookup delete_prefixed_lookup metadataPrefix_def
      simp del: strings_HasPrefix.simps split: option.splits)

section \<open>Get, or create\<close>

text \<open>
  \<open>existing, err := client.Get(name); if IsNotFound(err) { _, err := client.Create(x); return
  Wrap(err) }; if err != nil { return Wrap(err) }\<close> and the rest of the method.
\<close>

definition discard :: "('w, 'a) prog \<Rightarrow> ('w, unit) prog" where
  "discard m = p_bind m (\<lambda>_. p_return (Ok ()))"

definition create_object :: "('w, 'z ObjectMeta_scheme) resource \<Rightarrow> string \<Rightarrow> string \<Rightarrow>
    'z ObjectMeta_scheme \<Rightarrow> ('w, unit) prog" where
  "create_object R ns kind x =
     discard (p_wrap (''creating '' @ kind @ '' object failed'') (r_Create R ns x))"

definition update_object :: "('w, 'z ObjectMeta_scheme) resource \<Rightarrow> string \<Rightarrow> string \<Rightarrow>
    'z ObjectMeta_scheme \<Rightarrow> ('w, unit) prog" where
  "update_object R ns kind x =
     discard (p_wrap (''updating '' @ kind @ '' object failed'') (r_Update R ns x))"

definition get_or :: "('w, 'z ObjectMeta_scheme) resource \<Rightarrow> string \<Rightarrow> string \<Rightarrow>
    'z ObjectMeta_scheme \<Rightarrow> ('w, 'a) prog \<Rightarrow> ('z ObjectMeta_scheme \<Rightarrow> ('w, 'a) prog) \<Rightarrow> ('w, 'a) prog" where
  "get_or R ns kind x missing found =
     p_catch (r_Get R ns (Name x)) (\<lambda>r. case r of
         Inl e \<Rightarrow> if IsNotFound e then missing
                  else p_return (Err (Wrapped (''retrieving '' @ kind @ '' object failed'') e))
       | Inr existing \<Rightarrow> found existing)"

definition get_or_create :: "('w, 'z ObjectMeta_scheme) resource \<Rightarrow> string \<Rightarrow> string \<Rightarrow>
    'z ObjectMeta_scheme \<Rightarrow> ('z ObjectMeta_scheme \<Rightarrow> ('w, unit) prog) \<Rightarrow> ('w, unit) prog" where
  "get_or_create R ns kind x found = get_or R ns kind x (create_object R ns kind x) found"

text \<open>\<open>err := client.Delete(name); if IsNotFound(err) { return nil }; return err\<close>.\<close>

definition delete_if_present :: "('w, 'o) resource \<Rightarrow> string \<Rightarrow> string \<Rightarrow> DeleteOptions \<Rightarrow> ('w, unit) prog" where
  "delete_if_present R ns name opts =
     p_catch (r_Delete R ns name opts) (\<lambda>r. case r of
         Inl e \<Rightarrow> if IsNotFound e then p_return (Ok ()) else p_return (Err e)
       | Inr _ \<Rightarrow> p_return (Ok ()))"

text \<open>
  The abstract specification of an operation that brings one object to its required state. When it
  returns nil, the object under its name is the one the server accepted for the required state
  (\<open>prep\<close> computes it from the existing object; \<open>None\<close> means that the existing object is left as it
  is) and nothing else has changed; when it returns an error, nothing has changed; it never panics.
\<close>

definition ensures_object :: "('w \<Rightarrow> string \<times> string \<Rightarrow> 'z ObjectMeta_scheme option) \<Rightarrow>
    ('z ObjectMeta_scheme \<Rightarrow> 'z ObjectMeta_scheme \<Rightarrow> bool) \<Rightarrow> string \<Rightarrow> 'z ObjectMeta_scheme \<Rightarrow>
    ('z ObjectMeta_scheme \<Rightarrow> 'z ObjectMeta_scheme option) \<Rightarrow> ('w, unit) prog \<Rightarrow> bool" where
  "ensures_object view accepts ns x prep m \<longleftrightarrow> (\<forall>w r w'. m w = (r, w') \<longrightarrow> (case r of
      Ok _ \<Rightarrow> (case (case view w (ns, Name x) of None \<Rightarrow> Some x | Some old \<Rightarrow> prep old) of
                  None \<Rightarrow> view w' = view w
                | Some req \<Rightarrow> \<exists>y. accepts req y \<and> view w' = (view w)((ns, Name x) \<mapsto> y))
    | Err _ \<Rightarrow> view w' = view w
    | Panic \<Rightarrow> False))"

text \<open>The abstract specification of an operation that removes one object, whether present or not.\<close>

definition removes_object :: "('w \<Rightarrow> string \<times> string \<Rightarrow> 'o option) \<Rightarrow> string \<Rightarrow> string \<Rightarrow>
    ('w, unit) prog \<Rightarrow> bool" where
  "removes_object view ns name m \<longleftrightarrow> (\<forall>w r w'. m w = (r, w') \<longrightarrow> (case r of
      Ok _ \<Rightarrow> view w' = (view w)((ns, name) := None)
    | Err _ \<Rightarrow> view w' = view w
    | Panic \<Rightarrow> False))"

context api_resource begin

lemma create_object_spec:
  assumes "create_object R ns kind x w = (r, w')"
  shows "case r of Ok _ \<Rightarrow> view w (ns, Name x) = None \<and>
      (\<exists>y. accepts x y \<and> view w' = (view w)((ns, Name x) \<mapsto> y))
    | Err _ \<Rightarrow> view w' = view w | Panic \<Rightarrow> False"
proof -
  obtain s u where c: "r_Create R ns x w = (s, u)" by (cases "r_Create R ns x w")
  show ?thesis
  proof (cases s)
    case (Ok y)
    with c create_ok [of ns x w y u] assms show ?thesis
      by (auto simp: create_object_def discard_def p_bind_def p_wrap_def)
  next
    case (Err e)
    with c create_err [of ns x w e u] assms show ?thesis
      by (auto simp: create_object_def discard_def p_bind_def p_wrap_def)
  next
    case Panic
    with c writes_return(1) [of ns x w] show ?thesis by simp
  qed
qed

lemma update_object_spec:
  assumes "update_object R ns kind x w = (r, w')"
  shows "case r of Ok _ \<Rightarrow> view w (ns, Name x) \<noteq> None \<and>
      (\<exists>y. accepts x y \<and> view w' = (view w)((ns, Name x) \<mapsto> y))
    | Err _ \<Rightarrow> view w' = view w | Panic \<Rightarrow> False"
proof -
  obtain s u where c: "r_Update R ns x w = (s, u)" by (cases "r_Update R ns x w")
  show ?thesis
  proof (cases s)
    case (Ok y)
    with c update_ok [of ns x w y u] assms show ?thesis
      by (auto simp: update_object_def discard_def p_bind_def p_wrap_def)
  next
    case (Err e)
    with c update_err [of ns x w e u] assms show ?thesis
      by (auto simp: update_object_def discard_def p_bind_def p_wrap_def)
  next
    case Panic
    with c writes_return(2) [of ns x w] show ?thesis by simp
  qed
qed

text \<open>The three ways in which \<open>get_or\<close> goes on.\<close>

lemma get_or_cases:
  assumes "get_or R ns kind x missing found w = (r, w')"
  obtains (missing) u where "view u = view w" "view w (ns, Name x) = None" "missing u = (r, w')"
  | (failed) e where "r = Err e" "view w' = view w"
  | (found) u old where "view u = view w" "view w (ns, Name x) = Some old" "found old u = (r, w')"
proof (cases rule: get_cases [of ns "Name x" w])
  case (found y u)
  with assms that(3) [of u y] show ?thesis by (simp add: get_or_def p_catch_eqs)
next
  case (missing e u)
  with assms that(1) [of u] show ?thesis by (simp add: get_or_def p_catch_eqs)
next
  case (failed e u)
  with assms that(2) show ?thesis by (auto simp: get_or_def p_catch_eqs)
qed

text \<open>
  Get or create meets the specification of an object to be ensured, if what it does with an
  existing object does.
\<close>

lemma ensures_get_or_create:
  assumes "\<And>old w. view w (ns, Name x) = Some old \<Longrightarrow> (case found old w of
      (Ok _, w') \<Rightarrow> (case prep old of
          None \<Rightarrow> view w' = view w
        | Some req \<Rightarrow> \<exists>y. accepts req y \<and> view w' = (view w)((ns, Name x) \<mapsto> y))
    | (Err _, w') \<Rightarrow> view w' = view w
    | (Panic, w') \<Rightarrow> False)"
  shows "ensures_object view accepts ns x prep (get_or_create R ns kind x found)"
  unfolding ensures_object_def
proof (intro allI impI)
  fix w r w'
  assume "get_or_create R ns kind x found w = (r, w')"
  then have "get_or R ns kind x (create_object R ns kind x) found w = (r, w')"
    by (simp add: get_or_create_def)
  then show "case r of
      Ok _ \<Rightarrow> (case (case view w (ns, Name x) of None \<Rightarrow> Some x | Some old \<Rightarrow> prep old) of
          None \<Rightarrow> view w' = view w
        | Some req \<Rightarrow> \<exists>y. accepts req y \<and> view w' = (view w)((ns, Name x) \<mapsto> y))
    | Err _ \<Rightarrow> view w' = view w
    | Panic \<Rightarrow> False"
  proof (cases rule: get_or_cases)
    case (missing u)
    with create_object_spec [OF missing(3)] show ?thesis by (auto split: res.splits)
  next
    case (failed e)
    then show ?thesis by simp
  next
    case (found u old)
    with assms [of u old] show ?thesis by (auto split: res.splits option.splits)
  qed
qed

text \<open>The common case: the existing object is replaced by \<open>prep\<close> of it, which keeps the name.\<close>

lemma ensures_upsert:
  assumes "\<And>old. Name (prep old) = Name x"
  shows "ensures_object view accepts ns x (\<lambda>old. Some (prep old))
    (get_or_create R ns kind x (\<lambda>old. update_object R ns kind (prep old)))"
proof (rule ensures_get_or_create)
  fix old w
  assume "view w (ns, Name x) = Some old"
  then show "case update_object R ns kind (prep old) w of
      (Ok _, w') \<Rightarrow> (case Some (prep old) of
          None \<Rightarrow> view w' = view w
        | Some req \<Rightarrow> \<exists>y. accepts req y \<and> view w' = (view w)((ns, Name x) \<mapsto> y))
    | (Err _, w') \<Rightarrow> view w' = view w
    | (Panic, w') \<Rightarrow> False"
    using update_object_spec [of ns kind "prep old" w] assms [of old]
    by (auto split: prod.splits res.splits)
qed

text \<open>An operation that compares first and returns nil when there is nothing to do.\<close>

lemma ensures_upsert_unless:
  assumes "\<And>old. Name (prep old) = Name x"
  shows "ensures_object view accepts ns x (\<lambda>old. if same old then None else Some (prep old))
    (get_or_create R ns kind x
      (\<lambda>old. if same old then p_return (Ok ()) else update_object R ns kind (prep old)))"
proof (rule ensures_get_or_create)
  fix old w
  assume "view w (ns, Name x) = Some old"
  then show "case (if same old then p_return (Ok ()) else update_object R ns kind (prep old)) w of
      (Ok _, w') \<Rightarrow> (case if same old then None else Some (prep old) of
          None \<Rightarrow> view w' = view w
        | Some req \<Rightarrow> \<exists>y. accepts req y \<and> view w' = (view w)((ns, Name x) \<mapsto> y))
    | (Err _, w') \<Rightarrow> view w' = view w
    | (Panic, w') \<Rightarrow> False"
    using update_object_spec [of ns kind "prep old" w] assms [of old]
    by (auto split: prod.splits res.splits)
qed

lemma ensures_create_only:
  "ensures_object view accepts ns x (\<lambda>_. None) (get_or_create R ns kind x (\<lambda>_. p_return (Ok ())))"
  by (rule ensures_get_or_create) simp

lemma removes_delete_if_present: "removes_object view ns name (delete_if_present R ns name opts)"
  unfolding removes_object_def
proof (intro allI impI)
  fix w r w'
  assume d: "delete_if_present R ns name opts w = (r, w')"
  obtain s u where c: "r_Delete R ns name opts w = (s, u)" by (cases "r_Delete R ns name opts w")
  show "case r of Ok _ \<Rightarrow> view w' = (view w)((ns, name) := None)
    | Err _ \<Rightarrow> view w' = view w | Panic \<Rightarrow> False"
  proof (cases s)
    case (Ok v)
    with c d delete_ok [of ns name opts w v u] show ?thesis
      by (auto simp: delete_if_present_def p_catch_eqs)
  next
    case (Err e)
    with c delete_err [of ns name opts w e u] have *: "view u = view w"
      "IsNotFound e \<Longrightarrow> view w (ns, name) = None" by auto
    show ?thesis
    proof (cases "IsNotFound e")
      case True
      with Err c d * have "r = Ok ()" "w' = u" by (auto simp: delete_if_present_def p_catch_eqs)
      with * True show ?thesis by (simp add: fun_upd_idem)
    next
      case False
      with Err c d * have "r = Err e" "w' = u" by (auto simp: delete_if_present_def p_catch_eqs)
      with * show ?thesis by simp
    qed
  next
    case Panic
    with c writes_return(4) [of ns name opts w] show ?thesis by simp
  qed
qed

end

end
