(* ===== verification/Client_Wait.thy ===== *)
theory Client_Wait
  imports Client_Base
begin

text \<open>
  The methods of \<open>pkg/client/client.go\<close> that poll: waiting for workloads, secrets, routes and
  resource definitions, and the deletions that wait for the pods to go. Each condition is a read
  followed by a check of what was read (a function from the object to a complaint, or to none); the
  complaint of the last check is the error of a poll that times out.
\<close>

section \<open>Checks\<close>

definition deployment_complaint :: "Deployment \<Rightarrow> error option" where
  "deployment_complaint d = (let s = Deployment_Status d in
     if Generation d > ObservedGeneration s
     then Some (ErrorString (''current generation '' @ decimal (Generation d) @
                  '', observed generation '' @ decimal (ObservedGeneration s)))
     else if UpdatedReplicas s \<noteq> Replicas s
     then Some (ErrorString (''expected '' @ decimal (Replicas s) @ '' replicas, got '' @
                  decimal (UpdatedReplicas s) @ '' updated replicas''))
     else if UnavailableReplicas s \<noteq> 0
     then Some (ErrorString (''got '' @ decimal (UnavailableReplicas s) @ '' unavailable replicas''))
     else None)"

definition statefulset_complaint :: "StatefulSet \<Rightarrow> error option" where
  "statefulset_complaint x = (let s = StatefulSet_Status x in
     if Generation x > STS_ObservedGeneration s
     then Some (ErrorString (''expected generation '' @ decimal (Generation x) @
                  '', observed generation: '' @ decimal (STS_ObservedGeneration s)))
     else if STS_UpdatedReplicas s \<noteq> STS_Replicas s
     then Some (ErrorString (''expected '' @ decimal (STS_Replicas s) @ '' replicas, got '' @
                  decimal (STS_UpdatedReplicas s) @ '' updated replicas''))
     else if ReadyReplicas s \<noteq> STS_Replicas s
     then Some (ErrorString (''expected '' @ decimal (STS_Replicas s) @ '' replicas, got '' @
                  decimal (ReadyReplicas s) @ '' ready replicas''))
     else None)"

definition daemonset_complaint :: "DaemonSet \<Rightarrow> error option" where
  "daemonset_complaint d = (let s = DaemonSet_Status d in
     if Generation d > DS_ObservedGeneration s
     then Some (ErrorString (''current generation '' @ decimal (Generation d) @
                  '', observed generation: '' @ decimal (DS_ObservedGeneration s)))
     else if UpdatedNumberScheduled s \<noteq> DesiredNumberScheduled s
     then Some (ErrorString (''expected '' @ decimal (DesiredNumberScheduled s) @
                  '' desired scheduled nodes, got '' @ decimal (UpdatedNumberScheduled s) @
                  '' updated scheduled nodes''))
     else if NumberUnavailable s \<noteq> 0
     then Some (ErrorString (''got '' @ decimal (NumberUnavailable s) @ '' unavailable nodes''))
     else None)"

definition replicas_complaint :: "int \<Rightarrow> ReplicaStatus \<Rightarrow> error option" where
  "replicas_complaint expectedReplicas status =
    (if expectedReplicas \<noteq> RS_UpdatedReplicas status
     then Some (ErrorString (''expected '' @ decimal expectedReplicas @ '' replicas, got '' @
                  decimal (RS_UpdatedReplicas status) @ '' updated replicas''))
     else if RS_AvailableReplicas status < expectedReplicas
     then Some (ErrorString (''expected '' @ decimal expectedReplicas @ '' replicas, got '' @
                  decimal (RS_AvailableReplicas status) @ '' available replicas''))
     else None)"

definition secret_complaint :: "Secret \<Rightarrow> error option" where
  "secret_complaint s = (case Data s of
      None \<Rightarrow> None
    | Some f \<Rightarrow> if '''' |\<in>| fmran f then Some (ErrorString ''secret contains no data'') else None)"

definition route_complaint :: "Route \<Rightarrow> error option" where
  "route_complaint r = (case Ingress r of
      [] \<Rightarrow> Some (ErrorString ''no status available'')
    | conditions # _ \<Rightarrow>
        if list_ex (\<lambda>c. RC_Type c = ''Admitted'' \<and> RC_Status c = ''True'') conditions then None
        else Some (ErrorString ''route is not yet Admitted''))"

definition pods_complaint :: "Pod list \<Rightarrow> error option" where
  "pods_complaint pods =
    (if pods = [] then None
     else Some (ErrorString (decimal (int (length pods)) @ '' pods still present'')))"

text \<open>
  The end of a condition: \<open>lastErr\<close> is set and the poll goes on, or the result is set and it ends.
\<close>

definition conclude :: "error option \<Rightarrow> 'v \<Rightarrow> (('v, 'w) closure, bool) prog" where
  "conclude complaint v = (case complaint of None \<Rightarrow> finished v | Some e \<Rightarrow> not_yet e)"

definition on_object :: "string \<Rightarrow> 'a ObjectMeta_scheme \<Rightarrow> string" where
  "on_object msg x = msg @ Namespace x @ ''/'' @ Name x"

section \<open>Waiting for workloads\<close>

definition WaitForDeploymentRollout :: "'w Client \<Rightarrow> Deployment \<Rightarrow> ('w, unit) prog" where
  "WaitForDeploymentRollout c dep =
     PollLastErr (on_object ''waiting for DeploymentRollout of '' dep) 1 300 (next_tick c) ()
       (p_bind (world_call (r_Get (Deployments c) (Namespace dep) (Name dep)))
         (\<lambda>d. conclude (deployment_complaint d) ()))"

definition WaitForStatefulsetRollout :: "'w Client \<Rightarrow> StatefulSet \<Rightarrow> ('w, unit) prog" where
  "WaitForStatefulsetRollout c sts =
     PollLastErr (on_object ''waiting for StatefulsetRollout of '' sts) 1 300 (next_tick c) ()
       (p_bind (world_call (r_Get (StatefulSets c) (Namespace sts) (Name sts)))
         (\<lambda>s. conclude (statefulset_complaint s) ()))"

definition WaitForDaemonSetRollout :: "'w Client \<Rightarrow> DaemonSet \<Rightarrow> ('w, unit) prog" where
  "WaitForDaemonSetRollout c ds =
     PollLastErr (on_object ''waiting for DaemonSetRollout of '' ds) 1 300 (next_tick c) ()
       (p_bind (world_call (r_Get (DaemonSets c) (Namespace ds) (Name ds)))
         (\<lambda>d. conclude (daemonset_complaint d) ()))"

text \<open>\<open>expectedReplicas := *p.Spec.Replicas\<close> dereferences a pointer.\<close>

definition conclude_replicas :: "int option \<Rightarrow> ReplicaStatus \<Rightarrow> ((unit, 'w) closure, bool) prog" where
  "conclude_replicas expected status = (case expected of
      None \<Rightarrow> p_return Panic
    | Some n \<Rightarrow> conclude (replicas_complaint n status) ())"

definition WaitForPrometheus :: "'w Client \<Rightarrow> Prometheus \<Rightarrow> ('w, unit) prog" where
  "WaitForPrometheus c p =
     PollLastErr (on_object ''waiting for Prometheus '' p) 10 300 (next_tick c) ()
       (attempt ''retrieving Prometheus object failed''
          (world_call (r_Get (Prometheuses c) (Namespace p) (Name p)))
          (\<lambda>p'. attempt ''retrieving Prometheus status failed'' (world_call (PrometheusStatus c p'))
             (\<lambda>status. conclude_replicas (Prom_Replicas (Prometheus_Spec p')) status)))"

definition WaitForAlertmanager :: "'w Client \<Rightarrow> Alertmanager \<Rightarrow> ('w, unit) prog" where
  "WaitForAlertmanager c a =
     PollLastErr (on_object ''waiting for Alertmanager '' a) 10 300 (next_tick c) ()
       (attempt ''retrieving Alertmanager object failed''
          (world_call (r_Get (Alertmanagers c) (Namespace a) (Name a)))
          (\<lambda>a'. attempt ''retrieving Alertmanager status failed'' (world_call (AlertmanagerStatus c a'))
             (\<lambda>status. conclude_replicas (AM_Replicas (Alertmanager_Spec a')) status)))"

definition WaitForThanosRuler :: "'w Client \<Rightarrow> ThanosRuler \<Rightarrow> ('w, unit) prog" where
  "WaitForThanosRuler c t =
     PollLastErr (on_object ''waiting for Thanos Ruler '' t) 10 300 (next_tick c) ()
       (attempt ''retrieving Thanos Ruler object failed''
          (world_call (r_Get (ThanosRulers c) (Namespace t) (Name t)))
          (\<lambda>t'. attempt ''retrieving Thanos Ruler status failed'' (world_call (ThanosRulerStatus c t'))
             (\<lambda>status. conclude_replicas (TR_Replicas (ThanosRuler_Spec t')) status)))"

section \<open>Waiting for secrets, routes and resource definitions\<close>

definition WaitForSecret :: "'w Client \<Rightarrow> Secret \<Rightarrow> ('w, Secret option) prog" where
  "WaitForSecret c s =
     PollLastErr (on_object ''waiting for secret '' s) 1 300 (next_tick c) None
       (p_catch (world_call (r_Get (Secrets c) (Namespace s) (Name s))) (\<lambda>r. case r of
            Inl e \<Rightarrow> if IsNotFound e then not_yet e else p_return (Err e)
          | Inr result \<Rightarrow> conclude (secret_complaint result) (Some result)))"

definition WaitForRouteReady :: "'w Client \<Rightarrow> Route \<Rightarrow> ('w, string) prog" where
  "WaitForRouteReady c r =
     PollLastErr (on_object ''waiting for route '' r) 1 300 (next_tick c) ''''
       (p_bind (world_call (r_Get (Routes c) (Namespace r) (Name r)))
         (\<lambda>newRoute. conclude (route_complaint newRoute) (Host newRoute)))"

text \<open>The scan of a definition's conditions, with its early returns.\<close>

fun crd_established :: "string \<Rightarrow> CRDCondition list \<Rightarrow> bool res" where
  "crd_established name [] = Ok False"
| "crd_established name (cond # conds) =
    (if CRDC_Type cond = ''Established'' \<and> CRDC_Status cond = ''True'' then Ok True
     else if CRDC_Type cond = ''NamesAccepted'' \<and> CRDC_Status cond = ''False''
     then Err (ErrorString (''CRD naming conflict ('' @ name @ ''): '' @ CRDC_Reason cond))
     else crd_established name conds)"

definition CRDReady :: "'w Client \<Rightarrow> CustomResourceDefinition \<Rightarrow> ('w, bool) prog" where
  "CRDReady c crd =
     p_bind (r_Get (CustomResourceDefinitions c) '''' (Name crd))
       (\<lambda>crdEst. p_return (crd_established (Name crd) (CRD_Conditions crdEst)))"

definition WaitForCRDReady :: "'w Client \<Rightarrow> CustomResourceDefinition \<Rightarrow> ('w, unit) prog" where
  "WaitForCRDReady c crd = Poll 5 300 (next_tick c) (CRDReady c crd)"

definition AssurePrometheusOperatorCRsExist :: "'w Client \<Rightarrow> ('w, unit) prog" where
  "AssurePrometheusOperatorCRsExist c = Poll 1 300 (next_tick c)
     (p_bind (r_List (Prometheuses c) (namespace c) '''') (\<lambda>_.
      p_bind (r_List (Alertmanagers c) (namespace c) '''') (\<lambda>_.
      p_bind (r_List (ServiceMonitors c) (namespace c) '''') (\<lambda>_.
      p_return (Ok True)))))"

section \<open>Deletions that wait\<close>

text \<open>The label selectors of \<open>ListOptions\<close> in the vendored prometheus-operator packages.\<close>

definition prometheus_ListOptions :: "string \<Rightarrow> string" where
  "prometheus_ListOptions name = ''app=prometheus,prometheus='' @ name"

definition thanos_ListOptions :: "string \<Rightarrow> string" where
  "thanos_ListOptions name = ''app=thanos-ruler,thanos-ruler='' @ name"

text \<open>\<open>err := client.Delete(name); if err != nil && !IsNotFound(err) { return Wrap(err) }\<close>.\<close>

definition delete_ignoring_missing :: "string \<Rightarrow> ('w, 'o) resource \<Rightarrow> string \<Rightarrow> string \<Rightarrow> ('w, unit) prog" where
  "delete_ignoring_missing msg R ns name = p_wrap msg (delete_if_present R ns name DeleteDefault)"

definition wait_for_no_pods :: "string \<Rightarrow> 'w Client \<Rightarrow> string \<Rightarrow> string \<Rightarrow> ('w, unit) prog" where
  "wait_for_no_pods msg c ns sel =
     PollLastErr msg 10 600 (next_tick c) ()
       (attempt ''retrieving pods during polling failed'' (world_call (r_List (Pods c) ns sel))
          (\<lambda>pods. conclude (pods_complaint pods) ()))"

definition DeletePrometheus :: "'w Client \<Rightarrow> Prometheus \<Rightarrow> ('w, unit) prog" where
  "DeletePrometheus c p =
     p_bind (delete_ignoring_missing ''deleting Prometheus object failed'' (Prometheuses c) (Namespace p) (Name p))
       (\<lambda>_. wait_for_no_pods (''waiting for Prometheus '' @ Namespace p @ ''/'' @ Name p @ '' deletion'')
              c (Namespace p) (prometheus_ListOptions (Name p)))"

definition DeleteThanosRuler :: "'w Client \<Rightarrow> ThanosRuler \<Rightarrow> ('w, unit) prog" where
  "DeleteThanosRuler c tr =
     p_bind (delete_ignoring_missing ''deleting Thanos Ruler object failed'' (ThanosRulers c) (Namespace tr) (Name tr))
       (\<lambda>_. wait_for_no_pods (''waiting for Thanos Ruler '' @ Namespace tr @ ''/'' @ Name tr @ '' deletion'')
              c (Namespace tr) (thanos_ListOptions (Name tr)))"

section \<open>What a wait promises\<close>

lemma conclude_iff [prog_simps]:
  "conclude complaint x ((l, v), w) = (r, ((l', v'), w')) \<longleftrightarrow> w' = w \<and>
     (case complaint of None \<Rightarrow> r = Ok True \<and> l' = l \<and> v' = x
      | Some e \<Rightarrow> r = Ok False \<and> l' = Some e \<and> v' = v)"
  by (auto simp: conclude_def prog_simps split: option.splits)

lemma conclude_replicas_Ok:
  "conclude_replicas n status (s, w) = (Ok True, ((l, u), w')) \<Longrightarrow>
     w' = w \<and> (\<exists>k. n = Some k \<and> RS_UpdatedReplicas status = k \<and> RS_AvailableReplicas status \<ge> k)"
  by (cases s) (auto simp: conclude_replicas_def prog_simps replicas_complaint_def split: option.splits if_splits)

context api_reader begin

text \<open>
  A poll whose condition reads an object and checks it: success means that the object read last
  has no complaint, and that the store still has it; a time-out reports the complaint about the
  object read last; any other error is an error of a read.
\<close>

definition checked_poll where
  "checked_poll msg i t tick v0 ns n complaint result =
     PollLastErr msg i t tick v0
       (p_bind (world_call (r_Get R ns n)) (\<lambda>x. conclude (complaint x) (result x)))"

lemma checked_poll_Ok:
  assumes "checked_poll msg i t tick v0 ns n complaint result w = (Ok v, w')"
  shows "\<exists>x. view w' (ns, n) = Some x \<and> complaint x = None \<and> v = result x"
proof -
  from assms [unfolded checked_poll_def] obtain s l w1 where
    "p_bind (world_call (r_Get R ns n)) (\<lambda>x. conclude (complaint x) (result x)) (s, w1) = (Ok True, ((l, v), w'))"
    by (rule PollLastErr_Ok)
  then obtain x l0 v1 w2 where g: "r_Get R ns n w1 = (Ok x, w2)"
    and c: "conclude (complaint x) (result x) ((l0, v1), w2) = (Ok True, ((l, v), w'))"
    by (cases s) (auto simp: p_bind_Ok_iff world_call_iff)
  from c have "complaint x = None" "v = result x" "w' = w2"
    by (auto simp: conclude_iff split: option.splits)
  with get_ok [OF g] show ?thesis by auto
qed

lemma checked_poll_Err:
  assumes "checked_poll msg i t tick v0 ns n complaint result w = (Err e, w')"
  shows "(\<exists>x e'. view w' (ns, n) = Some x \<and> complaint x = Some e' \<and> e = Wrapped msg e') \<or>
    (\<exists>w1 e'. r_Get R ns n w1 = (Err e', w'))"
proof -
  let ?cond = "p_bind (world_call (r_Get R ns n)) (\<lambda>x. conclude (complaint x) (result x))"
  from assms [unfolded checked_poll_def] show ?thesis
  proof (cases rule: PollLastErr_Err)
    case (timeout s l v w1)
    then obtain x l0 v1 w2 where g: "r_Get R ns n w1 = (Ok x, w2)"
      and c: "conclude (complaint x) (result x) ((l0, v1), w2) = (Ok False, ((l, v), w'))"
      by (cases s) (auto simp: p_bind_Ok_iff world_call_iff)
    from c obtain e' where "complaint x = Some e'" "l = Some e'" "w' = w2"
      by (auto simp: conclude_iff split: option.splits)
    with get_ok [OF g] timeout(2) show ?thesis by auto
  next
    case (condition s s' w1 e')
    then show ?thesis by (cases s; cases s') (auto simp: p_bind_Err_iff world_call_iff conclude_iff split: option.splits)
  qed
qed

end

end
