(* ===== verification/Client_Apply.thy ===== *)
theory Client_Apply
  imports Client_Wait
begin

text \<open>
  The methods of \<open>pkg/client/client.go\<close> that bring an object to a required state or remove it. Each
  is an instance of the shapes of \<open>Client_Base\<close>; their specifications follow from the interface of
  the API server.
\<close>

section \<open>Create or update\<close>

text \<open>
  The kinds whose update carries over the merged metadata, and those that also carry over the
  existing resource version.
\<close>

definition with_resource_version :: "'a ObjectMeta_scheme \<Rightarrow> 'b ObjectMeta_scheme \<Rightarrow> 'a ObjectMeta_scheme" where
  "with_resource_version required existing = required\<lparr>ResourceVersion := ResourceVersion existing\<rparr>"

lemma with_resource_version_simps [simp]:
  "Name (with_resource_version x y) = Name x"
  "Namespace (with_resource_version x y) = Namespace x"
  "ResourceVersion (with_resource_version x y) = ResourceVersion y"
  "Labels (with_resource_version x y) = Labels x"
  "Annotations (with_resource_version x y) = Annotations x"
  "ObjectMeta.more (with_resource_version x y) = ObjectMeta.more x"
  by (simp_all add: with_resource_version_def)

definition CreateOrUpdateValidatingWebhookConfiguration :: "'w Client \<Rightarrow> ValidatingWebhookConfiguration \<Rightarrow> ('w, unit) prog" where
  "CreateOrUpdateValidatingWebhookConfiguration c w =
     get_or_create (ValidatingWebhookConfigurations c) '''' ''ValidatingWebhookConfiguration'' w (\<lambda>existing.
       update_object (ValidatingWebhookConfigurations c) '''' ''ValidatingWebhookConfiguration''
         (with_resource_version w existing))"

definition CreateOrUpdateSecurityContextConstraints :: "'w Client \<Rightarrow> SecurityContextConstraints \<Rightarrow> ('w, unit) prog" where
  "CreateOrUpdateSecurityContextConstraints c s =
     get_or_create (SCCs c) '''' ''SecurityContextConstraints'' s (\<lambda>existing.
       update_object (SCCs c) '''' ''SecurityContextConstraints''
         (with_resource_version (mergeMetadata s existing) existing))"

definition CreateOrUpdatePrometheus :: "'w Client \<Rightarrow> Prometheus \<Rightarrow> ('w, unit) prog" where
  "CreateOrUpdatePrometheus c p =
     get_or_create (Prometheuses c) (Namespace p) ''Prometheus'' p (\<lambda>existing.
       update_object (Prometheuses c) (Namespace p) ''Prometheus''
         (with_resource_version (mergeMetadata p existing) existing))"

definition CreateOrUpdatePrometheusRule :: "'w Client \<Rightarrow> PrometheusRule \<Rightarrow> ('w, unit) prog" where
  "CreateOrUpdatePrometheusRule c p =
     get_or_create (PrometheusRules c) (Namespace p) ''PrometheusRule'' p (\<lambda>existing.
       update_object (PrometheusRules c) (Namespace p) ''PrometheusRule''
         (with_resource_version (mergeMetadata p existing) existing))"

definition CreateOrUpdateAlertmanager :: "'w Client \<Rightarrow> Alertmanager \<Rightarrow> ('w, unit) prog" where
  "CreateOrUpdateAlertmanager c a =
     get_or_create (Alertmanagers c) (Namespace a) ''Alertmanager'' a (\<lambda>existing.
       update_object (Alertmanagers c) (Namespace a) ''Alertmanager''
         (with_resource_version (mergeMetadata a existing) existing))"

definition CreateOrUpdateThanosRuler :: "'w Client \<Rightarrow> ThanosRuler \<Rightarrow> ('w, unit) prog" where
  "CreateOrUpdateThanosRuler c t =
     get_or_create (ThanosRulers c) (Namespace t) ''Thanos Ruler'' t (\<lambda>existing.
       update_object (ThanosRulers c) (Namespace t) ''Thanos Ruler''
         (with_resource_version (mergeMetadata t existing) existing))"

definition CreateOrUpdateServiceMonitor :: "'w Client \<Rightarrow> ServiceMonitor \<Rightarrow> ('w, unit) prog" where
  "CreateOrUpdateServiceMonitor c sm =
     get_or_create (ServiceMonitors c) (Namespace sm) ''ServiceMonitor'' sm (\<lambda>existing.
       update_object (ServiceMonitors c) (Namespace sm) ''ServiceMonitor''
         (with_resource_version (mergeMetadata sm existing) existing))"

definition CreateOrUpdateSecret :: "'w Client \<Rightarrow> Secret \<Rightarrow> ('w, unit) prog" where
  "CreateOrUpdateSecret c s =
     get_or_create (Secrets c) (Namespace s) ''Secret'' s (\<lambda>existing.
       update_object (Secrets c) (Namespace s) ''Secret''
         (mergeMetadata s existing))"

definition CreateOrUpdateConfigMap :: "'w Client \<Rightarrow> ConfigMap \<Rightarrow> ('w, unit) prog" where
  "CreateOrUpdateConfigMap c cm =
     get_or_create (ConfigMaps c) (Namespace cm) ''ConfigMap'' cm (\<lambda>existing.
       update_object (ConfigMaps c) (Namespace cm) ''ConfigMap''
         (mergeMetadata cm existing))"

definition CreateOrUpdateRole :: "'w Client \<Rightarrow> Role \<Rightarrow> ('w, unit) prog" where
  "CreateOrUpdateRole c r =
     get_or_create (Roles c) (Namespace r) ''Role'' r (\<lambda>existing.
       update_object (Roles c) (Namespace r) ''Role''
         (mergeMetadata r existing))"

definition CreateOrUpdateClusterRole :: "'w Client \<Rightarrow> ClusterRole \<Rightarrow> ('w, unit) prog" where
  "CreateOrUpdateClusterRole c cr =
     get_or_create (ClusterRoles c) '''' ''ClusterRole'' cr (\<lambda>existing.
       update_object (ClusterRoles c) '''' ''ClusterRole''
         (mergeMetadata cr existing))"

definition CreateOrUpdateAPIService :: "'w Client \<Rightarrow> APIService \<Rightarrow> ('w, unit) prog" where
  "CreateOrUpdateAPIService c apiService =
     get_or_create (APIServices c) '''' ''APIService'' apiService (\<lambda>existing.
       update_object (APIServices c) '''' ''APIService''
         (let required = with_resource_version apiService existing
          in if CABundle existing \<noteq> '''' then required\<lparr>CABundle := CABundle existing\<rparr> else required))"

definition CreateOrUpdateConfigMapList :: "'w Client \<Rightarrow> ConfigMap list \<Rightarrow> ('w, unit) prog" where
  "CreateOrUpdateConfigMapList c cml = p_for cml (CreateOrUpdateConfigMap c)"

text \<open>A service of type \<open>ClusterIP\<close> keeps the address that the cluster gave it.\<close>

definition required_service :: "Service \<Rightarrow> Service \<Rightarrow> Service" where
  "required_service svc existing = (let required = with_resource_version svc existing in
     if Service_Type (Service_Spec required) = ''ClusterIP''
     then required\<lparr>Service_Spec := (Service_Spec required)\<lparr>ClusterIP := ClusterIP (Service_Spec existing)\<rparr>\<rparr>
     else required)"

definition CreateOrUpdateService :: "'w Client \<Rightarrow> Service \<Rightarrow> ('w, unit) prog" where
  "CreateOrUpdateService c svc =
     get_or_create (Services c) (Namespace svc) ''Service'' svc (\<lambda>existing.
       if Service_Spec (required_service svc existing) = Service_Spec existing then p_return (Ok ())
       else update_object (Services c) (Namespace svc) ''Service''
              (mergeMetadata (required_service svc existing) existing))"

definition CreateOrUpdateRoleBinding :: "'w Client \<Rightarrow> RoleBinding \<Rightarrow> ('w, unit) prog" where
  "CreateOrUpdateRoleBinding c rb =
     get_or_create (RoleBindings c) (Namespace rb) ''RoleBinding'' rb (\<lambda>existing.
       if RoleRef rb = RoleRef existing \<and> Subjects rb = Subjects existing then p_return (Ok ())
       else update_object (RoleBindings c) (Namespace rb) ''RoleBinding'' (mergeMetadata rb existing))"

text \<open>The role of a cluster role binding is immutable, so a binding that differs is replaced.\<close>

definition CreateOrUpdateClusterRoleBinding :: "'w Client \<Rightarrow> ClusterRoleBinding \<Rightarrow> ('w, unit) prog" where
  "CreateOrUpdateClusterRoleBinding c crb =
     get_or_create (ClusterRoleBindings c) '''' ''ClusterRoleBinding'' crb (\<lambda>existing.
       if CRB_RoleRef crb = CRB_RoleRef existing \<and> CRB_Subjects crb = CRB_Subjects existing
       then p_return (Ok ())
       else attempt ''deleting ClusterRoleBinding object failed''
              (r_Delete (ClusterRoleBindings c) '''' (Name crb) DeleteDefault)
              (\<lambda>_. discard (p_wrap ''updating ClusterRoleBinding object failed''
                 (r_Create (ClusterRoleBindings c) '''' (mergeMetadata crb existing)))))"

section \<open>Create if missing\<close>

definition CreateOrUpdateServiceAccount :: "'w Client \<Rightarrow> ServiceAccount \<Rightarrow> ('w, unit) prog" where
  "CreateOrUpdateServiceAccount c sa =
     get_or_create (ServiceAccounts c) (Namespace sa) ''ServiceAccount'' sa (\<lambda>_. p_return (Ok ()))"

definition CreateIfNotExistSecret :: "'w Client \<Rightarrow> Secret \<Rightarrow> ('w, unit) prog" where
  "CreateIfNotExistSecret c s =
     get_or_create (Secrets c) (Namespace s) ''Secret'' s (\<lambda>_. p_return (Ok ()))"

definition CreateIfNotExistConfigMap :: "'w Client \<Rightarrow> ConfigMap \<Rightarrow> ('w, ConfigMap) prog" where
  "CreateIfNotExistConfigMap c cm =
     get_or (ConfigMaps c) (Namespace cm) ''ConfigMap'' cm
       (p_wrap ''creating ConfigMap object failed'' (r_Create (ConfigMaps c) (Namespace cm) cm))
       (\<lambda>res. p_return (Ok res))"

text \<open>This method ignores every other error of the read.\<close>

definition CreateRouteIfNotExists :: "'w Client \<Rightarrow> Route \<Rightarrow> ('w, unit) prog" where
  "CreateRouteIfNotExists c r =
     p_catch (r_Get (Routes c) (Namespace r) (Name r)) (\<lambda>x. case x of
         Inl e \<Rightarrow> if IsNotFound e then create_object (Routes c) (Namespace r) ''Route'' r
                  else p_return (Ok ())
       | Inr _ \<Rightarrow> p_return (Ok ()))"

section \<open>Workloads\<close>

definition CreateDeployment :: "'w Client \<Rightarrow> Deployment \<Rightarrow> ('w, unit) prog" where
  "CreateDeployment c dep =
     p_bind (r_Create (Deployments c) (Namespace dep) dep) (\<lambda>d. WaitForDeploymentRollout c d)"

definition UpdateDeployment :: "'w Client \<Rightarrow> Deployment \<Rightarrow> ('w, unit) prog" where
  "UpdateDeployment c dep =
     p_bind (r_Update (Deployments c) (Namespace dep) dep) (\<lambda>updated. WaitForDeploymentRollout c updated)"

definition DeleteDeployment :: "'w Client \<Rightarrow> Deployment \<Rightarrow> ('w, unit) prog" where
  "DeleteDeployment c d =
     delete_if_present (Deployments c) (Namespace d) (Name d) DeletePropagationForeground"

definition CreateDaemonSet :: "'w Client \<Rightarrow> DaemonSet \<Rightarrow> ('w, unit) prog" where
  "CreateDaemonSet c ds =
     p_bind (r_Create (DaemonSets c) (Namespace ds) ds) (\<lambda>d. WaitForDaemonSetRollout c d)"

definition UpdateDaemonSet :: "'w Client \<Rightarrow> DaemonSet \<Rightarrow> ('w, unit) prog" where
  "UpdateDaemonSet c ds =
     p_bind (r_Update (DaemonSets c) (Namespace ds) ds) (\<lambda>updated. WaitForDaemonSetRollout c updated)"

definition DeleteDaemonSet :: "'w Client \<Rightarrow> DaemonSet \<Rightarrow> ('w, unit) prog" where
  "DeleteDaemonSet c d = delete_if_present (DaemonSets c) (Namespace d) (Name d) (OrphanDependents False)"

text \<open>
  An update that the server rejects as invalid (an immutable field has changed) is replaced by a
  deletion and a creation. The test is on the error itself: a wrapped status does not count.
\<close>

definition rejected_as_invalid :: "error \<Rightarrow> bool" where
  "rejected_as_invalid e \<longleftrightarrow> e = StatusError 422 ''Invalid''"

definition update_or_recreate :: "string \<Rightarrow> ('w, unit) prog \<Rightarrow> ('w, unit) prog \<Rightarrow> ('w, unit) prog \<Rightarrow>
    ('w, unit) prog" where
  "update_or_recreate kind update delete create =
     p_catch update (\<lambda>r. case r of
         Inr _ \<Rightarrow> p_return (Ok ())
       | Inl e \<Rightarrow>
           if rejected_as_invalid e
           then attempt (''deleting '' @ kind @ '' object failed'') delete
                  (\<lambda>_. p_wrap (''creating '' @ kind @ '' object failed after update failed'') create)
           else p_return (Err (Wrapped (''updating '' @ kind @ '' object failed'') e)))"

definition CreateOrUpdateDeployment :: "'w Client \<Rightarrow> Deployment \<Rightarrow> ('w, unit) prog" where
  "CreateOrUpdateDeployment c dep =
     get_or (Deployments c) (Namespace dep) ''Deployment'' dep
       (p_wrap ''creating Deployment object failed'' (CreateDeployment c dep))
       (\<lambda>existing.
          if Deployment_Spec dep = Deployment_Spec existing then p_return (Ok ())
          else (let required = mergeMetadata dep existing in
            update_or_recreate ''Deployment'' (UpdateDeployment c required)
              (DeleteDeployment c existing) (CreateDeployment c required)))"

definition CreateOrUpdateDaemonSet :: "'w Client \<Rightarrow> DaemonSet \<Rightarrow> ('w, unit) prog" where
  "CreateOrUpdateDaemonSet c ds =
     get_or (DaemonSets c) (Namespace ds) ''DaemonSet'' ds
       (p_wrap ''creating DaemonSet object failed'' (CreateDaemonSet c ds))
       (\<lambda>existing.
          (let required = mergeMetadata ds existing in
            update_or_recreate ''DaemonSet'' (UpdateDaemonSet c required)
              (DeleteDaemonSet c existing) (CreateDaemonSet c required)))"

section \<open>Deletion\<close>

definition DeleteConfigMap :: "'w Client \<Rightarrow> ConfigMap \<Rightarrow> ('w, unit) prog" where
  "DeleteConfigMap c cm = delete_if_present (ConfigMaps c) (Namespace cm) (Name cm) DeleteDefault"

definition DeleteValidatingWebhook :: "'w Client \<Rightarrow> ValidatingWebhookConfiguration \<Rightarrow> ('w, unit) prog" where
  "DeleteValidatingWebhook c w = delete_if_present (ValidatingWebhookConfigurations c) '''' (Name w) DeleteDefault"

definition DeleteServiceAccount :: "'w Client \<Rightarrow> ServiceAccount \<Rightarrow> ('w, unit) prog" where
  "DeleteServiceAccount c sa = delete_if_present (ServiceAccounts c) (Namespace sa) (Name sa) DeleteDefault"

definition DeleteClusterRole :: "'w Client \<Rightarrow> ClusterRole \<Rightarrow> ('w, unit) prog" where
  "DeleteClusterRole c cr = delete_if_present (ClusterRoles c) '''' (Name cr) DeleteDefault"

definition DeleteClusterRoleBinding :: "'w Client \<Rightarrow> ClusterRoleBinding \<Rightarrow> ('w, unit) prog" where
  "DeleteClusterRoleBinding c crb = delete_if_present (ClusterRoleBindings c) '''' (Name crb) DeleteDefault"

definition DeleteService :: "'w Client \<Rightarrow> Service \<Rightarrow> ('w, unit) prog" where
  "DeleteService c svc = delete_if_present (Services c) (Namespace svc) (Name svc) DeleteDefault"

definition DeleteRoute :: "'w Client \<Rightarrow> Route \<Rightarrow> ('w, unit) prog" where
  "DeleteRoute c r = delete_if_present (Routes c) (Namespace r) (Name r) DeleteDefault"

definition DeletePrometheusRule :: "'w Client \<Rightarrow> PrometheusRule \<Rightarrow> ('w, unit) prog" where
  "DeletePrometheusRule c rule = delete_if_present (PrometheusRules c) (Namespace rule) (Name rule) DeleteDefault"

definition DeleteSecret :: "'w Client \<Rightarrow> Secret \<Rightarrow> ('w, unit) prog" where
  "DeleteSecret c s = delete_if_present (Secrets c) (Namespace s) (Name s) DeleteDefault"

definition DeleteRoleBinding :: "'w Client \<Rightarrow> RoleBinding \<Rightarrow> ('w, unit) prog" where
  "DeleteRoleBinding c binding = delete_if_present (RoleBindings c) (Namespace binding) (Name binding) DeleteDefault"

definition DeleteRole :: "'w Client \<Rightarrow> Role \<Rightarrow> ('w, unit) prog" where
  "DeleteRole c role = delete_if_present (Roles c) (Namespace role) (Name role) DeleteDefault"

definition DeleteServiceMonitorByNamespaceAndName :: "'w Client \<Rightarrow> string \<Rightarrow> string \<Rightarrow> ('w, unit) prog" where
  "DeleteServiceMonitorByNamespaceAndName c ns name =
     delete_ignoring_missing ''deleting ServiceMonitor object failed'' (ServiceMonitors c) ns name"

definition DeleteServiceMonitor :: "'w Client \<Rightarrow> ServiceMonitor \<Rightarrow> ('w, unit) prog" where
  "DeleteServiceMonitor c sm = DeleteServiceMonitorByNamespaceAndName c (Namespace sm) (Name sm)"

definition DeleteIfExists :: "'w Client \<Rightarrow> string \<Rightarrow> ('w, unit) prog" where
  "DeleteIfExists c nsName =
     p_catch (r_Get (Namespaces c) '''' nsName) (\<lambda>r. case r of
         Inl e \<Rightarrow> if IsNotFound e then p_return (Ok ())
                  else p_return (Err (Wrapped ''retrieving Namespace object failed'' e))
       | Inr _ \<Rightarrow> p_wrap ''deleting ConfigMap object failed''
                   (r_Delete (Namespaces c) '''' nsName DeleteDefault))"

text \<open>
  Objects whose name carries a hash of their content are labelled with the name they stand for and
  with the hash; the objects of older hashes are deleted by label selector.
\<close>

definition hashed_selector :: "string \<Rightarrow> string \<Rightarrow> string" where
  "hashed_selector prefix newHash =
     ''monitoring.openshift.io/name='' @ prefix @ '',monitoring.openshift.io/hash!='' @ newHash"

definition delete_selected :: "string \<Rightarrow> string \<Rightarrow> ('w, 'z ObjectMeta_scheme) resource \<Rightarrow> string \<Rightarrow> string \<Rightarrow>
    ('w, unit) prog" where
  "delete_selected many one R ns ls =
     attempt (''error listing '' @ many @ '' in namespace '' @ ns @ '' with label selector '' @ ls)
       (r_List R ns ls)
       (\<lambda>items. p_for items (\<lambda>x.
          p_wrap (''error deleting '' @ one @ '': '' @ ns @ ''/'' @ Name x)
            (r_Delete R ns (Name x) DeleteDefault)))"

definition DeleteHashedConfigMap :: "'w Client \<Rightarrow> string \<Rightarrow> string \<Rightarrow> string \<Rightarrow> ('w, unit) prog" where
  "DeleteHashedConfigMap c ns prefix newHash =
     delete_selected ''configmaps'' ''configmap'' (ConfigMaps c) ns (hashed_selector prefix newHash)"

definition DeleteHashedSecret :: "'w Client \<Rightarrow> string \<Rightarrow> string \<Rightarrow> string \<Rightarrow> ('w, unit) prog" where
  "DeleteHashedSecret c ns prefix newHash =
     delete_selected ''secrets'' ''secret'' (Secrets c) ns (hashed_selector prefix newHash)"

end
