(* ===== verification/Cluster.thy ===== *)
theory Cluster
  imports Client_Base
begin

text \<open>
  A cluster kept by the object trackers of the vendored fake clientsets: one map per kind, and the
  reactors' script of failing calls. Every kind meets the interface of the API server.
\<close>

record Cluster =
  faults :: "fault option list"
  tracked_Secrets :: "Secret store"
  tracked_ConfigMaps :: "ConfigMap store"
  tracked_Services :: "Service store"
  tracked_ServiceAccounts :: "ServiceAccount store"
  tracked_Namespaces :: "NamespaceObject store"
  tracked_Pods :: "Pod store"
  tracked_Roles :: "Role store"
  tracked_ClusterRoles :: "ClusterRole store"
  tracked_RoleBindings :: "RoleBinding store"
  tracked_ClusterRoleBindings :: "ClusterRoleBinding store"
  tracked_ValidatingWebhookConfigurations :: "ValidatingWebhookConfiguration store"
  tracked_Deployments :: "Deployment store"
  tracked_DaemonSets :: "DaemonSet store"
  tracked_StatefulSets :: "StatefulSet store"
  tracked_SCCs :: "SecurityContextConstraints store"
  tracked_Routes :: "Route store"
  tracked_APIServices :: "APIService store"
  tracked_Prometheuses :: "Prometheus store"
  tracked_Alertmanagers :: "Alertmanager store"
  tracked_ThanosRulers :: "ThanosRuler store"
  tracked_PrometheusRules :: "PrometheusRule store"
  tracked_ServiceMonitors :: "ServiceMonitor store"
  tracked_CustomResourceDefinitions :: "CustomResourceDefinition store"
  tracked_ClusterVersions :: "ClusterVersion store"
  tracked_Proxies :: "Proxy store"
  tracked_Infrastructures :: "Infrastructure store"
  tracked_ClusterOperators :: "ClusterOperator store"

definition Secrets_tracker :: "(Cluster, Secret) kind_store" where
  "Secrets_tracker = \<lparr>ks_get = tracked_Secrets, ks_put = (\<lambda>m. tracked_Secrets_update (\<lambda>_. m)),
     ks_faults = faults, ks_pop = faults_update tl\<rparr>"

definition ConfigMaps_tracker :: "(Cluster, ConfigMap) kind_store" where
  "ConfigMaps_tracker = \<lparr>ks_get = tracked_ConfigMaps, ks_put = (\<lambda>m. tracked_ConfigMaps_update (\<lambda>_. m)),
     ks_faults = faults, ks_pop = faults_update tl\<rparr>"

definition Services_tracker :: "(Cluster, Service) kind_store" where
  "Services_tracker = \<lparr>ks_get = tracked_Services, ks_put = (\<lambda>m. tracked_Services_update (\<lambda>_. m)),
     ks_faults = faults, ks_pop = faults_update tl\<rparr>"

definition ServiceAccounts_tracker :: "(Cluster, ServiceAccount) kind_store" where
  "ServiceAccounts_tracker = \<lparr>ks_get = tracked_ServiceAccounts, ks_put = (\<lambda>m. tracked_ServiceAccounts_update (\<lambda>_. m)),
     ks_faults = faults, ks_pop = faults_update tl\<rparr>"

definition Namespaces_tracker :: "(Cluster, NamespaceObject) kind_store" where
  "Namespaces_tracker = \<lparr>ks_get = tracked_Namespaces, ks_put = (\<lambda>m. tracked_Namespaces_update (\<lambda>_. m)),
     ks_faults = faults, ks_pop = faults_update tl\<rparr>"

definition Pods_tracker :: "(Cluster, Pod) kind_store" where
  "Pods_tracker = \<lparr>ks_get = tracked_Pods, ks_put = (\<lambda>m. tracked_Pods_update (\<lambda>_. m)),
     ks_faults = faults, ks_pop = faults_update tl\<rparr>"

definition Roles_tracker :: "(Cluster, Role) kind_store" where
  "Roles_tracker = \<lparr>ks_get = tracked_Roles, ks_put = (\<lambda>m. tracked_Roles_update (\<lambda>_. m)),
     ks_faults = faults, ks_pop = faults_update tl\<rparr>"

definition ClusterRoles_tracker :: "(Cluster, ClusterRole) kind_store" where
  "ClusterRoles_tracker = \<lparr>ks_get = tracked_ClusterRoles, ks_put = (\<lambda>m. tracked_ClusterRoles_update (\<lambda>_. m)),
     ks_faults = faults, ks_pop = faults_update tl\<rparr>"

definition RoleBindings_tracker :: "(Cluster, RoleBinding) kind_store" where
  "RoleBindings_tracker = \<lparr>ks_get = tracked_RoleBindings, ks_put = (\<lambda>m. tracked_RoleBindings_update (\<lambda>_. m)),
     ks_faults = faults, ks_pop = faults_update tl\<rparr>"

definition ClusterRoleBindings_tracker :: "(Cluster, ClusterRoleBinding) kind_store" where
  "ClusterRoleBindings_tracker = \<lparr>ks_get = tracked_ClusterRoleBindings, ks_put = (\<lambda>m. tracked_ClusterRoleBindings_update (\<lambda>_. m)),
     ks_faults = faults, ks_pop = faults_update tl\<rparr>"

definition ValidatingWebhookConfigurations_tracker :: "(Cluster, ValidatingWebhookConfiguration) kind_store" where
  "ValidatingWebhookConfigurations_tracker = \<lparr>ks_get = tracked_ValidatingWebhookConfigurations, ks_put = (\<lambda>m. tracked_ValidatingWebhookConfigurations_update (\<lambda>_. m)),
     ks_faults = faults, ks_pop = faults_update tl\<rparr>"

definition Deployments_tracker :: "(Cluster, Deployment) kind_store" where
  "Deployments_tracker = \<lparr>ks_get = tracked_Deployments, ks_put = (\<lambda>m. tracked_Deployments_update (\<lambda>_. m)),
     ks_faults = faults, ks_pop = faults_update tl\<rparr>"

definition DaemonSets_tracker :: "(Cluster, DaemonSet) kind_store" where
  "DaemonSets_tracker = \<lparr>ks_get = tracked_DaemonSets, ks_put = (\<lambda>m. tracked_DaemonSets_update (\<lambda>_. m)),
     ks_faults = faults, ks_pop = faults_update tl\<rparr>"

definition StatefulSets_tracker :: "(Cluster, StatefulSet) kind_store" where
  "StatefulSets_tracker = \<lparr>ks_get = tracked_StatefulSets, ks_put = (\<lambda>m. tracked_StatefulSets_update (\<lambda>_. m)),
     ks_faults = faults, ks_pop = faults_update tl\<rparr>"

definition SCCs_tracker :: "(Cluster, SecurityContextConstraints) kind_store" where
  "SCCs_tracker = \<lparr>ks_get = tracked_SCCs, ks_put = (\<lambda>m. tracked_SCCs_update (\<lambda>_. m)),
     ks_faults = faults, ks_pop = faults_update tl\<rparr>"

definition Routes_tracker :: "(Cluster, Route) kind_store" where
  "Routes_tracker = \<lparr>ks_get = tracked_Routes, ks_put = (\<lambda>m. tracked_Routes_update (\<lambda>_. m)),
     ks_faults = faults, ks_pop = faults_update tl\<rparr>"

definition APIServices_tracker :: "(Cluster, APIService) kind_store" where
  "APIServices_tracker = \<lparr>ks_get = tracked_APIServices, ks_put = (\<lambda>m. tracked_APIServices_update (\<lambda>_. m)),
     ks_faults = faults, ks_pop = faults_update tl\<rparr>"

definition Prometheuses_tracker :: "(Cluster, Prometheus) kind_store" where
  "Prometheuses_tracker = \<lparr>ks_get = tracked_Prometheuses, ks_put = (\<lambda>m. tracked_Prometheuses_update (\<lambda>_. m)),
     ks_faults = faults, ks_pop = faults_update tl\<rparr>"

definition Alertmanagers_tracker :: "(Cluster, Alertmanager) kind_store" where
  "Alertmanagers_tracker = \<lparr>ks_get = tracked_Alertmanagers, ks_put = (\<lambda>m. tracked_Alertmanagers_update (\<lambda>_. m)),
     ks_faults = faults, ks_pop = faults_update tl\<rparr>"

definition ThanosRulers_tracker :: "(Cluster, ThanosRuler) kind_store" where
  "ThanosRulers_tracker = \<lparr>ks_get = tracked_ThanosRulers, ks_put = (\<lambda>m. tracked_ThanosRulers_update (\<lambda>_. m)),
     ks_faults = faults, ks_pop = faults_update tl\<rparr>"

definition PrometheusRules_tracker :: "(Cluster, PrometheusRule) kind_store" where
  "PrometheusRules_tracker = \<lparr>ks_get = tracked_PrometheusRules, ks_put = (\<lambda>m. tracked_PrometheusRules_update (\<lambda>_. m)),
     ks_faults = faults, ks_pop = faults_update tl\<rparr>"

definition ServiceMonitors_tracker :: "(Cluster, ServiceMonitor) kind_store" where
  "ServiceMonitors_tracker = \<lparr>ks_get = tracked_ServiceMonitors, ks_put = (\<lambda>m. tracked_ServiceMonitors_update (\<lambda>_. m)),
     ks_faults = faults, ks_pop = faults_update tl\<rparr>"

definition CustomResourceDefinitions_tracker :: "(Cluster, CustomResourceDefinition) kind_store" where
  "CustomResourceDefinitions_tracker = \<lparr>ks_get = tracked_CustomResourceDefinitions, ks_put = (\<lambda>m. tracked_CustomResourceDefinitions_update (\<lambda>_. m)),
     ks_faults = faults, ks_pop = faults_update tl\<rparr>"

definition ClusterVersions_tracker :: "(Cluster, ClusterVersion) kind_store" where
  "ClusterVersions_tracker = \<lparr>ks_get = tracked_ClusterVersions, ks_put = (\<lambda>m. tracked_ClusterVersions_update (\<lambda>_. m)),
     ks_faults = faults, ks_pop = faults_update tl\<rparr>"

definition Proxies_tracker :: "(Cluster, Proxy) kind_store" where
  "Proxies_tracker = \<lparr>ks_get = tracked_Proxies, ks_put = (\<lambda>m. tracked_Proxies_update (\<lambda>_. m)),
     ks_faults = faults, ks_pop = faults_update tl\<rparr>"

definition Infrastructures_tracker :: "(Cluster, Infrastructure) kind_store" where
  "Infrastructures_tracker = \<lparr>ks_get = tracked_Infrastructures, ks_put = (\<lambda>m. tracked_Infrastructures_update (\<lambda>_. m)),
     ks_faults = faults, ks_pop = faults_update tl\<rparr>"

definition ClusterOperators_tracker :: "(Cluster, ClusterOperator) kind_store" where
  "ClusterOperators_tracker = \<lparr>ks_get = tracked_ClusterOperators, ks_put = (\<lambda>m. tracked_ClusterOperators_update (\<lambda>_. m)),
     ks_faults = faults, ks_pop = faults_update tl\<rparr>"

text \<open>A client of this cluster; what the operands' status functions report and what happens while a
  poll waits are arguments.\<close>

definition fake_client :: "string \<Rightarrow> string \<Rightarrow> (Prometheus \<Rightarrow> (Cluster, ReplicaStatus) prog) \<Rightarrow>
    (Alertmanager \<Rightarrow> (Cluster, ReplicaStatus) prog) \<Rightarrow> (ThanosRuler \<Rightarrow> (Cluster, ReplicaStatus) prog) \<Rightarrow>
    Cluster poller \<Rightarrow> Cluster Client" where
  "fake_client ns userNs promStatus amStatus trStatus tick = \<lparr>
     version = '''', namespace = ns, userWorkloadNamespace = userNs, namespaceSelector = '''',
     Secrets = tracker_resource Secrets_tracker,
     ConfigMaps = tracker_resource ConfigMaps_tracker,
     Services = tracker_resource Services_tracker,
     ServiceAccounts = tracker_resource ServiceAccounts_tracker,
     Namespaces = tracker_resource Namespaces_tracker,
     Pods = tracker_resource Pods_tracker,
     Roles = tracker_resource Roles_tracker,
     ClusterRoles = tracker_resource ClusterRoles_tracker,
     RoleBindings = tracker_resource RoleBindings_tracker,
     ClusterRoleBindings = tracker_resource ClusterRoleBindings_tracker,
     ValidatingWebhookConfigurations = tracker_resource ValidatingWebhookConfigurations_tracker,
     Deployments = tracker_resource Deployments_tracker,
     DaemonSets = tracker_resource DaemonSets_tracker,
     StatefulSets = tracker_resource StatefulSets_tracker,
     SCCs = tracker_resource SCCs_tracker,
     Routes = tracker_resource Routes_tracker,
     APIServices = tracker_resource APIServices_tracker,
     Prometheuses = tracker_resource Prometheuses_tracker,
     Alertmanagers = tracker_resource Alertmanagers_tracker,
     ThanosRulers = tracker_resource ThanosRulers_tracker,
     PrometheusRules = tracker_resource PrometheusRules_tracker,
     ServiceMonitors = tracker_resource ServiceMonitors_tracker,
     CustomResourceDefinitions = tracker_resource CustomResourceDefinitions_tracker,
     ClusterVersions = tracker_resource ClusterVersions_tracker,
     Proxies = tracker_resource Proxies_tracker,
     Infrastructures = tracker_resource Infrastructures_tracker,
     ClusterOperators = tracker_resource ClusterOperators_tracker,
     PrometheusStatus = promStatus, AlertmanagerStatus = amStatus, ThanosRulerStatus = trStatus,
     next_tick = tick\<rparr>"

text \<open>A cluster without objects and without faults.\<close>

definition empty_cluster :: Cluster where
  "empty_cluster = \<lparr>faults = [],
     tracked_Secrets = fmempty,
     tracked_ConfigMaps = fmempty,
     tracked_Services = fmempty,
     tracked_ServiceAccounts = fmempty,
     tracked_Namespaces = fmempty,
     tracked_Pods = fmempty,
     tracked_Roles = fmempty,
     tracked_ClusterRoles = fmempty,
     tracked_RoleBindings = fmempty,
     tracked_ClusterRoleBindings = fmempty,
     tracked_ValidatingWebhookConfigurations = fmempty,
     tracked_Deployments = fmempty,
     tracked_DaemonSets = fmempty,
     tracked_StatefulSets = fmempty,
     tracked_SCCs = fmempty,
     tracked_Routes = fmempty,
     tracked_APIServices = fmempty,
     tracked_Prometheuses = fmempty,
     tracked_Alertmanagers = fmempty,
     tracked_ThanosRulers = fmempty,
     tracked_PrometheusRules = fmempty,
     tracked_ServiceMonitors = fmempty,
     tracked_CustomResourceDefinitions = fmempty,
     tracked_ClusterVersions = fmempty,
     tracked_Proxies = fmempty,
     tracked_Infrastructures = fmempty,
     tracked_ClusterOperators = fmempty\<rparr>"

lemma lawful_trackers [simp]:
  "lawful_store Secrets_tracker"
  "lawful_store ConfigMaps_tracker"
  "lawful_store Services_tracker"
  "lawful_store ServiceAccounts_tracker"
  "lawful_store Namespaces_tracker"
  "lawful_store Pods_tracker"
  "lawful_store Roles_tracker"
  "lawful_store ClusterRoles_tracker"
  "lawful_store RoleBindings_tracker"
  "lawful_store ClusterRoleBindings_tracker"
  "lawful_store ValidatingWebhookConfigurations_tracker"
  "lawful_store Deployments_tracker"
  "lawful_store DaemonSets_tracker"
  "lawful_store StatefulSets_tracker"
  "lawful_store SCCs_tracker"
  "lawful_store Routes_tracker"
  "lawful_store APIServices_tracker"
  "lawful_store Prometheuses_tracker"
  "lawful_store Alertmanagers_tracker"
  "lawful_store ThanosRulers_tracker"
  "lawful_store PrometheusRules_tracker"
  "lawful_store ServiceMonitors_tracker"
  "lawful_store CustomResourceDefinitions_tracker"
  "lawful_store ClusterVersions_tracker"
  "lawful_store Proxies_tracker"
  "lawful_store Infrastructures_tracker"
  "lawful_store ClusterOperators_tracker"
  by (simp_all add: lawful_store_def Secrets_tracker_def ConfigMaps_tracker_def Services_tracker_def ServiceAccounts_tracker_def Namespaces_tracker_def Pods_tracker_def Roles_tracker_def ClusterRoles_tracker_def RoleBindings_tracker_def ClusterRoleBindings_tracker_def ValidatingWebhookConfigurations_tracker_def Deployments_tracker_def DaemonSets_tracker_def StatefulSets_tracker_def SCCs_tracker_def Routes_tracker_def APIServices_tracker_def Prometheuses_tracker_def Alertmanagers_tracker_def ThanosRulers_tracker_def PrometheusRules_tracker_def ServiceMonitors_tracker_def CustomResourceDefinitions_tracker_def ClusterVersions_tracker_def Proxies_tracker_def Infrastructures_tracker_def ClusterOperators_tracker_def)

interpretation tracked_Secret: api_resource "tracker_resource Secrets_tracker" "tracker_view Secrets_tracker" tracker_accepts
  by (rule api_resource_tracker) simp

interpretation tracked_ConfigMap: api_resource "tracker_resource ConfigMaps_tracker" "tracker_view ConfigMaps_tracker" tracker_accepts
  by (rule api_resource_tracker) simp

interpretation tracked_Service: api_resource "tracker_resource Services_tracker" "tracker_view Services_tracker" tracker_accepts
  by (rule api_resource_tracker) simp

interpretation tracked_ServiceAccount: api_resource "tracker_resource ServiceAccounts_tracker" "tracker_view ServiceAccounts_tracker" tracker_accepts
  by (rule api_resource_tracker) simp

interpretation tracked_NamespaceObject: api_resource "tracker_resource Namespaces_tracker" "tracker_view Namespaces_tracker" tracker_accepts
  by (rule api_resource_tracker) simp

interpretation tracked_Pod: api_resource "tracker_resource Pods_tracker" "tracker_view Pods_tracker" tracker_accepts
  by (rule api_resource_tracker) simp

interpretation tracked_Role: api_resource "tracker_resource Roles_tracker" "tracker_view Roles_tracker" tracker_accepts
  by (rule api_resource_tracker) simp

interpretation tracked_ClusterRole: api_resource "tracker_resource ClusterRoles_tracker" "tracker_view ClusterRoles_tracker" tracker_accepts
  by (rule api_resource_tracker) simp

interpretation tracked_RoleBinding: api_resource "tracker_resource RoleBindings_tracker" "tracker_view RoleBindings_tracker" tracker_accepts
  by (rule api_resource_tracker) simp

interpretation tracked_ClusterRoleBinding: api_resource "tracker_resource ClusterRoleBindings_tracker" "tracker_view ClusterRoleBindings_tracker" tracker_accepts
  by (rule api_resource_tracker) simp

interpretation tracked_ValidatingWebhookConfiguration: api_resource "tracker_resource ValidatingWebhookConfigurations_tracker" "tracker_view ValidatingWebhookConfigurations_tracker" tracker_accepts
  by (rule api_resource_tracker) simp

interpretation tracked_Deployment: api_resource "tracker_resource Deployments_tracker" "tracker_view Deployments_tracker" tracker_accepts
  by (rule api_resource_tracker) simp

interpretation tracked_DaemonSet: api_resource "tracker_resource DaemonSets_tracker" "tracker_view DaemonSets_tracker" tracker_accepts
  by (rule api_resource_tracker) simp

interpretation tracked_StatefulSet: api_resource "tracker_resource StatefulSets_tracker" "tracker_view StatefulSets_tracker" tracker_accepts
  by (rule api_resource_tracker) simp

interpretation tracked_SecurityContextConstraints: api_resource "tracker_resource SCCs_tracker" "tracker_view SCCs_tracker" tracker_accepts
  by (rule api_resource_tracker) simp

interpretation tracked_Route: api_resource "tracker_resource Routes_tracker" "tracker_view Routes_tracker" tracker_accepts
  by (rule api_resource_tracker) simp

interpretation tracked_APIService: api_resource "tracker_resource APIServices_tracker" "tracker_view APIServices_tracker" tracker_accepts
  by (rule api_resource_tracker) simp

interpretation tracked_Prometheus: api_resource "tracker_resource Prometheuses_tracker" "tracker_view Prometheuses_tracker" tracker_accepts
  by (rule api_resource_tracker) simp

interpretation tracked_Alertmanager: api_resource "tracker_resource Alertmanagers_tracker" "tracker_view Alertmanagers_tracker" tracker_accepts
  by (rule api_resource_tracker) simp

interpretation tracked_ThanosRuler: api_resource "tracker_resource ThanosRulers_tracker" "tracker_view ThanosRulers_tracker" tracker_accepts
  by (rule api_resource_tracker) simp

interpretation tracked_PrometheusRule: api_resource "tracker_resource PrometheusRules_tracker" "tracker_view PrometheusRules_tracker" tracker_accepts
  by (rule api_resource_tracker) simp

interpretation tracked_ServiceMonitor: api_resource "tracker_resource ServiceMonitors_tracker" "tracker_view ServiceMonitors_tracker" tracker_accepts
  by (rule api_resource_tracker) simp

interpretation tracked_CustomResourceDefinition: api_resource "tracker_resource CustomResourceDefinitions_tracker" "tracker_view CustomResourceDefinitions_tracker" tracker_accepts
  by (rule api_resource_tracker) simp

interpretation tracked_ClusterVersion: api_resource "tracker_resource ClusterVersions_tracker" "tracker_view ClusterVersions_tracker" tracker_accepts
  by (rule api_resource_tracker) simp

interpretation tracked_Proxy: api_resource "tracker_resource Proxies_tracker" "tracker_view Proxies_tracker" tracker_accepts
  by (rule api_resource_tracker) simp

interpretation tracked_Infrastructure: api_resource "tracker_resource Infrastructures_tracker" "tracker_view Infrastructures_tracker" tracker_accepts
  by (rule api_resource_tracker) simp

interpretation tracked_ClusterOperator: api_resource "tracker_resource ClusterOperators_tracker" "tracker_view ClusterOperators_tracker" tracker_accepts
  by (rule api_resource_tracker) simp

text \<open>A client of the tracked cluster on which nothing happens during a poll.\<close>

definition quiet_client :: "Cluster Client" where
  "quiet_client = fake_client ''openshift-monitoring'' ''openshift-user-workload-monitoring''
     (\<lambda>_. p_return (Ok \<lparr>RS_UpdatedReplicas = 2, RS_AvailableReplicas = 2\<rparr>))
     (\<lambda>_. p_return (Ok \<lparr>RS_UpdatedReplicas = 3, RS_AvailableReplicas = 3\<rparr>))
     (\<lambda>_. p_return (Ok \<lparr>RS_UpdatedReplicas = 2, RS_AvailableReplicas = 2\<rparr>))
     (\<lambda>w. (True, w))"

lemma quiet_client_simps [simp]:
  "Secrets quiet_client = tracker_resource Secrets_tracker"
  "ConfigMaps quiet_client = tracker_resource ConfigMaps_tracker"
  "Services quiet_client = tracker_resource Services_tracker"
  "ServiceAccounts quiet_client = tracker_resource ServiceAccounts_tracker"
  "Namespaces quiet_client = tracker_resource Namespaces_tracker"
  "Pods quiet_client = tracker_resource Pods_tracker"
  "Roles quiet_client = tracker_resource Roles_tracker"
  "ClusterRoles quiet_client = tracker_resource ClusterRoles_tracker"
  "RoleBindings quiet_client = tracker_resource RoleBindings_tracker"
  "ClusterRoleBindings quiet_client = tracker_resource ClusterRoleBindings_tracker"
  "ValidatingWebhookConfigurations quiet_client = tracker_resource ValidatingWebhookConfigurations_tracker"
  "Deployments quiet_client = tracker_resource Deployments_tracker"
  "DaemonSets quiet_client = tracker_resource DaemonSets_tracker"
  "StatefulSets quiet_client = tracker_resource StatefulSets_tracker"
  "SCCs quiet_client = tracker_resource SCCs_tracker"
  "Routes quiet_client = tracker_resource Routes_tracker"
  "APIServices quiet_client = tracker_resource APIServices_tracker"
  "Prometheuses quiet_client = tracker_resource Prometheuses_tracker"
  "Alertmanagers quiet_client = tracker_resource Alertmanagers_tracker"
  "ThanosRulers quiet_client = tracker_resource ThanosRulers_tracker"
  "PrometheusRules quiet_client = tracker_resource PrometheusRules_tracker"
  "ServiceMonitors quiet_client = tracker_resource ServiceMonitors_tracker"
  "CustomResourceDefinitions quiet_client = tracker_resource CustomResourceDefinitions_tracker"
  "ClusterVersions quiet_client = tracker_resource ClusterVersions_tracker"
  "Proxies quiet_client = tracker_resource Proxies_tracker"
  "Infrastructures quiet_client = tracker_resource Infrastructures_tracker"
  "ClusterOperators quiet_client = tracker_resource ClusterOperators_tracker"
  "namespace quiet_client = ''openshift-monitoring''"
  "userWorkloadNamespace quiet_client = ''openshift-user-workload-monitoring''"
  "next_tick quiet_client = (\<lambda>w. (True, w))"
  by (simp_all add: quiet_client_def fake_client_def)

text \<open>Sample objects.\<close>

definition object_meta :: "string \<Rightarrow> string \<Rightarrow> (string \<times> string) list \<Rightarrow> ObjectMeta" where
  "object_meta ns n labels = \<lparr>Name = n, Namespace = ns, Labels = gm_of_list labels, Annotations = None,
     ResourceVersion = '''', Generation = 0\<rparr>"

definition sample_secret :: "string \<Rightarrow> string \<Rightarrow> (string \<times> string) list \<Rightarrow> (string \<times> string) list \<Rightarrow> Secret" where
  "sample_secret ns n labels data = ObjectMeta.extend (object_meta ns n labels)
     \<lparr>Secret_Type = ''Opaque'', Data = gm_of_list data, StringData = None\<rparr>"

definition sample_configmap :: "string \<Rightarrow> string \<Rightarrow> (string \<times> string) list \<Rightarrow> (string \<times> string) list \<Rightarrow> ConfigMap" where
  "sample_configmap ns n labels data = ObjectMeta.extend (object_meta ns n labels) \<lparr>CM_Data = gm_of_list data\<rparr>"

definition sample_role :: "string \<Rightarrow> string \<Rightarrow> Role" where
  "sample_role ns n = ObjectMeta.extend (object_meta ns n []) \<lparr>Role_Rules = ''get''\<rparr>"

definition sample_clusterrole :: "string \<Rightarrow> ClusterRole" where
  "sample_clusterrole n = ObjectMeta.extend (object_meta '''' n []) \<lparr>ClusterRole_Rules = ''get''\<rparr>"

definition sample_service :: "string \<Rightarrow> string \<Rightarrow> string \<Rightarrow> Service" where
  "sample_service ns n ip = ObjectMeta.extend (object_meta ns n [])
     \<lparr>Service_Spec = \<lparr>Service_Type = ''ClusterIP'', ClusterIP = ip, Service_rest = ''''\<rparr>\<rparr>"

definition sample_deployment :: "string \<Rightarrow> string \<Rightarrow> int \<Rightarrow> Deployment" where
  "sample_deployment ns n unavailable = ObjectMeta.extend (object_meta ns n [])
     \<lparr>Deployment_Spec = \<lparr>
        Template_Spec = \<lparr>Containers = [], InitContainers = [], Volumes = [], NodeSelector = None,
          Tolerations = [], PodSpec_rest = ''''\<rparr>,
        DeploymentSpec_rest = ''''\<rparr>,
      Deployment_Status = \<lparr>ObservedGeneration = 0, Replicas = 1, UpdatedReplicas = 1,
        UnavailableReplicas = unavailable\<rparr>\<rparr>"

lemmas sample_defs = sample_secret_def sample_configmap_def sample_role_def sample_clusterrole_def
  sample_service_def sample_deployment_def object_meta_def ObjectMeta.defs

text \<open>Evaluation of calls on the tracked cluster.\<close>

lemmas run_simps = get_or_create_def get_or_def create_object_def update_object_def discard_def
  delete_if_present_def p_catch_def p_bind_def p_wrap_def attempt_def tracker_resource_def react_def
  tracker_Get_def tracker_add_def tracker_Delete_def Let_def

lemmas tracker_defs = Secrets_tracker_def ConfigMaps_tracker_def Services_tracker_def ServiceAccounts_tracker_def Namespaces_tracker_def Pods_tracker_def Roles_tracker_def ClusterRoles_tracker_def RoleBindings_tracker_def ClusterRoleBindings_tracker_def ValidatingWebhookConfigurations_tracker_def Deployments_tracker_def DaemonSets_tracker_def StatefulSets_tracker_def SCCs_tracker_def Routes_tracker_def APIServices_tracker_def Prometheuses_tracker_def Alertmanagers_tracker_def ThanosRulers_tracker_def PrometheusRules_tracker_def ServiceMonitors_tracker_def CustomResourceDefinitions_tracker_def ClusterVersions_tracker_def Proxies_tracker_def Infrastructures_tracker_def ClusterOperators_tracker_def

end
