(* ===== verification/Client_Spec.thy ===== *)
theory Client_Spec
  imports Client_Apply Cluster
begin

text \<open>
  The contracts of the client's methods, over any API server that keeps the laws of
  \<open>api_resource\<close>; the tracked cluster is the instance that the witnesses use.
\<close>

lemma ensures_objectD:
  "ensures_object view accepts ns x prep m \<Longrightarrow> m w = (r, w') \<Longrightarrow> (case r of
      Ok _ \<Rightarrow> (case (case view w (ns, Name x) of None \<Rightarrow> Some x | Some old \<Rightarrow> prep old) of
                  None \<Rightarrow> view w' = view w
                | Some req \<Rightarrow> \<exists>y. accepts req y \<and> view w' = (view w)((ns, Name x) \<mapsto> y))
    | Err _ \<Rightarrow> view w' = view w
    | Panic \<Rightarrow> False)"
  by (simp add: ensures_object_def)

section \<open>Objects under their own names\<close>

definition well_keyed :: "(string \<times> string \<Rightarrow> 'z ObjectMeta_scheme option) \<Rightarrow> bool" where
  "well_keyed v \<longleftrightarrow> (\<forall>m n x. v (m, n) = Some x \<longrightarrow> Name x = n)"

lemma well_keyed_remove: "well_keyed v \<Longrightarrow> well_keyed (v(k := None))"
  by (auto simp: well_keyed_def)

context api_resource begin

lemma well_keyed_store:
  "well_keyed v \<Longrightarrow> accepts x y \<Longrightarrow> well_keyed (v((ns, Name x) \<mapsto> y))"
  by (auto simp: well_keyed_def dest: accepts_meta)

text \<open>Deleting a list of objects by name, stopping at the first error.\<close>

lemma delete_each_effect:
  assumes "p_for items (\<lambda>x. p_wrap (msg x) (r_Delete R ns (Name x) opts)) w = (r, w')"
  shows "case r of
      Ok _ \<Rightarrow> view w' = (\<lambda>k. if k \<in> (\<lambda>x. (ns, Name x)) ` set items then None else view w k)
    | Err _ \<Rightarrow> (\<exists>D. D \<subseteq> (\<lambda>x. (ns, Name x)) ` set items \<and> view w' = (\<lambda>k. if k \<in> D then None else view w k))
    | Panic \<Rightarrow> False"
  using assms
proof (induction items arbitrary: w)
  case Nil
  then show ?case by auto
next
  case (Cons x items)
  obtain s u where d: "r_Delete R ns (Name x) opts w = (s, u)"
    by (cases "r_Delete R ns (Name x) opts w")
  show ?case
  proof (cases s)
    case (Ok v)
    with d delete_ok [of ns "Name x" opts w v u] have vu: "view u = (view w)((ns, Name x) := None)" by simp
    from Ok d Cons.prems have "p_for items (\<lambda>x. p_wrap (msg x) (r_Delete R ns (Name x) opts)) u = (r, w')"
      by (simp add: p_bind_def p_wrap_def)
    note IH = Cons.IH [OF this]
    show ?thesis
    proof (cases r)
      case (Ok a)
      with IH vu show ?thesis by (auto simp: fun_eq_iff)
    next
      case (Err e)
      with IH obtain D where "D \<subseteq> (\<lambda>x. (ns, Name x)) ` set items"
        "view w' = (\<lambda>k. if k \<in> D then None else view u k)" by auto
      with vu have "insert (ns, Name x) D \<subseteq> (\<lambda>x. (ns, Name x)) ` set (x # items) \<and>
        view w' = (\<lambda>k. if k \<in> insert (ns, Name x) D then None else view w k)"
        by (auto simp: fun_eq_iff)
      then show ?thesis unfolding Err res.case by (rule exI)
    next
      case Panic
      with IH show ?thesis by simp
    qed
  next
    case (Err e)
    with d delete_err [of ns "Name x" opts w e u] Cons.prems
    have r: "r = Err (Wrapped (msg x) e)" and v: "view w' = view w" by (auto simp: p_bind_def p_wrap_def)
    from v have "{} \<subseteq> (\<lambda>x. (ns, Name x)) ` set (x # items) \<and>
      view w' = (\<lambda>k. if k \<in> {} then None else view w k)" by simp
    then show ?thesis unfolding r res.case by (rule exI)
  next
    case Panic
    with d writes_return(4) [of ns "Name x" opts w] show ?thesis by simp
  qed
qed

lemma delete_selected_Ok:
  assumes "well_keyed (view w)" and "ns \<noteq> ''''"
    and "delete_selected many one R ns ls w = (Ok u, w')"
  shows "view w' (m, n) = (if m = ns \<and> (\<exists>x. view w (m, n) = Some x \<and> selector_matches ls (Labels x))
    then None else view w (m, n))"
proof -
  from assms(3) obtain items w1 where l: "r_List R ns ls w = (Ok items, w1)"
    and d: "p_for items (\<lambda>x. p_wrap (''error deleting '' @ one @ '': '' @ ns @ ''/'' @ Name x)
      (r_Delete R ns (Name x) DeleteDefault)) w1 = (Ok u, w')"
    by (auto simp: delete_selected_def prog_simps)
  from list_ok [OF l] assms(2) have v: "view w1 = view w"
    and s: "set items = {x. \<exists>n. view w (ns, n) = Some x \<and> selector_matches ls (Labels x)}" by auto
  have "(ns, n) \<in> (\<lambda>x. (ns, Name x)) ` set items \<longleftrightarrow>
      (\<exists>x. view w (ns, n) = Some x \<and> selector_matches ls (Labels x))" for n
    using assms(1) unfolding s well_keyed_def by auto
  with delete_each_effect [OF d] v show ?thesis by auto
qed

end

section \<open>Create or update\<close>

text \<open>
  C12. For the kinds whose update only merges metadata, the method implements its abstract
  specification over any lawful API server: when it returns nil the object is stored as required,
  or as required with the existing object's metadata merged in; an error means that nothing was
  stored; no other object is touched.
\<close>

theorem CreateOrUpdate_merging:
  assumes "api_resource (Secrets c) vs as" and "api_resource (ConfigMaps c) vc ac"
    and "api_resource (Roles c) vr ar" and "api_resource (ClusterRoles c) vk ak"
  shows "ensures_object vs as (Namespace s) s (\<lambda>old. Some (mergeMetadata s old)) (CreateOrUpdateSecret c s) \<and>
    ensures_object vc ac (Namespace cm) cm (\<lambda>old. Some (mergeMetadata cm old)) (CreateOrUpdateConfigMap c cm) \<and>
    ensures_object vr ar (Namespace r) r (\<lambda>old. Some (mergeMetadata r old)) (CreateOrUpdateRole c r) \<and>
    ensures_object vk ak '''' k (\<lambda>old. Some (mergeMetadata k old)) (CreateOrUpdateClusterRole c k)"
  unfolding CreateOrUpdateSecret_def CreateOrUpdateConfigMap_def CreateOrUpdateRole_def CreateOrUpdateClusterRole_def
  by (intro conjI api_resource.ensures_upsert assms mergeMetadata_simps)

theorem CreateOrUpdate_merging_witness:
  "ensures_object (tracker_view Secrets_tracker) tracker_accepts ''openshift-monitoring''
     (sample_secret ''openshift-monitoring'' ''grpc-tls'' [] [(''ca.crt'', ''CA'')])
     (\<lambda>old. Some (mergeMetadata (sample_secret ''openshift-monitoring'' ''grpc-tls'' [] [(''ca.crt'', ''CA'')]) old))
     (CreateOrUpdateSecret quiet_client
       (sample_secret ''openshift-monitoring'' ''grpc-tls'' [] [(''ca.crt'', ''CA'')]))"
  using CreateOrUpdate_merging [of quiet_client "tracker_view Secrets_tracker" tracker_accepts
      "tracker_view ConfigMaps_tracker" tracker_accepts "tracker_view Roles_tracker" tracker_accepts
      "tracker_view ClusterRoles_tracker" tracker_accepts
      "sample_secret ''openshift-monitoring'' ''grpc-tls'' [] [(''ca.crt'', ''CA'')]"
      "sample_configmap ''openshift-monitoring'' ''cm'' [] []" "sample_role ''ns'' ''r''" "sample_clusterrole ''k''"]
    tracked_Secret.api_resource_axioms tracked_ConfigMap.api_resource_axioms
    tracked_Role.api_resource_axioms tracked_ClusterRole.api_resource_axioms
  by (simp add: sample_secret_def object_meta_def ObjectMeta.defs)

text \<open>
  C19. For the monitoring kinds and the security context constraints the stored object also carries
  the resource version of the object that was read, so that a concurrent change is a conflict.
\<close>

theorem CreateOrUpdate_versioned:
  assumes "api_resource (Prometheuses c) vp ap" and "api_resource (Alertmanagers c) va aa"
    and "api_resource (ThanosRulers c) vt at" and "api_resource (PrometheusRules c) vr ar"
    and "api_resource (ServiceMonitors c) vm am" and "api_resource (SCCs c) vx ax"
  shows "ensures_object vp ap (Namespace p) p
      (\<lambda>old. Some ((mergeMetadata p old)\<lparr>ResourceVersion := ResourceVersion old\<rparr>)) (CreateOrUpdatePrometheus c p) \<and>
    ensures_object va aa (Namespace a) a
      (\<lambda>old. Some ((mergeMetadata a old)\<lparr>ResourceVersion := ResourceVersion old\<rparr>)) (CreateOrUpdateAlertmanager c a) \<and>
    ensures_object vt at (Namespace t) t
      (\<lambda>old. Some ((mergeMetadata t old)\<lparr>ResourceVersion := ResourceVersion old\<rparr>)) (CreateOrUpdateThanosRuler c t) \<and>
    ensures_object vr ar (Namespace r) r
      (\<lambda>old. Some ((mergeMetadata r old)\<lparr>ResourceVersion := ResourceVersion old\<rparr>)) (CreateOrUpdatePrometheusRule c r) \<and>
    ensures_object vm am (Namespace m) m
      (\<lambda>old. Some ((mergeMetadata m old)\<lparr>ResourceVersion := ResourceVersion old\<rparr>)) (CreateOrUpdateServiceMonitor c m) \<and>
    ensures_object vx ax '''' x
      (\<lambda>old. Some ((mergeMetadata x old)\<lparr>ResourceVersion := ResourceVersion old\<rparr>)) (CreateOrUpdateSecurityContextConstraints c x)"
  unfolding CreateOrUpdatePrometheus_def CreateOrUpdateAlertmanager_def CreateOrUpdateThanosRuler_def
    CreateOrUpdatePrometheusRule_def CreateOrUpdateServiceMonitor_def
    CreateOrUpdateSecurityContextConstraints_def with_resource_version_def
  by (intro conjI api_resource.ensures_upsert assms) simp_all

theorem CreateOrUpdate_versioned_witness:
  "ensures_object (tracker_view PrometheusRules_tracker) tracker_accepts ''openshift-monitoring''
     (ObjectMeta.extend (object_meta ''openshift-monitoring'' ''rules'' []) \<lparr>Groups = []\<rparr>)
     (\<lambda>old. Some ((mergeMetadata (ObjectMeta.extend (object_meta ''openshift-monitoring'' ''rules'' []) \<lparr>Groups = []\<rparr>) old)
        \<lparr>ResourceVersion := ResourceVersion old\<rparr>))
     (CreateOrUpdatePrometheusRule quiet_client
        (ObjectMeta.extend (object_meta ''openshift-monitoring'' ''rules'' []) \<lparr>Groups = []\<rparr>))"
proof -
  have ns: "Namespace (ObjectMeta.extend (object_meta ''openshift-monitoring'' ''rules'' []) \<lparr>Groups = []\<rparr>) =
    ''openshift-monitoring''" by (simp add: object_meta_def ObjectMeta.defs)
  have A: "api_resource (Prometheuses quiet_client) (tracker_view Prometheuses_tracker) tracker_accepts"
    "api_resource (Alertmanagers quiet_client) (tracker_view Alertmanagers_tracker) tracker_accepts"
    "api_resource (ThanosRulers quiet_client) (tracker_view ThanosRulers_tracker) tracker_accepts"
    "api_resource (PrometheusRules quiet_client) (tracker_view PrometheusRules_tracker) tracker_accepts"
    "api_resource (ServiceMonitors quiet_client) (tracker_view ServiceMonitors_tracker) tracker_accepts"
    "api_resource (SCCs quiet_client) (tracker_view SCCs_tracker) tracker_accepts"
    by (simp_all add: api_resource_tracker)
  show ?thesis
    by (rule CreateOrUpdate_versioned [OF A, THEN conjunct2, THEN conjunct2, THEN conjunct2, THEN conjunct1,
          of "ObjectMeta.extend (object_meta ''openshift-monitoring'' ''rules'' []) \<lparr>Groups = []\<rparr>", unfolded ns])
qed

text \<open>
  C30. Updating a service keeps the cluster IP that the cluster assigned: a service of type
  \<open>ClusterIP\<close> is written with the address of the stored one, and it is written only if its
  specification, with that address, differs from the stored one.
\<close>

theorem CreateOrUpdateService_keeps_ClusterIP:
  assumes "api_resource (Services c) view accepts"
    and "view w (Namespace svc, Name svc) = Some old"
    and "Service_Type (Service_Spec svc) = ''ClusterIP''"
    and "CreateOrUpdateService c svc w = (r, w')" and "view w' \<noteq> view w"
  shows "r = Ok () \<and> Service_Spec old \<noteq> (Service_Spec svc)\<lparr>ClusterIP := ClusterIP (Service_Spec old)\<rparr> \<and>
    (\<exists>req stored. accepts req stored \<and>
      view w' = (view w)((Namespace svc, Name svc) \<mapsto> stored) \<and>
      Service_Spec req = (Service_Spec svc)\<lparr>ClusterIP := ClusterIP (Service_Spec old)\<rparr> \<and>
      ResourceVersion req = ResourceVersion old)"
proof -
  let ?req = "\<lambda>old. mergeMetadata (required_service svc old) old"
  have name: "Name (?req old) = Name svc" for old
    by (simp add: required_service_def Let_def)
  have rv: "ResourceVersion (?req old) = ResourceVersion old"
    by (simp add: required_service_def Let_def)
  have spec: "Service_Spec (required_service svc old) = (Service_Spec svc)\<lparr>ClusterIP := ClusterIP (Service_Spec old)\<rparr>"
    using assms(3) by (simp add: required_service_def with_resource_version_def Let_def)
  have ens: "ensures_object view accepts (Namespace svc) svc
    (\<lambda>old. if Service_Spec (required_service svc old) = Service_Spec old then None else Some (?req old))
    (CreateOrUpdateService c svc)"
    unfolding CreateOrUpdateService_def by (rule api_resource.ensures_upsert_unless [OF assms(1) name])
  have same: "Service_Spec (?req old) = Service_Spec (required_service svc old)"
    by (simp add: mergeMetadata_def)
  note effect = ensures_objectD [OF ens assms(4)]
  show ?thesis
  proof (cases r)
    case (Ok u)
    with effect assms(2,5) have "Service_Spec (required_service svc old) \<noteq> Service_Spec old"
      by (auto split: if_splits)
    with Ok effect assms(2) obtain y where "accepts (?req old) y"
      "view w' = (view w)((Namespace svc, Name svc) \<mapsto> y)" by auto
    with Ok spec same rv \<open>Service_Spec (required_service svc old) \<noteq> Service_Spec old\<close>
    show ?thesis by fastforce
  qed (use effect assms(5) in auto)
qed

theorem CreateOrUpdateService_keeps_ClusterIP_witness:
  "fst (CreateOrUpdateService quiet_client ((sample_service ''ns'' ''prom'' '''')\<lparr>Service_Spec := \<lparr>Service_Type = ''ClusterIP'', ClusterIP = '''', Service_rest = ''new''\<rparr>\<rparr>)
    (empty_cluster\<lparr>tracked_Services := fmap_of_list [((''ns'', ''prom''), sample_service ''ns'' ''prom'' ''10.0.0.1'')]\<rparr>)) = Ok ()"
proof -
  let ?svc = "(sample_service ''ns'' ''prom'' '''')\<lparr>Service_Spec := \<lparr>Service_Type = ''ClusterIP'', ClusterIP = '''', Service_rest = ''new''\<rparr>\<rparr>"
  let ?old = "sample_service ''ns'' ''prom'' ''10.0.0.1''"
  let ?w = "empty_cluster\<lparr>tracked_Services := fmap_of_list [((''ns'', ''prom''), ?old)]\<rparr>"
  have eval: "fmlookup (tracked_Services (snd (CreateOrUpdateService quiet_client ?svc ?w))) (''ns'', ''prom'') \<noteq> Some ?old"
    by (simp add: CreateOrUpdateService_def run_simps Services_tracker_def required_service_def
        mergeMetadata_def with_resource_version_def sample_defs empty_cluster_def)
  obtain r w' where run: "CreateOrUpdateService quiet_client ?svc ?w = (r, w')"
    by (cases "CreateOrUpdateService quiet_client ?svc ?w")
  have api: "api_resource (Services quiet_client) (tracker_view Services_tracker) tracker_accepts"
    by (simp add: api_resource_tracker)
  have old: "tracker_view Services_tracker ?w (Namespace ?svc, Name ?svc) = Some ?old"
    by (simp add: tracker_view_def Services_tracker_def sample_defs empty_cluster_def)
  have ty: "Service_Type (Service_Spec ?svc) = ''ClusterIP''" by simp
  have changed: "tracker_view Services_tracker w' \<noteq> tracker_view Services_tracker ?w"
  proof
    assume "tracker_view Services_tracker w' = tracker_view Services_tracker ?w"
    then have "fmlookup (tracked_Services w') (''ns'', ''prom'') = Some ?old"
      by (simp add: tracker_view_def Services_tracker_def empty_cluster_def)
    with eval run show False by simp
  qed
  from CreateOrUpdateService_keeps_ClusterIP
    [where view = "tracker_view Services_tracker" and accepts = tracker_accepts, OF api old ty run changed]
  show ?thesis unfolding run by simp
qed

text \<open>
  The methods that only create never change an existing object: a service account (whose tokens
  would be regenerated), a secret with generated content and a configuration map that others fill
  are created when missing and left alone otherwise; a route is left alone too, and is created only
  when the server said that it is missing.
\<close>

theorem create_only_methods:
  assumes "api_resource (ServiceAccounts c) va aa" and "api_resource (Secrets c) vs as"
    and "api_resource (ConfigMaps c) vc ac" and "api_resource (Routes c) vr ar"
  shows "ensures_object va aa (Namespace sa) sa (\<lambda>_. None) (CreateOrUpdateServiceAccount c sa) \<and>
    ensures_object vs as (Namespace s) s (\<lambda>_. None) (CreateIfNotExistSecret c s) \<and>
    ensures_object vc ac (Namespace cm) cm (\<lambda>_. None) (discard (CreateIfNotExistConfigMap c cm)) \<and>
    (\<forall>w r' w' old. CreateRouteIfNotExists c rt w = (r', w') \<longrightarrow> vr w (Namespace rt, Name rt) = Some old \<longrightarrow>
       vr w' = vr w)"
proof (intro conjI allI impI)
  show "ensures_object va aa (Namespace sa) sa (\<lambda>_. None) (CreateOrUpdateServiceAccount c sa)"
    unfolding CreateOrUpdateServiceAccount_def by (rule api_resource.ensures_create_only [OF assms(1)])
  show "ensures_object vs as (Namespace s) s (\<lambda>_. None) (CreateIfNotExistSecret c s)"
    unfolding CreateIfNotExistSecret_def by (rule api_resource.ensures_create_only [OF assms(2)])
  have "discard (CreateIfNotExistConfigMap c cm) =
    get_or_create (ConfigMaps c) (Namespace cm) ''ConfigMap'' cm (\<lambda>_. p_return (Ok ()))"
    by (auto simp: CreateIfNotExistConfigMap_def get_or_create_def get_or_def discard_def create_object_def
        p_bind_def p_catch_def p_return_def fun_eq_iff split: prod.splits res.splits)
  then show "ensures_object vc ac (Namespace cm) cm (\<lambda>_. None) (discard (CreateIfNotExistConfigMap c cm))"
    using api_resource.ensures_create_only [OF assms(3)] by simp
  fix w r' w' old
  assume run: "CreateRouteIfNotExists c rt w = (r', w')" and old: "vr w (Namespace rt, Name rt) = Some old"
  have reader: "api_reader (Routes c) vr" using assms(4) by (simp add: api_resource_def)
  show "vr w' = vr w"
    by (rule api_reader.get_cases [OF reader, of "Namespace rt" "Name rt" w])
      (use run old in \<open>auto simp: CreateRouteIfNotExists_def p_catch_eqs\<close>)
qed

theorem create_only_methods_witness:
  "ensures_object (tracker_view Secrets_tracker) tracker_accepts ''openshift-monitoring''
     (sample_secret ''openshift-monitoring'' ''proxy'' [] [(''session_secret'', ''x'')]) (\<lambda>_. None)
     (CreateIfNotExistSecret quiet_client
       (sample_secret ''openshift-monitoring'' ''proxy'' [] [(''session_secret'', ''x'')]))"
proof -
  have ns: "Namespace (sample_secret ''openshift-monitoring'' ''proxy'' [] [(''session_secret'', ''x'')]) =
    ''openshift-monitoring''" by (simp add: sample_defs)
  have A: "api_resource (ServiceAccounts quiet_client) (tracker_view ServiceAccounts_tracker) tracker_accepts"
    "api_resource (Secrets quiet_client) (tracker_view Secrets_tracker) tracker_accepts"
    "api_resource (ConfigMaps quiet_client) (tracker_view ConfigMaps_tracker) tracker_accepts"
    "api_resource (Routes quiet_client) (tracker_view Routes_tracker) tracker_accepts"
    by (simp_all add: api_resource_tracker)
  show ?thesis
    by (rule create_only_methods [OF A, THEN conjunct2, THEN conjunct1,
          of "sample_secret ''openshift-monitoring'' ''proxy'' [] [(''session_secret'', ''x'')]", unfolded ns])
qed



section \<open>Workloads\<close>

lemma WaitForDeploymentRollout_checked:
  assumes "api_reader (Deployments c) view"
  shows "WaitForDeploymentRollout c dep = api_reader.checked_poll (Deployments c)
    (on_object ''waiting for DeploymentRollout of '' dep) 1 300 (next_tick c) ()
    (Namespace dep) (Name dep) deployment_complaint (\<lambda>_. ())"
  by (simp add: WaitForDeploymentRollout_def api_reader.checked_poll_def [OF assms])

lemma deployment_complaint_None:
  "deployment_complaint d = None \<longleftrightarrow> Generation d \<le> ObservedGeneration (Deployment_Status d) \<and>
     UpdatedReplicas (Deployment_Status d) = Replicas (Deployment_Status d) \<and>
     UnavailableReplicas (Deployment_Status d) = 0"
  by (simp add: deployment_complaint_def Let_def)

text \<open>
  Waiting for a deployment: when the wait returns nil the stored deployment has been observed at
  its generation, every replica is updated and none is unavailable; when it returns an error, either
  the last read failed or the error is the complaint about the deployment that is stored now.
\<close>

theorem WaitForDeploymentRollout_result:
  assumes reader: "api_reader (Deployments c) view"
    and run: "WaitForDeploymentRollout c dep w = (r, w')" and "r \<noteq> Panic"
  shows "case r of
      Ok _ \<Rightarrow> (\<exists>d. view w' (Namespace dep, Name dep) = Some d \<and>
        Generation d \<le> ObservedGeneration (Deployment_Status d) \<and>
        UpdatedReplicas (Deployment_Status d) = Replicas (Deployment_Status d) \<and>
        UnavailableReplicas (Deployment_Status d) = 0)
    | Err e \<Rightarrow> (\<exists>d complaint. view w' (Namespace dep, Name dep) = Some d \<and>
          deployment_complaint d = Some complaint \<and>
          e = Wrapped (''waiting for DeploymentRollout of '' @ Namespace dep @ ''/'' @ Name dep) complaint) \<or>
        (\<exists>w1 e'. r_Get (Deployments c) (Namespace dep) (Name dep) w1 = (Err e', w'))"
proof (cases r)
  case (Ok u)
  with api_reader.checked_poll_Ok [OF reader, OF run [unfolded WaitForDeploymentRollout_checked [OF reader] Ok]]
  show ?thesis by (auto simp: deployment_complaint_None)
next
  case (Err e)
  with api_reader.checked_poll_Err [OF reader, OF run [unfolded WaitForDeploymentRollout_checked [OF reader] Err]]
  show ?thesis by (auto simp: on_object_def)
qed (use assms in simp)

lemma quiet_rollout:
  "WaitForDeploymentRollout quiet_client (sample_deployment ''ns'' ''d'' 0)
     (empty_cluster\<lparr>tracked_Deployments := fmap_of_list [((''ns'', ''d''), sample_deployment ''ns'' ''d'' 0)]\<rparr>) =
   (Ok (), empty_cluster\<lparr>tracked_Deployments := fmap_of_list [((''ns'', ''d''), sample_deployment ''ns'' ''d'' 0)]\<rparr>)"
  by (simp add: WaitForDeploymentRollout_def PollLastErr_def Poll_def WaitFor.simps [of 300] world_tick_def
      world_call_def conclude_def finished_def deployment_complaint_def run_simps Deployments_tracker_def
      sample_defs empty_cluster_def)

theorem WaitForDeploymentRollout_result_witness:
  "\<exists>d. tracker_view Deployments_tracker
     (empty_cluster\<lparr>tracked_Deployments := fmap_of_list [((''ns'', ''d''), sample_deployment ''ns'' ''d'' 0)]\<rparr>)
     (''ns'', ''d'') = Some d \<and> UnavailableReplicas (Deployment_Status d) = 0"
proof -
  have reader: "api_reader (Deployments quiet_client) (tracker_view Deployments_tracker)"
    by (simp add: api_reader_tracker)
  have key: "Namespace (sample_deployment ''ns'' ''d'' 0) = ''ns''" "Name (sample_deployment ''ns'' ''d'' 0) = ''d''"
    by (simp_all add: sample_defs)
  from WaitForDeploymentRollout_result [OF reader quiet_rollout, unfolded key] show ?thesis by auto
qed

text \<open>
  The same for daemon sets and stateful sets: nil means that the stored object has rolled out.
\<close>

lemma WaitForRollout_Ok:
  assumes "api_reader (DaemonSets c) vd" and "api_reader (StatefulSets c) vs"
  shows "(WaitForDaemonSetRollout c ds w = (Ok (), w') \<longrightarrow>
      (\<exists>d. vd w' (Namespace ds, Name ds) = Some d \<and>
        Generation d \<le> DS_ObservedGeneration (DaemonSet_Status d) \<and>
        UpdatedNumberScheduled (DaemonSet_Status d) = DesiredNumberScheduled (DaemonSet_Status d) \<and>
        NumberUnavailable (DaemonSet_Status d) = 0)) \<and>
    (WaitForStatefulsetRollout c sts w = (Ok (), w') \<longrightarrow>
      (\<exists>d. vs w' (Namespace sts, Name sts) = Some d \<and>
        Generation d \<le> STS_ObservedGeneration (StatefulSet_Status d) \<and>
        STS_UpdatedReplicas (StatefulSet_Status d) = STS_Replicas (StatefulSet_Status d) \<and>
        ReadyReplicas (StatefulSet_Status d) = STS_Replicas (StatefulSet_Status d)))"
proof (intro conjI impI)
  assume "WaitForDaemonSetRollout c ds w = (Ok (), w')"
  then have "api_reader.checked_poll (DaemonSets c) (on_object ''waiting for DaemonSetRollout of '' ds) 1 300
      (next_tick c) () (Namespace ds) (Name ds) daemonset_complaint (\<lambda>_. ()) w = (Ok (), w')"
    by (simp add: WaitForDaemonSetRollout_def api_reader.checked_poll_def [OF assms(1)])
  from api_reader.checked_poll_Ok [OF assms(1) this]
  show "\<exists>d. vd w' (Namespace ds, Name ds) = Some d \<and>
        Generation d \<le> DS_ObservedGeneration (DaemonSet_Status d) \<and>
        UpdatedNumberScheduled (DaemonSet_Status d) = DesiredNumberScheduled (DaemonSet_Status d) \<and>
        NumberUnavailable (DaemonSet_Status d) = 0"
    by (auto simp: daemonset_complaint_def Let_def split: if_splits)
next
  assume "WaitForStatefulsetRollout c sts w = (Ok (), w')"
  then have "api_reader.checked_poll (StatefulSets c) (on_object ''waiting for StatefulsetRollout of '' sts) 1 300
      (next_tick c) () (Namespace sts) (Name sts) statefulset_complaint (\<lambda>_. ()) w = (Ok (), w')"
    by (simp add: WaitForStatefulsetRollout_def api_reader.checked_poll_def [OF assms(2)])
  from api_reader.checked_poll_Ok [OF assms(2) this]
  show "\<exists>d. vs w' (Namespace sts, Name sts) = Some d \<and>
        Generation d \<le> STS_ObservedGeneration (StatefulSet_Status d) \<and>
        STS_UpdatedReplicas (StatefulSet_Status d) = STS_Replicas (StatefulSet_Status d) \<and>
        ReadyReplicas (StatefulSet_Status d) = STS_Replicas (StatefulSet_Status d)"
    by (auto simp: statefulset_complaint_def Let_def split: if_splits)
qed

lemma WaitForRollout_Ok_witness:
  "WaitForDaemonSetRollout quiet_client
     (ObjectMeta.extend (object_meta ''ns'' ''ds'' []) \<lparr>DS_Template_Spec = undefined, DS_rest = '''', DaemonSet_Status = undefined\<rparr>)
     empty_cluster \<noteq> (Ok (), empty_cluster)"
proof
  let ?ds = "ObjectMeta.extend (object_meta ''ns'' ''ds'' []) \<lparr>DS_Template_Spec = undefined, DS_rest = '''', DaemonSet_Status = undefined\<rparr>"
  assume run: "WaitForDaemonSetRollout quiet_client ?ds empty_cluster = (Ok (), empty_cluster)"
  have readers: "api_reader (DaemonSets quiet_client) (tracker_view DaemonSets_tracker)"
    "api_reader (StatefulSets quiet_client) (tracker_view StatefulSets_tracker)"
    by (simp_all add: api_reader_tracker)
  from WaitForRollout_Ok [OF readers, of ?ds empty_cluster empty_cluster] run show False
    by (simp add: tracker_view_def DaemonSets_tracker_def empty_cluster_def)
qed

text \<open>The same check for the error branch that replaces a rejected object.\<close>

lemma update_or_recreate_Ok:
  assumes "update_or_recreate kind update delete create w = (Ok u, w')"
  shows "update w = (Ok (), w') \<or> (\<exists>w1. create w1 = (Ok (), w'))"
  using assms
  by (auto simp: update_or_recreate_def prog_simps p_wrap_Ok_iff split: if_splits)

text \<open>
  C28. \<open>CreateOrUpdateDeployment\<close> returns nil in two cases only: the stored deployment has the
  required specification and nothing was written, or the deployment that is stored at the end has
  rolled out. The second case covers creation, update, and the deletion and creation that follow an
  update rejected as invalid.
\<close>

theorem CreateOrUpdateDeployment_Ok:
  assumes api: "api_resource (Deployments c) view accepts"
    and ns: "Namespace dep \<noteq> ''''"
    and run: "CreateOrUpdateDeployment c dep w = (Ok u, w')"
  shows "(\<exists>old. view w (Namespace dep, Name dep) = Some old \<and> Deployment_Spec old = Deployment_Spec dep \<and>
      view w' = view w) \<or>
    (\<exists>d. view w' (Namespace dep, Name dep) = Some d \<and>
      Generation d \<le> ObservedGeneration (Deployment_Status d) \<and>
      UpdatedReplicas (Deployment_Status d) = Replicas (Deployment_Status d) \<and>
      UnavailableReplicas (Deployment_Status d) = 0)"
proof -
  let ?rolled = "\<lambda>v. \<exists>d. view v (Namespace dep, Name dep) = Some d \<and> deployment_complaint d = None"
  have reader: "api_reader (Deployments c) view" using api by (simp add: api_resource_def)
  have rolled: "?rolled v'"
    if "WaitForDeploymentRollout c d v = (Ok x, v')" "Namespace d = Namespace dep" "Name d = Name dep" for d v x v'
    using api_reader.checked_poll_Ok [OF reader that(1) [unfolded WaitForDeploymentRollout_checked [OF reader]]] that(2,3)
    by auto
  have meta: "Namespace y = Namespace dep \<and> Name y = Name dep"
    if "accepts x y" "Namespace x = Namespace dep" "Name x = Name dep" for x y
    using api_resource.accepts_meta [OF api that(1)] that(2,3) ns by simp
  have created: "?rolled v'"
    if run: "CreateDeployment c d v = (Ok x, v')" and d: "Namespace d = Namespace dep" "Name d = Name dep" for d v x v'
  proof -
    from run obtain y v1 where c: "r_Create (Deployments c) (Namespace d) d v = (Ok y, v1)"
      and wait: "WaitForDeploymentRollout c y v1 = (Ok x, v')"
      by (auto simp: CreateDeployment_def prog_simps)
    from api_resource.create_ok [OF api c] meta d rolled [OF wait] show ?thesis by blast
  qed
  have updated: "?rolled v'"
    if run: "UpdateDeployment c d v = (Ok x, v')" and d: "Namespace d = Namespace dep" "Name d = Name dep" for d v x v'
  proof -
    from run obtain y v1 where c: "r_Update (Deployments c) (Namespace d) d v = (Ok y, v1)"
      and wait: "WaitForDeploymentRollout c y v1 = (Ok x, v')"
      by (auto simp: UpdateDeployment_def prog_simps)
    from api_resource.update_ok [OF api c] meta d rolled [OF wait] show ?thesis by blast
  qed
  from run [unfolded CreateOrUpdateDeployment_def]
  have "(\<exists>old. view w (Namespace dep, Name dep) = Some old \<and> Deployment_Spec old = Deployment_Spec dep \<and>
      view w' = view w) \<or> ?rolled w'"
  proof (cases rule: api_resource.get_or_cases [OF api, consumes 1, case_names missing failed found])
    case (missing v)
    then show ?thesis using created [of dep v u w'] by simp
  next
    case (failed e)
    then show ?thesis by simp
  next
    case (found v old)
    show ?thesis
    proof (cases "Deployment_Spec dep = Deployment_Spec old")
      case True
      with found show ?thesis by auto
    next
      case False
      with found have "update_or_recreate ''Deployment'' (UpdateDeployment c (mergeMetadata dep old))
        (DeleteDeployment c old) (CreateDeployment c (mergeMetadata dep old)) v = (Ok u, w')"
        by (simp add: Let_def)
      from update_or_recreate_Ok [OF this] updated created show ?thesis by fastforce
    qed
  qed
  then show ?thesis by (simp only: deployment_complaint_None)
qed

theorem CreateOrUpdateDeployment_Ok_witness:
  "\<exists>old. tracker_view Deployments_tracker
     (empty_cluster\<lparr>tracked_Deployments := fmap_of_list [((''ns'', ''d''), sample_deployment ''ns'' ''d'' 0)]\<rparr>)
     (''ns'', ''d'') = Some old"
proof -
  let ?dep = "sample_deployment ''ns'' ''d'' 0"
  let ?w = "empty_cluster\<lparr>tracked_Deployments := fmap_of_list [((''ns'', ''d''), ?dep)]\<rparr>"
  have api: "api_resource (Deployments quiet_client) (tracker_view Deployments_tracker) tracker_accepts"
    by (simp add: api_resource_tracker)
  have key: "Namespace ?dep = ''ns''" "Name ?dep = ''d''" by (simp_all add: sample_defs)
  have run: "CreateOrUpdateDeployment quiet_client ?dep ?w = (Ok (), ?w)"
    by (simp add: CreateOrUpdateDeployment_def run_simps Deployments_tracker_def sample_defs empty_cluster_def)
  from CreateOrUpdateDeployment_Ok [OF api _ run, unfolded key] show ?thesis by auto
qed

section \<open>Deletion\<close>



lemma hashed_selector_matches:
  assumes "selector_safe prefix" and "selector_safe newHash"
  shows "selector_matches (hashed_selector prefix newHash) ls \<longleftrightarrow>
    gm_lookup ls ''monitoring.openshift.io/name'' = Some prefix \<and>
    gm_lookup ls ''monitoring.openshift.io/hash'' \<noteq> Some newHash"
proof -
  have "selector_safe ''monitoring.openshift.io/name''" "selector_safe ''monitoring.openshift.io/hash''"
    by (simp_all add: selector_safe_def)
  from selector_two [OF this(1) assms(1) this(2) assms(2), of ls] show ?thesis
    by (simp add: hashed_selector_def)
qed

text \<open>
  Cleaning up after a change of content: when \<open>DeleteHashedSecret\<close> (or \<open>DeleteHashedConfigMap\<close>)
  returns nil, exactly the objects of the namespace that carry the given name label but not the
  given hash are gone, the one with the new hash and all others are still there.
\<close>

theorem DeleteHashed_exact:
  assumes "api_resource (Secrets c) vs as" and "well_keyed (vs w)"
    and "api_resource (ConfigMaps c) vc ac" and "well_keyed (vc w)"
    and "ns \<noteq> ''''" and "selector_safe prefix" and "selector_safe newHash"
  shows "(DeleteHashedSecret c ns prefix newHash w = (Ok (), w') \<longrightarrow>
      vs w' (m, n) = (case vs w (m, n) of
         None \<Rightarrow> None
       | Some x \<Rightarrow> if m = ns \<and> gm_lookup (Labels x) ''monitoring.openshift.io/name'' = Some prefix \<and>
                      gm_lookup (Labels x) ''monitoring.openshift.io/hash'' \<noteq> Some newHash
                   then None else Some x)) \<and>
    (DeleteHashedConfigMap c ns prefix newHash w = (Ok (), w') \<longrightarrow>
      vc w' (m, n) = (case vc w (m, n) of
         None \<Rightarrow> None
       | Some x \<Rightarrow> if m = ns \<and> gm_lookup (Labels x) ''monitoring.openshift.io/name'' = Some prefix \<and>
                      gm_lookup (Labels x) ''monitoring.openshift.io/hash'' \<noteq> Some newHash
                   then None else Some x))"
proof (intro conjI impI)
  assume "DeleteHashedSecret c ns prefix newHash w = (Ok (), w')"
  from api_resource.delete_selected_Ok [OF assms(1,2,5) this [unfolded DeleteHashedSecret_def], of m n]
  show "vs w' (m, n) = (case vs w (m, n) of
         None \<Rightarrow> None
       | Some x \<Rightarrow> if m = ns \<and> gm_lookup (Labels x) ''monitoring.openshift.io/name'' = Some prefix \<and>
                      gm_lookup (Labels x) ''monitoring.openshift.io/hash'' \<noteq> Some newHash
                   then None else Some x)"
    by (auto simp: hashed_selector_matches [OF assms(6,7)] split: option.splits)
next
  assume "DeleteHashedConfigMap c ns prefix newHash w = (Ok (), w')"
  from api_resource.delete_selected_Ok [OF assms(3,4,5) this [unfolded DeleteHashedConfigMap_def], of m n]
  show "vc w' (m, n) = (case vc w (m, n) of
         None \<Rightarrow> None
       | Some x \<Rightarrow> if m = ns \<and> gm_lookup (Labels x) ''monitoring.openshift.io/name'' = Some prefix \<and>
                      gm_lookup (Labels x) ''monitoring.openshift.io/hash'' \<noteq> Some newHash
                   then None else Some x)"
    by (auto simp: hashed_selector_matches [OF assms(6,7)] split: option.splits)
qed

definition hashed_secret :: "string \<Rightarrow> string \<Rightarrow> Secret" where
  "hashed_secret n h = sample_secret ''ns'' n
     [(''monitoring.openshift.io/name'', ''grpc''), (''monitoring.openshift.io/hash'', h)] []"

definition hashed_cluster :: Cluster where
  "hashed_cluster = empty_cluster\<lparr>tracked_Secrets :=
     fmap_of_list [((''ns'', ''g1''), hashed_secret ''g1'' ''1''), ((''ns'', ''g2''), hashed_secret ''g2'' ''2'')]\<rparr>"

lemma hashed_cluster_keyed: "well_keyed (tracker_view Secrets_tracker hashed_cluster)"
  by (auto simp: well_keyed_def tracker_view_def Secrets_tracker_def hashed_cluster_def hashed_secret_def
      sample_defs split: if_splits)

lemma hashed_cluster_list:
  "r_List (Secrets quiet_client) ''ns'' (hashed_selector ''grpc'' ''2'') hashed_cluster =
     (Ok [hashed_secret ''g1'' ''1''], hashed_cluster\<lparr>faults := []\<rparr>)"
proof -
  have dom: "fmdom (tracked_Secrets hashed_cluster) = {|(''ns'', ''g1''), (''ns'', ''g2'')|}"
    by (simp add: hashed_cluster_def finsert_commute)
  have keys: "sorted_list_of_fset {|(''ns'', ''g1''), (''ns'', ''g2'')|} = [(''ns'', ''g1''), (''ns'', ''g2'')]"
    by (simp add: sorted_list_of_fset.rep_eq)
  show ?thesis
    by (simp add: tracker_resource_def react_def tracker_List_def Secrets_tracker_def dom keys)
      (simp add: hashed_cluster_def empty_cluster_def hashed_selector_matches selector_safe_def
        hashed_secret_def sample_defs keys)
qed

theorem DeleteHashed_exact_witness:
  "tracker_view Secrets_tracker
     (snd (DeleteHashedSecret quiet_client ''ns'' ''grpc'' ''2'' hashed_cluster)) (''ns'', ''g1'') = None"
proof -
  have api: "api_resource (Secrets quiet_client) (tracker_view Secrets_tracker) tracker_accepts"
    "api_resource (ConfigMaps quiet_client) (tracker_view ConfigMaps_tracker) tracker_accepts"
    by (simp_all add: api_resource_tracker)
  have cm: "well_keyed (tracker_view ConfigMaps_tracker hashed_cluster)"
    by (simp add: well_keyed_def tracker_view_def ConfigMaps_tracker_def hashed_cluster_def empty_cluster_def)
  obtain r w' where run: "DeleteHashedSecret quiet_client ''ns'' ''grpc'' ''2'' hashed_cluster = (r, w')"
    by (cases "DeleteHashedSecret quiet_client ''ns'' ''grpc'' ''2'' hashed_cluster")
  have "fst (DeleteHashedSecret quiet_client ''ns'' ''grpc'' ''2'' hashed_cluster) = Ok ()"
    using hashed_cluster_list
    by (simp add: DeleteHashedSecret_def delete_selected_def run_simps Secrets_tracker_def)
      (simp add: hashed_cluster_def hashed_secret_def sample_defs empty_cluster_def)
  with run have "DeleteHashedSecret quiet_client ''ns'' ''grpc'' ''2'' hashed_cluster = (Ok (), w')" by simp
  with DeleteHashed_exact [OF api(1) hashed_cluster_keyed api(2) cm, of "''ns''" "''grpc''" "''2''" w' "''ns''" "''g1''"] run
  show ?thesis
    by (simp add: selector_safe_def)
      (simp add: tracker_view_def Secrets_tracker_def hashed_cluster_def hashed_secret_def sample_defs)
qed

lemma wait_for_no_pods_Ok:
  assumes reader: "api_reader (Pods c) view"
    and run: "wait_for_no_pods msg c ns sel w = (Ok u, w')" and "ns \<noteq> ''''"
    and "view w' (ns, n) = Some pod"
  shows "\<not> selector_matches sel (Labels pod)"
proof -
  from run [unfolded wait_for_no_pods_def] obtain s l w1 where
    c: "attempt ''retrieving pods during polling failed'' (world_call (r_List (Pods c) ns sel))
      (\<lambda>pods. conclude (pods_complaint pods) ()) (s, w1) = (Ok True, ((l, u), w'))"
    by (rule PollLastErr_Ok)
  then obtain pods w2 where l: "r_List (Pods c) ns sel w1 = (Ok pods, w2)"
    and e: "conclude (pods_complaint pods) () (s, w2) = (Ok True, ((l, u), w'))"
    by (cases s) (auto simp: attempt_Ok_iff world_call_iff)
  from e have "pods = []" "w' = w2"
    by (cases s; auto simp: conclude_iff pods_complaint_def split: option.splits if_splits)+
  with api_reader.list_ok [OF reader l] assms(3,4) show ?thesis by auto
qed



section \<open>Secrets and polling bounds\<close>

text \<open>
  Waiting for a secret: success returns the secret that is stored, and none of its entries is
  empty (a secret without any entry is accepted).
\<close>

theorem WaitForSecret_Ok:
  assumes reader: "api_reader (Secrets c) view"
    and run: "WaitForSecret c s w = (Ok res, w')"
  shows "\<exists>x. res = Some x \<and> view w' (Namespace s, Name s) = Some x \<and>
    (\<forall>k. gm_lookup (Data x) k \<noteq> Some '''')"
proof -
  from run [unfolded WaitForSecret_def] obtain st l w1 where
    c: "p_catch (world_call (r_Get (Secrets c) (Namespace s) (Name s))) (\<lambda>r. case r of
            Inl e \<Rightarrow> if IsNotFound e then not_yet e else p_return (Err e)
          | Inr result \<Rightarrow> conclude (secret_complaint result) (Some result)) (st, w1) = (Ok True, ((l, res), w'))"
    by (rule PollLastErr_Ok)
  then obtain x w2 where g: "r_Get (Secrets c) (Namespace s) (Name s) w1 = (Ok x, w2)"
    and e: "conclude (secret_complaint x) (Some x) (st, w2) = (Ok True, ((l, res), w'))"
    by (cases st) (auto simp: p_catch_Ok_iff world_call_iff not_yet_iff split: if_splits)
  from e have "secret_complaint x = None" "res = Some x" "w' = w2"
    by (cases st; auto simp: conclude_iff split: option.splits)+
  with api_reader.get_ok [OF reader g] show ?thesis
    by (auto simp: secret_complaint_def gm_lookup_def fmran'I dest: fmranI split: option.splits if_splits)
qed

theorem WaitForSecret_Ok_witness:
  "\<exists>x. tracker_view Secrets_tracker hashed_cluster (''ns'', ''g1'') = Some x \<and>
     (\<forall>k. gm_lookup (Data x) k \<noteq> Some '''')"
proof -
  have reader: "api_reader (Secrets quiet_client) (tracker_view Secrets_tracker)" by (simp add: api_reader_tracker)
  have key: "Namespace (hashed_secret ''g1'' ''1'') = ''ns''" "Name (hashed_secret ''g1'' ''1'') = ''g1''"
    by (simp_all add: hashed_secret_def sample_defs)
  have "WaitForSecret quiet_client (hashed_secret ''g1'' ''1'') hashed_cluster =
    (Ok (Some (hashed_secret ''g1'' ''1'')), hashed_cluster)"
    by (simp add: WaitForSecret_def PollLastErr_def Poll_def WaitFor.simps [of 300] world_tick_def
      world_call_def conclude_def finished_def secret_complaint_def run_simps Secrets_tracker_def
      hashed_cluster_def hashed_secret_def sample_defs empty_cluster_def gm_of_list_def)
  from WaitForSecret_Ok [OF reader this, unfolded key] show ?thesis by auto
qed

text \<open>
  C36. A wait for a rollout ends: it reads the deployment at most 301 times, one read per second of
  its time-out and one when the time is over.
\<close>

theorem WaitForDeploymentRollout_bounded:
  assumes "WaitForDeploymentRollout c dep w = (r, w')"
    and "\<And>w b w'. next_tick c w = (b, w') \<Longrightarrow> reads w' = reads w"
    and "\<And>w x w'. r_Get (Deployments c) (Namespace dep) (Name dep) w = (x, w') \<Longrightarrow> reads w' \<le> reads w + (1::nat)"
  shows "reads w' \<le> reads w + 301"
proof -
  let ?cond = "p_bind (world_call (r_Get (Deployments c) (Namespace dep) (Name dep)))
     (\<lambda>d. conclude (deployment_complaint d) ())"
  obtain q l v u where p: "WaitFor 300 (world_tick (next_tick c)) ?cond ((None, ()), w) = (q, ((l, v), u))"
    by (metis prod.exhaust)
  have "reads (snd ((l, v), u)) \<le> reads (snd ((None :: error option, ()), w)) + (300 + 1) * 1"
  proof (rule WaitFor_bounded [OF p, where calls = "\<lambda>x. reads (snd x)" and k = 1])
    show "reads (snd y) = reads (snd x)" if "world_tick (next_tick c) x = (b, y)"
      for x b and y :: "(error option \<times> unit) \<times> 'a"
      using that assms(2) by (cases x; cases y) (auto simp: world_tick_iff)
    show "reads (snd y) \<le> reads (snd x) + 1" if run: "?cond x = (s, y)" for x s y
    proof -
      obtain st w1 where x: "x = (st, w1)" by (cases x)
      obtain r1 w2 where g: "r_Get (Deployments c) (Namespace dep) (Name dep) w1 = (r1, w2)"
        by (cases "r_Get (Deployments c) (Namespace dep) (Name dep) w1")
      have "snd y = w2"
        using run x g by (cases st; cases r1; cases y)
          (auto simp: p_bind_def world_call_def conclude_def not_yet_def finished_def split: option.splits)
      with assms(3) [OF g] x show ?thesis by simp
    qed
  qed
  moreover have "w' = u"
    using assms(1) p by (auto simp: WaitForDeploymentRollout_def PollLastErr_def Poll_def split: res.splits)
  ultimately show ?thesis by simp
qed

theorem WaitForDeploymentRollout_bounded_witness:
  "length (faults (snd (WaitForDeploymentRollout quiet_client (sample_deployment ''ns'' ''d'' 1)
     (empty_cluster\<lparr>faults := replicate 400 None,
        tracked_Deployments := fmap_of_list [((''ns'', ''d''), sample_deployment ''ns'' ''d'' 1)]\<rparr>)))) \<ge> 99"
proof -
  let ?w = "empty_cluster\<lparr>faults := replicate 400 None,
        tracked_Deployments := fmap_of_list [((''ns'', ''d''), sample_deployment ''ns'' ''d'' 1)]\<rparr>"
  obtain r w' where run: "WaitForDeploymentRollout quiet_client (sample_deployment ''ns'' ''d'' 1) ?w = (r, w')"
    by (cases "WaitForDeploymentRollout quiet_client (sample_deployment ''ns'' ''d'' 1) ?w")
  have "400 - length (faults w') \<le> 400 - length (faults ?w) + 301"
  proof (rule WaitForDeploymentRollout_bounded [OF run, where reads = "\<lambda>w. 400 - length (faults w)"])
    show "400 - length (faults v') = 400 - length (faults v)" if "next_tick quiet_client v = (b, v')" for v b v'
      using that by simp
    show "400 - length (faults v') \<le> 400 - length (faults v) + 1"
      if "r_Get (Deployments quiet_client) (Namespace (sample_deployment ''ns'' ''d'' 1))
        (Name (sample_deployment ''ns'' ''d'' 1)) v = (x, v')" for v x v'
      using that by (auto simp: tracker_resource_def react_def tracker_Get_def Deployments_tracker_def
          split: list.splits option.splits)
  qed
  then show ?thesis using run by simp
qed

end
