(* ===== verification/Status_Reporter.thy ===== *)
theory Status_Reporter
  imports Client_Spec Pascal_Case
begin

text \<open>
  The operator's report of its own health: \<open>pkg/client/condition.go\<close> (the conditions of a
  \<open>ClusterOperator\<close> as a map by type) and \<open>pkg/client/status_reporter.go\<close> (the three reports
  in progress, failed and done). The computation of each new status is a function of the old one;
  the methods read the cluster operator, apply it and update the status.
\<close>

section \<open>Conditions\<close>

record conditions =
  entryMap :: "(string, ClusterOperatorStatusCondition) fmap"
  currentVersion :: string
  targetVersion :: string

definition OperatorAvailable :: string where "OperatorAvailable = ''Available''"
definition OperatorProgressing :: string where "OperatorProgressing = ''Progressing''"
definition OperatorDegraded :: string where "OperatorDegraded = ''Degraded''"
definition OperatorUpgradeable :: string where "OperatorUpgradeable = ''Upgradeable''"

lemmas operator_types = OperatorAvailable_def OperatorProgressing_def OperatorDegraded_def OperatorUpgradeable_def

definition unknown_condition :: "string \<Rightarrow> int \<Rightarrow> ClusterOperatorStatusCondition" where
  "unknown_condition t now = \<lparr>Cond_Type = t, Cond_Status = ConditionUnknown, LastTransitionTime = now,
     Reason = '''', Message = ''''\<rparr>"

definition newConditions :: "ClusterOperatorStatus \<Rightarrow> string \<Rightarrow> int \<Rightarrow> conditions" where
  "newConditions cos target now = (
     let entries = fmap_of_list (map (\<lambda>t. (t, unknown_condition t now))
           [OperatorAvailable, OperatorProgressing, OperatorDegraded, OperatorUpgradeable])
     in \<lparr>entryMap = foldl (\<lambda>m c. fmupd (Cond_Type c) c m) entries (Conditions cos),
         currentVersion = (case Versions cos of [] \<Rightarrow> '''' | v # _ \<Rightarrow> OV_Version v),
         targetVersion = target\<rparr>)"

definition setCondition :: "string \<Rightarrow> ConditionStatus \<Rightarrow> string \<Rightarrow> string \<Rightarrow> int \<Rightarrow> conditions \<Rightarrow> conditions" where
  "setCondition condition status message reason now cs = (
     let changed = (case fmlookup (entryMap cs) condition of
           None \<Rightarrow> True
         | Some c \<Rightarrow> Cond_Status c \<noteq> status \<or> Message c \<noteq> message);
       entries = (if changed
         then fmupd condition \<lparr>Cond_Type = condition, Cond_Status = status, LastTransitionTime = now,
                Reason = reason, Message = message\<rparr> (entryMap cs)
         else entryMap cs);
       wantsProgressing = (condition = OperatorProgressing \<and> status = ConditionTrue);
       isAvailable = (case fmlookup (entryMap cs) OperatorAvailable of
           None \<Rightarrow> False
         | Some available \<Rightarrow> Cond_Status available = ConditionTrue);
       abort = (wantsProgressing \<and> isAvailable \<and> targetVersion cs = currentVersion cs)
     in if abort then cs else cs\<lparr>entryMap := entries\<rparr>)"

text \<open>
  Go ranges over a map in an unspecified order; \<open>order\<close> is that order, a function from the set of
  keys to a list of them.
\<close>

type_synonym range_order = "string fset \<Rightarrow> string list"

definition lawful_order :: "range_order \<Rightarrow> bool" where
  "lawful_order ord \<longleftrightarrow> (\<forall>S. distinct (ord S) \<and> set (ord S) = fset S)"

definition entries :: "range_order \<Rightarrow> conditions \<Rightarrow> ClusterOperatorStatusCondition list" where
  "entries ord cs = map (\<lambda>k. the (fmlookup (entryMap cs) k)) (ord (fmdom (entryMap cs)))"

text \<open>Every condition is filed under its own type.\<close>

definition well_filed :: "conditions \<Rightarrow> bool" where
  "well_filed cs \<longleftrightarrow> (\<forall>k c. fmlookup (entryMap cs) k = Some c \<longrightarrow> Cond_Type c = k)"

text \<open>The condition of a type in a list of conditions: the last one, as \<open>newConditions\<close> takes it.\<close>

definition condition_of :: "ClusterOperatorStatusCondition list \<Rightarrow> string \<Rightarrow> ClusterOperatorStatusCondition option" where
  "condition_of cs t = map_of (rev (map (\<lambda>c. (Cond_Type c, c)) cs)) t"

lemma entryMap_newConditions:
  "fmlookup (foldl (\<lambda>m c. fmupd (Cond_Type c) c m) m0 cs) t =
     (case condition_of cs t of Some c \<Rightarrow> Some c | None \<Rightarrow> fmlookup m0 t)"
  by (induction cs arbitrary: m0 rule: rev_induct) (auto simp: condition_of_def split: option.splits)

lemma newConditions_lookup:
  "fmlookup (entryMap (newConditions cos target now)) t =
     (case condition_of (Conditions cos) t of
        Some c \<Rightarrow> Some c
      | None \<Rightarrow> if t \<in> {OperatorAvailable, OperatorProgressing, OperatorDegraded, OperatorUpgradeable}
                then Some (unknown_condition t now) else None)"
  by (auto simp: newConditions_def Let_def entryMap_newConditions fmlookup_of_list split: option.splits)

lemma condition_of_type: "condition_of cs t = Some c \<Longrightarrow> Cond_Type c = t"
  by (auto simp: condition_of_def dest!: map_of_SomeD)

lemma well_filed_newConditions [simp]: "well_filed (newConditions cos target now)"
  by (auto simp: well_filed_def newConditions_lookup unknown_condition_def dest: condition_of_type
      split: option.splits if_splits)

lemma well_filed_setCondition [simp]:
  "well_filed cs \<Longrightarrow> well_filed (setCondition t s m r now cs)"
  by (auto simp: well_filed_def setCondition_def Let_def)

lemma map_of_same_keys:
  "distinct ks \<Longrightarrow> map_of (map (\<lambda>k. (k, f k)) ks) t = (if t \<in> set ks then Some (f t) else None)"
  by (induction ks) auto

text \<open>Writing the conditions out, in any order, and reading them again loses nothing.\<close>

lemma condition_of_entries:
  assumes "lawful_order ord" and "well_filed cs"
  shows "condition_of (entries ord cs) t = fmlookup (entryMap cs) t"
proof -
  let ?ks = "ord (fmdom (entryMap cs))"
  have "Cond_Type (the (fmlookup (entryMap cs) k)) = k" if "k \<in> set ?ks" for k
    using assms that by (auto simp: lawful_order_def well_filed_def fmlookup_dom_iff)
  then have "map (\<lambda>c. (Cond_Type c, c)) (entries ord cs) =
      map (\<lambda>k. (k, the (fmlookup (entryMap cs) k))) ?ks"
    by (simp add: entries_def)
  then have "condition_of (entries ord cs) t = map_of (map (\<lambda>k. (k, the (fmlookup (entryMap cs) k))) (rev ?ks)) t"
    by (simp add: condition_of_def rev_map)
  also have "\<dots> = (if t \<in> set ?ks then Some (the (fmlookup (entryMap cs) t)) else None)"
    using assms(1) by (subst map_of_same_keys) (auto simp: lawful_order_def)
  also have "\<dots> = fmlookup (entryMap cs) t"
    using assms(1) by (auto simp: lawful_order_def fmlookup_dom_iff)
  finally show ?thesis .
qed

lemma setCondition_versions [simp]:
  "currentVersion (setCondition t s m r now cs) = currentVersion cs"
  "targetVersion (setCondition t s m r now cs) = targetVersion cs"
  by (simp_all add: setCondition_def Let_def)

lemma setCondition_other [simp]:
  "t' \<noteq> t \<Longrightarrow> fmlookup (entryMap (setCondition t s m r now cs)) t' = fmlookup (entryMap cs) t'"
  by (simp add: setCondition_def Let_def)

text \<open>What a condition says, apart from the time.\<close>

definition says :: "ClusterOperatorStatusCondition option \<Rightarrow> ConditionStatus \<Rightarrow> string \<Rightarrow> bool" where
  "says c status message \<longleftrightarrow> (\<exists>x. c = Some x \<and> Cond_Status x = status \<and> Message x = message)"

definition blocks_progressing :: "conditions \<Rightarrow> bool" where
  "blocks_progressing cs \<longleftrightarrow> (\<exists>x. fmlookup (entryMap cs) OperatorAvailable = Some x \<and> Cond_Status x = ConditionTrue) \<and>
     targetVersion cs = currentVersion cs"

lemma setCondition_same:
  "\<not> (t = OperatorProgressing \<and> s = ConditionTrue \<and> blocks_progressing cs) \<Longrightarrow>
     says (fmlookup (entryMap (setCondition t s m r now cs)) t) s m"
  by (auto simp: setCondition_def Let_def says_def blocks_progressing_def split: option.splits)

lemma setCondition_same_entry:
  "fmlookup (entryMap cs) t = Some c \<Longrightarrow> Cond_Status c = s \<Longrightarrow> Message c = m \<Longrightarrow>
     setCondition t s m r now cs = cs"
  by (simp add: setCondition_def Let_def)

lemma setCondition_blocked:
  "blocks_progressing cs \<Longrightarrow> setCondition OperatorProgressing ConditionTrue m r now cs = cs"
  by (auto simp: setCondition_def Let_def blocks_progressing_def)

lemma lawful_sorted_order: "lawful_order sorted_list_of_fset"
  by (simp add: lawful_order_def sorted_list_of_fset.rep_eq)

text \<open>
  C38. Round trip of the conditions of an operator: the conditions that a status carries survive being
  read into the map and written out again in whatever order Go ranges over it, and the four types
  that the operator reports are always present, unknown if they were missing.
\<close>

theorem conditions_roundtrip:
  assumes "lawful_order ord"
  shows "condition_of (entries ord (newConditions cos target now)) t =
     (case condition_of (Conditions cos) t of
        Some c \<Rightarrow> Some c
      | None \<Rightarrow> if t \<in> {''Available'', ''Progressing'', ''Degraded'', ''Upgradeable''}
                then Some \<lparr>Cond_Type = t, Cond_Status = ConditionUnknown, LastTransitionTime = now,
                       Reason = '''', Message = ''''\<rparr>
                else None)"
  using assms by (simp add: condition_of_entries newConditions_lookup operator_types unknown_condition_def
      cong: option.case_cong)

theorem conditions_roundtrip_witness:
  "condition_of (entries sorted_list_of_fset (newConditions
     \<lparr>Conditions = [\<lparr>Cond_Type = ''Recent'', Cond_Status = ConditionTrue, LastTransitionTime = 3, Reason = ''R'', Message = ''m''\<rparr>],
      Versions = [], RelatedObjects = []\<rparr> ''4.8'' 7)) ''Recent'' =
   Some \<lparr>Cond_Type = ''Recent'', Cond_Status = ConditionTrue, LastTransitionTime = 3, Reason = ''R'', Message = ''m''\<rparr>"
  by (subst conditions_roundtrip [OF lawful_sorted_order]) (simp add: condition_of_def)

text \<open>
  The transition time of a condition moves only when the condition changes: setting a condition
  to the status and message that it has leaves the whole map as it is (reason included), and setting
  one condition never touches another.
\<close>

lemma setCondition_frame:
  assumes "fmlookup (entryMap cs) t = Some c"
  shows "(Cond_Status c = s \<and> Message c = m \<longrightarrow> setCondition t s m r now cs = cs) \<and>
    (t' \<noteq> t \<longrightarrow> fmlookup (entryMap (setCondition t s m r now cs)) t' = fmlookup (entryMap cs) t')"
  using assms setCondition_same_entry by auto

lemma setCondition_frame_witness:
  "setCondition ''Degraded'' ConditionFalse ''ok'' ''New'' 9
     \<lparr>entryMap = fmap_of_list [(''Degraded'', \<lparr>Cond_Type = ''Degraded'', Cond_Status = ConditionFalse,
        LastTransitionTime = 3, Reason = ''Old'', Message = ''ok''\<rparr>)], currentVersion = '''', targetVersion = ''''\<rparr> =
   \<lparr>entryMap = fmap_of_list [(''Degraded'', \<lparr>Cond_Type = ''Degraded'', Cond_Status = ConditionFalse,
        LastTransitionTime = 3, Reason = ''Old'', Message = ''ok''\<rparr>)], currentVersion = '''', targetVersion = ''''\<rparr>"
  (is "setCondition _ _ _ _ _ ?cs = _")
proof -
  have "fmlookup (entryMap ?cs) ''Degraded'' = Some \<lparr>Cond_Type = ''Degraded'', Cond_Status = ConditionFalse,
    LastTransitionTime = 3, Reason = ''Old'', Message = ''ok''\<rparr>" by simp
  from setCondition_frame [OF this, of ConditionFalse "''ok''" "''New''" 9 "''Degraded''"] show ?thesis by simp
qed

section \<open>The reporter\<close>

record 'w StatusReporter =
  sr_client :: "('w, ClusterOperator) resource"
  clusterOperatorName :: string
  sr_namespace :: string
  sr_userWorkloadNamespace :: string
  sr_version :: string

definition NewStatusReporter :: "('w, ClusterOperator) resource \<Rightarrow> string \<Rightarrow> string \<Rightarrow> string \<Rightarrow> string \<Rightarrow>
    'w StatusReporter" where
  "NewStatusReporter c name ns userNs v = \<lparr>sr_client = c, clusterOperatorName = name, sr_namespace = ns,
     sr_userWorkloadNamespace = userNs, sr_version = v\<rparr>"

definition StatusReporter :: "'w Client \<Rightarrow> 'w StatusReporter" where
  "StatusReporter c =
     NewStatusReporter (ClusterOperators c) ''monitoring'' (namespace c) (userWorkloadNamespace c) (version c)"

definition relatedObjects :: "'w StatusReporter \<Rightarrow> ObjectReference list" where
  "relatedObjects r =
     map (\<lambda>n. \<lparr>Ref_Group = '''', Ref_Resource = ''namespaces'', Ref_Name = n\<rparr>)
       [sr_namespace r, sr_userWorkloadNamespace r] @
     map (\<lambda>k. \<lparr>Ref_Group = ''monitoring.coreos.com'', Ref_Resource = k, Ref_Name = ''''\<rparr>)
       [''servicemonitors'', ''podmonitors'', ''prometheusrules'', ''alertmanagers'', ''prometheuses'',
        ''thanosrulers'', ''alertmanagerconfigs'']"

text \<open>The status that each report computes from the status that it finds.\<close>

definition done_status :: "range_order \<Rightarrow> 'w StatusReporter \<Rightarrow> int \<Rightarrow> ClusterOperatorStatus \<Rightarrow> ClusterOperatorStatus" where
  "done_status ord r now st = (
     let cs = newConditions st (sr_version r) now;
         cs = setCondition OperatorAvailable ConditionTrue ''Successfully rolled out the stack.'' ''RollOutDone'' now cs;
         cs = setCondition OperatorProgressing ConditionFalse '''' '''' now cs;
         cs = setCondition OperatorDegraded ConditionFalse '''' '''' now cs;
         cs = setCondition OperatorUpgradeable ConditionTrue '''' '''' now cs
     in st\<lparr>Conditions := entries ord cs,
           Versions := (if length (sr_version r) > 0
             then [\<lparr>OV_Name = ''operator'', OV_Version = sr_version r\<rparr>] else [])\<rparr>)"

definition in_progress_status :: "range_order \<Rightarrow> 'w StatusReporter \<Rightarrow> int \<Rightarrow> ClusterOperatorStatus \<Rightarrow> ClusterOperatorStatus" where
  "in_progress_status ord r now st = (
     let reasonInProgress = ''RollOutInProgress'';
         cs = newConditions st (sr_version r) now;
         cs = setCondition OperatorProgressing ConditionTrue ''Rolling out the stack.'' reasonInProgress now cs;
         cs = setCondition OperatorUpgradeable ConditionTrue
           ''Rollout of the monitoring stack is in progress. Please wait until it finishes.'' reasonInProgress now cs
     in st\<lparr>Conditions := entries ord cs, RelatedObjects := relatedObjects r\<rparr>)"

definition failed_status :: "range_order \<Rightarrow> 'w StatusReporter \<Rightarrow> int \<Rightarrow> string \<Rightarrow> string \<Rightarrow>
    ClusterOperatorStatus \<Rightarrow> ClusterOperatorStatus" where
  "failed_status ord r now statusErr reason st = (
     let reason = ToPascalCase reason;
         cs = newConditions st (sr_version r) now;
         cs = setCondition OperatorAvailable ConditionFalse '''' '''' now cs;
         cs = setCondition OperatorProgressing ConditionFalse '''' '''' now cs;
         cs = setCondition OperatorDegraded ConditionTrue
           (''Failed to rollout the stack. Error: '' @ statusErr) reason now cs;
         cs = setCondition OperatorUpgradeable ConditionTrue
           ''Rollout of the monitoring stack failed and is degraded. Please investigate the degraded status error.''
           reason now cs
     in st\<lparr>Conditions := entries ord cs\<rparr>)"

definition empty_status :: ClusterOperatorStatus where
  "empty_status = \<lparr>Conditions = [], Versions = [], RelatedObjects = []\<rparr>"

definition newClusterOperator :: "range_order \<Rightarrow> 'w StatusReporter \<Rightarrow> int \<Rightarrow> ClusterOperator" where
  "newClusterOperator ord r now = (
     let st = empty_status\<lparr>RelatedObjects := relatedObjects r\<rparr>
     in \<lparr>Name = clusterOperatorName r, Namespace = '''', Labels = None, Annotations = None,
         ResourceVersion = '''', Generation = 0,
         Status = st\<lparr>Conditions := entries ord (newConditions st (sr_version r) now)\<rparr>\<rparr>)"

text \<open>
  What the typed client returns beside an error of a creation: an empty object. The methods go on
  with it when that error is \<open>NotFound\<close>.
\<close>

definition zero_ClusterOperator :: ClusterOperator where
  "zero_ClusterOperator = \<lparr>Name = '''', Namespace = '''', Labels = None, Annotations = None,
     ResourceVersion = '''', Generation = 0, Status = empty_status\<rparr>"

definition report :: "range_order \<Rightarrow> 'w StatusReporter \<Rightarrow> int \<Rightarrow> (ClusterOperatorStatus \<Rightarrow> ClusterOperatorStatus) \<Rightarrow>
    ('w, unit) prog" where
  "report ord r now f = (
     let update = (\<lambda>co. discard (r_UpdateStatus (sr_client r) '''' (co\<lparr>Status := f (Status co)\<rparr>)));
         settle = (\<lambda>x. case x of
             Inr co \<Rightarrow> update co
           | Inl e \<Rightarrow> if \<not> IsNotFound e then p_return (Err e) else update zero_ClusterOperator)
     in p_catch (r_Get (sr_client r) '''' (clusterOperatorName r)) (\<lambda>x. case x of
          Inr co \<Rightarrow> update co
        | Inl e \<Rightarrow> if IsNotFound e
                   then p_catch (r_Create (sr_client r) '''' (newClusterOperator ord r now)) settle
                   else p_return (Err e)))"

definition SetDone :: "range_order \<Rightarrow> 'w StatusReporter \<Rightarrow> int \<Rightarrow> ('w, unit) prog" where
  "SetDone ord r now = report ord r now (done_status ord r now)"

definition SetInProgress :: "range_order \<Rightarrow> 'w StatusReporter \<Rightarrow> int \<Rightarrow> ('w, unit) prog" where
  "SetInProgress ord r now = report ord r now (in_progress_status ord r now)"

definition SetFailed :: "range_order \<Rightarrow> 'w StatusReporter \<Rightarrow> int \<Rightarrow> string \<Rightarrow> string \<Rightarrow> ('w, unit) prog" where
  "SetFailed ord r now statusErr reason = report ord r now (failed_status ord r now statusErr reason)"

definition sr_Get :: "'w StatusReporter \<Rightarrow> ('w, ClusterOperator) prog" where
  "sr_Get r = r_Get (sr_client r) '''' (clusterOperatorName r)"

section \<open>What the reports say\<close>

lemma operator_types_distinct [simp]:
  "OperatorAvailable \<noteq> OperatorProgressing" "OperatorProgressing \<noteq> OperatorAvailable"
  "OperatorAvailable \<noteq> OperatorDegraded" "OperatorDegraded \<noteq> OperatorAvailable"
  "OperatorAvailable \<noteq> OperatorUpgradeable" "OperatorUpgradeable \<noteq> OperatorAvailable"
  "OperatorProgressing \<noteq> OperatorDegraded" "OperatorDegraded \<noteq> OperatorProgressing"
  "OperatorProgressing \<noteq> OperatorUpgradeable" "OperatorUpgradeable \<noteq> OperatorProgressing"
  "OperatorDegraded \<noteq> OperatorUpgradeable" "OperatorUpgradeable \<noteq> OperatorDegraded"
  by (simp_all add: operator_types)

lemma Conditions_of_reports:
  assumes "lawful_order ord"
  shows "condition_of (Conditions (done_status ord r now st)) t = fmlookup (entryMap
      (setCondition OperatorUpgradeable ConditionTrue '''' '''' now
      (setCondition OperatorDegraded ConditionFalse '''' '''' now
      (setCondition OperatorProgressing ConditionFalse '''' '''' now
      (setCondition OperatorAvailable ConditionTrue ''Successfully rolled out the stack.'' ''RollOutDone'' now
        (newConditions st (sr_version r) now)))))) t"
    and "condition_of (Conditions (in_progress_status ord r now st)) t = fmlookup (entryMap
      (setCondition OperatorUpgradeable ConditionTrue
        ''Rollout of the monitoring stack is in progress. Please wait until it finishes.'' ''RollOutInProgress'' now
      (setCondition OperatorProgressing ConditionTrue ''Rolling out the stack.'' ''RollOutInProgress'' now
        (newConditions st (sr_version r) now)))) t"
    and "condition_of (Conditions (failed_status ord r now e reason st)) t = fmlookup (entryMap
      (setCondition OperatorUpgradeable ConditionTrue
        ''Rollout of the monitoring stack failed and is degraded. Please investigate the degraded status error.''
        (ToPascalCase reason) now
      (setCondition OperatorDegraded ConditionTrue (''Failed to rollout the stack. Error: '' @ e) (ToPascalCase reason) now
      (setCondition OperatorProgressing ConditionFalse '''' '''' now
      (setCondition OperatorAvailable ConditionFalse '''' '''' now
        (newConditions st (sr_version r) now)))))) t"
  by (simp_all add: done_status_def in_progress_status_def failed_status_def Let_def
      condition_of_entries [OF assms])

lemma says_setCondition:
  "says (fmlookup (entryMap (setCondition t' s' m' r' now cs)) t) s m \<longleftrightarrow>
     (if t' = t \<and> \<not> (t = OperatorProgressing \<and> s' = ConditionTrue \<and> blocks_progressing cs)
      then s = s' \<and> m = m' else says (fmlookup (entryMap cs) t) s m)"
proof (cases "t' = t \<and> \<not> (t = OperatorProgressing \<and> s' = ConditionTrue \<and> blocks_progressing cs)")
  case True
  with setCondition_same [of t s' cs m' r' now] show ?thesis by (auto simp: says_def)
next
  case False
  then show ?thesis by (cases "t' = t") (auto simp: setCondition_blocked)
qed

lemma Versions_of_reports:
  "Versions (done_status ord r now st) =
     (if sr_version r = '''' then [] else [\<lparr>OV_Name = ''operator'', OV_Version = sr_version r\<rparr>])"
  "Versions (in_progress_status ord r now st) = Versions st"
  "Versions (failed_status ord r now e reason st) = Versions st"
  by (simp_all add: done_status_def in_progress_status_def failed_status_def Let_def)

lemma blocks_progressing_says:
  "blocks_progressing cs \<longleftrightarrow>
     (\<exists>m. says (fmlookup (entryMap cs) OperatorAvailable) ConditionTrue m) \<and> targetVersion cs = currentVersion cs"
  by (auto simp: blocks_progressing_def says_def)

text \<open>
  The reports of success and of failure: done means available, not progressing, not degraded and
  upgradeable, at the operator's own version; failed means unavailable, not progressing and degraded,
  with the error in the message, and the version stays what it was.
\<close>

lemma reported_conditions:
  assumes "lawful_order ord"
  shows "(let cond = condition_of (Conditions (done_status ord r now st)) in
      says (cond ''Available'') ConditionTrue ''Successfully rolled out the stack.'' \<and>
      says (cond ''Progressing'') ConditionFalse '''' \<and>
      says (cond ''Degraded'') ConditionFalse '''' \<and>
      says (cond ''Upgradeable'') ConditionTrue '''' \<and>
      Versions (done_status ord r now st) =
        (if sr_version r = '''' then [] else [\<lparr>OV_Name = ''operator'', OV_Version = sr_version r\<rparr>])) \<and>
    (let cond = condition_of (Conditions (failed_status ord r now e reason st)) in
      says (cond ''Available'') ConditionFalse '''' \<and>
      says (cond ''Progressing'') ConditionFalse '''' \<and>
      says (cond ''Degraded'') ConditionTrue (''Failed to rollout the stack. Error: '' @ e) \<and>
      Versions (failed_status ord r now e reason st) = Versions st)"
  unfolding Let_def operator_types [symmetric] Conditions_of_reports [OF assms] Versions_of_reports
  by (simp add: says_setCondition)

definition sample_reporter :: "Cluster StatusReporter" where
  "sample_reporter = NewStatusReporter (tracker_resource ClusterOperators_tracker) ''monitoring''
     ''openshift-monitoring'' ''openshift-user-workload-monitoring'' ''4.8''"

lemma reported_conditions_witness:
  "says (condition_of (Conditions (failed_status sorted_list_of_fset sample_reporter 5 ''boom''
     ''UpdatingGrafanaFailed'' empty_status)) ''Degraded'') ConditionTrue ''Failed to rollout the stack. Error: boom''"
  using reported_conditions [OF lawful_sorted_order, of sample_reporter 5 empty_status "''boom''" "''UpdatingGrafanaFailed''"]
  by (simp add: Let_def)

lemma says_newConditions:
  "condition_of (Conditions st) t \<noteq> None \<Longrightarrow>
     fmlookup (entryMap (newConditions st v now)) t = condition_of (Conditions st) t"
  by (auto simp: newConditions_lookup)

lemma says_present: "says c s m \<Longrightarrow> c \<noteq> None"
  by (auto simp: says_def)

lemma says_status: "says c s m \<Longrightarrow> says c s' m' \<longleftrightarrow> s' = s \<and> m' = m"
  by (auto simp: says_def)

lemma currentVersion_newConditions:
  "currentVersion (newConditions st v now) = (case Versions st of [] \<Rightarrow> '''' | x # _ \<Rightarrow> OV_Version x)"
  "targetVersion (newConditions st v now) = v"
  by (simp_all add: newConditions_def Let_def)

text \<open>The progressing condition of a new rollout, from what the status said before.\<close>

lemma progressing_of_rollout:
  assumes "lawful_order ord" and "says (condition_of (Conditions st) ''Available'') a m"
    and "says (condition_of (Conditions st) ''Progressing'') p n"
  shows "says (condition_of (Conditions (in_progress_status ord r now st)) ''Progressing'') s k \<longleftrightarrow>
    (if a = ConditionTrue \<and> sr_version r = (case Versions st of [] \<Rightarrow> '''' | x # _ \<Rightarrow> OV_Version x)
     then s = p \<and> k = n else s = ConditionTrue \<and> k = ''Rolling out the stack.'')"
proof -
  let ?cs = "newConditions st (sr_version r) now"
  have avail: "fmlookup (entryMap ?cs) OperatorAvailable = condition_of (Conditions st) OperatorAvailable"
    and prog: "fmlookup (entryMap ?cs) OperatorProgressing = condition_of (Conditions st) OperatorProgressing"
    using assms(2,3) by (simp_all add: says_newConditions says_present operator_types)
  have blocks: "blocks_progressing ?cs \<longleftrightarrow>
      a = ConditionTrue \<and> sr_version r = (case Versions st of [] \<Rightarrow> '''' | x # _ \<Rightarrow> OV_Version x)"
    unfolding blocks_progressing_says avail currentVersion_newConditions
    using says_status [OF assms(2)] by (auto simp: operator_types)
  show ?thesis
    unfolding operator_types(2) [symmetric] Conditions_of_reports [OF assms(1)]
    using says_status [OF assms(3)] prog blocks
    by (auto simp: says_setCondition operator_types)
qed

text \<open>
  C27. When a rollout begins, the operator reports that it is progressing, unless it is available and
  already at the version it is to report: then the progressing condition stays what it was. So a
  steady-state synchronisation after a success does not flip it, while a new version or a synchronisation
  after a failure does.
\<close>

theorem SetInProgress_progressing:
  assumes "lawful_order ord"
  shows "says (condition_of (Conditions (in_progress_status ord r now' (done_status ord r now st))) ''Progressing'')
      ConditionFalse '''' \<and>
    (sr_version r' \<noteq> sr_version r \<longrightarrow>
      says (condition_of (Conditions (in_progress_status ord r' now' (done_status ord r now st))) ''Progressing'')
        ConditionTrue ''Rolling out the stack.'') \<and>
    says (condition_of (Conditions (in_progress_status ord r' now' (failed_status ord r now e reason st))) ''Progressing'')
      ConditionTrue ''Rolling out the stack.''"
proof -
  have d: "says (condition_of (Conditions (done_status ord r now st)) ''Available'') ConditionTrue
      ''Successfully rolled out the stack.''"
    "says (condition_of (Conditions (done_status ord r now st)) ''Progressing'') ConditionFalse ''''"
    and f: "says (condition_of (Conditions (failed_status ord r now e reason st)) ''Available'') ConditionFalse ''''"
    "says (condition_of (Conditions (failed_status ord r now e reason st)) ''Progressing'') ConditionFalse ''''"
    unfolding operator_types [symmetric] Conditions_of_reports [OF assms] by (simp_all add: says_setCondition)
  show ?thesis
    by (auto simp: progressing_of_rollout [OF assms d] progressing_of_rollout [OF assms f] Versions_of_reports)
qed

theorem SetInProgress_progressing_witness:
  "says (condition_of (Conditions (in_progress_status sorted_list_of_fset sample_reporter 6
     (done_status sorted_list_of_fset sample_reporter 5 empty_status))) ''Progressing'') ConditionFalse ''''"
  using SetInProgress_progressing [OF lawful_sorted_order, where r = sample_reporter and r' = sample_reporter
      and now = 5 and now' = 6 and st = empty_status] by blast

section \<open>The reports on the API server\<close>

context api_resource begin

lemma update_status_effect:
  assumes "discard (r_UpdateStatus R ns x) w = (Ok u, w')"
  shows "view w (ns, Name x) \<noteq> None \<and> (\<exists>y. accepts x y \<and> view w' = (view w)((ns, Name x) \<mapsto> y))"
proof -
  from assms obtain y where "r_UpdateStatus R ns x w = (Ok y, w')"
    by (auto simp: discard_def prog_simps)
  from update_status_ok [OF this] show ?thesis by auto
qed

end

lemma report_Ok:
  assumes api: "api_resource (sr_client r) view accepts"
    and keyed: "well_keyed (view w)" and unnamed: "view w ('''', '''') = None"
    and run: "report ord r now f w = (Ok u, w')"
  shows "\<exists>base req stored. view w' = (view w)(('''', clusterOperatorName r) \<mapsto> stored) \<and>
    accepts req stored \<and> Status req = f (Status base) \<and>
    (case view w ('''', clusterOperatorName r) of
       Some old \<Rightarrow> base = old
     | None \<Rightarrow> accepts (newClusterOperator ord r now) base)"
proof -
  let ?n = "clusterOperatorName r"
  let ?upd = "\<lambda>co. co\<lparr>Status := f (Status co)\<rparr>"
  have reader: "api_reader (sr_client r) view" using api by (simp add: api_resource_def)
  have new: "Name (newClusterOperator ord r now) = ?n" by (simp add: newClusterOperator_def Let_def)
  show ?thesis
  proof (cases rule: api_reader.get_cases [OF reader, of "''''" ?n w, case_names found missing failed])
    case (found x u)
    from keyed found(3) have "Name x = ?n" by (simp add: well_keyed_def)
    from run found(1) have "discard (r_UpdateStatus (sr_client r) '''' (?upd x)) u = (Ok (), w')"
      by (simp add: report_def Let_def p_catch_eqs)
    from api_resource.update_status_effect [OF api this] found \<open>Name x = ?n\<close>
    show ?thesis by - (rule exI [of _ x], rule exI [of _ "?upd x"], auto)
  next
    case (missing e u)
    obtain s v where c: "r_Create (sr_client r) '''' (newClusterOperator ord r now) u = (s, v)"
      by (metis prod.exhaust)
    show ?thesis
    proof (cases s)
      case (Ok co)
      from api_resource.create_ok [OF api c [unfolded Ok]] new missing
      have v: "view v = (view w)(('''', ?n) \<mapsto> co)" and acc: "accepts (newClusterOperator ord r now) co" by auto
      from api_resource.accepts_meta [OF api acc] new have "Name co = ?n" by simp
      from run missing c Ok have "discard (r_UpdateStatus (sr_client r) '''' (?upd co)) v = (Ok (), w')"
        by (simp add: report_def Let_def p_catch_eqs)
      from api_resource.update_status_effect [OF api this] v acc missing(4) \<open>Name co = ?n\<close>
      show ?thesis by - (rule exI [of _ co], rule exI [of _ "?upd co"], auto)
    next
      case (Err e')
      from api_resource.create_err [OF api c [unfolded Err]] missing unnamed have "view v ('''', '''') = None" by simp
      moreover from run missing c Err
      have "discard (r_UpdateStatus (sr_client r) '''' (?upd zero_ClusterOperator)) v = (Ok (), w')"
        by (auto simp: report_def Let_def p_catch_eqs split: if_splits)
      note api_resource.update_status_effect [OF api this]
      ultimately show ?thesis by (simp add: zero_ClusterOperator_def)
    next
      case Panic
      with c api_resource.writes_return(1) [OF api, of "''''" "newClusterOperator ord r now" u] show ?thesis by simp
    qed
  next
    case (failed e u)
    with run show ?thesis by (simp add: report_def Let_def p_catch_eqs)
  qed
qed

text \<open>
  Reporting success end to end: when \<open>SetDone\<close> returns nil, the cluster operator stored under the
  reporter's name was accepted with a status that says available, not progressing and not degraded at
  the operator's version; it is the only object that changed.
\<close>

theorem SetDone_stored:
  assumes "api_resource (sr_client r) view accepts" and "well_keyed (view w)"
    and "view w ('''', '''') = None" and "lawful_order ord" and "SetDone ord r now w = (Ok u, w')"
  shows "\<exists>req stored. accepts req stored \<and>
    view w' = (view w)(('''', clusterOperatorName r) \<mapsto> stored) \<and>
    says (condition_of (Conditions (Status req)) ''Available'') ConditionTrue ''Successfully rolled out the stack.'' \<and>
    says (condition_of (Conditions (Status req)) ''Progressing'') ConditionFalse '''' \<and>
    says (condition_of (Conditions (Status req)) ''Degraded'') ConditionFalse '''' \<and>
    (sr_version r \<noteq> '''' \<longrightarrow> Versions (Status req) = [\<lparr>OV_Name = ''operator'', OV_Version = sr_version r\<rparr>])"
proof -
  from report_Ok [OF assms(1-3) assms(5) [unfolded SetDone_def]] obtain base :: ClusterOperator and req stored where
    st: "view w' = (view w)(('''', clusterOperatorName r) \<mapsto> stored)" "accepts req stored"
    and req: "Status req = done_status ord r now (Status base)" by blast
  have "says (condition_of (Conditions (Status req)) ''Available'') ConditionTrue ''Successfully rolled out the stack.'' \<and>
    says (condition_of (Conditions (Status req)) ''Progressing'') ConditionFalse '''' \<and>
    says (condition_of (Conditions (Status req)) ''Degraded'') ConditionFalse '''' \<and>
    (sr_version r \<noteq> '''' \<longrightarrow> Versions (Status req) = [\<lparr>OV_Name = ''operator'', OV_Version = sr_version r\<rparr>])"
    unfolding req operator_types [symmetric] Conditions_of_reports [OF assms(4)] Versions_of_reports
    by (simp add: says_setCondition)
  with st show ?thesis by blast
qed

definition operator_cluster :: Cluster where
  "operator_cluster = empty_cluster\<lparr>tracked_ClusterOperators := fmap_of_list
     [(('''', ''monitoring''), newClusterOperator sorted_list_of_fset sample_reporter 1)]\<rparr>"

theorem SetDone_stored_witness:
  "tracker_view ClusterOperators_tracker (snd (SetDone sorted_list_of_fset sample_reporter 2 operator_cluster))
     ('''', ''monitoring'') \<noteq> None"
proof -
  have name: "clusterOperatorName sample_reporter = ''monitoring''" "sr_client sample_reporter = tracker_resource ClusterOperators_tracker"
    by (simp_all add: sample_reporter_def NewStatusReporter_def)
  have api: "api_resource (sr_client sample_reporter) (tracker_view ClusterOperators_tracker) tracker_accepts"
    by (simp add: name api_resource_tracker)
  have keyed: "well_keyed (tracker_view ClusterOperators_tracker operator_cluster)"
    and unnamed: "tracker_view ClusterOperators_tracker operator_cluster ('''', '''') = None"
    by (auto simp: well_keyed_def tracker_view_def ClusterOperators_tracker_def operator_cluster_def
        newClusterOperator_def name Let_def empty_cluster_def split: if_splits)
  have ok: "fst (SetDone sorted_list_of_fset sample_reporter 2 operator_cluster) = Ok ()"
    by (simp add: SetDone_def report_def name run_simps ClusterOperators_tracker_def operator_cluster_def
        newClusterOperator_def empty_cluster_def)
  obtain w' where run: "SetDone sorted_list_of_fset sample_reporter 2 operator_cluster = (Ok (), w')"
    using ok by (cases "SetDone sorted_list_of_fset sample_reporter 2 operator_cluster") auto
  from SetDone_stored [OF api keyed unnamed lawful_sorted_order run] run name show ?thesis by auto
qed

end
