(* ===== verification/Config.thy ===== *)
theory Config
  imports K8s_Objects
begin

text \<open>
  The operator's configuration: \<open>pkg/manifests/config.go\<close>. Sections of the configuration are records,
  and pointers to them options, so that a section that the user does not give is None until
  \<open>applyDefaults\<close>. The YAML decoder is an argument: a function from the text to the decoded value or
  an error.
\<close>

section \<open>The configuration\<close>

text \<open>All workload sections have a node selector and tolerations; some have nothing else.\<close>

record PlacementConfig =
  cfg_NodeSelector :: "string gomap"
  cfg_Tolerations :: "Toleration list"

type_synonym GrafanaConfig = PlacementConfig
type_synonym KubeStateMetricsConfig = PlacementConfig
type_synonym OpenShiftStateMetricsConfig = PlacementConfig
type_synonym K8sPrometheusAdapter = PlacementConfig

record PrometheusOperatorConfig = PlacementConfig +
  po_LogLevel :: string

record PrometheusK8sConfig = PlacementConfig +
  pk_LogLevel :: string
  pk_Retention :: string
  pk_Resources :: "ResourceRequirements option"
  pk_ExternalLabels :: "string gomap"
  pk_VolumeClaimTemplate :: "VolumeClaim option"
  pk_RemoteWrite :: "RemoteWriteSpec list"
  pk_TelemetryMatches :: "string list"

record AlertmanagerMainConfig = PlacementConfig +
  am_Resources :: "ResourceRequirements option"
  am_VolumeClaimTemplate :: "VolumeClaim option"

record ThanosRulerConfig = PlacementConfig +
  tr_LogLevel :: string
  tr_Resources :: "ResourceRequirements option"
  tr_VolumeClaimTemplate :: "VolumeClaim option"

record ThanosQuerierConfig = PlacementConfig +
  tq_LogLevel :: string
  tq_Resources :: "ResourceRequirements option"

record TelemeterClientConfig = PlacementConfig +
  ClusterID :: string
  tc_Enabled :: "bool option"
  TelemeterServerURL :: string
  Token :: string

record EtcdConfig =
  etcd_Enabled :: "bool option"

record HTTPConfig =
  HTTPProxy :: string
  HTTPSProxy :: string
  NoProxy :: string

record UserWorkloadConfig =
  uw_Enabled :: "bool option"

record Images =
  img_K8sPrometheusAdapter :: string
  img_PromLabelProxy :: string
  img_PrometheusOperator :: string
  img_PrometheusConfigReloader :: string
  img_Prometheus :: string
  img_Alertmanager :: string
  img_Grafana :: string
  img_OauthProxy :: string
  img_NodeExporter :: string
  img_KubeStateMetrics :: string
  img_OpenShiftStateMetrics :: string
  img_KubeRbacProxy :: string
  img_TelemeterClient :: string
  img_Thanos :: string

record ClusterMonitoringConfiguration =
  cmc_PrometheusOperatorConfig :: "PrometheusOperatorConfig option"
  cmc_PrometheusK8sConfig :: "PrometheusK8sConfig option"
  cmc_AlertmanagerMainConfig :: "AlertmanagerMainConfig option"
  cmc_KubeStateMetricsConfig :: "KubeStateMetricsConfig option"
  cmc_OpenShiftMetricsConfig :: "OpenShiftStateMetricsConfig option"
  cmc_GrafanaConfig :: "GrafanaConfig option"
  cmc_EtcdConfig :: "EtcdConfig option"
  cmc_HTTPConfig :: "HTTPConfig option"
  cmc_TelemeterClientConfig :: "TelemeterClientConfig option"
  cmc_K8sPrometheusAdapter :: "K8sPrometheusAdapter option"
  cmc_ThanosQuerierConfig :: "ThanosQuerierConfig option"
  cmc_UserWorkloadEnabled :: "bool option"
  cmc_UserWorkloadConfig :: "UserWorkloadConfig option"

record PrometheusRestrictedConfig = PlacementConfig +
  pr_LogLevel :: string
  pr_Retention :: string
  pr_Resources :: "ResourceRequirements option"
  pr_ExternalLabels :: "string gomap"
  pr_VolumeClaimTemplate :: "VolumeClaim option"
  pr_RemoteWrite :: "RemoteWriteSpec list"
  pr_EnforcedSampleLimit :: "64 word option"

record UserWorkloadConfiguration =
  uwc_PrometheusOperator :: "PrometheusOperatorConfig option"
  uwc_Prometheus :: "PrometheusRestrictedConfig option"
  uwc_ThanosRuler :: "ThanosRulerConfig option"

record Config =
  cfg_Images :: "Images option"
  cfg_RemoteWrite :: bool
  Platform :: string
  cfg_ClusterMonitoringConfiguration :: "ClusterMonitoringConfiguration option"
  cfg_UserWorkloadConfiguration :: "UserWorkloadConfiguration option"

section \<open>Zero values\<close>

definition no_placement :: PlacementConfig where
  "no_placement = \<lparr>cfg_NodeSelector = None, cfg_Tolerations = []\<rparr>"

definition zero_PrometheusOperatorConfig :: PrometheusOperatorConfig where
  "zero_PrometheusOperatorConfig = \<lparr>cfg_NodeSelector = None, cfg_Tolerations = [], po_LogLevel = ''''\<rparr>"

definition zero_PrometheusK8sConfig :: PrometheusK8sConfig where
  "zero_PrometheusK8sConfig = \<lparr>cfg_NodeSelector = None, cfg_Tolerations = [], pk_LogLevel = '''',
     pk_Retention = '''', pk_Resources = None, pk_ExternalLabels = None, pk_VolumeClaimTemplate = None,
     pk_RemoteWrite = [], pk_TelemetryMatches = []\<rparr>"

definition zero_AlertmanagerMainConfig :: AlertmanagerMainConfig where
  "zero_AlertmanagerMainConfig = \<lparr>cfg_NodeSelector = None, cfg_Tolerations = [], am_Resources = None,
     am_VolumeClaimTemplate = None\<rparr>"

definition zero_ThanosRulerConfig :: ThanosRulerConfig where
  "zero_ThanosRulerConfig = \<lparr>cfg_NodeSelector = None, cfg_Tolerations = [], tr_LogLevel = '''',
     tr_Resources = None, tr_VolumeClaimTemplate = None\<rparr>"

definition zero_ThanosQuerierConfig :: ThanosQuerierConfig where
  "zero_ThanosQuerierConfig = \<lparr>cfg_NodeSelector = None, cfg_Tolerations = [], tq_LogLevel = '''',
     tq_Resources = None\<rparr>"

definition zero_TelemeterClientConfig :: TelemeterClientConfig where
  "zero_TelemeterClientConfig = \<lparr>cfg_NodeSelector = None, cfg_Tolerations = [], ClusterID = '''',
     tc_Enabled = None, TelemeterServerURL = '''', Token = ''''\<rparr>"

definition zero_HTTPConfig :: HTTPConfig where
  "zero_HTTPConfig = \<lparr>HTTPProxy = '''', HTTPSProxy = '''', NoProxy = ''''\<rparr>"

definition zero_Images :: Images where
  "zero_Images = \<lparr>img_K8sPrometheusAdapter = '''', img_PromLabelProxy = '''', img_PrometheusOperator = '''',
     img_PrometheusConfigReloader = '''', img_Prometheus = '''', img_Alertmanager = '''', img_Grafana = '''',
     img_OauthProxy = '''', img_NodeExporter = '''', img_KubeStateMetrics = '''',
     img_OpenShiftStateMetrics = '''', img_KubeRbacProxy = '''', img_TelemeterClient = '''', img_Thanos = ''''\<rparr>"

definition zero_ClusterMonitoringConfiguration :: ClusterMonitoringConfiguration where
  "zero_ClusterMonitoringConfiguration = \<lparr>cmc_PrometheusOperatorConfig = None, cmc_PrometheusK8sConfig = None,
     cmc_AlertmanagerMainConfig = None, cmc_KubeStateMetricsConfig = None, cmc_OpenShiftMetricsConfig = None,
     cmc_GrafanaConfig = None, cmc_EtcdConfig = None, cmc_HTTPConfig = None, cmc_TelemeterClientConfig = None,
     cmc_K8sPrometheusAdapter = None, cmc_ThanosQuerierConfig = None, cmc_UserWorkloadEnabled = None,
     cmc_UserWorkloadConfig = None\<rparr>"

definition zero_PrometheusRestrictedConfig :: PrometheusRestrictedConfig where
  "zero_PrometheusRestrictedConfig = \<lparr>cfg_NodeSelector = None, cfg_Tolerations = [], pr_LogLevel = '''',
     pr_Retention = '''', pr_Resources = None, pr_ExternalLabels = None, pr_VolumeClaimTemplate = None,
     pr_RemoteWrite = [], pr_EnforcedSampleLimit = None\<rparr>"

definition zero_UserWorkloadConfiguration :: UserWorkloadConfiguration where
  "zero_UserWorkloadConfiguration = \<lparr>uwc_PrometheusOperator = None, uwc_Prometheus = None, uwc_ThanosRuler = None\<rparr>"

definition zero_Config :: Config where
  "zero_Config = \<lparr>cfg_Images = None, cfg_RemoteWrite = False, Platform = '''',
     cfg_ClusterMonitoringConfiguration = None, cfg_UserWorkloadConfiguration = None\<rparr>"

section \<open>Defaults\<close>

definition DefaultRetentionValue :: string where
  "DefaultRetentionValue = ''15d''"

definition default_PrometheusK8sConfig :: "PrometheusK8sConfig option \<Rightarrow> PrometheusK8sConfig option" where
  "default_PrometheusK8sConfig p = (
     let q = (case p of None \<Rightarrow> zero_PrometheusK8sConfig | Some q \<Rightarrow> q)
     in Some (if pk_Retention q = '''' then q\<lparr>pk_Retention := DefaultRetentionValue\<rparr> else q))"

definition applyDefaults_cmc :: "ClusterMonitoringConfiguration \<Rightarrow> ClusterMonitoringConfiguration" where
  "applyDefaults_cmc m = \<lparr>
     cmc_PrometheusOperatorConfig = default_to zero_PrometheusOperatorConfig (cmc_PrometheusOperatorConfig m),
     cmc_PrometheusK8sConfig = default_PrometheusK8sConfig (cmc_PrometheusK8sConfig m),
     cmc_AlertmanagerMainConfig = default_to zero_AlertmanagerMainConfig (cmc_AlertmanagerMainConfig m),
     cmc_KubeStateMetricsConfig = default_to no_placement (cmc_KubeStateMetricsConfig m),
     cmc_OpenShiftMetricsConfig = default_to no_placement (cmc_OpenShiftMetricsConfig m),
     cmc_GrafanaConfig = default_to no_placement (cmc_GrafanaConfig m),
     cmc_EtcdConfig = default_to \<lparr>etcd_Enabled = None\<rparr> (cmc_EtcdConfig m),
     cmc_HTTPConfig = default_to zero_HTTPConfig (cmc_HTTPConfig m),
     cmc_TelemeterClientConfig = default_to
       (zero_TelemeterClientConfig\<lparr>TelemeterServerURL := ''https://infogw.api.openshift.com/''\<rparr>)
       (cmc_TelemeterClientConfig m),
     cmc_K8sPrometheusAdapter = default_to no_placement (cmc_K8sPrometheusAdapter m),
     cmc_ThanosQuerierConfig = default_to zero_ThanosQuerierConfig (cmc_ThanosQuerierConfig m),
     cmc_UserWorkloadEnabled = default_to False (cmc_UserWorkloadEnabled m),
     cmc_UserWorkloadConfig = default_to \<lparr>uw_Enabled = None\<rparr> (cmc_UserWorkloadConfig m)\<rparr>"

definition applyDefaults :: "Config \<Rightarrow> Config" where
  "applyDefaults c = c\<lparr>
     cfg_Images := default_to zero_Images (cfg_Images c),
     cfg_ClusterMonitoringConfiguration := Some (applyDefaults_cmc
       (case cfg_ClusterMonitoringConfiguration c of
          None \<Rightarrow> zero_ClusterMonitoringConfiguration
        | Some m \<Rightarrow> m))\<rparr>"

definition applyDefaults_user :: "UserWorkloadConfiguration \<Rightarrow> UserWorkloadConfiguration" where
  "applyDefaults_user u = \<lparr>
     uwc_PrometheusOperator = default_to zero_PrometheusOperatorConfig (uwc_PrometheusOperator u),
     uwc_Prometheus = default_to zero_PrometheusRestrictedConfig (uwc_Prometheus u),
     uwc_ThanosRuler = default_to zero_ThanosRulerConfig (uwc_ThanosRuler u)\<rparr>"

definition NewDefaultUserWorkloadMonitoringConfig :: UserWorkloadConfiguration where
  "NewDefaultUserWorkloadMonitoringConfig = applyDefaults_user zero_UserWorkloadConfiguration"

definition NewDefaultConfig :: Config where
  "NewDefaultConfig = applyDefaults (zero_Config\<lparr>
     cfg_ClusterMonitoringConfiguration := Some zero_ClusterMonitoringConfiguration,
     cfg_UserWorkloadConfiguration := Some NewDefaultUserWorkloadMonitoringConfig\<rparr>)"

definition NewConfig :: "(string \<Rightarrow> ClusterMonitoringConfiguration res) \<Rightarrow> string \<Rightarrow> Config res" where
  "NewConfig decode content = r_bind (decode content) (\<lambda>cmc.
     Ok ((applyDefaults (zero_Config\<lparr>cfg_ClusterMonitoringConfiguration := Some cmc\<rparr>))
       \<lparr>cfg_UserWorkloadConfiguration := Some NewDefaultUserWorkloadMonitoringConfig\<rparr>))"

definition NewConfigFromString :: "(string \<Rightarrow> ClusterMonitoringConfiguration res) \<Rightarrow> string \<Rightarrow> Config res" where
  "NewConfigFromString decode content =
     (if content = '''' then Ok NewDefaultConfig else NewConfig decode content)"

text \<open>
  The user configuration is decoded into a pointer to a pointer, so that a document that is null
  leaves a nil pointer, and \<open>applyDefaults\<close> then follows it.
\<close>

definition NewUserConfigFromString :: "(string \<Rightarrow> UserWorkloadConfiguration option res) \<Rightarrow> string \<Rightarrow>
    UserWorkloadConfiguration res" where
  "NewUserConfigFromString decode content =
     (if content = '''' then Ok NewDefaultUserWorkloadMonitoringConfig
      else r_bind (decode content) (\<lambda>u. r_bind (deref u) (\<lambda>u. Ok (applyDefaults_user u))))"

section \<open>Settings\<close>

definition on_cmc :: "Config \<Rightarrow> (ClusterMonitoringConfiguration \<Rightarrow> ClusterMonitoringConfiguration res) \<Rightarrow> Config res" where
  "on_cmc c f = r_bind (deref (cfg_ClusterMonitoringConfiguration c)) (\<lambda>m. r_bind (f m) (\<lambda>m'.
     Ok (c\<lparr>cfg_ClusterMonitoringConfiguration := Some m'\<rparr>)))"

definition SetImages :: "string gomap \<Rightarrow> Config \<Rightarrow> Config res" where
  "SetImages images c = r_bind (through (cfg_Images c) (\<lambda>i. i\<lparr>
       img_PrometheusOperator := gm_get images ''prometheus-operator'',
       img_PrometheusConfigReloader := gm_get images ''prometheus-config-reloader'',
       img_Prometheus := gm_get images ''prometheus'',
       img_Alertmanager := gm_get images ''alertmanager'',
       img_Grafana := gm_get images ''grafana'',
       img_OauthProxy := gm_get images ''oauth-proxy'',
       img_NodeExporter := gm_get images ''node-exporter'',
       img_KubeStateMetrics := gm_get images ''kube-state-metrics'',
       img_KubeRbacProxy := gm_get images ''kube-rbac-proxy'',
       img_TelemeterClient := gm_get images ''telemeter-client'',
       img_PromLabelProxy := gm_get images ''prom-label-proxy'',
       img_K8sPrometheusAdapter := gm_get images ''k8s-prometheus-adapter'',
       img_OpenShiftStateMetrics := gm_get images ''openshift-state-metrics'',
       img_Thanos := gm_get images ''thanos''\<rparr>))
     (\<lambda>i. Ok (c\<lparr>cfg_Images := i\<rparr>))"

definition SetTelemetryMatches :: "string list \<Rightarrow> Config \<Rightarrow> Config res" where
  "SetTelemetryMatches matches c = on_cmc c (\<lambda>m.
     r_bind (through (cmc_PrometheusK8sConfig m) (\<lambda>p. p\<lparr>pk_TelemetryMatches := matches\<rparr>))
       (\<lambda>p. Ok (m\<lparr>cmc_PrometheusK8sConfig := p\<rparr>)))"

definition SetRemoteWrite :: "bool \<Rightarrow> Config \<Rightarrow> Config res" where
  "SetRemoteWrite rw c = (let c = c\<lparr>cfg_RemoteWrite := rw\<rparr> in
     if \<not> cfg_RemoteWrite c then Ok c
     else on_cmc c (\<lambda>m. r_bind (through (cmc_TelemeterClientConfig m) (\<lambda>t.
         if TelemeterServerURL t = ''https://infogw.api.openshift.com/''
         then t\<lparr>TelemeterServerURL := ''https://infogw.api.openshift.com/metrics/v1/receive''\<rparr> else t))
       (\<lambda>t. Ok (m\<lparr>cmc_TelemeterClientConfig := t\<rparr>))))"

definition EtcdConfig_IsEnabled :: "EtcdConfig \<Rightarrow> bool" where
  "EtcdConfig_IsEnabled e = (case etcd_Enabled e of None \<Rightarrow> False | Some b \<Rightarrow> b)"

definition TelemeterClientConfig_IsEnabled :: "TelemeterClientConfig option \<Rightarrow> bool" where
  "TelemeterClientConfig_IsEnabled p = (case p of
      None \<Rightarrow> False
    | Some cfg \<Rightarrow>
        if (case tc_Enabled cfg of None \<Rightarrow> False | Some b \<Rightarrow> b = False) \<or> ClusterID cfg = '''' \<or> Token cfg = ''''
        then False else True)"

text \<open>The technology-preview setting only makes the operator log a warning.\<close>

definition UserWorkloadConfig_isEnabled :: "UserWorkloadConfig option \<Rightarrow> bool res" where
  "UserWorkloadConfig_isEnabled c = r_bind (deref c) (\<lambda>_. Ok False)"

definition IsUserWorkloadEnabled :: "Config \<Rightarrow> bool res" where
  "IsUserWorkloadEnabled c = r_bind (deref (cfg_ClusterMonitoringConfiguration c)) (\<lambda>m.
     r_bind (deref (cmc_UserWorkloadEnabled m)) (\<lambda>enabled.
       if enabled = True then Ok True else UserWorkloadConfig_isEnabled (cmc_UserWorkloadConfig m)))"

section \<open>Settings that are read from the cluster\<close>

text \<open>
  Each of these methods changes the configuration and returns an error or nil; it calls the loader
  that it is given only when the configuration lacks the setting. A result \<open>(Some e, c')\<close> is the
  error with the configuration afterwards.
\<close>

type_synonym 'w load_result = "('w, error option \<times> Config) prog"

definition load_with :: "string \<Rightarrow> ('w, 'a) prog \<Rightarrow> Config \<Rightarrow> ('a \<Rightarrow> error option \<times> Config) \<Rightarrow> 'w load_result" where
  "load_with msg load c k = p_catch load (\<lambda>r. case r of
       Inl e \<Rightarrow> p_return (Ok (Some (ErrorString (msg @ '': '' @ error_message e)), c))
     | Inr x \<Rightarrow> p_return (Ok (k x)))"

definition telemeter_of :: "Config \<Rightarrow> TelemeterClientConfig res" where
  "telemeter_of c = r_bind (deref (cfg_ClusterMonitoringConfiguration c)) (\<lambda>m. deref (cmc_TelemeterClientConfig m))"

definition set_telemeter :: "(TelemeterClientConfig \<Rightarrow> TelemeterClientConfig) \<Rightarrow> Config \<Rightarrow> Config" where
  "set_telemeter f c = c\<lparr>cfg_ClusterMonitoringConfiguration := map_option (\<lambda>m.
     m\<lparr>cmc_TelemeterClientConfig := map_option f (cmc_TelemeterClientConfig m)\<rparr>) (cfg_ClusterMonitoringConfiguration c)\<rparr>"

definition LoadClusterID :: "('w, ClusterVersion) prog \<Rightarrow> Config \<Rightarrow> 'w load_result" where
  "LoadClusterID load c = p_bind (p_return (telemeter_of c)) (\<lambda>t.
     if ClusterID t \<noteq> '''' then p_return (Ok (None, c))
     else load_with ''error loading cluster version'' load c
            (\<lambda>cv. (None, set_telemeter (\<lambda>t. t\<lparr>ClusterID := Spec_ClusterID cv\<rparr>) c)))"

text \<open>\<open>unmarshal\<close> reads the token for \<open>cloud.openshift.com\<close> out of the pull secret's JSON.\<close>

definition LoadToken :: "(string \<Rightarrow> error + string) \<Rightarrow> ('w, Secret) prog \<Rightarrow> Config \<Rightarrow> 'w load_result" where
  "LoadToken unmarshal load c = p_bind (p_return (telemeter_of c)) (\<lambda>t.
     if Token t \<noteq> '''' then p_return (Ok (None, c))
     else load_with ''error loading secret'' load c (\<lambda>secret.
            if Secret_Type secret \<noteq> ''kubernetes.io/dockerconfigjson''
            then (Some (ErrorString (''error expecting secret type kubernetes.io/dockerconfigjson got '' @ Secret_Type secret)), c)
            else (case unmarshal (gm_get (Data secret) ''.dockerconfigjson'') of
                Inr auth \<Rightarrow> (None, set_telemeter (\<lambda>t. t\<lparr>Token := auth\<rparr>) c)
              | Inl e \<Rightarrow> (Some (ErrorString (''unmarshaling pull secret failed: '' @ error_message e)), c))))"

definition http_of :: "Config \<Rightarrow> HTTPConfig res" where
  "http_of c = r_bind (deref (cfg_ClusterMonitoringConfiguration c)) (\<lambda>m. deref (cmc_HTTPConfig m))"

definition set_http :: "HTTPConfig \<Rightarrow> Config \<Rightarrow> Config" where
  "set_http h c = c\<lparr>cfg_ClusterMonitoringConfiguration := map_option (\<lambda>m.
     m\<lparr>cmc_HTTPConfig := Some h\<rparr>) (cfg_ClusterMonitoringConfiguration c)\<rparr>"

definition LoadProxy :: "('w, Proxy) prog \<Rightarrow> Config \<Rightarrow> 'w load_result" where
  "LoadProxy load c = p_bind (p_return (http_of c)) (\<lambda>h.
     if HTTPProxy h \<noteq> '''' \<or> HTTPSProxy h \<noteq> '''' \<or> NoProxy h \<noteq> '''' then p_return (Ok (None, c))
     else load_with ''error loading proxy'' load c (\<lambda>p.
            (None, set_http \<lparr>HTTPProxy = Status_HTTPProxy p, HTTPSProxy = Status_HTTPSProxy p,
                             NoProxy = Status_NoProxy p\<rparr> c)))"

definition LoadPlatform :: "('w, Infrastructure) prog \<Rightarrow> Config \<Rightarrow> 'w load_result" where
  "LoadPlatform load c = load_with ''error loading platform'' load c
     (\<lambda>i. (None, c\<lparr>Platform := Status_Platform i\<rparr>))"

section \<open>Complete configurations\<close>

text \<open>
  A configuration on which no method follows a nil pointer: every section is there and the retention
  is set.
\<close>

definition complete_cmc :: "ClusterMonitoringConfiguration \<Rightarrow> bool" where
  "complete_cmc m \<longleftrightarrow> cmc_PrometheusOperatorConfig m \<noteq> None \<and>
     (case cmc_PrometheusK8sConfig m of None \<Rightarrow> False | Some p \<Rightarrow> pk_Retention p \<noteq> '''') \<and>
     cmc_AlertmanagerMainConfig m \<noteq> None \<and> cmc_KubeStateMetricsConfig m \<noteq> None \<and>
     cmc_OpenShiftMetricsConfig m \<noteq> None \<and> cmc_GrafanaConfig m \<noteq> None \<and> cmc_EtcdConfig m \<noteq> None \<and>
     cmc_HTTPConfig m \<noteq> None \<and> cmc_TelemeterClientConfig m \<noteq> None \<and> cmc_K8sPrometheusAdapter m \<noteq> None \<and>
     cmc_ThanosQuerierConfig m \<noteq> None \<and> cmc_UserWorkloadEnabled m \<noteq> None \<and> cmc_UserWorkloadConfig m \<noteq> None"

definition complete_user :: "UserWorkloadConfiguration \<Rightarrow> bool" where
  "complete_user u \<longleftrightarrow> uwc_PrometheusOperator u \<noteq> None \<and> uwc_Prometheus u \<noteq> None \<and> uwc_ThanosRuler u \<noteq> None"

definition complete :: "Config \<Rightarrow> bool" where
  "complete c \<longleftrightarrow> cfg_Images c \<noteq> None \<and>
     (case cfg_ClusterMonitoringConfiguration c of None \<Rightarrow> False | Some m \<Rightarrow> complete_cmc m) \<and>
     (case cfg_UserWorkloadConfiguration c of None \<Rightarrow> False | Some u \<Rightarrow> complete_user u)"

lemma complete_cmcE:
  assumes "complete_cmc m"
  obtains po pk am ks os g e h t ka tq ue uc where
    "cmc_PrometheusOperatorConfig m = Some po" "cmc_PrometheusK8sConfig m = Some pk"
    "pk_Retention pk \<noteq> ''''" "cmc_AlertmanagerMainConfig m = Some am" "cmc_KubeStateMetricsConfig m = Some ks"
    "cmc_OpenShiftMetricsConfig m = Some os" "cmc_GrafanaConfig m = Some g" "cmc_EtcdConfig m = Some e"
    "cmc_HTTPConfig m = Some h" "cmc_TelemeterClientConfig m = Some t" "cmc_K8sPrometheusAdapter m = Some ka"
    "cmc_ThanosQuerierConfig m = Some tq" "cmc_UserWorkloadEnabled m = Some ue" "cmc_UserWorkloadConfig m = Some uc"
  using assms that unfolding complete_cmc_def by (auto split: option.splits)

lemma completeE:
  assumes "complete c"
  obtains i m u where "cfg_Images c = Some i" "cfg_ClusterMonitoringConfiguration c = Some m"
    "complete_cmc m" "cfg_UserWorkloadConfiguration c = Some u" "complete_user u"
  using assms that unfolding complete_def by (auto split: option.splits)

lemma complete_applyDefaults_cmc [simp]: "complete_cmc (applyDefaults_cmc m)"
  by (simp add: complete_cmc_def applyDefaults_cmc_def default_PrometheusK8sConfig_def Let_def
      DefaultRetentionValue_def split: option.splits)

lemma complete_applyDefaults_user [simp]: "complete_user (applyDefaults_user u)"
  by (simp add: complete_user_def applyDefaults_user_def)

lemma complete_default_user [simp]: "complete_user NewDefaultUserWorkloadMonitoringConfig"
  by (simp add: NewDefaultUserWorkloadMonitoringConfig_def)

lemma complete_NewDefaultConfig [simp]: "complete NewDefaultConfig"
  by (simp add: complete_def NewDefaultConfig_def applyDefaults_def)

lemma applyDefaults_cmc_complete: "complete_cmc m \<Longrightarrow> applyDefaults_cmc m = m"
  by (erule complete_cmcE) (simp add: applyDefaults_cmc_def default_PrometheusK8sConfig_def Let_def)

lemma complete_applyDefaults [simp]:
  "complete ((applyDefaults c)\<lparr>cfg_UserWorkloadConfiguration := Some NewDefaultUserWorkloadMonitoringConfig\<rparr>)"
  by (simp add: complete_def applyDefaults_def)

lemma NewConfigFromString_Ok: "NewConfigFromString decode content = Ok c \<Longrightarrow> complete c"
  by (cases "content = ''''"; cases "decode content")
    (simp_all add: NewConfigFromString_def NewConfig_def, auto)

text \<open>
  Every configuration that the loader returns is complete, whatever the document leaves out: an
  empty document gives the defaults, a decoding error is returned, and there is no panic.
\<close>

theorem NewConfigFromString_complete:
  "case NewConfigFromString decode content of
     Ok c \<Rightarrow> complete c
   | Err e \<Rightarrow> decode content = Err e
   | Panic \<Rightarrow> decode content = Panic"
  by (cases "decode content")
    (auto simp: NewConfigFromString_def NewConfig_def complete_def applyDefaults_def NewDefaultConfig_def)

text \<open>
  Defaults only fill gaps: every section of the document that is present is kept as it is, but
  that an empty retention becomes 15 days; applying the defaults again changes nothing.
\<close>

theorem applyDefaults_fills_gaps:
  "applyDefaults_cmc (applyDefaults_cmc m) = applyDefaults_cmc m \<and>
   (case cmc_PrometheusOperatorConfig m of None \<Rightarrow> True | Some x \<Rightarrow> cmc_PrometheusOperatorConfig (applyDefaults_cmc m) = Some x) \<and>
   (case cmc_PrometheusK8sConfig m of
      None \<Rightarrow> True
    | Some x \<Rightarrow> cmc_PrometheusK8sConfig (applyDefaults_cmc m) =
        Some (if pk_Retention x = '''' then x\<lparr>pk_Retention := ''15d''\<rparr> else x)) \<and>
   (case cmc_AlertmanagerMainConfig m of None \<Rightarrow> True | Some x \<Rightarrow> cmc_AlertmanagerMainConfig (applyDefaults_cmc m) = Some x) \<and>
   (case cmc_TelemeterClientConfig m of
      None \<Rightarrow> map_option TelemeterServerURL (cmc_TelemeterClientConfig (applyDefaults_cmc m)) =
        Some ''https://infogw.api.openshift.com/''
    | Some x \<Rightarrow> cmc_TelemeterClientConfig (applyDefaults_cmc m) = Some x) \<and>
   (case cmc_HTTPConfig m of None \<Rightarrow> True | Some x \<Rightarrow> cmc_HTTPConfig (applyDefaults_cmc m) = Some x) \<and>
   (case cmc_UserWorkloadEnabled m of
      None \<Rightarrow> cmc_UserWorkloadEnabled (applyDefaults_cmc m) = Some False
    | Some x \<Rightarrow> cmc_UserWorkloadEnabled (applyDefaults_cmc m) = Some x)"
proof -
  have "applyDefaults_cmc (applyDefaults_cmc m) = applyDefaults_cmc m"
    by (rule applyDefaults_cmc_complete) simp
  then show ?thesis
    by (simp add: applyDefaults_cmc_def default_PrometheusK8sConfig_def Let_def DefaultRetentionValue_def
        zero_TelemeterClientConfig_def split: option.splits)
qed


section \<open>Settings on a complete configuration\<close>

lemma SetImages_complete: "complete c \<Longrightarrow> \<exists>c'. SetImages images c = Ok c' \<and> complete c'"
  by (erule completeE) (auto simp: SetImages_def complete_def)

lemma SetTelemetryMatches_complete: "complete c \<Longrightarrow> \<exists>c'. SetTelemetryMatches ms c = Ok c' \<and> complete c'"
  by (erule completeE, erule complete_cmcE) (simp add: SetTelemetryMatches_def on_cmc_def complete_def complete_cmc_def)

lemma SetRemoteWrite_complete: "complete c \<Longrightarrow> \<exists>c'. SetRemoteWrite rw c = Ok c' \<and> complete c'"
  by (erule completeE, erule complete_cmcE)
    (simp add: SetRemoteWrite_def on_cmc_def complete_def complete_cmc_def Let_def)

lemma complete_set_telemeter: "complete c \<Longrightarrow> complete (set_telemeter f c)"
  by (erule completeE, erule complete_cmcE) (simp add: set_telemeter_def complete_def complete_cmc_def)

lemma complete_set_http: "complete c \<Longrightarrow> complete (set_http h c)"
  by (erule completeE, erule complete_cmcE) (simp add: set_http_def complete_def complete_cmc_def)

text \<open>
  Remote write: switching it on moves the default telemetry address to the remote-write endpoint
  and no other address; switching it off changes the flag only.
\<close>

theorem SetRemoteWrite_url:
  assumes "complete c" and "telemeter_of c = Ok t" and "SetRemoteWrite rw c = Ok c'"
  shows "cfg_RemoteWrite c' = rw \<and>
    telemeter_of c' = Ok (if rw \<and> TelemeterServerURL t = ''https://infogw.api.openshift.com/''
      then t\<lparr>TelemeterServerURL := ''https://infogw.api.openshift.com/metrics/v1/receive''\<rparr> else t)"
  using assms
  by (elim completeE complete_cmcE)
    (auto simp: SetRemoteWrite_def on_cmc_def telemeter_of_def Let_def split: if_splits)

theorem SetRemoteWrite_url_witness:
  "\<exists>c' t. SetRemoteWrite True NewDefaultConfig = Ok c' \<and> telemeter_of c' = Ok t \<and>
     TelemeterServerURL t = ''https://infogw.api.openshift.com/metrics/v1/receive''"
proof -
  obtain c' where c: "SetRemoteWrite True NewDefaultConfig = Ok c'"
    using SetRemoteWrite_complete [OF complete_NewDefaultConfig] by blast
  have t: "telemeter_of NewDefaultConfig =
    Ok (zero_TelemeterClientConfig\<lparr>TelemeterServerURL := ''https://infogw.api.openshift.com/''\<rparr>)"
    by (simp add: telemeter_of_def NewDefaultConfig_def applyDefaults_def applyDefaults_cmc_def
        zero_ClusterMonitoringConfiguration_def)
  from SetRemoteWrite_url [OF complete_NewDefaultConfig t c] c show ?thesis by simp
qed

text \<open>
  The telemetry client is enabled exactly when its section is present, is not switched off and
  has both a cluster identifier and a token.
\<close>

lemma TelemeterClientConfig_IsEnabled_iff:
  "TelemeterClientConfig_IsEnabled p = (\<exists>cfg. p = Some cfg \<and> tc_Enabled cfg \<in> {None, Some True} \<and>
     ClusterID cfg \<noteq> '''' \<and> Token cfg \<noteq> '''')"
  by (auto simp: TelemeterClientConfig_IsEnabled_def split: option.splits)

text \<open>
  User workload monitoring is enabled exactly by the supported switch; the former
  technology-preview section is ignored, and the question never panics on a complete configuration.
\<close>

lemma IsUserWorkloadEnabled_iff:
  assumes "complete c"
  shows "\<exists>m b. cfg_ClusterMonitoringConfiguration c = Some m \<and> cmc_UserWorkloadEnabled m = Some b \<and>
    IsUserWorkloadEnabled c = Ok b"
  using assms
  by (elim completeE complete_cmcE) (auto simp: IsUserWorkloadEnabled_def UserWorkloadConfig_isEnabled_def)

lemma IsUserWorkloadEnabled_iff_witness: "IsUserWorkloadEnabled NewDefaultConfig = Ok False"
  using IsUserWorkloadEnabled_iff [OF complete_NewDefaultConfig]
  by (auto simp: NewDefaultConfig_def applyDefaults_def applyDefaults_cmc_def
      zero_ClusterMonitoringConfiguration_def)

section \<open>Loading what the user left out\<close>

lemma load_with_cases:
  assumes "load_with msg load c k w = (r, w')"
  obtains (loaded) x where "load w = (Ok x, w')" "r = Ok (k x)"
  | (failed) e where "load w = (Err e, w')" "r = Ok (Some (ErrorString (msg @ '': '' @ error_message e)), c)"
  | (panic) "load w = (Panic, w')" "r = Panic"
proof -
  obtain s u where l: "load w = (s, u)" by (cases "load w")
  show thesis
  proof (cases s)
    case (Ok x)
    with l assms show thesis by (intro loaded [of x]) (auto simp: load_with_def p_catch_eqs)
  next
    case (Err e)
    with l assms show thesis by (intro failed [of e]) (auto simp: load_with_def p_catch_eqs)
  next
    case Panic
    with l assms show thesis by (intro panic) (auto simp: load_with_def p_catch_eqs)
  qed
qed

lemma complete_telemeter: "complete c \<Longrightarrow> \<exists>t. telemeter_of c = Ok t"
  by (elim completeE complete_cmcE) (simp add: telemeter_of_def)

lemma complete_http: "complete c \<Longrightarrow> \<exists>h. http_of c = Ok h"
  by (elim completeE complete_cmcE) (simp add: http_of_def)

text \<open>The loaders keep a configuration complete, and panic only if the read does.\<close>

definition loads_safely :: "('w, 'a) prog \<Rightarrow> 'w load_result \<Rightarrow> bool" where
  "loads_safely load m \<longleftrightarrow> (\<forall>w r w'. m w = (r, w') \<longrightarrow>
     (case r of Ok (e, c') \<Rightarrow> complete c' | Err _ \<Rightarrow> False | Panic \<Rightarrow> fst (load w) = Panic) \<and>
     (w' = w \<or> w' = snd (load w)))"

lemma loads_safely_load_with:
  "complete c \<Longrightarrow> (\<And>x. complete (snd (k x))) \<Longrightarrow> loads_safely load (load_with msg load c k)"
  unfolding loads_safely_def
proof (intro allI impI)
  fix w r w'
  assume c: "complete c" "\<And>x. complete (snd (k x))" and run: "load_with msg load c k w = (r, w')"
  from run show "(case r of Ok (e, c') \<Rightarrow> complete c' | Err _ \<Rightarrow> False | Panic \<Rightarrow> fst (load w) = Panic) \<and>
     (w' = w \<or> w' = snd (load w))"
    by (cases rule: load_with_cases) (use c in \<open>auto split: prod.splits\<close>, metis snd_conv)
qed

lemma loads_safely_return: "complete c \<Longrightarrow> loads_safely load (p_return (Ok (e, c)))"
  by (simp add: loads_safely_def)

lemma LoadClusterID_safe: "complete c \<Longrightarrow> loads_safely load (LoadClusterID load c)"
  using complete_telemeter [of c]
  by (auto simp: LoadClusterID_def intro!: loads_safely_load_with loads_safely_return complete_set_telemeter)

lemma LoadToken_safe: "complete c \<Longrightarrow> loads_safely load (LoadToken unmarshal load c)"
  using complete_telemeter [of c]
  by (auto simp: LoadToken_def intro!: loads_safely_load_with loads_safely_return complete_set_telemeter
      split: sum.splits)

lemma LoadProxy_safe: "complete c \<Longrightarrow> loads_safely load (LoadProxy load c)"
  using complete_http [of c]
  by (auto simp: LoadProxy_def intro!: loads_safely_load_with loads_safely_return complete_set_http)

lemma LoadPlatform_safe: "complete c \<Longrightarrow> loads_safely load (LoadPlatform load c)"
  unfolding LoadPlatform_def by (rule loads_safely_load_with) (auto simp: complete_def)

text \<open>
  C34. What the user sets wins: the cluster identifier, the token and the proxy settings are read from
  the cluster only if the configuration has none, and then no read is made; and a read that fails
  leaves the configuration as it is.
\<close>

theorem Load_keeps_user_settings:
  assumes "complete c" and "telemeter_of c = Ok t" and "http_of c = Ok h"
  shows "(ClusterID t \<noteq> '''' \<longrightarrow> LoadClusterID lc c w = (Ok (None, c), w)) \<and>
    (Token t \<noteq> '''' \<longrightarrow> LoadToken unmarshal lt c w = (Ok (None, c), w)) \<and>
    (HTTPProxy h \<noteq> '''' \<or> HTTPSProxy h \<noteq> '''' \<or> NoProxy h \<noteq> '''' \<longrightarrow> LoadProxy lp c w = (Ok (None, c), w)) \<and>
    (\<forall>e c' w'. LoadClusterID lc c w = (Ok (Some e, c'), w') \<or> LoadToken unmarshal lt c w = (Ok (Some e, c'), w') \<or>
       LoadProxy lp c w = (Ok (Some e, c'), w') \<or> LoadPlatform li c w = (Ok (Some e, c'), w') \<longrightarrow> c' = c)"
proof (intro conjI allI impI)
  fix e c' w'
  have 1: "LoadClusterID lc c w = (Ok (Some e, c'), w') \<Longrightarrow> c' = c"
    using assms(2) by (auto simp: LoadClusterID_def split: if_splits elim: load_with_cases)
  have 2: "LoadToken unmarshal lt c w = (Ok (Some e, c'), w') \<Longrightarrow> c' = c"
    using assms(2) by (auto simp: LoadToken_def split: if_splits sum.splits elim: load_with_cases)
  have 3: "LoadProxy lp c w = (Ok (Some e, c'), w') \<Longrightarrow> c' = c"
    using assms(3) by (auto simp: LoadProxy_def split: if_splits elim: load_with_cases)
  have 4: "LoadPlatform li c w = (Ok (Some e, c'), w') \<Longrightarrow> c' = c"
    by (auto simp: LoadPlatform_def elim: load_with_cases)
  assume "LoadClusterID lc c w = (Ok (Some e, c'), w') \<or> LoadToken unmarshal lt c w = (Ok (Some e, c'), w') \<or>
       LoadProxy lp c w = (Ok (Some e, c'), w') \<or> LoadPlatform li c w = (Ok (Some e, c'), w')"
  then show "c' = c" using 1 2 3 4 by blast
qed (use assms in \<open>auto simp: LoadClusterID_def LoadToken_def LoadProxy_def\<close>)

theorem Load_keeps_user_settings_witness:
  "LoadClusterID (p_return Panic) (set_telemeter (\<lambda>t. t\<lparr>ClusterID := ''abc''\<rparr>) NewDefaultConfig) () =
     (Ok (None, set_telemeter (\<lambda>t. t\<lparr>ClusterID := ''abc''\<rparr>) NewDefaultConfig), ())"
proof -
  let ?c = "set_telemeter (\<lambda>t. t\<lparr>ClusterID := ''abc''\<rparr>) NewDefaultConfig"
  have c: "complete ?c" by (simp add: complete_set_telemeter)
  have t: "telemeter_of ?c = Ok (zero_TelemeterClientConfig\<lparr>TelemeterServerURL := ''https://infogw.api.openshift.com/'',
      ClusterID := ''abc''\<rparr>)"
    and h: "http_of ?c = Ok zero_HTTPConfig"
    by (simp_all add: telemeter_of_def http_of_def set_telemeter_def NewDefaultConfig_def applyDefaults_def
        applyDefaults_cmc_def zero_ClusterMonitoringConfiguration_def)
  from Load_keeps_user_settings [OF c t h, of "p_return Panic" "()"] show ?thesis by simp
qed

end
