(* ===== verification/Tls_Rotation.thy ===== *)
theory Tls_Rotation
  imports K8s_Objects
begin

text \<open>
  Rotation of the certificates for gRPC between the Thanos components: \<open>pkg/manifests/tls.go\<close>.
  \<open>RotateGRPCSecret\<close> changes the secret that it is given, so it is a program whose world is the
  secret. The crypto libraries and the clock are arguments.
\<close>

section \<open>Certificates and the library that makes them\<close>

record CA =
  NotBefore :: int
  NotAfter :: int
  SerialNumber :: int
  CA_Key :: string
  CA_rest :: string

text \<open>
  \<open>crypto\<close> collects the functions of the crypto packages that the code calls: \<open>GetCAFromBytes\<close>,
  \<open>MakeSelfSignedCAConfig\<close> (by name and lifetime in days), \<open>CreateCertificate\<close> and
  \<open>ParseCertificates\<close> of the standard library, \<open>GetPEMBytes\<close>, and the two makers of leaf certificates,
  whose results are given as PEM bytes in a second call.
\<close>

record 'leaf crypto =
  GetCAFromBytes :: "string \<Rightarrow> string \<Rightarrow> error + CA"
  MakeSelfSignedCAConfig :: "string \<Rightarrow> int \<Rightarrow> CA res"
  CreateCertificate :: "CA \<Rightarrow> string res"
  ParseCertificates :: "string \<Rightarrow> CA list res"
  CA_GetPEMBytes :: "CA \<Rightarrow> (string \<times> string) res"
  MakeClientCertificateForDuration :: "CA \<Rightarrow> string \<Rightarrow> int \<Rightarrow> 'leaf res"
  MakeServerCert :: "CA \<Rightarrow> string list \<Rightarrow> int \<Rightarrow> 'leaf res"
  Leaf_GetPEMBytes :: "'leaf \<Rightarrow> (string \<times> string) res"

text \<open>Times and durations are counted in nanoseconds; Go's division truncates towards zero.\<close>

definition nanoseconds_per_second :: int where
  "nanoseconds_per_second = 1000000000"

definition DefaultCertificateLifetimeInDays :: int where
  "DefaultCertificateLifetimeInDays = 365 * 2"

definition certificateLifetime :: int where
  "certificateLifetime = DefaultCertificateLifetimeInDays * 24 * 3600 * nanoseconds_per_second"

definition truncating_div :: "int \<Rightarrow> int \<Rightarrow> int" where
  "truncating_div a b = sgn a * sgn b * (\<bar>a\<bar> div \<bar>b\<bar>)"

definition needsNewCert :: "int \<Rightarrow> int \<Rightarrow> int \<Rightarrow> bool" where
  "needsNewCert notBefore notAfter now = (
     let maxWait = truncating_div (notAfter - notBefore) 5;
         latestTime = notAfter + (- maxWait)
     in now > latestTime)"

definition createCertificate :: "'leaf crypto \<Rightarrow> CA \<Rightarrow> CA res" where
  "createCertificate cr template = (case CreateCertificate cr template of
      Err e \<Rightarrow> Err (ErrorString (''error creating certificate: '' @ error_message e))
    | Panic \<Rightarrow> Panic
    | Ok rawCert \<Rightarrow> (case ParseCertificates cr rawCert of
          Err e \<Rightarrow> Err (ErrorString (''error parsing certificate: '' @ error_message e))
        | Panic \<Rightarrow> Panic
        | Ok [] \<Rightarrow> Panic
        | Ok (c # _) \<Rightarrow> Ok c))"

section \<open>Rotation\<close>

definition forced_rotate :: string where
  "forced_rotate = ''monitoring.openshift.io/grpc-tls-forced-rotate''"

text \<open>The authority that the secret holds, when it can be read.\<close>

definition current_CA :: "'leaf crypto \<Rightarrow> Secret \<Rightarrow> CA option" where
  "current_CA cr s = (
     if gm_has (Data s) ''ca.crt'' \<and> gm_has (Data s) ''ca.key''
     then (case GetCAFromBytes cr (gm_get (Data s) ''ca.crt'') (gm_get (Data s) ''ca.key'') of
             Inr ca \<Rightarrow> Some ca
           | Inl _ \<Rightarrow> None)
     else None)"

text \<open>The decision to rotate, without the forced rotation: no material, unreadable, or too old.\<close>

definition due :: "'leaf crypto \<Rightarrow> int \<Rightarrow> Secret \<Rightarrow> bool" where
  "due cr now s = (case current_CA cr s of
      None \<Rightarrow> True
    | Some ca \<Rightarrow> needsNewCert (NotBefore ca) (NotAfter ca) now)"

definition write_data :: "string \<Rightarrow> string \<Rightarrow> (Secret, unit) prog" where
  "write_data k v = (\<lambda>s. case gm_set (Data s) k v of
      Ok m \<Rightarrow> (Ok (), s\<lparr>Data := m\<rparr>)
    | _ \<Rightarrow> (Panic, s))"

definition write_pair :: "string \<Rightarrow> string \<times> string \<Rightarrow> (Secret, unit) prog" where
  "write_pair base crt_key =
     p_bind (write_data (base @ ''.crt'') (fst crt_key)) (\<lambda>_. write_data (base @ ''.key'') (snd crt_key))"

text \<open>
  The new authority: a self-signed one when there is none to go on from, and otherwise one for the
  same key, with the next serial number, that is valid from a second ago.
\<close>

definition new_CA :: "'leaf crypto \<Rightarrow> int \<Rightarrow> CA option \<Rightarrow> CA res" where
  "new_CA cr now curCA = (case curCA of
      None \<Rightarrow> errors_Wrap ''error generating self signed CA''
        (MakeSelfSignedCAConfig cr (''openshift-cluster-monitoring@'' @ decimal (now div nanoseconds_per_second))
           DefaultCertificateLifetimeInDays)
    | Some ca \<Rightarrow> errors_Wrap ''error rotating CA''
        (r_bind (createCertificate cr (ca\<lparr>
             NotBefore := now + (- 1 * nanoseconds_per_second),
             NotAfter := now + certificateLifetime,
             SerialNumber := SerialNumber ca + 1\<rparr>))
           (\<lambda>newCACert. Ok (newCACert\<lparr>CA_Key := CA_Key ca\<rparr>))))"

definition issue :: "'leaf crypto \<Rightarrow> CA \<Rightarrow> (Secret, unit) prog" where
  "issue cr newCA =
     attempt ''error getting PEM bytes from CA'' (p_return (CA_GetPEMBytes cr newCA)) (\<lambda>ca_pem.
     p_bind (write_pair ''ca'' ca_pem) (\<lambda>_.
     attempt ''error making client certificate''
       (p_return (MakeClientCertificateForDuration cr newCA ''thanos-querier'' certificateLifetime)) (\<lambda>cfg.
     attempt ''error getting PEM bytes for thanos querier client certificate''
       (p_return (Leaf_GetPEMBytes cr cfg)) (\<lambda>pem.
     p_bind (write_pair ''thanos-querier-client'' pem) (\<lambda>_.
     attempt ''error making server certificate''
       (p_return (MakeServerCert cr newCA [''prometheus-grpc''] DefaultCertificateLifetimeInDays)) (\<lambda>cfg.
     attempt ''error getting PEM bytes for prometheus-k8s server certificate''
       (p_return (Leaf_GetPEMBytes cr cfg)) (\<lambda>pem.
     write_pair ''prometheus-server'' pem)))))))"

text \<open>\<open>checked\<close> and \<open>issued\<close> are the two readings of the clock.\<close>

definition RotateGRPCSecret :: "'leaf crypto \<Rightarrow> int \<Rightarrow> int \<Rightarrow> (Secret, unit) prog" where
  "RotateGRPCSecret cr checked issued = (\<lambda>s.
     let curCA = current_CA cr s;
         forced = gm_has (Annotations s) forced_rotate;
         rotate = (due cr checked s \<or> forced);
         s1 = (if forced then s\<lparr>Annotations := gm_delete forced_rotate (Annotations s)\<rparr> else s)
     in if \<not> rotate then (Ok (), s1)
        else p_bind (p_return (new_CA cr issued curCA)) (issue cr) s1)"

section \<open>When certificates are rotated\<close>

lemma needsNewCert_iff:
  "notBefore \<le> notAfter \<Longrightarrow>
     needsNewCert notBefore notAfter now \<longleftrightarrow> now > notAfter - (notAfter - notBefore) div 5"
  by (auto simp: needsNewCert_def truncating_div_def Let_def sgn_if)



section \<open>What a rotation leaves behind\<close>

lemma write_data_Ok:
  "write_data k v s = (Ok (), s') \<longleftrightarrow> (\<exists>f. Data s = Some f \<and> s' = s\<lparr>Data := Some (fmupd k v f)\<rparr>)"
  by (cases "Data s") (auto simp: write_data_def)

lemma write_pair_Ok:
  "write_pair base ck s = (Ok (), s') \<longleftrightarrow> (\<exists>f. Data s = Some f \<and>
     s' = s\<lparr>Data := Some (fmupd (base @ ''.key'') (snd ck) (fmupd (base @ ''.crt'') (fst ck) f))\<rparr>)"
  by (auto simp: write_pair_def prog_simps write_data_Ok)

lemma issue_Ok:
  assumes "issue cr ca s = (Ok (), s')"
  shows "\<exists>f a b c d e g. Data s = Some f \<and> CA_GetPEMBytes cr ca = Ok (a, b) \<and>
    s' = s\<lparr>Data := Some (fmupd ''prometheus-server.key'' g (fmupd ''prometheus-server.crt'' e
      (fmupd ''thanos-querier-client.key'' d (fmupd ''thanos-querier-client.crt'' c
      (fmupd ''ca.key'' b (fmupd ''ca.crt'' a f))))))\<rparr>"
  using assms by (auto simp: issue_def prog_simps write_pair_Ok) blast


text \<open>A library in which every call succeeds; the PEM text of an authority is its key.\<close>

definition simple_crypto :: "unit crypto" where
  "simple_crypto = \<lparr>
     GetCAFromBytes = (\<lambda>crt key. Inr \<lparr>NotBefore = 0, NotAfter = 100, SerialNumber = 1, CA_Key = key, CA_rest = crt\<rparr>),
     MakeSelfSignedCAConfig = (\<lambda>n days. Ok \<lparr>NotBefore = 0, NotAfter = 100, SerialNumber = 1, CA_Key = ''new'', CA_rest = n\<rparr>),
     CreateCertificate = (\<lambda>ca. Ok (CA_rest ca)),
     ParseCertificates = (\<lambda>raw. Ok [\<lparr>NotBefore = 0, NotAfter = 100, SerialNumber = 2, CA_Key = '''', CA_rest = raw\<rparr>]),
     CA_GetPEMBytes = (\<lambda>ca. Ok (CA_rest ca, CA_Key ca)),
     MakeClientCertificateForDuration = (\<lambda>ca n d. Ok ()),
     MakeServerCert = (\<lambda>ca hosts days. Ok ()),
     Leaf_GetPEMBytes = (\<lambda>_. Ok (''crt'', ''key''))\<rparr>"

definition grpc_secret :: Secret where
  "grpc_secret = \<lparr>Name = ''grpc-tls'', Namespace = ''openshift-monitoring'', Labels = None,
     Annotations = gm_of_list [(forced_rotate, ''true'')], ResourceVersion = '''', Generation = 0,
     Secret_Type = ''Opaque'', Data = gm_of_list [(''ca.crt'', ''C''), (''ca.key'', ''K'')], StringData = None\<rparr>"


end
