(* ===== verification/Task_Runner.thy ===== *)
theory Task_Runner
  imports Prelude "HOL-Library.Multiset"
begin

text \<open>
  The runner of \<open>pkg/tasks/tasks.go\<close>: all tasks run in goroutines of one \<open>errgroup\<close>, and the group
  reports the error of the task that failed first. The order in which the tasks complete is an
  argument, a list of their indices; a task's calls are taken together, at the moment it completes.
\<close>

record 'w TaskSpec =
  TaskSpec_Name :: string
  Task_Run :: "('w, unit) prog"

definition NewTaskSpec :: "string \<Rightarrow> ('w, unit) prog \<Rightarrow> 'w TaskSpec" where
  "NewTaskSpec name task = \<lparr>TaskSpec_Name = name, Task_Run = task\<rparr>"

record 'w TaskRunner =
  runner_tasks :: "'w TaskSpec list"

definition NewTaskRunner :: "'w TaskSpec list \<Rightarrow> 'w TaskRunner" where
  "NewTaskRunner ts = \<lparr>runner_tasks = ts\<rparr>"

definition ExecuteTask :: "'w TaskSpec \<Rightarrow> ('w, unit) prog" where
  "ExecuteTask ts = Task_Run ts"

text \<open>The function that runs in the goroutine of one task.\<close>

definition goroutine :: "'w TaskSpec \<Rightarrow> ('w, unit) prog" where
  "goroutine ts = p_catch (ExecuteTask ts) (\<lambda>r. case r of
      Inl err \<Rightarrow> p_return (Err (TaskErr (Wrapped (''running task '' @ TaskSpec_Name ts @ '' failed'') err)
                                (TaskSpec_Name ts)))
    | Inr _ \<Rightarrow> p_return (Ok ()))"

text \<open>
  \<open>g.Go\<close> and \<open>g.Wait\<close> of the vendored errgroup: every goroutine runs to its end; the first error
  is kept (\<open>errOnce\<close>) and returned by \<open>Wait\<close>. A panic in a goroutine ends the process.
\<close>

fun group_wait :: "('w, unit) prog list \<Rightarrow> error option \<Rightarrow> ('w, error option) prog" where
  "group_wait [] first = p_return (Ok first)"
| "group_wait (g # gs) first = p_catch g (\<lambda>r.
     group_wait gs (case (first, r) of (None, Inl err) \<Rightarrow> Some err | _ \<Rightarrow> first))"

definition RunAll :: "nat list \<Rightarrow> 'w TaskRunner \<Rightarrow> ('w, string \<times> error option) prog" where
  "RunAll order tr =
     p_bind (group_wait (map (\<lambda>i. goroutine (runner_tasks tr ! i)) order) None) (\<lambda>err. case err of
        None \<Rightarrow> p_return (Ok ('''', None))
      | Some (TaskErr e name) \<Rightarrow> p_return (Ok (name, Some e))
      | Some e \<Rightarrow> p_return (Ok ('''', Some e)))"

definition completion_order :: "'w TaskRunner \<Rightarrow> nat list \<Rightarrow> bool" where
  "completion_order tr order \<longleftrightarrow> distinct order \<and> set order = {..< length (runner_tasks tr)}"

section \<open>Every task runs, and the first failure is reported\<close>

text \<open>
  The run as a sequence of single executions: \<open>executions\<close> gives the task, its result and the world
  that it left, for each task of a list in order (\<open>None\<close> when one of them panics).
\<close>

fun executions :: "'w TaskSpec list \<Rightarrow> 'w \<Rightarrow> ((string \<times> error option) list \<times> 'w) option" where
  "executions [] w = Some ([], w)"
| "executions (t # ts) w = (case Task_Run t w of
      (Panic, _) \<Rightarrow> None
    | (r, w1) \<Rightarrow> (case executions ts w1 of
          None \<Rightarrow> None
        | Some (log, w2) \<Rightarrow>
            Some ((TaskSpec_Name t, (case r of Err e \<Rightarrow> Some e | _ \<Rightarrow> None)) # log, w2)))"

definition first_failure :: "(string \<times> error option) list \<Rightarrow> (string \<times> error) option" where
  "first_failure log = (case filter (\<lambda>(n, r). r \<noteq> None) log of
      [] \<Rightarrow> None
    | (n, r) # _ \<Rightarrow> Some (n, the r))"

definition task_error :: "string \<times> error \<Rightarrow> error" where
  "task_error = (\<lambda>(n, e). TaskErr (Wrapped (''running task '' @ n @ '' failed'') e) n)"

lemma group_wait_executions:
  "executions ts w = Some (log, w') \<Longrightarrow>
     group_wait (map goroutine ts) first w =
       (Ok (case first of Some e \<Rightarrow> Some e | None \<Rightarrow> map_option task_error (first_failure log)), w')"
proof (induction ts arbitrary: w first log)
  case Nil
  then show ?case by (auto simp: first_failure_def split: option.splits)
next
  case (Cons t ts)
  obtain r w1 where r: "Task_Run t w = (r, w1)" by (cases "Task_Run t w")
  show ?case
  proof (cases r)
    case (Ok u)
    with Cons.prems r obtain log' where l: "executions ts w1 = Some (log', w')" "log = (TaskSpec_Name t, None) # log'"
      by (auto split: option.splits)
    have "goroutine t w = (Ok (), w1)" using r Ok by (simp add: goroutine_def ExecuteTask_def p_catch_eqs)
    with Cons.IH [OF l(1), of first] l(2) show ?thesis
      by (simp add: p_catch_eqs first_failure_def split: option.splits)
  next
    case (Err e)
    with Cons.prems r obtain log' where l: "executions ts w1 = Some (log', w')" "log = (TaskSpec_Name t, Some e) # log'"
      by (auto split: option.splits)
    have "goroutine t w = (Err (task_error (TaskSpec_Name t, e)), w1)"
      using r Err by (simp add: goroutine_def ExecuteTask_def p_catch_eqs task_error_def)
    with Cons.IH [OF l(1), of "Some (task_error (TaskSpec_Name t, e))"] Cons.IH [OF l(1), of first] l(2) show ?thesis
      by (cases first) (simp_all add: p_catch_eqs first_failure_def)
  next
    case Panic
    with Cons.prems r show ?thesis by simp
  qed
qed

lemma executions_names: "executions ts w = Some (log, w') \<Longrightarrow> map fst log = map TaskSpec_Name ts"
proof (induction ts arbitrary: w log)
  case (Cons t ts)
  obtain r w1 where r: "Task_Run t w = (r, w1)" by (cases "Task_Run t w")
  with Cons show ?case by (cases r) (auto split: option.splits)
qed simp

lemma mset_completion_order:
  assumes "completion_order tr order"
  shows "mset (map (\<lambda>i. f (runner_tasks tr ! i)) order) = mset (map f (runner_tasks tr))"
proof -
  have "mset order = mset [0..<length (runner_tasks tr)]"
    using assms set_eq_iff_mset_eq_distinct [of order "[0..<length (runner_tasks tr)]"]
    by (simp add: completion_order_def lessThan_atLeast0)
  then have "mset (map (\<lambda>i. f (runner_tasks tr ! i)) order) =
      mset (map (\<lambda>i. f (runner_tasks tr ! i)) [0..<length (runner_tasks tr)])" by simp
  also have "map (\<lambda>i. f (runner_tasks tr ! i)) [0..<length (runner_tasks tr)] = map f (runner_tasks tr)"
    by (rule nth_equalityI) auto
  finally show ?thesis .
qed

text \<open>A task that panics takes the runner with it.\<close>

lemma group_wait_panic:
  "executions ts w = None \<Longrightarrow> fst (group_wait (map goroutine ts) first w) = Panic"
proof (induction ts arbitrary: w first)
  case (Cons t ts)
  obtain r w1 where r: "Task_Run t w = (r, w1)" by (cases "Task_Run t w")
  with Cons show ?case
    by (cases r) (auto simp: goroutine_def ExecuteTask_def p_catch_def split: option.splits)
qed simp

lemma RunAll_panic:
  "executions (map (\<lambda>i. runner_tasks tr ! i) order) w = None \<Longrightarrow> fst (RunAll order tr w) = Panic"
  using group_wait_panic [of "map (\<lambda>i. runner_tasks tr ! i) order" w None]
  by (cases "group_wait (map goroutine (map (\<lambda>i. runner_tasks tr ! i) order)) None w")
    (simp add: RunAll_def p_bind_def comp_def)

lemma RunAll_executions:
  assumes "completion_order tr order"
    and "executions (map (\<lambda>i. runner_tasks tr ! i) order) w = Some (log, w')"
  shows "mset (map fst log) = mset (map TaskSpec_Name (runner_tasks tr))"
    and "RunAll order tr w = (Ok (case first_failure log of
        None \<Rightarrow> ('''', None)
      | Some (n, e) \<Rightarrow> (n, Some (Wrapped (''running task '' @ n @ '' failed'') e))), w')"
proof -
  show "mset (map fst log) = mset (map TaskSpec_Name (runner_tasks tr))"
    using executions_names [OF assms(2)] mset_completion_order [OF assms(1), of TaskSpec_Name]
    by (simp add: comp_def)
  have g: "group_wait (map (\<lambda>i. goroutine (runner_tasks tr ! i)) order) None w =
      (Ok (map_option task_error (first_failure log)), w')"
    using group_wait_executions [OF assms(2), of None] by (simp add: comp_def)
  show "RunAll order tr w = (Ok (case first_failure log of
        None \<Rightarrow> ('''', None)
      | Some (n, e) \<Rightarrow> (n, Some (Wrapped (''running task '' @ n @ '' failed'') e))), w')"
    unfolding RunAll_def p_bind_def g by (simp add: task_error_def split: option.split prod.split)
qed

lemma first_failure_None: "first_failure log = None \<longleftrightarrow> list_all (\<lambda>(n, r). r = None) log"
proof -
  have "first_failure log = None \<longleftrightarrow> filter (\<lambda>(n, r). r \<noteq> None) log = []"
    by (simp add: first_failure_def split: list.splits prod.splits)
  also have "\<dots> \<longleftrightarrow> list_all (\<lambda>(n, r). r = None) log"
    by (induction log) (auto split: prod.splits)
  finally show ?thesis .
qed

text \<open>
  The runner runs every task exactly once, whatever the others do: for every order of completion
  the executed tasks are the runner's tasks; the result is no error exactly when all of them
  succeeded, and otherwise the name and the wrapped error of the first one to fail.
\<close>

theorem RunAll_runs_everything:
  assumes "completion_order tr order"
    and "executions (map (\<lambda>i. runner_tasks tr ! i) order) w = Some (log, w')"
  shows "mset (map fst log) = mset (map TaskSpec_Name (runner_tasks tr)) \<and>
    RunAll order tr w = (Ok (case first_failure log of
        None \<Rightarrow> ('''', None)
      | Some (n, e) \<Rightarrow> (n, Some (Wrapped (''running task '' @ n @ '' failed'') e))), w') \<and>
    (first_failure log = None \<longleftrightarrow> list_all (\<lambda>(n, r). r = None) log)"
  by (intro conjI RunAll_executions [OF assms] first_failure_None)

theorem RunAll_runs_everything_witness:
  "RunAll [1, 0] (NewTaskRunner [NewTaskSpec ''a'' (p_return (Err NotFound)), NewTaskSpec ''b'' (p_return (Err AlreadyExists))]) () =
     (Ok (''b'', Some (Wrapped ''running task b failed'' AlreadyExists)), ())"
proof -
  let ?tr = "NewTaskRunner [NewTaskSpec ''a'' (p_return (Err NotFound)), NewTaskSpec ''b'' (p_return (Err AlreadyExists))]"
  have o: "completion_order ?tr [1, 0]" by (auto simp: completion_order_def NewTaskRunner_def)
  have e: "executions (map (\<lambda>i. runner_tasks ?tr ! i) [1, 0]) () =
    Some ([(''b'', Some AlreadyExists), (''a'', Some NotFound)], ())"
    by (simp add: NewTaskRunner_def NewTaskSpec_def)
  from RunAll_runs_everything [OF o e] show ?thesis by (simp add: first_failure_def)
qed

end
