(* ===== verification/Work_Queue.thy ===== *)
theory Work_Queue
  imports Prelude
begin

text \<open>
  The rate-limited work queue of the vendored client library (\<open>k8s.io/client-go/util/workqueue\<close>) and
  the operator's event handling on top of it (\<open>handleEvent\<close>, \<open>enqueue\<close>, \<open>processNextWorkItem\<close> in
  \<open>pkg/operator/operator.go\<close>), as a state machine of events and synchronisations.
\<close>

section \<open>The queue\<close>

text \<open>\<open>delayed\<close> are the items that wait for the rate limiter; \<open>failures\<close> is what it remembers of them.\<close>

record work_queue =
  queue :: "string list"
  dirty :: "string set"
  processing :: "string set"
  delayed :: "string set"
  failures :: "string \<Rightarrow> nat"
  shuttingDown :: bool

definition empty_queue :: work_queue where
  "empty_queue = \<lparr>queue = [], dirty = {}, processing = {}, delayed = {}, failures = (\<lambda>_. 0), shuttingDown = False\<rparr>"

definition wq_Add :: "string \<Rightarrow> work_queue \<Rightarrow> work_queue" where
  "wq_Add item q = (
     if shuttingDown q then q
     else if item \<in> dirty q then q
     else (let q1 = q\<lparr>dirty := insert item (dirty q)\<rparr> in
       if item \<in> processing q1 then q1 else q1\<lparr>queue := queue q1 @ [item]\<rparr>))"

text \<open>
  \<open>None\<close> means that \<open>Get\<close> blocks, since there is no item and the queue is not shutting down; when it is,
  \<open>Get\<close> returns without an item and the caller is to end.
\<close>

definition wq_Get :: "work_queue \<Rightarrow> (string option \<times> work_queue) option" where
  "wq_Get q = (case queue q of
      [] \<Rightarrow> if shuttingDown q then Some (None, q) else None
    | item # rest \<Rightarrow> Some (Some item, q\<lparr>queue := rest, processing := insert item (processing q),
        dirty := dirty q - {item}\<rparr>))"

definition wq_Done :: "string \<Rightarrow> work_queue \<Rightarrow> work_queue" where
  "wq_Done item q = (let q1 = q\<lparr>processing := processing q - {item}\<rparr> in
     if item \<in> dirty q1 then q1\<lparr>queue := queue q1 @ [item]\<rparr> else q1)"

text \<open>The rate limiter is asked, and counts, before \<open>AddAfter\<close> looks whether the queue is shutting down.\<close>

definition wq_AddRateLimited :: "string \<Rightarrow> work_queue \<Rightarrow> work_queue" where
  "wq_AddRateLimited item q = (
     let q1 = q\<lparr>failures := (failures q)(item := failures q item + 1)\<rparr> in
     if shuttingDown q1 then q1 else q1\<lparr>delayed := insert item (delayed q1)\<rparr>)"

definition wq_Forget :: "string \<Rightarrow> work_queue \<Rightarrow> work_queue" where
  "wq_Forget item q = q\<lparr>failures := (failures q)(item := 0)\<rparr>"

text \<open>The delay of an item is over.\<close>

definition wq_expire :: "string \<Rightarrow> work_queue \<Rightarrow> work_queue" where
  "wq_expire item q = wq_Add item (q\<lparr>delayed := delayed q - {item}\<rparr>)"

definition wq_ShutDown :: "work_queue \<Rightarrow> work_queue" where
  "wq_ShutDown q = q\<lparr>shuttingDown := True\<rparr>"

lemmas wq_defs = wq_Add_def wq_Get_def wq_Done_def wq_AddRateLimited_def wq_Forget_def wq_expire_def
  wq_ShutDown_def Let_def

text \<open>
  The invariant of the queue, as its comments state it: every queued item is dirty, no queued item
  is being processed, and an item that is dirty is queued unless it is being processed.
\<close>

definition wq_inv :: "work_queue \<Rightarrow> bool" where
  "wq_inv q \<longleftrightarrow> distinct (queue q) \<and> set (queue q) = dirty q - processing q"

lemma wq_inv_empty [simp]: "wq_inv empty_queue"
  by (simp add: wq_inv_def empty_queue_def)

lemma wq_inv_Add: "wq_inv q \<Longrightarrow> wq_inv (wq_Add item q)"
  by (auto simp: wq_inv_def wq_defs)

lemma wq_inv_Get: "wq_inv q \<Longrightarrow> wq_Get q = Some (item, q') \<Longrightarrow> wq_inv q'"
  by (auto simp: wq_inv_def wq_defs split: list.splits if_splits)

lemma wq_inv_Done: "wq_inv q \<Longrightarrow> item \<in> processing q \<Longrightarrow> wq_inv (wq_Done item q)"
  by (auto simp: wq_inv_def wq_defs)

lemma wq_inv_others: "wq_inv q \<Longrightarrow> wq_inv (wq_AddRateLimited item q)" "wq_inv q \<Longrightarrow> wq_inv (wq_Forget item q)"
  "wq_inv q \<Longrightarrow> wq_inv (wq_expire item q)" "wq_inv q \<Longrightarrow> wq_inv (wq_ShutDown q)"
  by (auto simp: wq_inv_def wq_defs)

section \<open>Events\<close>

text \<open>The names of the operator that its event filter uses.\<close>

record operator_names =
  op_namespace :: string
  op_namespaceUserWorkload :: string
  op_configMapName :: string
  op_userWorkloadConfigMapName :: string

definition cmoConfigMap :: "operator_names \<Rightarrow> string" where
  "cmoConfigMap o' = op_namespace o' @ ''/'' @ op_configMapName o'"

definition uwmConfigMap :: "operator_names \<Rightarrow> string" where
  "uwmConfigMap o' = op_namespaceUserWorkload o' @ ''/'' @ op_userWorkloadConfigMapName o'"

text \<open>The keys of the objects whose changes trigger a synchronisation.\<close>

definition triggering_keys :: "operator_names \<Rightarrow> string list" where
  "triggering_keys o' = [
     cmoConfigMap o',
     ''kube-system/extension-apiserver-authentication'',
     ''openshift-config-managed/kubelet-serving-ca'',
     ''openshift-monitoring/prometheus-adapter-tls'',
     ''openshift-config/etcd-metrics-serving-ca'',
     ''openshift-monitoring/telemeter-trusted-ca-bundle'',
     ''openshift-monitoring/alertmanager-trusted-ca-bundle'',
     ''openshift-monitoring/grpc-tls'',
     uwmConfigMap o']"

definition triggers :: "operator_names \<Rightarrow> string option \<Rightarrow> bool" where
  "triggers o' obj_key = (case obj_key of None \<Rightarrow> False | Some key \<Rightarrow> key \<in> set (triggering_keys o'))"

definition enqueue :: "string \<Rightarrow> work_queue \<Rightarrow> work_queue" where
  "enqueue key q = wq_Add key q"

text \<open>\<open>None\<close> is an object for which no key can be made.\<close>

definition handleEvent :: "operator_names \<Rightarrow> string option \<Rightarrow> work_queue \<Rightarrow> work_queue" where
  "handleEvent o' obj_key q = (case obj_key of
      None \<Rightarrow> q
    | Some key \<Rightarrow> if key \<in> set (triggering_keys o') then enqueue (cmoConfigMap o') q else q)"

text \<open>
  What \<open>processNextWorkItem\<close> does with the result of \<open>sync\<close>; the deferred \<open>Done\<close> comes last.
\<close>

definition finish_item :: "string \<Rightarrow> bool \<Rightarrow> work_queue \<Rightarrow> work_queue" where
  "finish_item key ok q = wq_Done key (if ok then wq_Forget key q else wq_AddRateLimited key q)"

section \<open>The operator's loop as a state machine\<close>

text \<open>
  The worker is idle or synchronises a key. Two ghost components say what it owes: \<open>fresh\<close>, that a
  triggering change came after the running (or last) synchronisation began, and \<open>owed\<close>, that some
  triggering change has not been covered by a synchronisation that began after it and succeeded.
\<close>

record loop_state =
  wq :: work_queue
  syncing :: "string option"
  fresh :: bool
  owed :: bool

definition initial_loop :: loop_state where
  "initial_loop = \<lparr>wq = empty_queue, syncing = None, fresh = False, owed = False\<rparr>"

inductive loop_step :: "operator_names \<Rightarrow> loop_state \<Rightarrow> loop_state \<Rightarrow> bool" for o' where
  event: "loop_step o' s (s\<lparr>wq := handleEvent o' key (wq s),
     fresh := fresh s \<or> triggers o' key,
     owed := owed s \<or> triggers o' key\<rparr>)"
| resync: "loop_step o' s (s\<lparr>wq := enqueue (cmoConfigMap o') (wq s)\<rparr>)"
| begin_sync: "syncing s = None \<Longrightarrow> wq_Get (wq s) = Some (Some key, q) \<Longrightarrow>
     loop_step o' s (s\<lparr>wq := q, syncing := Some key, fresh := False\<rparr>)"
| sync_done: "syncing s = Some key \<Longrightarrow>
     loop_step o' s (s\<lparr>wq := finish_item key True (wq s), syncing := None, owed := fresh s\<rparr>)"
| sync_failed: "syncing s = Some key \<Longrightarrow>
     loop_step o' s (s\<lparr>wq := finish_item key False (wq s), syncing := None, owed := True\<rparr>)"
| expired: "key \<in> delayed (wq s) \<Longrightarrow> loop_step o' s (s\<lparr>wq := wq_expire key (wq s)\<rparr>)"
| shut_down: "loop_step o' s (s\<lparr>wq := wq_ShutDown (wq s)\<rparr>)"

inductive_cases loop_stepE: "loop_step o' s s'"

inductive loop_reachable :: "operator_names \<Rightarrow> loop_state \<Rightarrow> bool" for o' where
  start: "loop_reachable o' initial_loop"
| step: "loop_reachable o' s \<Longrightarrow> loop_step o' s s' \<Longrightarrow> loop_reachable o' s'"

definition loop_inv :: "operator_names \<Rightarrow> loop_state \<Rightarrow> bool" where
  "loop_inv o' s \<longleftrightarrow> (let q = wq s; k = cmoConfigMap o' in
     wq_inv q \<and> dirty q \<subseteq> {k} \<and> delayed q \<subseteq> {k} \<and>
     processing q = set_option (syncing s) \<and> set_option (syncing s) \<subseteq> {k} \<and>
     (fresh s \<longrightarrow> shuttingDown q \<or> k \<in> dirty q) \<and>
     (owed s \<longrightarrow> shuttingDown q \<or> syncing s \<noteq> None \<or> k \<in> dirty q \<or> k \<in> delayed q))"

lemma handleEvent_cases:
  "handleEvent o' key q = (if triggers o' key then enqueue (cmoConfigMap o') q else q)"
  by (auto simp: handleEvent_def triggers_def split: option.splits)

lemma loop_inv_enqueue:
  assumes "loop_inv o' s"
  shows "loop_inv o' (s\<lparr>wq := enqueue (cmoConfigMap o') (wq s), fresh := f, owed := d\<rparr>)"
proof -
  have "wq_inv (enqueue (cmoConfigMap o') (wq s))"
    using assms wq_inv_Add by (simp add: loop_inv_def enqueue_def Let_def)
  moreover have "shuttingDown (wq s) \<or> cmoConfigMap o' \<in> dirty (enqueue (cmoConfigMap o') (wq s))"
    "dirty (enqueue (cmoConfigMap o') (wq s)) \<subseteq> {cmoConfigMap o'}"
    "delayed (enqueue (cmoConfigMap o') (wq s)) = delayed (wq s)"
    "processing (enqueue (cmoConfigMap o') (wq s)) = processing (wq s)"
    "shuttingDown (enqueue (cmoConfigMap o') (wq s)) = shuttingDown (wq s)"
    using assms by (auto simp: loop_inv_def enqueue_def wq_Add_def Let_def)
  ultimately show ?thesis using assms by (auto simp add: loop_inv_def Let_def)
qed

lemma loop_inv_begin:
  assumes "loop_inv o' s" and "syncing s = None" and "wq_Get (wq s) = Some (Some key, q)"
  shows "loop_inv o' (s\<lparr>wq := q, syncing := Some key, fresh := False\<rparr>)"
proof -
  from assms(3) obtain rest where q: "queue (wq s) = key # rest"
    "q = (wq s)\<lparr>queue := rest, processing := insert key (processing (wq s)), dirty := dirty (wq s) - {key}\<rparr>"
    by (auto simp: wq_Get_def split: list.splits if_splits)
  have "wq_inv q" using assms wq_inv_Get by (auto simp: loop_inv_def Let_def)
  moreover have "key = cmoConfigMap o'"
    using assms(1) q(1) by (auto simp: loop_inv_def wq_inv_def Let_def)
  ultimately show ?thesis using assms(1,2) q by (auto simp: loop_inv_def Let_def)
qed

lemma loop_inv_finish:
  assumes "loop_inv o' s" and "syncing s = Some key"
  shows "loop_inv o' (s\<lparr>wq := finish_item key ok (wq s), syncing := None, owed := (if ok then fresh s else True)\<rparr>)"
proof -
  from assms have key: "key = cmoConfigMap o'" and p: "processing (wq s) = {key}" and inv: "wq_inv (wq s)"
    by (auto simp: loop_inv_def Let_def)
  let ?q = "if ok then wq_Forget key (wq s) else wq_AddRateLimited key (wq s)"
  have "wq_inv ?q"
    using inv by (auto simp: wq_inv_def wq_Forget_def wq_AddRateLimited_def Let_def)
  moreover have q: "processing ?q = {key}" "dirty ?q = dirty (wq s)" "shuttingDown ?q = shuttingDown (wq s)"
    "delayed ?q = (if ok \<or> shuttingDown (wq s) then delayed (wq s) else insert key (delayed (wq s)))"
    using p by (auto simp: wq_Forget_def wq_AddRateLimited_def Let_def)
  ultimately have "wq_inv (finish_item key ok (wq s))"
    unfolding finish_item_def by (intro wq_inv_Done) auto
  moreover have "processing (finish_item key ok (wq s)) = {}" "dirty (finish_item key ok (wq s)) = dirty (wq s)"
    "shuttingDown (finish_item key ok (wq s)) = shuttingDown (wq s)"
    "delayed (finish_item key ok (wq s)) =
       (if ok \<or> shuttingDown (wq s) then delayed (wq s) else insert key (delayed (wq s)))"
    using q unfolding finish_item_def wq_Done_def Let_def by auto
  ultimately show ?thesis using assms key by (auto simp: loop_inv_def Let_def)
qed

lemma loop_inv_expired:
  assumes "loop_inv o' s" and "key \<in> delayed (wq s)"
  shows "loop_inv o' (s\<lparr>wq := wq_expire key (wq s)\<rparr>)"
proof -
  have key: "key = cmoConfigMap o'" using assms by (auto simp: loop_inv_def Let_def)
  have "wq_inv (wq_expire key (wq s))" using assms wq_inv_others by (auto simp: loop_inv_def Let_def)
  moreover have "processing (wq_expire key (wq s)) = processing (wq s)"
    "dirty (wq_expire key (wq s)) = (if shuttingDown (wq s) then dirty (wq s) else insert key (dirty (wq s)))"
    "shuttingDown (wq_expire key (wq s)) = shuttingDown (wq s)" "delayed (wq_expire key (wq s)) = delayed (wq s) - {key}"
    using assms by (auto simp: loop_inv_def wq_expire_def wq_Add_def Let_def)
  ultimately show ?thesis using assms key by (auto simp: loop_inv_def Let_def)
qed

lemma loop_inv_step:
  assumes "loop_step o' s s'" and "loop_inv o' s"
  shows "loop_inv o' s'"
  using assms(1)
proof cases
  case (event key)
  show ?thesis
  proof (cases "triggers o' key")
    case True
    then have "s' = s\<lparr>wq := enqueue (cmoConfigMap o') (wq s), fresh := True, owed := True\<rparr>"
      by (simp add: event handleEvent_cases)
    with loop_inv_enqueue [OF assms(2)] show ?thesis by simp
  next
    case False
    then have "s' = s" by (simp add: event handleEvent_cases)
    with assms(2) show ?thesis by simp
  qed
next
  case resync
  then show ?thesis
    using loop_inv_enqueue [OF assms(2), where f = "fresh s" and d = "owed s"] by (cases s) simp
next
  case (begin_sync key q)
  then show ?thesis using loop_inv_begin [OF assms(2)] by simp
next
  case (sync_done key)
  then show ?thesis using loop_inv_finish [OF assms(2), of key True] by simp
next
  case (sync_failed key)
  then show ?thesis using loop_inv_finish [OF assms(2), of key False] by simp
next
  case (expired key)
  then show ?thesis using loop_inv_expired [OF assms(2)] by simp
next
  case shut_down
  then show ?thesis using assms(2) by (auto simp: loop_inv_def wq_inv_def wq_ShutDown_def Let_def)
qed

lemma loop_inv_reachable: "loop_reachable o' s \<Longrightarrow> loop_inv o' s"
proof (induction rule: loop_reachable.induct)
  case start
  then show ?case by (simp add: loop_inv_def initial_loop_def empty_queue_def wq_inv_def Let_def)
next
  case (step s s')
  then show ?case by (blast intro: loop_inv_step)
qed

text \<open>
  C2. No triggering change is lost. In every state that the loop can reach, if some triggering change
  has not been covered by a later successful synchronisation, then a synchronisation is running, or
  the key is in the queue, or it waits for the rate limiter, unless the operator is shutting down; and a change that arrives during a
  synchronisation keeps the key marked, so that it is synchronised once more afterwards.
\<close>

theorem no_change_is_lost:
  assumes "loop_reachable o' s" and "owed s"
  shows "syncing s = Some (cmoConfigMap o') \<or> cmoConfigMap o' \<in> set (queue (wq s)) \<or>
    cmoConfigMap o' \<in> delayed (wq s) \<or> shuttingDown (wq s)"
  using loop_inv_reachable [OF assms(1)] assms(2)
  by (cases "syncing s") (auto simp: loop_inv_def wq_inv_def Let_def)

text \<open>
  There is one reconciliation at a time and only one thing to reconcile: every reachable state
  has at most the configuration key queued, once, and whatever object triggered it, the key that is
  synchronised is the configuration map's.
\<close>

theorem one_key_one_sync:
  assumes "loop_reachable o' s"
  shows "(queue (wq s) = [] \<or> queue (wq s) = [cmoConfigMap o']) \<and>
    (case syncing s of None \<Rightarrow> processing (wq s) = {} | Some k \<Rightarrow> k = cmoConfigMap o' \<and> queue (wq s) = [])"
proof -
  from loop_inv_reachable [OF assms] have q: "distinct (queue (wq s))" "set (queue (wq s)) = dirty (wq s) - processing (wq s)"
    "dirty (wq s) \<subseteq> {cmoConfigMap o'}" "processing (wq s) = set_option (syncing s)"
    "set_option (syncing s) \<subseteq> {cmoConfigMap o'}"
    by (auto simp: loop_inv_def wq_inv_def Let_def)
  then have "set (queue (wq s)) \<subseteq> {cmoConfigMap o'}" by auto
  with q(1) have "queue (wq s) = [] \<or> queue (wq s) = [cmoConfigMap o']"
    by (cases "queue (wq s)"; cases "List.tl (queue (wq s))") auto
  with q show ?thesis by (cases "syncing s") auto
qed

definition default_names :: operator_names where
  "default_names = \<lparr>op_namespace = ''openshift-monitoring'',
     op_namespaceUserWorkload = ''openshift-user-workload-monitoring'',
     op_configMapName = ''cluster-monitoring-config'',
     op_userWorkloadConfigMapName = ''user-workload-monitoring-config''\<rparr>"

text \<open>The loop after the gRPC secret has changed while nothing was running.\<close>

definition after_grpc_event :: loop_state where
  "after_grpc_event = initial_loop\<lparr>
     wq := handleEvent default_names (Some ''openshift-monitoring/grpc-tls'') (wq initial_loop),
     fresh := True, owed := True\<rparr>"

lemma after_grpc_event_reachable: "loop_reachable default_names after_grpc_event"
proof -
  have t: "triggers default_names (Some ''openshift-monitoring/grpc-tls'')"
    by (simp add: triggers_def triggering_keys_def)
  have "loop_step default_names initial_loop after_grpc_event"
    using loop_step.event [of default_names initial_loop "Some ''openshift-monitoring/grpc-tls''"] t
    by (simp add: after_grpc_event_def)
  with loop_reachable.start show ?thesis by (rule loop_reachable.step)
qed

theorem no_change_is_lost_witness:
  "''openshift-monitoring/cluster-monitoring-config'' \<in> set (queue (wq after_grpc_event)) \<and> owed after_grpc_event"
proof -
  have owed: "owed after_grpc_event" by (simp add: after_grpc_event_def)
  have idle: "syncing after_grpc_event = None" "delayed (wq after_grpc_event) = {}"
    "\<not> shuttingDown (wq after_grpc_event)"
    by (simp_all add: after_grpc_event_def initial_loop_def empty_queue_def handleEvent_def triggering_keys_def
        enqueue_def wq_Add_def)
  have key: "cmoConfigMap default_names = ''openshift-monitoring/cluster-monitoring-config''"
    by (simp add: cmoConfigMap_def default_names_def)
  from no_change_is_lost [OF after_grpc_event_reachable owed] idle key owed show ?thesis by simp
qed

theorem one_key_one_sync_witness:
  "queue (wq after_grpc_event) = [''openshift-monitoring/cluster-monitoring-config'']"
proof -
  have ne: "queue (wq after_grpc_event) \<noteq> []"
    by (simp add: after_grpc_event_def initial_loop_def empty_queue_def handleEvent_def triggering_keys_def
        enqueue_def wq_Add_def)
  have key: "cmoConfigMap default_names = ''openshift-monitoring/cluster-monitoring-config''"
    by (simp add: cmoConfigMap_def default_names_def)
  from one_key_one_sync [OF after_grpc_event_reachable] ne key show ?thesis by simp
qed

end
