(* ===== verification/Operator.thy ===== *)
theory Operator
  imports Config Status_Reporter Task_Runner Work_Queue
begin

text \<open>
  The reconciliation of \<open>pkg/operator/operator.go\<close>: how the configuration is put together from the
  cluster (\<open>loadConfig\<close>, \<open>loadUserWorkloadConfig\<close>, \<open>Config\<close>), and \<open>sync\<close>, which reports progress,
  runs all tasks and reports the result. The event filter and the queue are in \<open>Work_Queue\<close>.
\<close>

section \<open>The operator\<close>

text \<open>
  \<open>GetByKey\<close> is the lookup in the cache of the configuration map informer. The YAML decoders and the
  JSON decoder of the pull secret are the arguments of the loaders in \<open>Config\<close>. \<open>task_run\<close> are the
  tasks, by name, for the configuration that the manifest factory is built with; \<open>op_range\<close> and \<open>clock\<close>
  are what the status reporter takes from the Go runtime.
\<close>

record 'w Operator = operator_names +
  op_images :: "string gomap"
  op_telemetryMatches :: "string list"
  op_remoteWrite :: bool
  op_client :: "'w Client"
  GetByKey :: "string \<Rightarrow> ('w, ConfigMap option) prog"
  decode_config :: "string \<Rightarrow> ClusterMonitoringConfiguration res"
  decode_user_config :: "string \<Rightarrow> UserWorkloadConfiguration option res"
  unmarshal_pull_secret :: "string \<Rightarrow> error + string"
  task_run :: "Config \<Rightarrow> string \<Rightarrow> ('w, unit) prog"
  op_range :: range_order
  clock :: int

definition loadUserWorkloadConfig :: "'w Operator \<Rightarrow> ('w, UserWorkloadConfiguration) prog" where
  "loadUserWorkloadConfig o' = (
     let cmKey = op_namespaceUserWorkload o' @ ''/'' @ op_userWorkloadConfigMapName o' in
     p_catch (GetConfigmap (op_client o') (op_namespaceUserWorkload o') (op_userWorkloadConfigMapName o')) (\<lambda>r. case r of
         Inl err \<Rightarrow>
           if IsNotFound err then p_return (Ok NewDefaultUserWorkloadMonitoringConfig)
           else p_return (Err (Wrapped (''the User Workload Monitoring \"'' @ cmKey @ ''\" ConfigMap could not be loaded'') err))
       | Inr userCM \<Rightarrow> (case gm_lookup (CM_Data userCM) ''config.yaml'' of
             None \<Rightarrow> p_return (Ok NewDefaultUserWorkloadMonitoringConfig)
           | Some configContent \<Rightarrow> p_return (errors_Wrap
               (''the User Workload Configuration from \"config.yaml\" key in the \"'' @ cmKey @ ''\" ConfigMap could not be parsed'')
               (NewUserConfigFromString (decode_user_config o') configContent)))))"

definition loadConfig :: "'w Operator \<Rightarrow> string \<Rightarrow> ('w, Config) prog" where
  "loadConfig o' key =
     attempt ''an error occurred when retrieving the Cluster Monitoring ConfigMap'' (GetByKey o' key) (\<lambda>obj. case obj of
         None \<Rightarrow> p_return (Ok NewDefaultConfig)
       | Some cmap \<Rightarrow> (case gm_lookup (CM_Data cmap) ''config.yaml'' of
             None \<Rightarrow> p_return (Err (ErrorString ''the Cluster Monitoring ConfigMap doesn't contain a 'config.yaml' key''))
           | Some configContent \<Rightarrow> p_return (errors_Wrap ''the Cluster Monitoring ConfigMap could not be parsed''
               (NewConfigFromString (decode_config o') configContent))))"

definition user_workload_step :: "'w Operator \<Rightarrow> Config \<Rightarrow> ('w, Config) prog" where
  "user_workload_step o' c =
     p_bind (p_return (r_bind (deref (cfg_ClusterMonitoringConfiguration c)) (\<lambda>m. deref (cmc_UserWorkloadEnabled m))))
       (\<lambda>enabled. if enabled
          then p_bind (loadUserWorkloadConfig o') (\<lambda>u. p_return (Ok (c\<lparr>cfg_UserWorkloadConfiguration := Some u\<rparr>)))
          else p_return (Ok c))"

definition telemeter_step :: "'w Operator \<Rightarrow> Config \<Rightarrow> ('w, Config) prog" where
  "telemeter_step o' c =
     p_bind (p_return (telemeter_of c)) (\<lambda>t.
       if ClusterID t = '''' \<or> Token t = ''''
       then p_bind (LoadClusterID (GetClusterVersion (op_client o') ''version'') c) (\<lambda>(_, c).
            p_bind (LoadToken (unmarshal_pull_secret o') (r_Get (Secrets (op_client o')) ''openshift-config'' ''pull-secret'') c)
              (\<lambda>(_, c). p_return (Ok c)))
       else p_return (Ok c))"

text \<open>etcd is monitored when the cluster has its authority and the operator's client certificate.\<close>

definition enable_etcd :: "Config \<Rightarrow> Config res" where
  "enable_etcd c = on_cmc c (\<lambda>m. r_bind (through (cmc_EtcdConfig m) (\<lambda>e. e\<lparr>etcd_Enabled := Some True\<rparr>))
     (\<lambda>e. Ok (m\<lparr>cmc_EtcdConfig := e\<rparr>)))"

definition has_content :: "string gomap \<Rightarrow> string \<Rightarrow> bool" where
  "has_content m k = (case gm_lookup m k of None \<Rightarrow> False | Some v \<Rightarrow> length v > 0)"

definition etcd_step :: "'w Operator \<Rightarrow> Config \<Rightarrow> ('w, Config) prog" where
  "etcd_step o' c =
     p_catch (GetConfigmap (op_client o') ''openshift-config'' ''etcd-metric-serving-ca'') (\<lambda>r. case r of
         Inl _ \<Rightarrow> p_return (Ok c)
       | Inr cm \<Rightarrow> p_catch (GetSecret (op_client o') ''openshift-config'' ''etcd-metric-client'') (\<lambda>r. case r of
             Inl _ \<Rightarrow> p_return (Ok c)
           | Inr s \<Rightarrow>
               if has_content (CM_Data cm) ''ca-bundle.crt'' \<and> has_content (Data s) ''tls.crt'' \<and>
                  has_content (Data s) ''tls.key''
               then p_return (enable_etcd c) else p_return (Ok c)))"

definition operator_Config :: "'w Operator \<Rightarrow> string \<Rightarrow> ('w, Config) prog" where
  "operator_Config o' key =
     p_bind (loadConfig o' key) (\<lambda>c.
     p_bind (user_workload_step o' c) (\<lambda>c.
     p_bind (telemeter_step o' c) (\<lambda>c.
     p_bind (LoadProxy (GetProxy (op_client o') ''cluster'') c) (\<lambda>(_, c).
     p_bind (LoadPlatform (GetInfrastructure (op_client o') ''cluster'') c) (\<lambda>(_, c).
     etcd_step o' c)))))"

section \<open>Reconciliation\<close>

definition task_names :: "string list" where
  "task_names = [
     ''Updating Prometheus Operator'',
     ''Updating user workload Prometheus Operator'',
     ''Updating Cluster Monitoring Operator'',
     ''Updating Grafana'',
     ''Updating Prometheus-k8s'',
     ''Updating Prometheus-user-workload'',
     ''Updating Alertmanager'',
     ''Updating node-exporter'',
     ''Updating kube-state-metrics'',
     ''Updating openshift-state-metrics'',
     ''Updating prometheus-adapter'',
     ''Updating Telemeter client'',
     ''Updating configuration sharing'',
     ''Updating Thanos Querier'',
     ''Updating User Workload Thanos Ruler'']"

definition sync_runner :: "'w Operator \<Rightarrow> Config \<Rightarrow> 'w TaskRunner" where
  "sync_runner o' config = NewTaskRunner (map (\<lambda>n. NewTaskSpec n (task_run o' config n)) task_names)"

definition prepare_config :: "'w Operator \<Rightarrow> Config \<Rightarrow> Config res" where
  "prepare_config o' config =
     r_bind (SetImages (op_images o') config) (\<lambda>config.
     r_bind (SetTelemetryMatches (op_telemetryMatches o') config) (\<lambda>config.
     SetRemoteWrite (op_remoteWrite o') config))"

text \<open>Errors of the status reports are logged and otherwise ignored.\<close>

definition logged :: "('w, unit) prog \<Rightarrow> ('w, unit) prog" where
  "logged m = p_catch m (\<lambda>_. p_return (Ok ()))"

definition report_failed :: "'w Operator \<Rightarrow> error \<Rightarrow> string \<Rightarrow> ('w, unit) prog" where
  "report_failed o' err reason =
     logged (SetFailed (op_range o') (StatusReporter (op_client o')) (clock o') (error_message err) reason)"

text \<open>\<open>strings.Join(strings.Fields(taskName+"Failed"), "")\<close>.\<close>

definition is_space :: "char \<Rightarrow> bool" where
  "is_space c \<longleftrightarrow> c \<in> {CHR '' '', CHR 0x09, CHR 0x0A, CHR 0x0B, CHR 0x0C, CHR 0x0D}"

fun strings_Fields_from :: "string \<Rightarrow> string \<Rightarrow> string list" where
  "strings_Fields_from word [] = (if word = [] then [] else [word])"
| "strings_Fields_from word (c # s) =
     (if is_space c then (if word = [] then strings_Fields_from [] s else word # strings_Fields_from [] s)
      else strings_Fields_from (word @ [c]) s)"

definition failedTaskReason :: "string \<Rightarrow> string" where
  "failedTaskReason taskName = strings_Join '''' (strings_Fields_from [] (taskName @ ''Failed''))"

definition run_tasks :: "'w Operator \<Rightarrow> nat list \<Rightarrow> Config \<Rightarrow> ('w, unit) prog" where
  "run_tasks o' order config =
     p_bind (RunAll order (sync_runner o' config)) (\<lambda>(taskName, err). case err of
         Some err \<Rightarrow> p_bind (report_failed o' err (failedTaskReason taskName)) (\<lambda>_. p_return (Err err))
       | None \<Rightarrow> p_bind (logged (SetDone (op_range o') (StatusReporter (op_client o')) (clock o')))
           (\<lambda>_. p_return (Ok ())))"

definition sync :: "'w Operator \<Rightarrow> nat list \<Rightarrow> string \<Rightarrow> ('w, unit) prog" where
  "sync o' order key =
     p_catch (operator_Config o' key) (\<lambda>r. case r of
         Inl err \<Rightarrow> p_bind (report_failed o' err ''InvalidConfiguration'') (\<lambda>_. p_return (Err err))
       | Inr config \<Rightarrow>
           p_bind (p_return (prepare_config o' config)) (\<lambda>config.
           p_bind (logged (SetInProgress (op_range o') (StatusReporter (op_client o')) (clock o'))) (\<lambda>_.
           run_tasks o' order config)))"

section \<open>The configuration that a reconciliation works with\<close>

lemma loadConfig_complete: "loadConfig o' key w = (Ok c, w') \<Longrightarrow> complete c"
proof -
  assume "loadConfig o' key w = (Ok c, w')"
  then have "c = NewDefaultConfig \<or> (\<exists>s. NewConfigFromString (decode_config o') s = Ok c)"
    by (auto simp: loadConfig_def prog_simps split: option.splits)
  then show ?thesis by (auto dest: NewConfigFromString_Ok)
qed

lemma loadUserWorkloadConfig_complete: "loadUserWorkloadConfig o' w = (Ok u, w') \<Longrightarrow> complete_user u"
proof -
  assume "loadUserWorkloadConfig o' w = (Ok u, w')"
  then have "u = NewDefaultUserWorkloadMonitoringConfig \<or> (\<exists>s. NewUserConfigFromString (decode_user_config o') s = Ok u)"
    by (auto simp: loadUserWorkloadConfig_def prog_simps Let_def split: option.splits if_splits)
  then show ?thesis
    by (auto simp: NewUserConfigFromString_def res_simps split: if_splits)
qed

lemma user_workload_step_complete:
  "complete c \<Longrightarrow> user_workload_step o' c w = (Ok c', w') \<Longrightarrow> complete c'"
  by (auto simp: user_workload_step_def prog_simps complete_def dest: loadUserWorkloadConfig_complete split: if_splits)

lemma loads_safelyD:
  "loads_safely load m \<Longrightarrow> m w = (Ok (e, c), w') \<Longrightarrow> complete c"
  unfolding loads_safely_def by fastforce

lemma telemeter_step_complete:
  "complete c \<Longrightarrow> telemeter_step o' c w = (Ok c', w') \<Longrightarrow> complete c'"
  by (auto simp: telemeter_step_def prog_simps split: if_splits
      dest: loads_safelyD [OF LoadClusterID_safe] loads_safelyD [OF LoadToken_safe])

lemma enable_etcd_complete: "complete c \<Longrightarrow> \<exists>c'. enable_etcd c = Ok c' \<and> complete c'"
  by (erule completeE, erule complete_cmcE) (simp add: enable_etcd_def on_cmc_def complete_def complete_cmc_def)

lemma etcd_step_complete:
  "complete c \<Longrightarrow> etcd_step o' c w = (Ok c', w') \<Longrightarrow> complete c'"
  using enable_etcd_complete [of c] by (auto simp: etcd_step_def prog_simps split: if_splits)

lemma operator_Config_is_complete: "operator_Config o' key w = (Ok c, w') \<Longrightarrow> complete c"
proof -
  assume "operator_Config o' key w = (Ok c, w')"
  then obtain c1 w1 c2 w2 c3 w3 e4 c4 w4 e5 c5 w5 where
    "loadConfig o' key w = (Ok c1, w1)" "user_workload_step o' c1 w1 = (Ok c2, w2)"
    "telemeter_step o' c2 w2 = (Ok c3, w3)"
    "LoadProxy (GetProxy (op_client o') ''cluster'') c3 w3 = (Ok (e4, c4), w4)"
    "LoadPlatform (GetInfrastructure (op_client o') ''cluster'') c4 w4 = (Ok (e5, c5), w5)"
    "etcd_step o' c5 w5 = (Ok c, w')"
    by (auto simp: operator_Config_def p_bind_Ok_iff)
  then show ?thesis
    by (meson loadConfig_complete user_workload_step_complete telemeter_step_complete
        loads_safelyD LoadProxy_safe LoadPlatform_safe etcd_step_complete)
qed

lemma prepare_config_complete: "complete c \<Longrightarrow> \<exists>c'. prepare_config o' c = Ok c' \<and> complete c'"
proof -
  assume c: "complete c"
  from SetImages_complete [OF c, of "op_images o'"] obtain c1 where 1: "SetImages (op_images o') c = Ok c1" "complete c1" by blast
  from SetTelemetryMatches_complete [OF 1(2), of "op_telemetryMatches o'"] obtain c2 where
    2: "SetTelemetryMatches (op_telemetryMatches o') c1 = Ok c2" "complete c2" by blast
  from SetRemoteWrite_complete [OF 2(2), of "op_remoteWrite o'"] 1 2 show ?thesis
    by (auto simp: prepare_config_def)
qed

text \<open>
  C10. Whatever the documents contain and whichever reads fail, a configuration that a reconciliation
  goes on with is complete: no section is a nil pointer, so that none of the setters and tasks that
  follow such a pointer can panic on it; in particular the operator's own settings apply to it.
\<close>

theorem operator_Config_complete:
  assumes "operator_Config o' key w = (Ok c, w')"
  shows "complete c \<and> (\<exists>c'. prepare_config o' c = Ok c' \<and> complete c')"
  using operator_Config_is_complete [OF assms] prepare_config_complete by blast

text \<open>
  Monitoring of etcd is switched on only by evidence: the last step of building the configuration
  either leaves it alone or sets exactly that switch, and the latter only when the cluster stores the
  authority and the client certificate and key, all with content.
\<close>

theorem etcd_step_evidence:
  assumes "api_reader (ConfigMaps (op_client o')) vc" and "api_reader (Secrets (op_client o')) vs"
    and "etcd_step o' c w = (Ok c', w')" and "c' \<noteq> c"
  shows "enable_etcd c = Ok c' \<and>
    (\<exists>cm. vc w (''openshift-config'', ''etcd-metric-serving-ca'') = Some cm \<and> has_content (CM_Data cm) ''ca-bundle.crt'') \<and>
    (\<exists>s. vs w' (''openshift-config'', ''etcd-metric-client'') = Some s \<and>
       has_content (Data s) ''tls.crt'' \<and> has_content (Data s) ''tls.key'')"
proof -
  from assms(3,4) obtain cm w1 s where
    cm: "r_Get (ConfigMaps (op_client o')) ''openshift-config'' ''etcd-metric-serving-ca'' w = (Ok cm, w1)"
    and s: "r_Get (Secrets (op_client o')) ''openshift-config'' ''etcd-metric-client'' w1 = (Ok s, w')"
    and ok: "has_content (CM_Data cm) ''ca-bundle.crt''" "has_content (Data s) ''tls.crt''" "has_content (Data s) ''tls.key''"
      "enable_etcd c = Ok c'"
    by (auto simp: etcd_step_def GetConfigmap_def GetSecret_def p_catch_Ok_iff split: if_splits)
  from api_reader.get_ok [OF assms(1) cm] api_reader.get_ok [OF assms(2) s] ok show ?thesis by auto
qed

section \<open>The outcome of a reconciliation\<close>

lemma p_bind_logged:
  assumes "p_bind (logged m) (\<lambda>_. k) w = (r, w')" and "returns m"
  obtains w1 where "k w1 = (r, w')"
proof -
  obtain s w1 where m: "m w = (s, w1)" by (cases "m w")
  with assms(1) returnsD [OF assms(2)] that [of w1] show thesis
    by (cases s) (auto simp: logged_def p_bind_def p_catch_def)
qed

lemma returns_report:
  assumes "api_resource (sr_client r) view accepts"
  shows "returns (report ord r now f)"
proof -
  have put: "returns (discard (r_UpdateStatus (sr_client r) '''' x))" for x
    unfolding discard_def
    by (rule returns_bind) (use api_resource.writes_return(3) [OF assms] in \<open>simp_all add: returns_def\<close>)
  have get: "returns (r_Get (sr_client r) '''' n)" for n
    using api_reader.reads_return(1) [of "sr_client r" view] assms by (simp add: api_resource_def returns_def)
  have new: "returns (r_Create (sr_client r) '''' x)" for x
    using api_resource.writes_return(1) [OF assms] by (simp add: returns_def)
  show ?thesis
    unfolding report_def Let_def by (intro returns_catch get) (auto intro!: put new returns_catch split: sum.split)
qed

lemma status_returns:
  assumes "api_resource (ClusterOperators c) view accepts"
  shows "returns (SetFailed ord (StatusReporter c) now s reason)"
    and "returns (SetInProgress ord (StatusReporter c) now)"
    and "returns (SetDone ord (StatusReporter c) now)"
proof -
  have "returns (report ord (StatusReporter c) now f)" for f
    by (rule returns_report [where view = view and accepts = accepts])
      (simp add: StatusReporter_def NewStatusReporter_def assms)
  then show "returns (SetFailed ord (StatusReporter c) now s reason)"
    and "returns (SetInProgress ord (StatusReporter c) now)" and "returns (SetDone ord (StatusReporter c) now)"
    by (simp_all add: SetFailed_def SetInProgress_def SetDone_def)
qed

text \<open>
  C1. The outcome of \<open>sync\<close>, whatever happens to the status reports, whose errors are only logged: a
  configuration that cannot be loaded is returned as the error and no task runs; otherwise each of
  the fifteen tasks has run exactly once, and \<open>sync\<close> returns nil exactly when all of them succeeded,
  or else the error of the one that failed first. It panics only if a read or a task does.
\<close>

theorem sync_outcome:
  assumes "api_resource (ClusterOperators (op_client o')) view accepts"
    and "distinct order" and "set order = {..<15}" and "sync o' order key w = (r, w')"
  shows "case operator_Config o' key w of
      (Err e, w1) \<Rightarrow> r = Err e
    | (Panic, w1) \<Rightarrow> r = Panic
    | (Ok config, w1) \<Rightarrow> (\<exists>config' w2. prepare_config o' config = Ok config' \<and>
        (case executions (map (\<lambda>i. runner_tasks (sync_runner o' config') ! i) order) w2 of
           None \<Rightarrow> r = Panic
         | Some (log, w3) \<Rightarrow> mset (map fst log) = mset task_names \<and>
             r = (case first_failure log of
               None \<Rightarrow> Ok ()
             | Some (n, e) \<Rightarrow> Err (Wrapped (''running task '' @ n @ '' failed'') e))))"
proof -
  obtain q w1 where conf: "operator_Config o' key w = (q, w1)" by (cases "operator_Config o' key w")
  note reports = status_returns [OF assms(1)]
  show ?thesis
  proof (cases q)
    case (Err e)
    with assms(4) conf have "p_bind (report_failed o' e ''InvalidConfiguration'') (\<lambda>_. p_return (Err e)) w1 = (r, w')"
      by (simp add: sync_def p_catch_eqs)
    from p_bind_logged [OF this [unfolded report_failed_def] reports(1)] Err conf show ?thesis by auto
  next
    case Panic
    with assms(4) conf show ?thesis by (simp add: sync_def p_catch_eqs)
  next
    case (Ok config)
    with conf prepare_config_complete [of config o'] operator_Config_is_complete [of o' key w config w1]
    obtain config' where prep: "prepare_config o' config = Ok config'" by blast
    let ?run = "sync_runner o' config'"
    have tasks: "map TaskSpec_Name (runner_tasks ?run) = task_names" "length (runner_tasks ?run) = 15"
      by (simp_all add: sync_runner_def NewTaskRunner_def NewTaskSpec_def comp_def task_names_def)
    have ord: "completion_order ?run order"
      using assms(2,3) tasks(2) by (simp add: completion_order_def)
    from assms(4) conf Ok prep have
      "p_bind (logged (SetInProgress (op_range o') (StatusReporter (op_client o')) (clock o')))
         (\<lambda>_. run_tasks o' order config') w1 = (r, w')"
      by (simp add: sync_def p_catch_eqs)
    then obtain w2 where after: "run_tasks o' order config' w2 = (r, w')"
      using reports(2) by (rule p_bind_logged)
    show ?thesis
    proof (cases "executions (map (\<lambda>i. runner_tasks ?run ! i) order) w2")
      case None
      with RunAll_panic [OF this] after conf Ok prep show ?thesis
        by (cases "RunAll order ?run w2") (auto simp: run_tasks_def p_bind_def intro!: exI [of _ w2])
    next
      case (Some lw)
      obtain log w3 where lw: "lw = (log, w3)" by (cases lw)
      note ex = RunAll_executions [OF ord Some [unfolded lw]]
      have "r = (case first_failure log of None \<Rightarrow> Ok ()
          | Some (n, e) \<Rightarrow> Err (Wrapped (''running task '' @ n @ '' failed'') e))"
      proof (cases "first_failure log")
        case None
        with after ex(2) have "p_bind (logged (SetDone (op_range o') (StatusReporter (op_client o')) (clock o')))
          (\<lambda>_. p_return (Ok ())) w3 = (r, w')" by (simp add: run_tasks_def p_bind_def)
        from p_bind_logged [OF this reports(3)] None show ?thesis by auto
      next
        case (Some ne)
        obtain n e where ne: "ne = (n, e)" by (cases ne)
        with Some after ex(2) have "p_bind (report_failed o' (Wrapped (''running task '' @ n @ '' failed'') e)
            (failedTaskReason n)) (\<lambda>_. p_return (Err (Wrapped (''running task '' @ n @ '' failed'') e))) w3 = (r, w')"
          by (simp add: run_tasks_def p_bind_def)
        from p_bind_logged [OF this [unfolded report_failed_def] reports(1)] Some ne show ?thesis by auto
      qed
      with conf Ok prep Some lw ex(1) tasks(1) show ?thesis by (auto intro!: exI [of _ w2])
    qed
  qed
qed

text \<open>An operator of the tracked cluster, whose documents do not parse and whose tasks succeed.\<close>

definition sample_operator :: "Cluster Operator" where
  "sample_operator = \<lparr>op_namespace = ''openshift-monitoring'',
     op_namespaceUserWorkload = ''openshift-user-workload-monitoring'',
     op_configMapName = ''cluster-monitoring-config'', op_userWorkloadConfigMapName = ''user-workload-monitoring-config'',
     op_images = None, op_telemetryMatches = [], op_remoteWrite = False, op_client = quiet_client,
     GetByKey = (\<lambda>_. p_return (Ok None)), decode_config = (\<lambda>_. Err (ErrorString ''yaml'')),
     decode_user_config = (\<lambda>_. Err (ErrorString ''yaml'')), unmarshal_pull_secret = (\<lambda>_. Inr ''''),
     task_run = (\<lambda>_ _. p_return (Ok ())), op_range = sorted_list_of_fset, clock = 0\<rparr>"

lemma sample_operator_simps [simp]:
  "op_client sample_operator = quiet_client" "GetByKey sample_operator key = p_return (Ok None)"
  by (simp_all add: sample_operator_def)

lemma NewDefaultConfig_parts:
  "\<exists>m. cfg_ClusterMonitoringConfiguration NewDefaultConfig = Some m \<and> cmc_UserWorkloadEnabled m = Some False"
  "\<exists>t. telemeter_of NewDefaultConfig = Ok t \<and> ClusterID t = '''' \<and> Token t = ''''"
  "http_of NewDefaultConfig = Ok zero_HTTPConfig"
  by (simp_all add: telemeter_of_def http_of_def NewDefaultConfig_def applyDefaults_def
        applyDefaults_cmc_def zero_ClusterMonitoringConfiguration_def zero_TelemeterClientConfig_def)

text \<open>A cluster whose server answers and which holds nothing that the configuration is completed from.\<close>

definition unconfigured :: "Cluster \<Rightarrow> bool" where
  "unconfigured w \<longleftrightarrow> faults w = [] \<and> fmlookup (tracked_ClusterVersions w) ('''', ''version'') = None
     \<and> fmlookup (tracked_Secrets w) (''openshift-config'', ''pull-secret'') = None
     \<and> fmlookup (tracked_ConfigMaps w) (''openshift-config'', ''etcd-metric-serving-ca'') = None
     \<and> fmlookup (tracked_Proxies w) ('''', ''cluster'') = None
     \<and> fmlookup (tracked_Infrastructures w) ('''', ''cluster'') = None"

lemma unconfigured_empty [simp]: "unconfigured empty_cluster"
  by (simp add: unconfigured_def empty_cluster_def)

lemma unconfigured_reads:
  assumes "unconfigured w"
  shows "r_Get (tracker_resource ClusterVersions_tracker) '''' ''version'' w = (Err NotFound, w)"
    and "r_Get (tracker_resource Secrets_tracker) ''openshift-config'' ''pull-secret'' w = (Err NotFound, w)"
    and "r_Get (tracker_resource ConfigMaps_tracker) ''openshift-config'' ''etcd-metric-serving-ca'' w = (Err NotFound, w)"
    and "r_Get (tracker_resource Proxies_tracker) '''' ''cluster'' w = (Err NotFound, w)"
    and "r_Get (tracker_resource Infrastructures_tracker) '''' ''cluster'' w = (Err NotFound, w)"
  using assms by (simp_all add: tracker_resource_def react_def tracker_Get_def tracker_defs unconfigured_def)

lemma sample_operator_Config:
  assumes "unconfigured w"
  shows "operator_Config sample_operator key w = (Ok NewDefaultConfig, w)"
proof -
  note reads = unconfigured_reads [OF assms]
  obtain m t where m: "cfg_ClusterMonitoringConfiguration NewDefaultConfig = Some m" "cmc_UserWorkloadEnabled m = Some False"
    and t: "telemeter_of NewDefaultConfig = Ok t" "ClusterID t = ''''" "Token t = ''''"
    using NewDefaultConfig_parts(1,2) by blast
  note h = NewDefaultConfig_parts(3)
  have "loadConfig sample_operator key w = (Ok NewDefaultConfig, w)"
    by (simp add: loadConfig_def attempt_def p_bind_def p_wrap_def)
  moreover have "user_workload_step sample_operator NewDefaultConfig w = (Ok NewDefaultConfig, w)"
    using m by (simp add: user_workload_step_def)
  moreover have "telemeter_step sample_operator NewDefaultConfig w = (Ok NewDefaultConfig, w)"
    using t by (simp add: telemeter_step_def LoadClusterID_def LoadToken_def load_with_def GetClusterVersion_def
        p_bind_def p_catch_def reads)
  moreover have "LoadProxy (GetProxy quiet_client ''cluster'') NewDefaultConfig w =
      (Ok (Some (ErrorString (''error loading proxy: '' @ error_message NotFound)), NewDefaultConfig), w)"
    using h by (simp add: LoadProxy_def load_with_def GetProxy_def zero_HTTPConfig_def p_catch_def reads)
  moreover have "LoadPlatform (GetInfrastructure quiet_client ''cluster'') NewDefaultConfig w =
      (Ok (Some (ErrorString (''error loading platform: '' @ error_message NotFound)), NewDefaultConfig), w)"
    by (simp add: LoadPlatform_def load_with_def GetInfrastructure_def p_catch_def reads)
  moreover have "etcd_step sample_operator NewDefaultConfig w = (Ok NewDefaultConfig, w)"
    by (simp add: etcd_step_def GetConfigmap_def p_catch_def reads)
  ultimately show ?thesis by (simp add: operator_Config_def p_bind_def)
qed

theorem operator_Config_complete_witness: "complete NewDefaultConfig"
  using operator_Config_complete [OF sample_operator_Config [OF unconfigured_empty, of "''k''"]] by blast

definition etcd_cluster :: Cluster where
  "etcd_cluster = empty_cluster\<lparr>
     tracked_ConfigMaps := fmap_of_list [((''openshift-config'', ''etcd-metric-serving-ca''),
       sample_configmap ''openshift-config'' ''etcd-metric-serving-ca'' [] [(''ca-bundle.crt'', ''CA'')])],
     tracked_Secrets := fmap_of_list [((''openshift-config'', ''etcd-metric-client''),
       sample_secret ''openshift-config'' ''etcd-metric-client'' [] [(''tls.crt'', ''C''), (''tls.key'', ''K'')])]\<rparr>"

theorem etcd_step_evidence_witness:
  "\<exists>c'. etcd_step sample_operator NewDefaultConfig etcd_cluster = (Ok c', etcd_cluster) \<and>
     enable_etcd NewDefaultConfig = Ok c'"
proof -
  obtain c' where c': "enable_etcd NewDefaultConfig = Ok c'" "complete c'"
    using enable_etcd_complete [OF complete_NewDefaultConfig] by blast
  then have "map_option cmc_EtcdConfig (cfg_ClusterMonitoringConfiguration c') \<noteq>
      map_option cmc_EtcdConfig (cfg_ClusterMonitoringConfiguration NewDefaultConfig)"
    by (auto simp: enable_etcd_def NewDefaultConfig_def on_cmc_def applyDefaults_def applyDefaults_cmc_def
        zero_ClusterMonitoringConfiguration_def)
  then have "c' \<noteq> NewDefaultConfig" by blast
  moreover have run: "etcd_step sample_operator NewDefaultConfig etcd_cluster = (Ok c', etcd_cluster)"
    using c'(1) by (simp add: etcd_step_def GetConfigmap_def GetSecret_def run_simps tracker_defs etcd_cluster_def
        empty_cluster_def has_content_def sample_secret_def sample_configmap_def ObjectMeta.defs)
  moreover have "api_reader (ConfigMaps (op_client sample_operator)) (tracker_view ConfigMaps_tracker)"
    "api_reader (Secrets (op_client sample_operator)) (tracker_view Secrets_tracker)"
    by (simp_all add: tracked_ConfigMap.api_reader_axioms tracked_Secret.api_reader_axioms)
  ultimately show ?thesis using etcd_step_evidence [of sample_operator] by blast
qed

theorem sync_outcome_witness:
  "fst (sync sample_operator (rev [0..<15]) ''k'' empty_cluster) = Ok ()"
proof -
  let ?order = "rev [0..<15] :: nat list"
  obtain r w' where run: "sync sample_operator ?order ''k'' empty_cluster = (r, w')"
    by (cases "sync sample_operator ?order ''k'' empty_cluster")
  have api: "api_resource (ClusterOperators (op_client sample_operator)) (tracker_view ClusterOperators_tracker) tracker_accepts"
    by (simp add: api_resource_tracker)
  have order: "distinct ?order" "set ?order = {..<15}" by (simp, simp add: lessThan_atLeast0)
  have tasks: "map ((!) (runner_tasks (sync_runner sample_operator c))) ?order =
      map (\<lambda>n. NewTaskSpec n (p_return (Ok ()))) (rev task_names)" for c
  proof -
    have "runner_tasks (sync_runner sample_operator c) = map (\<lambda>n. NewTaskSpec n (p_return (Ok ()))) task_names"
      by (simp add: sync_runner_def NewTaskRunner_def sample_operator_def)
    moreover from this have "length (runner_tasks (sync_runner sample_operator c)) = 15" by (simp add: task_names_def)
    ultimately show ?thesis by (metis rev_map map_nth)
  qed
  have ex: "executions (map (\<lambda>n. NewTaskSpec n (p_return (Ok ()))) ns) w = Some (map (\<lambda>n. (n, None)) ns, w)"
    for ns and w :: Cluster
    by (induction ns) (simp_all add: NewTaskSpec_def)
  have ff: "first_failure (map (\<lambda>n. (n, None)) ns) = None" for ns
    by (simp add: first_failure_None list_all_iff)
  from sync_outcome [OF api order run] ff show ?thesis
    by (simp add: sample_operator_Config [OF unconfigured_empty] run tasks ex)
qed

end
