(* ===== verification/Hashing.thy ===== *)
theory Hashing
  imports Prelude "HOL-Library.Word"
begin

text \<open>
  The content hashes in the names of secrets and configuration maps: \<open>fnv.New64\<close> of Go's standard
  library (FNV-1 on 64-bit words) and \<open>strconv.FormatUint(h, 32)\<close>. A string is a list of bytes.
\<close>

unbundle bit_operations_syntax

section \<open>FNV-1\<close>

definition fnv_offset64 :: "64 word" where
  "fnv_offset64 = 14695981039346656037"

definition fnv_prime64 :: "64 word" where
  "fnv_prime64 = 1099511628211"

text \<open>\<open>Write\<close> of the hash: for every byte a multiplication that wraps around, and an exclusive or.\<close>

fun fnv_Write :: "64 word \<Rightarrow> string \<Rightarrow> 64 word" where
  "fnv_Write h [] = h"
| "fnv_Write h (c # s) = fnv_Write ((h * fnv_prime64) XOR of_char c) s"

definition fnv64 :: "string \<Rightarrow> 64 word" where
  "fnv64 s = fnv_Write fnv_offset64 s"

lemma fnv_Write_append: "fnv_Write h (s @ t) = fnv_Write (fnv_Write h s) t"
  by (induction h s rule: fnv_Write.induct) auto

lemma fnv_Write_fold: "fnv_Write h s = fold (\<lambda>c h. (h * fnv_prime64) XOR of_char c) s h"
  by (induction h s rule: fnv_Write.induct) auto

section \<open>Base 32\<close>

definition base32_digits :: string where
  "base32_digits = ''0123456789abcdefghijklmnopqrstuv''"

fun format_digits :: "nat \<Rightarrow> string \<Rightarrow> string" where
  "format_digits n acc = (
     let acc' = (base32_digits ! (n mod 32)) # acc
     in if n < 32 then acc' else format_digits (n div 32) acc')"

declare format_digits.simps [simp del]

definition FormatUint :: "64 word \<Rightarrow> string" where
  "FormatUint h = format_digits (unat h) []"

text \<open>The value of a digit and of a numeral, to say that the notation loses nothing.\<close>

definition digit_value :: "char \<Rightarrow> nat" where
  "digit_value c = (if of_char c < (58::nat) then of_char c - 48 else of_char c - 87)"

definition numeral_value :: "string \<Rightarrow> nat" where
  "numeral_value s = foldl (\<lambda>n c. 32 * n + digit_value c) 0 s"

lemma length_base32_digits [simp]: "length base32_digits = 32"
  by (simp add: base32_digits_def)

lemma map_digit_value: "map digit_value base32_digits = [0..<32]"
  by (simp add: base32_digits_def digit_value_def upt_conv_Cons)

lemma digit_value_nth: "n < 32 \<Longrightarrow> digit_value (base32_digits ! n) = n"
  using nth_map [of n base32_digits digit_value] by (simp add: map_digit_value)

lemma numeral_format_digits:
  "foldl (\<lambda>n c. 32 * n + digit_value c) 0 (format_digits n acc) =
     foldl (\<lambda>n c. 32 * n + digit_value c) n acc"
proof (induction n acc rule: format_digits.induct)
  case (1 n acc)
  show ?case
  proof (cases "n < 32")
    case True
    then show ?thesis
      by (simp add: format_digits.simps [of n] Let_def digit_value_nth)
  next
    case False
    let ?acc = "base32_digits ! (n mod 32) # acc"
    have "foldl (\<lambda>n c. 32 * n + digit_value c) 0 (format_digits (n div 32) ?acc) =
        foldl (\<lambda>n c. 32 * n + digit_value c) (n div 32) ?acc"
      using 1 [OF refl] False by simp
    then show ?thesis
      using False by (simp add: format_digits.simps [of n] Let_def digit_value_nth)
  qed
qed

lemma numeral_value_FormatUint: "numeral_value (FormatUint h) = unat h"
  by (simp add: numeral_value_def FormatUint_def numeral_format_digits)

lemma FormatUint_inject [simp]: "FormatUint g = FormatUint h \<longleftrightarrow> g = h"
  by (metis numeral_value_FormatUint unsigned_word_eqI)

lemma set_format_digits: "set (format_digits n acc) \<subseteq> set base32_digits \<union> set acc"
proof (induction n acc rule: format_digits.induct)
  case (1 n acc)
  have d: "base32_digits ! (n mod 32) \<in> set base32_digits" by (rule nth_mem) simp
  show ?case
  proof (cases "n < 32")
    case True
    with d show ?thesis by (auto simp: format_digits.simps [of n] Let_def)
  next
    case False
    with 1 [OF refl] d show ?thesis by (auto simp: format_digits.simps [of n] Let_def)
  qed
qed

lemma set_FormatUint: "set (FormatUint h) \<subseteq> set base32_digits"
  using set_format_digits [of "unat h" "[]"] by (simp add: FormatUint_def)

lemma FormatUint_nonempty [simp]: "FormatUint h \<noteq> ''''"
proof -
  have "format_digits n acc \<noteq> []" for n acc
    by (induction n acc rule: format_digits.induct)
      (simp add: format_digits.simps Let_def)
  then show ?thesis by (simp add: FormatUint_def)
qed

end
