(* ===== verification/Factory_Base.thy ===== *)
theory Factory_Base
  imports Config Hashing Manifest_Helpers Client_Base
begin

text \<open>
  The \<open>Factory\<close> of \<open>pkg/manifests/manifests.go\<close>: it reads the manifest of an object from the assets,
  decodes it and adapts it to the configuration. Here are the factory itself, the constructors
  \<open>New...\<close> that decode and give an object its default namespace, and the objects whose names carry a
  hash of their content.
\<close>

section \<open>The factory\<close>

text \<open>Grafana's data sources, as they are stored in a secret as JSON.\<close>

record GrafanaJsonData =
  TlsSkipVerify :: bool

record GrafanaDatasource =
  Access :: string
  BasicAuth :: bool
  BasicAuthPassword :: string
  BasicAuthUser :: string
  Editable :: bool
  JsonData :: "GrafanaJsonData option"
  GD_Name :: string
  OrgId :: int
  GD_Type :: string
  Url :: string
  GD_Version :: int

record GrafanaDatasources =
  ApiVersion :: int
  Datasources :: "GrafanaDatasource option list"

text \<open>
  The factory's own fields come first; the assets are a part of the world, because reading one fills
  their cache. The rest is what the methods take from libraries: the file system and the random
  source, the YAML decoder for every kind, JSON, SHA-1 and the parser of PromQL selectors.
\<close>

record 'w Factory =
  fac_namespace :: string
  fac_namespaceUserWorkload :: string
  fac_config :: Config
  fac_assets :: "'w \<Rightarrow> Assets"
  put_assets :: "Assets \<Rightarrow> 'w \<Rightarrow> 'w"
  ReadFile :: "'w \<Rightarrow> string \<Rightarrow> string res"
  rand_Read :: "nat \<Rightarrow> ('w, string) prog"
  yaml_DaemonSet :: "string \<Rightarrow> error + DaemonSet"
  yaml_Service :: "string \<Rightarrow> error + Service"
  yaml_Route :: "string \<Rightarrow> error + Route"
  yaml_Secret :: "string \<Rightarrow> error + Secret"
  yaml_RoleBinding :: "string \<Rightarrow> error + RoleBinding"
  yaml_RoleList :: "string \<Rightarrow> error + Role list"
  yaml_RoleBindingList :: "string \<Rightarrow> error + RoleBinding list"
  yaml_Role :: "string \<Rightarrow> error + Role"
  yaml_ConfigMap :: "string \<Rightarrow> error + ConfigMap"
  yaml_ConfigMapList :: "string \<Rightarrow> error + ConfigMap list"
  yaml_ServiceAccount :: "string \<Rightarrow> error + ServiceAccount"
  yaml_Prometheus :: "string \<Rightarrow> error + Prometheus"
  yaml_PrometheusRule :: "string \<Rightarrow> error + PrometheusRule"
  yaml_Alertmanager :: "string \<Rightarrow> error + Alertmanager"
  yaml_ThanosRuler :: "string \<Rightarrow> error + ThanosRuler"
  yaml_ServiceMonitor :: "string \<Rightarrow> error + ServiceMonitor"
  yaml_Deployment :: "string \<Rightarrow> error + Deployment"
  yaml_APIService :: "string \<Rightarrow> error + APIService"
  yaml_SecurityContextConstraints :: "string \<Rightarrow> error + SecurityContextConstraints"
  yaml_ClusterRoleBinding :: "string \<Rightarrow> error + ClusterRoleBinding"
  yaml_ClusterRole :: "string \<Rightarrow> error + ClusterRole"
  yaml_ValidatingWebhook :: "string \<Rightarrow> error + ValidatingWebhookConfiguration"
  unmarshal_datasources :: "string \<Rightarrow> error + GrafanaDatasources"
  marshal_datasources :: "GrafanaDatasources \<Rightarrow> error + string"
  unmarshal_strings :: "string \<Rightarrow> string list res"
  marshal_map :: "(string \<times> string) list \<Rightarrow> string"
  sha1_Sum :: "string \<Rightarrow> string"
  promql_parse :: parser
  map_order :: "string list \<Rightarrow> string list"

text \<open>\<open>f.assets.MustNewAssetReader(name)\<close>: the content of an asset, or a panic.\<close>

definition asset :: "'w Factory \<Rightarrow> string \<Rightarrow> ('w, string) prog" where
  "asset f name = (\<lambda>w.
     let (r, a) = MustNewAssetReader (ReadFile f w) name (fac_assets f w) in (r, put_assets f a w))"

definition password :: "'w Factory \<Rightarrow> nat \<Rightarrow> ('w, string) prog" where
  "password f n = p_bind (rand_Read f n) (\<lambda>b. p_return (GeneratePassword (\<lambda>_. Ok b) n))"

definition TrustedCABundleKey :: string where
  "TrustedCABundleKey = ''ca-bundle.crt''"

section \<open>Decoding manifests\<close>

definition decoded :: "error + 'a \<Rightarrow> 'a res" where
  "decoded r = (case r of Inl e \<Rightarrow> Err e | Inr x \<Rightarrow> Ok x)"

text \<open>
  The package's own functions of the same names, here \<open>read_...\<close>, only decode.
\<close>

definition read_DaemonSet :: "'w Factory \<Rightarrow> string \<Rightarrow> DaemonSet res" where
  "read_DaemonSet f manifest = decoded (yaml_DaemonSet f manifest)"

definition read_Service :: "'w Factory \<Rightarrow> string \<Rightarrow> Service res" where
  "read_Service f manifest = decoded (yaml_Service f manifest)"

definition read_Route :: "'w Factory \<Rightarrow> string \<Rightarrow> Route res" where
  "read_Route f manifest = decoded (yaml_Route f manifest)"

definition read_Secret :: "'w Factory \<Rightarrow> string \<Rightarrow> Secret res" where
  "read_Secret f manifest = decoded (yaml_Secret f manifest)"

definition read_RoleBinding :: "'w Factory \<Rightarrow> string \<Rightarrow> RoleBinding res" where
  "read_RoleBinding f manifest = decoded (yaml_RoleBinding f manifest)"

definition read_RoleList :: "'w Factory \<Rightarrow> string \<Rightarrow> Role list res" where
  "read_RoleList f manifest = decoded (yaml_RoleList f manifest)"

definition read_RoleBindingList :: "'w Factory \<Rightarrow> string \<Rightarrow> RoleBinding list res" where
  "read_RoleBindingList f manifest = decoded (yaml_RoleBindingList f manifest)"

definition read_ConfigMapList :: "'w Factory \<Rightarrow> string \<Rightarrow> ConfigMap list res" where
  "read_ConfigMapList f manifest = decoded (yaml_ConfigMapList f manifest)"

definition read_Role :: "'w Factory \<Rightarrow> string \<Rightarrow> Role res" where
  "read_Role f manifest = decoded (yaml_Role f manifest)"

definition read_ConfigMap :: "'w Factory \<Rightarrow> string \<Rightarrow> ConfigMap res" where
  "read_ConfigMap f manifest = decoded (yaml_ConfigMap f manifest)"

definition read_ServiceAccount :: "'w Factory \<Rightarrow> string \<Rightarrow> ServiceAccount res" where
  "read_ServiceAccount f manifest = decoded (yaml_ServiceAccount f manifest)"

definition read_Prometheus :: "'w Factory \<Rightarrow> string \<Rightarrow> Prometheus res" where
  "read_Prometheus f manifest = decoded (yaml_Prometheus f manifest)"

definition read_PrometheusRule :: "'w Factory \<Rightarrow> string \<Rightarrow> PrometheusRule res" where
  "read_PrometheusRule f manifest = decoded (yaml_PrometheusRule f manifest)"

definition read_Alertmanager :: "'w Factory \<Rightarrow> string \<Rightarrow> Alertmanager res" where
  "read_Alertmanager f manifest = decoded (yaml_Alertmanager f manifest)"

definition read_ThanosRuler :: "'w Factory \<Rightarrow> string \<Rightarrow> ThanosRuler res" where
  "read_ThanosRuler f manifest = decoded (yaml_ThanosRuler f manifest)"

definition read_ServiceMonitor :: "'w Factory \<Rightarrow> string \<Rightarrow> ServiceMonitor res" where
  "read_ServiceMonitor f manifest = decoded (yaml_ServiceMonitor f manifest)"

definition read_Deployment :: "'w Factory \<Rightarrow> string \<Rightarrow> Deployment res" where
  "read_Deployment f manifest = decoded (yaml_Deployment f manifest)"

definition read_APIService :: "'w Factory \<Rightarrow> string \<Rightarrow> APIService res" where
  "read_APIService f manifest = decoded (yaml_APIService f manifest)"

definition read_SecurityContextConstraints :: "'w Factory \<Rightarrow> string \<Rightarrow> SecurityContextConstraints res" where
  "read_SecurityContextConstraints f manifest = decoded (yaml_SecurityContextConstraints f manifest)"

definition read_ClusterRoleBinding :: "'w Factory \<Rightarrow> string \<Rightarrow> ClusterRoleBinding res" where
  "read_ClusterRoleBinding f manifest = decoded (yaml_ClusterRoleBinding f manifest)"

definition read_ClusterRole :: "'w Factory \<Rightarrow> string \<Rightarrow> ClusterRole res" where
  "read_ClusterRole f manifest = decoded (yaml_ClusterRole f manifest)"

definition read_ValidatingWebhook :: "'w Factory \<Rightarrow> string \<Rightarrow> ValidatingWebhookConfiguration res" where
  "read_ValidatingWebhook f manifest = decoded (yaml_ValidatingWebhook f manifest)"

text \<open>\<open>if x.GetNamespace() == "" { x.SetNamespace(ns) }\<close>.\<close>

definition default_namespace :: "string \<Rightarrow> 'a ObjectMeta_scheme \<Rightarrow> 'a ObjectMeta_scheme" where
  "default_namespace ns x = (if Namespace x = '''' then x\<lparr>Namespace := ns\<rparr> else x)"

definition NewDaemonSet :: "'w Factory \<Rightarrow> string \<Rightarrow> DaemonSet res" where
  "NewDaemonSet f manifest = r_bind (read_DaemonSet f manifest) (\<lambda>ds. Ok (default_namespace (fac_namespace f) ds))"

definition NewService :: "'w Factory \<Rightarrow> string \<Rightarrow> Service res" where
  "NewService f manifest = r_bind (read_Service f manifest) (\<lambda>s. Ok (default_namespace (fac_namespace f) s))"

definition NewRoute :: "'w Factory \<Rightarrow> string \<Rightarrow> Route res" where
  "NewRoute f manifest = r_bind (read_Route f manifest) (\<lambda>r. Ok (default_namespace (fac_namespace f) r))"

definition NewSecret :: "'w Factory \<Rightarrow> string \<Rightarrow> Secret res" where
  "NewSecret f manifest = r_bind (read_Secret f manifest) (\<lambda>s. Ok (default_namespace (fac_namespace f) s))"

definition NewRoleBinding :: "'w Factory \<Rightarrow> string \<Rightarrow> RoleBinding res" where
  "NewRoleBinding f manifest = r_bind (read_RoleBinding f manifest) (\<lambda>rb. Ok (default_namespace (fac_namespace f) rb))"

text \<open>
  The loops over the items of a list assign to the loop variable, a copy of the item, so that the
  list is returned as it was decoded.
\<close>

definition NewRoleList :: "'w Factory \<Rightarrow> string \<Rightarrow> Role list res" where
  "NewRoleList f manifest = read_RoleList f manifest"

definition NewRoleBindingList :: "'w Factory \<Rightarrow> string \<Rightarrow> RoleBinding list res" where
  "NewRoleBindingList f manifest = read_RoleBindingList f manifest"

definition NewConfigMapList :: "'w Factory \<Rightarrow> string \<Rightarrow> ConfigMap list res" where
  "NewConfigMapList f manifest = read_ConfigMapList f manifest"

definition NewRole :: "'w Factory \<Rightarrow> string \<Rightarrow> Role res" where
  "NewRole f manifest = r_bind (read_Role f manifest) (\<lambda>r. Ok (default_namespace (fac_namespace f) r))"

definition NewConfigMap :: "'w Factory \<Rightarrow> string \<Rightarrow> ConfigMap res" where
  "NewConfigMap f manifest = r_bind (read_ConfigMap f manifest) (\<lambda>cm. Ok (default_namespace (fac_namespace f) cm))"

definition NewServiceAccount :: "'w Factory \<Rightarrow> string \<Rightarrow> ServiceAccount res" where
  "NewServiceAccount f manifest = r_bind (read_ServiceAccount f manifest) (\<lambda>sa. Ok (default_namespace (fac_namespace f) sa))"

definition NewPrometheus :: "'w Factory \<Rightarrow> string \<Rightarrow> Prometheus res" where
  "NewPrometheus f manifest = r_bind (read_Prometheus f manifest) (\<lambda>p. Ok (default_namespace (fac_namespace f) p))"

definition NewPrometheusRule :: "'w Factory \<Rightarrow> string \<Rightarrow> PrometheusRule res" where
  "NewPrometheusRule f manifest = r_bind (read_PrometheusRule f manifest) (\<lambda>p. Ok (default_namespace (fac_namespace f) p))"

definition NewAlertmanager :: "'w Factory \<Rightarrow> string \<Rightarrow> Alertmanager res" where
  "NewAlertmanager f manifest = r_bind (read_Alertmanager f manifest) (\<lambda>a. Ok (default_namespace (fac_namespace f) a))"

definition NewThanosRuler :: "'w Factory \<Rightarrow> string \<Rightarrow> ThanosRuler res" where
  "NewThanosRuler f manifest =
     r_bind (read_ThanosRuler f manifest) (\<lambda>t. Ok (default_namespace (fac_namespaceUserWorkload f) t))"

definition NewServiceMonitor :: "'w Factory \<Rightarrow> string \<Rightarrow> ServiceMonitor res" where
  "NewServiceMonitor f manifest = r_bind (read_ServiceMonitor f manifest) (\<lambda>sm. Ok (default_namespace (fac_namespace f) sm))"

definition NewDeployment :: "'w Factory \<Rightarrow> string \<Rightarrow> Deployment res" where
  "NewDeployment f manifest = r_bind (read_Deployment f manifest) (\<lambda>d. Ok (default_namespace (fac_namespace f) d))"

definition NewAPIService :: "'w Factory \<Rightarrow> string \<Rightarrow> APIService res" where
  "NewAPIService f manifest = read_APIService f manifest"

definition NewSecurityContextConstraints :: "'w Factory \<Rightarrow> string \<Rightarrow> SecurityContextConstraints res" where
  "NewSecurityContextConstraints f manifest = read_SecurityContextConstraints f manifest"

definition NewClusterRoleBinding :: "'w Factory \<Rightarrow> string \<Rightarrow> ClusterRoleBinding res" where
  "NewClusterRoleBinding f manifest = read_ClusterRoleBinding f manifest"

definition NewClusterRole :: "'w Factory \<Rightarrow> string \<Rightarrow> ClusterRole res" where
  "NewClusterRole f manifest = read_ClusterRole f manifest"

definition NewValidatingWebhook :: "'w Factory \<Rightarrow> string \<Rightarrow> ValidatingWebhookConfiguration res" where
  "NewValidatingWebhook f manifest = read_ValidatingWebhook f manifest"

definition telemetry_rule :: "string \<Rightarrow> PrometheusRule" where
  "telemetry_rule expr = ObjectMeta.extend
     \<lparr>Name = ''telemetry'', Namespace = '''', Labels = None, Annotations = None, ResourceVersion = '''', Generation = 0\<rparr>
     \<lparr>Groups = [\<lparr>Group_Name = ''telemeter.rules'',
       Rules = [\<lparr>Record = ''cluster:telemetry_selected_series:count'', Expr = expr, Rule_rest = ''''\<rparr>]\<rparr>]\<rparr>"

definition NewTelemeterPrometheusRecRuleFromString :: "'w Factory \<Rightarrow> string \<Rightarrow> PrometheusRule res" where
  "NewTelemeterPrometheusRecRuleFromString f expr = Ok (default_namespace (fac_namespace f) (telemetry_rule expr))"

text \<open>A method: read the asset, decode it, adapt it.\<close>

definition from_asset :: "'w Factory \<Rightarrow> (string \<Rightarrow> 'a res) \<Rightarrow> string \<Rightarrow> ('a \<Rightarrow> 'b res) \<Rightarrow> ('w, 'b) prog" where
  "from_asset f new name adapt = p_bind (asset f name) (\<lambda>manifest. p_return (r_bind (new manifest) adapt))"

section \<open>Shared adaptations\<close>

text \<open>\<open>subjects[0].Namespace = ns\<close>; the code does not check that there is a subject.\<close>

fun first_subject_in :: "string \<Rightarrow> Subject list \<Rightarrow> Subject list res" where
  "first_subject_in ns [] = Panic"
| "first_subject_in ns (s # ss) = Ok (s\<lparr>Subject_Namespace := ns\<rparr> # ss)"

text \<open>\<open>endpoints[i].TLSConfig.ServerName = name\<close>, where the TLS configuration is a pointer.\<close>

definition set_ServerName :: "nat \<Rightarrow> string \<Rightarrow> Endpoint list \<Rightarrow> Endpoint list res" where
  "set_ServerName i name es = (
     if i < length es then
       r_bind (through (TLSConfig_ServerName (es ! i)) (\<lambda>_. name))
         (\<lambda>t. Ok (es[i := (es ! i)\<lparr>TLSConfig_ServerName := t\<rparr>]))
     else Panic)"

text \<open>The name of a service in the cluster's DNS.\<close>

definition svc_name :: "string \<Rightarrow> string \<Rightarrow> string" where
  "svc_name name ns = name @ ''.'' @ ns @ ''.svc''"

text \<open>
  The three adaptations that most methods consist of: the namespace of an object, of the first subject
  of a binding, and of a service monitor and the servers that it names.
\<close>

definition placed :: "string \<Rightarrow> 'a ObjectMeta_scheme \<Rightarrow> 'a ObjectMeta_scheme res" where
  "placed ns x = Ok (x\<lparr>Namespace := ns\<rparr>)"

definition bound_in :: "string \<Rightarrow> ClusterRoleBinding \<Rightarrow> ClusterRoleBinding res" where
  "bound_in ns crb = r_bind (first_subject_in ns (CRB_Subjects crb)) (\<lambda>ss. Ok (crb\<lparr>CRB_Subjects := ss\<rparr>))"

fun monitored :: "string \<Rightarrow> (nat \<times> string) list \<Rightarrow> ServiceMonitor \<Rightarrow> ServiceMonitor res" where
  "monitored ns [] sm = placed ns sm"
| "monitored ns ((i, name) # ps) sm =
     r_bind (set_ServerName i (svc_name name ns) (Endpoints sm)) (\<lambda>es. monitored ns ps (sm\<lparr>Endpoints := es\<rparr>))"

text \<open>A secret that is decoded and then gets a generated session secret.\<close>

definition session_secret :: "'w Factory \<Rightarrow> string \<Rightarrow> string \<Rightarrow> ('w, Secret) prog" where
  "session_secret f name ns =
     p_bind (from_asset f (NewSecret f) name Ok) (\<lambda>s.
     p_bind (password f 43) (\<lambda>p.
     p_return (r_bind (gm_set (Data s) ''session_secret'' p) (\<lambda>m. Ok (s\<lparr>Data := m, Namespace := ns\<rparr>)))))"

definition generateHtpasswdSecret :: "'w Factory \<Rightarrow> Secret \<Rightarrow> string \<Rightarrow> Secret res" where
  "generateHtpasswdSecret f s pw =
     r_bind (gm_set (Data s) ''auth'' (''internal:{SHA}'' @ base64_EncodeToString (sha1_Sum f pw)))
       (\<lambda>m. Ok (s\<lparr>Data := m, Namespace := fac_namespace f\<rparr>))"


text \<open>A loop that may fail on an item and replaces the items.\<close>

fun r_map :: "('a \<Rightarrow> 'b res) \<Rightarrow> 'a list \<Rightarrow> 'b list res" where
  "r_map g [] = Ok []"
| "r_map g (x # xs) = r_bind (g x) (\<lambda>y. r_bind (r_map g xs) (\<lambda>ys. Ok (y # ys)))"

section \<open>URLs\<close>

text \<open>
  \<open>URL.String\<close> of \<open>net/url\<close> for a URL with a scheme, a host and a path. Bytes outside the ones that the
  package keeps in a host or in a path are percent-encoded.
\<close>

definition unreserved :: string where
  "unreserved = ''ABCDEFGHIJKLMNOPQRSTUVWXYZabcdefghijklmnopqrstuvwxyz0123456789-_.~''"

definition host_bytes :: string where
  "host_bytes = unreserved @ ''!$&()*+,;=:[]<>'' @ [CHR 0x22, CHR 0x27]"

definition path_bytes :: string where
  "path_bytes = unreserved @ ''$&+,/:;=@''"

definition percent_encode :: "char \<Rightarrow> string" where
  "percent_encode c = (let n = of_char c :: nat; hex = ''0123456789ABCDEF''
     in [CHR ''%'', hex ! (n div 16), hex ! (n mod 16)])"

definition url_escape :: "string \<Rightarrow> string \<Rightarrow> string" where
  "url_escape kept s = concat (map (\<lambda>c. if c \<in> set kept then [c] else percent_encode c) s)"

definition EscapedPath :: "string \<Rightarrow> string" where
  "EscapedPath p = (if p = ''*'' then ''*'' else url_escape path_bytes p)"

definition URL_String :: "URL \<Rightarrow> string" where
  "URL_String u = (
     let path = EscapedPath (URL_Path u)
     in (if Scheme u \<noteq> '''' then Scheme u @ '':'' else '''')
        @ (if (Scheme u \<noteq> '''' \<or> URL_Host u \<noteq> '''') \<and> (URL_Host u \<noteq> '''' \<or> URL_Path u \<noteq> '''') then ''//'' else '''')
        @ url_escape host_bytes (URL_Host u)
        @ (if path \<noteq> '''' \<and> hd path \<noteq> CHR ''/'' \<and> URL_Host u \<noteq> '''' then ''/'' else '''')
        @ path)"

definition PrometheusExternalURL :: "string \<Rightarrow> URL" where
  "PrometheusExternalURL host = \<lparr>Scheme = ''https'', URL_Host = host, URL_Path = ''/''\<rparr>"

definition AlertmanagerExternalURL :: "string \<Rightarrow> URL" where
  "AlertmanagerExternalURL host = \<lparr>Scheme = ''https'', URL_Host = host, URL_Path = ''/''\<rparr>"

end
