(* ===== verification/Factory_Objects.thy ===== *)
theory Factory_Objects
  imports Factory_Base
begin

text \<open>
  The methods of the factory that read one manifest and adapt its namespace: services, service
  accounts, roles and their bindings, service monitors, secrets, config maps and routes, and the lists
  of such objects, in the order of \<open>pkg/manifests/manifests.go\<close>. A method reads its asset (and panics if
  it cannot), decodes it, and adapts it; the deployments and custom resources are in
  \<open>Factory_Workloads\<close>.
\<close>

section \<open>Alertmanager\<close>

definition AlertmanagerConfig :: "'w Factory \<Rightarrow> ('w, Secret) prog" where
  "AlertmanagerConfig f = from_asset f (NewSecret f) ''alertmanager/secret.yaml'' (placed (fac_namespace f))"

definition AlertmanagerProxySecret :: "'w Factory \<Rightarrow> ('w, Secret) prog" where
  "AlertmanagerProxySecret f = session_secret f ''alertmanager/proxy-secret.yaml'' (fac_namespace f)"

definition AlertmanagerService :: "'w Factory \<Rightarrow> ('w, Service) prog" where
  "AlertmanagerService f = from_asset f (NewService f) ''alertmanager/service.yaml'' (placed (fac_namespace f))"

definition AlertmanagerServiceAccount :: "'w Factory \<Rightarrow> ('w, ServiceAccount) prog" where
  "AlertmanagerServiceAccount f = from_asset f (NewServiceAccount f) ''alertmanager/service-account.yaml''
     (placed (fac_namespace f))"

definition AlertmanagerClusterRoleBinding :: "'w Factory \<Rightarrow> ('w, ClusterRoleBinding) prog" where
  "AlertmanagerClusterRoleBinding f =
     from_asset f (NewClusterRoleBinding f) ''alertmanager/cluster-role-binding.yaml'' (bound_in (fac_namespace f))"

definition AlertmanagerClusterRole :: "'w Factory \<Rightarrow> ('w, ClusterRole) prog" where
  "AlertmanagerClusterRole f = from_asset f (NewClusterRole f) ''alertmanager/cluster-role.yaml'' Ok"

definition AlertmanagerServiceMonitor :: "'w Factory \<Rightarrow> ('w, ServiceMonitor) prog" where
  "AlertmanagerServiceMonitor f = from_asset f (NewServiceMonitor f) ''alertmanager/service-monitor.yaml''
     (monitored (fac_namespace f) [(0, ''alertmanager-main'')])"

definition AlertmanagerTrustedCABundle :: "'w Factory \<Rightarrow> ('w, ConfigMap) prog" where
  "AlertmanagerTrustedCABundle f = from_asset f (NewConfigMap f) ''alertmanager/trusted-ca-bundle.yaml'' Ok"

definition AlertmanagerRBACProxySecret :: "'w Factory \<Rightarrow> ('w, Secret) prog" where
  "AlertmanagerRBACProxySecret f = from_asset f (NewSecret f) ''alertmanager/kube-rbac-proxy-secret.yaml''
     (placed (fac_namespace f))"

definition AlertmanagerRoute :: "'w Factory \<Rightarrow> ('w, Route) prog" where
  "AlertmanagerRoute f = from_asset f (NewRoute f) ''alertmanager/route.yaml'' (placed (fac_namespace f))"

section \<open>Exporters\<close>

definition KubeStateMetricsClusterRoleBinding :: "'w Factory \<Rightarrow> ('w, ClusterRoleBinding) prog" where
  "KubeStateMetricsClusterRoleBinding f =
     from_asset f (NewClusterRoleBinding f) ''kube-state-metrics/cluster-role-binding.yaml''
       (bound_in (fac_namespace f))"

definition KubeStateMetricsClusterRole :: "'w Factory \<Rightarrow> ('w, ClusterRole) prog" where
  "KubeStateMetricsClusterRole f = from_asset f (NewClusterRole f) ''kube-state-metrics/cluster-role.yaml'' Ok"

definition KubeStateMetricsServiceMonitor :: "'w Factory \<Rightarrow> ('w, ServiceMonitor) prog" where
  "KubeStateMetricsServiceMonitor f =
     from_asset f (NewServiceMonitor f) ''kube-state-metrics/service-monitor.yaml''
       (monitored (fac_namespace f) [(0, ''kube-state-metrics''), (1, ''kube-state-metrics'')])"

definition KubeStateMetricsServiceAccount :: "'w Factory \<Rightarrow> ('w, ServiceAccount) prog" where
  "KubeStateMetricsServiceAccount f =
     from_asset f (NewServiceAccount f) ''kube-state-metrics/service-account.yaml'' (placed (fac_namespace f))"

definition KubeStateMetricsService :: "'w Factory \<Rightarrow> ('w, Service) prog" where
  "KubeStateMetricsService f = from_asset f (NewService f) ''kube-state-metrics/service.yaml''
     (placed (fac_namespace f))"

definition OpenShiftStateMetricsClusterRoleBinding :: "'w Factory \<Rightarrow> ('w, ClusterRoleBinding) prog" where
  "OpenShiftStateMetricsClusterRoleBinding f =
     from_asset f (NewClusterRoleBinding f) ''openshift-state-metrics/cluster-role-binding.yaml''
       (bound_in (fac_namespace f))"

definition OpenShiftStateMetricsClusterRole :: "'w Factory \<Rightarrow> ('w, ClusterRole) prog" where
  "OpenShiftStateMetricsClusterRole f =
     from_asset f (NewClusterRole f) ''openshift-state-metrics/cluster-role.yaml'' Ok"

definition OpenShiftStateMetricsServiceMonitor :: "'w Factory \<Rightarrow> ('w, ServiceMonitor) prog" where
  "OpenShiftStateMetricsServiceMonitor f =
     from_asset f (NewServiceMonitor f) ''openshift-state-metrics/service-monitor.yaml''
       (monitored (fac_namespace f) [(0, ''openshift-state-metrics''), (1, ''openshift-state-metrics'')])"

definition OpenShiftStateMetricsServiceAccount :: "'w Factory \<Rightarrow> ('w, ServiceAccount) prog" where
  "OpenShiftStateMetricsServiceAccount f =
     from_asset f (NewServiceAccount f) ''openshift-state-metrics/service-account.yaml'' (placed (fac_namespace f))"

definition OpenShiftStateMetricsService :: "'w Factory \<Rightarrow> ('w, Service) prog" where
  "OpenShiftStateMetricsService f = from_asset f (NewService f) ''openshift-state-metrics/service.yaml''
     (placed (fac_namespace f))"

definition NodeExporterServiceMonitor :: "'w Factory \<Rightarrow> ('w, ServiceMonitor) prog" where
  "NodeExporterServiceMonitor f = from_asset f (NewServiceMonitor f) ''node-exporter/service-monitor.yaml''
     (monitored (fac_namespace f) [(0, ''node-exporter'')])"

definition NodeExporterService :: "'w Factory \<Rightarrow> ('w, Service) prog" where
  "NodeExporterService f = from_asset f (NewService f) ''node-exporter/service.yaml'' (placed (fac_namespace f))"

definition NodeExporterSecurityContextConstraints :: "'w Factory \<Rightarrow> ('w, SecurityContextConstraints) prog" where
  "NodeExporterSecurityContextConstraints f =
     from_asset f (NewSecurityContextConstraints f) ''node-exporter/security-context-constraints.yaml'' Ok"

definition NodeExporterServiceAccount :: "'w Factory \<Rightarrow> ('w, ServiceAccount) prog" where
  "NodeExporterServiceAccount f = from_asset f (NewServiceAccount f) ''node-exporter/service-account.yaml''
     (placed (fac_namespace f))"

definition NodeExporterClusterRoleBinding :: "'w Factory \<Rightarrow> ('w, ClusterRoleBinding) prog" where
  "NodeExporterClusterRoleBinding f =
     from_asset f (NewClusterRoleBinding f) ''node-exporter/cluster-role-binding.yaml'' (bound_in (fac_namespace f))"

definition NodeExporterClusterRole :: "'w Factory \<Rightarrow> ('w, ClusterRole) prog" where
  "NodeExporterClusterRole f = from_asset f (NewClusterRole f) ''node-exporter/cluster-role.yaml'' Ok"

section \<open>Prometheus and the Thanos querier\<close>

definition PrometheusK8sClusterRoleBinding :: "'w Factory \<Rightarrow> ('w, ClusterRoleBinding) prog" where
  "PrometheusK8sClusterRoleBinding f =
     from_asset f (NewClusterRoleBinding f) ''prometheus-k8s/cluster-role-binding.yaml'' (bound_in (fac_namespace f))"

definition ThanosQuerierClusterRoleBinding :: "'w Factory \<Rightarrow> ('w, ClusterRoleBinding) prog" where
  "ThanosQuerierClusterRoleBinding f =
     from_asset f (NewClusterRoleBinding f) ''thanos-querier/cluster-role-binding.yaml'' (bound_in (fac_namespace f))"

definition PrometheusUserWorkloadClusterRoleBinding :: "'w Factory \<Rightarrow> ('w, ClusterRoleBinding) prog" where
  "PrometheusUserWorkloadClusterRoleBinding f =
     from_asset f (NewClusterRoleBinding f) ''prometheus-user-workload/cluster-role-binding.yaml''
       (bound_in (fac_namespaceUserWorkload f))"

definition PrometheusK8sClusterRole :: "'w Factory \<Rightarrow> ('w, ClusterRole) prog" where
  "PrometheusK8sClusterRole f = from_asset f (NewClusterRole f) ''prometheus-k8s/cluster-role.yaml'' Ok"

definition ThanosQuerierClusterRole :: "'w Factory \<Rightarrow> ('w, ClusterRole) prog" where
  "ThanosQuerierClusterRole f = from_asset f (NewClusterRole f) ''thanos-querier/cluster-role.yaml'' Ok"

definition PrometheusUserWorkloadClusterRole :: "'w Factory \<Rightarrow> ('w, ClusterRole) prog" where
  "PrometheusUserWorkloadClusterRole f =
     from_asset f (NewClusterRole f) ''prometheus-user-workload/cluster-role.yaml'' Ok"

definition PrometheusK8sRoleConfig :: "'w Factory \<Rightarrow> ('w, Role) prog" where
  "PrometheusK8sRoleConfig f = from_asset f (NewRole f) ''prometheus-k8s/role-config.yaml''
     (placed (fac_namespace f))"

definition PrometheusUserWorkloadRoleConfig :: "'w Factory \<Rightarrow> ('w, Role) prog" where
  "PrometheusUserWorkloadRoleConfig f = from_asset f (NewRole f) ''prometheus-user-workload/role-config.yaml''
     (placed (fac_namespaceUserWorkload f))"

definition PrometheusK8sRoleBindingConfig :: "'w Factory \<Rightarrow> ('w, RoleBinding) prog" where
  "PrometheusK8sRoleBindingConfig f =
     from_asset f (NewRoleBinding f) ''prometheus-k8s/role-binding-config.yaml'' (placed (fac_namespace f))"

definition PrometheusUserWorkloadRoleBindingConfig :: "'w Factory \<Rightarrow> ('w, RoleBinding) prog" where
  "PrometheusUserWorkloadRoleBindingConfig f =
     from_asset f (NewRoleBinding f) ''prometheus-user-workload/role-binding-config.yaml''
       (placed (fac_namespaceUserWorkload f))"

definition PrometheusK8sServiceAccount :: "'w Factory \<Rightarrow> ('w, ServiceAccount) prog" where
  "PrometheusK8sServiceAccount f = from_asset f (NewServiceAccount f) ''prometheus-k8s/service-account.yaml''
     (placed (fac_namespace f))"

definition ThanosQuerierServiceAccount :: "'w Factory \<Rightarrow> ('w, ServiceAccount) prog" where
  "ThanosQuerierServiceAccount f = from_asset f (NewServiceAccount f) ''thanos-querier/service-account.yaml''
     (placed (fac_namespace f))"

definition PrometheusUserWorkloadServiceAccount :: "'w Factory \<Rightarrow> ('w, ServiceAccount) prog" where
  "PrometheusUserWorkloadServiceAccount f =
     from_asset f (NewServiceAccount f) ''prometheus-user-workload/service-account.yaml''
       (placed (fac_namespaceUserWorkload f))"

definition PrometheusK8sProxySecret :: "'w Factory \<Rightarrow> ('w, Secret) prog" where
  "PrometheusK8sProxySecret f = session_secret f ''prometheus-k8s/proxy-secret.yaml'' (fac_namespace f)"

definition PrometheusK8sGrpcTLSSecret :: "'w Factory \<Rightarrow> ('w, Secret) prog" where
  "PrometheusK8sGrpcTLSSecret f = from_asset f (NewSecret f) ''prometheus-k8s/grpc-tls-secret.yaml''
     (placed (fac_namespace f))"

definition PrometheusUserWorkloadGrpcTLSSecret :: "'w Factory \<Rightarrow> ('w, Secret) prog" where
  "PrometheusUserWorkloadGrpcTLSSecret f =
     from_asset f (NewSecret f) ''prometheus-user-workload/grpc-tls-secret.yaml''
       (placed (fac_namespaceUserWorkload f))"

definition ThanosQuerierGrpcTLSSecret :: "'w Factory \<Rightarrow> ('w, Secret) prog" where
  "ThanosQuerierGrpcTLSSecret f = from_asset f (NewSecret f) ''thanos-querier/grpc-tls-secret.yaml''
     (placed (fac_namespace f))"

definition ThanosQuerierOauthCookieSecret :: "'w Factory \<Rightarrow> ('w, Secret) prog" where
  "ThanosQuerierOauthCookieSecret f = session_secret f ''thanos-querier/oauth-cookie-secret.yaml'' (fac_namespace f)"

definition PrometheusK8sHtpasswdSecret :: "'w Factory \<Rightarrow> string \<Rightarrow> ('w, Secret) prog" where
  "PrometheusK8sHtpasswdSecret f pw = from_asset f (NewSecret f) ''prometheus-k8s/htpasswd-secret.yaml''
     (\<lambda>s. generateHtpasswdSecret f s pw)"

definition ThanosQuerierHtpasswdSecret :: "'w Factory \<Rightarrow> string \<Rightarrow> ('w, Secret) prog" where
  "ThanosQuerierHtpasswdSecret f pw = from_asset f (NewSecret f) ''thanos-querier/oauth-htpasswd-secret.yaml''
     (\<lambda>s. generateHtpasswdSecret f s pw)"

definition ThanosRulerHtpasswdSecret :: "'w Factory \<Rightarrow> string \<Rightarrow> ('w, Secret) prog" where
  "ThanosRulerHtpasswdSecret f pw = from_asset f (NewSecret f) ''thanos-ruler/oauth-htpasswd-secret.yaml'' (\<lambda>s.
     r_bind (generateHtpasswdSecret f s pw) (\<lambda>s. Ok (s\<lparr>Namespace := fac_namespaceUserWorkload f\<rparr>)))"

definition ThanosRulerQueryConfigSecret :: "'w Factory \<Rightarrow> ('w, Secret) prog" where
  "ThanosRulerQueryConfigSecret f = from_asset f (NewSecret f) ''thanos-ruler/query-config-secret.yaml''
     (placed (fac_namespaceUserWorkload f))"

definition ThanosRulerAlertmanagerConfigSecret :: "'w Factory \<Rightarrow> ('w, Secret) prog" where
  "ThanosRulerAlertmanagerConfigSecret f =
     from_asset f (NewSecret f) ''thanos-ruler/alertmanagers-config-secret.yaml''
       (placed (fac_namespaceUserWorkload f))"

definition PrometheusRBACProxySecret :: "'w Factory \<Rightarrow> ('w, Secret) prog" where
  "PrometheusRBACProxySecret f = from_asset f (NewSecret f) ''prometheus-k8s/kube-rbac-proxy-secret.yaml''
     (placed (fac_namespace f))"

definition ThanosQuerierRBACProxySecret :: "'w Factory \<Rightarrow> ('w, Secret) prog" where
  "ThanosQuerierRBACProxySecret f = from_asset f (NewSecret f) ''thanos-querier/kube-rbac-proxy-secret.yaml''
     (placed (fac_namespace f))"

definition ThanosQuerierRBACProxyRulesSecret :: "'w Factory \<Rightarrow> ('w, Secret) prog" where
  "ThanosQuerierRBACProxyRulesSecret f =
     from_asset f (NewSecret f) ''thanos-querier/kube-rbac-proxy-rules-secret.yaml'' (placed (fac_namespace f))"

definition PrometheusK8sServingCertsCABundle :: "'w Factory \<Rightarrow> ('w, ConfigMap) prog" where
  "PrometheusK8sServingCertsCABundle f =
     from_asset f (NewConfigMap f) ''prometheus-k8s/serving-certs-ca-bundle.yaml'' (placed (fac_namespace f))"

definition PrometheusUserWorkloadServingCertsCABundle :: "'w Factory \<Rightarrow> ('w, ConfigMap) prog" where
  "PrometheusUserWorkloadServingCertsCABundle f =
     from_asset f (NewConfigMap f) ''prometheus-user-workload/serving-certs-ca-bundle.yaml''
       (placed (fac_namespaceUserWorkload f))"

definition PrometheusK8sKubeletServingCABundle :: "'w Factory \<Rightarrow> string gomap \<Rightarrow> ('w, ConfigMap) prog" where
  "PrometheusK8sKubeletServingCABundle f m =
     from_asset f (NewConfigMap f) ''prometheus-k8s/kubelet-serving-ca-bundle.yaml''
       (\<lambda>cm. Ok (cm\<lparr>Namespace := fac_namespace f, CM_Data := m\<rparr>))"

definition PrometheusOperatorCertsCABundle :: "'w Factory \<Rightarrow> ('w, ConfigMap) prog" where
  "PrometheusOperatorCertsCABundle f =
     from_asset f (NewConfigMap f) ''prometheus-operator/operator-certs-ca-bundle.yaml'' (placed (fac_namespace f))"

definition PrometheusK8sEtcdServiceMonitor :: "'w Factory \<Rightarrow> ('w, ServiceMonitor) prog" where
  "PrometheusK8sEtcdServiceMonitor f =
     from_asset f (NewServiceMonitor f) ''prometheus-k8s/service-monitor-etcd.yaml'' (placed (fac_namespace f))"

definition PrometheusK8sThanosSidecarServiceMonitor :: "'w Factory \<Rightarrow> ('w, ServiceMonitor) prog" where
  "PrometheusK8sThanosSidecarServiceMonitor f =
     from_asset f (NewServiceMonitor f) ''prometheus-k8s/service-monitor-thanos-sidecar.yaml''
       (monitored (fac_namespace f) [(0, ''prometheus-k8s-thanos-sidecar'')])"

definition PrometheusK8sRoute :: "'w Factory \<Rightarrow> ('w, Route) prog" where
  "PrometheusK8sRoute f = from_asset f (NewRoute f) ''prometheus-k8s/route.yaml'' (placed (fac_namespace f))"

definition ThanosQuerierRoute :: "'w Factory \<Rightarrow> ('w, Route) prog" where
  "ThanosQuerierRoute f = from_asset f (NewRoute f) ''thanos-querier/route.yaml'' (placed (fac_namespace f))"

definition PrometheusK8sTrustedCABundle :: "'w Factory \<Rightarrow> ('w, ConfigMap) prog" where
  "PrometheusK8sTrustedCABundle f = from_asset f (NewConfigMap f) ''prometheus-k8s/trusted-ca-bundle.yaml'' Ok"

definition PrometheusK8sKubeletServiceMonitor :: "'w Factory \<Rightarrow> ('w, ServiceMonitor) prog" where
  "PrometheusK8sKubeletServiceMonitor f =
     from_asset f (NewServiceMonitor f) ''prometheus-k8s/service-monitor-kubelet.yaml'' (placed (fac_namespace f))"

definition PrometheusK8sPrometheusServiceMonitor :: "'w Factory \<Rightarrow> ('w, ServiceMonitor) prog" where
  "PrometheusK8sPrometheusServiceMonitor f =
     from_asset f (NewServiceMonitor f) ''prometheus-k8s/service-monitor.yaml''
       (monitored (fac_namespace f) [(0, ''prometheus-k8s'')])"

definition PrometheusUserWorkloadPrometheusServiceMonitor :: "'w Factory \<Rightarrow> ('w, ServiceMonitor) prog" where
  "PrometheusUserWorkloadPrometheusServiceMonitor f =
     from_asset f (NewServiceMonitor f) ''prometheus-user-workload/service-monitor.yaml''
       (monitored (fac_namespaceUserWorkload f) [(0, ''prometheus-user-workload'')])"

section \<open>Prometheus adapter\<close>

definition PrometheusAdapterClusterRole :: "'w Factory \<Rightarrow> ('w, ClusterRole) prog" where
  "PrometheusAdapterClusterRole f = from_asset f (NewClusterRole f) ''prometheus-adapter/cluster-role.yaml'' Ok"

definition PrometheusAdapterClusterRoleServerResources :: "'w Factory \<Rightarrow> ('w, ClusterRole) prog" where
  "PrometheusAdapterClusterRoleServerResources f =
     from_asset f (NewClusterRole f) ''prometheus-adapter/cluster-role-server-resources.yaml'' Ok"

definition PrometheusAdapterClusterRoleAggregatedMetricsReader :: "'w Factory \<Rightarrow> ('w, ClusterRole) prog" where
  "PrometheusAdapterClusterRoleAggregatedMetricsReader f =
     from_asset f (NewClusterRole f) ''prometheus-adapter/cluster-role-aggregated-metrics-reader.yaml'' Ok"

definition PrometheusAdapterClusterRoleBinding :: "'w Factory \<Rightarrow> ('w, ClusterRoleBinding) prog" where
  "PrometheusAdapterClusterRoleBinding f =
     from_asset f (NewClusterRoleBinding f) ''prometheus-adapter/cluster-role-binding.yaml''
       (bound_in (fac_namespace f))"

definition PrometheusAdapterClusterRoleBindingDelegator :: "'w Factory \<Rightarrow> ('w, ClusterRoleBinding) prog" where
  "PrometheusAdapterClusterRoleBindingDelegator f =
     from_asset f (NewClusterRoleBinding f) ''prometheus-adapter/cluster-role-binding-delegator.yaml''
       (bound_in (fac_namespace f))"

definition PrometheusAdapterClusterRoleBindingView :: "'w Factory \<Rightarrow> ('w, ClusterRoleBinding) prog" where
  "PrometheusAdapterClusterRoleBindingView f =
     from_asset f (NewClusterRoleBinding f) ''prometheus-adapter/cluster-role-binding-view.yaml''
       (bound_in (fac_namespace f))"

definition PrometheusAdapterRoleBindingAuthReader :: "'w Factory \<Rightarrow> ('w, RoleBinding) prog" where
  "PrometheusAdapterRoleBindingAuthReader f =
     from_asset f (NewRoleBinding f) ''prometheus-adapter/role-binding-auth-reader.yaml''
       (\<lambda>rb.
     r_bind (first_subject_in (fac_namespace f) (Subjects rb)) (\<lambda>ss. Ok (rb\<lparr>Subjects := ss\<rparr>)))"

definition PrometheusAdapterServiceAccount :: "'w Factory \<Rightarrow> ('w, ServiceAccount) prog" where
  "PrometheusAdapterServiceAccount f =
     from_asset f (NewServiceAccount f) ''prometheus-adapter/service-account.yaml'' (placed (fac_namespace f))"

definition PrometheusAdapterConfigMap :: "'w Factory \<Rightarrow> ('w, ConfigMap) prog" where
  "PrometheusAdapterConfigMap f = from_asset f (NewConfigMap f) ''prometheus-adapter/config-map.yaml''
     (placed (fac_namespace f))"

definition PrometheusAdapterConfigMapPrometheus :: "'w Factory \<Rightarrow> ('w, ConfigMap) prog" where
  "PrometheusAdapterConfigMapPrometheus f =
     from_asset f (NewConfigMap f) ''prometheus-adapter/configmap-prometheus.yaml'' (placed (fac_namespace f))"

definition PrometheusAdapterService :: "'w Factory \<Rightarrow> ('w, Service) prog" where
  "PrometheusAdapterService f = from_asset f (NewService f) ''prometheus-adapter/service.yaml''
     (placed (fac_namespace f))"

definition PrometheusAdapterServiceMonitor :: "'w Factory \<Rightarrow> ('w, ServiceMonitor) prog" where
  "PrometheusAdapterServiceMonitor f =
     from_asset f (NewServiceMonitor f) ''prometheus-adapter/service-monitor.yaml''
       (monitored (fac_namespace f) [(0, ''prometheus-adapter'')])"

definition PrometheusAdapterAPIService :: "'w Factory \<Rightarrow> ('w, APIService) prog" where
  "PrometheusAdapterAPIService f = from_asset f (NewAPIService f) ''prometheus-adapter/api-service.yaml'' Ok"

section \<open>Prometheus operator\<close>

definition PrometheusOperatorServiceMonitor :: "'w Factory \<Rightarrow> ('w, ServiceMonitor) prog" where
  "PrometheusOperatorServiceMonitor f =
     from_asset f (NewServiceMonitor f) ''prometheus-operator/service-monitor.yaml''
       (monitored (fac_namespace f) [(0, ''prometheus-operator'')])"

definition PrometheusOperatorUserWorkloadServiceMonitor :: "'w Factory \<Rightarrow> ('w, ServiceMonitor) prog" where
  "PrometheusOperatorUserWorkloadServiceMonitor f =
     from_asset f (NewServiceMonitor f) ''prometheus-operator-user-workload/service-monitor.yaml''
       (monitored (fac_namespaceUserWorkload f) [(0, ''prometheus-operator'')])"

definition PrometheusUserWorkloadThanosSidecarServiceMonitor :: "'w Factory \<Rightarrow> ('w, ServiceMonitor) prog" where
  "PrometheusUserWorkloadThanosSidecarServiceMonitor f =
     from_asset f (NewServiceMonitor f) ''prometheus-user-workload/service-monitor-thanos-sidecar.yaml''
       (monitored (fac_namespaceUserWorkload f) [(0, ''prometheus-user-workload-thanos-sidecar'')])"

definition PrometheusOperatorClusterRoleBinding :: "'w Factory \<Rightarrow> ('w, ClusterRoleBinding) prog" where
  "PrometheusOperatorClusterRoleBinding f =
     from_asset f (NewClusterRoleBinding f) ''prometheus-operator/cluster-role-binding.yaml''
       (bound_in (fac_namespace f))"

definition PrometheusOperatorUserWorkloadClusterRoleBinding :: "'w Factory \<Rightarrow> ('w, ClusterRoleBinding) prog" where
  "PrometheusOperatorUserWorkloadClusterRoleBinding f =
     from_asset f (NewClusterRoleBinding f) ''prometheus-operator-user-workload/cluster-role-binding.yaml''
       (bound_in (fac_namespaceUserWorkload f))"

definition PrometheusOperatorClusterRole :: "'w Factory \<Rightarrow> ('w, ClusterRole) prog" where
  "PrometheusOperatorClusterRole f = from_asset f (NewClusterRole f) ''prometheus-operator/cluster-role.yaml''
     Ok"

definition PrometheusOperatorUserWorkloadClusterRole :: "'w Factory \<Rightarrow> ('w, ClusterRole) prog" where
  "PrometheusOperatorUserWorkloadClusterRole f =
     from_asset f (NewClusterRole f) ''prometheus-operator-user-workload/cluster-role.yaml'' Ok"

definition PrometheusOperatorServiceAccount :: "'w Factory \<Rightarrow> ('w, ServiceAccount) prog" where
  "PrometheusOperatorServiceAccount f =
     from_asset f (NewServiceAccount f) ''prometheus-operator/service-account.yaml'' (placed (fac_namespace f))"

definition PrometheusOperatorUserWorkloadServiceAccount :: "'w Factory \<Rightarrow> ('w, ServiceAccount) prog" where
  "PrometheusOperatorUserWorkloadServiceAccount f =
     from_asset f (NewServiceAccount f) ''prometheus-operator-user-workload/service-account.yaml''
       (placed (fac_namespaceUserWorkload f))"

definition PrometheusRuleValidatingWebhook :: "'w Factory \<Rightarrow> ('w, ValidatingWebhookConfiguration) prog" where
  "PrometheusRuleValidatingWebhook f =
     from_asset f (NewValidatingWebhook f) ''prometheus-operator/prometheus-rule-validating-webhook.yaml'' Ok"

definition PrometheusOperatorService :: "'w Factory \<Rightarrow> ('w, Service) prog" where
  "PrometheusOperatorService f = from_asset f (NewService f) ''prometheus-operator/service.yaml''
     (placed (fac_namespace f))"

definition PrometheusOperatorUserWorkloadService :: "'w Factory \<Rightarrow> ('w, Service) prog" where
  "PrometheusOperatorUserWorkloadService f =
     from_asset f (NewService f) ''prometheus-operator-user-workload/service.yaml''
       (placed (fac_namespaceUserWorkload f))"

definition PrometheusK8sService :: "'w Factory \<Rightarrow> ('w, Service) prog" where
  "PrometheusK8sService f = from_asset f (NewService f) ''prometheus-k8s/service.yaml''
     (placed (fac_namespace f))"

definition PrometheusK8sServiceThanosSidecar :: "'w Factory \<Rightarrow> ('w, Service) prog" where
  "PrometheusK8sServiceThanosSidecar f =
     from_asset f (NewService f) ''prometheus-k8s/service-thanos-sidecar.yaml'' (placed (fac_namespace f))"

definition PrometheusUserWorkloadService :: "'w Factory \<Rightarrow> ('w, Service) prog" where
  "PrometheusUserWorkloadService f = from_asset f (NewService f) ''prometheus-user-workload/service.yaml''
     (placed (fac_namespaceUserWorkload f))"

definition PrometheusUserWorkloadServiceThanosSidecar :: "'w Factory \<Rightarrow> ('w, Service) prog" where
  "PrometheusUserWorkloadServiceThanosSidecar f =
     from_asset f (NewService f) ''prometheus-user-workload/service-thanos-sidecar.yaml''
       (placed (fac_namespaceUserWorkload f))"

section \<open>Grafana\<close>

definition GrafanaClusterRoleBinding :: "'w Factory \<Rightarrow> ('w, ClusterRoleBinding) prog" where
  "GrafanaClusterRoleBinding f = from_asset f (NewClusterRoleBinding f) ''grafana/cluster-role-binding.yaml''
     (bound_in (fac_namespace f))"

definition GrafanaClusterRole :: "'w Factory \<Rightarrow> ('w, ClusterRole) prog" where
  "GrafanaClusterRole f = from_asset f (NewClusterRole f) ''grafana/cluster-role.yaml'' Ok"

definition GrafanaConfig_secret :: "'w Factory \<Rightarrow> ('w, Secret) prog" where
  "GrafanaConfig_secret f = from_asset f (NewSecret f) ''grafana/config.yaml'' (placed (fac_namespace f))"

definition GrafanaDashboardSources :: "'w Factory \<Rightarrow> ('w, ConfigMap) prog" where
  "GrafanaDashboardSources f = from_asset f (NewConfigMap f) ''grafana/dashboard-sources.yaml''
     (placed (fac_namespace f))"

definition GrafanaTrustedCABundle :: "'w Factory \<Rightarrow> ('w, ConfigMap) prog" where
  "GrafanaTrustedCABundle f = from_asset f (NewConfigMap f) ''grafana/trusted-ca-bundle.yaml'' Ok"

definition GrafanaProxySecret :: "'w Factory \<Rightarrow> ('w, Secret) prog" where
  "GrafanaProxySecret f = session_secret f ''grafana/proxy-secret.yaml'' (fac_namespace f)"

definition GrafanaRoute :: "'w Factory \<Rightarrow> ('w, Route) prog" where
  "GrafanaRoute f = from_asset f (NewRoute f) ''grafana/route.yaml'' (placed (fac_namespace f))"

definition GrafanaServiceAccount :: "'w Factory \<Rightarrow> ('w, ServiceAccount) prog" where
  "GrafanaServiceAccount f = from_asset f (NewServiceAccount f) ''grafana/service-account.yaml''
     (placed (fac_namespace f))"

definition GrafanaService :: "'w Factory \<Rightarrow> ('w, Service) prog" where
  "GrafanaService f = from_asset f (NewService f) ''grafana/service.yaml'' (placed (fac_namespace f))"

definition GrafanaServiceMonitor :: "'w Factory \<Rightarrow> ('w, ServiceMonitor) prog" where
  "GrafanaServiceMonitor f = from_asset f (NewServiceMonitor f) ''grafana/service-monitor.yaml''
     (monitored (fac_namespace f) [(0, ''grafana'')])"

section \<open>Cluster monitoring operator\<close>

definition ClusterMonitoringClusterRole :: "'w Factory \<Rightarrow> ('w, ClusterRole) prog" where
  "ClusterMonitoringClusterRole f =
     from_asset f (NewClusterRole f) ''cluster-monitoring-operator/cluster-role.yaml'' Ok"

definition ClusterMonitoringRulesEditClusterRole :: "'w Factory \<Rightarrow> ('w, ClusterRole) prog" where
  "ClusterMonitoringRulesEditClusterRole f =
     from_asset f (NewClusterRole f) ''cluster-monitoring-operator/monitoring-rules-edit-cluster-role.yaml'' Ok"

definition ClusterMonitoringRulesViewClusterRole :: "'w Factory \<Rightarrow> ('w, ClusterRole) prog" where
  "ClusterMonitoringRulesViewClusterRole f =
     from_asset f (NewClusterRole f) ''cluster-monitoring-operator/monitoring-rules-view-cluster-role.yaml'' Ok"

definition ClusterMonitoringEditClusterRole :: "'w Factory \<Rightarrow> ('w, ClusterRole) prog" where
  "ClusterMonitoringEditClusterRole f =
     from_asset f (NewClusterRole f) ''cluster-monitoring-operator/monitoring-edit-cluster-role.yaml'' Ok"

definition ClusterMonitoringEditUserWorkloadConfigRole :: "'w Factory \<Rightarrow> ('w, Role) prog" where
  "ClusterMonitoringEditUserWorkloadConfigRole f =
     from_asset f (NewRole f) ''cluster-monitoring-operator/user-workload-config-edit-role.yaml'' Ok"

definition ClusterMonitoringOperatorService :: "'w Factory \<Rightarrow> ('w, Service) prog" where
  "ClusterMonitoringOperatorService f = from_asset f (NewService f) ''cluster-monitoring-operator/service.yaml''
     (placed (fac_namespace f))"

definition ClusterMonitoringOperatorServiceMonitor :: "'w Factory \<Rightarrow> ('w, ServiceMonitor) prog" where
  "ClusterMonitoringOperatorServiceMonitor f =
     from_asset f (NewServiceMonitor f) ''cluster-monitoring-operator/service-monitor.yaml''
       (monitored (fac_namespace f) [(0, ''cluster-monitoring-operator'')])"

section \<open>Thanos querier, telemeter client and Thanos ruler\<close>

definition ThanosQuerierTrustedCABundle :: "'w Factory \<Rightarrow> ('w, ConfigMap) prog" where
  "ThanosQuerierTrustedCABundle f = from_asset f (NewConfigMap f) ''thanos-querier/trusted-ca-bundle.yaml'' Ok"

definition ThanosQuerierService :: "'w Factory \<Rightarrow> ('w, Service) prog" where
  "ThanosQuerierService f = from_asset f (NewService f) ''thanos-querier/service.yaml''
     (placed (fac_namespace f))"

definition ThanosQuerierPrometheusRule :: "'w Factory \<Rightarrow> ('w, PrometheusRule) prog" where
  "ThanosQuerierPrometheusRule f = from_asset f (NewPrometheusRule f) ''thanos-querier/prometheus-rule.yaml'' Ok"

definition TelemeterTrustedCABundle :: "'w Factory \<Rightarrow> ('w, ConfigMap) prog" where
  "TelemeterTrustedCABundle f = from_asset f (NewConfigMap f) ''telemeter-client/trusted-ca-bundle.yaml'' Ok"

definition TelemeterClientServingCertsCABundle :: "'w Factory \<Rightarrow> ('w, ConfigMap) prog" where
  "TelemeterClientServingCertsCABundle f =
     from_asset f (NewConfigMap f) ''telemeter-client/serving-certs-ca-bundle.yaml'' (placed (fac_namespace f))"

definition TelemeterClientClusterRole :: "'w Factory \<Rightarrow> ('w, ClusterRole) prog" where
  "TelemeterClientClusterRole f = from_asset f (NewClusterRole f) ''telemeter-client/cluster-role.yaml'' Ok"

definition TelemeterClientClusterRoleBinding :: "'w Factory \<Rightarrow> ('w, ClusterRoleBinding) prog" where
  "TelemeterClientClusterRoleBinding f =
     from_asset f (NewClusterRoleBinding f) ''telemeter-client/cluster-role-binding.yaml'' Ok"

definition TelemeterClientClusterRoleBindingView :: "'w Factory \<Rightarrow> ('w, ClusterRoleBinding) prog" where
  "TelemeterClientClusterRoleBindingView f =
     from_asset f (NewClusterRoleBinding f) ''telemeter-client/cluster-role-binding-view.yaml'' Ok"

definition TelemeterClientServiceMonitor :: "'w Factory \<Rightarrow> ('w, ServiceMonitor) prog" where
  "TelemeterClientServiceMonitor f =
     from_asset f (NewServiceMonitor f) ''telemeter-client/service-monitor.yaml''
       (monitored (fac_namespace f) [(0, ''telemeter-client'')])"

definition TelemeterClientService :: "'w Factory \<Rightarrow> ('w, Service) prog" where
  "TelemeterClientService f = from_asset f (NewService f) ''telemeter-client/service.yaml''
     (placed (fac_namespace f))"

definition TelemeterClientServiceAccount :: "'w Factory \<Rightarrow> ('w, ServiceAccount) prog" where
  "TelemeterClientServiceAccount f =
     from_asset f (NewServiceAccount f) ''telemeter-client/service-account.yaml'' (placed (fac_namespace f))"

definition ThanosRulerService :: "'w Factory \<Rightarrow> ('w, Service) prog" where
  "ThanosRulerService f = from_asset f (NewService f) ''thanos-ruler/service.yaml''
     (placed (fac_namespaceUserWorkload f))"

definition ThanosRulerServiceAccount :: "'w Factory \<Rightarrow> ('w, ServiceAccount) prog" where
  "ThanosRulerServiceAccount f = from_asset f (NewServiceAccount f) ''thanos-ruler/service-account.yaml''
     (placed (fac_namespaceUserWorkload f))"

definition ThanosRulerClusterRoleBinding :: "'w Factory \<Rightarrow> ('w, ClusterRoleBinding) prog" where
  "ThanosRulerClusterRoleBinding f =
     from_asset f (NewClusterRoleBinding f) ''thanos-ruler/cluster-role-binding.yaml''
       (bound_in (fac_namespaceUserWorkload f))"

definition ThanosRulerMonitoringClusterRoleBinding :: "'w Factory \<Rightarrow> ('w, ClusterRoleBinding) prog" where
  "ThanosRulerMonitoringClusterRoleBinding f =
     from_asset f (NewClusterRoleBinding f) ''thanos-ruler/cluster-role-binding-monitoring.yaml''
       (bound_in (fac_namespaceUserWorkload f))"

definition ThanosRulerClusterRole :: "'w Factory \<Rightarrow> ('w, ClusterRole) prog" where
  "ThanosRulerClusterRole f = from_asset f (NewClusterRole f) ''thanos-ruler/cluster-role.yaml'' Ok"

definition ThanosRulerPrometheusRule :: "'w Factory \<Rightarrow> ('w, PrometheusRule) prog" where
  "ThanosRulerPrometheusRule f =
     from_asset f (NewPrometheusRule f) ''thanos-ruler/thanos-ruler-prometheus-rule.yaml'' Ok"

definition ThanosRulerServiceMonitor :: "'w Factory \<Rightarrow> ('w, ServiceMonitor) prog" where
  "ThanosRulerServiceMonitor f = from_asset f (NewServiceMonitor f) ''thanos-ruler/service-monitor.yaml''
     (monitored (fac_namespaceUserWorkload f) [(0, ''thanos-ruler'')])"

definition ThanosRulerRoute :: "'w Factory \<Rightarrow> ('w, Route) prog" where
  "ThanosRulerRoute f = from_asset f (NewRoute f) ''thanos-ruler/route.yaml''
     (placed (fac_namespaceUserWorkload f))"

definition ThanosRulerTrustedCABundle :: "'w Factory \<Rightarrow> ('w, ConfigMap) prog" where
  "ThanosRulerTrustedCABundle f = from_asset f (NewConfigMap f) ''thanos-ruler/trusted-ca-bundle.yaml'' Ok"

definition ThanosRulerGrpcTLSSecret :: "'w Factory \<Rightarrow> ('w, Secret) prog" where
  "ThanosRulerGrpcTLSSecret f = from_asset f (NewSecret f) ''thanos-ruler/grpc-tls-secret.yaml''
     (placed (fac_namespaceUserWorkload f))"

definition ThanosRulerOauthCookieSecret :: "'w Factory \<Rightarrow> ('w, Secret) prog" where
  "ThanosRulerOauthCookieSecret f = session_secret f ''thanos-ruler/oauth-cookie-secret.yaml'' (fac_namespaceUserWorkload f)"

section \<open>Methods with more to adapt\<close>

text \<open>
  The loops over the items of a role list assign to copies and change nothing. In a list of role
  bindings the copy shares its subjects with the item, so that the assignment to the first subject
  takes effect.
\<close>

definition PrometheusK8sRoleBindingList :: "'w Factory \<Rightarrow> ('w, RoleBinding list) prog" where
  "PrometheusK8sRoleBindingList f =
     from_asset f (NewRoleBindingList f) ''prometheus-k8s/role-binding-specific-namespaces.yaml'' (r_map (\<lambda>rb.
       r_bind (first_subject_in (fac_namespace f) (Subjects rb)) (\<lambda>ss. Ok (rb\<lparr>Subjects := ss\<rparr>))))"

definition PrometheusUserWorkloadRoleBindingList :: "'w Factory \<Rightarrow> ('w, RoleBinding list) prog" where
  "PrometheusUserWorkloadRoleBindingList f =
     from_asset f (NewRoleBindingList f) ''prometheus-user-workload/role-binding-specific-namespaces.yaml'' (r_map (\<lambda>rb.
       r_bind (first_subject_in (fac_namespaceUserWorkload f) (Subjects rb)) (\<lambda>ss. Ok (rb\<lparr>Subjects := ss\<rparr>))))"

definition PrometheusK8sRoleList :: "'w Factory \<Rightarrow> ('w, Role list) prog" where
  "PrometheusK8sRoleList f =
     from_asset f (NewRoleList f) ''prometheus-k8s/role-specific-namespaces.yaml'' Ok"

definition PrometheusUserWorkloadRoleList :: "'w Factory \<Rightarrow> ('w, Role list) prog" where
  "PrometheusUserWorkloadRoleList f =
     from_asset f (NewRoleList f) ''prometheus-user-workload/role-specific-namespaces.yaml'' Ok"

text \<open>\<open>f.config.ClusterMonitoringConfiguration\<close> and \<open>EtcdConfig.IsEnabled()\<close> on it.\<close>

definition cmc_of :: "'w Factory \<Rightarrow> ClusterMonitoringConfiguration res" where
  "cmc_of f = deref (cfg_ClusterMonitoringConfiguration (fac_config f))"

definition config_etcd_enabled :: "Config \<Rightarrow> bool res" where
  "config_etcd_enabled cfg = r_bind (deref (cfg_ClusterMonitoringConfiguration cfg)) (\<lambda>m.
     r_bind (deref (cmc_EtcdConfig m)) (\<lambda>e. Ok (EtcdConfig_IsEnabled e)))"

definition etcd_enabled :: "'w Factory \<Rightarrow> bool res" where
  "etcd_enabled f = config_etcd_enabled (fac_config f)"

definition IBMCloudPlatformType :: string where
  "IBMCloudPlatformType = ''IBMCloud''"

definition PrometheusK8sRules :: "'w Factory \<Rightarrow> ('w, PrometheusRule) prog" where
  "PrometheusK8sRules f = from_asset f (NewPrometheusRule f) ''prometheus-k8s/rules.yaml'' (\<lambda>r.
     r_bind (etcd_enabled f) (\<lambda>enabled.
       let groups = (if \<not> enabled then filter (\<lambda>g. Group_Name g \<noteq> ''etcd'') (Groups r) else Groups r);
           groups = (if Platform (fac_config f) = IBMCloudPlatformType
             then filter (\<lambda>g. Group_Name g \<notin> {''kubernetes-system-apiserver'',
                    ''kubernetes-system-controller-manager'', ''kubernetes-system-scheduler''}) groups
             else groups)
       in Ok (r\<lparr>Namespace := fac_namespace f, Groups := groups\<rparr>)))"

definition sharedConfigMap :: string where
  "sharedConfigMap = ''monitoring-shared-config''"

definition configManagedNamespace :: string where
  "configManagedNamespace = ''openshift-config-managed''"

text \<open>The hosts are pointers; printing a nil URL panics.\<close>

definition SharingConfig :: "URL option \<Rightarrow> URL option \<Rightarrow> URL option \<Rightarrow> URL option \<Rightarrow> ConfigMap res" where
  "SharingConfig promHost amHost grafanaHost thanosHost =
     r_bind (deref grafanaHost) (\<lambda>grafana. r_bind (deref promHost) (\<lambda>prom.
     r_bind (deref amHost) (\<lambda>am. r_bind (deref thanosHost) (\<lambda>thanos.
       Ok (ObjectMeta.extend
         \<lparr>Name = sharedConfigMap, Namespace = configManagedNamespace, Labels = None, Annotations = None,
          ResourceVersion = '''', Generation = 0\<rparr>
         \<lparr>CM_Data = gm_of_list [
            (''grafanaPublicURL'', URL_String grafana), (''prometheusPublicURL'', URL_String prom),
            (''alertmanagerPublicURL'', URL_String am), (''thanosPublicURL'', URL_String thanos)]\<rparr>)))))"

text \<open>
  The password is drawn before it is assigned to the first data source, whose pointer may be nil and
  which may not exist.
\<close>

definition with_password :: "string \<Rightarrow> GrafanaDatasource option list \<Rightarrow> GrafanaDatasource option list res" where
  "with_password pw ds = (case ds of
      [] \<Rightarrow> Panic
    | d # ds \<Rightarrow> r_bind (through d (\<lambda>x. x\<lparr>BasicAuthPassword := pw\<rparr>)) (\<lambda>d. Ok (d # ds)))"

definition GrafanaDatasources_secret :: "'w Factory \<Rightarrow> ('w, Secret) prog" where
  "GrafanaDatasources_secret f =
     p_bind (from_asset f (NewSecret f) ''grafana/dashboard-datasources.yaml'' Ok) (\<lambda>s.
     p_bind (p_return (decoded (unmarshal_datasources f (gm_get (Data s) ''datasources.yaml'')))) (\<lambda>d.
     p_catch (password f 255) (\<lambda>r. p_return (
       r_bind (with_password (case r of Inl e \<Rightarrow> '''' | Inr pw \<Rightarrow> pw) (Datasources d)) (\<lambda>ds.
       case r of Inl e \<Rightarrow> Err e | Inr pw \<Rightarrow>
         r_bind (decoded (marshal_datasources f (d\<lparr>Datasources := ds\<rparr>))) (\<lambda>b.
         r_bind (gm_set (Data s) ''prometheus.yaml'' b) (\<lambda>m.
         Ok (s\<lparr>Data := m, Namespace := fac_namespace f\<rparr>))))))))"

text \<open>Here the modified copies are collected, so that the namespace is set.\<close>

definition GrafanaDashboardDefinitions :: "'w Factory \<Rightarrow> ('w, ConfigMap list) prog" where
  "GrafanaDashboardDefinitions f =
     from_asset f (NewConfigMapList f) ''grafana/dashboard-definitions.yaml'' (\<lambda>items.
       if items = [] then Ok []
       else r_bind (etcd_enabled f) (\<lambda>enabled.
         Ok (filter (\<lambda>c. enabled \<or> Name c \<noteq> ''grafana-dashboard-etcd'')
               (map (\<lambda>c. c\<lparr>Namespace := fac_namespace f\<rparr>) items))))"

definition ThanosQuerierServiceMonitor :: "'w Factory \<Rightarrow> ('w, ServiceMonitor) prog" where
  "ThanosQuerierServiceMonitor f =
     from_asset f (NewServiceMonitor f) ''thanos-querier/service-monitor.yaml'' (\<lambda>sm.
       r_bind (r_map (\<lambda>e. if Port e = ''web''
           then r_bind (through (TLSConfig_ServerName e) (\<lambda>_. svc_name ''thanos-querier'' (fac_namespace f)))
                  (\<lambda>t. Ok (e\<lparr>TLSConfig_ServerName := t\<rparr>))
           else Ok e) (Endpoints sm)) (\<lambda>es.
       if \<not> list_ex (\<lambda>e. Port e = ''web'') (Endpoints sm)
       then Err (ErrorString (''failed to find endpoint port '' @ quote @ ''web'' @ quote))
       else Ok (sm\<lparr>Endpoints := es, Namespace := fac_namespace f\<rparr>)))"

definition telemeter_of_factory :: "'w Factory \<Rightarrow> TelemeterClientConfig res" where
  "telemeter_of_factory f = r_bind (cmc_of f) (\<lambda>m. deref (cmc_TelemeterClientConfig m))"

definition TelemeterClientSecret :: "'w Factory \<Rightarrow> ('w, Secret) prog" where
  "TelemeterClientSecret f =
     p_bind (from_asset f (NewSecret f) ''telemeter-client/secret.yaml'' Ok) (\<lambda>s.
     p_catch (password f 32) (\<lambda>r. p_return (case r of
       Inl e \<Rightarrow> Err (ErrorString (''failed to generate Telemeter client salt: '' @ error_message e))
     | Inr salt \<Rightarrow>
         r_bind (gm_set (Data s) ''salt'' salt) (\<lambda>m.
         r_bind (telemeter_of_factory f) (\<lambda>t.
         r_bind (if Token t \<noteq> '''' then gm_set m ''token'' (Token t) else Ok m) (\<lambda>m.
         Ok (s\<lparr>Data := m, Namespace := fac_namespace f\<rparr>)))))))"

text \<open>\<open>GRPCSecret\<close> of \<open>tls.go\<close>: the secret that \<open>RotateGRPCSecret\<close> fills.\<close>

definition GRPCSecret :: "'w Factory \<Rightarrow> ('w, Secret) prog" where
  "GRPCSecret f = from_asset f (NewSecret f) ''cluster-monitoring-operator/grpc-tls-secret.yaml'' (\<lambda>s.
     Ok (s\<lparr>Namespace := fac_namespace f, Data := Some fmempty, Annotations := Some fmempty\<rparr>))"

end
