(* ===== verification/Factory_Workloads.thy ===== *)
theory Factory_Workloads
  imports Factory_Objects
begin

text \<open>
  The methods of the factory that build deployments, daemon sets and the custom resources of the
  Prometheus operator from their manifests, the images and the configuration
  (\<open>pkg/manifests/manifests.go\<close>).
\<close>

section \<open>Containers, volumes and placement\<close>

text \<open>Only the first variable of the name is set; a variable that is missing is not added.\<close>

fun set_first_env :: "string \<Rightarrow> string \<Rightarrow> EnvVar list \<Rightarrow> EnvVar list" where
  "set_first_env name v [] = []"
| "set_first_env name v (e # es) =
     (if Env_Name e = name then e\<lparr>Env_Value := v\<rparr> # es else e # set_first_env name v es)"

definition setContainerEnvironmentVariable :: "string \<Rightarrow> string \<Rightarrow> Container \<Rightarrow> Container" where
  "setContainerEnvironmentVariable name v c = c\<lparr>Env := set_first_env name v (Env c)\<rparr>"

definition set_env_unless_empty :: "string \<Rightarrow> string \<Rightarrow> Container \<Rightarrow> Container" where
  "set_env_unless_empty name v c = (if v \<noteq> '''' then setContainerEnvironmentVariable name v c else c)"

definition proxied :: "'w Factory \<Rightarrow> Container \<Rightarrow> Container res" where
  "proxied f c = r_bind (http_of (fac_config f)) (\<lambda>h.
     Ok (set_env_unless_empty ''NO_PROXY'' (NoProxy h)
          (set_env_unless_empty ''HTTPS_PROXY'' (HTTPSProxy h)
            (set_env_unless_empty ''HTTP_PROXY'' (HTTPProxy h) c))))"

definition images_of :: "'w Factory \<Rightarrow> Images res" where
  "images_of f = deref (cfg_Images (fac_config f))"

definition with_image :: "'w Factory \<Rightarrow> (Images \<Rightarrow> string) \<Rightarrow> Container \<Rightarrow> Container res" where
  "with_image f img c = r_bind (images_of f) (\<lambda>i. Ok (c\<lparr>Image := img i\<rparr>))"

definition trustedCABundleVolumeMount :: "string \<Rightarrow> VolumeMount" where
  "trustedCABundleVolumeMount name =
     \<lparr>Mount_Name = name, ReadOnly = True, MountPath = ''/etc/pki/ca-trust/extracted/pem/''\<rparr>"

definition trustedCABundleVolume :: "string \<Rightarrow> string \<Rightarrow> Volume" where
  "trustedCABundleVolume configMapName volumeName = \<lparr>Volume_Name = volumeName,
     Volume_Source = ConfigMapVolume \<lparr>CMV_Name = configMapName, CMV_Items = [], CMV_Optional = Some True\<rparr>\<rparr>"

text \<open>The volume as every caller completes it: the bundle appears under the name that the image expects.\<close>

definition bundle_volume :: "ConfigMap \<Rightarrow> string \<Rightarrow> Volume" where
  "bundle_volume cm volumeName = (trustedCABundleVolume (Name cm) volumeName)\<lparr>
     Volume_Source := ConfigMapVolume \<lparr>CMV_Name = Name cm,
       CMV_Items = [\<lparr>Key = TrustedCABundleKey, Path = ''tls-ca-bundle.pem''\<rparr>], CMV_Optional = Some True\<rparr>\<rparr>"

definition mounting :: "string \<Rightarrow> Container \<Rightarrow> Container" where
  "mounting volumeName c = c\<lparr>VolumeMounts := VolumeMounts c @ [trustedCABundleVolumeMount volumeName]\<rparr>"

definition grpc_volume :: "Secret \<Rightarrow> Volume" where
  "grpc_volume grpcTLS = \<lparr>Volume_Name = ''secret-grpc-tls'', Volume_Source = SecretVolume (Name grpcTLS)\<rparr>"

text \<open>\<open>if cfg.NodeSelector != nil\<close>, \<open>if len(cfg.NodeSelector) > 0\<close> and \<open>if len(cfg.Tolerations) > 0\<close>.\<close>

definition selector_if_set :: "'a PlacementConfig_scheme \<Rightarrow> string gomap \<Rightarrow> string gomap" where
  "selector_if_set cfg old = (if cfg_NodeSelector cfg \<noteq> None then cfg_NodeSelector cfg else old)"

definition selector_if_nonempty :: "'a PlacementConfig_scheme \<Rightarrow> string gomap \<Rightarrow> string gomap" where
  "selector_if_nonempty cfg old = (if gm_nonempty (cfg_NodeSelector cfg) then cfg_NodeSelector cfg else old)"

definition tolerations_if_any :: "'a PlacementConfig_scheme \<Rightarrow> Toleration list \<Rightarrow> Toleration list" where
  "tolerations_if_any cfg old = (if cfg_Tolerations cfg \<noteq> [] then cfg_Tolerations cfg else old)"

definition unless_empty :: "string \<Rightarrow> string \<Rightarrow> string" where
  "unless_empty v old = (if v \<noteq> '''' then v else old)"

definition value_if_set :: "'a option \<Rightarrow> 'a \<Rightarrow> 'a" where
  "value_if_set p old = (case p of None \<Rightarrow> old | Some v \<Rightarrow> v)"

definition pointer_if_set :: "'a option \<Rightarrow> 'a option \<Rightarrow> 'a option" where
  "pointer_if_set p old = (case p of None \<Rightarrow> old | Some v \<Rightarrow> Some v)"

definition placed_pods :: "'a PlacementConfig_scheme \<Rightarrow> PodSpec \<Rightarrow> PodSpec" where
  "placed_pods cfg ps = ps\<lparr>NodeSelector := selector_if_set cfg (NodeSelector ps),
     Tolerations := tolerations_if_any cfg (Tolerations ps)\<rparr>"

definition placed_pods_nonempty :: "'a PlacementConfig_scheme \<Rightarrow> PodSpec \<Rightarrow> PodSpec" where
  "placed_pods_nonempty cfg ps = ps\<lparr>NodeSelector := selector_if_nonempty cfg (NodeSelector ps),
     Tolerations := tolerations_if_any cfg (Tolerations ps)\<rparr>"

text \<open>
  The loop over containers, whose body changes the container and something else (\<open>s\<close>), as a rule the
  volumes of the pod.
\<close>

fun each_container :: "(Container \<Rightarrow> 's \<Rightarrow> (Container \<times> 's) res) \<Rightarrow> Container list \<Rightarrow> 's \<Rightarrow>
    (Container list \<times> 's) res" where
  "each_container body [] s = Ok ([], s)"
| "each_container body (c # cs) s =
     r_bind (body c s) (\<lambda>(c, s). r_bind (each_container body cs s) (\<lambda>(cs, s). Ok (c # cs, s)))"

definition on_containers :: "(Container \<Rightarrow> Volume list \<Rightarrow> (Container \<times> Volume list) res) \<Rightarrow> PodSpec \<Rightarrow> PodSpec res" where
  "on_containers body ps = r_bind (each_container body (Containers ps) (Volumes ps))
     (\<lambda>(cs, vs). Ok (ps\<lparr>Containers := cs, Volumes := vs\<rparr>))"

definition only_containers :: "(Container \<Rightarrow> Container res) \<Rightarrow> PodSpec \<Rightarrow> PodSpec res" where
  "only_containers body ps = r_bind (r_map body (Containers ps)) (\<lambda>cs. Ok (ps\<lparr>Containers := cs\<rparr>))"

definition on_template :: "(PodSpec \<Rightarrow> PodSpec res) \<Rightarrow> string \<Rightarrow> Deployment \<Rightarrow> Deployment res" where
  "on_template g ns d = r_bind (g (Template_Spec (Deployment_Spec d))) (\<lambda>ps.
     Ok (d\<lparr>Namespace := ns, Deployment_Spec := (Deployment_Spec d)\<lparr>Template_Spec := ps\<rparr>\<rparr>))"


definition unchanged_volumes :: "'s \<Rightarrow> Container res \<Rightarrow> (Container \<times> 's) res" where
  "unchanged_volumes s r = r_bind r (\<lambda>c. Ok (c, s))"

text \<open>
  What the loops do with an OAuth proxy: its image, its proxy environment, and the bundle of trusted
  authorities when there is one.
\<close>

definition oauth_proxy :: "'w Factory \<Rightarrow> ConfigMap option \<Rightarrow> string \<Rightarrow> Container \<Rightarrow> Volume list \<Rightarrow>
    (Container \<times> Volume list) res" where
  "oauth_proxy f trustedCA volumeName c vs =
     r_bind (with_image f img_OauthProxy c) (\<lambda>c.
     r_bind (proxied f c) (\<lambda>c. Ok (case trustedCA of
         None \<Rightarrow> (c, vs)
       | Some cm \<Rightarrow> (mounting volumeName c, vs @ [bundle_volume cm volumeName]))))"

section \<open>Alertmanager\<close>

text \<open>
  The loop also mounts the bundle into the Alertmanager itself, through the mounts of the custom
  resource.
\<close>

definition alertmanager_container :: "'w Factory \<Rightarrow> ConfigMap option \<Rightarrow> Container \<Rightarrow> VolumeMount list \<times> Volume list \<Rightarrow>
    (Container \<times> (VolumeMount list \<times> Volume list)) res" where
  "alertmanager_container f trustedCABundleCM c s = (
     if Container_Name c = ''alertmanager-proxy'' then
       r_bind (oauth_proxy f trustedCABundleCM ''alertmanager-trusted-ca-bundle'' c (snd s)) (\<lambda>(c, vs).
         Ok (c, (case trustedCABundleCM of
             None \<Rightarrow> fst s
           | Some cm \<Rightarrow> fst s @ [trustedCABundleVolumeMount ''alertmanager-trusted-ca-bundle'']), vs))
     else if Container_Name c = ''kube-rbac-proxy'' then unchanged_volumes s (with_image f img_KubeRbacProxy c)
     else if Container_Name c = ''prom-label-proxy'' then unchanged_volumes s (with_image f img_PromLabelProxy c)
     else Ok (c, s))"

definition AlertmanagerMain :: "'w Factory \<Rightarrow> string \<Rightarrow> ConfigMap option \<Rightarrow> ('w, Alertmanager) prog" where
  "AlertmanagerMain f host trustedCABundleCM =
     from_asset f (NewAlertmanager f) ''alertmanager/alertmanager.yaml'' (\<lambda>a.
       r_bind (images_of f) (\<lambda>i. r_bind (cmc_of f) (\<lambda>m. r_bind (deref (cmc_AlertmanagerMainConfig m)) (\<lambda>cfg.
       let s = Alertmanager_Spec a in
       r_bind (each_container (alertmanager_container f trustedCABundleCM) (AM_Containers s) (AM_VolumeMounts s, AM_Volumes s))
         (\<lambda>(cs, ms, vs). Ok (a\<lparr>Namespace := fac_namespace f, Alertmanager_Spec := s\<lparr>
            AM_Image := Some (img_Alertmanager i),
            AM_ExternalURL := URL_String (AlertmanagerExternalURL host),
            AM_Resources := value_if_set (am_Resources cfg) (AM_Resources s),
            AM_Storage := pointer_if_set (am_VolumeClaimTemplate cfg) (AM_Storage s),
            AM_NodeSelector := selector_if_set cfg (AM_NodeSelector s),
            AM_Tolerations := tolerations_if_any cfg (AM_Tolerations s),
            AM_Containers := cs, AM_VolumeMounts := ms, AM_Volumes := vs\<rparr>\<rparr>))))))"

section \<open>Exporters\<close>

definition KubeStateMetricsDeployment :: "'w Factory \<Rightarrow> ('w, Deployment) prog" where
  "KubeStateMetricsDeployment f = from_asset f (NewDeployment f) ''kube-state-metrics/deployment.yaml''
     (on_template (\<lambda>ps.
        r_bind (only_containers (\<lambda>c.
            if Container_Name c = ''kube-state-metrics'' then with_image f img_KubeStateMetrics c
            else if Container_Name c = ''kube-rbac-proxy-self'' \<or> Container_Name c = ''kube-rbac-proxy-main''
            then with_image f img_KubeRbacProxy c else Ok c) ps) (\<lambda>ps.
        r_bind (cmc_of f) (\<lambda>m. r_bind (deref (cmc_KubeStateMetricsConfig m)) (\<lambda>cfg.
        Ok (placed_pods cfg ps))))) (fac_namespace f))"

definition OpenShiftStateMetricsDeployment :: "'w Factory \<Rightarrow> ('w, Deployment) prog" where
  "OpenShiftStateMetricsDeployment f = from_asset f (NewDeployment f) ''openshift-state-metrics/deployment.yaml''
     (on_template (\<lambda>ps.
        r_bind (only_containers (\<lambda>c.
            if Container_Name c = ''kube-rbac-proxy-main'' then with_image f img_KubeRbacProxy c
            else if Container_Name c = ''kube-rbac-proxy-self'' then with_image f img_KubeRbacProxy c
            else if Container_Name c = ''openshift-state-metrics'' then with_image f img_OpenShiftStateMetrics c
            else Ok c) ps) (\<lambda>ps.
        r_bind (cmc_of f) (\<lambda>m. r_bind (deref (cmc_OpenShiftMetricsConfig m)) (\<lambda>cfg.
        Ok (placed_pods cfg ps))))) (fac_namespace f))"

definition NodeExporterDaemonSet :: "'w Factory \<Rightarrow> ('w, DaemonSet) prog" where
  "NodeExporterDaemonSet f = from_asset f (NewDaemonSet f) ''node-exporter/daemonset.yaml'' (\<lambda>ds.
     let ps = DS_Template_Spec ds in
     r_bind (r_map (\<lambda>c.
         if Container_Name c = ''node-exporter'' then with_image f img_NodeExporter c
         else if Container_Name c = ''kube-rbac-proxy'' then with_image f img_KubeRbacProxy c
         else Ok c) (Containers ps)) (\<lambda>cs.
     r_bind (r_map (\<lambda>c. if Container_Name c = ''init-textfile'' then with_image f img_NodeExporter c else Ok c)
         (InitContainers ps)) (\<lambda>ics.
     Ok (ds\<lparr>Namespace := fac_namespace f, DS_Template_Spec := ps\<lparr>Containers := cs, InitContainers := ics\<rparr>\<rparr>))))"


section \<open>Prometheus adapter\<close>

text \<open>
  The four lists of the request header are read from the authentication config map with the map reader,
  which remembers the first error; the configuration may lack the section.
\<close>

definition PrometheusAdapterDeployment :: "'w Factory \<Rightarrow> string \<Rightarrow> string gomap \<Rightarrow> ('w, Deployment) prog" where
  "PrometheusAdapterDeployment f apiAuthSecretName requestheader =
     from_asset f (NewDeployment f) ''prometheus-adapter/deployment.yaml'' (on_template (\<lambda>ps.
       case Containers ps of [] \<Rightarrow> Panic | c # cs \<Rightarrow>
       r_bind (images_of f) (\<lambda>i. r_bind (cmc_of f) (\<lambda>m.
       let selector = (case cmc_K8sPrometheusAdapter m of None \<Rightarrow> NodeSelector ps
             | Some cfg \<Rightarrow> selector_if_nonempty cfg (NodeSelector ps));
           tolerations = (case cmc_K8sPrometheusAdapter m of None \<Rightarrow> Tolerations ps
             | Some cfg \<Rightarrow> tolerations_if_any cfg (Tolerations ps));
           r = newErrMapReader requestheader;
           (names, r) = reader_slice (unmarshal_strings f) ''requestheader-allowed-names'' r;
           (prefixes, r) = reader_slice (unmarshal_strings f) ''requestheader-extra-headers-prefix'' r;
           (groups, r) = reader_slice (unmarshal_strings f) ''requestheader-group-headers'' r;
           (users, r) = reader_slice (unmarshal_strings f) ''requestheader-username-headers'' r
       in case reader_Error r of
            Some e \<Rightarrow> Err (Wrapped ''value not found in extension api server authentication configmap'' e)
          | None \<Rightarrow> Ok (ps\<lparr>
              NodeSelector := selector, Tolerations := tolerations,
              Containers := c\<lparr>
                Image := img_K8sPrometheusAdapter i,
                Args := Args c @ [
                  ''--client-ca-file=/etc/tls/private/client-ca-file'',
                  ''--requestheader-client-ca-file=/etc/tls/private/requestheader-client-ca-file'',
                  ''--requestheader-allowed-names='' @ strings_Join '','' names,
                  ''--requestheader-extra-headers-prefix='' @ strings_Join '','' prefixes,
                  ''--requestheader-group-headers='' @ strings_Join '','' groups,
                  ''--requestheader-username-headers='' @ strings_Join '','' users,
                  ''--tls-cert-file=/etc/tls/private/tls.crt'',
                  ''--tls-private-key-file=/etc/tls/private/tls.key''],
                VolumeMounts := VolumeMounts c @
                  [\<lparr>Mount_Name = ''tls'', ReadOnly = True, MountPath = ''/etc/tls/private''\<rparr>]\<rparr> # cs,
              Volumes := Volumes ps @
                [\<lparr>Volume_Name = ''tls'', Volume_Source = SecretVolume apiAuthSecretName\<rparr>]\<rparr>)))) (fac_namespace f))"

section \<open>Prometheus operators\<close>

definition PrometheusConfigReloaderFlag :: string where
  "PrometheusConfigReloaderFlag = ''--prometheus-config-reloader=''"

definition PrometheusOperatorNamespaceFlag :: string where
  "PrometheusOperatorNamespaceFlag = ''--namespaces=''"

definition PrometheusOperatorDenyNamespaceFlag :: string where
  "PrometheusOperatorDenyNamespaceFlag = ''--deny-namespaces=''"

definition PrometheusOperatorPrometheusInstanceNamespacesFlag :: string where
  "PrometheusOperatorPrometheusInstanceNamespacesFlag = ''--prometheus-instance-namespaces=''"

definition PrometheusOperatorAlertmanagerInstanceNamespacesFlag :: string where
  "PrometheusOperatorAlertmanagerInstanceNamespacesFlag = ''--alertmanager-instance-namespaces=''"

text \<open>\<open>if strings.HasPrefix(arg, flag) && guard { arg = flag + value }\<close>.\<close>

definition replace_flag :: "string \<Rightarrow> bool \<Rightarrow> string \<Rightarrow> string \<Rightarrow> string" where
  "replace_flag flag guard v arg = (if strings_HasPrefix arg flag \<and> guard then flag @ v else arg)"

definition log_level_arg :: "string \<Rightarrow> string list \<Rightarrow> string list" where
  "log_level_arg level args = (if level \<noteq> '''' then args @ [''--log-level='' @ level] else args)"

definition PrometheusOperatorDeployment :: "'w Factory \<Rightarrow> string list \<Rightarrow> ('w, Deployment) prog" where
  "PrometheusOperatorDeployment f namespaces =
     from_asset f (NewDeployment f) ''prometheus-operator/deployment.yaml'' (on_template (\<lambda>ps.
       r_bind (cmc_of f) (\<lambda>m. r_bind (deref (cmc_PrometheusOperatorConfig m)) (\<lambda>cfg.
       only_containers (\<lambda>c.
         if Container_Name c = ''kube-rbac-proxy'' then with_image f img_KubeRbacProxy c
         else if Container_Name c = ''prometheus-operator'' then
           r_bind (images_of f) (\<lambda>i.
             let args = map (\<lambda>a.
               replace_flag PrometheusOperatorPrometheusInstanceNamespacesFlag (fac_namespace f \<noteq> '''') (fac_namespace f)
                 (replace_flag PrometheusOperatorAlertmanagerInstanceNamespacesFlag (fac_namespace f \<noteq> '''') (fac_namespace f)
                   (replace_flag PrometheusConfigReloaderFlag (img_PrometheusConfigReloader i \<noteq> '''') (img_PrometheusConfigReloader i)
                     (replace_flag PrometheusOperatorNamespaceFlag (namespaces \<noteq> []) (strings_Join '','' namespaces) a))))
               (Args c)
             in Ok (c\<lparr>Image := img_PrometheusOperator i, Args := log_level_arg (po_LogLevel cfg) args\<rparr>))
         else Ok c) (placed_pods_nonempty cfg ps)))) (fac_namespace f))"

definition user_cfg_of :: "'w Factory \<Rightarrow> UserWorkloadConfiguration res" where
  "user_cfg_of f = deref (cfg_UserWorkloadConfiguration (fac_config f))"

definition PrometheusOperatorUserWorkloadDeployment :: "'w Factory \<Rightarrow> string list \<Rightarrow> ('w, Deployment) prog" where
  "PrometheusOperatorUserWorkloadDeployment f denyNamespaces =
     from_asset f (NewDeployment f) ''prometheus-operator-user-workload/deployment.yaml'' (on_template (\<lambda>ps.
       r_bind (user_cfg_of f) (\<lambda>u. r_bind (deref (uwc_PrometheusOperator u)) (\<lambda>cfg.
       only_containers (\<lambda>c.
         if Container_Name c = ''kube-rbac-proxy'' then with_image f img_KubeRbacProxy c
         else if Container_Name c = ''prometheus-operator'' then
           r_bind (images_of f) (\<lambda>i.
             let args = map (\<lambda>a.
               replace_flag PrometheusOperatorPrometheusInstanceNamespacesFlag True (fac_namespaceUserWorkload f)
                 (replace_flag PrometheusOperatorAlertmanagerInstanceNamespacesFlag True (fac_namespaceUserWorkload f)
                   (replace_flag PrometheusConfigReloaderFlag True (img_PrometheusConfigReloader i)
                     (replace_flag PrometheusOperatorDenyNamespaceFlag True (strings_Join '','' denyNamespaces) a))))
               (Args c)
             in Ok (c\<lparr>Image := img_PrometheusOperator i, Args := log_level_arg (po_LogLevel cfg) args\<rparr>))
         else Ok c) (placed_pods_nonempty cfg ps)))) (fac_namespaceUserWorkload f))"

section \<open>Grafana\<close>

definition grafana_container :: "'w Factory \<Rightarrow> ConfigMap option \<Rightarrow> Container \<Rightarrow> Volume list \<Rightarrow>
    (Container \<times> Volume list) res" where
  "grafana_container f proxyCABundleCM c vs = (
     if Container_Name c = ''grafana'' then
       r_bind (with_image f img_Grafana c) (\<lambda>c. r_bind (etcd_enabled f) (\<lambda>enabled.
         if enabled then Ok (c, vs)
         else Ok (c\<lparr>VolumeMounts := filter (\<lambda>vm. Mount_Name vm \<noteq> ''grafana-dashboard-etcd'') (VolumeMounts c)\<rparr>,
                  filter (\<lambda>v. Volume_Name v \<noteq> ''grafana-dashboard-etcd'') vs)))
     else if Container_Name c = ''grafana-proxy'' then
       oauth_proxy f proxyCABundleCM ''grafana-trusted-ca-bundle'' c vs
     else Ok (c, vs))"

definition GrafanaDeployment :: "'w Factory \<Rightarrow> ConfigMap option \<Rightarrow> ('w, Deployment) prog" where
  "GrafanaDeployment f proxyCABundleCM = from_asset f (NewDeployment f) ''grafana/deployment.yaml''
     (on_template (\<lambda>ps.
        r_bind (on_containers (grafana_container f proxyCABundleCM) ps) (\<lambda>ps.
        r_bind (cmc_of f) (\<lambda>m. r_bind (deref (cmc_GrafanaConfig m)) (\<lambda>cfg.
        Ok (placed_pods cfg ps))))) (fac_namespace f))"

section \<open>Thanos querier\<close>

definition querier_container :: "'w Factory \<Rightarrow> bool \<Rightarrow> ConfigMap option \<Rightarrow> Container \<Rightarrow> Volume list \<Rightarrow>
    (Container \<times> Volume list) res" where
  "querier_container f enableUserWorkloadMonitoring trustedCA c vs = (
     if Container_Name c = ''oauth-proxy'' then oauth_proxy f trustedCA ''thanos-querier-trusted-ca-bundle'' c vs
     else if Container_Name c = ''thanos-query'' then
       r_bind (with_image f img_Thanos c) (\<lambda>c.
       r_bind (cmc_of f) (\<lambda>m. r_bind (deref (cmc_ThanosQuerierConfig m)) (\<lambda>cfg.
         let args = (if enableUserWorkloadMonitoring then Args c @ [
               ''--store=dnssrv+_grpc._tcp.prometheus-operated.openshift-user-workload-monitoring.svc.cluster.local'',
               ''--store=dnssrv+_grpc._tcp.thanos-ruler-operated.openshift-user-workload-monitoring.svc.cluster.local'',
               ''--rule=dnssrv+_grpc._tcp.prometheus-operated.openshift-user-workload-monitoring.svc.cluster.local'',
               ''--rule=dnssrv+_grpc._tcp.thanos-ruler-operated.openshift-user-workload-monitoring.svc.cluster.local'']
             else Args c)
         in Ok (c\<lparr>Container_Resources := value_if_set (tq_Resources cfg) (Container_Resources c),
              Args := (if tq_LogLevel cfg \<noteq> '''' then args @ [''--log.level='' @ tq_LogLevel cfg] else args)\<rparr>, vs))))
     else if Container_Name c = ''prom-label-proxy'' then unchanged_volumes vs (with_image f img_PromLabelProxy c)
     else if Container_Name c = ''kube-rbac-proxy'' \<or> Container_Name c = ''kube-rbac-proxy-rules''
     then unchanged_volumes vs (with_image f img_KubeRbacProxy c)
     else Ok (c, vs))"

definition ThanosQuerierDeployment :: "'w Factory \<Rightarrow> Secret option \<Rightarrow> bool \<Rightarrow> ConfigMap option \<Rightarrow> ('w, Deployment) prog" where
  "ThanosQuerierDeployment f grpcTLS enableUserWorkloadMonitoring trustedCA =
     from_asset f (NewDeployment f) ''thanos-querier/deployment.yaml'' (on_template (\<lambda>ps.
       r_bind (on_containers (querier_container f enableUserWorkloadMonitoring trustedCA) ps) (\<lambda>ps.
       r_bind (deref grpcTLS) (\<lambda>grpc.
       r_bind (cmc_of f) (\<lambda>m. r_bind (deref (cmc_ThanosQuerierConfig m)) (\<lambda>cfg.
       Ok (placed_pods cfg (ps\<lparr>Volumes := Volumes ps @ [grpc_volume grpc]\<rparr>))))))) (fac_namespace f))"

section \<open>Telemeter client\<close>

text \<open>The matchers of the manifest are replaced by the configured ones.\<close>

definition telemeter_command :: "string list \<Rightarrow> string list \<Rightarrow> string list" where
  "telemeter_command telemetryMatches command =
     filter (\<lambda>a. \<not> strings_HasPrefix a ''--match='') command
     @ map (\<lambda>m. ''--match='' @ m) telemetryMatches @ [''--limit-bytes=5242880'']"

definition telemeter_container :: "'w Factory \<Rightarrow> ConfigMap option \<Rightarrow> Container \<Rightarrow> Volume list \<Rightarrow>
    (Container \<times> Volume list) res" where
  "telemeter_container f proxyCABundleCM c vs = (
     if Container_Name c = ''telemeter-client'' then
       r_bind (with_image f img_TelemeterClient c) (\<lambda>c.
       r_bind (telemeter_of_factory f) (\<lambda>t.
       r_bind (proxied f (set_env_unless_empty ''TO'' (TelemeterServerURL t)
                 (set_env_unless_empty ''ID'' (ClusterID t) c))) (\<lambda>c.
       r_bind (cmc_of f) (\<lambda>m. r_bind (deref (cmc_PrometheusK8sConfig m)) (\<lambda>pk.
         let c = c\<lparr>Command := telemeter_command (pk_TelemetryMatches pk) (Command c)\<rparr>
         in Ok (case proxyCABundleCM of
              None \<Rightarrow> (c, vs)
            | Some cm \<Rightarrow> (mounting ''telemeter-trusted-ca-bundle'' c,
                          vs @ [bundle_volume cm ''telemeter-trusted-ca-bundle'']))))))) 
     else if Container_Name c = ''reload'' then unchanged_volumes vs (with_image f img_PrometheusConfigReloader c)
     else if Container_Name c = ''kube-rbac-proxy'' then unchanged_volumes vs (with_image f img_KubeRbacProxy c)
     else Ok (c, vs))"

definition TelemeterClientDeployment :: "'w Factory \<Rightarrow> ConfigMap option \<Rightarrow> ('w, Deployment) prog" where
  "TelemeterClientDeployment f proxyCABundleCM = from_asset f (NewDeployment f) ''telemeter-client/deployment.yaml''
     (on_template (\<lambda>ps.
        r_bind (on_containers (telemeter_container f proxyCABundleCM) ps) (\<lambda>ps.
        r_bind (telemeter_of_factory f) (\<lambda>cfg. Ok (placed_pods_nonempty cfg ps)))) (fac_namespace f))"

end
