(* ===== verification/Factory_Prometheus.thy ===== *)
theory Factory_Prometheus
  imports Factory_Workloads
begin

text \<open>
  The custom resources of the Prometheus operator that the factory builds: \<open>PrometheusK8s\<close>,
  \<open>PrometheusUserWorkload\<close> and \<open>ThanosRulerCustomResource\<close> of \<open>pkg/manifests/manifests.go\<close>, with the
  telemetry that is sent by remote write.
\<close>

section \<open>Remote write\<close>

definition telemetry_queue :: QueueConfig where
  "telemetry_queue = \<lparr>Capacity = 30000, MaxSamplesPerSend = 10000, BatchSendDeadline = ''1m'',
     MinBackoff = ''1s'', MaxBackoff = ''256s''\<rparr>"

text \<open>The three relabelling rules: keep the selected series, add the cluster's id, rename \<open>ALERTS\<close>.\<close>

definition telemetry_relabel :: "RelabelConfig \<Rightarrow> string \<Rightarrow> RelabelConfig list" where
  "telemetry_relabel selector clusterID = [selector,
     \<lparr>Action = '''', SourceLabels = [], Regex = '''', TargetLabel = ''_id'', Replacement = clusterID\<rparr>,
     \<lparr>Action = '''', SourceLabels = [''__name__''], Regex = ''ALERTS'', TargetLabel = ''__name__'', Replacement = ''alerts''\<rparr>]"

definition telemetry_spec :: "'w Factory \<Rightarrow> TelemeterClientConfig \<Rightarrow> RelabelConfig \<Rightarrow> RemoteWriteSpec" where
  "telemetry_spec f t selector = \<lparr>
     RW_URL = TelemeterServerURL t,
     BearerToken = base64_EncodeToString (marshal_map f [(''cluster_id'', ClusterID t), (''authorization_token'', Token t)]),
     RW_QueueConfig = Some telemetry_queue,
     WriteRelabelConfigs = telemetry_relabel selector (ClusterID t),
     ProxyURL = '''', RW_rest = ''''\<rparr>"

text \<open>
  What becomes of the remote writes of the manifest: with telemetry by remote write they are replaced,
  without telemetry they are dropped; the user's own are appended.
\<close>

definition remote_writes :: "'w Factory \<Rightarrow> ClusterMonitoringConfiguration \<Rightarrow> PrometheusK8sConfig \<Rightarrow> RemoteWriteSpec list \<Rightarrow>
    RemoteWriteSpec list res" where
  "remote_writes f m cfg old = (
     let telemetryEnabled = TelemeterClientConfig_IsEnabled (cmc_TelemeterClientConfig m)
     in r_bind (if telemetryEnabled \<and> cfg_RemoteWrite (fac_config f) then
            r_bind (errors_Wrap ''generate label selector relabel config''
                (LabelSelectorsToRelabelConfig (promql_parse f) (pk_TelemetryMatches cfg))) (\<lambda>selector.
            r_bind (deref (cmc_TelemeterClientConfig m)) (\<lambda>t. Ok [telemetry_spec f t selector]))
          else Ok old) (\<lambda>rws.
        Ok ((if \<not> telemetryEnabled then [] else rws) @ pk_RemoteWrite cfg)))"

text \<open>
  The loop that sets the proxy of every remote write assigns to copies, so that it has no effect; it
  only needs the proxy configuration.
\<close>

definition proxy_loop :: "'w Factory \<Rightarrow> RemoteWriteSpec list \<Rightarrow> RemoteWriteSpec list res" where
  "proxy_loop f rws = (if rws = [] then Ok rws else r_bind (http_of (fac_config f)) (\<lambda>_. Ok rws))"

section \<open>The cluster's Prometheus\<close>

text \<open>\<open>p.Spec.Alerting.Alertmanagers[0]\<close> gets the namespace and server name of the main Alertmanager.\<close>

definition first_alertmanager :: "'w Factory \<Rightarrow> AlertmanagerEndpoints list option \<Rightarrow> AlertmanagerEndpoints list option res" where
  "first_alertmanager f alerting = (case alerting of
      None \<Rightarrow> Panic
    | Some [] \<Rightarrow> Panic
    | Some (e # es) \<Rightarrow>
        r_bind (through (AE_ServerName e) (\<lambda>_. svc_name ''alertmanager-main'' (fac_namespace f))) (\<lambda>s.
        Ok (Some (e\<lparr>AE_Namespace := fac_namespace f, AE_ServerName := s\<rparr> # es))))"

text \<open>\<open>if images.Thanos != "" { p.Spec.Thanos.Image = &images.Thanos }\<close>; the section is a pointer.\<close>

definition thanos_image :: "Images \<Rightarrow> string option option \<Rightarrow> string option option res" where
  "thanos_image i thanos =
     (if img_Thanos i \<noteq> '''' then through thanos (\<lambda>_. Some (img_Thanos i)) else Ok thanos)"

definition prometheus_container :: "'w Factory \<Rightarrow> Container \<Rightarrow> Container res" where
  "prometheus_container f c = (
     if Container_Name c = ''prometheus-proxy'' then r_bind (with_image f img_OauthProxy c) (proxied f)
     else if Container_Name c = ''kube-rbac-proxy'' \<or> Container_Name c = ''kube-rbac-proxy-thanos''
     then with_image f img_KubeRbacProxy c
     else if Container_Name c = ''prom-label-proxy'' then with_image f img_PromLabelProxy c
     else Ok c)"

definition prometheus_bundle :: "ConfigMap option \<Rightarrow> PrometheusSpec \<Rightarrow> PrometheusSpec" where
  "prometheus_bundle trustedCABundleCM s = (case trustedCABundleCM of
      None \<Rightarrow> s
    | Some cm \<Rightarrow> s\<lparr>
        Prom_Volumes := Prom_Volumes s @ [bundle_volume cm ''prometheus-trusted-ca-bundle''],
        Prom_Containers := map (\<lambda>c.
          if Container_Name c = ''prometheus-proxy'' \<or> Container_Name c = ''prometheus''
          then mounting ''prometheus-trusted-ca-bundle'' c else c) (Prom_Containers s)\<rparr>)"

definition PrometheusK8s_spec :: "'w Factory \<Rightarrow> string \<Rightarrow> Secret option \<Rightarrow> ConfigMap option \<Rightarrow> PrometheusSpec \<Rightarrow> PrometheusSpec res" where
  "PrometheusK8s_spec f host grpcTLS trustedCABundleCM s =
     r_bind (cmc_of f) (\<lambda>m. r_bind (deref (cmc_PrometheusK8sConfig m)) (\<lambda>cfg. r_bind (images_of f) (\<lambda>i.
     r_bind (remote_writes f m cfg (RemoteWrite s)) (\<lambda>rws.
     r_bind (proxy_loop f rws) (\<lambda>rws.
     r_bind (etcd_enabled f) (\<lambda>etcd.
     r_bind (thanos_image i (Thanos_Image s)) (\<lambda>thanos.
     r_bind (first_alertmanager f (Alerting s)) (\<lambda>alerting.
     r_bind (r_map (prometheus_container f) (Prom_Containers s)) (\<lambda>cs.
     r_bind (deref grpcTLS) (\<lambda>grpc.
     Ok (prometheus_bundle trustedCABundleCM (s\<lparr>
       LogLevel := unless_empty (pk_LogLevel cfg) (LogLevel s),
       Retention := unless_empty (pk_Retention cfg) (Retention s),
       Prom_Image := Some (img_Prometheus i),
       ExternalURL := URL_String (PrometheusExternalURL host),
       Prom_Resources := value_if_set (pk_Resources cfg) (Prom_Resources s),
       Prom_NodeSelector := selector_if_set cfg (Prom_NodeSelector s),
       Prom_Tolerations := tolerations_if_any cfg (Prom_Tolerations s),
       ExternalLabels := pointer_if_set (pk_ExternalLabels cfg) (ExternalLabels s),
       Storage := pointer_if_set (pk_VolumeClaimTemplate cfg) (Storage s),
       RemoteWrite := rws,
       Prom_Secrets := (if etcd then Prom_Secrets s else filter (\<lambda>x. x \<noteq> ''kube-etcd-client-certs'') (Prom_Secrets s)),
       Thanos_Image := thanos,
       Alerting := alerting,
       Prom_Containers := cs,
       Prom_Volumes := Prom_Volumes s @ [grpc_volume grpc]\<rparr>))))))))))))"

definition PrometheusK8s :: "'w Factory \<Rightarrow> string \<Rightarrow> Secret option \<Rightarrow> ConfigMap option \<Rightarrow> ('w, Prometheus) prog" where
  "PrometheusK8s f host grpcTLS trustedCABundleCM =
     from_asset f (NewPrometheus f) ''prometheus-k8s/prometheus.yaml'' (\<lambda>p.
       r_bind (PrometheusK8s_spec f host grpcTLS trustedCABundleCM (Prometheus_Spec p)) (\<lambda>s.
       Ok (p\<lparr>Namespace := fac_namespace f, Prometheus_Spec := s\<rparr>)))"

section \<open>The Prometheus of user workloads\<close>

definition PrometheusUserWorkload :: "'w Factory \<Rightarrow> Secret option \<Rightarrow> ('w, Prometheus) prog" where
  "PrometheusUserWorkload f grpcTLS =
     from_asset f (NewPrometheus f) ''prometheus-user-workload/prometheus.yaml'' (\<lambda>p.
       let s = Prometheus_Spec p in
       r_bind (user_cfg_of f) (\<lambda>u. r_bind (deref (uwc_Prometheus u)) (\<lambda>cfg. r_bind (images_of f) (\<lambda>i.
       r_bind (thanos_image i (Thanos_Image s)) (\<lambda>thanos.
       r_bind (r_map (\<lambda>c.
           if Container_Name c = ''kube-rbac-proxy'' \<or> Container_Name c = ''kube-rbac-proxy-thanos''
           then with_image f img_KubeRbacProxy c else Ok c) (Prom_Containers s)) (\<lambda>cs.
       r_bind (first_alertmanager f (Alerting s)) (\<lambda>alerting.
       r_bind (deref grpcTLS) (\<lambda>grpc.
       Ok (p\<lparr>Namespace := fac_namespaceUserWorkload f, Prometheus_Spec := s\<lparr>
         LogLevel := unless_empty (pr_LogLevel cfg) (LogLevel s),
         Retention := unless_empty (pr_Retention cfg) (Retention s),
         Prom_Image := Some (img_Prometheus i),
         Prom_Resources := value_if_set (pr_Resources cfg) (Prom_Resources s),
         Prom_NodeSelector := selector_if_set cfg (Prom_NodeSelector s),
         Prom_Tolerations := tolerations_if_any cfg (Prom_Tolerations s),
         ExternalLabels := pointer_if_set (pr_ExternalLabels cfg) (ExternalLabels s),
         Storage := pointer_if_set (pr_VolumeClaimTemplate cfg) (Storage s),
         RemoteWrite := (if pr_RemoteWrite cfg \<noteq> [] then pr_RemoteWrite cfg else RemoteWrite s),
         EnforcedSampleLimit := pointer_if_set (pr_EnforcedSampleLimit cfg) (EnforcedSampleLimit s),
         Thanos_Image := thanos,
         Alerting := alerting,
         Prom_Containers := cs,
         Prom_Volumes := Prom_Volumes s @ [grpc_volume grpc]\<rparr>\<rparr>)))))))))"

section \<open>Thanos ruler\<close>

definition ThanosRulerCustomResource :: "'w Factory \<Rightarrow> string \<Rightarrow> ConfigMap option \<Rightarrow> Secret option \<Rightarrow> ('w, ThanosRuler) prog" where
  "ThanosRulerCustomResource f queryURL trustedCA grpcTLS =
     from_asset f (NewThanosRuler f) ''thanos-ruler/thanos-ruler.yaml'' (\<lambda>t.
       let s = ThanosRuler_Spec t in
       r_bind (images_of f) (\<lambda>i. r_bind (user_cfg_of f) (\<lambda>u. r_bind (deref (uwc_ThanosRuler u)) (\<lambda>cfg.
       r_bind (each_container (\<lambda>c vs. if Container_Name c = ''thanos-ruler-proxy''
           then oauth_proxy f trustedCA ''thanos-ruler-trusted-ca-bundle'' c vs else Ok (c, vs))
         (TR_Containers s) (TR_Volumes s)) (\<lambda>(cs, vs).
       case grpcTLS of
         None \<Rightarrow> Err (ErrorString ''could not generate thanos ruler CRD: GRPC TLS secret was not found'')
       | Some grpc \<Rightarrow> Ok (t\<lparr>Namespace := fac_namespaceUserWorkload f, ThanosRuler_Spec := s\<lparr>
           TR_Image := img_Thanos i,
           TR_LogLevel := unless_empty (tr_LogLevel cfg) (TR_LogLevel s),
           TR_Resources := value_if_set (tr_Resources cfg) (TR_Resources s),
           TR_Storage := pointer_if_set (tr_VolumeClaimTemplate cfg) (TR_Storage s),
           TR_NodeSelector := selector_if_set cfg (TR_NodeSelector s),
           TR_Tolerations := tolerations_if_any cfg (TR_Tolerations s),
           TR_Containers := cs,
           TR_Volumes := vs @ [grpc_volume grpc],
           AlertQueryURL := unless_empty queryURL (AlertQueryURL s)\<rparr>\<rparr>))))))"

end
