(* ===== verification/Factory_Hash.thy ===== *)
theory Factory_Hash
  imports Factory_Objects Client_Spec
begin

text \<open>
  Objects whose name carries the hash of their content (\<open>HashTrustedCA\<close>, \<open>HashSecret\<close> and
  \<open>PrometheusAdapterSecret\<close> of \<open>pkg/manifests/manifests.go\<close>), and what makes them work together with
  the client's \<open>DeleteHashedSecret\<close> and \<open>DeleteHashedConfigMap\<close>.
\<close>

section \<open>The constructors\<close>

definition name_label :: string where
  "name_label = ''monitoring.openshift.io/name''"

definition hash_label :: string where
  "hash_label = ''monitoring.openshift.io/hash''"

definition hashed_meta :: "string \<Rightarrow> string \<Rightarrow> string \<Rightarrow> string \<Rightarrow> ObjectMeta" where
  "hashed_meta ns name label hash = \<lparr>Name = name, Namespace = ns,
     Labels = gm_of_list [(name_label, label), (hash_label, hash)],
     Annotations = None, ResourceVersion = '''', Generation = 0\<rparr>"

definition HashTrustedCA :: "'w Factory \<Rightarrow> ConfigMap \<Rightarrow> string \<Rightarrow> ConfigMap res" where
  "HashTrustedCA f caBundleCM prefix = (case gm_lookup (CM_Data caBundleCM) TrustedCABundleKey of
      None \<Rightarrow> Err (ErrorString (''CA bundle key \"'' @ TrustedCABundleKey @ ''\" missing''))
    | Some caBundle \<Rightarrow>
        if caBundle = '''' then Err (ErrorString (''CA bundle key \"'' @ TrustedCABundleKey @ ''\" empty''))
        else (let hash = FormatUint (fnv64 caBundle);
                  ns = (if Namespace caBundleCM \<noteq> '''' then Namespace caBundleCM else fac_namespace f)
              in Ok (ObjectMeta.extend (hashed_meta ns (prefix @ ''-trusted-ca-bundle-'' @ hash) prefix hash)
                      \<lparr>CM_Data = gm_of_list [(TrustedCABundleKey, caBundle)]\<rparr>)))"

text \<open>
  The variadic arguments are keys and values in turn; the loop stops at half the length, so that a key
  without a value is ignored. The write to the hash never fails.
\<close>

fun hash_loop :: "string list \<Rightarrow> 64 word \<Rightarrow> (string, string) fmap \<Rightarrow> 64 word \<times> (string, string) fmap" where
  "hash_loop (k # v # kvs) h m = hash_loop kvs (fnv_Write h v) (fmupd k v m)"
| "hash_loop _ h m = (h, m)"

definition HashSecret :: "Secret \<Rightarrow> string list \<Rightarrow> Secret" where
  "HashSecret secret kvs = (
     let (h, m) = hash_loop kvs fnv_offset64 fmempty; hash = FormatUint h
     in ObjectMeta.extend (hashed_meta (Namespace secret) (Name secret @ ''-'' @ hash) (Name secret) hash)
          \<lparr>Secret_Type = '''', Data = Some m, StringData = None\<rparr>)"

text \<open>\<open>for k, v := range src { data[k] = v }\<close>.\<close>

definition copy_into :: "(string, string) fmap \<Rightarrow> string gomap \<Rightarrow> (string, string) fmap" where
  "copy_into m from_map = (case from_map of None \<Rightarrow> m | Some s \<Rightarrow> fmadd m s)"

definition PrometheusAdapterSecret :: "'w Factory \<Rightarrow> Secret \<Rightarrow> ConfigMap \<Rightarrow> Secret res" where
  "PrometheusAdapterSecret f tlsSecret apiAuthConfigmap = (
     let m = copy_into (copy_into fmempty (Data tlsSecret)) (CM_Data apiAuthConfigmap);
         r = newErrMapReader (Some m);
         (clientCA, r) = reader_value ''client-ca-file'' r;
         (requestheaderClientCA, r) = reader_value ''requestheader-client-ca-file'' r;
         (tlsCA, r) = reader_value ''tls.crt'' r;
         (tlsKey, r) = reader_value ''tls.key'' r
     in case reader_Error r of
          Some e \<Rightarrow> Err (Wrapped ''value not found in extension api server authentication configmap'' e)
        | None \<Rightarrow>
            let hash = FormatUint (fnv64 (clientCA @ requestheaderClientCA @ tlsCA @ tlsKey))
            in Ok (ObjectMeta.extend
                 (hashed_meta (fac_namespace f) (''prometheus-adapter-'' @ hash) ''prometheus-adapter'' hash)
                 \<lparr>Secret_Type = '''', Data = gm_of_list [
                    (''client-ca-file'', clientCA), (''requestheader-client-ca-file'', requestheaderClientCA),
                    (''tls.crt'', tlsCA), (''tls.key'', tlsKey)],
                  StringData = None\<rparr>))"

text \<open>The etcd client certificates are copied under new names; the object is not hashed.\<close>

definition PrometheusK8sEtcdSecret :: "'w Factory \<Rightarrow> Secret \<Rightarrow> ConfigMap \<Rightarrow> Secret res" where
  "PrometheusK8sEtcdSecret f tlsClient ca = (
     let m = copy_into (copy_into fmempty (Data tlsClient)) (CM_Data ca);
         r = newErrMapReader (Some m);
         (clientCA, r) = reader_value TrustedCABundleKey r;
         (clientCert, r) = reader_value ''tls.crt'' r;
         (clientKey, r) = reader_value ''tls.key'' r
     in case reader_Error r of
          Some e \<Rightarrow> Err (Wrapped ''couldn't find etcd certificate data'' e)
        | None \<Rightarrow> Ok (ObjectMeta.extend
            \<lparr>Name = ''kube-etcd-client-certs'', Namespace = fac_namespace f, Labels = None, Annotations = None,
             ResourceVersion = '''', Generation = 0\<rparr>
            \<lparr>Secret_Type = '''', Data = None, StringData = gm_of_list [
               (''etcd-client-ca.crt'', clientCA), (''etcd-client.key'', clientKey), (''etcd-client.crt'', clientCert)]\<rparr>))"

section \<open>Names and labels of hashed objects\<close>

lemma hashed_meta_simps [simp]:
  "Name (hashed_meta ns n l h) = n" "Namespace (hashed_meta ns n l h) = ns"
  "gm_lookup (Labels (hashed_meta ns n l h)) name_label = Some l"
  "gm_lookup (Labels (hashed_meta ns n l h)) hash_label = Some h"
  "Name (ObjectMeta.extend (hashed_meta ns n l h) x) = n"
  "Namespace (ObjectMeta.extend (hashed_meta ns n l h) x) = ns"
  "Labels (ObjectMeta.extend (hashed_meta ns n l h) x) = Labels (hashed_meta ns n l h)"
  by (simp_all add: hashed_meta_def name_label_def hash_label_def ObjectMeta.defs)

text \<open>A hash is safe in a label selector.\<close>

lemma FormatUint_selector_safe [simp]: "selector_safe (FormatUint h)"
proof -
  have "c \<noteq> CHR '','' \<and> c \<noteq> CHR ''='' \<and> c \<noteq> CHR ''!''" if "c \<in> set base32_digits" for c
    using that by (auto simp: base32_digits_def)
  then show ?thesis using set_FormatUint [of h] by (auto simp: selector_safe_def list_all_iff)
qed

fun hashed_values :: "string list \<Rightarrow> string" where
  "hashed_values (k # v # kvs) = v @ hashed_values kvs"
| "hashed_values _ = ''''"

fun hashed_pairs :: "string list \<Rightarrow> (string \<times> string) list" where
  "hashed_pairs (k # v # kvs) = (k, v) # hashed_pairs kvs"
| "hashed_pairs _ = []"

lemma hash_loop_eq:
  "hash_loop kvs h m = (fnv_Write h (hashed_values kvs), fold (\<lambda>(k, v). fmupd k v) (hashed_pairs kvs) m)"
  by (induction kvs h m rule: hash_loop.induct) (auto simp: fnv_Write_append)

lemma fold_fmupd_pairs: "fmlookup (fold (\<lambda>(k, v). fmupd k v) xs m) k =
    (case map_of (rev xs) k of None \<Rightarrow> fmlookup m k | Some v \<Rightarrow> Some v)"
proof (induction xs arbitrary: m)
  case (Cons x xs)
  then show ?case by (cases x) (auto simp: map_add_def split: option.splits)
qed simp

lemma HashSecret_simps [simp]:
  "Namespace (HashSecret s kvs) = Namespace s"
  "Name (HashSecret s kvs) = Name s @ ''-'' @ FormatUint (fnv64 (hashed_values kvs))"
  "gm_lookup (Labels (HashSecret s kvs)) name_label = Some (Name s)"
  "gm_lookup (Labels (HashSecret s kvs)) hash_label = Some (FormatUint (fnv64 (hashed_values kvs)))"
  by (simp_all add: HashSecret_def hash_loop_eq fnv64_def Let_def)

text \<open>
  The hashed copy of a secret holds exactly the given data (the last value of a key wins) under the
  name and the hash of the values. Two copies of one secret share a name exactly when the hashes of
  their concatenated values agree; so equal values give equal names, but so do values with the same
  concatenation, because the values are hashed without a separator.
\<close>

lemma HashSecret_content:
  "gm_lookup (Data (HashSecret s kvs)) k = map_of (rev (hashed_pairs kvs)) k \<and>
   (Name (HashSecret s kvs) = Name (HashSecret s kvs') \<longleftrightarrow> fnv64 (hashed_values kvs) = fnv64 (hashed_values kvs')) \<and>
   Name (HashSecret s [k1, a @ b, k2, c]) = Name (HashSecret s [k1, a, k2, b @ c])"
proof -
  have "gm_lookup (Data (HashSecret s kvs)) k = map_of (rev (hashed_pairs kvs)) k"
    by (simp add: HashSecret_def hash_loop_eq ObjectMeta.defs fold_fmupd_pairs Let_def split: option.split)
  then show ?thesis by simp
qed

end
