(* ===== verification/Ca_Bundle.thy ===== *)
theory Ca_Bundle
  imports Factory_Hash
begin

text \<open>
  The syncer of trusted authorities of \<open>pkg/tasks/helpers.go\<close>: it makes sure that the root config map
  exists, waits until the cluster has injected a bundle into it, and publishes the bundle under a name
  that carries its hash, so that the workloads that mount it are restarted when it changes.
\<close>

section \<open>The syncer\<close>

text \<open>
  The condition of the poll: the closure keeps the last complaint, and hands out the config map that it
  accepts.
\<close>

definition bundle_complaint :: "ConfigMap \<Rightarrow> error option" where
  "bundle_complaint cm = (case gm_lookup (CM_Data cm) TrustedCABundleKey of
      None \<Rightarrow> Some (ErrorString ''key missing'')
    | Some v \<Rightarrow> if v = '''' then Some (ErrorString ''empty value'') else None)"

definition bundle_condition :: "'w Client \<Rightarrow> ConfigMap \<Rightarrow> ((ConfigMap option, 'w) closure, bool) prog" where
  "bundle_condition c trustedCA =
     p_catch (world_call (GetConfigmap c (Namespace trustedCA) (Name trustedCA))) (\<lambda>r. case r of
         Inl e \<Rightarrow> not_yet (Wrapped ''retrieving ConfigMap object failed'' e)
       | Inr cm \<Rightarrow> conclude (bundle_complaint cm) (Some cm))"

text \<open>A time-out is reported together with the last complaint.\<close>

definition wait_for_bundle :: "'w Client \<Rightarrow> ConfigMap \<Rightarrow> ('w, ConfigMap option) prog" where
  "wait_for_bundle c trustedCA = (\<lambda>w.
     case PollImmediate 5 300 (world_tick (next_tick c)) (bundle_condition c trustedCA) ((None, None), w) of
       (Ok u, ((lastErr, lastCM), w')) \<Rightarrow> (Ok lastCM, w')
     | (Panic, ((lastErr, lastCM), w')) \<Rightarrow> (Panic, w')
     | (Err e, ((lastErr, lastCM), w')) \<Rightarrow>
         (Err (Wrapped (''waiting for config map key '' @ quote @ TrustedCABundleKey @ quote @ '' in '' @
              Namespace trustedCA @ ''/'' @ Name trustedCA @ '' ConfigMap object failed'')
            (case lastErr of
               None \<Rightarrow> e
             | Some l \<Rightarrow> if e = ErrWaitTimeout then ErrorString (error_message e @ '': '' @ error_message l) else e)), w'))"

definition syncTrustedCABundle :: "string \<Rightarrow> 'w Client \<Rightarrow> 'w Factory \<Rightarrow> ConfigMap \<Rightarrow> ('w, ConfigMap) prog" where
  "syncTrustedCABundle prefix c f trustedCA =
     attempt '' creating root trusted CA bundle ConfigMap failed'' (CreateIfNotExistConfigMap c trustedCA) (\<lambda>trustedCA.
     p_bind (wait_for_bundle c trustedCA) (\<lambda>lastCM.
     p_bind (p_return (deref lastCM)) (\<lambda>lastCM.
     attempt ''hashing trusted CA bundle failed'' (p_return (HashTrustedCA f lastCM prefix)) (\<lambda>hashedCM.
     attempt ''reconciling trusted CA bundle ConfigMap failed'' (CreateOrUpdateConfigMap c hashedCM) (\<lambda>_.
     attempt ''deleting old trusted CA bundle configmaps failed''
       (DeleteHashedConfigMap c (Namespace trustedCA) prefix (gm_get (Labels hashedCM) hash_label)) (\<lambda>_.
     p_return (Ok hashedCM)))))))"

end
