(* ===== verification/Tasks_Platform.thy ===== *)
theory Tasks_Platform
  imports Ca_Bundle Factory_Prometheus Client_Wait Tls_Rotation
begin

text \<open>
  The tasks of \<open>pkg/tasks\<close> that reconcile the platform's own monitoring, one definition per method, in
  the order in which \<open>sync\<close> lists them. A task builds every object with the factory and applies it with
  the client, and stops at the first error, which it wraps with what it was doing; \<open>c\<close> is the client,
  \<open>f\<close> the factory and \<open>cfg\<close> the configuration of the task.
\<close>

definition quoted :: "string \<Rightarrow> string" where
  "quoted s = quote @ s @ quote"

text \<open>\<open>d.Datasources[0].BasicAuthPassword\<close>, without a check that there is a data source.\<close>

definition first_password :: "GrafanaDatasources \<Rightarrow> string res" where
  "first_password d = (case Datasources d of
      [] \<Rightarrow> Panic
    | x # _ \<Rightarrow> r_bind (deref x) (\<lambda>x. Ok (BasicAuthPassword x)))"

section \<open>Prometheus operator\<close>

definition PrometheusOperatorTask_Run :: "'w Client \<Rightarrow> 'w Factory \<Rightarrow> ('w, unit) prog" where
  "PrometheusOperatorTask_Run c f =
     attempt ''initializing serving certs CA Bundle ConfigMap failed'' (PrometheusOperatorCertsCABundle f) (\<lambda>cacm.
     attempt ''creating serving certs CA Bundle ConfigMap failed'' (CreateIfNotExistConfigMap c cacm) (\<lambda>_.
     attempt ''initializing Prometheus Operator ServiceAccount failed'' (PrometheusOperatorServiceAccount f) (\<lambda>sa.
     attempt ''reconciling Prometheus Operator ServiceAccount failed'' (CreateOrUpdateServiceAccount c sa) (\<lambda>_.
     attempt ''initializing Prometheus Operator ClusterRole failed'' (PrometheusOperatorClusterRole f) (\<lambda>cr.
     attempt ''reconciling Prometheus Operator ClusterRole failed'' (CreateOrUpdateClusterRole c cr) (\<lambda>_.
     attempt ''initializing Prometheus Operator ClusterRoleBinding failed''
       (PrometheusOperatorClusterRoleBinding f) (\<lambda>crb.
     attempt ''reconciling Prometheus Operator ClusterRoleBinding failed''
       (CreateOrUpdateClusterRoleBinding c crb) (\<lambda>_.
     attempt ''initializing Prometheus Operator Service failed'' (PrometheusOperatorService f) (\<lambda>svc.
     attempt ''reconciling Prometheus Operator Service failed'' (CreateOrUpdateService c svc) (\<lambda>_.
     attempt ''listing namespaces to monitor failed'' (NamespacesToMonitor c) (\<lambda>clusterNamespaces.
     attempt ''initializing Prometheus Operator Deployment failed''
       (PrometheusOperatorDeployment f clusterNamespaces) (\<lambda>d.
     attempt ''reconciling Prometheus Operator Deployment failed'' (CreateOrUpdateDeployment c d) (\<lambda>_.
     attempt ''waiting for Prometheus Operator CRs to become available failed''
       (AssurePrometheusOperatorCRsExist c) (\<lambda>_.
     attempt ''initializing Prometheus Rule Validating Webhook failed'' (PrometheusRuleValidatingWebhook f) (\<lambda>w.
     attempt ''reconciling Prometheus Rule Validating Webhook failed''
       (CreateOrUpdateValidatingWebhookConfiguration c w) (\<lambda>_.
     attempt ''initializing Prometheus Operator ServiceMonitor failed'' (PrometheusOperatorServiceMonitor f) (\<lambda>smpo.
     p_wrap ''reconciling Prometheus Operator ServiceMonitor failed''
       (CreateOrUpdateServiceMonitor c smpo))))))))))))))))))"

section \<open>Cluster monitoring operator\<close>

text \<open>
  The four cluster roles are the values of a Go map, visited in any order (\<open>map_order\<close>). The secret of
  the internal certificates is the stored one or the empty one of the manifest, with the certificates
  that are due renewed; \<open>checked\<close> and \<open>issued\<close> are the readings of the clock.
\<close>

definition monitoring_cluster_role :: "'w Factory \<Rightarrow> string \<Rightarrow> ('w, ClusterRole) prog" where
  "monitoring_cluster_role f name = (
     if name = ''cluster-monitoring-view'' then ClusterMonitoringClusterRole f
     else if name = ''monitoring-rules-edit'' then ClusterMonitoringRulesEditClusterRole f
     else if name = ''monitoring-rules-view'' then ClusterMonitoringRulesViewClusterRole f
     else ClusterMonitoringEditClusterRole f)"

definition rotated :: "'leaf crypto \<Rightarrow> int \<Rightarrow> int \<Rightarrow> Secret \<Rightarrow> Secret res" where
  "rotated cr checked issued s = (case RotateGRPCSecret cr checked issued s of
      (Ok _, s') \<Rightarrow> Ok s'
    | (Err e, _) \<Rightarrow> Err e
    | (Panic, _) \<Rightarrow> Panic)"

definition ClusterMonitoringOperatorTask_Run :: "'leaf crypto \<Rightarrow> int \<Rightarrow> int \<Rightarrow> 'w Client \<Rightarrow> 'w Factory \<Rightarrow> ('w, unit) prog" where
  "ClusterMonitoringOperatorTask_Run cr checked issued c f =
     attempt ''initializing Cluster Monitoring Operator Service failed'' (ClusterMonitoringOperatorService f) (\<lambda>svc.
     attempt ''reconciling Cluster Monitoring Operator Service failed'' (CreateOrUpdateService c svc) (\<lambda>_.
     p_bind (p_for (map_order f [''cluster-monitoring-view'', ''monitoring-rules-edit'', ''monitoring-rules-view'', ''monitoring-edit''])
       (\<lambda>name.
         attempt (''initializing '' @ name @ '' ClusterRole failed'') (monitoring_cluster_role f name) (\<lambda>cr.
         p_wrap (''reconciling '' @ name @ '' ClusterRole failed'') (CreateOrUpdateClusterRole c cr)))) (\<lambda>_.
     attempt ''initializing UserWorkloadConfigEdit Role failed'' (ClusterMonitoringEditUserWorkloadConfigRole f) (\<lambda>uwcr.
     attempt ''reconciling UserWorkloadConfigEdit Role failed'' (CreateOrUpdateRole c uwcr) (\<lambda>_.
     attempt ''initializing Cluster Monitoring Operator ServiceMonitor failed'' (ClusterMonitoringOperatorServiceMonitor f) (\<lambda>smcmo.
     attempt ''reconciling Cluster Monitoring Operator ServiceMonitor failed'' (CreateOrUpdateServiceMonitor c smcmo) (\<lambda>_.
     attempt ''error initializing Cluster Monitoring Operator GRPC TLS secret'' (GRPCSecret f) (\<lambda>s.
     p_catch (GetSecret c (Namespace s) (Name s)) (\<lambda>r. p_bind (p_return (case r of
         Inl e \<Rightarrow> if IsNotFound e then Ok s
                  else Err (Wrapped ''error reading Cluster Monitoring Operator GRPC TLS secret'' e)
       | Inr loaded \<Rightarrow> Ok loaded)) (\<lambda>s.
     attempt ''error rotating Cluster Monitoring Operator GRPC TLS secret'' (p_return (rotated cr checked issued s)) (\<lambda>s.
     p_wrap ''error creating Cluster Monitoring Operator GRPC TLS secret'' (CreateOrUpdateSecret c s))))))))))))"

section \<open>Grafana\<close>

definition GrafanaTask_Run :: "'w Client \<Rightarrow> 'w Factory \<Rightarrow> ('w, unit) prog" where
  "GrafanaTask_Run c f =
     attempt ''initializing Grafana ClusterRole failed'' (GrafanaClusterRole f) (\<lambda>cr.
     attempt ''reconciling Grafana ClusterRole failed'' (CreateOrUpdateClusterRole c cr) (\<lambda>_.
     attempt ''initializing Grafana ClusterRoleBinding failed'' (GrafanaClusterRoleBinding f) (\<lambda>crb.
     attempt ''reconciling Grafana ClusterRoleBinding failed'' (CreateOrUpdateClusterRoleBinding c crb) (\<lambda>_.
     attempt ''initializing Grafana Route failed'' (GrafanaRoute f) (\<lambda>r.
     attempt ''creating Grafana Route failed'' (CreateRouteIfNotExists c r) (\<lambda>_.
     attempt ''waiting for Grafana Route to become ready failed'' (WaitForRouteReady c r) (\<lambda>_.
     attempt ''initializing Grafana proxy Secret failed'' (GrafanaProxySecret f) (\<lambda>ps.
     attempt ''creating Grafana proxy Secret failed'' (CreateIfNotExistSecret c ps) (\<lambda>_.
     attempt ''initializing Grafana Config Secret failed'' (GrafanaConfig_secret f) (\<lambda>smc.
     attempt ''reconciling Grafana Config Secret failed'' (CreateOrUpdateSecret c smc) (\<lambda>_.
     attempt ''initializing Grafana Datasources Secret failed'' (GrafanaDatasources_secret f) (\<lambda>sds.
     attempt ''reconciling Grafana Datasources Secret failed'' (CreateIfNotExistSecret c sds) (\<lambda>_.
     attempt ''initializing Grafana Dashboard Definitions ConfigMaps failed'' (GrafanaDashboardDefinitions f) (\<lambda>cmdds.
     attempt ''reconciling Grafana Dashboard Definitions ConfigMaps failed''
       (CreateOrUpdateConfigMapList c cmdds) (\<lambda>_.
     attempt ''initializing Grafana Dashboard Sources ConfigMap failed'' (GrafanaDashboardSources f) (\<lambda>cmdbs.
     attempt ''reconciling Grafana Dashboard Sources ConfigMap failed'' (CreateOrUpdateConfigMap c cmdbs) (\<lambda>_.
     attempt ''initializing Grafana ServiceAccount failed'' (GrafanaServiceAccount f) (\<lambda>sa.
     attempt ''reconciling Grafana ServiceAccount failed'' (CreateOrUpdateServiceAccount c sa) (\<lambda>_.
     attempt ''initializing Grafana Service failed'' (GrafanaService f) (\<lambda>svc.
     attempt ''reconciling Grafana Service failed'' (CreateOrUpdateService c svc) (\<lambda>_.
     attempt ''initializing Grafana CA bundle ConfigMap failed'' (GrafanaTrustedCABundle f) (\<lambda>trustedCA.
     attempt ''syncing Grafana CA bundle ConfigMap failed''
       (syncTrustedCABundle ''grafana'' c f trustedCA) (\<lambda>trustedCA.
     attempt ''initializing Grafana Deployment failed'' (GrafanaDeployment f (Some trustedCA)) (\<lambda>d.
     attempt ''reconciling Grafana Deployment failed'' (CreateOrUpdateDeployment c d) (\<lambda>_.
     attempt ''initializing Grafana ServiceMonitor failed'' (GrafanaServiceMonitor f) (\<lambda>sm.
     p_wrap ''reconciling Grafana ServiceMonitor failed''
       (CreateOrUpdateServiceMonitor c sm)))))))))))))))))))))))))))"

section \<open>Prometheus and Alertmanager\<close>

text \<open>The certificates and the route; the result is the host of the route.\<close>

definition PrometheusTask_route :: "'w Client \<Rightarrow> 'w Factory \<Rightarrow> ('w, string) prog" where
  "PrometheusTask_route c f =
     attempt ''initializing serving certs CA Bundle ConfigMap failed'' (PrometheusK8sServingCertsCABundle f) (\<lambda>cacm.
     attempt ''creating serving certs CA Bundle ConfigMap failed'' (CreateIfNotExistConfigMap c cacm) (\<lambda>_.
     attempt ''openshift-config-managed/kubelet-serving-ca''
       (GetConfigmap c ''openshift-config-managed'' ''kubelet-serving-ca'') (\<lambda>kscm.
     attempt ''initializing kubelet serving CA Bundle ConfigMap failed''
       (PrometheusK8sKubeletServingCABundle f (CM_Data kscm)) (\<lambda>cacm.
     attempt ''creating kubelet serving CA Bundle ConfigMap failed'' (CreateOrUpdateConfigMap c cacm) (\<lambda>_.
     attempt ''initializing Prometheus Route failed'' (PrometheusK8sRoute f) (\<lambda>r.
     attempt ''creating Prometheus Route failed'' (CreateRouteIfNotExists c r) (\<lambda>_.
     attempt ''waiting for Prometheus Route to become ready failed'' (WaitForRouteReady c r) (\<lambda>host.
     p_return (Ok host)))))))))"

text \<open>The secrets of the proxies; the password is the one of the stored data source of Grafana.\<close>

definition PrometheusTask_secrets :: "'w Client \<Rightarrow> 'w Factory \<Rightarrow> ('w, unit) prog" where
  "PrometheusTask_secrets c f =
     attempt ''initializing Prometheus proxy Secret failed'' (PrometheusK8sProxySecret f) (\<lambda>ps.
     attempt ''creating Prometheus proxy Secret failed'' (CreateIfNotExistSecret c ps) (\<lambda>_.
     attempt ''initializing Grafana Datasources Secret failed'' (GrafanaDatasources_secret f) (\<lambda>gs.
     attempt ''waiting for Grafana Datasources Secret failed'' (WaitForSecret c gs) (\<lambda>gs.
     p_bind (p_return (deref gs)) (\<lambda>gs.
     attempt ''unmarshalling grafana datasource failed''
       (p_return (decoded (unmarshal_datasources f (gm_get (Data gs) ''prometheus.yaml'')))) (\<lambda>d.
     p_bind (p_return (first_password d)) (\<lambda>pw.
     attempt ''initializing Prometheus htpasswd Secret failed'' (PrometheusK8sHtpasswdSecret f pw) (\<lambda>hs.
     attempt ''creating Prometheus htpasswd Secret failed'' (CreateIfNotExistSecret c hs) (\<lambda>_.
     attempt ''initializing Prometheus RBAC proxy Secret failed'' (PrometheusRBACProxySecret f) (\<lambda>rs.
     attempt ''creating Prometheus RBAC proxy Secret failed'' (CreateIfNotExistSecret c rs) (\<lambda>_.
     p_return (Ok ()))))))))))))"

text \<open>The account, its roles and the bindings.\<close>

definition PrometheusTask_access :: "'w Client \<Rightarrow> 'w Factory \<Rightarrow> ('w, unit) prog" where
  "PrometheusTask_access c f =
     attempt ''initializing Prometheus ServiceAccount failed'' (PrometheusK8sServiceAccount f) (\<lambda>sa.
     attempt ''reconciling Prometheus ServiceAccount failed'' (CreateOrUpdateServiceAccount c sa) (\<lambda>_.
     attempt ''initializing Prometheus ClusterRole failed'' (PrometheusK8sClusterRole f) (\<lambda>cr.
     attempt ''reconciling Prometheus ClusterRole failed'' (CreateOrUpdateClusterRole c cr) (\<lambda>_.
     attempt ''initializing Prometheus ClusterRoleBinding failed'' (PrometheusK8sClusterRoleBinding f) (\<lambda>crb.
     attempt ''reconciling Prometheus ClusterRoleBinding failed'' (CreateOrUpdateClusterRoleBinding c crb) (\<lambda>_.
     attempt ''initializing Prometheus Role config failed'' (PrometheusK8sRoleConfig f) (\<lambda>rc.
     attempt ''reconciling Prometheus Role config failed'' (CreateOrUpdateRole c rc) (\<lambda>_.
     attempt ''initializing Prometheus Role failed'' (PrometheusK8sRoleList f) (\<lambda>rl.
     p_bind (p_for rl (\<lambda>r.
       p_wrap (''reconciling Prometheus Role '' @ quoted (Name r) @ '' failed'') (CreateOrUpdateRole c r))) (\<lambda>_.
     attempt ''initializing Prometheus RoleBinding failed'' (PrometheusK8sRoleBindingList f) (\<lambda>rbl.
     p_bind (p_for rbl (\<lambda>rb.
       p_wrap (''reconciling Prometheus RoleBinding '' @ quoted (Name rb) @ '' failed'') (CreateOrUpdateRoleBinding c rb))) (\<lambda>_.
     attempt ''initializing Prometheus config RoleBinding failed'' (PrometheusK8sRoleBindingConfig f) (\<lambda>rbc.
     attempt ''reconciling Prometheus config RoleBinding failed'' (CreateOrUpdateRoleBinding c rbc) (\<lambda>_.
     p_return (Ok ())))))))))))))))"

text \<open>The rules, the services and, with etcd monitoring, the client certificate of etcd.\<close>

definition PrometheusTask_services :: "'w Client \<Rightarrow> 'w Factory \<Rightarrow> Config \<Rightarrow> ('w, unit) prog" where
  "PrometheusTask_services c f cfg =
     attempt ''initializing Prometheus rules PrometheusRule failed'' (PrometheusK8sRules f) (\<lambda>pm.
     attempt ''reconciling Prometheus rules PrometheusRule failed'' (CreateOrUpdatePrometheusRule c pm) (\<lambda>_.
     attempt ''initializing Prometheus Service failed'' (PrometheusK8sService f) (\<lambda>svc.
     attempt ''reconciling Prometheus Service failed'' (CreateOrUpdateService c svc) (\<lambda>_.
     attempt ''initializing Thanos sidecar Service failed'' (PrometheusK8sServiceThanosSidecar f) (\<lambda>svc.
     attempt ''reconciling Thanos sidecar Service failed'' (CreateOrUpdateService c svc) (\<lambda>_.
     p_bind (p_return (config_etcd_enabled cfg)) (\<lambda>enabled.
     p_bind (if enabled then
       attempt ''failed to load etcd client CA''
         (GetConfigmap c ''openshift-config'' ''etcd-metric-serving-ca'') (\<lambda>etcdCA.
       attempt ''failed to load etcd client secret''
         (GetSecret c ''openshift-config'' ''etcd-metric-client'') (\<lambda>etcdClientSecret.
       attempt ''initializing prometheus etcd service monitor secret failed''
         (p_return (PrometheusK8sEtcdSecret f etcdClientSecret etcdCA)) (\<lambda>promEtcdSecret.
       attempt ''reconciling prometheus etcd service monitor secret'' (CreateOrUpdateSecret c promEtcdSecret) (\<lambda>_.
       p_return (Ok ())))))
     else p_return (Ok ())) (\<lambda>_.
     p_return (Ok ())))))))))"

text \<open>The certificates of the sidecar, published under their hash.\<close>

definition PrometheusTask_grpc :: "'w Client \<Rightarrow> 'w Factory \<Rightarrow> ('w, Secret) prog" where
  "PrometheusTask_grpc c f =
     attempt ''initializing Prometheus GRPC secret failed'' (GRPCSecret f) (\<lambda>grpcTLS.
     attempt ''waiting for Prometheus GRPC secret failed'' (WaitForSecret c grpcTLS) (\<lambda>grpcTLS.
     attempt ''error initializing Prometheus Client GRPC TLS secret'' (PrometheusK8sGrpcTLSSecret f) (\<lambda>s.
     p_bind (p_return (deref grpcTLS)) (\<lambda>grpcTLS.
     let s = HashSecret s [
       ''ca.crt'', gm_get (Data grpcTLS) ''ca.crt'',
       ''server.crt'', gm_get (Data grpcTLS) ''prometheus-server.crt'',
       ''server.key'', gm_get (Data grpcTLS) ''prometheus-server.key''] in
     attempt ''error creating Prometheus Client GRPC TLS secret'' (CreateOrUpdateSecret c s) (\<lambda>_.
     attempt ''error creating Prometheus Client GRPC TLS secret''
       (DeleteHashedSecret c (Namespace s) ''prometheus-k8s-grpc-tls'' (gm_get (Labels s) hash_label)) (\<lambda>_.
     p_return (Ok s)))))))"

text \<open>The Prometheus object with the trusted authorities.\<close>

definition PrometheusTask_object :: "'w Client \<Rightarrow> 'w Factory \<Rightarrow> string \<Rightarrow> Secret \<Rightarrow> ('w, unit) prog" where
  "PrometheusTask_object c f host s =
     attempt ''initializing Prometheus CA bundle ConfigMap failed'' (PrometheusK8sTrustedCABundle f) (\<lambda>trustedCA.
     attempt ''syncing Prometheus trusted CA bundle ConfigMap failed''
       (syncTrustedCABundle ''prometheus'' c f trustedCA) (\<lambda>trustedCA.
     attempt ''initializing Prometheus object failed'' (PrometheusK8s f host (Some s) (Some trustedCA)) (\<lambda>p.
     attempt ''reconciling Prometheus object failed'' (CreateOrUpdatePrometheus c p) (\<lambda>_.
     attempt ''waiting for Prometheus object changes failed'' (WaitForPrometheus c p) (\<lambda>_.
     p_return (Ok ()))))))"

text \<open>The service monitors, and the removal of those that other operators own now.\<close>

definition PrometheusTask_monitors :: "'w Client \<Rightarrow> 'w Factory \<Rightarrow> Config \<Rightarrow> ('w, unit) prog" where
  "PrometheusTask_monitors c f cfg =
     attempt ''initializing Prometheus kubelet ServiceMonitor failed'' (PrometheusK8sKubeletServiceMonitor f) (\<lambda>smk.
     attempt ''reconciling Prometheus kubelet ServiceMonitor failed'' (CreateOrUpdateServiceMonitor c smk) (\<lambda>_.
     attempt ''initializing Prometheus etcd ServiceMonitor failed'' (PrometheusK8sEtcdServiceMonitor f) (\<lambda>sme.
     p_bind (p_return (config_etcd_enabled cfg)) (\<lambda>enabled.
     p_bind (if enabled then
       attempt ''reconciling Prometheus etcd ServiceMonitor failed'' (CreateOrUpdateServiceMonitor c sme) (\<lambda>_.
       p_return (Ok ()))
     else attempt ''deleting Prometheus etcd ServiceMonitor failed'' (DeleteServiceMonitor c sme) (\<lambda>_.
       p_return (Ok ()))) (\<lambda>_.
     attempt ''initializing Prometheus Prometheus ServiceMonitor failed''
       (PrometheusK8sPrometheusServiceMonitor f) (\<lambda>smp.
     attempt ''reconciling Prometheus Prometheus ServiceMonitor failed'' (CreateOrUpdateServiceMonitor c smp) (\<lambda>_.
     attempt ''initializing Prometheus Thanos sidecar ServiceMonitor failed''
       (PrometheusK8sThanosSidecarServiceMonitor f) (\<lambda>smt.
     attempt ''reconciling Prometheus Thanos sidecar ServiceMonitor failed'' (CreateOrUpdateServiceMonitor c smt) (\<lambda>_.
     p_bind (p_for [''cluster-version-operator'', ''kube-apiserver'', ''kube-controller-manager'', ''kube-scheduler'', ''openshift-apiserver''] (\<lambda>name.
       p_wrap (''deleting Prometheus '' @ name @ '' ServiceMonitor failed'') (DeleteServiceMonitorByNamespaceAndName c (namespace c) name))) (\<lambda>_.
     p_return (Ok ())))))))))))"

definition PrometheusTask_Run :: "'w Client \<Rightarrow> 'w Factory \<Rightarrow> Config \<Rightarrow> ('w, unit) prog" where
  "PrometheusTask_Run c f cfg =
     p_bind (PrometheusTask_route c f) (\<lambda>host.
     p_bind (PrometheusTask_secrets c f) (\<lambda>_.
     p_bind (PrometheusTask_access c f) (\<lambda>_.
     p_bind (PrometheusTask_services c f cfg) (\<lambda>_.
     p_bind (PrometheusTask_grpc c f) (\<lambda>s.
     p_bind (PrometheusTask_object c f host s) (\<lambda>_.
     PrometheusTask_monitors c f cfg))))))"

definition AlertmanagerTask_Run :: "'w Client \<Rightarrow> 'w Factory \<Rightarrow> ('w, unit) prog" where
  "AlertmanagerTask_Run c f =
     attempt ''initializing Alertmanager Route failed'' (AlertmanagerRoute f) (\<lambda>r.
     attempt ''creating Alertmanager Route failed'' (CreateRouteIfNotExists c r) (\<lambda>_.
     attempt ''waiting for Alertmanager Route to become ready failed'' (WaitForRouteReady c r) (\<lambda>host.
     attempt ''initializing Alertmanager configuration Secret failed'' (AlertmanagerConfig f) (\<lambda>s.
     attempt ''creating Alertmanager configuration Secret failed'' (CreateIfNotExistSecret c s) (\<lambda>_.
     attempt ''initializing Alertmanager RBAC proxy Secret failed'' (AlertmanagerRBACProxySecret f) (\<lambda>rs.
     attempt ''creating Alertmanager RBAC proxy Secret failed'' (CreateIfNotExistSecret c rs) (\<lambda>_.
     attempt ''initializing Alertmanager ClusterRole failed'' (AlertmanagerClusterRole f) (\<lambda>cr.
     attempt ''reconciling Alertmanager ClusterRole failed'' (CreateOrUpdateClusterRole c cr) (\<lambda>_.
     attempt ''initializing Alertmanager ClusterRoleBinding failed'' (AlertmanagerClusterRoleBinding f) (\<lambda>crb.
     attempt ''reconciling Alertmanager ClusterRoleBinding failed'' (CreateOrUpdateClusterRoleBinding c crb) (\<lambda>_.
     attempt ''initializing Alertmanager ServiceAccount failed'' (AlertmanagerServiceAccount f) (\<lambda>sa.
     attempt ''reconciling Alertmanager ServiceAccount failed'' (CreateOrUpdateServiceAccount c sa) (\<lambda>_.
     attempt ''initializing Alertmanager proxy Secret failed'' (AlertmanagerProxySecret f) (\<lambda>ps.
     attempt ''creating Alertmanager proxy Secret failed'' (CreateIfNotExistSecret c ps) (\<lambda>_.
     attempt ''initializing Alertmanager Service failed'' (AlertmanagerService f) (\<lambda>svc.
     attempt ''reconciling Alertmanager Service failed'' (CreateOrUpdateService c svc) (\<lambda>_.
     attempt ''initializing Alertmanager CA bundle ConfigMap failed'' (AlertmanagerTrustedCABundle f) (\<lambda>trustedCA.
     attempt ''syncing Thanos Querier trusted CA bundle ConfigMap failed''
       (syncTrustedCABundle ''alertmanager'' c f trustedCA) (\<lambda>trustedCA.
     attempt ''initializing Alertmanager object failed'' (AlertmanagerMain f host (Some trustedCA)) (\<lambda>a.
     attempt ''reconciling Alertmanager object failed'' (CreateOrUpdateAlertmanager c a) (\<lambda>_.
     attempt ''waiting for Alertmanager object changes failed'' (WaitForAlertmanager c a) (\<lambda>_.
     attempt ''initializing Alertmanager ServiceMonitor failed'' (AlertmanagerServiceMonitor f) (\<lambda>smam.
     p_wrap ''reconciling Alertmanager ServiceMonitor failed''
       (CreateOrUpdateServiceMonitor c smam))))))))))))))))))))))))"

section \<open>Exporters\<close>

definition NodeExporterTask_Run :: "'w Client \<Rightarrow> 'w Factory \<Rightarrow> ('w, unit) prog" where
  "NodeExporterTask_Run c f =
     attempt ''initializing node-exporter SecurityContextConstraints failed''
       (NodeExporterSecurityContextConstraints f) (\<lambda>scc.
     attempt ''reconciling node-exporter SecurityContextConstraints failed''
       (CreateOrUpdateSecurityContextConstraints c scc) (\<lambda>_.
     attempt ''initializing node-exporter Service failed'' (NodeExporterServiceAccount f) (\<lambda>sa.
     attempt ''reconciling node-exporter ServiceAccount failed'' (CreateOrUpdateServiceAccount c sa) (\<lambda>_.
     attempt ''initializing node-exporter ClusterRole failed'' (NodeExporterClusterRole f) (\<lambda>cr.
     attempt ''reconciling node-exporter ClusterRole failed'' (CreateOrUpdateClusterRole c cr) (\<lambda>_.
     attempt ''initializing node-exporter ClusterRoleBinding failed'' (NodeExporterClusterRoleBinding f) (\<lambda>crb.
     attempt ''reconciling node-exporter ClusterRoleBinding failed'' (CreateOrUpdateClusterRoleBinding c crb) (\<lambda>_.
     attempt ''initializing node-exporter Service failed'' (NodeExporterService f) (\<lambda>svc.
     attempt ''reconciling node-exporter Service failed'' (CreateOrUpdateService c svc) (\<lambda>_.
     attempt ''initializing node-exporter DaemonSet failed'' (NodeExporterDaemonSet f) (\<lambda>ds.
     attempt ''reconciling node-exporter DaemonSet failed'' (CreateOrUpdateDaemonSet c ds) (\<lambda>_.
     attempt ''initializing node-exporter ServiceMonitor failed'' (NodeExporterServiceMonitor f) (\<lambda>smn.
     p_wrap ''reconciling node-exporter ServiceMonitor failed'' (CreateOrUpdateServiceMonitor c smn))))))))))))))"

definition KubeStateMetricsTask_Run :: "'w Client \<Rightarrow> 'w Factory \<Rightarrow> ('w, unit) prog" where
  "KubeStateMetricsTask_Run c f =
     attempt ''initializing kube-state-metrics Service failed'' (KubeStateMetricsServiceAccount f) (\<lambda>sa.
     attempt ''reconciling kube-state-metrics ServiceAccount failed'' (CreateOrUpdateServiceAccount c sa) (\<lambda>_.
     attempt ''initializing kube-state-metrics ClusterRole failed'' (KubeStateMetricsClusterRole f) (\<lambda>cr.
     attempt ''reconciling kube-state-metrics ClusterRole failed'' (CreateOrUpdateClusterRole c cr) (\<lambda>_.
     attempt ''initializing kube-state-metrics ClusterRoleBinding failed''
       (KubeStateMetricsClusterRoleBinding f) (\<lambda>crb.
     attempt ''reconciling kube-state-metrics ClusterRoleBinding failed''
       (CreateOrUpdateClusterRoleBinding c crb) (\<lambda>_.
     attempt ''initializing kube-state-metrics Service failed'' (KubeStateMetricsService f) (\<lambda>svc.
     attempt ''reconciling kube-state-metrics Service failed'' (CreateOrUpdateService c svc) (\<lambda>_.
     attempt ''initializing kube-state-metrics Deployment failed'' (KubeStateMetricsDeployment f) (\<lambda>dep.
     attempt ''reconciling kube-state-metrics Deployment failed'' (CreateOrUpdateDeployment c dep) (\<lambda>_.
     attempt ''initializing kube-state-metrics ServiceMonitor failed'' (KubeStateMetricsServiceMonitor f) (\<lambda>sm.
     p_wrap ''reconciling kube-state-metrics ServiceMonitor failed'' (CreateOrUpdateServiceMonitor c sm))))))))))))"

definition OpenShiftStateMetricsTask_Run :: "'w Client \<Rightarrow> 'w Factory \<Rightarrow> ('w, unit) prog" where
  "OpenShiftStateMetricsTask_Run c f =
     attempt ''initializing openshift-state-metrics Service failed'' (OpenShiftStateMetricsServiceAccount f) (\<lambda>sa.
     attempt ''reconciling openshift-state-metrics ServiceAccount failed'' (CreateOrUpdateServiceAccount c sa) (\<lambda>_.
     attempt ''initializing openshift-state-metrics ClusterRole failed'' (OpenShiftStateMetricsClusterRole f) (\<lambda>cr.
     attempt ''reconciling openshift-state-metrics ClusterRole failed'' (CreateOrUpdateClusterRole c cr) (\<lambda>_.
     attempt ''initializing openshift-state-metrics ClusterRoleBinding failed''
       (OpenShiftStateMetricsClusterRoleBinding f) (\<lambda>crb.
     attempt ''reconciling openshift-state-metrics ClusterRoleBinding failed''
       (CreateOrUpdateClusterRoleBinding c crb) (\<lambda>_.
     attempt ''initializing openshift-state-metrics Service failed'' (OpenShiftStateMetricsService f) (\<lambda>svc.
     attempt ''reconciling openshift-state-metrics Service failed'' (CreateOrUpdateService c svc) (\<lambda>_.
     attempt ''initializing openshift-state-metrics Deployment failed'' (OpenShiftStateMetricsDeployment f) (\<lambda>dep.
     attempt ''reconciling openshift-state-metrics Deployment failed'' (CreateOrUpdateDeployment c dep) (\<lambda>_.
     attempt ''initializing openshift-state-metrics ServiceMonitor failed''
       (OpenShiftStateMetricsServiceMonitor f) (\<lambda>sm.
     p_wrap ''reconciling openshift-state-metrics ServiceMonitor failed''
       (CreateOrUpdateServiceMonitor c sm))))))))))))"

section \<open>Prometheus adapter\<close>

definition deleteOldPrometheusAdapterSecrets :: "'w Client \<Rightarrow> string \<Rightarrow> string \<Rightarrow> ('w, unit) prog" where
  "deleteOldPrometheusAdapterSecrets c ns newHash =
     attempt ''error listing prometheus adapter secrets''
       (r_List (Secrets c) ns (''monitoring.openshift.io/name=prometheus-adapter,monitoring.openshift.io/hash!='' @ newHash))
       (\<lambda>items. p_for items (\<lambda>x.
          p_wrap (''error deleting secret: '' @ Name x) (r_Delete (Secrets c) ns (Name x) DeleteDefault)))"

text \<open>The roles, the bindings and the account.\<close>

definition PrometheusAdapterTask_access :: "'w Client \<Rightarrow> 'w Factory \<Rightarrow> ('w, unit) prog" where
  "PrometheusAdapterTask_access c f =
     attempt ''initializing PrometheusAdapter ClusterRole failed'' (PrometheusAdapterClusterRole f) (\<lambda>cr.
     attempt ''reconciling PrometheusAdapter ClusterRole failed'' (CreateOrUpdateClusterRole c cr) (\<lambda>_.
     attempt ''initializing PrometheusAdapter ClusterRole for server resources failed''
       (PrometheusAdapterClusterRoleServerResources f) (\<lambda>cr.
     attempt ''reconciling PrometheusAdapter ClusterRole for server resources failed''
       (CreateOrUpdateClusterRole c cr) (\<lambda>_.
     attempt ''initializing PrometheusAdapter ClusterRole aggregating resource metrics read permissions failed''
       (PrometheusAdapterClusterRoleAggregatedMetricsReader f) (\<lambda>cr.
     attempt ''reconciling PrometheusAdapter ClusterRole aggregating resource metrics read permissions failed''
       (CreateOrUpdateClusterRole c cr) (\<lambda>_.
     attempt ''initializing PrometheusAdapter ClusterRoleBinding failed''
       (PrometheusAdapterClusterRoleBinding f) (\<lambda>crb.
     attempt ''reconciling PrometheusAdapter ClusterRoleBinding failed'' (CreateOrUpdateClusterRoleBinding c crb) (\<lambda>_.
     attempt ''initializing PrometheusAdapter ClusterRoleBinding for delegator failed''
       (PrometheusAdapterClusterRoleBindingDelegator f) (\<lambda>crb.
     attempt ''reconciling PrometheusAdapter ClusterRoleBinding for delegator failed''
       (CreateOrUpdateClusterRoleBinding c crb) (\<lambda>_.
     attempt ''initializing PrometheusAdapter ClusterRoleBinding for view failed''
       (PrometheusAdapterClusterRoleBindingView f) (\<lambda>crb.
     attempt ''reconciling PrometheusAdapter ClusterRoleBinding for view failed''
       (CreateOrUpdateClusterRoleBinding c crb) (\<lambda>_.
     attempt ''initializing PrometheusAdapter RoleBinding for auth-reader failed''
       (PrometheusAdapterRoleBindingAuthReader f) (\<lambda>rb.
     attempt ''reconciling PrometheusAdapter RoleBinding for auth-reader failed''
       (CreateOrUpdateRoleBinding c rb) (\<lambda>_.
     attempt ''initializing PrometheusAdapter ServiceAccount failed'' (PrometheusAdapterServiceAccount f) (\<lambda>sa.
     attempt ''reconciling PrometheusAdapter ServiceAccount failed'' (CreateOrUpdateServiceAccount c sa) (\<lambda>_.
     p_return (Ok ())))))))))))))))))"

text \<open>The configuration, the service, the secret of certificates and the deployment.\<close>

definition PrometheusAdapterTask_workload :: "string \<Rightarrow> 'w Client \<Rightarrow> 'w Factory \<Rightarrow> ('w, unit) prog" where
  "PrometheusAdapterTask_workload ns c f =
     attempt ''initializing PrometheusAdapter ConfigMap failed'' (PrometheusAdapterConfigMap f) (\<lambda>cm.
     attempt ''reconciling PrometheusAdapter ConfigMap failed'' (CreateOrUpdateConfigMap c cm) (\<lambda>_.
     attempt ''initializing PrometheusAdapter ConfigMap for Prometheus failed''
       (PrometheusAdapterConfigMapPrometheus f) (\<lambda>cm.
     attempt ''reconciling PrometheusAdapter ConfigMap for Prometheus failed'' (CreateOrUpdateConfigMap c cm) (\<lambda>_.
     attempt ''initializing PrometheusAdapter Service failed'' (PrometheusAdapterService f) (\<lambda>s.
     attempt ''reconciling PrometheusAdapter Service failed'' (CreateOrUpdateService c s) (\<lambda>_.
     attempt ''failed to load prometheus-adapter-tls secret'' (GetSecret c ns ''prometheus-adapter-tls'') (\<lambda>tlsSecret.
     attempt ''failed to load kube-system/extension-apiserver-authentication configmap''
       (GetConfigmap c ''kube-system'' ''extension-apiserver-authentication'') (\<lambda>apiAuthConfigmap.
     attempt ''failed to create prometheus adapter secret''
       (p_return (PrometheusAdapterSecret f tlsSecret apiAuthConfigmap)) (\<lambda>secret.
     attempt ''deleting old prometheus adapter secrets failed''
       (deleteOldPrometheusAdapterSecrets c ns (gm_get (Labels secret) hash_label)) (\<lambda>_.
     attempt ''reconciling PrometheusAdapter Secret failed'' (CreateOrUpdateSecret c secret) (\<lambda>_.
     attempt ''initializing PrometheusAdapter Deployment failed''
       (PrometheusAdapterDeployment f (Name secret) (CM_Data apiAuthConfigmap)) (\<lambda>dep.
     attempt ''reconciling PrometheusAdapter Deployment failed'' (CreateOrUpdateDeployment c dep) (\<lambda>_.
     attempt ''initializing PrometheusAdapter ServiceMonitor failed'' (PrometheusAdapterServiceMonitor f) (\<lambda>sm.
     attempt ''reconciling PrometheusAdapter ServiceMonitor failed'' (CreateOrUpdateServiceMonitor c sm) (\<lambda>_.
     attempt ''initializing PrometheusAdapter APIService failed'' (PrometheusAdapterAPIService f) (\<lambda>api.
     attempt ''reconciling PrometheusAdapter APIService failed'' (CreateOrUpdateAPIService c api) (\<lambda>_.
     p_return (Ok ()))))))))))))))))))"

definition PrometheusAdapterTask_Run :: "string \<Rightarrow> 'w Client \<Rightarrow> 'w Factory \<Rightarrow> ('w, unit) prog" where
  "PrometheusAdapterTask_Run ns c f =
     p_bind (PrometheusAdapterTask_access c f) (\<lambda>_.
     PrometheusAdapterTask_workload ns c f)"

section \<open>Telemeter client\<close>

text \<open>An error of the generator is swallowed: the expression is then empty.\<close>

definition generateTelemeterWhitelistRec :: "'w Factory \<Rightarrow> string list \<Rightarrow> string res" where
  "generateTelemeterWhitelistRec f telemetryMatches =
     (case GroupLabelSelectors (promql_parse f) (map_order f) telemetryMatches of
        Ok expr \<Rightarrow> Ok (''count('' @ expr @ '')'')
      | Err _ \<Rightarrow> Ok ''''
      | Panic \<Rightarrow> Panic)"

definition matches_of :: "Config \<Rightarrow> string list res" where
  "matches_of cfg = r_bind (deref (cfg_ClusterMonitoringConfiguration cfg)) (\<lambda>m.
     r_bind (deref (cmc_PrometheusK8sConfig m)) (\<lambda>p. Ok (pk_TelemetryMatches p)))"

definition TelemeterClientTask_create :: "'w Client \<Rightarrow> 'w Factory \<Rightarrow> Config \<Rightarrow> ('w, unit) prog" where
  "TelemeterClientTask_create c f cfg =
     attempt ''initializing Telemeter Client serving certs CA Bundle ConfigMap failed''
       (TelemeterClientServingCertsCABundle f) (\<lambda>cacm.
     attempt ''creating Telemeter Client serving certs CA Bundle ConfigMap failed''
       (CreateIfNotExistConfigMap c cacm) (\<lambda>_.
     attempt ''initializing Telemeter client Service failed'' (TelemeterClientServiceAccount f) (\<lambda>sa.
     attempt ''reconciling Telemeter client ServiceAccount failed'' (CreateOrUpdateServiceAccount c sa) (\<lambda>_.
     attempt ''initializing Telemeter client ClusterRole failed'' (TelemeterClientClusterRole f) (\<lambda>cr.
     attempt ''reconciling Telemeter client ClusterRole failed'' (CreateOrUpdateClusterRole c cr) (\<lambda>_.
     attempt ''initializing Telemeter client ClusterRoleBinding failed'' (TelemeterClientClusterRoleBinding f) (\<lambda>crb.
     attempt ''reconciling Telemeter client ClusterRoleBinding failed'' (CreateOrUpdateClusterRoleBinding c crb) (\<lambda>_.
     attempt ''initializing Telemeter client cluster monitoring view ClusterRoleBinding failed''
       (TelemeterClientClusterRoleBindingView f) (\<lambda>crb.
     attempt ''reconciling Telemeter client cluster monitoring view ClusterRoleBinding failed''
       (CreateOrUpdateClusterRoleBinding c crb) (\<lambda>_.
     attempt ''initializing Telemeter client Service failed'' (TelemeterClientService f) (\<lambda>svc.
     attempt ''reconciling Telemeter client Service failed'' (CreateOrUpdateService c svc) (\<lambda>_.
     attempt ''initializing Telemeter client Secret failed'' (TelemeterClientSecret f) (\<lambda>s.
     attempt ''reconciling Telemeter client Secret failed'' (CreateOrUpdateSecret c s) (\<lambda>_.
     attempt ''initializing Telemeter client trusted CA bundle ConfigMap failed''
       (TelemeterTrustedCABundle f) (\<lambda>trustedCA.
     attempt ''syncing Telemeter client CA bundle ConfigMap failed''
       (syncTrustedCABundle ''telemeter'' c f trustedCA) (\<lambda>trustedCA.
     attempt ''initializing Telemeter client Deployment failed'' (TelemeterClientDeployment f (Some trustedCA)) (\<lambda>dep.
     attempt ''reconciling Telemeter client Deployment failed'' (CreateOrUpdateDeployment c dep) (\<lambda>_.
     p_bind (p_return (matches_of cfg)) (\<lambda>matches.
     attempt ''generating Telemeter client Prometheus Rule failed''
       (p_return (generateTelemeterWhitelistRec f matches)) (\<lambda>expr.
     attempt ''initializing Telemeter client Prometheus Rule failed''
       (p_return (NewTelemeterPrometheusRecRuleFromString f expr)) (\<lambda>rule.
     attempt ''reconciling Telemeter client Prometheus Rule failed'' (CreateOrUpdatePrometheusRule c rule) (\<lambda>_.
     attempt ''initializing Telemeter client ServiceMonitor failed'' (TelemeterClientServiceMonitor f) (\<lambda>sm.
     p_wrap ''reconciling Telemeter client ServiceMonitor failed''
       (CreateOrUpdateServiceMonitor c sm))))))))))))))))))))))))"

definition TelemeterClientTask_destroy :: "'w Client \<Rightarrow> 'w Factory \<Rightarrow> ('w, unit) prog" where
  "TelemeterClientTask_destroy c f =
     attempt ''initializing Telemeter client Deployment failed'' (TelemeterClientDeployment f None) (\<lambda>dep.
     attempt ''deleting Telemeter client Deployment failed'' (DeleteDeployment c dep) (\<lambda>_.
     attempt ''initializing Telemeter client Secret failed'' (TelemeterClientSecret f) (\<lambda>s.
     attempt ''deleting Telemeter client Secret failed'' (DeleteSecret c s) (\<lambda>_.
     attempt ''initializing Telemeter client Service failed'' (TelemeterClientService f) (\<lambda>svc.
     attempt ''deleting Telemeter client Service failed'' (DeleteService c svc) (\<lambda>_.
     attempt ''initializing Telemeter client ClusterRoleBinding failed'' (TelemeterClientClusterRoleBinding f) (\<lambda>crb.
     attempt ''deleting Telemeter client ClusterRoleBinding failed'' (DeleteClusterRoleBinding c crb) (\<lambda>_.
     attempt ''initializing Telemeter client ClusterRole failed'' (TelemeterClientClusterRole f) (\<lambda>cr.
     attempt ''deleting Telemeter client ClusterRole failed'' (DeleteClusterRole c cr) (\<lambda>_.
     attempt ''initializing Telemeter client Service failed'' (TelemeterClientServiceAccount f) (\<lambda>sa.
     attempt ''deleting Telemeter client ServiceAccount failed'' (DeleteServiceAccount c sa) (\<lambda>_.
     attempt ''initializing Telemeter client ServiceMonitor failed'' (TelemeterClientServiceMonitor f) (\<lambda>sm.
     attempt ''deleting Telemeter client ServiceMonitor failed'' (DeleteServiceMonitor c sm) (\<lambda>_.
     attempt ''initializing Telemeter Client serving certs CA Bundle ConfigMap failed''
       (TelemeterClientServingCertsCABundle f) (\<lambda>cacm.
     p_wrap ''creating Telemeter Client serving certs CA Bundle ConfigMap failed''
       (DeleteConfigMap c cacm))))))))))))))))"

definition TelemeterClientTask_Run :: "'w Client \<Rightarrow> 'w Factory \<Rightarrow> Config \<Rightarrow> ('w, unit) prog" where
  "TelemeterClientTask_Run c f cfg =
     p_bind (p_return (deref (cfg_ClusterMonitoringConfiguration cfg))) (\<lambda>m.
       let enabled = TelemeterClientConfig_IsEnabled (cmc_TelemeterClientConfig m) in
       if enabled \<and> \<not> cfg_RemoteWrite cfg then TelemeterClientTask_create c f cfg
       else if \<not> enabled \<or> enabled \<and> cfg_RemoteWrite cfg then TelemeterClientTask_destroy c f
       else p_return (Ok ()))"

section \<open>Configuration sharing and Thanos querier\<close>

definition ConfigSharingTask_Run :: "'w Client \<Rightarrow> 'w Factory \<Rightarrow> ('w, unit) prog" where
  "ConfigSharingTask_Run c f =
     attempt ''initializing Prometheus Route failed'' (PrometheusK8sRoute f) (\<lambda>promRoute.
     attempt ''failed to retrieve Prometheus host'' (GetRouteURL c promRoute) (\<lambda>promURL.
     attempt ''initializing Alertmanager Route failed'' (AlertmanagerRoute f) (\<lambda>amRoute.
     attempt ''failed to retrieve Alertmanager host'' (GetRouteURL c amRoute) (\<lambda>amURL.
     attempt ''initializing Grafana Route failed'' (GrafanaRoute f) (\<lambda>grafanaRoute.
     attempt ''failed to retrieve Grafana host'' (GetRouteURL c grafanaRoute) (\<lambda>grafanaURL.
     attempt ''initializing Thanos Querier Route failed'' (ThanosQuerierRoute f) (\<lambda>thanosRoute.
     attempt ''failed to retrieve Thanos Querier host'' (GetRouteURL c thanosRoute) (\<lambda>thanosURL.
     p_bind (p_return (SharingConfig (Some promURL) (Some amURL) (Some grafanaURL) (Some thanosURL))) (\<lambda>cm.
     attempt (''reconciling '' @ Namespace cm @ ''/'' @ Name cm @ '' Config ConfigMap failed'')
       (CreateOrUpdateConfigMap c cm) (\<lambda>_.
     p_return (Ok ())))))))))))"

text \<open>The service, the route, the secrets of the proxies and the account.\<close>

definition ThanosQuerierTask_access :: "'w Client \<Rightarrow> 'w Factory \<Rightarrow> ('w, unit) prog" where
  "ThanosQuerierTask_access c f =
     attempt ''initializing Thanos Querier Service failed'' (ThanosQuerierService f) (\<lambda>svc.
     attempt ''reconciling Thanos Querier Service failed'' (CreateOrUpdateService c svc) (\<lambda>_.
     attempt ''initializing Thanos Querier Route failed'' (ThanosQuerierRoute f) (\<lambda>r.
     attempt ''creating Thanos Querier Route failed'' (CreateRouteIfNotExists c r) (\<lambda>_.
     attempt ''waiting for Thanos Querier Route to become ready failed'' (WaitForRouteReady c r) (\<lambda>_.
     attempt ''initializing Thanos Querier OAuth Cookie Secret failed'' (ThanosQuerierOauthCookieSecret f) (\<lambda>s.
     attempt ''creating Thanos Querier OAuth Cookie Secret failed'' (CreateIfNotExistSecret c s) (\<lambda>_.
     attempt ''initializing Grafana Datasources Secret failed'' (GrafanaDatasources_secret f) (\<lambda>gs.
     attempt ''waiting for Grafana Datasources Secret failed'' (WaitForSecret c gs) (\<lambda>gs.
     p_bind (p_return (deref gs)) (\<lambda>gs.
     attempt ''unmarshalling grafana datasource failed''
       (p_return (decoded (unmarshal_datasources f (gm_get (Data gs) ''prometheus.yaml'')))) (\<lambda>d.
     p_bind (p_return (first_password d)) (\<lambda>pw.
     attempt ''initializing Thanos Querier htpasswd Secret failed'' (ThanosQuerierHtpasswdSecret f pw) (\<lambda>hs.
     attempt ''creating Thanos Querier htpasswd Secret failed'' (CreateIfNotExistSecret c hs) (\<lambda>_.
     attempt ''initializing Thanos Querier RBAC proxy Secret failed'' (ThanosQuerierRBACProxySecret f) (\<lambda>rs.
     attempt ''creating Thanos Querier RBAC proxy Secret failed'' (CreateIfNotExistSecret c rs) (\<lambda>_.
     attempt ''initializing Thanos Querier RBAC proxy rules Secret failed''
       (ThanosQuerierRBACProxyRulesSecret f) (\<lambda>rs.
     attempt ''creating Thanos Querier RBAC proxy rules Secret failed'' (CreateIfNotExistSecret c rs) (\<lambda>_.
     attempt ''initializing Thanos Querier ServiceAccount failed'' (ThanosQuerierServiceAccount f) (\<lambda>sa.
     attempt ''reconciling Thanos Querier ServiceAccount failed'' (CreateOrUpdateServiceAccount c sa) (\<lambda>_.
     attempt ''initializing Thanos Querier ClusterRole failed'' (ThanosQuerierClusterRole f) (\<lambda>cr.
     attempt ''reconciling Thanos Querier ClusterRole failed'' (CreateOrUpdateClusterRole c cr) (\<lambda>_.
     attempt ''initializing Thanos Querier ClusterRoleBinding failed'' (ThanosQuerierClusterRoleBinding f) (\<lambda>crb.
     attempt ''reconciling Thanos Querier ClusterRoleBinding failed'' (CreateOrUpdateClusterRoleBinding c crb) (\<lambda>_.
     p_return (Ok ())))))))))))))))))))))))))"

text \<open>The certificates, the deployment and what monitors it.\<close>

definition ThanosQuerierTask_workload :: "'w Client \<Rightarrow> 'w Factory \<Rightarrow> Config \<Rightarrow> ('w, unit) prog" where
  "ThanosQuerierTask_workload c f cfg =
     attempt ''initializing Thanos Querier GRPC secret failed'' (GRPCSecret f) (\<lambda>grpcTLS.
     attempt ''waiting for Thanos Querier GRPC secret failed'' (WaitForSecret c grpcTLS) (\<lambda>grpcTLS.
     attempt ''error initializing Thanos Querier Client GRPC TLS secret'' (ThanosQuerierGrpcTLSSecret f) (\<lambda>s.
     p_bind (p_return (deref grpcTLS)) (\<lambda>grpcTLS.
     let s = HashSecret s [
       ''ca.crt'', gm_get (Data grpcTLS) ''ca.crt'',
       ''client.crt'', gm_get (Data grpcTLS) ''thanos-querier-client.crt'',
       ''client.key'', gm_get (Data grpcTLS) ''thanos-querier-client.key''] in
     attempt ''error creating Thanos Querier Client GRPC TLS secret'' (CreateOrUpdateSecret c s) (\<lambda>_.
     attempt ''error creating Thanos Querier Client GRPC TLS secret''
       (DeleteHashedSecret c (Namespace s) ''thanos-querier-grpc-tls'' (gm_get (Labels s) hash_label)) (\<lambda>_.
     attempt ''initializing Thanos Querier trusted CA bundle ConfigMap failed''
       (ThanosQuerierTrustedCABundle f) (\<lambda>trustedCA.
     attempt ''syncing Thanos Querier trusted CA bundle ConfigMap failed''
       (syncTrustedCABundle ''thanos-querier'' c f trustedCA) (\<lambda>trustedCA.
     p_bind (p_return (IsUserWorkloadEnabled cfg)) (\<lambda>enabled.
     attempt ''initializing Thanos Querier Deployment failed''
       (ThanosQuerierDeployment f (Some s) enabled (Some trustedCA)) (\<lambda>dep.
     attempt ''reconciling Thanos Querier Deployment failed'' (CreateOrUpdateDeployment c dep) (\<lambda>_.
     attempt ''initializing Thanos Querier ServiceMonitor failed'' (ThanosQuerierServiceMonitor f) (\<lambda>tqsm.
     attempt ''reconciling Thanos Querier ServiceMonitor failed'' (CreateOrUpdateServiceMonitor c tqsm) (\<lambda>_.
     attempt ''initializing Thanos Querier PrometheusRule failed'' (ThanosQuerierPrometheusRule f) (\<lambda>tqpr.
     attempt ''reconciling Thanos Querier PrometheusRule failed'' (CreateOrUpdatePrometheusRule c tqpr) (\<lambda>_.
     p_return (Ok ()))))))))))))))))"

definition ThanosQuerierTask_Run :: "'w Client \<Rightarrow> 'w Factory \<Rightarrow> Config \<Rightarrow> ('w, unit) prog" where
  "ThanosQuerierTask_Run c f cfg =
     p_bind (ThanosQuerierTask_access c f) (\<lambda>_.
     ThanosQuerierTask_workload c f cfg)"

end
