(* ===== verification/Tasks_User.thy ===== *)
theory Tasks_User
  imports Tasks_Platform
begin

text \<open>
  The tasks of \<open>pkg/tasks\<close> for the monitoring of user workloads: each creates its objects when the
  feature is enabled and removes them otherwise.
\<close>

section \<open>Prometheus operator\<close>

definition PrometheusOperatorUserWorkloadTask_create :: "'w Client \<Rightarrow> 'w Factory \<Rightarrow> ('w, unit) prog" where
  "PrometheusOperatorUserWorkloadTask_create c f =
     attempt ''initializing UserWorkload Prometheus Operator ServiceAccount failed''
       (PrometheusOperatorUserWorkloadServiceAccount f) (\<lambda>sa.
     attempt ''reconciling UserWorkload Prometheus Operator ServiceAccount failed''
       (CreateOrUpdateServiceAccount c sa) (\<lambda>_.
     attempt ''initializing UserWorkload Prometheus Operator ClusterRole failed''
       (PrometheusOperatorUserWorkloadClusterRole f) (\<lambda>cr.
     attempt ''reconciling UserWorkload Prometheus Operator ClusterRole failed'' (CreateOrUpdateClusterRole c cr) (\<lambda>_.
     attempt ''initializing UserWorkload Prometheus Operator ClusterRoleBinding failed''
       (PrometheusOperatorUserWorkloadClusterRoleBinding f) (\<lambda>crb.
     attempt ''reconciling UserWorkload Prometheus Operator ClusterRoleBinding failed''
       (CreateOrUpdateClusterRoleBinding c crb) (\<lambda>_.
     attempt ''initializing UserWorkload Prometheus Operator Service failed''
       (PrometheusOperatorUserWorkloadService f) (\<lambda>svc.
     attempt ''reconciling UserWorkload Prometheus Operator Service failed'' (CreateOrUpdateService c svc) (\<lambda>_.
     attempt ''initializing UserWorkload denied namespaces list failed'' (NamespacesToMonitor c) (\<lambda>denyNamespaces.
     attempt ''initializing UserWorkload Prometheus Operator Deployment failed''
       (PrometheusOperatorUserWorkloadDeployment f denyNamespaces) (\<lambda>d.
     attempt ''reconciling UserWorkload Prometheus Operator Deployment failed'' (CreateOrUpdateDeployment c d) (\<lambda>_.
     attempt ''waiting for Prometheus Operator CRs to become available failed''
       (AssurePrometheusOperatorCRsExist c) (\<lambda>_.
     attempt ''initializing UserWorkload Prometheus Operator ServiceMonitor failed''
       (PrometheusOperatorUserWorkloadServiceMonitor f) (\<lambda>smpo.
     p_wrap ''reconciling UserWorkload Prometheus Operator ServiceMonitor failed''
       (CreateOrUpdateServiceMonitor c smpo))))))))))))))"

definition PrometheusOperatorUserWorkloadTask_destroy :: "'w Client \<Rightarrow> 'w Factory \<Rightarrow> ('w, unit) prog" where
  "PrometheusOperatorUserWorkloadTask_destroy c f =
     attempt ''initializing UserWorkload Prometheus Operator Deployment failed''
       (PrometheusOperatorUserWorkloadDeployment f []) (\<lambda>dep.
     attempt ''deleting UserWorkload Prometheus Operator Deployment failed'' (DeleteDeployment c dep) (\<lambda>_.
     attempt ''initializing UserWorkload Prometheus Operator ServiceMonitor failed''
       (PrometheusOperatorUserWorkloadServiceMonitor f) (\<lambda>sm.
     attempt ''deleting UserWorkload Prometheus Operator ServiceMonitor failed'' (DeleteServiceMonitor c sm) (\<lambda>_.
     attempt ''initializing UserWorkload Prometheus Operator Service failed''
       (PrometheusOperatorUserWorkloadService f) (\<lambda>svc.
     attempt ''deleting UserWorkload Prometheus Operator Service failed'' (DeleteService c svc) (\<lambda>_.
     attempt ''initializing UserWorkload Prometheus Operator ClusterRoleBinding failed''
       (PrometheusOperatorUserWorkloadClusterRoleBinding f) (\<lambda>crb.
     attempt ''deleting UserWorkload Prometheus Operator ClusterRoleBinding failed''
       (DeleteClusterRoleBinding c crb) (\<lambda>_.
     attempt ''initializing UserWorkload Prometheus Operator ClusterRole failed''
       (PrometheusOperatorUserWorkloadClusterRole f) (\<lambda>cr.
     attempt ''deleting UserWorkload Prometheus Operator ClusterRoleBinding failed'' (DeleteClusterRole c cr) (\<lambda>_.
     attempt ''initializing UserWorkload Prometheus Operator ServiceAccount failed''
       (PrometheusOperatorUserWorkloadServiceAccount f) (\<lambda>sa.
     p_wrap ''deleting Telemeter client ServiceAccount failed'' (DeleteServiceAccount c sa))))))))))))"

definition PrometheusOperatorUserWorkloadTask_Run :: "'w Client \<Rightarrow> 'w Factory \<Rightarrow> Config \<Rightarrow> ('w, unit) prog" where
  "PrometheusOperatorUserWorkloadTask_Run c f cfg = p_bind (p_return (IsUserWorkloadEnabled cfg)) (\<lambda>enabled.
     if enabled then PrometheusOperatorUserWorkloadTask_create c f else PrometheusOperatorUserWorkloadTask_destroy c f)"

section \<open>Prometheus\<close>

text \<open>The certificates, the account, the roles, the bindings and the services.\<close>

definition PrometheusUserWorkloadTask_create_access :: "'w Client \<Rightarrow> 'w Factory \<Rightarrow> ('w, unit) prog" where
  "PrometheusUserWorkloadTask_create_access c f =
     attempt ''initializing UserWorkload serving certs CA Bundle ConfigMap failed''
       (PrometheusUserWorkloadServingCertsCABundle f) (\<lambda>cacm.
     attempt ''creating UserWorkload serving certs CA Bundle ConfigMap failed''
       (CreateIfNotExistConfigMap c cacm) (\<lambda>_.
     attempt ''initializing UserWorkload Prometheus ServiceAccount failed''
       (PrometheusUserWorkloadServiceAccount f) (\<lambda>sa.
     attempt ''reconciling UserWorkload Prometheus ServiceAccount failed'' (CreateOrUpdateServiceAccount c sa) (\<lambda>_.
     attempt ''initializing UserWorkload Prometheus ClusterRole failed'' (PrometheusUserWorkloadClusterRole f) (\<lambda>cr.
     attempt ''reconciling UserWorkload Prometheus ClusterRole failed'' (CreateOrUpdateClusterRole c cr) (\<lambda>_.
     attempt ''initializing UserWorkload Prometheus ClusterRoleBinding failed''
       (PrometheusUserWorkloadClusterRoleBinding f) (\<lambda>crb.
     attempt ''reconciling UserWorkload Prometheus ClusterRoleBinding failed''
       (CreateOrUpdateClusterRoleBinding c crb) (\<lambda>_.
     attempt ''initializing UserWorkload Prometheus Role config failed'' (PrometheusUserWorkloadRoleConfig f) (\<lambda>rc.
     attempt ''reconciling UserWorkload Prometheus Role config failed'' (CreateOrUpdateRole c rc) (\<lambda>_.
     attempt ''initializing UserWorkload Prometheus Role failed'' (PrometheusUserWorkloadRoleList f) (\<lambda>rl.
     p_bind (p_for rl (\<lambda>r.
       p_wrap (''reconciling UserWorkload Prometheus Role '' @ quoted (Name r) @ '' failed'') (CreateOrUpdateRole c r))) (\<lambda>_.
     attempt ''initializing UserWorkload Prometheus RoleBinding failed''
       (PrometheusUserWorkloadRoleBindingList f) (\<lambda>rbl.
     p_bind (p_for rbl (\<lambda>rb.
       p_wrap (''reconciling UserWorkload Prometheus RoleBinding '' @ quoted (Name rb) @ '' failed'') (CreateOrUpdateRoleBinding c rb))) (\<lambda>_.
     attempt ''initializing UserWorkload Prometheus config RoleBinding failed''
       (PrometheusUserWorkloadRoleBindingConfig f) (\<lambda>rbc.
     attempt ''reconciling UserWorkload Prometheus config RoleBinding failed'' (CreateOrUpdateRoleBinding c rbc) (\<lambda>_.
     attempt ''initializing UserWorkload Prometheus Service failed'' (PrometheusUserWorkloadService f) (\<lambda>svc.
     attempt ''reconciling UserWorkload Prometheus Service failed'' (CreateOrUpdateService c svc) (\<lambda>_.
     attempt ''initializing UserWorkload Thanos sidecar Service failed''
       (PrometheusUserWorkloadServiceThanosSidecar f) (\<lambda>svc.
     attempt ''reconciling UserWorkload Thanos sidecar Service failed'' (CreateOrUpdateService c svc) (\<lambda>_.
     p_return (Ok ())))))))))))))))))))))"

text \<open>The certificates of the sidecar, the Prometheus object and the service monitors.\<close>

definition PrometheusUserWorkloadTask_create_workload :: "'w Client \<Rightarrow> 'w Factory \<Rightarrow> ('w, unit) prog" where
  "PrometheusUserWorkloadTask_create_workload c f =
     attempt ''initializing UserWorkload Prometheus GRPC secret failed'' (GRPCSecret f) (\<lambda>grpcTLS.
     attempt ''waiting for UserWorkload Prometheus GRPC secret failed'' (WaitForSecret c grpcTLS) (\<lambda>grpcTLS.
     attempt ''error initializing UserWorkload Prometheus Client GRPC TLS secret''
       (PrometheusUserWorkloadGrpcTLSSecret f) (\<lambda>s.
     p_bind (p_return (deref grpcTLS)) (\<lambda>grpcTLS.
     let s = HashSecret s [
       ''ca.crt'', gm_get (Data grpcTLS) ''ca.crt'',
       ''server.crt'', gm_get (Data grpcTLS) ''prometheus-server.crt'',
       ''server.key'', gm_get (Data grpcTLS) ''prometheus-server.key''] in
     attempt ''error creating UserWorkload Prometheus Client GRPC TLS secret'' (CreateOrUpdateSecret c s) (\<lambda>_.
     attempt ''error creating UserWorkload Prometheus Client GRPC TLS secret''
       (DeleteHashedSecret c (Namespace s) ''prometheus-user-workload-grpc-tls'' (gm_get (Labels s) hash_label)) (\<lambda>_.
     attempt ''initializing UserWorkload Prometheus object failed'' (PrometheusUserWorkload f (Some s)) (\<lambda>p.
     attempt ''reconciling UserWorkload Prometheus object failed'' (CreateOrUpdatePrometheus c p) (\<lambda>_.
     attempt ''waiting for UserWorkload Prometheus object changes failed'' (WaitForPrometheus c p) (\<lambda>_.
     attempt ''initializing UserWorkload Prometheus ServiceMonitor failed''
       (PrometheusUserWorkloadPrometheusServiceMonitor f) (\<lambda>smp.
     attempt ''reconciling UserWorkload Prometheus ServiceMonitor failed'' (CreateOrUpdateServiceMonitor c smp) (\<lambda>_.
     attempt ''initializing UserWorkload Thanos sidecar ServiceMonitor failed''
       (PrometheusUserWorkloadThanosSidecarServiceMonitor f) (\<lambda>smt.
     attempt ''reconciling UserWorkload Thanos sidecar ServiceMonitor failed''
       (CreateOrUpdateServiceMonitor c smt) (\<lambda>_.
     p_return (Ok ()))))))))))))))"

definition PrometheusUserWorkloadTask_create :: "'w Client \<Rightarrow> 'w Factory \<Rightarrow> ('w, unit) prog" where
  "PrometheusUserWorkloadTask_create c f =
     p_bind (PrometheusUserWorkloadTask_create_access c f) (\<lambda>_.
     PrometheusUserWorkloadTask_create_workload c f)"

text \<open>The service monitors, the Prometheus object, its certificates and the services.\<close>

definition PrometheusUserWorkloadTask_destroy_workload :: "'w Client \<Rightarrow> 'w Factory \<Rightarrow> ('w, unit) prog" where
  "PrometheusUserWorkloadTask_destroy_workload c f =
     attempt ''initializing UserWorkload Thanos sidecar ServiceMonitor failed''
       (PrometheusUserWorkloadThanosSidecarServiceMonitor f) (\<lambda>smt.
     attempt ''deleting UserWorkload Thanos sidecar ServiceMonitor failed'' (DeleteServiceMonitor c smt) (\<lambda>_.
     attempt ''initializing UserWorkload Prometheus ServiceMonitor failed''
       (PrometheusUserWorkloadPrometheusServiceMonitor f) (\<lambda>smp.
     attempt ''deleting UserWorkload Prometheus ServiceMonitor failed'' (DeleteServiceMonitor c smp) (\<lambda>_.
     attempt ''initializing UserWorkload Prometheus GRPC secret failed'' (GRPCSecret f) (\<lambda>grpcTLS.
     attempt ''waiting for UserWorkload Prometheus GRPC secret failed'' (WaitForSecret c grpcTLS) (\<lambda>grpcTLS.
     attempt ''error initializing Prometheus Client GRPC TLS secret'' (PrometheusUserWorkloadGrpcTLSSecret f) (\<lambda>s.
     p_bind (p_return (deref grpcTLS)) (\<lambda>grpcTLS.
     let s = HashSecret s [
       ''ca.crt'', gm_get (Data grpcTLS) ''ca.crt'',
       ''server.crt'', gm_get (Data grpcTLS) ''prometheus-server.crt'',
       ''server.key'', gm_get (Data grpcTLS) ''prometheus-server.key''] in
     attempt ''initializing UserWorkload Prometheus object failed'' (PrometheusUserWorkload f (Some s)) (\<lambda>p.
     attempt ''deleting UserWorkload Prometheus object failed'' (DeletePrometheus c p) (\<lambda>_.
     attempt ''deleting UserWorkload Prometheus TLS secret failed'' (DeleteSecret c s) (\<lambda>_.
     attempt ''initializing UserWorkload Prometheus Service failed'' (PrometheusUserWorkloadService f) (\<lambda>svc.
     attempt ''deleting UserWorkload Prometheus Service failed'' (DeleteService c svc) (\<lambda>_.
     attempt ''initializing UserWorkload Thanos sidecar Service failed''
       (PrometheusUserWorkloadServiceThanosSidecar f) (\<lambda>svc.
     attempt ''deleting UserWorkload Prometheus Service failed'' (DeleteService c svc) (\<lambda>_.
     p_return (Ok ()))))))))))))))))"

text \<open>The bindings, the roles, the account and the certificates.\<close>

definition PrometheusUserWorkloadTask_destroy_access :: "'w Client \<Rightarrow> 'w Factory \<Rightarrow> ('w, unit) prog" where
  "PrometheusUserWorkloadTask_destroy_access c f =
     attempt ''initializing UserWorkload Prometheus config RoleBinding failed''
       (PrometheusUserWorkloadRoleBindingConfig f) (\<lambda>rbc.
     attempt ''deleting UserWorkload Prometheus Service failed'' (DeleteRoleBinding c rbc) (\<lambda>_.
     attempt ''initializing UserWorkload Prometheus RoleBinding failed''
       (PrometheusUserWorkloadRoleBindingList f) (\<lambda>rbl.
     p_bind (p_for rbl (\<lambda>rb.
       p_wrap (''deleting UserWorkload Prometheus RoleBinding '' @ quoted (Name rb) @ '' failed'') (DeleteRoleBinding c rb))) (\<lambda>_.
     attempt ''initializing UserWorkload Prometheus Role failed'' (PrometheusUserWorkloadRoleList f) (\<lambda>rl.
     p_bind (p_for rl (\<lambda>r.
       p_wrap (''deleting UserWorkload Prometheus Role '' @ quoted (Name r) @ '' failed'') (DeleteRole c r))) (\<lambda>_.
     attempt ''initializing UserWorkload Prometheus Role config failed'' (PrometheusUserWorkloadRoleConfig f) (\<lambda>rc.
     attempt ''deleting UserWorkload Prometheus Role config failed'' (DeleteRole c rc) (\<lambda>_.
     attempt ''initializing UserWorkload Prometheus ClusterRoleBinding failed''
       (PrometheusUserWorkloadClusterRoleBinding f) (\<lambda>crb.
     attempt ''deleting UserWorkload Prometheus ClusterRoleBinding failed'' (DeleteClusterRoleBinding c crb) (\<lambda>_.
     attempt ''initializing UserWorkload Prometheus ClusterRole failed'' (PrometheusUserWorkloadClusterRole f) (\<lambda>cr.
     attempt ''deleting UserWorkload Prometheus ClusterRole failed'' (DeleteClusterRole c cr) (\<lambda>_.
     attempt ''initializing UserWorkload Prometheus ServiceAccount failed''
       (PrometheusUserWorkloadServiceAccount f) (\<lambda>sa.
     attempt ''deleting UserWorkload Prometheus ServiceAccount failed'' (DeleteServiceAccount c sa) (\<lambda>_.
     attempt ''initializing UserWorkload serving certs CA Bundle ConfigMap failed''
       (PrometheusUserWorkloadServingCertsCABundle f) (\<lambda>cacm.
     p_wrap ''deleting UserWorkload serving certs CA Bundle ConfigMap failed''
       (DeleteConfigMap c cacm))))))))))))))))"

definition PrometheusUserWorkloadTask_destroy :: "'w Client \<Rightarrow> 'w Factory \<Rightarrow> ('w, unit) prog" where
  "PrometheusUserWorkloadTask_destroy c f =
     p_bind (PrometheusUserWorkloadTask_destroy_workload c f) (\<lambda>_.
     PrometheusUserWorkloadTask_destroy_access c f)"

definition PrometheusUserWorkloadTask_Run :: "'w Client \<Rightarrow> 'w Factory \<Rightarrow> Config \<Rightarrow> ('w, unit) prog" where
  "PrometheusUserWorkloadTask_Run c f cfg = p_bind (p_return (IsUserWorkloadEnabled cfg)) (\<lambda>enabled.
     if enabled then PrometheusUserWorkloadTask_create c f else PrometheusUserWorkloadTask_destroy c f)"

section \<open>Thanos ruler\<close>

text \<open>The service, the route, the account with its bindings and the secrets.\<close>

definition ThanosRulerUserWorkloadTask_create_access :: "'w Client \<Rightarrow> 'w Factory \<Rightarrow> ('w, unit) prog" where
  "ThanosRulerUserWorkloadTask_create_access c f =
     attempt ''initializing Thanos Ruler Service failed'' (ThanosRulerService f) (\<lambda>svc.
     attempt ''reconciling Thanos Ruler Service failed'' (CreateOrUpdateService c svc) (\<lambda>_.
     attempt ''initializing Thanos Ruler Route failed'' (ThanosRulerRoute f) (\<lambda>r.
     attempt ''creating Thanos Ruler Route failed'' (CreateRouteIfNotExists c r) (\<lambda>_.
     attempt ''waiting for Thanos Ruler Route to become ready failed'' (WaitForRouteReady c r) (\<lambda>_.
     attempt ''initializing Thanos Ruler ClusterRole failed'' (ThanosRulerClusterRole f) (\<lambda>cr.
     attempt ''reconciling Thanos Ruler ClusterRole failed'' (CreateOrUpdateClusterRole c cr) (\<lambda>_.
     attempt ''initializing Thanos Ruler ClusterRoleBinding failed'' (ThanosRulerClusterRoleBinding f) (\<lambda>crb.
     attempt ''reconciling Thanos Ruler ClusterRoleBinding failed'' (CreateOrUpdateClusterRoleBinding c crb) (\<lambda>_.
     attempt ''initializing Thanos Ruler monitoring ClusterRoleBinding failed''
       (ThanosRulerMonitoringClusterRoleBinding f) (\<lambda>moncrb.
     attempt ''reconciling Thanos Ruler monitoring ClusterRoleBinding failed''
       (CreateOrUpdateClusterRoleBinding c moncrb) (\<lambda>_.
     attempt ''initializing Thanos Ruler ServiceAccount failed'' (ThanosRulerServiceAccount f) (\<lambda>sa.
     attempt ''reconciling Thanos Ruler ServiceAccount failed'' (CreateOrUpdateServiceAccount c sa) (\<lambda>_.
     attempt ''initializing Thanos Ruler OAuth Cookie Secret failed'' (ThanosRulerOauthCookieSecret f) (\<lambda>s.
     attempt ''creating Thanos Ruler OAuth Cookie Secret failed'' (CreateIfNotExistSecret c s) (\<lambda>_.
     attempt ''initializing Thanos Ruler query config Secret failed'' (ThanosRulerQueryConfigSecret f) (\<lambda>qcs.
     attempt ''creating Thanos Ruler query config Secret failed'' (CreateIfNotExistSecret c qcs) (\<lambda>_.
     attempt ''initializing Thanos Ruler Alertmanager config Secret failed''
       (ThanosRulerAlertmanagerConfigSecret f) (\<lambda>acs.
     attempt ''creating Thanos Ruler alertmanager config Secret failed'' (CreateIfNotExistSecret c acs) (\<lambda>_.
     p_return (Ok ()))))))))))))))))))))"

text \<open>The trusted authorities, the certificates, the ruler and what monitors it.\<close>

definition ThanosRulerUserWorkloadTask_create_workload :: "'w Client \<Rightarrow> 'w Factory \<Rightarrow> ('w, unit) prog" where
  "ThanosRulerUserWorkloadTask_create_workload c f =
     attempt ''initializing Thanos Ruler trusted CA bundle ConfigMap failed''
       (ThanosRulerTrustedCABundle f) (\<lambda>trustedCA.
     attempt ''syncing Thanos Ruler trusted CA bundle ConfigMap failed''
       (syncTrustedCABundle ''thanos-ruler'' c f trustedCA) (\<lambda>trustedCA.
     attempt ''initializing UserWorkload Thanos Ruler GRPC secret failed'' (GRPCSecret f) (\<lambda>grpcTLS.
     attempt ''waiting for UserWorkload Thanos Ruler GRPC secret failed'' (WaitForSecret c grpcTLS) (\<lambda>grpcTLS.
     attempt ''error initializing UserWorkload Thanos Ruler GRPC TLS secret''
       (ThanosRulerGrpcTLSSecret f) (\<lambda>grpcSecret.
     p_bind (p_return (deref grpcTLS)) (\<lambda>grpcTLS.
     let grpcSecret = HashSecret grpcSecret [
       ''ca.crt'', gm_get (Data grpcTLS) ''ca.crt'',
       ''server.crt'', gm_get (Data grpcTLS) ''prometheus-server.crt'',
       ''server.key'', gm_get (Data grpcTLS) ''prometheus-server.key''] in
     attempt ''error creating UserWorkload Thanos Ruler GRPC TLS secret'' (CreateOrUpdateSecret c grpcSecret) (\<lambda>_.
     attempt ''error deleting expired UserWorkload Thanos Ruler GRPC TLS secret''
       (DeleteHashedSecret c (Namespace grpcSecret) ''thanos-ruler-grpc-tls'' (gm_get (Labels grpcSecret) hash_label)) (\<lambda>_.
     attempt ''initializing Thanos Querier Route failed'' (ThanosQuerierRoute f) (\<lambda>querierRoute.
     p_catch (GetRouteURL c querierRoute) (\<lambda>queryURL.
     p_bind (p_return (case queryURL of Inl _ \<Rightarrow> Panic | Inr u \<Rightarrow> Ok u)) (\<lambda>u.
     attempt ''initializing ThanosRuler object failed''
       (ThanosRulerCustomResource f (URL_String u) (Some trustedCA) (Some grpcSecret)) (\<lambda>tr.
     attempt ''reconciling ThanosRuler object failed'' (CreateOrUpdateThanosRuler c tr) (\<lambda>_.
     attempt ''waiting for ThanosRuler object changes failed'' (WaitForThanosRuler c tr) (\<lambda>_.
     attempt ''initializing Thanos Ruler ServiceMonitor failed'' (ThanosRulerServiceMonitor f) (\<lambda>trsm.
     attempt ''reconciling Thanos Ruler ServiceMonitor failed'' (CreateOrUpdateServiceMonitor c trsm) (\<lambda>_.
     attempt ''initializing Thanos Ruler PrometheusRule failed'' (ThanosRulerPrometheusRule f) (\<lambda>pm.
     attempt ''reconciling Thanos Ruler PrometheusRule failed'' (CreateOrUpdatePrometheusRule c pm) (\<lambda>_.
     p_return (Ok ())))))))))))))))))))"

definition ThanosRulerUserWorkloadTask_create :: "'w Client \<Rightarrow> 'w Factory \<Rightarrow> ('w, unit) prog" where
  "ThanosRulerUserWorkloadTask_create c f =
     p_bind (ThanosRulerUserWorkloadTask_create_access c f) (\<lambda>_.
     ThanosRulerUserWorkloadTask_create_workload c f)"

text \<open>The rules, the route, the service, the account and the cookie secret.\<close>

definition ThanosRulerUserWorkloadTask_destroy_access :: "'w Client \<Rightarrow> 'w Factory \<Rightarrow> ('w, unit) prog" where
  "ThanosRulerUserWorkloadTask_destroy_access c f =
     attempt ''initializing Thanos Ruler PrometheusRule failed'' (ThanosRulerPrometheusRule f) (\<lambda>prmrl.
     attempt ''deleting Thanos Ruler PrometheusRule failed'' (DeletePrometheusRule c prmrl) (\<lambda>_.
     attempt ''initializing Thanos Ruler Route failed'' (ThanosRulerRoute f) (\<lambda>route.
     attempt ''deleting Thanos Ruler Route failed'' (DeleteRoute c route) (\<lambda>_.
     attempt ''initializing Thanos Ruler Service failed'' (ThanosRulerService f) (\<lambda>svc.
     attempt ''deleting Thanos Ruler Service failed'' (DeleteService c svc) (\<lambda>_.
     attempt ''initializing Thanos Ruler ClusterRole failed'' (ThanosRulerClusterRole f) (\<lambda>cr.
     attempt ''deleting Thanos Ruler ClusterRole failed'' (DeleteClusterRole c cr) (\<lambda>_.
     attempt ''initializing Thanos Ruler ClusterRoleBinding failed'' (ThanosRulerClusterRoleBinding f) (\<lambda>crb.
     attempt ''deleting Thanos Ruler ClusterRoleBinding failed'' (DeleteClusterRoleBinding c crb) (\<lambda>_.
     attempt ''initializing Thanos Ruler ServiceAccount failed'' (ThanosRulerServiceAccount f) (\<lambda>sa.
     attempt ''deleting Thanos Ruler ServiceAccount failed'' (DeleteServiceAccount c sa) (\<lambda>_.
     attempt ''initializing Thanos Ruler OAuth Cookie Secret failed'' (ThanosRulerOauthCookieSecret f) (\<lambda>oauthSecret.
     attempt ''deleting Thanos Ruler OAuth Cookie Secret failed'' (DeleteSecret c oauthSecret) (\<lambda>_.
     p_return (Ok ())))))))))))))))"

text \<open>The trusted authorities, the ruler, its secrets and the service monitor.\<close>

definition ThanosRulerUserWorkloadTask_destroy_workload :: "'w Client \<Rightarrow> 'w Factory \<Rightarrow> ('w, unit) prog" where
  "ThanosRulerUserWorkloadTask_destroy_workload c f =
     attempt ''initializing Thanos Ruler trusted CA bundle ConfigMap failed''
       (ThanosRulerTrustedCABundle f) (\<lambda>trustedCA.
     attempt ''deleting Thanos Ruler trusted CA bundle ConfigMap failed'' (DeleteConfigMap c trustedCA) (\<lambda>_.
     attempt ''deleting all hashed Thanos Ruler trusted CA bundle ConfigMap failed''
       (DeleteHashedConfigMap c (Namespace trustedCA) ''thanos-ruler'' '''') (\<lambda>_.
     attempt ''initializing UserWorkload Thanos Ruler GRPC secret failed'' (GRPCSecret f) (\<lambda>grpcTLS.
     attempt ''waiting for UserWorkload Thanos Ruler GRPC secret failed'' (WaitForSecret c grpcTLS) (\<lambda>grpcTLS.
     attempt ''error initializing UserWorkload Thanos Ruler GRPC TLS secret''
       (ThanosRulerGrpcTLSSecret f) (\<lambda>grpcSecret.
     p_bind (p_return (deref grpcTLS)) (\<lambda>grpcTLS.
     let grpcSecret = HashSecret grpcSecret [
       ''ca.crt'', gm_get (Data grpcTLS) ''ca.crt'',
       ''server.crt'', gm_get (Data grpcTLS) ''prometheus-server.crt'',
       ''server.key'', gm_get (Data grpcTLS) ''prometheus-server.key''] in
     attempt ''initializing ThanosRuler object failed''
       (ThanosRulerCustomResource f '''' (Some trustedCA) (Some grpcSecret)) (\<lambda>tr.
     attempt ''deleting ThanosRuler object failed'' (DeleteThanosRuler c tr) (\<lambda>_.
     attempt ''error deleting UserWorkload Thanos Ruler GRPC TLS secret'' (DeleteSecret c grpcSecret) (\<lambda>_.
     attempt ''initializing Thanos Ruler query config Secret failed'' (ThanosRulerQueryConfigSecret f) (\<lambda>qcs.
     attempt ''deleting Thanos Ruler query config Secret failed'' (DeleteSecret c qcs) (\<lambda>_.
     attempt ''initializing Thanos Ruler Alertmanager config Secret failed''
       (ThanosRulerAlertmanagerConfigSecret f) (\<lambda>acs.
     attempt ''creating Thanos Ruler alertmanager config Secret failed'' (DeleteSecret c acs) (\<lambda>_.
     attempt ''initializing Thanos Ruler ServiceMonitor failed'' (ThanosRulerServiceMonitor f) (\<lambda>trsm.
     p_wrap ''deleting Thanos Ruler ServiceMonitor failed''
       (DeleteServiceMonitor c trsm))))))))))))))))"

definition ThanosRulerUserWorkloadTask_destroy :: "'w Client \<Rightarrow> 'w Factory \<Rightarrow> ('w, unit) prog" where
  "ThanosRulerUserWorkloadTask_destroy c f =
     p_bind (ThanosRulerUserWorkloadTask_destroy_access c f) (\<lambda>_.
     ThanosRulerUserWorkloadTask_destroy_workload c f)"

definition ThanosRulerUserWorkloadTask_Run :: "'w Client \<Rightarrow> 'w Factory \<Rightarrow> Config \<Rightarrow> ('w, unit) prog" where
  "ThanosRulerUserWorkloadTask_Run c f cfg = p_bind (p_return (IsUserWorkloadEnabled cfg)) (\<lambda>enabled.
     if enabled then ThanosRulerUserWorkloadTask_create c f else ThanosRulerUserWorkloadTask_destroy c f)"

end
