(* ===== verification/Tasks.thy ===== *)
theory Tasks
  imports Tasks_User Operator
begin

text \<open>
  The tasks of a reconciliation put together as \<open>sync\<close> does it (\<open>pkg/operator/operator.go\<close>): every task
  works with one factory, made from the configuration of this reconciliation.
\<close>

text \<open>\<open>NewFactory\<close>; \<open>env\<close> carries the assets and the library functions.\<close>

definition NewFactory :: "'w Factory \<Rightarrow> string \<Rightarrow> string \<Rightarrow> Config \<Rightarrow> 'w Factory" where
  "NewFactory env ns nsUserWorkload cfg =
     env\<lparr>fac_namespace := ns, fac_namespaceUserWorkload := nsUserWorkload, fac_config := cfg\<rparr>"

text \<open>The task of a name; \<open>cr\<close>, \<open>checked\<close> and \<open>issued\<close> are the crypto library and the clock of the rotation.\<close>

definition task_of :: "'leaf crypto \<Rightarrow> int \<Rightarrow> int \<Rightarrow> string \<Rightarrow> 'w Client \<Rightarrow> 'w Factory \<Rightarrow> Config \<Rightarrow> string \<Rightarrow> ('w, unit) prog" where
  "task_of cr checked issued ns c f cfg name = (
     if name = ''Updating Prometheus Operator'' then PrometheusOperatorTask_Run c f
     else if name = ''Updating user workload Prometheus Operator'' then PrometheusOperatorUserWorkloadTask_Run c f cfg
     else if name = ''Updating Cluster Monitoring Operator'' then ClusterMonitoringOperatorTask_Run cr checked issued c f
     else if name = ''Updating Grafana'' then GrafanaTask_Run c f
     else if name = ''Updating Prometheus-k8s'' then PrometheusTask_Run c f cfg
     else if name = ''Updating Prometheus-user-workload'' then PrometheusUserWorkloadTask_Run c f cfg
     else if name = ''Updating Alertmanager'' then AlertmanagerTask_Run c f
     else if name = ''Updating node-exporter'' then NodeExporterTask_Run c f
     else if name = ''Updating kube-state-metrics'' then KubeStateMetricsTask_Run c f
     else if name = ''Updating openshift-state-metrics'' then OpenShiftStateMetricsTask_Run c f
     else if name = ''Updating prometheus-adapter'' then PrometheusAdapterTask_Run ns c f
     else if name = ''Updating Telemeter client'' then TelemeterClientTask_Run c f cfg
     else if name = ''Updating configuration sharing'' then ConfigSharingTask_Run c f
     else if name = ''Updating Thanos Querier'' then ThanosQuerierTask_Run c f cfg
     else ThanosRulerUserWorkloadTask_Run c f cfg)"

text \<open>An operator whose tasks are these.\<close>

definition with_tasks :: "'leaf crypto \<Rightarrow> int \<Rightarrow> int \<Rightarrow> 'w Factory \<Rightarrow> 'w Operator \<Rightarrow> 'w Operator" where
  "with_tasks cr checked issued env o' = o'\<lparr>task_run := \<lambda>cfg.
     task_of cr checked issued (op_namespace o') (op_client o')
       (NewFactory env (op_namespace o') (op_namespaceUserWorkload o') cfg) cfg\<rparr>"

end
