(* ===== verification/Rollover.thy ===== *)
theory Rollover
  imports Ca_Bundle
begin

text \<open>
  What the hashed names are for: publishing an object under the name of its content and deleting the
  objects of older contents. Proved for any lawful API server, for the client's secrets and for the
  syncer of trusted authorities.
\<close>

section \<open>Publishing and cleaning up\<close>

lemma prefixed_labels_kept:
  assumes "strings_HasPrefix k metadataPrefix"
  shows "gm_lookup (Labels (mergeMetadata x old)) k = gm_lookup (Labels x) k"
  using assms by (auto simp: mergeMetadata_def mergo_Merge_lookup delete_prefixed_lookup split: option.splits)

lemma hashed_labels_prefixed [simp]:
  "strings_HasPrefix name_label metadataPrefix" "strings_HasPrefix hash_label metadataPrefix"
  by (simp_all add: name_label_def hash_label_def metadataPrefix_def)

text \<open>
  The state after a roll-over, relative to the state before: the new object is stored, accepted for
  itself or for itself with the metadata of an object of the same name; in its namespace every object
  with its name label has its hash; and nothing else has changed.
\<close>

definition rolled_over :: "('z ObjectMeta_scheme \<Rightarrow> 'z ObjectMeta_scheme \<Rightarrow> bool) \<Rightarrow> 'z ObjectMeta_scheme \<Rightarrow> string \<Rightarrow> string \<Rightarrow>
    (string \<times> string \<Rightarrow> 'z ObjectMeta_scheme option) \<Rightarrow> (string \<times> string \<Rightarrow> 'z ObjectMeta_scheme option) \<Rightarrow> bool" where
  "rolled_over accepts h label hash before after \<longleftrightarrow>
     (\<exists>y. after (Namespace h, Name h) = Some y \<and>
        (accepts h y \<or> (\<exists>old. before (Namespace h, Name h) = Some old \<and> accepts (mergeMetadata h old) y))) \<and>
     (\<forall>n x. after (Namespace h, n) = Some x \<longrightarrow> gm_lookup (Labels x) name_label = Some label \<longrightarrow>
        gm_lookup (Labels x) hash_label = Some hash) \<and>
     (\<forall>k. k \<noteq> (Namespace h, Name h) \<longrightarrow> after k = (case before k of
        None \<Rightarrow> None
      | Some x \<Rightarrow> if fst k = Namespace h \<and> gm_lookup (Labels x) name_label = Some label \<and>
                     gm_lookup (Labels x) hash_label \<noteq> Some hash then None else Some x))"

context api_resource begin

lemma rollover:
  assumes keyed: "well_keyed (view w)" and ns: "Namespace h \<noteq> ''''"
    and labels: "gm_lookup (Labels h) hash_label = Some hash"
    and safe: "selector_safe label" "selector_safe hash"
    and up: "ensures_object view accepts (Namespace h) h (\<lambda>old. Some (mergeMetadata h old)) m"
    and run: "m w = (Ok u, w1)" "delete_selected many one R (Namespace h) (hashed_selector label hash) w1 = (Ok v, w2)"
  shows "rolled_over accepts h label hash (view w) (view w2)"
proof -
  let ?k = "(Namespace h, Name h)"
  from ensures_objectD [OF up run(1)] obtain req y where
    req: "req = h \<or> (\<exists>old. view w ?k = Some old \<and> req = mergeMetadata h old)"
    and y: "accepts req y" "view w1 = (view w)(?k \<mapsto> y)"
    by (auto split: option.splits)
  from req have name: "Name req = Name h" and hash: "gm_lookup (Labels req) hash_label = Some hash"
    using labels by (auto simp: prefixed_labels_kept)
  have ylab: "gm_lookup (Labels y) hash_label = Some hash"
    using accepts_meta [OF y(1)] hash by simp
  have keyed1: "well_keyed (view w1)"
    using well_keyed_store [OF keyed y(1)] name y(2) by simp
  have sel: "selector_matches (hashed_selector label hash) ls \<longleftrightarrow>
      gm_lookup ls name_label = Some label \<and> gm_lookup ls hash_label \<noteq> Some hash" for ls
    using hashed_selector_matches [OF safe] by (simp add: name_label_def hash_label_def)
  have after: "view w2 (m, n) = (if m = Namespace h \<and> (\<exists>x. view w1 (m, n) = Some x \<and>
        gm_lookup (Labels x) name_label = Some label \<and> gm_lookup (Labels x) hash_label \<noteq> Some hash)
      then None else view w1 (m, n))" for m n
    using delete_selected_Ok [OF keyed1 ns run(2)] unfolding sel by simp
  have stored: "view w2 ?k = Some y" using after [of "Namespace h" "Name h"] y(2) ylab by auto
  moreover have "accepts h y \<or> (\<exists>old. view w ?k = Some old \<and> accepts (mergeMetadata h old) y)"
    using req y(1) by auto
  moreover have "view w2 k = (case view w k of None \<Rightarrow> None
      | Some x \<Rightarrow> if fst k = Namespace h \<and> gm_lookup (Labels x) name_label = Some label \<and>
                     gm_lookup (Labels x) hash_label \<noteq> Some hash then None else Some x)" if "k \<noteq> ?k" for k
    using after [of "fst k" "snd k"] y(2) that by (auto split: option.splits)
  moreover have "gm_lookup (Labels x) hash_label = Some hash"
    if "view w2 (Namespace h, n) = Some x" "gm_lookup (Labels x) name_label = Some label" for n x
    using after [of "Namespace h" n] that by (auto split: if_splits)
  ultimately show ?thesis unfolding rolled_over_def by blast
qed

end

section \<open>Hashed secrets\<close>

text \<open>
  C15. Rotating a hashed secret, as the tasks do with the internal certificates: when creating the copy
  and deleting the old copies both return nil, the copy with the given data is stored under the hash of
  the data, every secret of its namespace that stands for the same name has this hash, and all other
  secrets are as before.
\<close>

theorem hashed_secret_rollover:
  assumes "api_resource (Secrets c) view accepts" and "well_keyed (view w)"
    and "Namespace s \<noteq> ''''" and "selector_safe (Name s)"
    and "CreateOrUpdateSecret c (HashSecret s kvs) w = (Ok u, w1)"
    and "DeleteHashedSecret c (Namespace (HashSecret s kvs)) (Name s)
      (gm_get (Labels (HashSecret s kvs)) hash_label) w1 = (Ok v, w2)"
  shows "rolled_over accepts (HashSecret s kvs) (Name s) (FormatUint (fnv64 (hashed_values kvs))) (view w) (view w2) \<and>
    gm_lookup (Data (HashSecret s kvs)) k = map_of (rev (hashed_pairs kvs)) k"
proof
  have hash: "gm_get (Labels (HashSecret s kvs)) hash_label = FormatUint (fnv64 (hashed_values kvs))"
    by (simp add: gm_get_def)
  have up: "ensures_object view accepts (Namespace (HashSecret s kvs)) (HashSecret s kvs)
      (\<lambda>old. Some (mergeMetadata (HashSecret s kvs) old)) (CreateOrUpdateSecret c (HashSecret s kvs))"
    unfolding CreateOrUpdateSecret_def by (intro api_resource.ensures_upsert assms(1) mergeMetadata_simps)
  show "rolled_over accepts (HashSecret s kvs) (Name s) (FormatUint (fnv64 (hashed_values kvs))) (view w) (view w2)"
    by (rule api_resource.rollover [OF assms(1,2) _ _ assms(4) _ up assms(5)
          assms(6) [unfolded hash DeleteHashedSecret_def]]) (use assms(3) in simp_all)
  show "gm_lookup (Data (HashSecret s kvs)) k = map_of (rev (hashed_pairs kvs)) k"
    using HashSecret_content by blast
qed

lemma delete_selected_nothing:
  assumes "lawful_store K" and "ks_faults K w = []"
    and "\<And>k x. fmlookup (ks_get K w) k = Some x \<Longrightarrow> \<not> selector_matches sel (Labels x)"
  shows "delete_selected many one (tracker_resource K) ns sel w = (Ok (), ks_pop K w)"
proof -
  have "ks_get K (ks_pop K w) = ks_get K w" using assms(1) by (simp add: lawful_store_def)
  with assms(3) have "tracker_List K ns sel (ks_pop K w) = (Ok [], ks_pop K w)"
    by (auto simp: tracker_List_def fmlookup_dom_iff filter_empty_conv)
  with assms(2) show ?thesis
    by (simp add: delete_selected_def attempt_Ok_iff tracker_resource_def react_def)
qed

lemma hashed_not_selected:
  assumes "selector_safe prefix" and "selector_safe hash" and "gm_lookup ls hash_label = Some hash"
  shows "\<not> selector_matches (hashed_selector prefix hash) ls"
  using hashed_selector_matches [OF assms(1,2)] assms(3) by (simp add: hash_label_def)

theorem hashed_secret_rollover_witness:
  "\<exists>w. rolled_over tracker_accepts (HashSecret (sample_secret ''ns'' ''grpc'' [] []) [''ca.crt'', ''CA'']) ''grpc''
     (FormatUint (fnv64 ''CA'')) (tracker_view Secrets_tracker empty_cluster) (tracker_view Secrets_tracker w)"
proof -
  let ?s = "sample_secret ''ns'' ''grpc'' [] []" and ?kvs = "[''ca.crt'', ''CA'']"
  let ?h = "HashSecret ?s ?kvs" and ?hash = "FormatUint (fnv64 ''CA'')"
  let ?w = "empty_cluster\<lparr>tracked_Secrets := fmupd (''ns'', Name ?h) ?h fmempty\<rparr>"
  have s: "Namespace ?s = ''ns''" "Name ?s = ''grpc''" by (simp_all add: sample_defs)
  have vals: "hashed_values ?kvs = ''CA''" by simp
  have labels: "gm_lookup (Labels ?h) hash_label = Some ?hash" by simp
  have safe: "selector_safe ''grpc''" "selector_safe ?hash"
    by (simp add: selector_safe_def, rule FormatUint_selector_safe)
  have keyed: "well_keyed (tracker_view Secrets_tracker empty_cluster)"
    by (simp add: well_keyed_def tracker_view_def Secrets_tracker_def empty_cluster_def)
  have 1: "CreateOrUpdateSecret quiet_client ?h empty_cluster = (Ok (), ?w)"
    by (simp add: CreateOrUpdateSecret_def run_simps Secrets_tracker_def empty_cluster_def s)
  have 2: "DeleteHashedSecret quiet_client (Namespace ?h) (Name ?s) (gm_get (Labels ?h) hash_label) ?w =
      (Ok (), ks_pop Secrets_tracker ?w)"
    unfolding DeleteHashedSecret_def quiet_client_simps
    by (rule delete_selected_nothing, rule lawful_trackers)
      (use hashed_not_selected [OF safe labels] in
        \<open>auto simp: Secrets_tracker_def empty_cluster_def gm_get_def labels s split: if_splits\<close>)
  have "api_resource (Secrets quiet_client) (tracker_view Secrets_tracker) tracker_accepts"
    by (simp add: api_resource_tracker)
  from hashed_secret_rollover [OF this keyed _ _ 1 2, of "''ca.crt''"] safe(1)
  show ?thesis unfolding vals s by (auto simp: s)
qed

section \<open>Trusted authorities\<close>

text \<open>Every object is stored under its own namespace and name.\<close>

definition well_addressed :: "(string \<times> string \<Rightarrow> 'z ObjectMeta_scheme option) \<Rightarrow> bool" where
  "well_addressed v \<longleftrightarrow> (\<forall>m n x. v (m, n) = Some x \<longrightarrow> Namespace x = m \<and> Name x = n)"

lemma well_addressed_keyed: "well_addressed v \<Longrightarrow> well_keyed v"
  by (auto simp: well_addressed_def well_keyed_def)

lemma bundle_condition_Ok:
  assumes "bundle_condition c cm (s, w) = (Ok b, ((l, v), w'))"
  shows "b \<longrightarrow> (\<exists>x. v = Some x \<and> r_Get (ConfigMaps c) (Namespace cm) (Name cm) w = (Ok x, w') \<and>
    bundle_complaint x = None)"
  using assms by (cases s) (auto simp: bundle_condition_def GetConfigmap_def prog_simps split: sum.splits option.splits)

lemma wait_for_bundle_Ok:
  assumes "wait_for_bundle c cm w = (Ok v, w')"
  shows "\<exists>x w1. v = Some x \<and> r_Get (ConfigMaps c) (Namespace cm) (Name cm) w1 = (Ok x, w') \<and> bundle_complaint x = None"
proof -
  let ?cond = "bundle_condition c cm"
  obtain q l y u where p: "PollImmediate 5 300 (world_tick (next_tick c)) ?cond ((None, None), w) = (q, ((l, y), u))"
    by (metis prod.exhaust)
  with assms have q: "q = Ok ()" and y: "y = v" "u = w'"
    by (cases q; auto simp: wait_for_bundle_def)+
  from p [unfolded PollImmediate_def q, THEN p_bind_Ok_iff [THEN iffD1]]
  obtain b st where c1: "?cond ((None, None), w) = (Ok b, st)"
    and rest: "(if b then p_return (Ok ()) else Poll 5 300 (world_tick (next_tick c)) ?cond) st = (Ok (), ((l, y), u))"
    by blast
  have "\<exists>st1. ?cond st1 = (Ok True, ((l, y), u))"
  proof (cases b)
    case True
    with c1 rest show ?thesis by auto
  next
    case False
    with rest have "WaitFor (300 div 5) (world_tick (next_tick c)) ?cond st = (Ok (), ((l, y), u))"
      by (simp add: Poll_def)
    then show ?thesis by (rule WaitFor_Ok)
  qed
  then obtain s1 w1 where "?cond (s1, w1) = (Ok True, ((l, y), u))" by auto
  from bundle_condition_Ok [OF this] y show ?thesis by auto
qed


text \<open>Whatever the rest of the cluster keeps at every tick holds when the wait is over.\<close>

lemma wait_for_bundle_invariant:
  assumes api: "api_resource (ConfigMaps c) view accepts" and run: "wait_for_bundle c cm w = (r, w')"
    and init: "P (view w)" and tick: "\<And>w b w'. P (view w) \<Longrightarrow> next_tick c w = (b, w') \<Longrightarrow> P (view w')"
  shows "P (view w')"
proof -
  let ?cond = "bundle_condition c cm"
  have reader: "api_reader (ConfigMaps c) view" using api by (simp add: api_resource_def)
  have cond: "P (view (snd st'))" if "P (view (snd st))" "?cond st = (b, st')" for st b st'
  proof -
    obtain l v w1 where st: "st = ((l, v), w1)" by (metis prod.exhaust)
    obtain x w2 where g: "r_Get (ConfigMaps c) (Namespace cm) (Name cm) w1 = (x, w2)" by (metis prod.exhaust)
    have "view w2 = view w1" using api_reader.get_keeps [OF reader] g by (rule keepsD)
    moreover have "snd st' = w2"
      using that(2) g unfolding st by (cases x; cases st')
        (auto simp: bundle_condition_def GetConfigmap_def p_catch_def world_call_def conclude_def not_yet_def
          finished_def split: option.splits)
    ultimately show ?thesis using that(1) by (simp add: st)
  qed
  obtain q st where p: "PollImmediate 5 300 (world_tick (next_tick c)) ?cond ((None, None), w) = (q, st)"
    by (metis prod.exhaust)
  obtain b st1 where first: "?cond ((None, None), w) = (b, st1)" by (metis prod.exhaust)
  have 1: "P (view (snd st1))" using cond [OF _ first] init by simp
  have "P (view (snd st))"
  proof (cases "b = Ok False")
    case False
    with p first 1 show ?thesis by (cases b) (auto simp: PollImmediate_def p_bind_def)
  next
    case True
    with p first have "WaitFor (300 div 5) (world_tick (next_tick c)) ?cond st1 = (q, st)"
      by (simp add: PollImmediate_def p_bind_def Poll_def)
    then show ?thesis
    proof (rule WaitFor_invariant [where I = "\<lambda>st. P (view (snd st))"])
      show "P (view (snd y))" if "P (view (snd x))" "world_tick (next_tick c) x = (b, y)" for x b y
        using that tick [of "snd x" b "snd y"] by (cases x; cases y) (simp add: world_tick_iff)
      show "P (view (snd y))" if "P (view (snd x))" "?cond x = (b, y)" for x b y
        using cond [OF that] .
    qed (rule 1)
  qed
  moreover have "w' = snd st" using run p by (auto simp: wait_for_bundle_def split: res.splits prod.splits)
  ultimately show ?thesis by simp
qed

lemma CreateIfNotExistConfigMap_Ok:
  assumes api: "api_resource (ConfigMaps c) view accepts" and addr: "well_addressed (view w)"
    and ns: "Namespace cm \<noteq> ''''" and run: "CreateIfNotExistConfigMap c cm w = (Ok x, w')"
  shows "Namespace x = Namespace cm \<and> Name x = Name cm \<and> well_addressed (view w')"
proof -
  have reader: "api_reader (ConfigMaps c) view" using api by (simp add: api_resource_def)
  show ?thesis
  proof (rule api_reader.get_cases [OF reader, of "Namespace cm" "Name cm" w])
    fix y w1
    assume "r_Get (ConfigMaps c) (Namespace cm) (Name cm) w = (Ok y, w1)" "view w1 = view w"
      "view w (Namespace cm, Name cm) = Some y"
    with run addr show ?thesis
      by (auto simp: CreateIfNotExistConfigMap_def get_or_def p_catch_eqs well_addressed_def)
  next
    fix e w1
    assume get: "r_Get (ConfigMaps c) (Namespace cm) (Name cm) w = (Err e, w1)" "IsNotFound e" "view w1 = view w"
    with run have create: "r_Create (ConfigMaps c) (Namespace cm) cm w1 = (Ok x, w')"
      by (simp add: CreateIfNotExistConfigMap_def get_or_def p_catch_eqs)
    have "view w' = (view w1)((Namespace cm, Name cm) \<mapsto> x)" "accepts cm x"
      using api_resource.create_ok [OF api create] by auto
    with get(3) addr ns api_resource.accepts_meta [OF api this(2)] show ?thesis
      by (auto simp: well_addressed_def)
  next
    fix e w1
    assume "r_Get (ConfigMaps c) (Namespace cm) (Name cm) w = (Err e, w1)" "\<not> IsNotFound e"
    with run show ?thesis by (simp add: CreateIfNotExistConfigMap_def get_or_def p_catch_eqs)
  qed
qed

lemma HashTrustedCA_Ok:
  assumes "HashTrustedCA f root prefix = Ok h" and "Namespace root \<noteq> ''''"
  shows "\<exists>bundle. gm_lookup (CM_Data root) TrustedCABundleKey = Some bundle \<and> bundle \<noteq> '''' \<and>
    Namespace h = Namespace root \<and> Name h = prefix @ ''-trusted-ca-bundle-'' @ FormatUint (fnv64 bundle) \<and>
    gm_lookup (Labels h) hash_label = Some (FormatUint (fnv64 bundle)) \<and>
    CM_Data h = gm_of_list [(TrustedCABundleKey, bundle)]"
  using assms by (auto simp: HashTrustedCA_def Let_def split: option.splits if_splits) (simp add: ObjectMeta.defs)

text \<open>
  C16. Synchronising the bundle of trusted authorities: when it returns nil, the root config map exists
  and had a non-empty bundle when it was last read; the result carries this bundle, under a name that
  ends in its hash, and has replaced all earlier copies of the same prefix, while every other config map
  is as it was at that read.
\<close>

theorem syncTrustedCABundle_result:
  assumes api: "api_resource (ConfigMaps c) view accepts" and addr: "well_addressed (view w)"
    and tick: "\<And>w b w'. well_addressed (view w) \<Longrightarrow> next_tick c w = (b, w') \<Longrightarrow> well_addressed (view w')"
    and ns: "Namespace cm \<noteq> ''''" and safe: "selector_safe prefix"
    and run: "syncTrustedCABundle prefix c f cm w = (Ok h, w2)"
  shows "\<exists>root bundle w1. view w1 (Namespace cm, Name cm) = Some root \<and>
    gm_lookup (CM_Data root) TrustedCABundleKey = Some bundle \<and> bundle \<noteq> '''' \<and>
    Namespace h = Namespace cm \<and> Name h = prefix @ ''-trusted-ca-bundle-'' @ FormatUint (fnv64 bundle) \<and>
    CM_Data h = gm_of_list [(TrustedCABundleKey, bundle)] \<and>
    rolled_over accepts h prefix (FormatUint (fnv64 bundle)) (view w1) (view w2)"
proof -
  have reader: "api_reader (ConfigMaps c) view" using api by (simp add: api_resource_def)
  from run obtain cm' wa root w1 u v wb where
    create: "CreateIfNotExistConfigMap c cm w = (Ok cm', wa)"
    and wait: "wait_for_bundle c cm' wa = (Ok (Some root), w1)"
    and hashed: "HashTrustedCA f root prefix = Ok h"
    and update: "CreateOrUpdateConfigMap c h w1 = (Ok u, wb)"
    and cleanup: "DeleteHashedConfigMap c (Namespace cm') prefix (gm_get (Labels h) hash_label) wb = (Ok v, w2)"
    by (auto simp: syncTrustedCABundle_def prog_simps deref_Ok_iff)
  from CreateIfNotExistConfigMap_Ok [OF api addr ns create] have cm': "Namespace cm' = Namespace cm" "Name cm' = Name cm"
    and wa: "well_addressed (view wa)" by auto
  from wait_for_bundle_invariant [OF api wait, of well_addressed] wa tick have w1: "well_addressed (view w1)" by blast
  from wait_for_bundle_Ok [OF wait] obtain w0 where "r_Get (ConfigMaps c) (Namespace cm) (Name cm) w0 = (Ok root, w1)"
    using cm' by auto
  with api_reader.get_ok [OF reader this] have root: "view w1 (Namespace cm, Name cm) = Some root" by simp
  with w1 have "Namespace root = Namespace cm" by (auto simp: well_addressed_def)
  with HashTrustedCA_Ok [OF hashed] ns obtain pem where b: "gm_lookup (CM_Data root) TrustedCABundleKey = Some pem"
      "pem \<noteq> ''''" "Namespace h = Namespace cm" "Name h = prefix @ ''-trusted-ca-bundle-'' @ FormatUint (fnv64 pem)"
      "CM_Data h = gm_of_list [(TrustedCABundleKey, pem)]"
    and lab: "gm_lookup (Labels h) hash_label = Some (FormatUint (fnv64 pem))" by auto
  have up: "ensures_object view accepts (Namespace h) h (\<lambda>old. Some (mergeMetadata h old)) (CreateOrUpdateConfigMap c h)"
    unfolding CreateOrUpdateConfigMap_def by (intro api_resource.ensures_upsert api mergeMetadata_simps)
  have "rolled_over accepts h prefix (FormatUint (fnv64 pem)) (view w1) (view w2)"
    by (rule api_resource.rollover [OF api well_addressed_keyed [OF w1] _ lab safe _ up update])
      (use cleanup ns b(3) cm'(1) lab in \<open>simp_all add: gm_get_def DeleteHashedConfigMap_def\<close>)
  with root b show ?thesis by blast
qed

text \<open>A cluster in which the bundle has been injected into the root config map.\<close>

definition sample_root :: ConfigMap where
  "sample_root = sample_configmap ''openshift-monitoring'' ''trusted-ca-bundle'' [] [(''ca-bundle.crt'', ''CA'')]"

definition injected_cluster :: Cluster where
  "injected_cluster = empty_cluster\<lparr>tracked_ConfigMaps :=
     fmap_of_list [((''openshift-monitoring'', ''trusted-ca-bundle''), sample_root)]\<rparr>"

lemma injected_addressed: "well_addressed (tracker_view ConfigMaps_tracker injected_cluster)"
  by (auto simp: well_addressed_def tracker_view_def ConfigMaps_tracker_def injected_cluster_def sample_root_def
      sample_defs split: if_splits)

lemma injected_get [simp]:
  "r_Get (tracker_resource ConfigMaps_tracker) ''openshift-monitoring'' ''trusted-ca-bundle'' injected_cluster =
     (Ok sample_root, injected_cluster)"
  by (simp add: tracker_resource_def react_def tracker_Get_def ConfigMaps_tracker_def injected_cluster_def empty_cluster_def)

definition sample_bundle :: ConfigMap where
  "sample_bundle = ObjectMeta.extend
     (hashed_meta ''openshift-monitoring'' (''grafana'' @ ''-trusted-ca-bundle-'' @ FormatUint (fnv64 ''CA'')) ''grafana''
       (FormatUint (fnv64 ''CA'')))
     \<lparr>CM_Data = gm_of_list [(TrustedCABundleKey, ''CA'')]\<rparr>"

lemma sample_bundle_simps [simp]:
  "Namespace sample_bundle = ''openshift-monitoring''"
  "Name sample_bundle = ''grafana'' @ ''-trusted-ca-bundle-'' @ FormatUint (fnv64 ''CA'')"
  "gm_lookup (Labels sample_bundle) hash_label = Some (FormatUint (fnv64 ''CA''))"
  by (simp_all add: sample_bundle_def ObjectMeta.defs hashed_meta_def hash_label_def name_label_def)

lemma sample_root_simps [simp]:
  "Namespace sample_root = ''openshift-monitoring''" "Name sample_root = ''trusted-ca-bundle''"
  "Labels sample_root = gm_of_list []" "gm_lookup (CM_Data sample_root) TrustedCABundleKey = Some ''CA''"
  by (simp_all add: sample_root_def sample_defs TrustedCABundleKey_def)

lemma wait_sample: "wait_for_bundle quiet_client sample_root injected_cluster = (Ok (Some sample_root), injected_cluster)"
  by (simp add: wait_for_bundle_def PollImmediate_def p_bind_def bundle_condition_def p_catch_def world_call_def
      GetConfigmap_def conclude_def finished_def bundle_complaint_def)

lemma sync_sample:
  "\<exists>w. syncTrustedCABundle ''grafana'' quiet_client f sample_root injected_cluster = (Ok sample_bundle, w)"
proof -
  let ?hash = "FormatUint (fnv64 ''CA'')"
  let ?w = "injected_cluster\<lparr>tracked_ConfigMaps := fmupd (''openshift-monitoring'', Name sample_bundle) sample_bundle
      (tracked_ConfigMaps injected_cluster)\<rparr>"
  have safe: "selector_safe ''grafana''" "selector_safe ?hash"
    by (simp add: selector_safe_def, rule FormatUint_selector_safe)
  have "CreateIfNotExistConfigMap quiet_client sample_root injected_cluster = (Ok sample_root, injected_cluster)"
    by (simp add: CreateIfNotExistConfigMap_def get_or_def p_catch_def)
  moreover have "HashTrustedCA f sample_root ''grafana'' = Ok sample_bundle"
    by (simp add: HashTrustedCA_def Let_def sample_bundle_def)
  moreover have "CreateOrUpdateConfigMap quiet_client sample_bundle injected_cluster = (Ok (), ?w)"
    by (simp add: CreateOrUpdateConfigMap_def run_simps ConfigMaps_tracker_def injected_cluster_def empty_cluster_def)
  moreover have "DeleteHashedConfigMap quiet_client ''openshift-monitoring'' ''grafana''
      (gm_get (Labels sample_bundle) hash_label) ?w = (Ok (), ks_pop ConfigMaps_tracker ?w)"
    unfolding DeleteHashedConfigMap_def quiet_client_simps
    by (rule delete_selected_nothing, rule lawful_trackers)
      (use hashed_selector_matches [OF safe] hashed_not_selected [OF safe] in
        \<open>auto simp: ConfigMaps_tracker_def injected_cluster_def empty_cluster_def gm_get_def split: if_splits\<close>)
  ultimately show ?thesis
    using wait_sample by (simp add: syncTrustedCABundle_def attempt_Ok_iff p_bind_Ok_iff)
qed

theorem syncTrustedCABundle_result_witness:
  "\<forall>f :: Cluster Factory. \<exists>h w w1 bundle.
     syncTrustedCABundle ''grafana'' quiet_client f sample_root injected_cluster = (Ok h, w) \<and>
     rolled_over tracker_accepts h ''grafana'' (FormatUint (fnv64 bundle))
       (tracker_view ConfigMaps_tracker w1) (tracker_view ConfigMaps_tracker w)"
proof
  fix f :: "Cluster Factory"
  from sync_sample obtain w where
    run: "syncTrustedCABundle ''grafana'' quiet_client f sample_root injected_cluster = (Ok sample_bundle, w)" by blast
  have "api_resource (ConfigMaps quiet_client) (tracker_view ConfigMaps_tracker) tracker_accepts"
    by (simp add: api_resource_tracker)
  from syncTrustedCABundle_result [OF this injected_addressed _ _ _ run] run
  show "\<exists>h w w1 bundle.
     syncTrustedCABundle ''grafana'' quiet_client f sample_root injected_cluster = (Ok h, w) \<and>
     rolled_over tracker_accepts h ''grafana'' (FormatUint (fnv64 bundle))
       (tracker_view ConfigMaps_tracker w1) (tracker_view ConfigMaps_tracker w)"
    by (fastforce simp: selector_safe_def)
qed

end
