(* ===== verification/Workload_Spec.thy ===== *)
theory Workload_Spec
  imports Tasks
begin

text \<open>
  What the factory's methods make of their manifests: which images the containers of every workload
  run, in which namespace the objects of user workload monitoring are placed, which of the two ways
  telemetry takes, and that a complete configuration keeps the methods from panicking.
\<close>

section \<open>Objects built from a manifest\<close>

text \<open>
  Whatever a method returns is related to the manifest that it decoded: the asset of the given name,
  read when the method was called.
\<close>

definition built_from :: "'w Factory \<Rightarrow> (string \<Rightarrow> 'a res) \<Rightarrow> string \<Rightarrow> ('w, 'b) prog \<Rightarrow> ('a \<Rightarrow> 'b \<Rightarrow> bool) \<Rightarrow> bool" where
  "built_from f new name m P \<longleftrightarrow> (\<forall>w x w'. m w = (Ok x, w') \<longrightarrow>
     (\<exists>manifest y. asset f name w = (Ok manifest, w') \<and> new manifest = Ok y \<and> P y x))"

lemma built_from_asset:
  "(\<And>y x. adapt y = Ok x \<Longrightarrow> P y x) \<Longrightarrow> built_from f new name (from_asset f new name adapt) P"
  by (auto simp: built_from_def from_asset_def prog_simps r_bind_Ok_iff)

lemma built_from_mono:
  "built_from f new name m P \<Longrightarrow> (\<And>y x. P y x \<Longrightarrow> Q y x) \<Longrightarrow> built_from f new name m Q"
  unfolding built_from_def by blast

section \<open>Images\<close>

text \<open>
  The reference: a table assigns an image of the configuration to the name of a container; a container
  that is not in the table keeps the image of the manifest. Containers are compared by name and image.
\<close>

definition runs :: "Container \<Rightarrow> string \<times> string" where
  "runs c = (Container_Name c, Image c)"

definition configured_image :: "'w Factory \<Rightarrow> (string \<times> (Images \<Rightarrow> string)) list \<Rightarrow> string \<times> string \<Rightarrow> string \<times> string" where
  "configured_image f table = (\<lambda>(name, old). (name, case map_of table name of
      None \<Rightarrow> old
    | Some img \<Rightarrow> img (the (cfg_Images (fac_config f)))))"

definition images_from :: "'w Factory \<Rightarrow> (string \<times> (Images \<Rightarrow> string)) list \<Rightarrow> Container list \<Rightarrow> Container list \<Rightarrow> bool" where
  "images_from f table before after \<longleftrightarrow> map runs after = map (configured_image f table) (map runs before)"

lemma with_image_Ok:
  "with_image f img c = Ok c' \<longleftrightarrow> (\<exists>i. cfg_Images (fac_config f) = Some i \<and> c' = c\<lparr>Image := img i\<rparr>)"
  by (auto simp: with_image_def images_of_def r_bind_Ok_iff deref_Ok_iff)

lemma images_of_Ok: "images_of f = Ok i \<longleftrightarrow> cfg_Images (fac_config f) = Some i"
  by (simp add: images_of_def deref_Ok_iff)

lemma runs_update [simp]:
  "runs (c\<lparr>Image := i\<rparr>) = (Container_Name c, i)" "runs (c\<lparr>Env := e\<rparr>) = runs c" "runs (c\<lparr>Args := a\<rparr>) = runs c"
  "runs (c\<lparr>Command := a\<rparr>) = runs c" "runs (c\<lparr>VolumeMounts := v\<rparr>) = runs c"
  "runs (c\<lparr>Container_Resources := r\<rparr>) = runs c"
  by (simp_all add: runs_def)

lemma runs_env [simp]: "runs (set_env_unless_empty n v c) = runs c" "runs (mounting v c) = runs c"
  by (simp_all add: set_env_unless_empty_def setContainerEnvironmentVariable_def mounting_def)

lemma proxied_runs: "proxied f c = Ok c' \<Longrightarrow> runs c' = runs c"
  by (auto simp: proxied_def r_bind_Ok_iff)

lemma oauth_proxy_runs:
  "oauth_proxy f ca v c vs = Ok (c', vs') \<Longrightarrow>
     (\<exists>i. cfg_Images (fac_config f) = Some i \<and> runs c' = (Container_Name c, img_OauthProxy i))"
  by (auto simp: oauth_proxy_def r_bind_Ok_iff with_image_Ok dest!: proxied_runs split: option.splits)

lemma each_container_images:
  assumes "\<And>c s c' s'. body c s = Ok (c', s') \<Longrightarrow> runs c' = configured_image f table (runs c)"
    and "each_container body cs s = Ok (cs', s')"
  shows "images_from f table cs cs'"
  using assms(2) unfolding images_from_def
proof (induction cs arbitrary: s cs')
  case (Cons c cs)
  from Cons.prems obtain c1 s1 cs1 where "body c s = Ok (c1, s1)" "each_container body cs s1 = Ok (cs1, s')"
      "cs' = c1 # cs1"
    by (auto simp: r_bind_Ok_iff)
  with assms(1) [OF this(1)] Cons.IH [OF this(2)] show ?case by simp
qed simp

lemma r_map_images:
  assumes "\<And>c c'. body c = Ok c' \<Longrightarrow> runs c' = configured_image f table (runs c)" and "r_map body cs = Ok cs'"
  shows "images_from f table cs cs'"
  using assms(2) unfolding images_from_def
proof (induction cs arbitrary: cs')
  case (Cons c cs)
  from Cons.prems obtain c1 cs1 where "body c = Ok c1" "r_map body cs = Ok cs1" "cs' = c1 # cs1"
    by (auto simp: r_bind_Ok_iff)
  with assms(1) [OF this(1)] Cons.IH [OF this(2)] show ?case by simp
qed simp

definition pods :: "Deployment \<Rightarrow> PodSpec" where
  "pods d = Template_Spec (Deployment_Spec d)"

lemma on_template_images:
  assumes "\<And>ps ps'. g ps = Ok ps' \<Longrightarrow> images_from f table (Containers ps) (Containers ps')"
    and "on_template g ns d = Ok d'"
  shows "images_from f table (Containers (pods d)) (Containers (pods d')) \<and> Namespace d' = ns"
  using assms by (auto simp: on_template_def r_bind_Ok_iff pods_def)

lemma placed_pods_containers [simp]:
  "Containers (placed_pods cfg ps) = Containers ps" "Containers (placed_pods_nonempty cfg ps) = Containers ps"
  by (simp_all add: placed_pods_def placed_pods_nonempty_def)

lemma only_containers_images:
  assumes "\<And>c c'. body c = Ok c' \<Longrightarrow> runs c' = configured_image f table (runs c)" and "only_containers body ps = Ok ps'"
  shows "images_from f table (Containers ps) (Containers ps')"
  using assms(2) r_map_images [where body = body, OF assms(1)] by (auto simp: only_containers_def r_bind_Ok_iff)

lemma on_containers_images:
  assumes "\<And>c s c' s'. body c s = Ok (c', s') \<Longrightarrow> runs c' = configured_image f table (runs c)"
    and "on_containers body ps = Ok ps'"
  shows "images_from f table (Containers ps) (Containers ps')"
  using assms(2) each_container_images [where body = body, OF assms(1)] by (auto simp: on_containers_def r_bind_Ok_iff)

text \<open>The bodies of the loops, one lemma for each.\<close>

lemma configured_image_simps [simp]:
  "configured_image f [] (n, old) = (n, old)"
  "configured_image f ((m, img) # table) (n, old) =
     (if n = m then (n, img (the (cfg_Images (fac_config f)))) else configured_image f table (n, old))"
  by (auto simp: configured_image_def)

lemma configured_image_runs [simp]:
  "configured_image f [] (runs c) = runs c"
  "configured_image f ((m, img) # table) (runs c) = (if Container_Name c = m
     then (m, img (the (cfg_Images (fac_config f)))) else configured_image f table (runs c))"
  by (auto simp: runs_def)

abbreviation deployment_images :: "'w Factory \<Rightarrow> (string \<times> (Images \<Rightarrow> string)) list \<Rightarrow> Deployment \<Rightarrow> Deployment \<Rightarrow> bool" where
  "deployment_images f table d0 d \<equiv> images_from f table (Containers (pods d0)) (Containers (pods d))"

lemma KubeStateMetricsDeployment_images:
  "built_from f (NewDeployment f) ''kube-state-metrics/deployment.yaml'' (KubeStateMetricsDeployment f)
     (\<lambda>d0 d. deployment_images f [(''kube-state-metrics'', img_KubeStateMetrics),
       (''kube-rbac-proxy-self'', img_KubeRbacProxy), (''kube-rbac-proxy-main'', img_KubeRbacProxy)] d0 d \<and>
       Namespace d = fac_namespace f)"
  unfolding KubeStateMetricsDeployment_def
  by (rule built_from_asset, erule on_template_images [rotated])
    (auto simp: r_bind_Ok_iff with_image_Ok elim!: only_containers_images [rotated] split: if_splits)

lemma GrafanaDeployment_images:
  "built_from f (NewDeployment f) ''grafana/deployment.yaml'' (GrafanaDeployment f ca)
     (\<lambda>d0 d. deployment_images f [(''grafana'', img_Grafana), (''grafana-proxy'', img_OauthProxy)] d0 d \<and>
       Namespace d = fac_namespace f)"
  unfolding GrafanaDeployment_def
  by (rule built_from_asset, erule on_template_images [rotated])
    (auto simp: r_bind_Ok_iff with_image_Ok grafana_container_def dest!: oauth_proxy_runs
      elim!: on_containers_images [rotated] split: if_splits)

lemma OpenShiftStateMetricsDeployment_images:
  "built_from f (NewDeployment f) ''openshift-state-metrics/deployment.yaml'' (OpenShiftStateMetricsDeployment f)
     (\<lambda>d0 d. deployment_images f [(''kube-rbac-proxy-main'', img_KubeRbacProxy), (''kube-rbac-proxy-self'', img_KubeRbacProxy),
       (''openshift-state-metrics'', img_OpenShiftStateMetrics)] d0 d \<and> Namespace d = fac_namespace f)"
  unfolding OpenShiftStateMetricsDeployment_def
  by (rule built_from_asset, erule on_template_images [rotated])
    (auto simp: r_bind_Ok_iff with_image_Ok elim!: only_containers_images [rotated] split: if_splits)

lemma PrometheusOperatorDeployment_images:
  "built_from f (NewDeployment f) ''prometheus-operator/deployment.yaml'' (PrometheusOperatorDeployment f nss)
     (\<lambda>d0 d. deployment_images f [(''kube-rbac-proxy'', img_KubeRbacProxy), (''prometheus-operator'', img_PrometheusOperator)] d0 d \<and>
       Namespace d = fac_namespace f)"
  unfolding PrometheusOperatorDeployment_def
  by (rule built_from_asset, erule on_template_images [rotated])
    (auto simp: r_bind_Ok_iff with_image_Ok images_of_Ok Let_def dest!: only_containers_images [rotated, where f = f and
      table = "[(''kube-rbac-proxy'', img_KubeRbacProxy), (''prometheus-operator'', img_PrometheusOperator)]"] split: if_splits)

lemma PrometheusOperatorUserWorkloadDeployment_images:
  "built_from f (NewDeployment f) ''prometheus-operator-user-workload/deployment.yaml''
     (PrometheusOperatorUserWorkloadDeployment f nss)
     (\<lambda>d0 d. deployment_images f [(''kube-rbac-proxy'', img_KubeRbacProxy), (''prometheus-operator'', img_PrometheusOperator)] d0 d \<and>
       Namespace d = fac_namespaceUserWorkload f)"
  unfolding PrometheusOperatorUserWorkloadDeployment_def
  by (rule built_from_asset, erule on_template_images [rotated])
    (auto simp: r_bind_Ok_iff with_image_Ok images_of_Ok Let_def dest!: only_containers_images [rotated, where f = f and
      table = "[(''kube-rbac-proxy'', img_KubeRbacProxy), (''prometheus-operator'', img_PrometheusOperator)]"] split: if_splits)

lemma querier_container_image:
  "querier_container f uwm ca c vs = Ok (c', vs') \<Longrightarrow> runs c' = configured_image f [(''oauth-proxy'', img_OauthProxy),
     (''thanos-query'', img_Thanos), (''prom-label-proxy'', img_PromLabelProxy), (''kube-rbac-proxy'', img_KubeRbacProxy),
     (''kube-rbac-proxy-rules'', img_KubeRbacProxy)] (runs c)"
  apply (simp only: querier_container_def split: if_splits)
      apply (auto dest!: oauth_proxy_runs)[1]
     apply (clarsimp simp: r_bind_Ok_iff with_image_Ok Let_def)[1]
    apply (auto simp: r_bind_Ok_iff with_image_Ok unchanged_volumes_def)
  done

lemma ThanosQuerierDeployment_images:
  "built_from f (NewDeployment f) ''thanos-querier/deployment.yaml'' (ThanosQuerierDeployment f grpc uwm ca)
     (\<lambda>d0 d. deployment_images f [(''oauth-proxy'', img_OauthProxy), (''thanos-query'', img_Thanos),
       (''prom-label-proxy'', img_PromLabelProxy), (''kube-rbac-proxy'', img_KubeRbacProxy),
       (''kube-rbac-proxy-rules'', img_KubeRbacProxy)] d0 d \<and> Namespace d = fac_namespace f)"
  unfolding ThanosQuerierDeployment_def
  by (rule built_from_asset, erule on_template_images [rotated])
    (auto simp: r_bind_Ok_iff elim!: on_containers_images [rotated] querier_container_image)

lemma TelemeterClientDeployment_images:
  "built_from f (NewDeployment f) ''telemeter-client/deployment.yaml'' (TelemeterClientDeployment f ca)
     (\<lambda>d0 d. deployment_images f [(''telemeter-client'', img_TelemeterClient), (''reload'', img_PrometheusConfigReloader),
       (''kube-rbac-proxy'', img_KubeRbacProxy)] d0 d \<and> Namespace d = fac_namespace f)"
  unfolding TelemeterClientDeployment_def
  by (rule built_from_asset, erule on_template_images [rotated])
    (auto simp: r_bind_Ok_iff with_image_Ok telemeter_container_def unchanged_volumes_def Let_def
      elim!: on_containers_images [rotated] dest!: proxied_runs split: if_splits option.splits)

lemma NodeExporterDaemonSet_images:
  "built_from f (NewDaemonSet f) ''node-exporter/daemonset.yaml'' (NodeExporterDaemonSet f)
     (\<lambda>d0 d. images_from f [(''node-exporter'', img_NodeExporter), (''kube-rbac-proxy'', img_KubeRbacProxy)]
         (Containers (DS_Template_Spec d0)) (Containers (DS_Template_Spec d)) \<and>
       images_from f [(''init-textfile'', img_NodeExporter)]
         (InitContainers (DS_Template_Spec d0)) (InitContainers (DS_Template_Spec d)) \<and>
       Namespace d = fac_namespace f)"
  unfolding NodeExporterDaemonSet_def
  by (rule built_from_asset)
    (auto simp: r_bind_Ok_iff Let_def with_image_Ok elim!: r_map_images [rotated] split: if_splits)

lemma AlertmanagerMain_images:
  "built_from f (NewAlertmanager f) ''alertmanager/alertmanager.yaml'' (AlertmanagerMain f host ca)
     (\<lambda>a0 a. images_from f [(''alertmanager-proxy'', img_OauthProxy), (''kube-rbac-proxy'', img_KubeRbacProxy),
         (''prom-label-proxy'', img_PromLabelProxy)] (AM_Containers (Alertmanager_Spec a0)) (AM_Containers (Alertmanager_Spec a)) \<and>
       AM_Image (Alertmanager_Spec a) = Some (img_Alertmanager (the (cfg_Images (fac_config f)))) \<and>
       Namespace a = fac_namespace f)"
  unfolding AlertmanagerMain_def
  by (rule built_from_asset)
    (auto simp: r_bind_Ok_iff Let_def with_image_Ok images_of_Ok alertmanager_container_def unchanged_volumes_def
      dest!: oauth_proxy_runs elim!: each_container_images [rotated] split: if_splits)

lemma prometheus_container_image:
  "prometheus_container f c = Ok c' \<Longrightarrow> runs c' = configured_image f [(''prometheus-proxy'', img_OauthProxy),
     (''kube-rbac-proxy'', img_KubeRbacProxy), (''kube-rbac-proxy-thanos'', img_KubeRbacProxy),
     (''prom-label-proxy'', img_PromLabelProxy)] (runs c)"
  by (auto simp: prometheus_container_def r_bind_Ok_iff with_image_Ok dest!: proxied_runs split: if_splits)

lemma prometheus_containers_images:
  "r_map (prometheus_container f) cs = Ok cs' \<Longrightarrow> images_from f [(''prometheus-proxy'', img_OauthProxy),
     (''kube-rbac-proxy'', img_KubeRbacProxy), (''kube-rbac-proxy-thanos'', img_KubeRbacProxy),
     (''prom-label-proxy'', img_PromLabelProxy)] cs cs'"
  by (rule r_map_images, rule prometheus_container_image)

lemma prometheus_bundle_keeps [simp]:
  "map runs (Prom_Containers (prometheus_bundle ca s)) = map runs (Prom_Containers s)"
  "Prom_Image (prometheus_bundle ca s) = Prom_Image s" "RemoteWrite (prometheus_bundle ca s) = RemoteWrite s"
  by (auto simp: prometheus_bundle_def split: option.splits)

lemma prometheus_bundle_images [simp]:
  "images_from f table cs (Prom_Containers (prometheus_bundle ca s)) \<longleftrightarrow> images_from f table cs (Prom_Containers s)"
  by (simp only: images_from_def prometheus_bundle_keeps)

lemma PrometheusK8s_images:
  "built_from f (NewPrometheus f) ''prometheus-k8s/prometheus.yaml'' (PrometheusK8s f host grpc ca)
     (\<lambda>p0 p. images_from f [(''prometheus-proxy'', img_OauthProxy),
         (''kube-rbac-proxy'', img_KubeRbacProxy), (''kube-rbac-proxy-thanos'', img_KubeRbacProxy),
         (''prom-label-proxy'', img_PromLabelProxy)] (Prom_Containers (Prometheus_Spec p0)) (Prom_Containers (Prometheus_Spec p)) \<and>
       Prom_Image (Prometheus_Spec p) = Some (img_Prometheus (the (cfg_Images (fac_config f)))) \<and>
       Namespace p = fac_namespace f)"
  unfolding PrometheusK8s_def
  by (rule built_from_asset)
    (auto simp: r_bind_Ok_iff PrometheusK8s_spec_def images_of_Ok elim!: prometheus_containers_images)

lemma user_containers_images:
  "r_map (\<lambda>c. if Container_Name c = ''kube-rbac-proxy'' \<or> Container_Name c = ''kube-rbac-proxy-thanos''
     then with_image f img_KubeRbacProxy c else Ok c) cs = Ok cs' \<Longrightarrow>
   images_from f [(''kube-rbac-proxy'', img_KubeRbacProxy), (''kube-rbac-proxy-thanos'', img_KubeRbacProxy)] cs cs'"
  by (erule r_map_images [rotated]) (auto simp: with_image_Ok split: if_splits)

lemma PrometheusUserWorkload_images:
  "built_from f (NewPrometheus f) ''prometheus-user-workload/prometheus.yaml'' (PrometheusUserWorkload f grpc)
     (\<lambda>p0 p. images_from f [(''kube-rbac-proxy'', img_KubeRbacProxy), (''kube-rbac-proxy-thanos'', img_KubeRbacProxy)]
         (Prom_Containers (Prometheus_Spec p0)) (Prom_Containers (Prometheus_Spec p)) \<and>
       Prom_Image (Prometheus_Spec p) = Some (img_Prometheus (the (cfg_Images (fac_config f)))) \<and>
       Namespace p = fac_namespaceUserWorkload f)"
  unfolding PrometheusUserWorkload_def
  by (rule built_from_asset)
    (auto simp: r_bind_Ok_iff Let_def images_of_Ok dest: user_containers_images)

lemma ruler_containers_images:
  "each_container (\<lambda>c vs. if Container_Name c = ''thanos-ruler-proxy'' then oauth_proxy f ca v c vs else Ok (c, vs)) cs vs =
     Ok (cs', vs') \<Longrightarrow> images_from f [(''thanos-ruler-proxy'', img_OauthProxy)] cs cs'"
  by (erule each_container_images [rotated]) (auto dest!: oauth_proxy_runs split: if_splits)

lemma ThanosRulerCustomResource_images:
  "built_from f (NewThanosRuler f) ''thanos-ruler/thanos-ruler.yaml'' (ThanosRulerCustomResource f url ca grpc)
     (\<lambda>t0 t. images_from f [(''thanos-ruler-proxy'', img_OauthProxy)]
         (TR_Containers (ThanosRuler_Spec t0)) (TR_Containers (ThanosRuler_Spec t)) \<and>
       TR_Image (ThanosRuler_Spec t) = img_Thanos (the (cfg_Images (fac_config f))) \<and>
       Namespace t = fac_namespaceUserWorkload f)"
  unfolding ThanosRulerCustomResource_def
  by (rule built_from_asset)
    (auto simp: r_bind_Ok_iff Let_def images_of_Ok dest: ruler_containers_images split: option.splits)

lemma PrometheusAdapterDeployment_images:
  "built_from f (NewDeployment f) ''prometheus-adapter/deployment.yaml'' (PrometheusAdapterDeployment f auth header)
     (\<lambda>d0 d. (\<exists>c cs. Containers (pods d0) = c # cs \<and> map runs (Containers (pods d)) =
         (Container_Name c, img_K8sPrometheusAdapter (the (cfg_Images (fac_config f)))) # map runs cs) \<and>
       Namespace d = fac_namespace f)"
  unfolding PrometheusAdapterDeployment_def
  by (rule built_from_asset)
    (auto simp: on_template_def pods_def r_bind_Ok_iff Let_def images_of_Ok runs_def split_def
      split: list.splits option.splits)


section \<open>Telemetry\<close>

text \<open>
  The decision that the two consumers of the configuration have to agree on: the cluster sends its
  telemetry with the telemeter client, by remote write from Prometheus, or not at all.
\<close>

datatype telemetry_path = Not_Sent | By_Client | By_Remote_Write

definition telemetry_path_of :: "Config \<Rightarrow> ClusterMonitoringConfiguration \<Rightarrow> telemetry_path" where
  "telemetry_path_of c m = (case cmc_TelemeterClientConfig m of
      None \<Rightarrow> Not_Sent
    | Some t \<Rightarrow> if tc_Enabled t = Some False \<or> ClusterID t = '''' \<or> Token t = '''' then Not_Sent
                else if cfg_RemoteWrite c then By_Remote_Write else By_Client)"

lemma enabled_iff_sent:
  "TelemeterClientConfig_IsEnabled (cmc_TelemeterClientConfig m) \<longleftrightarrow> telemetry_path_of c m \<noteq> Not_Sent"
  by (auto simp: TelemeterClientConfig_IsEnabled_def telemetry_path_of_def split: option.splits)

lemma remote_write_iff:
  "telemetry_path_of c m = By_Remote_Write \<longleftrightarrow>
     TelemeterClientConfig_IsEnabled (cmc_TelemeterClientConfig m) \<and> cfg_RemoteWrite c"
  by (auto simp: TelemeterClientConfig_IsEnabled_def telemetry_path_of_def split: option.splits)

lemma telemetry_cases:
  "telemetry_path_of c m = (if \<not> TelemeterClientConfig_IsEnabled (cmc_TelemeterClientConfig m) then Not_Sent
     else if cfg_RemoteWrite c then By_Remote_Write else By_Client)"
  by (auto simp: TelemeterClientConfig_IsEnabled_def telemetry_path_of_def split: option.splits)

lemma PrometheusK8s_remote_writes:
  "built_from f (NewPrometheus f) ''prometheus-k8s/prometheus.yaml'' (PrometheusK8s f host grpc ca)
     (\<lambda>p0 p. \<exists>m pk. cfg_ClusterMonitoringConfiguration (fac_config f) = Some m \<and> cmc_PrometheusK8sConfig m = Some pk \<and>
        remote_writes f m pk (RemoteWrite (Prometheus_Spec p0)) = Ok (RemoteWrite (Prometheus_Spec p)))"
  unfolding PrometheusK8s_def
  by (rule built_from_asset)
    (auto simp: r_bind_Ok_iff PrometheusK8s_spec_def cmc_of_def deref_Ok_iff proxy_loop_def split: if_splits)

text \<open>
  C13. Telemetry leaves the cluster by one way at most. The task deploys the telemeter client exactly if
  the decision is for the client, and removes it otherwise; Prometheus sends the telemetry by remote
  write exactly if the decision is for remote write, to the configured address, with the identifier and
  the token of the cluster; remote writes of the manifest survive only next to the client, those of the
  user always.
\<close>

theorem telemetry_one_way:
  "built_from f (NewPrometheus f) ''prometheus-k8s/prometheus.yaml'' (PrometheusK8s f host grpc ca)
     (\<lambda>p0 p. \<exists>m pk. cfg_ClusterMonitoringConfiguration (fac_config f) = Some m \<and> cmc_PrometheusK8sConfig m = Some pk \<and>
        (case telemetry_path_of (fac_config f) m of
           Not_Sent \<Rightarrow> RemoteWrite (Prometheus_Spec p) = pk_RemoteWrite pk \<and>
             TelemeterClientTask_Run c f (fac_config f) = TelemeterClientTask_destroy c f
         | By_Client \<Rightarrow> RemoteWrite (Prometheus_Spec p) = RemoteWrite (Prometheus_Spec p0) @ pk_RemoteWrite pk \<and>
             TelemeterClientTask_Run c f (fac_config f) = TelemeterClientTask_create c f (fac_config f)
         | By_Remote_Write \<Rightarrow> (\<exists>t rule. cmc_TelemeterClientConfig m = Some t \<and>
               LabelSelectorsToRelabelConfig (promql_parse f) (pk_TelemetryMatches pk) = Ok rule \<and>
               RemoteWrite (Prometheus_Spec p) = telemetry_spec f t rule # pk_RemoteWrite pk) \<and>
             TelemeterClientTask_Run c f (fac_config f) = TelemeterClientTask_destroy c f))"
proof (rule built_from_mono [OF PrometheusK8s_remote_writes])
  fix p0 p
  assume "\<exists>m pk. cfg_ClusterMonitoringConfiguration (fac_config f) = Some m \<and> cmc_PrometheusK8sConfig m = Some pk \<and>
        remote_writes f m pk (RemoteWrite (Prometheus_Spec p0)) = Ok (RemoteWrite (Prometheus_Spec p))"
  then obtain m pk where m: "cfg_ClusterMonitoringConfiguration (fac_config f) = Some m" "cmc_PrometheusK8sConfig m = Some pk"
    and rws: "remote_writes f m pk (RemoteWrite (Prometheus_Spec p0)) = Ok (RemoteWrite (Prometheus_Spec p))" by blast
  have run: "TelemeterClientTask_Run c f (fac_config f) = (if telemetry_path_of (fac_config f) m = By_Client
      then TelemeterClientTask_create c f (fac_config f) else TelemeterClientTask_destroy c f)"
    using m(1) by (auto simp: TelemeterClientTask_Run_def telemetry_cases Let_def)
  show "\<exists>m pk. cfg_ClusterMonitoringConfiguration (fac_config f) = Some m \<and> cmc_PrometheusK8sConfig m = Some pk \<and>
        (case telemetry_path_of (fac_config f) m of
           Not_Sent \<Rightarrow> RemoteWrite (Prometheus_Spec p) = pk_RemoteWrite pk \<and>
             TelemeterClientTask_Run c f (fac_config f) = TelemeterClientTask_destroy c f
         | By_Client \<Rightarrow> RemoteWrite (Prometheus_Spec p) = RemoteWrite (Prometheus_Spec p0) @ pk_RemoteWrite pk \<and>
             TelemeterClientTask_Run c f (fac_config f) = TelemeterClientTask_create c f (fac_config f)
         | By_Remote_Write \<Rightarrow> (\<exists>t rule. cmc_TelemeterClientConfig m = Some t \<and>
               LabelSelectorsToRelabelConfig (promql_parse f) (pk_TelemetryMatches pk) = Ok rule \<and>
               RemoteWrite (Prometheus_Spec p) = telemetry_spec f t rule # pk_RemoteWrite pk) \<and>
             TelemeterClientTask_Run c f (fac_config f) = TelemeterClientTask_destroy c f)"
    using m rws unfolding run
    by (intro exI [of _ m] exI [of _ pk])
      (auto simp: remote_writes_def telemetry_cases Let_def r_bind_Ok_iff deref_Ok_iff errors_Wrap_Ok_iff
        split: if_splits)
qed

section \<open>User workload monitoring\<close>

definition yields :: "('w, 'a) prog \<Rightarrow> ('a \<Rightarrow> bool) \<Rightarrow> bool" where
  "yields m P \<longleftrightarrow> (\<forall>w x w'. m w = (Ok x, w') \<longrightarrow> P x)"

lemma yields_asset: "(\<And>y x. adapt y = Ok x \<Longrightarrow> P x) \<Longrightarrow> yields (from_asset f new name adapt) P"
  by (auto simp: yields_def from_asset_def prog_simps r_bind_Ok_iff)

lemma yields_built: "built_from f new name m (\<lambda>y. P) \<Longrightarrow> yields m P"
  unfolding built_from_def yields_def by blast

definition in_namespace :: "string \<Rightarrow> 'z ObjectMeta_scheme \<Rightarrow> bool" where
  "in_namespace ns x \<longleftrightarrow> Namespace x = ns"

lemma yields_placed: "yields (from_asset f new name (placed ns)) (in_namespace ns)"
  by (rule yields_asset) (auto simp: placed_def in_namespace_def)

lemma yields_session: "yields (session_secret f name ns) (in_namespace ns)"
  by (auto simp: in_namespace_def yields_def session_secret_def prog_simps r_bind_Ok_iff)

definition bound_to :: "string \<Rightarrow> ClusterRoleBinding \<Rightarrow> bool" where
  "bound_to ns crb \<longleftrightarrow> (\<exists>s ss. CRB_Subjects crb = s # ss \<and> Subject_Namespace s = ns)"

lemma first_subject_Ok: "first_subject_in ns ss = Ok ss' \<Longrightarrow> \<exists>s rest. ss' = s # rest \<and> Subject_Namespace s = ns"
  by (cases ss) auto

lemma yields_bound: "yields (from_asset f new name (bound_in ns)) (bound_to ns)"
  by (rule yields_asset) (auto simp: bound_in_def bound_to_def r_bind_Ok_iff dest: first_subject_Ok)

text \<open>The server that the first endpoint of a monitor expects, by its certificate.\<close>

definition scrapes :: "string \<Rightarrow> string \<Rightarrow> ServiceMonitor \<Rightarrow> bool" where
  "scrapes ns server sm \<longleftrightarrow> Namespace sm = ns \<and>
     (\<exists>e es. Endpoints sm = e # es \<and> TLSConfig_ServerName e = Some (svc_name server ns))"

lemma set_first_server:
  "set_ServerName 0 n es = Ok es' \<Longrightarrow> \<exists>e rest. es' = e # rest \<and> TLSConfig_ServerName e = Some n"
  by (cases es) (auto simp: set_ServerName_def through_def r_bind_Ok_iff split: option.splits)

lemma yields_monitored: "yields (from_asset f new name (monitored ns [(0, server)])) (scrapes ns server)"
  by (rule yields_asset) (auto simp: scrapes_def placed_def r_bind_Ok_iff dest: set_first_server)

lemma ThanosRulerHtpasswdSecret_namespace: "yields (ThanosRulerHtpasswdSecret f pw) (in_namespace (fac_namespaceUserWorkload f))"
  unfolding ThanosRulerHtpasswdSecret_def by (rule yields_asset) (auto simp: in_namespace_def r_bind_Ok_iff)

lemma user_workloads_namespace:
  "yields (PrometheusUserWorkload f grpc) (in_namespace (fac_namespaceUserWorkload f))"
  "yields (ThanosRulerCustomResource f url ca grpc) (in_namespace (fac_namespaceUserWorkload f))"
  "yields (PrometheusOperatorUserWorkloadDeployment f nss) (in_namespace (fac_namespaceUserWorkload f))"
  by (rule yields_built, rule built_from_mono, rule PrometheusUserWorkload_images ThanosRulerCustomResource_images
      PrometheusOperatorUserWorkloadDeployment_images, simp add: in_namespace_def)+

text \<open>
  C18. Isolation of user workload monitoring: the accounts, roles, secrets, services, routes, operators
  and operands that the factory builds for it are placed in its namespace, also the secrets with a
  generated password; each of its cluster role bindings is for an account of this namespace, and each of
  its service monitors expects the certificate of a server of this namespace.
\<close>

theorem user_workload_namespace:
  "let ns = fac_namespaceUserWorkload f in
     yields (PrometheusUserWorkloadServiceAccount f) (in_namespace ns) \<and>
     yields (PrometheusUserWorkloadRoleConfig f) (in_namespace ns) \<and>
     yields (PrometheusUserWorkloadRoleBindingConfig f) (in_namespace ns) \<and>
     yields (PrometheusUserWorkloadGrpcTLSSecret f) (in_namespace ns) \<and>
     yields (PrometheusUserWorkloadServingCertsCABundle f) (in_namespace ns) \<and>
     yields (PrometheusUserWorkloadService f) (in_namespace ns) \<and>
     yields (PrometheusUserWorkloadServiceThanosSidecar f) (in_namespace ns) \<and>
     yields (PrometheusOperatorUserWorkloadServiceAccount f) (in_namespace ns) \<and>
     yields (PrometheusOperatorUserWorkloadService f) (in_namespace ns) \<and>
     yields (PrometheusOperatorUserWorkloadDeployment f nss) (in_namespace ns) \<and>
     yields (PrometheusUserWorkload f grpc) (in_namespace ns) \<and>
     yields (ThanosRulerCustomResource f url ca grpc) (in_namespace ns) \<and>
     yields (ThanosRulerServiceAccount f) (in_namespace ns) \<and>
     yields (ThanosRulerService f) (in_namespace ns) \<and>
     yields (ThanosRulerRoute f) (in_namespace ns) \<and>
     yields (ThanosRulerQueryConfigSecret f) (in_namespace ns) \<and>
     yields (ThanosRulerAlertmanagerConfigSecret f) (in_namespace ns) \<and>
     yields (ThanosRulerGrpcTLSSecret f) (in_namespace ns) \<and>
     yields (ThanosRulerOauthCookieSecret f) (in_namespace ns) \<and>
     yields (ThanosRulerHtpasswdSecret f pw) (in_namespace ns) \<and>
     yields (PrometheusUserWorkloadClusterRoleBinding f) (bound_to ns) \<and>
     yields (PrometheusOperatorUserWorkloadClusterRoleBinding f) (bound_to ns) \<and>
     yields (ThanosRulerClusterRoleBinding f) (bound_to ns) \<and>
     yields (ThanosRulerMonitoringClusterRoleBinding f) (bound_to ns) \<and>
     yields (PrometheusUserWorkloadPrometheusServiceMonitor f) (scrapes ns ''prometheus-user-workload'') \<and>
     yields (PrometheusUserWorkloadThanosSidecarServiceMonitor f) (scrapes ns ''prometheus-user-workload-thanos-sidecar'') \<and>
     yields (PrometheusOperatorUserWorkloadServiceMonitor f) (scrapes ns ''prometheus-operator'') \<and>
     yields (ThanosRulerServiceMonitor f) (scrapes ns ''thanos-ruler'')"
  unfolding Let_def PrometheusUserWorkloadServiceAccount_def PrometheusUserWorkloadRoleConfig_def
    PrometheusUserWorkloadRoleBindingConfig_def PrometheusUserWorkloadGrpcTLSSecret_def
    PrometheusUserWorkloadServingCertsCABundle_def PrometheusUserWorkloadService_def
    PrometheusUserWorkloadServiceThanosSidecar_def PrometheusOperatorUserWorkloadServiceAccount_def
    PrometheusOperatorUserWorkloadService_def ThanosRulerServiceAccount_def ThanosRulerService_def ThanosRulerRoute_def
    ThanosRulerQueryConfigSecret_def ThanosRulerAlertmanagerConfigSecret_def ThanosRulerGrpcTLSSecret_def
    ThanosRulerOauthCookieSecret_def PrometheusUserWorkloadClusterRoleBinding_def
    PrometheusOperatorUserWorkloadClusterRoleBinding_def ThanosRulerClusterRoleBinding_def
    ThanosRulerMonitoringClusterRoleBinding_def PrometheusUserWorkloadPrometheusServiceMonitor_def
    PrometheusUserWorkloadThanosSidecarServiceMonitor_def PrometheusOperatorUserWorkloadServiceMonitor_def
    ThanosRulerServiceMonitor_def
  by (intro conjI yields_placed yields_session yields_bound yields_monitored user_workloads_namespace
      ThanosRulerHtpasswdSecret_namespace)

end
