(* ===== verification/Factory_Safety.thy ===== *)
theory Factory_Safety
  imports Workload_Spec Cluster
begin

text \<open>
  Why the factory does not panic: the methods dereference the sections of the configuration without a
  check, and a complete configuration, which is what a reconciliation works with, has all of them. A
  factory on which this can be observed is at the end.
\<close>

section \<open>Results that are not a panic\<close>

definition safe :: "'a res \<Rightarrow> bool" where
  "safe r \<longleftrightarrow> r \<noteq> Panic"

lemma safe_simps [simp]: "safe (Ok a)" "safe (Err e)" "\<not> safe Panic"
  by (simp_all add: safe_def)

lemma safe_bind: "safe r \<Longrightarrow> (\<And>a. r = Ok a \<Longrightarrow> safe (k a)) \<Longrightarrow> safe (r_bind r k)"
  by (cases r) (auto simp: safe_def)

lemma safe_if: "(b \<Longrightarrow> safe r) \<Longrightarrow> (\<not> b \<Longrightarrow> safe s) \<Longrightarrow> safe (if b then r else s)"
  by simp

lemma safe_pair: "safe (h (fst p) (snd p)) \<Longrightarrow> safe (case p of (a, b) \<Rightarrow> h a b)"
  by (simp add: split_def)

lemma safe_each_container: "(\<And>c s. safe (body c s)) \<Longrightarrow> safe (each_container body cs s)"
  by (induction cs arbitrary: s) (auto intro!: safe_bind safe_pair)

lemma safe_map: "(\<And>x. safe (g x)) \<Longrightarrow> safe (r_map g xs)"
  by (induction xs) (auto intro!: safe_bind)

lemma safe_only_containers: "(\<And>c. safe (body c)) \<Longrightarrow> safe (only_containers body ps)"
  unfolding only_containers_def by (intro safe_bind safe_map safe_simps)

lemma safe_on_containers: "(\<And>c s. safe (body c s)) \<Longrightarrow> safe (on_containers body ps)"
  unfolding on_containers_def by (intro safe_bind safe_each_container safe_pair safe_simps)

lemma safe_on_template: "(\<And>ps. safe (g ps)) \<Longrightarrow> safe (on_template g ns d)"
  unfolding on_template_def by (intro safe_bind safe_simps)

lemma safe_unchanged_volumes: "safe r \<Longrightarrow> safe (unchanged_volumes s r)"
  unfolding unchanged_volumes_def by (intro safe_bind safe_simps)

lemma safe_decoded [simp]: "safe (decoded r)"
  by (auto simp: decoded_def split: sum.splits)

lemma safe_decoders:
  "safe (NewDeployment f s)" "safe (NewDaemonSet f s)" "safe (NewAlertmanager f s)" "safe (NewThanosRuler f s)"
  unfolding NewDeployment_def NewDaemonSet_def NewAlertmanager_def NewThanosRuler_def read_Deployment_def
    read_DaemonSet_def read_Alertmanager_def read_ThanosRuler_def
  by (intro safe_bind safe_decoded safe_simps)+

lemma safe_from_asset:
  assumes "returns (asset f name)" and "\<And>s. safe (new s)" and "\<And>y. safe (adapt y)"
  shows "returns (from_asset f new name adapt)"
proof -
  have "safe (r_bind (new s) adapt)" for s by (intro safe_bind assms(2,3))
  then show ?thesis unfolding from_asset_def using assms(1) by (intro returns_bind) (auto simp: safe_def)
qed

section \<open>What a complete configuration answers\<close>

lemma complete_sections:
  assumes "complete (fac_config f)"
  shows "safe (images_of f)" and "safe (cmc_of f)" and "safe (user_cfg_of f)" and "safe (http_of (fac_config f))"
    and "safe (telemeter_of_factory f)" and "safe (etcd_enabled f)"
  using assms
  by (elim completeE complete_cmcE; simp add: images_of_def cmc_of_def user_cfg_of_def http_of_def
      telemeter_of_factory_def telemeter_of_def etcd_enabled_def config_etcd_enabled_def)+

lemma complete_cmc_sections:
  assumes "complete (fac_config f)" and "cmc_of f = Ok m"
  shows "safe (deref (cmc_AlertmanagerMainConfig m))" and "safe (deref (cmc_KubeStateMetricsConfig m))"
    and "safe (deref (cmc_OpenShiftMetricsConfig m))" and "safe (deref (cmc_PrometheusOperatorConfig m))"
    and "safe (deref (cmc_GrafanaConfig m))" and "safe (deref (cmc_ThanosQuerierConfig m))"
    and "safe (deref (cmc_PrometheusK8sConfig m))"
  using assms by (elim completeE complete_cmcE; simp add: cmc_of_def)+

lemma complete_user_sections:
  assumes "complete (fac_config f)" and "user_cfg_of f = Ok u"
  shows "safe (deref (uwc_PrometheusOperator u))" and "safe (deref (uwc_ThanosRuler u))"
  using assms by (elim completeE; auto simp: user_cfg_of_def complete_user_def)+

lemma complete_containers:
  assumes "complete (fac_config f)"
  shows "safe (with_image f img c)" and "safe (proxied f c)" and "safe (oauth_proxy f ca v c vs)"
proof -
  show image: "safe (with_image f img c)" for img c
    unfolding with_image_def by (intro safe_bind safe_simps complete_sections [OF assms])
  show proxy: "safe (proxied f c)" for c
    unfolding proxied_def by (intro safe_bind safe_simps complete_sections [OF assms])
  show "safe (oauth_proxy f ca v c vs)"
    unfolding oauth_proxy_def by (intro safe_bind safe_simps image proxy)
qed

lemmas safe_rules = safe_from_asset safe_decoders safe_on_template safe_only_containers safe_on_containers
  safe_unchanged_volumes safe_bind safe_if safe_pair safe_each_container safe_map safe_simps


section \<open>A factory\<close>

text \<open>
  A factory over the assets themselves as the world: every file has the same content, which decodes to a
  deployment and to nothing else.
\<close>

definition no_decoder :: error where
  "no_decoder = ErrorString ''unexpected manifest''"

definition sample_factory :: "Assets Factory" where
  "sample_factory = \<lparr>
     fac_namespace = ''openshift-monitoring'',
     fac_namespaceUserWorkload = ''openshift-user-workload-monitoring'',
     fac_config = NewDefaultConfig,
     fac_assets = (\<lambda>w. w),
     put_assets = (\<lambda>a _. a),
     ReadFile = (\<lambda>_ _. Ok ''{}''),
     rand_Read = (\<lambda>n. p_return (Ok (replicate n CHR ''x''))),
     yaml_DaemonSet = (\<lambda>_. Inl no_decoder),
     yaml_Service = (\<lambda>_. Inl no_decoder),
     yaml_Route = (\<lambda>_. Inl no_decoder),
     yaml_Secret = (\<lambda>_. Inl no_decoder),
     yaml_RoleBinding = (\<lambda>_. Inl no_decoder),
     yaml_RoleList = (\<lambda>_. Inl no_decoder),
     yaml_RoleBindingList = (\<lambda>_. Inl no_decoder),
     yaml_Role = (\<lambda>_. Inl no_decoder),
     yaml_ConfigMap = (\<lambda>_. Inl no_decoder),
     yaml_ConfigMapList = (\<lambda>_. Inl no_decoder),
     yaml_ServiceAccount = (\<lambda>_. Inl no_decoder),
     yaml_Prometheus = (\<lambda>_. Inl no_decoder),
     yaml_PrometheusRule = (\<lambda>_. Inl no_decoder),
     yaml_Alertmanager = (\<lambda>_. Inl no_decoder),
     yaml_ThanosRuler = (\<lambda>_. Inl no_decoder),
     yaml_ServiceMonitor = (\<lambda>_. Inl no_decoder),
     yaml_Deployment = (\<lambda>_. Inr (sample_deployment '''' ''operand'' 0)),
     yaml_APIService = (\<lambda>_. Inl no_decoder),
     yaml_SecurityContextConstraints = (\<lambda>_. Inl no_decoder),
     yaml_ClusterRoleBinding = (\<lambda>_. Inl no_decoder),
     yaml_ClusterRole = (\<lambda>_. Inl no_decoder),
     yaml_ValidatingWebhook = (\<lambda>_. Inl no_decoder),
     unmarshal_datasources = (\<lambda>_. Inl no_decoder),
     marshal_datasources = (\<lambda>_. Inl no_decoder),
     unmarshal_strings = (\<lambda>_. Ok []),
     marshal_map = (\<lambda>_. ''{}''),
     sha1_Sum = (\<lambda>s. s),
     promql_parse = (\<lambda>_. Ok []),
     map_order = (\<lambda>ks. ks)\<rparr>"

lemma sample_factory_asset: "returns (asset sample_factory name)"
  by (auto simp: returns_def asset_def sample_factory_def MustNewAssetReader_def GetAsset_def Let_def
      split: option.splits)


end
