(* ===== verification/Informers.thy ===== *)
theory Informers
  imports Work_Queue
begin

text \<open>
  The informers that \<open>New\<close> of \<open>pkg/operator/operator.go\<close> subscribes to, how a change of an object gets
  from them to the work queue, and what \<open>Run\<close> does around the loop.
\<close>

section \<open>Subscriptions\<close>

datatype watched = ConfigMapObjects | SecretObjects

datatype change = Add | Update | Delete

text \<open>An informer watches the objects of one kind in one namespace, or in all if the namespace is empty.\<close>

record informer =
  watched_kind :: watched
  watched_namespace :: string
  handled :: "change list"

definition operator_informers :: "operator_names \<Rightarrow> informer list" where
  "operator_informers o' = [
     \<lparr>watched_kind = SecretObjects, watched_namespace = op_namespace o', handled = [Add, Update, Delete]\<rparr>,
     \<lparr>watched_kind = ConfigMapObjects, watched_namespace = op_namespace o', handled = [Add, Update, Delete]\<rparr>,
     \<lparr>watched_kind = ConfigMapObjects, watched_namespace = op_namespaceUserWorkload o', handled = [Add, Update, Delete]\<rparr>,
     \<lparr>watched_kind = ConfigMapObjects, watched_namespace = ''kube-system'', handled = [Update]\<rparr>,
     \<lparr>watched_kind = ConfigMapObjects, watched_namespace = ''openshift-config-managed'', handled = [Update]\<rparr>,
     \<lparr>watched_kind = ConfigMapObjects, watched_namespace = ''openshift-config'', handled = [Update]\<rparr>]"

text \<open>\<open>MetaNamespaceKeyFunc\<close> for an object, which always has metadata.\<close>

definition keyFunc :: "string \<Rightarrow> string \<Rightarrow> string option" where
  "keyFunc ns name = Some (if ns \<noteq> '''' then ns @ ''/'' @ name else name)"

definition delivers :: "watched \<Rightarrow> string \<Rightarrow> change \<Rightarrow> informer \<Rightarrow> bool" where
  "delivers kind ns c i \<longleftrightarrow> watched_kind i = kind \<and>
     (watched_namespace i = '''' \<or> watched_namespace i = ns) \<and> c \<in> set (handled i)"

text \<open>Every informer that watches the object calls the handler.\<close>

definition notify :: "operator_names \<Rightarrow> watched \<Rightarrow> string \<Rightarrow> string \<Rightarrow> change \<Rightarrow> work_queue \<Rightarrow> work_queue" where
  "notify o' kind ns name c =
     fold (\<lambda>i. handleEvent o' (keyFunc ns name)) (filter (delivers kind ns c) (operator_informers o'))"

section \<open>Running\<close>

text \<open>
  \<open>Run\<close> up to its loop: the first argument is the answer of the server, or \<open>None\<close> when the stop channel
  is closed first; the second, whether all caches have synchronised.
\<close>

datatype run_phase = Stopped "error option" | Serving

definition Run_start :: "unit res option \<Rightarrow> bool \<Rightarrow> run_phase" where
  "Run_start answer synced = (case answer of
      None \<Rightarrow> Stopped None
    | Some (Err e) \<Rightarrow> Stopped (Some (Wrapped ''communicating with server failed'' e))
    | Some _ \<Rightarrow> if synced then Serving else Stopped (Some (ErrorString ''failed to sync informers'')))"

text \<open>What the loop does at its start and at every tick, depending on whether the config map exists.\<close>

definition resync_check :: "operator_names \<Rightarrow> bool \<Rightarrow> work_queue \<Rightarrow> work_queue" where
  "resync_check o' exists q = (
     let key = op_namespace o' @ ''/'' @ op_configMapName o'
     in if exists then q else enqueue key q)"

section \<open>From a change to the queue\<close>

lemma wq_Add_twice: "wq_Add k (wq_Add k q) = wq_Add k q"
  by (auto simp: wq_Add_def Let_def)

lemma fold_same: "(\<And>x. g (g x) = g x) \<Longrightarrow> fold (\<lambda>_. g) xs x = (if xs = [] then x else g x)"
  by (induction xs arbitrary: x) auto

lemma handleEvent_twice: "handleEvent o' key (handleEvent o' key q) = handleEvent o' key q"
  by (simp add: handleEvent_cases enqueue_def wq_Add_twice)

lemma notify_eq:
  "notify o' kind ns name c q = (if filter (delivers kind ns c) (operator_informers o') = [] then q
     else handleEvent o' (keyFunc ns name) q)"
  unfolding notify_def by (rule fold_same) (rule handleEvent_twice)

text \<open>A change is a step of the operator's loop, and a missing config map a resynchronisation.\<close>

lemma notify_reachable:
  assumes "loop_reachable o' s"
  shows "\<exists>s'. loop_reachable o' s' \<and> wq s' = notify o' kind ns name c (wq s) \<and> syncing s' = syncing s"
proof (cases "filter (delivers kind ns c) (operator_informers o') = []")
  case True
  with assms show ?thesis by (auto simp: notify_eq)
next
  case False
  with loop_reachable.step [OF assms loop_step.event [of o' s "keyFunc ns name"]] show ?thesis
    by (intro exI conjI) (assumption, simp_all add: notify_eq)
qed

lemma resync_check_reachable:
  assumes "loop_reachable o' s"
  shows "\<exists>s'. loop_reachable o' s' \<and> wq s' = resync_check o' exists (wq s) \<and> syncing s' = syncing s"
proof (cases "exists")
  case True
  with assms show ?thesis by (auto simp: resync_check_def)
next
  case False
  with loop_reachable.step [OF assms loop_step.resync [of o' s]] show ?thesis
    by (intro exI conjI) (assumption, simp_all add: resync_check_def cmoConfigMap_def)
qed

text \<open>The changes that have to lead to a synchronisation, with the operator's default names.\<close>

definition relevant_change :: "watched \<Rightarrow> string \<Rightarrow> string \<Rightarrow> change \<Rightarrow> bool" where
  "relevant_change kind ns name c \<longleftrightarrow>
     ns = ''openshift-monitoring'' \<and> name \<in> {''cluster-monitoring-config'', ''prometheus-adapter-tls'',
       ''telemeter-trusted-ca-bundle'', ''alertmanager-trusted-ca-bundle'', ''grpc-tls''} \<or>
     kind = ConfigMapObjects \<and> ns = ''openshift-user-workload-monitoring'' \<and> name = ''user-workload-monitoring-config'' \<or>
     kind = ConfigMapObjects \<and> c = Update \<and>
       (ns = ''kube-system'' \<and> name = ''extension-apiserver-authentication'' \<or>
        ns = ''openshift-config-managed'' \<and> name = ''kubelet-serving-ca'' \<or>
        ns = ''openshift-config'' \<and> name = ''etcd-metrics-serving-ca'')"

lemma default_informers:
  "operator_informers default_names = [
     \<lparr>watched_kind = SecretObjects, watched_namespace = ''openshift-monitoring'', handled = [Add, Update, Delete]\<rparr>,
     \<lparr>watched_kind = ConfigMapObjects, watched_namespace = ''openshift-monitoring'', handled = [Add, Update, Delete]\<rparr>,
     \<lparr>watched_kind = ConfigMapObjects, watched_namespace = ''openshift-user-workload-monitoring'', handled = [Add, Update, Delete]\<rparr>,
     \<lparr>watched_kind = ConfigMapObjects, watched_namespace = ''kube-system'', handled = [Update]\<rparr>,
     \<lparr>watched_kind = ConfigMapObjects, watched_namespace = ''openshift-config-managed'', handled = [Update]\<rparr>,
     \<lparr>watched_kind = ConfigMapObjects, watched_namespace = ''openshift-config'', handled = [Update]\<rparr>]"
  by (simp add: operator_informers_def default_names_def)

text \<open>Which objects have an informer that handles the change.\<close>

lemma default_delivered:
  "filter (delivers kind ns c) (operator_informers default_names) = [] \<longleftrightarrow>
     \<not> (ns = ''openshift-monitoring'' \<or>
        kind = ConfigMapObjects \<and> ns = ''openshift-user-workload-monitoring'' \<or>
        kind = ConfigMapObjects \<and> c = Update \<and> ns \<in> {''kube-system'', ''openshift-config-managed'', ''openshift-config''})"
  by (cases kind; cases c) (auto simp: default_informers delivers_def)

lemma default_keys:
  "set (triggering_keys default_names) = {''openshift-monitoring/cluster-monitoring-config'',
     ''kube-system/extension-apiserver-authentication'', ''openshift-config-managed/kubelet-serving-ca'',
     ''openshift-monitoring/prometheus-adapter-tls'', ''openshift-config/etcd-metrics-serving-ca'',
     ''openshift-monitoring/telemeter-trusted-ca-bundle'', ''openshift-monitoring/alertmanager-trusted-ca-bundle'',
     ''openshift-monitoring/grpc-tls'', ''openshift-user-workload-monitoring/user-workload-monitoring-config''}"
  by (simp add: triggering_keys_def cmoConfigMap_def uwmConfigMap_def default_names_def)

lemma default_cmoConfigMap: "cmoConfigMap default_names = ''openshift-monitoring/cluster-monitoring-config''"
  by (simp add: cmoConfigMap_def default_names_def)

lemma default_handleEvent:
  "handleEvent default_names (Some key) q = (if key \<in> set (triggering_keys default_names)
     then wq_Add ''openshift-monitoring/cluster-monitoring-config'' q else q)"
  by (simp only: handleEvent_def option.case default_cmoConfigMap enqueue_def)

text \<open>The keys in a namespace; the names in it are what is left of the keys.\<close>

lemma default_keys_in:
  "''openshift-monitoring'' @ ''/'' @ name \<in> set (triggering_keys default_names) \<longleftrightarrow>
     name \<in> {''cluster-monitoring-config'', ''prometheus-adapter-tls'', ''telemeter-trusted-ca-bundle'',
       ''alertmanager-trusted-ca-bundle'', ''grpc-tls''}"
  "''openshift-user-workload-monitoring'' @ ''/'' @ name \<in> set (triggering_keys default_names) \<longleftrightarrow>
     name = ''user-workload-monitoring-config''"
  "''kube-system'' @ ''/'' @ name \<in> set (triggering_keys default_names) \<longleftrightarrow> name = ''extension-apiserver-authentication''"
  "''openshift-config-managed'' @ ''/'' @ name \<in> set (triggering_keys default_names) \<longleftrightarrow> name = ''kubelet-serving-ca''"
  "''openshift-config'' @ ''/'' @ name \<in> set (triggering_keys default_names) \<longleftrightarrow> name = ''etcd-metrics-serving-ca''"
  unfolding default_keys by (simp_all add: disj_ac)

lemma key_by_namespace:
  assumes "K om = A" "K uwm = B" "K ks = C" "K ocm = D" "K oc = E"
  shows "(\<not> \<not> (ns = om \<or> p \<and> ns = uwm \<or> p \<and> u \<and> ns \<in> {ks, ocm, oc}) \<and> K ns) \<longleftrightarrow>
    ns = om \<and> A \<or> p \<and> ns = uwm \<and> B \<or> p \<and> u \<and> (ns = ks \<and> C \<or> ns = ocm \<and> D \<or> ns = oc \<and> E)"
  using assms by auto

lemma default_relevant:
  "(filter (delivers kind ns c) (operator_informers default_names) \<noteq> [] \<and>
     ns @ ''/'' @ name \<in> set (triggering_keys default_names)) \<longleftrightarrow> relevant_change kind ns name c"
  unfolding default_delivered relevant_change_def
  by (rule key_by_namespace [where K = "\<lambda>ns. ns @ ''/'' @ name \<in> set (triggering_keys default_names)"])
    (rule default_keys_in)+

lemma notify_default:
  "notify default_names kind ns name c q =
     (if relevant_change kind ns name c then wq_Add ''openshift-monitoring/cluster-monitoring-config'' q else q)"
proof (cases "filter (delivers kind ns c) (operator_informers default_names) = []")
  case True
  with default_relevant [of kind ns c name] have "\<not> relevant_change kind ns name c" by blast
  with True show ?thesis by (simp only: notify_eq if_False if_True simp_thms)
next
  case False
  then have "ns \<noteq> ''''" unfolding default_delivered by auto
  with default_relevant [of kind ns c name] False show ?thesis
    by (simp only: notify_eq keyFunc_def default_handleEvent if_True if_False simp_thms)
qed

text \<open>
  C9. Exactly the relevant changes reach the queue, and each of them queues the key of the operator's own
  config map: every change of the config maps and secrets with five names in the operator's namespace and
  of the user workload config map, and updates of three config maps of the platform. A change of
  anything else leaves the queue as it is; so does every change of \<open>etcd-metric-serving-ca\<close>, which the
  configuration is built from.
\<close>

theorem notify_relevant_changes:
  "notify default_names kind ns name c q =
     (if relevant_change kind ns name c then wq_Add ''openshift-monitoring/cluster-monitoring-config'' q else q) \<and>
   notify default_names kind ''openshift-config'' ''etcd-metric-serving-ca'' c q = q"
  by (intro conjI notify_default) (simp add: notify_default relevant_change_def)

end
