(* ===== verification/Command_Line.thy ===== *)
theory Command_Line
  imports Images Manifest_Helpers
begin

text \<open>
  \<open>Main\<close> of \<open>cmd/operator/main.go\<close>: from the parsed flags to the exit code. The files, the cluster
  configuration, the construction of the operator and the outcome of running it until it ends or a
  signal arrives are arguments. The registration of metrics and the debug server have no influence on
  the exit code and are left out.
\<close>

section \<open>Flags\<close>

record command_line =
  fl_namespace :: string
  fl_namespaceUserWorkload :: string
  fl_namespaceSelector :: string
  fl_configMapName :: string
  fl_kubeconfigPath :: string
  fl_apiserver :: string
  fl_releaseVersion :: string
  fl_telemetryConfigFile :: string
  fl_remoteWrite :: bool
  fl_assetsPath :: string
  fl_images :: images

definition default_command_line :: command_line where
  "default_command_line = \<lparr>
     fl_namespace = ''openshift-monitoring'',
     fl_namespaceUserWorkload = ''openshift-user-workload-monitoring'',
     fl_namespaceSelector = ''openshift.io/cluster-monitoring=true'',
     fl_configMapName = ''cluster-monitoring-config'',
     fl_kubeconfigPath = '''',
     fl_apiserver = '''',
     fl_releaseVersion = '''',
     fl_telemetryConfigFile = ''/etc/cluster-monitoring-operator/telemetry/metrics.yaml'',
     fl_remoteWrite = False,
     fl_assetsPath = ''/assets'',
     fl_images = fmempty\<rparr>"

section \<open>The program\<close>

text \<open>The arguments of \<open>operator.New\<close>, after the cluster configuration.\<close>

record operator_arguments =
  arg_version :: string
  arg_namespace :: string
  arg_namespaceUserWorkload :: string
  arg_namespaceSelector :: string
  arg_configMapName :: string
  arg_userWorkloadConfigMapName :: string
  arg_remoteWrite :: bool
  arg_images :: images
  arg_telemetryMatches :: "string list"
  arg_assets :: Assets

text \<open>
  The system: opening, decoding and closing the telemetry file, the existence of the assets directory,
  the cluster configuration with its client, and \<open>Run\<close>, which gives the error that the group reports.
\<close>

record ('file, 'cfg, 'operator) main_system =
  os_Open :: "string \<Rightarrow> error + 'file"
  decode_telemetry :: "'file \<Rightarrow> error + string list"
  file_Close :: "'file \<Rightarrow> error option"
  os_missing :: "string \<Rightarrow> bool"
  BuildConfigFromFlags :: "string \<Rightarrow> string \<Rightarrow> error + 'cfg"
  with_limits :: "int \<Rightarrow> int \<Rightarrow> 'cfg \<Rightarrow> 'cfg"
  operator_New :: "'cfg \<Rightarrow> operator_arguments \<Rightarrow> error + 'operator"
  operator_Run :: "'operator \<Rightarrow> error option"

definition flags_ok :: "command_line \<Rightarrow> bool" where
  "flags_ok cl \<longleftrightarrow> (let ok = True;
     ok = (if fl_namespace cl = '''' then False else ok);
     ok = (if fl_configMapName cl = '''' then False else ok)
   in ok)"

definition operator_arguments_of :: "string list \<Rightarrow> string list \<Rightarrow> command_line \<Rightarrow> operator_arguments" where
  "operator_arguments_of names matches cl = \<lparr>
     arg_version = fl_releaseVersion cl,
     arg_namespace = fl_namespace cl,
     arg_namespaceUserWorkload = fl_namespaceUserWorkload cl,
     arg_namespaceSelector = fl_namespaceSelector cl,
     arg_configMapName = fl_configMapName cl,
     arg_userWorkloadConfigMapName = ''user-workload-monitoring-config'',
     arg_remoteWrite = fl_remoteWrite cl,
     arg_images = images_asMap names (fl_images cl),
     arg_telemetryMatches = matches,
     arg_assets = NewAssets (fl_assetsPath cl)\<rparr>"

text \<open>\<open>names\<close> is the order in which \<open>asMap\<close> ranges over the images.\<close>

definition Main :: "('file, 'cfg, 'operator) main_system \<Rightarrow> string list \<Rightarrow> command_line \<Rightarrow> int" where
  "Main sys names cl = (case os_Open sys (fl_telemetryConfigFile cl) of
      Inl e \<Rightarrow> 1
    | Inr f \<Rightarrow> (case decode_telemetry sys f of
        Inl e \<Rightarrow> 1
      | Inr matches \<Rightarrow> (case file_Close sys f of
          Some e \<Rightarrow> 1
        | None \<Rightarrow>
            if os_missing sys (fl_assetsPath cl) then 1
            else if \<not> flags_ok cl then 1
            else (case BuildConfigFromFlags sys (fl_apiserver cl) (fl_kubeconfigPath cl) of
                Inl e \<Rightarrow> 1
              | Inr config \<Rightarrow>
                  (case operator_New sys (with_limits sys 100 200 config) (operator_arguments_of names matches cl) of
                    Inl e \<Rightarrow> 1
                  | Inr o' \<Rightarrow> (case operator_Run sys o' of Some e \<Rightarrow> 1 | None \<Rightarrow> 0))))))"

section \<open>The exit code\<close>

lemma flags_ok_iff: "flags_ok cl \<longleftrightarrow> fl_namespace cl \<noteq> '''' \<and> fl_configMapName cl \<noteq> ''''"
  by (simp add: flags_ok_def Let_def)

text \<open>
  The exit code is 0 exactly if the telemetry file was read, the assets are there, the two required flags
  are not empty and the operator, given the flags and the matches of the file, was built and ran without
  an error; otherwise it is 1.
\<close>

lemma Main_exit:
  assumes "range_of names (fl_images cl)"
  shows "Main sys names cl = (if \<exists>f matches config o'.
      os_Open sys (fl_telemetryConfigFile cl) = Inr f \<and> decode_telemetry sys f = Inr matches \<and> file_Close sys f = None \<and>
      \<not> os_missing sys (fl_assetsPath cl) \<and> fl_namespace cl \<noteq> '''' \<and> fl_configMapName cl \<noteq> '''' \<and>
      BuildConfigFromFlags sys (fl_apiserver cl) (fl_kubeconfigPath cl) = Inr config \<and>
      operator_New sys (with_limits sys 100 200 config)
        ((operator_arguments_of names matches cl)\<lparr>arg_images := fl_images cl\<rparr>) = Inr o' \<and>
      operator_Run sys o' = None
    then 0 else 1)"
proof -
  have "(operator_arguments_of names matches cl)\<lparr>arg_images := fl_images cl\<rparr> = operator_arguments_of names matches cl" for matches
    using images_asMap_eq [OF assms] by (simp add: operator_arguments_of_def)
  then show ?thesis
    unfolding Main_def flags_ok_iff by (auto split: sum.splits option.splits)
qed

end
