(* ===== verification/Inventory.thy ===== *)
theory Inventory
  imports Client_Apply
begin

text \<open>
  What the client's methods do to the inventory of the cluster: the set of the objects that are stored,
  by kind, namespace and name. A program has an effect \<open>(R, A)\<close> when, returning nil, it has removed
  exactly the objects of \<open>R\<close> and added exactly those of \<open>A\<close>, and when, returning an error, it has touched
  no others. Effects compose, so that the effect of a task is read off its calls.
\<close>

named_theorems client_effects

section \<open>Inventories\<close>

text \<open>The kinds that the operator writes.\<close>

datatype kind = KSecret | KConfigMap | KService | KServiceAccount | KRole | KClusterRole | KRoleBinding
  | KClusterRoleBinding | KValidatingWebhook | KDeployment | KDaemonSet | KSecurityContextConstraints
  | KRoute | KAPIService | KPrometheus | KAlertmanager | KThanosRuler | KPrometheusRule | KServiceMonitor

type_synonym address = "kind \<times> string \<times> string"

text \<open>
  \<open>stored\<close> is the inventory of a world, \<open>own\<close> the objects that nobody but the operator creates or
  removes, and \<open>sound\<close> an invariant of the server's worlds.
\<close>

record 'w inventory =
  sound :: "'w \<Rightarrow> bool"
  stored :: "'w \<Rightarrow> address set"
  own :: "address set"

definition seen :: "'w inventory \<Rightarrow> 'w \<Rightarrow> address set" where
  "seen I w = stored I w \<inter> own I"

definition outcome :: "'w inventory \<Rightarrow> address set \<Rightarrow> address set \<Rightarrow> 'w \<Rightarrow> 'a res \<times> 'w \<Rightarrow> bool" where
  "outcome I R A w rw \<longleftrightarrow> (case rw of (r, w') \<Rightarrow> sound I w' \<and> (case r of
      Ok _ \<Rightarrow> seen I w' = (seen I w - R) \<union> (A \<inter> own I)
    | Err _ \<Rightarrow> seen I w' - (R \<union> A) = seen I w - (R \<union> A)
    | Panic \<Rightarrow> seen I w' - (R \<union> A) = seen I w - (R \<union> A)))"

definition effect :: "'w inventory \<Rightarrow> address set \<Rightarrow> address set \<Rightarrow> ('w, 'a) prog \<Rightarrow> bool" where
  "effect I R A m \<longleftrightarrow> (\<forall>w. sound I w \<longrightarrow> outcome I R A w (m w))"

lemma outcome_simps [simp]:
  "outcome I R A w (Ok a, w') \<longleftrightarrow> sound I w' \<and> seen I w' = (seen I w - R) \<union> (A \<inter> own I)"
  "outcome I R A w (Err e, w') \<longleftrightarrow> sound I w' \<and> seen I w' - (R \<union> A) = seen I w - (R \<union> A)"
  "outcome I R A w (Panic, w') \<longleftrightarrow> sound I w' \<and> seen I w' - (R \<union> A) = seen I w - (R \<union> A)"
  by (simp_all add: outcome_def)

lemma effectI: "(\<And>w. sound I w \<Longrightarrow> outcome I R A w (m w)) \<Longrightarrow> effect I R A m"
  by (simp add: effect_def)

lemma effectD: "effect I R A m \<Longrightarrow> sound I w \<Longrightarrow> outcome I R A w (m w)"
  by (simp add: effect_def)

text \<open>A program without an effect, and how it can be shown.\<close>

abbreviation idle :: "'w inventory \<Rightarrow> ('w, 'a) prog \<Rightarrow> bool" where
  "idle I \<equiv> effect I {} {}"

lemma outcome_idle: "outcome I {} {} w (r, w') \<longleftrightarrow> sound I w' \<and> seen I w' = seen I w"
  by (cases r) auto

lemma idle_iff: "idle I m \<longleftrightarrow> (\<forall>w r w'. sound I w \<longrightarrow> m w = (r, w') \<longrightarrow> sound I w' \<and> seen I w' = seen I w)"
  unfolding effect_def by (metis outcome_idle surj_pair)

lemma idleD: "idle I m \<Longrightarrow> sound I w \<Longrightarrow> m w = (r, w') \<Longrightarrow> sound I w' \<and> seen I w' = seen I w"
  by (simp add: idle_iff)

lemma outcome_cong: "seen I w' = seen I w \<Longrightarrow> outcome I R A w' rw \<longleftrightarrow> outcome I R A w rw"
  by (cases rw; cases "fst rw"; simp)

lemma seen_own: "seen I w \<subseteq> own I"
  by (simp add: seen_def)

lemma effect_cong: "effect I R A m \<Longrightarrow> R = R' \<Longrightarrow> A = A' \<Longrightarrow> effect I R' A' m"
  by simp

text \<open>What is not owned does not count.\<close>

lemma outcome_own: "outcome I (R \<inter> own I) (A \<inter> own I) w rw \<longleftrightarrow> outcome I R A w rw"
  using seen_own [of I w] seen_own [of I "snd rw"] by (cases rw; cases "fst rw") auto

lemma effect_own: "effect I (R \<inter> own I) (A \<inter> own I) m \<longleftrightarrow> effect I R A m"
  by (simp add: effect_def outcome_own)

lemma idle_foreign: "effect I R A m \<Longrightarrow> R \<inter> own I = {} \<Longrightarrow> A \<inter> own I = {} \<Longrightarrow> idle I m"
  using effect_own [of I R A m] by simp

section \<open>Effects of programs\<close>

definition yielded :: "('w, 'a) prog \<Rightarrow> 'a set" where
  "yielded m = {x. \<exists>w w'. m w = (Ok x, w')}"

lemma yieldedI: "m w = (Ok x, w') \<Longrightarrow> x \<in> yielded m"
  by (auto simp: yielded_def)

lemma idle_return [simp, intro]: "idle I (p_return r)"
  by (rule effectI) (simp add: outcome_idle)

lemma outcome_bind:
  assumes "outcome I R1 A1 w (m w)" and "\<And>a w'. m w = (Ok a, w') \<Longrightarrow> sound I w' \<Longrightarrow> outcome I R2 A2 w' (k a w')"
  shows "outcome I (R1 \<union> R2) ((A1 - R2) \<union> A2) w (p_bind m k w)"
proof -
  obtain r w' where m: "m w = (r, w')" by (cases "m w")
  show ?thesis
  proof (cases r)
    case (Ok a)
    with assms(1) m have s: "sound I w'" and e: "seen I w' = (seen I w - R1) \<union> (A1 \<inter> own I)" by simp_all
    obtain r2 w2 where k: "k a w' = (r2, w2)" by (cases "k a w'")
    from assms(2) [of a w'] m Ok s k have o: "outcome I R2 A2 w' (r2, w2)" by simp
    have "p_bind m k w = (r2, w2)" using m Ok k by (simp add: p_bind_def)
    with o e show ?thesis by (cases r2) auto
  next
    case (Err e)
    with assms(1) m show ?thesis by (auto simp: p_bind_def)
  next
    case Panic
    with assms(1) m show ?thesis by (auto simp: p_bind_def)
  qed
qed

lemma effect_bind:
  assumes "effect I R1 A1 m" and "\<And>a. a \<in> yielded m \<Longrightarrow> effect I R2 A2 (k a)"
  shows "effect I (R1 \<union> R2) ((A1 - R2) \<union> A2) (p_bind m k)"
  by (intro effectI outcome_bind effectD [OF assms(1)] effectD [OF assms(2)]) (auto intro: yieldedI)

lemma outcome_wrap: "outcome I R A w (m w) \<Longrightarrow> outcome I R A w (p_wrap msg m w)"
  by (cases "m w"; cases "fst (m w)") (auto simp: p_wrap_def)

lemma effect_wrap [intro]: "effect I R A m \<Longrightarrow> effect I R A (p_wrap msg m)"
  by (rule effectI, rule outcome_wrap, rule effectD)

lemma yielded_wrap [simp]: "yielded (p_wrap msg m) = yielded m"
  by (simp add: yielded_def)

lemma effect_attempt:
  assumes "effect I R1 A1 m" and "\<And>a. a \<in> yielded m \<Longrightarrow> effect I R2 A2 (k a)"
  shows "effect I (R1 \<union> R2) ((A1 - R2) \<union> A2) (attempt msg m k)"
  unfolding attempt_def by (rule effect_bind) (use assms in auto)

text \<open>After a program without an effect the rest counts; the handler of \<open>p_catch\<close> is such a rest.\<close>

lemma effect_after:
  assumes "idle I m" and "\<And>a. a \<in> yielded m \<Longrightarrow> effect I R A (k a)"
  shows "effect I R A (p_bind m k)"
  using effect_bind [OF assms] by simp

lemma effect_attempt_after:
  assumes "idle I m" and "\<And>a. a \<in> yielded m \<Longrightarrow> effect I R A (k a)"
  shows "effect I R A (attempt msg m k)"
  using effect_attempt [OF assms] by simp

lemma effect_catch:
  assumes "idle I m" and "\<And>r. effect I R A (h r)"
  shows "effect I R A (p_catch m h)"
proof (rule effectI)
  fix w assume s: "sound I w"
  obtain r w' where m: "m w = (r, w')" by (cases "m w")
  from idleD [OF assms(1) s m] have s': "sound I w'" and e: "seen I w' = seen I w" by auto
  have "outcome I R A w (h x w')" for x
    using effectD [OF assms(2) s'] outcome_cong [OF e] by blast
  then show "outcome I R A w (p_catch m h w)"
    using m s' e by (cases r) (auto simp: p_catch_def)
qed

text \<open>A loop adds, or removes, what its steps do.\<close>

lemma effect_for_add:
  assumes "\<And>x. x \<in> set xs \<Longrightarrow> effect I {} (A x) (g x)"
  shows "effect I {} (\<Union>x\<in>set xs. A x) (p_for xs g)"
  using assms
proof (induction xs)
  case (Cons x xs)
  then have "effect I {} (A x \<union> (\<Union>x\<in>set xs. A x)) (p_bind (g x) (\<lambda>_. p_for xs g))"
    using effect_bind [of I "{}" "A x" "g x" "{}" "\<Union>x\<in>set xs. A x"] by simp
  then show ?case by simp
qed simp

lemma effect_for_remove:
  assumes "\<And>x. x \<in> set xs \<Longrightarrow> effect I (R x) {} (g x)"
  shows "effect I (\<Union>x\<in>set xs. R x) {} (p_for xs g)"
  using assms
proof (induction xs)
  case (Cons x xs)
  then have "effect I (R x \<union> (\<Union>x\<in>set xs. R x)) {} (p_bind (g x) (\<lambda>_. p_for xs g))"
    using effect_bind [of I "R x" "{}" "g x" "\<Union>x\<in>set xs. R x" "{}"] by simp
  then show ?case by simp
qed simp

lemma idle_for: "(\<And>x. x \<in> set xs \<Longrightarrow> idle I (g x)) \<Longrightarrow> idle I (p_for xs g)"
  using effect_for_add [of xs I "\<lambda>_. {}" g] by simp

text \<open>Removing and adding again is adding.\<close>

lemma outcome_replace: "outcome I R R w (r, w') \<Longrightarrow> outcome I {} R w (r, w')"
  using seen_own [of I w] by (cases r) auto

lemma effect_replace: "effect I R R m \<Longrightarrow> effect I {} R m"
  unfolding effect_def by (metis outcome_replace surj_pair)

section \<open>Polling\<close>

text \<open>The inventory of a world inside the state of a closure.\<close>

definition inner :: "'w inventory \<Rightarrow> ('s \<times> 'w) inventory" where
  "inner I = \<lparr>sound = (\<lambda>x. sound I (snd x)), stored = (\<lambda>x. stored I (snd x)), own = own I\<rparr>"

lemma inner_simps [simp]: "sound (inner I) x = sound I (snd x)" "seen (inner I) x = seen I (snd x)"
  by (simp_all add: inner_def seen_def)

lemma idle_world_call [intro]: "idle I m \<Longrightarrow> idle (inner I) (world_call m)"
  unfolding idle_iff by (auto simp: world_call_iff)

lemma idle_not_yet [intro, simp]: "idle (inner I) (not_yet e)"
  unfolding idle_iff by (auto simp: not_yet_iff)

lemma idle_finished [intro, simp]: "idle (inner I) (finished v)"
  unfolding idle_iff by (auto simp: finished_iff)

lemma idle_conclude [intro, simp]: "idle (inner I) (conclude complaint v)"
  by (auto simp: conclude_def split: option.split)

lemma idle_conclude_replicas [intro, simp]: "idle (inner I) (conclude_replicas n status)"
  by (auto simp: conclude_replicas_def split: option.split)

definition calm :: "'w inventory \<Rightarrow> 'w poller \<Rightarrow> bool" where
  "calm I tick \<longleftrightarrow> (\<forall>w b w'. sound I w \<longrightarrow> tick w = (b, w') \<longrightarrow> sound I w' \<and> seen I w' = seen I w)"

lemma calmD: "calm I tick \<Longrightarrow> sound I w \<Longrightarrow> tick w = (b, w') \<Longrightarrow> sound I w' \<and> seen I w' = seen I w"
  by (simp add: calm_def)

lemma calm_inner: "calm I tick \<Longrightarrow> calm (inner I) (world_tick tick)"
  unfolding calm_def by (auto simp: world_tick_iff)

lemma idle_WaitFor:
  assumes "calm I tick" and "idle I cond"
  shows "idle I (WaitFor n tick cond)"
  unfolding idle_iff
proof (intro allI impI)
  fix w r w'
  assume s: "sound I w" and "WaitFor n tick cond w = (r, w')"
  from this(2) show "sound I w' \<and> seen I w' = seen I w"
  proof (rule WaitFor_invariant [where I = "\<lambda>u. sound I u \<and> seen I u = seen I w"])
    show "sound I w \<and> seen I w = seen I w" using s by simp
    show "sound I u' \<and> seen I u' = seen I w" if "sound I u \<and> seen I u = seen I w" "tick u = (b, u')" for u b u'
      using that calmD [OF assms(1), of u b u'] by simp
    show "sound I u' \<and> seen I u' = seen I w" if "sound I u \<and> seen I u = seen I w" "cond u = (b, u')" for u b u'
      using that idleD [OF assms(2), of u b u'] by simp
  qed
qed

lemma idle_Poll: "calm I tick \<Longrightarrow> idle I cond \<Longrightarrow> idle I (Poll i t tick cond)"
  by (simp add: Poll_def idle_WaitFor)

lemma idle_PollLastErr:
  assumes "calm I tick" and "idle (inner I) cond"
  shows "idle I (PollLastErr msg i t tick v0 cond)"
  unfolding idle_iff
proof (intro allI impI)
  fix w r w'
  assume s: "sound I w" and p: "PollLastErr msg i t tick v0 cond w = (r, w')"
  from p show "sound I w' \<and> seen I w' = seen I w"
  proof (rule PollLastErr_invariant [where I = "\<lambda>u. sound I u \<and> seen I u = seen I w"])
    show "sound I w \<and> seen I w = seen I w" using s by simp
    show "sound I u' \<and> seen I u' = seen I w" if "sound I u \<and> seen I u = seen I w" "tick u = (b, u')" for u b u'
      using that calmD [OF assms(1), of u b u'] by simp
    show "sound I u' \<and> seen I u' = seen I w"
      if "sound I u \<and> seen I u = seen I w" "cond (x, u) = (b, (x', u'))" for x u b x' u'
      using that idleD [OF assms(2), of "(x, u)" b "(x', u')"] by simp
  qed
qed

section \<open>What the server promises for a kind\<close>

text \<open>
  The interface of the inventory for one kind: reading leaves it, a read object has the address under
  which it was read, and the writes change it at one address.
\<close>

locale tracked_kind =
  fixes I :: "'w inventory" and K :: kind and R :: "('w, 'z ObjectMeta_scheme) resource"
  assumes get_idle: "idle I (r_Get R ns n)"
    and list_idle: "idle I (r_List R ns sel)"
    and get_found: "r_Get R ns n w = (Ok x, w') \<Longrightarrow> (K, ns, n) \<in> stored I w'"
    and get_addressed: "sound I w \<Longrightarrow> r_Get R ns n w = (Ok x, w') \<Longrightarrow> Name x = n \<and> Namespace x = ns"
    and create_adds: "effect I {} {(K, ns, Name x)} (r_Create R ns x)"
    and update_keeps: "effect I {} {(K, ns, Name x)} (r_Update R ns x)"
    and delete_removes: "effect I {(K, ns, n)} {} (r_Delete R ns n opts)"
    and delete_missing: "sound I w \<Longrightarrow> r_Delete R ns n opts w = (Err e, w') \<Longrightarrow> IsNotFound e \<Longrightarrow>
      seen I w' = seen I w \<and> (K, ns, n) \<notin> seen I w"
begin

lemma create_object_adds: "effect I {} {(K, ns, Name x)} (create_object R ns kind x)"
proof -
  have "effect I ({} \<union> {}) (({(K, ns, Name x)} - {}) \<union> {}) (create_object R ns kind x)"
    unfolding create_object_def discard_def by (intro effect_bind effect_wrap create_adds idle_return)
  then show ?thesis by simp
qed

lemma update_object_keeps: "effect I {} {(K, ns, Name x)} (update_object R ns kind x)"
proof -
  have "effect I ({} \<union> {}) (({(K, ns, Name x)} - {}) \<union> {}) (update_object R ns kind x)"
    unfolding update_object_def discard_def by (intro effect_bind effect_wrap update_keeps idle_return)
  then show ?thesis by simp
qed

text \<open>An object that was found is in the inventory, so doing nothing about it counts as adding it.\<close>

lemma ensured_get_or:
  assumes "effect I {} {(K, ns, Name x)} missing"
    and "\<And>old. Name old = Name x \<Longrightarrow> Namespace old = ns \<Longrightarrow>
      effect I {} {(K, ns, Name x)} (found old) \<or> found old = p_return (Ok (g old))"
  shows "effect I {} {(K, ns, Name x)} (get_or R ns kind x missing found)"
proof (rule effectI)
  fix w assume s: "sound I w"
  obtain r w' where g: "r_Get R ns (Name x) w = (r, w')" by (cases "r_Get R ns (Name x) w")
  from idleD [OF get_idle s g] have s': "sound I w'" and e: "seen I w' = seen I w" by auto
  have pass: "outcome I {} {(K, ns, Name x)} w rw" if "outcome I {} {(K, ns, Name x)} w' rw" for rw :: "'a res \<times> 'w"
    using that outcome_cong [OF e] by blast
  show "outcome I {} {(K, ns, Name x)} w (get_or R ns kind x missing found w)"
  proof (cases r)
    case (Ok old)
    from get_found [OF g [unfolded Ok]] get_addressed [OF s g [unfolded Ok]]
    have i: "(K, ns, Name x) \<in> stored I w'" "Name old = Name x" "Namespace old = ns" by auto
    have "outcome I {} {(K, ns, Name x)} w' (found old w')"
      using assms(2) [OF i(2,3)] i(1) s' by (auto dest: effectD [where w = w'] simp: seen_def)
    with pass g Ok show ?thesis by (simp add: get_or_def p_catch_eqs)
  next
    case (Err e')
    with pass [of "missing w'"] effectD [OF assms(1) s'] g s' e show ?thesis
      by (simp add: get_or_def p_catch_eqs)
  next
    case Panic
    with g s' e show ?thesis by (simp add: get_or_def p_catch_eqs)
  qed
qed

lemma ensured_get_or_create:
  assumes "\<And>old. Name old = Name x \<Longrightarrow> Namespace old = ns \<Longrightarrow>
      effect I {} {(K, ns, Name x)} (found old) \<or> found old = p_return (Ok ())"
  shows "effect I {} {(K, ns, Name x)} (get_or_create R ns kind x found)"
  unfolding get_or_create_def by (rule ensured_get_or [OF create_object_adds]) (use assms in blast)

lemma ensured_upsert:
  assumes "\<And>old. Name (prep old) = Name x"
  shows "effect I {} {(K, ns, Name x)} (get_or_create R ns kind x (\<lambda>old. update_object R ns kind (prep old)))"
  using update_object_keeps [of ns "prep _" kind] by (intro ensured_get_or_create) (simp add: assms)

lemma ensured_upsert_unless:
  assumes "\<And>old. Name (prep old) = Name x"
  shows "effect I {} {(K, ns, Name x)} (get_or_create R ns kind x
    (\<lambda>old. if same old then p_return (Ok ()) else update_object R ns kind (prep old)))"
  using update_object_keeps [of ns "prep _" kind] by (intro ensured_get_or_create) (simp add: assms)

lemma ensured_create_only:
  "effect I {} {(K, ns, Name x)} (get_or_create R ns kind x (\<lambda>_. p_return (Ok ())))"
  by (intro ensured_get_or_create disjI2 refl)

lemma removed_if_present: "effect I {(K, ns, n)} {} (delete_if_present R ns n opts)"
proof (rule effectI)
  fix w assume s: "sound I w"
  obtain r w' where d: "r_Delete R ns n opts w = (r, w')" by (cases "r_Delete R ns n opts w")
  have o: "outcome I {(K, ns, n)} {} w (r, w')" using effectD [OF delete_removes s] d by metis
  show "outcome I {(K, ns, n)} {} w (delete_if_present R ns n opts w)"
  proof (cases r)
    case (Err e)
    with o d delete_missing [OF s d [unfolded Err]] show ?thesis
      by (auto simp: delete_if_present_def p_catch_eqs seen_def)
  qed (use o d in \<open>auto simp: delete_if_present_def p_catch_eqs\<close>)
qed

end

text \<open>
  A program that may touch the objects of \<open>A\<close> and nothing else, whatever it returns, followed by one that
  returns nil only when they are there.
\<close>

definition touches :: "'w inventory \<Rightarrow> address set \<Rightarrow> ('w, 'a) prog \<Rightarrow> bool" where
  "touches I A m \<longleftrightarrow> (\<forall>w r w'. sound I w \<longrightarrow> m w = (r, w') \<longrightarrow> sound I w' \<and> seen I w' - A = seen I w - A)"

definition confirms :: "'w inventory \<Rightarrow> address set \<Rightarrow> ('w, 'a) prog \<Rightarrow> bool" where
  "confirms I A m \<longleftrightarrow> (\<forall>w x w'. m w = (Ok x, w') \<longrightarrow> A \<subseteq> stored I w')"

lemma outcome_of_touched:
  assumes "seen I w' - A = seen I w - A" and "outcome I {} A w' (r, u)"
  shows "outcome I {} A w (r, u)"
  using assms seen_own [of I w] seen_own [of I w'] by (cases r) (auto 0 4)

lemma touched_then_confirmed:
  assumes "touches I A m" and "idle I n" and "confirms I A n"
  shows "effect I {} A (p_bind m (\<lambda>_. n))"
proof (rule effectI)
  fix w assume s: "sound I w"
  obtain r w' where m: "m w = (r, w')" by (cases "m w")
  from assms(1) s m have s': "sound I w'" and e: "seen I w' - A = seen I w - A" by (auto simp: touches_def)
  show "outcome I {} A w (p_bind m (\<lambda>_. n) w)"
  proof (cases r)
    case (Ok x)
    obtain q u where n: "n w' = (q, u)" by (cases "n w'")
    from idleD [OF assms(2) s' n] have su: "sound I u" and eu: "seen I u = seen I w'" by auto
    have "outcome I {} A w' (q, u)"
    proof (cases q)
      case (Ok y)
      with assms(3) n have "A \<inter> own I \<subseteq> seen I u" by (auto simp: confirms_def seen_def)
      with Ok su eu show ?thesis by auto
    qed (use su eu in auto)
    with outcome_of_touched [OF e] m n Ok show ?thesis by (simp add: p_bind_def)
  qed (use m s' e in \<open>auto simp: p_bind_def\<close>)
qed

text \<open>An update that falls back to replacing the object.\<close>

lemma effect_update_or_recreate:
  assumes "effect I {} A update" and "effect I A {} delete" and "effect I {} A create"
  shows "effect I {} A (update_or_recreate kind update delete create)"
proof (rule effectI)
  fix w assume s: "sound I w"
  obtain r w' where m: "update w = (r, w')" by (cases "update w")
  have o: "outcome I {} A w (r, w')" using effectD [OF assms(1) s] m by metis
  have "effect I (A \<union> {}) (({} - {}) \<union> A) (attempt msg delete (\<lambda>_. p_wrap msg' create))" for msg msg'
    by (intro effect_attempt effect_wrap assms(2,3))
  then have again: "effect I {} A (attempt msg delete (\<lambda>_. p_wrap msg' create))" for msg msg'
    by (intro effect_replace) simp
  show "outcome I {} A w (update_or_recreate kind update delete create w)"
  proof (cases r)
    case (Err e)
    with o have s': "sound I w'" and e: "seen I w' - A = seen I w - A" by simp_all
    obtain q u where q: "attempt (''deleting '' @ kind @ '' object failed'') delete
        (\<lambda>_. p_wrap (''creating '' @ kind @ '' object failed after update failed'') create) w' = (q, u)"
      by (metis surj_pair)
    have "outcome I {} A w (q, u)"
      using outcome_of_touched [OF e] effectD [OF again s'] q by metis
    with q m Err s' e show ?thesis by (simp add: update_or_recreate_def p_catch_eqs)
  qed (use o m in \<open>auto simp: update_or_recreate_def p_catch_eqs\<close>)
qed

section \<open>The client\<close>

text \<open>
  A client all of whose kinds are tracked. While a poll waits, and while the library computes the status
  of an operand, nobody else creates or removes an object that the operator owns.
\<close>

locale client_inventory =
  secrets: tracked_kind I KSecret "Secrets c" +
  configmaps: tracked_kind I KConfigMap "ConfigMaps c" +
  services: tracked_kind I KService "Services c" +
  accounts: tracked_kind I KServiceAccount "ServiceAccounts c" +
  roles: tracked_kind I KRole "Roles c" +
  clusterroles: tracked_kind I KClusterRole "ClusterRoles c" +
  rolebindings: tracked_kind I KRoleBinding "RoleBindings c" +
  clusterrolebindings: tracked_kind I KClusterRoleBinding "ClusterRoleBindings c" +
  webhooks: tracked_kind I KValidatingWebhook "ValidatingWebhookConfigurations c" +
  deployments: tracked_kind I KDeployment "Deployments c" +
  daemonsets: tracked_kind I KDaemonSet "DaemonSets c" +
  constraints: tracked_kind I KSecurityContextConstraints "SCCs c" +
  routes: tracked_kind I KRoute "Routes c" +
  apiservices: tracked_kind I KAPIService "APIServices c" +
  prometheuses: tracked_kind I KPrometheus "Prometheuses c" +
  alertmanagers: tracked_kind I KAlertmanager "Alertmanagers c" +
  rulers: tracked_kind I KThanosRuler "ThanosRulers c" +
  rules: tracked_kind I KPrometheusRule "PrometheusRules c" +
  monitors: tracked_kind I KServiceMonitor "ServiceMonitors c"
  for I :: "'w inventory" and c :: "'w Client" +
  assumes tick: "calm I (next_tick c)"
    and operand_status: "idle I (PrometheusStatus c p)" "idle I (AlertmanagerStatus c a)" "idle I (ThanosRulerStatus c t)"
    and pods_list: "idle I (r_List (Pods c) ns sel)"
    and namespaces_list: "idle I (r_List (Namespaces c) ns sel)"
begin

text \<open>The methods that bring an object to its required state add it.\<close>

lemma upsert_effects [client_effects]:
  "effect I {} {(KValidatingWebhook, '''', Name w)} (CreateOrUpdateValidatingWebhookConfiguration c w)"
  "effect I {} {(KSecurityContextConstraints, '''', Name scc)} (CreateOrUpdateSecurityContextConstraints c scc)"
  "effect I {} {(KPrometheus, Namespace p, Name p)} (CreateOrUpdatePrometheus c p)"
  "effect I {} {(KPrometheusRule, Namespace pr, Name pr)} (CreateOrUpdatePrometheusRule c pr)"
  "effect I {} {(KAlertmanager, Namespace a, Name a)} (CreateOrUpdateAlertmanager c a)"
  "effect I {} {(KThanosRuler, Namespace t, Name t)} (CreateOrUpdateThanosRuler c t)"
  "effect I {} {(KServiceMonitor, Namespace sm, Name sm)} (CreateOrUpdateServiceMonitor c sm)"
  "effect I {} {(KSecret, Namespace s, Name s)} (CreateOrUpdateSecret c s)"
  "effect I {} {(KConfigMap, Namespace cm, Name cm)} (CreateOrUpdateConfigMap c cm)"
  "effect I {} {(KRole, Namespace r, Name r)} (CreateOrUpdateRole c r)"
  "effect I {} {(KClusterRole, '''', Name cr)} (CreateOrUpdateClusterRole c cr)"
  "effect I {} {(KAPIService, '''', Name api)} (CreateOrUpdateAPIService c api)"
  unfolding CreateOrUpdateValidatingWebhookConfiguration_def
    CreateOrUpdateSecurityContextConstraints_def CreateOrUpdatePrometheus_def
    CreateOrUpdatePrometheusRule_def CreateOrUpdateAlertmanager_def CreateOrUpdateThanosRuler_def
    CreateOrUpdateServiceMonitor_def CreateOrUpdateSecret_def CreateOrUpdateConfigMap_def
    CreateOrUpdateRole_def CreateOrUpdateClusterRole_def CreateOrUpdateAPIService_def
  by (rule alertmanagers.ensured_upsert apiservices.ensured_upsert clusterroles.ensured_upsert
    configmaps.ensured_upsert constraints.ensured_upsert monitors.ensured_upsert
    prometheuses.ensured_upsert roles.ensured_upsert rulers.ensured_upsert rules.ensured_upsert
    secrets.ensured_upsert webhooks.ensured_upsert; simp add: Let_def)+

lemma upsert_unless_effects [client_effects]:
  "effect I {} {(KService, Namespace svc, Name svc)} (CreateOrUpdateService c svc)"
  "effect I {} {(KRoleBinding, Namespace rb, Name rb)} (CreateOrUpdateRoleBinding c rb)"
  unfolding CreateOrUpdateService_def CreateOrUpdateRoleBinding_def
  by (rule services.ensured_upsert_unless rolebindings.ensured_upsert_unless; simp add:
    required_service_def Let_def)+

lemma create_only_effects [client_effects]:
  "effect I {} {(KServiceAccount, Namespace sa, Name sa)} (CreateOrUpdateServiceAccount c sa)"
  "effect I {} {(KSecret, Namespace s, Name s)} (CreateIfNotExistSecret c s)"
  unfolding CreateOrUpdateServiceAccount_def CreateIfNotExistSecret_def
  by (rule accounts.ensured_create_only secrets.ensured_create_only)+

lemma CreateIfNotExistConfigMap_effect [client_effects]:
  "effect I {} {(KConfigMap, Namespace cm, Name cm)} (CreateIfNotExistConfigMap c cm)"
  unfolding CreateIfNotExistConfigMap_def
  by (rule configmaps.ensured_get_or [where g = "\<lambda>x. x"]) (auto intro: configmaps.create_adds)

lemma CreateOrUpdateConfigMapList_effect [client_effects]:
  "effect I {} (\<Union>cm\<in>set cml. {(KConfigMap, Namespace cm, Name cm)}) (CreateOrUpdateConfigMapList c cml)"
  unfolding CreateOrUpdateConfigMapList_def by (rule effect_for_add) (rule client_effects)

text \<open>A binding that differs is deleted and created again.\<close>

lemma CreateOrUpdateClusterRoleBinding_inventory [client_effects]:
  "effect I {} {(KClusterRoleBinding, '''', Name crb)} (CreateOrUpdateClusterRoleBinding c crb)"
  unfolding CreateOrUpdateClusterRoleBinding_def
proof (rule clusterrolebindings.ensured_get_or_create)
  fix old :: ClusterRoleBinding
  let ?A = "{(KClusterRoleBinding, '''', Name crb)}"
  have "effect I ({} \<union> {}) ((?A - {}) \<union> {})
      (discard (p_wrap msg (r_Create (ClusterRoleBindings c) '''' (mergeMetadata crb old))))" for msg
    using clusterrolebindings.create_adds [of "''''" "mergeMetadata crb old"]
    unfolding discard_def by (intro effect_bind effect_wrap idle_return) simp
  then have create: "effect I {} ?A
      (discard (p_wrap msg (r_Create (ClusterRoleBindings c) '''' (mergeMetadata crb old))))" for msg
    by simp
  have "effect I {} ?A (attempt msg (r_Delete (ClusterRoleBindings c) '''' (Name crb) DeleteDefault)
      (\<lambda>_. discard (p_wrap msg' (r_Create (ClusterRoleBindings c) '''' (mergeMetadata crb old)))))" for msg msg'
    using effect_attempt [OF clusterrolebindings.delete_removes create] by (intro effect_replace) simp
  then show "effect I {} ?A (if CRB_RoleRef crb = CRB_RoleRef old \<and> CRB_Subjects crb = CRB_Subjects old
      then p_return (Ok ())
      else attempt ''deleting ClusterRoleBinding object failed''
             (r_Delete (ClusterRoleBindings c) '''' (Name crb) DeleteDefault)
             (\<lambda>_. discard (p_wrap ''updating ClusterRoleBinding object failed''
                (r_Create (ClusterRoleBindings c) '''' (mergeMetadata crb old))))) \<or>
    (if CRB_RoleRef crb = CRB_RoleRef old \<and> CRB_Subjects crb = CRB_Subjects old
      then p_return (Ok ())
      else attempt ''deleting ClusterRoleBinding object failed''
             (r_Delete (ClusterRoleBindings c) '''' (Name crb) DeleteDefault)
             (\<lambda>_. discard (p_wrap ''updating ClusterRoleBinding object failed''
                (r_Create (ClusterRoleBindings c) '''' (mergeMetadata crb old))))) = p_return (Ok ())"
    by simp
qed

text \<open>The waits have no effect.\<close>

lemma wait_effects [client_effects]:
  "idle I (WaitForDeploymentRollout c d)" "idle I (WaitForDaemonSetRollout c ds)"
  "idle I (WaitForPrometheus c p)" "idle I (WaitForAlertmanager c a)" "idle I (WaitForThanosRuler c t)"
  "idle I (WaitForSecret c s)" "idle I (WaitForRouteReady c r)" "idle I (wait_for_no_pods msg c ns sel)"
  unfolding WaitForDeploymentRollout_def WaitForDaemonSetRollout_def WaitForPrometheus_def
    WaitForAlertmanager_def WaitForThanosRuler_def WaitForSecret_def WaitForRouteReady_def wait_for_no_pods_def
  by (intro idle_PollLastErr tick effect_after effect_attempt_after effect_catch idle_world_call
      deployments.get_idle daemonsets.get_idle prometheuses.get_idle alertmanagers.get_idle rulers.get_idle
      secrets.get_idle routes.get_idle pods_list operand_status idle_conclude idle_conclude_replicas;
      auto split: sum.split)+

lemma read_effects [client_effects]:
  "idle I (GetConfigmap c ns n)" "idle I (GetSecret c ns n)" "idle I (NamespacesToMonitor c)" "idle I (GetRouteURL c r)"
  "idle I (AssurePrometheusOperatorCRsExist c)"
  unfolding GetConfigmap_def GetSecret_def NamespacesToMonitor_def GetRouteURL_def
    AssurePrometheusOperatorCRsExist_def
  by (intro idle_Poll tick effect_after effect_attempt_after idle_return configmaps.get_idle secrets.get_idle
      routes.get_idle namespaces_list prometheuses.list_idle alertmanagers.list_idle monitors.list_idle)+

text \<open>
  The creation of a route hides most errors of the read, so that nil does not say that the route is there;
  the wait for the route that follows it in every task does.
\<close>

lemma route_ready_effect [client_effects]:
  "effect I {} {(KRoute, Namespace r, Name r)}
     (attempt m1 (CreateRouteIfNotExists c r) (\<lambda>_. p_wrap m2 (WaitForRouteReady c r)))"
  unfolding attempt_def
proof (rule touched_then_confirmed)
  let ?A = "{(KRoute, Namespace r, Name r)}"
  have ready: "confirms I ?A (WaitForRouteReady c r)"
    unfolding confirms_def WaitForRouteReady_def
    by (auto elim!: PollLastErr_Ok simp: prog_simps dest!: routes.get_found split: option.splits)
  then show "confirms I ?A (p_wrap m2 (WaitForRouteReady c r))" by (simp add: confirms_def)
  show "idle I (p_wrap m2 (WaitForRouteReady c r))" by (intro effect_wrap client_effects)
  have "touches I ?A (CreateRouteIfNotExists c r)"
    unfolding touches_def
  proof (intro allI impI)
    fix w q w'
    assume s: "sound I w" and m: "CreateRouteIfNotExists c r w = (q, w')"
    obtain g u where g: "r_Get (Routes c) (Namespace r) (Name r) w = (g, u)" by (cases "r_Get (Routes c) (Namespace r) (Name r) w")
    from idleD [OF routes.get_idle s g] have u: "sound I u" "seen I u = seen I w" by auto
    from effectD [OF routes.create_object_adds u(1), of "Namespace r" r "''Route''"] u(2)
    have "sound I u' \<and> seen I u' - ?A = seen I w - ?A" if "create_object (Routes c) (Namespace r) ''Route'' r u = (q', u')" for q' u'
      using that by (cases q') auto
    with m g u show "sound I w' \<and> seen I w' - ?A = seen I w - ?A"
      by (cases g) (auto simp: CreateRouteIfNotExists_def p_catch_eqs split: if_splits)
  qed
  then show "touches I ?A (p_wrap m1 (CreateRouteIfNotExists c r))"
    by (auto simp: touches_def p_wrap_def Let_def split: prod.splits)
qed

lemma delete_effects [client_effects]:
  "effect I {(KConfigMap, Namespace x0, Name x0)} {} (DeleteConfigMap c x0)"
  "effect I {(KValidatingWebhook, '''', Name x1)} {} (DeleteValidatingWebhook c x1)"
  "effect I {(KServiceAccount, Namespace x2, Name x2)} {} (DeleteServiceAccount c x2)"
  "effect I {(KClusterRole, '''', Name x3)} {} (DeleteClusterRole c x3)"
  "effect I {(KClusterRoleBinding, '''', Name x4)} {} (DeleteClusterRoleBinding c x4)"
  "effect I {(KService, Namespace x5, Name x5)} {} (DeleteService c x5)"
  "effect I {(KRoute, Namespace x6, Name x6)} {} (DeleteRoute c x6)"
  "effect I {(KPrometheusRule, Namespace x7, Name x7)} {} (DeletePrometheusRule c x7)"
  "effect I {(KSecret, Namespace x8, Name x8)} {} (DeleteSecret c x8)"
  "effect I {(KRoleBinding, Namespace x9, Name x9)} {} (DeleteRoleBinding c x9)"
  "effect I {(KRole, Namespace x10, Name x10)} {} (DeleteRole c x10)"
  "effect I {(KDeployment, Namespace x11, Name x11)} {} (DeleteDeployment c x11)"
  "effect I {(KDaemonSet, Namespace x12, Name x12)} {} (DeleteDaemonSet c x12)"
  unfolding DeleteConfigMap_def DeleteValidatingWebhook_def DeleteServiceAccount_def
    DeleteClusterRole_def DeleteClusterRoleBinding_def DeleteService_def DeleteRoute_def
    DeletePrometheusRule_def DeleteSecret_def DeleteRoleBinding_def DeleteRole_def DeleteDeployment_def
    DeleteDaemonSet_def
  by (rule configmaps.removed_if_present webhooks.removed_if_present accounts.removed_if_present
    clusterroles.removed_if_present clusterrolebindings.removed_if_present services.removed_if_present
    routes.removed_if_present rules.removed_if_present secrets.removed_if_present
    rolebindings.removed_if_present roles.removed_if_present deployments.removed_if_present
    daemonsets.removed_if_present)+

lemma DeleteServiceMonitor_effects [client_effects]:
  "effect I {(KServiceMonitor, ns, n)} {} (DeleteServiceMonitorByNamespaceAndName c ns n)"
  "effect I {(KServiceMonitor, Namespace sm, Name sm)} {} (DeleteServiceMonitor c sm)"
  unfolding DeleteServiceMonitor_def DeleteServiceMonitorByNamespaceAndName_def delete_ignoring_missing_def
  by (intro effect_wrap monitors.removed_if_present)+

lemma operand_deletion_effects [client_effects]:
  "effect I {(KPrometheus, Namespace p, Name p)} {} (DeletePrometheus c p)"
  "effect I {(KThanosRuler, Namespace t, Name t)} {} (DeleteThanosRuler c t)"
  unfolding DeletePrometheus_def DeleteThanosRuler_def delete_ignoring_missing_def
  using effect_bind [OF effect_wrap [OF prometheuses.removed_if_present] wait_effects(8)]
    effect_bind [OF effect_wrap [OF rulers.removed_if_present] wait_effects(8)]
  by simp_all

text \<open>Deployments and daemon sets.\<close>

lemma deployment_step:
  assumes "effect I {} A m"
  shows "effect I {} A (p_bind m (WaitForDeploymentRollout c))"
  using effect_bind [OF assms wait_effects(1)] by simp

lemma daemonset_step:
  assumes "effect I {} A m"
  shows "effect I {} A (p_bind m (WaitForDaemonSetRollout c))"
  using effect_bind [OF assms wait_effects(2)] by simp

lemma CreateOrUpdateDeployment_effect [client_effects]:
  "effect I {} {(KDeployment, Namespace dep, Name dep)} (CreateOrUpdateDeployment c dep)"
  unfolding CreateOrUpdateDeployment_def Let_def
proof (rule deployments.ensured_get_or [where g = "\<lambda>_. ()"])
  let ?A = "{(KDeployment, Namespace dep, Name dep)}"
  have create: "effect I {} {(KDeployment, Namespace d, Name d)} (CreateDeployment c d)" for d
    unfolding CreateDeployment_def by (intro deployment_step deployments.create_adds)
  have update: "effect I {} {(KDeployment, Namespace d, Name d)} (UpdateDeployment c d)" for d
    unfolding UpdateDeployment_def by (intro deployment_step deployments.update_keeps)
  show "effect I {} ?A (p_wrap ''creating Deployment object failed'' (CreateDeployment c dep))"
    by (intro effect_wrap create)
  fix old :: Deployment
  assume n: "Name old = Name dep" "Namespace old = Namespace dep"
  have "effect I {} ?A (update_or_recreate ''Deployment'' (UpdateDeployment c (mergeMetadata dep old))
      (DeleteDeployment c old) (CreateDeployment c (mergeMetadata dep old)))"
    using update [of "mergeMetadata dep old"] create [of "mergeMetadata dep old"] delete_effects(12) [of old] n
    by (intro effect_update_or_recreate) simp_all
  then show "effect I {} ?A (if Deployment_Spec dep = Deployment_Spec old then p_return (Ok ())
      else update_or_recreate ''Deployment'' (UpdateDeployment c (mergeMetadata dep old))
        (DeleteDeployment c old) (CreateDeployment c (mergeMetadata dep old))) \<or>
    (if Deployment_Spec dep = Deployment_Spec old then p_return (Ok ())
      else update_or_recreate ''Deployment'' (UpdateDeployment c (mergeMetadata dep old))
        (DeleteDeployment c old) (CreateDeployment c (mergeMetadata dep old))) = p_return (Ok ())"
    by simp
qed

lemma CreateOrUpdateDaemonSet_effect [client_effects]:
  "effect I {} {(KDaemonSet, Namespace ds, Name ds)} (CreateOrUpdateDaemonSet c ds)"
  unfolding CreateOrUpdateDaemonSet_def Let_def
proof (rule daemonsets.ensured_get_or [where g = "\<lambda>_. ()"], goal_cases)
  have create: "effect I {} {(KDaemonSet, Namespace d, Name d)} (CreateDaemonSet c d)" for d
    unfolding CreateDaemonSet_def by (intro daemonset_step daemonsets.create_adds)
  have update: "effect I {} {(KDaemonSet, Namespace d, Name d)} (UpdateDaemonSet c d)" for d
    unfolding UpdateDaemonSet_def by (intro daemonset_step daemonsets.update_keeps)
  case 1
  show ?case by (intro effect_wrap create)
  case (2 old)
  show ?case
    using update [of "mergeMetadata ds old"] create [of "mergeMetadata ds old"] delete_effects(13) [of old] 2
    by (intro disjI1 effect_update_or_recreate) simp_all
qed

text \<open>The deletion of old copies has no effect on the inventory where the copies are not counted.\<close>

lemma hashed_deletion_effects:
  assumes "\<And>ns n. (KSecret, ns, n) \<notin> own I" and "\<And>ns n. (KConfigMap, ns, n) \<notin> own I"
  shows "idle I (DeleteHashedSecret c ns prefix hash)" and "idle I (DeleteHashedConfigMap c ns prefix hash)"
proof -
  have "idle I (r_Delete (Secrets c) ns n opts)" "idle I (r_Delete (ConfigMaps c) ns n opts)" for n opts
    using assms idle_foreign [OF secrets.delete_removes] idle_foreign [OF configmaps.delete_removes] by auto
  then show "idle I (DeleteHashedSecret c ns prefix hash)" "idle I (DeleteHashedConfigMap c ns prefix hash)"
    unfolding DeleteHashedSecret_def DeleteHashedConfigMap_def delete_selected_def
    by (intro effect_attempt_after idle_for effect_wrap secrets.list_idle configmaps.list_idle; simp)+
qed

end

end
