(* ===== verification/Desired_State.thy ===== *)
theory Desired_State
  imports Inventory Tasks
begin

text \<open>
  The desired state of the tasks: for every task the set of the objects that it keeps, named by the
  factory's methods, and the proof that the task, as a program over the client and the factory, has
  exactly this effect on the inventory of the cluster.
\<close>

named_theorems from_files

section \<open>Where the factory's objects are\<close>

text \<open>The addresses of what a method may build; objects without a namespace are under the empty one.\<close>

definition addresses :: "kind \<Rightarrow> ('w, 'z ObjectMeta_scheme) prog \<Rightarrow> address set" where
  "addresses K m = (\<lambda>x. (K, Namespace x, Name x)) ` yielded m"

definition cluster_addresses :: "kind \<Rightarrow> ('w, 'z ObjectMeta_scheme) prog \<Rightarrow> address set" where
  "cluster_addresses K m = (\<lambda>x. (K, '''', Name x)) ` yielded m"

definition list_addresses :: "kind \<Rightarrow> ('w, 'z ObjectMeta_scheme list) prog \<Rightarrow> address set" where
  "list_addresses K m = (\<Union>xs\<in>yielded m. (\<lambda>x. (K, Namespace x, Name x)) ` set xs)"

text \<open>Methods that read one asset and compute the object from it.\<close>

definition from_file :: "'w Factory \<Rightarrow> ('w, 'b) prog \<Rightarrow> bool" where
  "from_file f m \<longleftrightarrow> (\<exists>(g :: string \<Rightarrow> 'b res) name. m = p_bind (asset f name) (\<lambda>s. p_return (g s)))"

lemma from_file_asset: "from_file f (from_asset f new name adapt)"
  unfolding from_file_def from_asset_def
  by (rule exI [of _ "\<lambda>s. r_bind (new s) adapt"]) (rule exI [of _ name], rule refl)

lemma from_files_1 [from_files]:
  "from_file f (AlertmanagerConfig f)"
  "from_file f (AlertmanagerService f)"
  "from_file f (AlertmanagerServiceAccount f)"
  "from_file f (AlertmanagerClusterRoleBinding f)"
  "from_file f (AlertmanagerClusterRole f)"
  "from_file f (AlertmanagerServiceMonitor f)"
  "from_file f (AlertmanagerTrustedCABundle f)"
  "from_file f (AlertmanagerRBACProxySecret f)"
  "from_file f (AlertmanagerRoute f)"
  unfolding AlertmanagerConfig_def AlertmanagerService_def AlertmanagerServiceAccount_def
    AlertmanagerClusterRoleBinding_def AlertmanagerClusterRole_def AlertmanagerServiceMonitor_def
    AlertmanagerTrustedCABundle_def AlertmanagerRBACProxySecret_def AlertmanagerRoute_def
  by (rule from_file_asset)+

lemma from_files_2 [from_files]:
  "from_file f (KubeStateMetricsClusterRoleBinding f)"
  "from_file f (KubeStateMetricsClusterRole f)"
  "from_file f (KubeStateMetricsServiceMonitor f)"
  "from_file f (KubeStateMetricsServiceAccount f)"
  "from_file f (KubeStateMetricsService f)"
  "from_file f (OpenShiftStateMetricsClusterRoleBinding f)"
  "from_file f (OpenShiftStateMetricsClusterRole f)"
  "from_file f (OpenShiftStateMetricsServiceMonitor f)"
  "from_file f (OpenShiftStateMetricsServiceAccount f)"
  "from_file f (OpenShiftStateMetricsService f)"
  "from_file f (NodeExporterServiceMonitor f)"
  "from_file f (NodeExporterService f)"
  "from_file f (NodeExporterSecurityContextConstraints f)"
  "from_file f (NodeExporterServiceAccount f)"
  "from_file f (NodeExporterClusterRoleBinding f)"
  "from_file f (NodeExporterClusterRole f)"
  unfolding KubeStateMetricsClusterRoleBinding_def KubeStateMetricsClusterRole_def
    KubeStateMetricsServiceMonitor_def KubeStateMetricsServiceAccount_def KubeStateMetricsService_def
    OpenShiftStateMetricsClusterRoleBinding_def OpenShiftStateMetricsClusterRole_def
    OpenShiftStateMetricsServiceMonitor_def OpenShiftStateMetricsServiceAccount_def
    OpenShiftStateMetricsService_def NodeExporterServiceMonitor_def NodeExporterService_def
    NodeExporterSecurityContextConstraints_def NodeExporterServiceAccount_def
    NodeExporterClusterRoleBinding_def NodeExporterClusterRole_def
  by (rule from_file_asset)+

lemma from_files_3 [from_files]:
  "from_file f (PrometheusK8sClusterRoleBinding f)"
  "from_file f (ThanosQuerierClusterRoleBinding f)"
  "from_file f (PrometheusUserWorkloadClusterRoleBinding f)"
  "from_file f (PrometheusK8sClusterRole f)"
  "from_file f (ThanosQuerierClusterRole f)"
  "from_file f (PrometheusUserWorkloadClusterRole f)"
  "from_file f (PrometheusK8sRoleConfig f)"
  "from_file f (PrometheusUserWorkloadRoleConfig f)"
  "from_file f (PrometheusK8sRoleBindingConfig f)"
  "from_file f (PrometheusUserWorkloadRoleBindingConfig f)"
  "from_file f (PrometheusK8sServiceAccount f)"
  "from_file f (ThanosQuerierServiceAccount f)"
  "from_file f (PrometheusUserWorkloadServiceAccount f)"
  "from_file f (PrometheusK8sGrpcTLSSecret f)"
  "from_file f (PrometheusUserWorkloadGrpcTLSSecret f)"
  "from_file f (ThanosQuerierGrpcTLSSecret f)"
  "from_file f (PrometheusK8sHtpasswdSecret f pw)"
  "from_file f (ThanosQuerierHtpasswdSecret f pw)"
  "from_file f (ThanosRulerHtpasswdSecret f pw)"
  "from_file f (ThanosRulerQueryConfigSecret f)"
  "from_file f (ThanosRulerAlertmanagerConfigSecret f)"
  "from_file f (PrometheusRBACProxySecret f)"
  "from_file f (ThanosQuerierRBACProxySecret f)"
  "from_file f (ThanosQuerierRBACProxyRulesSecret f)"
  "from_file f (PrometheusK8sServingCertsCABundle f)"
  "from_file f (PrometheusUserWorkloadServingCertsCABundle f)"
  "from_file f (PrometheusK8sKubeletServingCABundle f m)"
  "from_file f (PrometheusOperatorCertsCABundle f)"
  "from_file f (PrometheusK8sEtcdServiceMonitor f)"
  "from_file f (PrometheusK8sThanosSidecarServiceMonitor f)"
  "from_file f (PrometheusK8sRoute f)"
  "from_file f (ThanosQuerierRoute f)"
  "from_file f (PrometheusK8sTrustedCABundle f)"
  "from_file f (PrometheusK8sKubeletServiceMonitor f)"
  "from_file f (PrometheusK8sPrometheusServiceMonitor f)"
  "from_file f (PrometheusUserWorkloadPrometheusServiceMonitor f)"
  unfolding PrometheusK8sClusterRoleBinding_def ThanosQuerierClusterRoleBinding_def
    PrometheusUserWorkloadClusterRoleBinding_def PrometheusK8sClusterRole_def ThanosQuerierClusterRole_def
    PrometheusUserWorkloadClusterRole_def PrometheusK8sRoleConfig_def PrometheusUserWorkloadRoleConfig_def
    PrometheusK8sRoleBindingConfig_def PrometheusUserWorkloadRoleBindingConfig_def
    PrometheusK8sServiceAccount_def ThanosQuerierServiceAccount_def PrometheusUserWorkloadServiceAccount_def
    PrometheusK8sGrpcTLSSecret_def PrometheusUserWorkloadGrpcTLSSecret_def ThanosQuerierGrpcTLSSecret_def
    PrometheusK8sHtpasswdSecret_def ThanosQuerierHtpasswdSecret_def ThanosRulerHtpasswdSecret_def
    ThanosRulerQueryConfigSecret_def ThanosRulerAlertmanagerConfigSecret_def PrometheusRBACProxySecret_def
    ThanosQuerierRBACProxySecret_def ThanosQuerierRBACProxyRulesSecret_def
    PrometheusK8sServingCertsCABundle_def PrometheusUserWorkloadServingCertsCABundle_def
    PrometheusK8sKubeletServingCABundle_def PrometheusOperatorCertsCABundle_def
    PrometheusK8sEtcdServiceMonitor_def PrometheusK8sThanosSidecarServiceMonitor_def PrometheusK8sRoute_def
    ThanosQuerierRoute_def PrometheusK8sTrustedCABundle_def PrometheusK8sKubeletServiceMonitor_def
    PrometheusK8sPrometheusServiceMonitor_def PrometheusUserWorkloadPrometheusServiceMonitor_def
  by (rule from_file_asset)+

lemma from_files_4 [from_files]:
  "from_file f (PrometheusAdapterClusterRole f)"
  "from_file f (PrometheusAdapterClusterRoleServerResources f)"
  "from_file f (PrometheusAdapterClusterRoleAggregatedMetricsReader f)"
  "from_file f (PrometheusAdapterClusterRoleBinding f)"
  "from_file f (PrometheusAdapterClusterRoleBindingDelegator f)"
  "from_file f (PrometheusAdapterClusterRoleBindingView f)"
  "from_file f (PrometheusAdapterRoleBindingAuthReader f)"
  "from_file f (PrometheusAdapterServiceAccount f)"
  "from_file f (PrometheusAdapterConfigMap f)"
  "from_file f (PrometheusAdapterConfigMapPrometheus f)"
  "from_file f (PrometheusAdapterService f)"
  "from_file f (PrometheusAdapterServiceMonitor f)"
  "from_file f (PrometheusAdapterAPIService f)"
  unfolding PrometheusAdapterClusterRole_def PrometheusAdapterClusterRoleServerResources_def
    PrometheusAdapterClusterRoleAggregatedMetricsReader_def PrometheusAdapterClusterRoleBinding_def
    PrometheusAdapterClusterRoleBindingDelegator_def PrometheusAdapterClusterRoleBindingView_def
    PrometheusAdapterRoleBindingAuthReader_def PrometheusAdapterServiceAccount_def
    PrometheusAdapterConfigMap_def PrometheusAdapterConfigMapPrometheus_def PrometheusAdapterService_def
    PrometheusAdapterServiceMonitor_def PrometheusAdapterAPIService_def
  by (rule from_file_asset)+

lemma from_files_5 [from_files]:
  "from_file f (PrometheusOperatorServiceMonitor f)"
  "from_file f (PrometheusOperatorUserWorkloadServiceMonitor f)"
  "from_file f (PrometheusUserWorkloadThanosSidecarServiceMonitor f)"
  "from_file f (PrometheusOperatorClusterRoleBinding f)"
  "from_file f (PrometheusOperatorUserWorkloadClusterRoleBinding f)"
  "from_file f (PrometheusOperatorClusterRole f)"
  "from_file f (PrometheusOperatorUserWorkloadClusterRole f)"
  "from_file f (PrometheusOperatorServiceAccount f)"
  "from_file f (PrometheusOperatorUserWorkloadServiceAccount f)"
  "from_file f (PrometheusRuleValidatingWebhook f)"
  "from_file f (PrometheusOperatorService f)"
  "from_file f (PrometheusOperatorUserWorkloadService f)"
  "from_file f (PrometheusK8sService f)"
  "from_file f (PrometheusK8sServiceThanosSidecar f)"
  "from_file f (PrometheusUserWorkloadService f)"
  "from_file f (PrometheusUserWorkloadServiceThanosSidecar f)"
  unfolding PrometheusOperatorServiceMonitor_def PrometheusOperatorUserWorkloadServiceMonitor_def
    PrometheusUserWorkloadThanosSidecarServiceMonitor_def PrometheusOperatorClusterRoleBinding_def
    PrometheusOperatorUserWorkloadClusterRoleBinding_def PrometheusOperatorClusterRole_def
    PrometheusOperatorUserWorkloadClusterRole_def PrometheusOperatorServiceAccount_def
    PrometheusOperatorUserWorkloadServiceAccount_def PrometheusRuleValidatingWebhook_def
    PrometheusOperatorService_def PrometheusOperatorUserWorkloadService_def PrometheusK8sService_def
    PrometheusK8sServiceThanosSidecar_def PrometheusUserWorkloadService_def
    PrometheusUserWorkloadServiceThanosSidecar_def
  by (rule from_file_asset)+

lemma from_files_6 [from_files]:
  "from_file f (GrafanaClusterRoleBinding f)"
  "from_file f (GrafanaClusterRole f)"
  "from_file f (GrafanaConfig_secret f)"
  "from_file f (GrafanaDashboardSources f)"
  "from_file f (GrafanaTrustedCABundle f)"
  "from_file f (GrafanaRoute f)"
  "from_file f (GrafanaServiceAccount f)"
  "from_file f (GrafanaService f)"
  "from_file f (GrafanaServiceMonitor f)"
  unfolding GrafanaClusterRoleBinding_def GrafanaClusterRole_def GrafanaConfig_secret_def
    GrafanaDashboardSources_def GrafanaTrustedCABundle_def GrafanaRoute_def GrafanaServiceAccount_def
    GrafanaService_def GrafanaServiceMonitor_def
  by (rule from_file_asset)+

lemma from_files_7 [from_files]:
  "from_file f (ClusterMonitoringClusterRole f)"
  "from_file f (ClusterMonitoringRulesEditClusterRole f)"
  "from_file f (ClusterMonitoringRulesViewClusterRole f)"
  "from_file f (ClusterMonitoringEditClusterRole f)"
  "from_file f (ClusterMonitoringEditUserWorkloadConfigRole f)"
  "from_file f (ClusterMonitoringOperatorService f)"
  "from_file f (ClusterMonitoringOperatorServiceMonitor f)"
  unfolding ClusterMonitoringClusterRole_def ClusterMonitoringRulesEditClusterRole_def
    ClusterMonitoringRulesViewClusterRole_def ClusterMonitoringEditClusterRole_def
    ClusterMonitoringEditUserWorkloadConfigRole_def ClusterMonitoringOperatorService_def
    ClusterMonitoringOperatorServiceMonitor_def
  by (rule from_file_asset)+

lemma from_files_8 [from_files]:
  "from_file f (ThanosQuerierTrustedCABundle f)"
  "from_file f (ThanosQuerierService f)"
  "from_file f (ThanosQuerierPrometheusRule f)"
  "from_file f (TelemeterTrustedCABundle f)"
  "from_file f (TelemeterClientServingCertsCABundle f)"
  "from_file f (TelemeterClientClusterRole f)"
  "from_file f (TelemeterClientClusterRoleBinding f)"
  "from_file f (TelemeterClientClusterRoleBindingView f)"
  "from_file f (TelemeterClientServiceMonitor f)"
  "from_file f (TelemeterClientService f)"
  "from_file f (TelemeterClientServiceAccount f)"
  "from_file f (ThanosRulerService f)"
  "from_file f (ThanosRulerServiceAccount f)"
  "from_file f (ThanosRulerClusterRoleBinding f)"
  "from_file f (ThanosRulerMonitoringClusterRoleBinding f)"
  "from_file f (ThanosRulerClusterRole f)"
  "from_file f (ThanosRulerPrometheusRule f)"
  "from_file f (ThanosRulerServiceMonitor f)"
  "from_file f (ThanosRulerRoute f)"
  "from_file f (ThanosRulerTrustedCABundle f)"
  "from_file f (ThanosRulerGrpcTLSSecret f)"
  unfolding ThanosQuerierTrustedCABundle_def ThanosQuerierService_def ThanosQuerierPrometheusRule_def
    TelemeterTrustedCABundle_def TelemeterClientServingCertsCABundle_def TelemeterClientClusterRole_def
    TelemeterClientClusterRoleBinding_def TelemeterClientClusterRoleBindingView_def
    TelemeterClientServiceMonitor_def TelemeterClientService_def TelemeterClientServiceAccount_def
    ThanosRulerService_def ThanosRulerServiceAccount_def ThanosRulerClusterRoleBinding_def
    ThanosRulerMonitoringClusterRoleBinding_def ThanosRulerClusterRole_def ThanosRulerPrometheusRule_def
    ThanosRulerServiceMonitor_def ThanosRulerRoute_def ThanosRulerTrustedCABundle_def
    ThanosRulerGrpcTLSSecret_def
  by (rule from_file_asset)+

lemma from_files_9 [from_files]:
  "from_file f (PrometheusK8sRoleBindingList f)"
  "from_file f (PrometheusUserWorkloadRoleBindingList f)"
  "from_file f (PrometheusK8sRoleList f)"
  "from_file f (PrometheusUserWorkloadRoleList f)"
  "from_file f (PrometheusK8sRules f)"
  "from_file f (GrafanaDashboardDefinitions f)"
  "from_file f (ThanosQuerierServiceMonitor f)"
  "from_file f (GRPCSecret f)"
  unfolding PrometheusK8sRoleBindingList_def PrometheusUserWorkloadRoleBindingList_def PrometheusK8sRoleList_def
    PrometheusUserWorkloadRoleList_def PrometheusK8sRules_def GrafanaDashboardDefinitions_def
    ThanosQuerierServiceMonitor_def GRPCSecret_def
  by (rule from_file_asset)+

lemma from_files_10 [from_files]:
  "from_file f (AlertmanagerMain f host trustedCABundleCM)"
  unfolding AlertmanagerMain_def
  by (rule from_file_asset)+

lemma from_files_11 [from_files]:
  "from_file f (KubeStateMetricsDeployment f)"
  "from_file f (OpenShiftStateMetricsDeployment f)"
  "from_file f (NodeExporterDaemonSet f)"
  unfolding KubeStateMetricsDeployment_def OpenShiftStateMetricsDeployment_def NodeExporterDaemonSet_def
  by (rule from_file_asset)+

lemma from_files_12 [from_files]:
  "from_file f (PrometheusAdapterDeployment f apiAuthSecretName requestheader)"
  unfolding PrometheusAdapterDeployment_def
  by (rule from_file_asset)+

lemma from_files_13 [from_files]:
  "from_file f (PrometheusOperatorDeployment f namespaces)"
  "from_file f (PrometheusOperatorUserWorkloadDeployment f denyNamespaces)"
  unfolding PrometheusOperatorDeployment_def PrometheusOperatorUserWorkloadDeployment_def
  by (rule from_file_asset)+

lemma from_files_14 [from_files]:
  "from_file f (GrafanaDeployment f proxyCABundleCM)"
  unfolding GrafanaDeployment_def
  by (rule from_file_asset)+

lemma from_files_15 [from_files]:
  "from_file f (ThanosQuerierDeployment f grpcTLS enableUserWorkloadMonitoring trustedCA)"
  unfolding ThanosQuerierDeployment_def
  by (rule from_file_asset)+

lemma from_files_16 [from_files]:
  "from_file f (TelemeterClientDeployment f proxyCABundleCM)"
  unfolding TelemeterClientDeployment_def
  by (rule from_file_asset)+

lemma from_files_17 [from_files]:
  "from_file f (PrometheusK8s f host grpcTLS trustedCABundleCM)"
  unfolding PrometheusK8s_def
  by (rule from_file_asset)+

lemma from_files_18 [from_files]:
  "from_file f (PrometheusUserWorkload f grpcTLS)"
  unfolding PrometheusUserWorkload_def
  by (rule from_file_asset)+

lemma from_files_19 [from_files]:
  "from_file f (ThanosRulerCustomResource f queryURL trustedCA grpcTLS)"
  unfolding ThanosRulerCustomResource_def
  by (rule from_file_asset)+

text \<open>
  The workloads are built from other objects as well, but these do not decide where a workload is:
  \<open>adapt\<close> keeps the name of what was decoded and puts it into a fixed namespace.
\<close>

definition sites :: "string \<Rightarrow> ('a ObjectMeta_scheme \<Rightarrow> 'b ObjectMeta_scheme res) \<Rightarrow> bool" where
  "sites ns adapt \<longleftrightarrow> (\<forall>y x. adapt y = Ok x \<longrightarrow> Name x = Name y \<and> Namespace x = ns)"

lemma sites_on_template: "sites ns (on_template g ns)"
  by (auto simp: sites_def on_template_def r_bind_Ok_iff)

lemma sites_bind: "(\<And>a. sites ns (k a)) \<Longrightarrow> sites ns (\<lambda>y. r_bind (m y) (\<lambda>a. k a y))"
  unfolding sites_def by (auto simp: r_bind_Ok_iff)

lemma sites_pair: "(\<And>a b. sites ns (k a b)) \<Longrightarrow> sites ns (\<lambda>y. case p y of (a, b) \<Rightarrow> k a b y)"
  unfolding sites_def by (auto split: prod.splits)

lemma sites_option: "sites ns n \<Longrightarrow> (\<And>a. sites ns (k a)) \<Longrightarrow> sites ns (\<lambda>y. case p of None \<Rightarrow> n y | Some a \<Rightarrow> k a y)"
  unfolding sites_def by (auto split: option.splits)

lemma sites_Ok: "(\<And>y. Name (g y) = Name y \<and> Namespace (g y) = ns) \<Longrightarrow> sites ns (\<lambda>y. Ok (g y))"
  by (simp add: sites_def)

lemma sites_Err: "sites ns (\<lambda>y. Err e)"
  by (simp add: sites_def)

lemmas sites_intros = sites_bind sites_pair sites_option sites_Err sites_Ok sites_on_template

section \<open>The factory\<close>

text \<open>
  The manifests are files of the operator's image: a file reads the same at any time. Reading it and
  drawing random bytes do not touch the inventory.
\<close>

locale steady_factory =
  fixes I :: "'w inventory" and f :: "'w Factory"
  assumes same_asset: "fst (asset f name w) = fst (asset f name w')"
    and asset_idle: "idle I (asset f name)"
    and rand_idle: "idle I (rand_Read f n)"
begin

lemma asset_unique: "asset f name w = (Ok a, u) \<Longrightarrow> asset f name w' = (Ok b, u') \<Longrightarrow> a = b"
  using same_asset [of name w w'] by simp

lemma from_file_idle: "from_file f m \<Longrightarrow> idle I m"
  unfolding from_file_def by (auto intro!: effect_after asset_idle idle_return)

lemma from_file_unique: "from_file f m \<Longrightarrow> x \<in> yielded m \<Longrightarrow> y \<in> yielded m \<Longrightarrow> x = y"
  unfolding from_file_def yielded_def by (auto simp: p_bind_Ok_iff) (metis asset_unique res.inject(1))

lemma from_file_addresses:
  assumes "from_file f m" and "x \<in> yielded m"
  shows "addresses K m = {(K, Namespace x, Name x)}" and "cluster_addresses K m = {(K, '''', Name x)}"
  using assms from_file_unique [OF assms(1)] unfolding addresses_def cluster_addresses_def by blast+

lemma from_file_list_addresses:
  assumes "from_file f m" and "xs \<in> yielded m"
  shows "list_addresses K m = (\<Union>x\<in>set xs. {(K, Namespace x, Name x)})"
proof -
  have "yielded m = {xs}" using assms from_file_unique [OF assms(1)] by blast
  then show ?thesis by (auto simp: list_addresses_def)
qed

lemma password_idle: "idle I (password f n)"
  unfolding password_def by (intro effect_after rand_idle idle_return)

lemma drawn_secret_idle:
  "idle I (AlertmanagerProxySecret f)" "idle I (PrometheusK8sProxySecret f)" "idle I (ThanosQuerierOauthCookieSecret f)"
  "idle I (GrafanaProxySecret f)" "idle I (ThanosRulerOauthCookieSecret f)" "idle I (GrafanaDatasources_secret f)"
  "idle I (TelemeterClientSecret f)"
  unfolding AlertmanagerProxySecret_def PrometheusK8sProxySecret_def ThanosQuerierOauthCookieSecret_def
    GrafanaProxySecret_def ThanosRulerOauthCookieSecret_def session_secret_def GrafanaDatasources_secret_def
    TelemeterClientSecret_def
  by (intro effect_after effect_catch password_idle idle_return from_file_idle from_file_asset)+

text \<open>All versions of a workload are at one address.\<close>

lemma sited_unique:
  assumes "x \<in> yielded (from_asset f new name adapt)" and "y \<in> yielded (from_asset f new name adapt')"
    and "sites ns adapt" and "sites ns adapt'"
  shows "Name x = Name y \<and> Namespace x = Namespace y"
proof -
  obtain w w1 w2 a b where "asset f name w = (Ok a, w1)" "new a = Ok b" "adapt b = Ok x"
    using assms(1) by (auto simp: yielded_def from_asset_def prog_simps r_bind_Ok_iff)
  moreover obtain v v1 v2 a' b' where "asset f name v = (Ok a', v1)" "new a' = Ok b'" "adapt' b' = Ok y"
    using assms(2) by (auto simp: yielded_def from_asset_def prog_simps r_bind_Ok_iff)
  ultimately show ?thesis
    using assms(3,4) asset_unique [of name w a w1 v a' v1] by (auto simp: sites_def)
qed

lemma deployment_sites:
  "x \<in> yielded (PrometheusAdapterDeployment f n d) \<Longrightarrow> y \<in> yielded (PrometheusAdapterDeployment f n' d') \<Longrightarrow>
     Name x = Name y \<and> Namespace x = Namespace y"
  "x \<in> yielded (PrometheusOperatorDeployment f nss) \<Longrightarrow> y \<in> yielded (PrometheusOperatorDeployment f nss') \<Longrightarrow>
     Name x = Name y \<and> Namespace x = Namespace y"
  "x \<in> yielded (PrometheusOperatorUserWorkloadDeployment f nss) \<Longrightarrow> y \<in> yielded (PrometheusOperatorUserWorkloadDeployment f nss') \<Longrightarrow>
     Name x = Name y \<and> Namespace x = Namespace y"
  "x \<in> yielded (GrafanaDeployment f ca) \<Longrightarrow> y \<in> yielded (GrafanaDeployment f ca') \<Longrightarrow>
     Name x = Name y \<and> Namespace x = Namespace y"
  "x \<in> yielded (ThanosQuerierDeployment f s e ca) \<Longrightarrow> y \<in> yielded (ThanosQuerierDeployment f s' e' ca') \<Longrightarrow>
     Name x = Name y \<and> Namespace x = Namespace y"
  "x \<in> yielded (TelemeterClientDeployment f ca) \<Longrightarrow> y \<in> yielded (TelemeterClientDeployment f ca') \<Longrightarrow>
     Name x = Name y \<and> Namespace x = Namespace y"
  unfolding PrometheusAdapterDeployment_def
    PrometheusOperatorDeployment_def
    PrometheusOperatorUserWorkloadDeployment_def
    GrafanaDeployment_def
    ThanosQuerierDeployment_def
    TelemeterClientDeployment_def
  by (erule (1) sited_unique; rule sites_on_template)+

lemma prometheus_sites:
  "x \<in> yielded (PrometheusK8s f h s ca) \<Longrightarrow> y \<in> yielded (PrometheusK8s f h' s' ca') \<Longrightarrow>
     Name x = Name y \<and> Namespace x = Namespace y"
  "x \<in> yielded (PrometheusUserWorkload f s) \<Longrightarrow> y \<in> yielded (PrometheusUserWorkload f s') \<Longrightarrow>
     Name x = Name y \<and> Namespace x = Namespace y"
  unfolding PrometheusK8s_def
    PrometheusUserWorkload_def Let_def
  by (erule (1) sited_unique; intro sites_intros; simp)+

lemma alertmanager_sites:
  "x \<in> yielded (AlertmanagerMain f h ca) \<Longrightarrow> y \<in> yielded (AlertmanagerMain f h' ca') \<Longrightarrow>
     Name x = Name y \<and> Namespace x = Namespace y"
  unfolding AlertmanagerMain_def Let_def
  by (erule (1) sited_unique; intro sites_intros; simp)+

lemma ruler_sites:
  "x \<in> yielded (ThanosRulerCustomResource f u ca s) \<Longrightarrow> y \<in> yielded (ThanosRulerCustomResource f u' ca' s') \<Longrightarrow>
     Name x = Name y \<and> Namespace x = Namespace y"
  unfolding ThanosRulerCustomResource_def Let_def
  by (erule (1) sited_unique; intro sites_intros; simp)+

end

section \<open>Steps of a task\<close>

locale reconciler = client_inventory I c + steady_factory I f
  for I :: "'w inventory" and c :: "'w Client" and f :: "'w Factory"
begin

lemma p_bind_assoc: "p_bind (p_bind m h) k = p_bind m (\<lambda>x. p_bind (h x) k)"
  by (rule ext) (simp add: p_bind_def split: prod.split res.split)

text \<open>The loops over the items of a list.\<close>

lemma list_loop:
  assumes "from_file f m" and "\<And>x. effect I {} {(K, Namespace x, Name x)} (op x)" and "xs \<in> yielded m"
  shows "effect I {} (list_addresses K m) (p_for xs (\<lambda>x. p_wrap (msg x) (op x)))"
  unfolding from_file_list_addresses [OF assms(1,3)] by (intro effect_for_add effect_wrap assms(2))

lemma list_removal:
  assumes "from_file f m" and "\<And>x. effect I {(K, Namespace x, Name x)} {} (op x)" and "xs \<in> yielded m"
  shows "effect I (list_addresses K m) {} (p_for xs (\<lambda>x. p_wrap (msg x) (op x)))"
  unfolding from_file_list_addresses [OF assms(1,3)] by (intro effect_for_remove effect_wrap assms(2))

text \<open>
  The steps that a task consists of: an object is built and brought to its required state, and the rest of
  the task follows. The objects of a method have one address.
\<close>

lemma then_add:
  assumes "effect I {} B m" and "\<And>a. a \<in> yielded m \<Longrightarrow> effect I {} (\<Union>S) (k a)"
  shows "effect I {} (\<Union>(insert B S)) (attempt msg m k)"
  using effect_attempt [OF assms] by simp

lemma then_remove:
  assumes "effect I B {} m" and "\<And>a. a \<in> yielded m \<Longrightarrow> effect I (\<Union>S) {} (k a)"
  shows "effect I (\<Union>(insert B S)) {} (attempt msg m k)"
  using effect_attempt [OF assms] by simp

lemma workload_add_step:
  assumes "from_file f m" and "\<And>x. x \<in> yielded m \<Longrightarrow> B = {(K, Namespace x, Name x)}"
    and "\<And>x. effect I {} {(K, Namespace x, Name x)} (op x)" and "\<And>x. effect I {} (\<Union>S) (k x)"
  shows "effect I {} (\<Union>(insert B S)) (attempt m1 m (\<lambda>x. attempt m2 (op x) (\<lambda>_. k x)))"
  by (intro effect_attempt_after from_file_idle assms(1) then_add assms(4)) (simp add: assms(2,3))

lemma add_step:
  assumes "from_file f m" and "\<And>x. effect I {} {(K, Namespace x, Name x)} (op x)" and "effect I {} (\<Union>S) k"
  shows "effect I {} (\<Union>(insert (addresses K m) S)) (attempt m1 m (\<lambda>x. attempt m2 (op x) (\<lambda>_. k)))"
  by (rule workload_add_step [OF assms(1) _ assms(2,3)]) (rule from_file_addresses [OF assms(1)])

lemma cluster_add_step:
  assumes "from_file f m" and "\<And>x. effect I {} {(K, '''', Name x)} (op x)" and "effect I {} (\<Union>S) k"
  shows "effect I {} (\<Union>(insert (cluster_addresses K m) S)) (attempt m1 m (\<lambda>x. attempt m2 (op x) (\<lambda>_. k)))"
  by (intro effect_attempt_after from_file_idle assms(1) then_add assms(3))
    (simp add: from_file_addresses [OF assms(1)] assms(2))

lemma list_add_step:
  assumes "from_file f m" and "\<And>x. effect I {} {(K, Namespace x, Name x)} (op x)" and "effect I {} (\<Union>S) k"
  shows "effect I {} (\<Union>(insert (list_addresses K m) S))
    (attempt m1 m (\<lambda>xs. p_bind (p_for xs (\<lambda>x. p_wrap (msg x) (op x))) (\<lambda>_. k)))"
proof (intro effect_attempt_after from_file_idle assms(1))
  fix xs assume "xs \<in> yielded m"
  from effect_bind [OF list_loop [OF assms(1,2) this] assms(3)]
  show "effect I {} (\<Union>(insert (list_addresses K m) S)) (p_bind (p_for xs (\<lambda>x. p_wrap (msg x) (op x))) (\<lambda>_. k))"
    by simp
qed

lemma route_add_step:
  assumes "from_file f m" and "\<And>h. effect I {} (\<Union>S) (k h)"
  shows "effect I {} (\<Union>(insert (addresses KRoute m) S)) (attempt m1 m (\<lambda>r.
    attempt m2 (CreateRouteIfNotExists c r) (\<lambda>_. attempt m3 (WaitForRouteReady c r) k)))"
proof (rule effect_attempt_after [OF from_file_idle [OF assms(1)]])
  fix r assume r: "r \<in> yielded m"
  have "attempt m2 (CreateRouteIfNotExists c r) (\<lambda>_. attempt m3 (WaitForRouteReady c r) k) =
    p_bind (attempt m2 (CreateRouteIfNotExists c r) (\<lambda>_. p_wrap m3 (WaitForRouteReady c r))) k"
    by (simp add: attempt_def p_bind_assoc)
  with effect_bind [OF route_ready_effect assms(2)] from_file_addresses(1) [OF assms(1) r]
  show "effect I {} (\<Union>(insert (addresses KRoute m) S))
      (attempt m2 (CreateRouteIfNotExists c r) (\<lambda>_. attempt m3 (WaitForRouteReady c r) k))" by simp
qed

lemma workload_remove_step:
  assumes "from_file f m" and "\<And>x. x \<in> yielded m \<Longrightarrow> B = {(K, Namespace x, Name x)}"
    and "\<And>x. effect I {(K, Namespace x, Name x)} {} (op x)" and "effect I (\<Union>S) {} k"
  shows "effect I (\<Union>(insert B S)) {} (attempt m1 m (\<lambda>x. attempt m2 (op x) (\<lambda>_. k)))"
  by (intro effect_attempt_after from_file_idle assms(1) then_remove assms(4)) (simp add: assms(2,3))

lemma remove_step:
  assumes "from_file f m" and "\<And>x. effect I {(K, Namespace x, Name x)} {} (op x)" and "effect I (\<Union>S) {} k"
  shows "effect I (\<Union>(insert (addresses K m) S)) {} (attempt m1 m (\<lambda>x. attempt m2 (op x) (\<lambda>_. k)))"
  by (rule workload_remove_step [OF assms(1) _ assms(2,3)]) (rule from_file_addresses [OF assms(1)])

lemma cluster_remove_step:
  assumes "from_file f m" and "\<And>x. effect I {(K, '''', Name x)} {} (op x)" and "effect I (\<Union>S) {} k"
  shows "effect I (\<Union>(insert (cluster_addresses K m) S)) {} (attempt m1 m (\<lambda>x. attempt m2 (op x) (\<lambda>_. k)))"
  by (intro effect_attempt_after from_file_idle assms(1) then_remove assms(3))
    (simp add: from_file_addresses [OF assms(1)] assms(2))

lemma list_remove_step:
  assumes "from_file f m" and "\<And>x. effect I {(K, Namespace x, Name x)} {} (op x)" and "effect I (\<Union>S) {} k"
  shows "effect I (\<Union>(insert (list_addresses K m) S)) {}
    (attempt m1 m (\<lambda>xs. p_bind (p_for xs (\<lambda>x. p_wrap (msg x) (op x))) (\<lambda>_. k)))"
proof (intro effect_attempt_after from_file_idle assms(1))
  fix xs assume "xs \<in> yielded m"
  from effect_bind [OF list_removal [OF assms(1,2) this] assms(3)]
  show "effect I (\<Union>(insert (list_addresses K m) S)) {} (p_bind (p_for xs (\<lambda>x. p_wrap (msg x) (op x))) (\<lambda>_. k))"
    by simp
qed

text \<open>After the last step nothing is left.\<close>

lemma wrap_last: "p_wrap msg (m :: ('w, unit) prog) = attempt msg m (\<lambda>_. p_return (Ok ()))"
  by (rule ext) (auto simp: attempt_def p_bind_def split: res.splits prod.splits)

lemma nothing_left: "effect I {} (\<Union>{}) (p_return r)" "effect I (\<Union>{}) {} (p_return r)"
  by simp_all

lemma add_last:
  fixes op :: "'z ObjectMeta_scheme \<Rightarrow> ('w, unit) prog"
  assumes "from_file f m" and "\<And>x. effect I {} {(K, Namespace x, Name x)} (op x)"
  shows "effect I {} (\<Union>{addresses K m}) (attempt m1 m (\<lambda>x. p_wrap m2 (op x)))"
  unfolding wrap_last by (rule add_step [OF assms nothing_left(1)])

lemma remove_last:
  fixes op :: "'z ObjectMeta_scheme \<Rightarrow> ('w, unit) prog"
  assumes "from_file f m" and "\<And>x. effect I {(K, Namespace x, Name x)} {} (op x)"
  shows "effect I (\<Union>{addresses K m}) {} (attempt m1 m (\<lambda>x. p_wrap m2 (op x)))"
  unfolding wrap_last by (rule remove_step [OF assms nothing_left(2)])

text \<open>A step that only reads.\<close>

lemma read_step:
  assumes "idle I m" and "\<And>a. effect I R A (k a)"
  shows "effect I R A (attempt msg m k)" and "effect I R A (p_bind m k)"
  using assms by (auto intro: effect_attempt_after effect_after)

lemma let_step: "(\<And>a. effect I R A (k a)) \<Longrightarrow> effect I R A (let x = e in k x)"
  by (simp add: Let_def)

text \<open>The workloads that are built from other objects.\<close>

lemma workload_addresses:
  "d \<in> yielded (PrometheusOperatorDeployment f nss) \<Longrightarrow>
    (\<Union>nss. addresses KDeployment (PrometheusOperatorDeployment f nss)) = {(KDeployment, Namespace d, Name d)}"
  "d \<in> yielded (PrometheusOperatorUserWorkloadDeployment f nss) \<Longrightarrow>
    (\<Union>nss. addresses KDeployment (PrometheusOperatorUserWorkloadDeployment f nss)) = {(KDeployment, Namespace d, Name d)}"
  "d \<in> yielded (GrafanaDeployment f ca) \<Longrightarrow>
    (\<Union>ca. addresses KDeployment (GrafanaDeployment f ca)) = {(KDeployment, Namespace d, Name d)}"
  "d \<in> yielded (TelemeterClientDeployment f ca) \<Longrightarrow>
    (\<Union>ca. addresses KDeployment (TelemeterClientDeployment f ca)) = {(KDeployment, Namespace d, Name d)}"
  "d \<in> yielded (ThanosQuerierDeployment f s e ca) \<Longrightarrow>
    (\<Union>s e ca. addresses KDeployment (ThanosQuerierDeployment f s e ca)) = {(KDeployment, Namespace d, Name d)}"
  "d \<in> yielded (PrometheusAdapterDeployment f n h) \<Longrightarrow>
    (\<Union>n h. addresses KDeployment (PrometheusAdapterDeployment f n h)) = {(KDeployment, Namespace d, Name d)}"
  unfolding addresses_def by (safe; (blast | (drule (1) deployment_sites, simp)))+

lemma resource_addresses:
  "p \<in> yielded (PrometheusK8s f h s ca) \<Longrightarrow>
    (\<Union>h s ca. addresses KPrometheus (PrometheusK8s f h s ca)) = {(KPrometheus, Namespace p, Name p)}"
  "p \<in> yielded (PrometheusUserWorkload f s) \<Longrightarrow>
    (\<Union>s. addresses KPrometheus (PrometheusUserWorkload f s)) = {(KPrometheus, Namespace p, Name p)}"
  "a \<in> yielded (AlertmanagerMain f h ca) \<Longrightarrow>
    (\<Union>h ca. addresses KAlertmanager (AlertmanagerMain f h ca)) = {(KAlertmanager, Namespace a, Name a)}"
  "t \<in> yielded (ThanosRulerCustomResource f u ca s) \<Longrightarrow>
    (\<Union>u ca s. addresses KThanosRuler (ThanosRulerCustomResource f u ca s)) = {(KThanosRuler, Namespace t, Name t)}"
  unfolding addresses_def
  by (safe; (blast | (drule (1) prometheus_sites alertmanager_sites ruler_sites, simp)))+

lemmas located = workload_addresses resource_addresses

text \<open>The rules for the steps, in the order in which they are tried.\<close>

lemmas create_steps = add_step add_last cluster_add_step list_add_step route_add_step nothing_left(1)
  from_files client_effects

lemmas remove_steps = remove_step remove_last cluster_remove_step list_remove_step nothing_left(2)
  from_files client_effects

lemmas read_steps = read_step let_step effect_catch drawn_secret_idle idle_return from_file_idle

end

end
