(* ===== verification/Task_Effects.thy ===== *)
theory Task_Effects
  imports Desired_State
begin

text \<open>
  What every task does to the inventory of the cluster. The tasks that keep certificates or bundles under
  names that carry a hash are considered on an inventory that does not count secrets and config maps; the
  others are accounted for completely.
\<close>

section \<open>The objects of the tasks\<close>

definition prometheus_operator_objects :: "'w Factory \<Rightarrow> address set" where
  "prometheus_operator_objects f = \<Union>{
     addresses KConfigMap (PrometheusOperatorCertsCABundle f),
     addresses KServiceAccount (PrometheusOperatorServiceAccount f),
     cluster_addresses KClusterRole (PrometheusOperatorClusterRole f),
     cluster_addresses KClusterRoleBinding (PrometheusOperatorClusterRoleBinding f),
     addresses KService (PrometheusOperatorService f),
     (\<Union>namespaces. addresses KDeployment (PrometheusOperatorDeployment f namespaces)),
     cluster_addresses KValidatingWebhook (PrometheusRuleValidatingWebhook f),
     addresses KServiceMonitor (PrometheusOperatorServiceMonitor f)}"

definition node_exporter_objects :: "'w Factory \<Rightarrow> address set" where
  "node_exporter_objects f = \<Union>{
     cluster_addresses KSecurityContextConstraints (NodeExporterSecurityContextConstraints f),
     addresses KServiceAccount (NodeExporterServiceAccount f),
     cluster_addresses KClusterRole (NodeExporterClusterRole f),
     cluster_addresses KClusterRoleBinding (NodeExporterClusterRoleBinding f),
     addresses KService (NodeExporterService f),
     addresses KDaemonSet (NodeExporterDaemonSet f),
     addresses KServiceMonitor (NodeExporterServiceMonitor f)}"

definition kube_state_metrics_objects :: "'w Factory \<Rightarrow> address set" where
  "kube_state_metrics_objects f = \<Union>{
     addresses KServiceAccount (KubeStateMetricsServiceAccount f),
     cluster_addresses KClusterRole (KubeStateMetricsClusterRole f),
     cluster_addresses KClusterRoleBinding (KubeStateMetricsClusterRoleBinding f),
     addresses KService (KubeStateMetricsService f),
     addresses KDeployment (KubeStateMetricsDeployment f),
     addresses KServiceMonitor (KubeStateMetricsServiceMonitor f)}"

definition openshift_state_metrics_objects :: "'w Factory \<Rightarrow> address set" where
  "openshift_state_metrics_objects f = \<Union>{
     addresses KServiceAccount (OpenShiftStateMetricsServiceAccount f),
     cluster_addresses KClusterRole (OpenShiftStateMetricsClusterRole f),
     cluster_addresses KClusterRoleBinding (OpenShiftStateMetricsClusterRoleBinding f),
     addresses KService (OpenShiftStateMetricsService f),
     addresses KDeployment (OpenShiftStateMetricsDeployment f),
     addresses KServiceMonitor (OpenShiftStateMetricsServiceMonitor f)}"

definition user_workload_operator_objects :: "'w Factory \<Rightarrow> address set" where
  "user_workload_operator_objects f = \<Union>{
     addresses KServiceAccount (PrometheusOperatorUserWorkloadServiceAccount f),
     cluster_addresses KClusterRole (PrometheusOperatorUserWorkloadClusterRole f),
     cluster_addresses KClusterRoleBinding (PrometheusOperatorUserWorkloadClusterRoleBinding f),
     addresses KService (PrometheusOperatorUserWorkloadService f),
     (\<Union>namespaces. addresses KDeployment (PrometheusOperatorUserWorkloadDeployment f namespaces)),
     addresses KServiceMonitor (PrometheusOperatorUserWorkloadServiceMonitor f)}"

text \<open>From here on without secrets and config maps.\<close>

definition grafana_objects :: "'w Factory \<Rightarrow> address set" where
  "grafana_objects f = \<Union>{
     cluster_addresses KClusterRole (GrafanaClusterRole f),
     cluster_addresses KClusterRoleBinding (GrafanaClusterRoleBinding f),
     addresses KRoute (GrafanaRoute f),
     addresses KServiceAccount (GrafanaServiceAccount f),
     addresses KService (GrafanaService f),
     (\<Union>ca. addresses KDeployment (GrafanaDeployment f ca)),
     addresses KServiceMonitor (GrafanaServiceMonitor f)}"

definition alertmanager_objects :: "'w Factory \<Rightarrow> address set" where
  "alertmanager_objects f = \<Union>{
     addresses KRoute (AlertmanagerRoute f),
     cluster_addresses KClusterRole (AlertmanagerClusterRole f),
     cluster_addresses KClusterRoleBinding (AlertmanagerClusterRoleBinding f),
     addresses KServiceAccount (AlertmanagerServiceAccount f),
     addresses KService (AlertmanagerService f),
     (\<Union>host ca. addresses KAlertmanager (AlertmanagerMain f host ca)),
     addresses KServiceMonitor (AlertmanagerServiceMonitor f)}"

definition thanos_querier_objects :: "'w Factory \<Rightarrow> address set" where
  "thanos_querier_objects f = \<Union>{
     addresses KService (ThanosQuerierService f),
     addresses KRoute (ThanosQuerierRoute f),
     addresses KServiceAccount (ThanosQuerierServiceAccount f),
     cluster_addresses KClusterRole (ThanosQuerierClusterRole f),
     cluster_addresses KClusterRoleBinding (ThanosQuerierClusterRoleBinding f),
     (\<Union>grpc uwm ca. addresses KDeployment (ThanosQuerierDeployment f grpc uwm ca)),
     addresses KServiceMonitor (ThanosQuerierServiceMonitor f),
     addresses KPrometheusRule (ThanosQuerierPrometheusRule f)}"

definition adapter_objects :: "'w Factory \<Rightarrow> address set" where
  "adapter_objects f = \<Union>{
     cluster_addresses KClusterRole (PrometheusAdapterClusterRole f),
     cluster_addresses KClusterRole (PrometheusAdapterClusterRoleServerResources f),
     cluster_addresses KClusterRole (PrometheusAdapterClusterRoleAggregatedMetricsReader f),
     cluster_addresses KClusterRoleBinding (PrometheusAdapterClusterRoleBinding f),
     cluster_addresses KClusterRoleBinding (PrometheusAdapterClusterRoleBindingDelegator f),
     cluster_addresses KClusterRoleBinding (PrometheusAdapterClusterRoleBindingView f),
     addresses KRoleBinding (PrometheusAdapterRoleBindingAuthReader f),
     addresses KServiceAccount (PrometheusAdapterServiceAccount f),
     addresses KService (PrometheusAdapterService f),
     (\<Union>secret auth. addresses KDeployment (PrometheusAdapterDeployment f secret auth)),
     addresses KServiceMonitor (PrometheusAdapterServiceMonitor f),
     cluster_addresses KAPIService (PrometheusAdapterAPIService f)}"

definition user_workload_prometheus_objects :: "'w Factory \<Rightarrow> address set" where
  "user_workload_prometheus_objects f = \<Union>{
     addresses KServiceAccount (PrometheusUserWorkloadServiceAccount f),
     cluster_addresses KClusterRole (PrometheusUserWorkloadClusterRole f),
     cluster_addresses KClusterRoleBinding (PrometheusUserWorkloadClusterRoleBinding f),
     addresses KRole (PrometheusUserWorkloadRoleConfig f),
     list_addresses KRole (PrometheusUserWorkloadRoleList f),
     list_addresses KRoleBinding (PrometheusUserWorkloadRoleBindingList f),
     addresses KRoleBinding (PrometheusUserWorkloadRoleBindingConfig f),
     addresses KService (PrometheusUserWorkloadService f),
     addresses KService (PrometheusUserWorkloadServiceThanosSidecar f),
     (\<Union>grpc. addresses KPrometheus (PrometheusUserWorkload f grpc)),
     addresses KServiceMonitor (PrometheusUserWorkloadPrometheusServiceMonitor f),
     addresses KServiceMonitor (PrometheusUserWorkloadThanosSidecarServiceMonitor f)}"

text \<open>The cluster roles are visited in the order of a Go map.\<close>

definition monitoring_operator_objects :: "'w Factory \<Rightarrow> address set" where
  "monitoring_operator_objects f = \<Union>{
     addresses KService (ClusterMonitoringOperatorService f),
     (\<Union>name\<in>set (map_order f [''cluster-monitoring-view'', ''monitoring-rules-edit'', ''monitoring-rules-view'',
         ''monitoring-edit'']). cluster_addresses KClusterRole (monitoring_cluster_role f name)),
     addresses KRole (ClusterMonitoringEditUserWorkloadConfigRole f),
     addresses KServiceMonitor (ClusterMonitoringOperatorServiceMonitor f)}"

text \<open>
  The objects of the Thanos ruler and of the telemeter client that are removed when they are switched off,
  and those that stay.
\<close>

definition thanos_ruler_objects :: "'w Factory \<Rightarrow> address set" where
  "thanos_ruler_objects f = \<Union>{
     addresses KPrometheusRule (ThanosRulerPrometheusRule f),
     addresses KRoute (ThanosRulerRoute f),
     addresses KService (ThanosRulerService f),
     cluster_addresses KClusterRole (ThanosRulerClusterRole f),
     cluster_addresses KClusterRoleBinding (ThanosRulerClusterRoleBinding f),
     addresses KServiceAccount (ThanosRulerServiceAccount f),
     (\<Union>url ca grpc. addresses KThanosRuler (ThanosRulerCustomResource f url ca grpc)),
     addresses KServiceMonitor (ThanosRulerServiceMonitor f)}"

definition thanos_ruler_left_behind :: "'w Factory \<Rightarrow> address set" where
  "thanos_ruler_left_behind f = cluster_addresses KClusterRoleBinding (ThanosRulerMonitoringClusterRoleBinding f)"

definition telemeter_objects :: "'w Factory \<Rightarrow> address set" where
  "telemeter_objects f = \<Union>{
     (\<Union>ca. addresses KDeployment (TelemeterClientDeployment f ca)),
     addresses KService (TelemeterClientService f),
     cluster_addresses KClusterRoleBinding (TelemeterClientClusterRoleBinding f),
     cluster_addresses KClusterRole (TelemeterClientClusterRole f),
     addresses KServiceAccount (TelemeterClientServiceAccount f),
     addresses KServiceMonitor (TelemeterClientServiceMonitor f)}"

definition telemeter_left_behind :: "'w Factory \<Rightarrow> address set" where
  "telemeter_left_behind f = cluster_addresses KClusterRoleBinding (TelemeterClientClusterRoleBindingView f)
     \<union> {(KPrometheusRule, fac_namespace f, ''telemetry'')}"

text \<open>
  Of Prometheus: what is kept in any case, the service monitors that are brought to their state last, and
  the ones that other operators own now and that are removed.
\<close>

definition prometheus_objects :: "'w Factory \<Rightarrow> address set" where
  "prometheus_objects f = \<Union>{
     addresses KRoute (PrometheusK8sRoute f),
     addresses KServiceAccount (PrometheusK8sServiceAccount f),
     cluster_addresses KClusterRole (PrometheusK8sClusterRole f),
     cluster_addresses KClusterRoleBinding (PrometheusK8sClusterRoleBinding f),
     addresses KRole (PrometheusK8sRoleConfig f),
     list_addresses KRole (PrometheusK8sRoleList f),
     list_addresses KRoleBinding (PrometheusK8sRoleBindingList f),
     addresses KRoleBinding (PrometheusK8sRoleBindingConfig f),
     addresses KPrometheusRule (PrometheusK8sRules f),
     addresses KService (PrometheusK8sService f),
     addresses KService (PrometheusK8sServiceThanosSidecar f),
     (\<Union>host grpc ca. addresses KPrometheus (PrometheusK8s f host grpc ca))}"

definition prometheus_monitors :: "'w Factory \<Rightarrow> bool \<Rightarrow> address set" where
  "prometheus_monitors f etcd = (if etcd then addresses KServiceMonitor (PrometheusK8sEtcdServiceMonitor f) else {})
     \<union> addresses KServiceMonitor (PrometheusK8sPrometheusServiceMonitor f)
     \<union> addresses KServiceMonitor (PrometheusK8sThanosSidecarServiceMonitor f)"

definition retired_monitors :: "'w Client \<Rightarrow> address set" where
  "retired_monitors c = (\<lambda>name. (KServiceMonitor, namespace c, name)) ` {''cluster-version-operator'',
     ''kube-apiserver'', ''kube-controller-manager'', ''kube-scheduler'', ''openshift-apiserver''}"

definition prometheus_removes :: "'w Client \<Rightarrow> 'w Factory \<Rightarrow> bool \<Rightarrow> address set" where
  "prometheus_removes c f etcd =
     (if etcd then {} else addresses KServiceMonitor (PrometheusK8sEtcdServiceMonitor f)) \<union> retired_monitors c"

context reconciler begin

lemma prometheus_operator_effect: "effect I {} (prometheus_operator_objects f) (PrometheusOperatorTask_Run c f)"
  unfolding PrometheusOperatorTask_Run_def prometheus_operator_objects_def
  by (rule create_steps | (rule workload_add_step, rule from_files, rule located, assumption) | rule read_steps)+

lemma node_exporter_effect: "effect I {} (node_exporter_objects f) (NodeExporterTask_Run c f)"
  unfolding NodeExporterTask_Run_def node_exporter_objects_def
  by (rule create_steps | (rule workload_add_step, rule from_files, rule located, assumption) | rule read_steps)+

lemma kube_state_metrics_effect: "effect I {} (kube_state_metrics_objects f) (KubeStateMetricsTask_Run c f)"
  unfolding KubeStateMetricsTask_Run_def kube_state_metrics_objects_def
  by (rule create_steps | (rule workload_add_step, rule from_files, rule located, assumption) | rule read_steps)+

lemma openshift_state_metrics_effect: "effect I {} (openshift_state_metrics_objects f) (OpenShiftStateMetricsTask_Run c f)"
  unfolding OpenShiftStateMetricsTask_Run_def openshift_state_metrics_objects_def
  by (rule create_steps | (rule workload_add_step, rule from_files, rule located, assumption) | rule read_steps)+

lemma user_workload_operator_effect: "effect I {} (user_workload_operator_objects f) (PrometheusOperatorUserWorkloadTask_create c f)"
  unfolding PrometheusOperatorUserWorkloadTask_create_def user_workload_operator_objects_def
  by (rule create_steps | (rule workload_add_step, rule from_files, rule located, assumption) | rule read_steps)+

lemma user_workload_operator_removed:
  "effect I (user_workload_operator_objects f) {} (PrometheusOperatorUserWorkloadTask_destroy c f)"
proof -
  have "effect I (\<Union>{
     (\<Union>namespaces. addresses KDeployment (PrometheusOperatorUserWorkloadDeployment f namespaces)),
     addresses KServiceMonitor (PrometheusOperatorUserWorkloadServiceMonitor f),
     addresses KService (PrometheusOperatorUserWorkloadService f),
     cluster_addresses KClusterRoleBinding (PrometheusOperatorUserWorkloadClusterRoleBinding f),
     cluster_addresses KClusterRole (PrometheusOperatorUserWorkloadClusterRole f),
     addresses KServiceAccount (PrometheusOperatorUserWorkloadServiceAccount f)}) {}
    (PrometheusOperatorUserWorkloadTask_destroy c f)"
    unfolding PrometheusOperatorUserWorkloadTask_destroy_def
    by (rule remove_steps | (rule workload_remove_step, rule from_files, rule located, assumption))+
  then show ?thesis by (rule effect_cong) (auto simp: user_workload_operator_objects_def)
qed

end

section \<open>Tasks that keep hashed copies\<close>

locale hashed_reconciler = reconciler I c f
  for I :: "'w inventory" and c :: "'w Client" and f :: "'w Factory" +
  assumes no_secret: "(KSecret, ns, n) \<notin> own I"
    and no_configmap: "(KConfigMap, ns, n) \<notin> own I"
begin

lemma uncounted:
  "idle I (CreateIfNotExistSecret c s)" "idle I (CreateOrUpdateSecret c s)" "idle I (DeleteSecret c s)"
  "idle I (CreateIfNotExistConfigMap c cm)" "idle I (CreateOrUpdateConfigMap c cm)" "idle I (DeleteConfigMap c cm)"
  "idle I (CreateOrUpdateConfigMapList c cml)"
  "idle I (DeleteHashedSecret c ns prefix hash)" "idle I (DeleteHashedConfigMap c ns prefix hash)"
  by ((rule hashed_deletion_effects; simp add: no_secret no_configmap)
    | (rule idle_foreign, rule client_effects, auto simp: no_secret no_configmap))+

lemma uncounted_bundle: "idle I (syncTrustedCABundle prefix c f trustedCA)"
proof -
  have "idle (inner I) (bundle_condition c cm)" for cm
    unfolding bundle_condition_def
    by (intro effect_catch idle_world_call client_effects) (auto split: sum.split)
  then have "idle (inner I) (PollImmediate 5 300 (world_tick (next_tick c)) (bundle_condition c cm))" for cm
    unfolding PollImmediate_def by (intro effect_after) (auto intro: idle_Poll calm_inner tick)
  then have "idle I (wait_for_bundle c cm)" for cm
    unfolding idle_iff wait_for_bundle_def by (fastforce split: prod.splits res.splits)
  then show ?thesis
    unfolding syncTrustedCABundle_def by (intro read_step uncounted idle_return)
qed

lemma uncounted_old_secrets: "idle I (deleteOldPrometheusAdapterSecrets c ns hash)"
  unfolding deleteOldPrometheusAdapterSecrets_def
  by (intro effect_attempt_after idle_for effect_wrap secrets.list_idle
      idle_foreign [OF secrets.delete_removes]) (simp_all add: no_secret)

text \<open>A task that consists of phases is one sequence of steps.\<close>

lemma attempt_bind: "p_bind (attempt msg m h) k = attempt msg m (\<lambda>x. p_bind (h x) k)"
  by (simp add: attempt_def p_bind_assoc)

lemma let_bind: "p_bind (let x = e in h x) k = (let x = e in p_bind (h x) k)"
  by (simp add: Let_def)

lemmas flatten = attempt_bind let_bind p_bind_assoc p_bind_return_Ok

lemma quiet_last: "idle I m \<Longrightarrow> effect I {} (\<Union>{}) (p_wrap msg m)" "idle I m \<Longrightarrow> effect I (\<Union>{}) {} (p_wrap msg m)"
  by (simp_all add: effect_wrap)

lemmas hashed_create_steps = create_steps uncounted uncounted_bundle uncounted_old_secrets quiet_last(1)

lemmas hashed_remove_steps = remove_steps uncounted uncounted_bundle uncounted_old_secrets quiet_last(2)

lemma grafana_effect: "effect I {} (grafana_objects f) (GrafanaTask_Run c f)"
  unfolding GrafanaTask_Run_def grafana_objects_def
  by (rule hashed_create_steps | (rule workload_add_step, rule from_files, rule located, assumption) | rule read_steps)+

lemma alertmanager_effect: "effect I {} (alertmanager_objects f) (AlertmanagerTask_Run c f)"
  unfolding AlertmanagerTask_Run_def alertmanager_objects_def
  by (rule hashed_create_steps | (rule workload_add_step, rule from_files, rule located, assumption) | rule read_steps)+

lemma thanos_querier_effect: "effect I {} (thanos_querier_objects f) (ThanosQuerierTask_Run c f cfg)"
  unfolding ThanosQuerierTask_Run_def ThanosQuerierTask_access_def ThanosQuerierTask_workload_def
    thanos_querier_objects_def
    flatten
  by (rule hashed_create_steps | (rule workload_add_step, rule from_files, rule located, assumption) | rule read_steps)+

lemma adapter_effect: "effect I {} (adapter_objects f) (PrometheusAdapterTask_Run ns c f)"
  unfolding PrometheusAdapterTask_Run_def PrometheusAdapterTask_access_def
    PrometheusAdapterTask_workload_def adapter_objects_def
    flatten
  by (rule hashed_create_steps | (rule workload_add_step, rule from_files, rule located, assumption) | rule read_steps)+

lemma user_workload_prometheus_effect: "effect I {} (user_workload_prometheus_objects f) (PrometheusUserWorkloadTask_create c f)"
  unfolding PrometheusUserWorkloadTask_create_def PrometheusUserWorkloadTask_create_access_def
    PrometheusUserWorkloadTask_create_workload_def user_workload_prometheus_objects_def
    flatten
  by (rule hashed_create_steps | (rule workload_add_step, rule from_files, rule located, assumption) | rule read_steps)+

lemma thanos_ruler_effect:
  "effect I {} (thanos_ruler_objects f \<union> thanos_ruler_left_behind f) (ThanosRulerUserWorkloadTask_create c f)"
proof -
  have "effect I {} (\<Union>{
     addresses KService (ThanosRulerService f),
     addresses KRoute (ThanosRulerRoute f),
     cluster_addresses KClusterRole (ThanosRulerClusterRole f),
     cluster_addresses KClusterRoleBinding (ThanosRulerClusterRoleBinding f),
     cluster_addresses KClusterRoleBinding (ThanosRulerMonitoringClusterRoleBinding f),
     addresses KServiceAccount (ThanosRulerServiceAccount f),
     (\<Union>url ca grpc. addresses KThanosRuler (ThanosRulerCustomResource f url ca grpc)),
     addresses KServiceMonitor (ThanosRulerServiceMonitor f),
     addresses KPrometheusRule (ThanosRulerPrometheusRule f)}) (ThanosRulerUserWorkloadTask_create c f)"
    unfolding ThanosRulerUserWorkloadTask_create_def
      ThanosRulerUserWorkloadTask_create_access_def
      ThanosRulerUserWorkloadTask_create_workload_def
      flatten
    by (rule hashed_create_steps | (rule workload_add_step, rule from_files, rule located, assumption) | rule read_steps)+
  then show ?thesis
    by (rule effect_cong) (auto simp: thanos_ruler_objects_def thanos_ruler_left_behind_def)
qed

lemma user_workload_prometheus_removed:
  "effect I (user_workload_prometheus_objects f) {} (PrometheusUserWorkloadTask_destroy c f)"
proof -
  have "effect I (\<Union>{
     addresses KServiceMonitor (PrometheusUserWorkloadThanosSidecarServiceMonitor f),
     addresses KServiceMonitor (PrometheusUserWorkloadPrometheusServiceMonitor f),
     (\<Union>grpc. addresses KPrometheus (PrometheusUserWorkload f grpc)),
     addresses KService (PrometheusUserWorkloadService f),
     addresses KService (PrometheusUserWorkloadServiceThanosSidecar f),
     addresses KRoleBinding (PrometheusUserWorkloadRoleBindingConfig f),
     list_addresses KRoleBinding (PrometheusUserWorkloadRoleBindingList f),
     list_addresses KRole (PrometheusUserWorkloadRoleList f),
     addresses KRole (PrometheusUserWorkloadRoleConfig f),
     cluster_addresses KClusterRoleBinding (PrometheusUserWorkloadClusterRoleBinding f),
     cluster_addresses KClusterRole (PrometheusUserWorkloadClusterRole f),
     addresses KServiceAccount (PrometheusUserWorkloadServiceAccount f)}) {}
    (PrometheusUserWorkloadTask_destroy c f)"
    unfolding PrometheusUserWorkloadTask_destroy_def PrometheusUserWorkloadTask_destroy_workload_def
      PrometheusUserWorkloadTask_destroy_access_def
      flatten
    by (rule hashed_remove_steps | (rule workload_remove_step, rule from_files, rule located, assumption) | rule read_steps)+
  then show ?thesis by (rule effect_cong) (auto simp: user_workload_prometheus_objects_def)
qed

lemma thanos_ruler_removed: "effect I (thanos_ruler_objects f) {} (ThanosRulerUserWorkloadTask_destroy c f)"
  unfolding ThanosRulerUserWorkloadTask_destroy_def
    ThanosRulerUserWorkloadTask_destroy_access_def
    ThanosRulerUserWorkloadTask_destroy_workload_def
    thanos_ruler_objects_def flatten
  by (rule hashed_remove_steps | (rule workload_remove_step, rule from_files, rule located, assumption) | rule read_steps)+

lemma telemeter_removed: "effect I (telemeter_objects f) {} (TelemeterClientTask_destroy c f)"
  unfolding TelemeterClientTask_destroy_def
    telemeter_objects_def flatten
  by (rule hashed_remove_steps | (rule workload_remove_step, rule from_files, rule located, assumption) | rule read_steps)+

text \<open>The telemeter client's rule is made without a manifest.\<close>

lemma telemetry_rule_address:
  "NewTelemeterPrometheusRecRuleFromString f expr = Ok rule \<Longrightarrow> Namespace rule = fac_namespace f \<and> Name rule = ''telemetry''"
  by (auto simp: NewTelemeterPrometheusRecRuleFromString_def telemetry_rule_def default_namespace_def ObjectMeta.defs)

lemma telemetry_rule_step:
  assumes "effect I {} (\<Union>S) k"
  shows "effect I {} (\<Union>(insert {(KPrometheusRule, fac_namespace f, ''telemetry'')} S))
    (attempt m1 (p_return (NewTelemeterPrometheusRecRuleFromString f expr))
      (\<lambda>rule. attempt m2 (CreateOrUpdatePrometheusRule c rule) (\<lambda>_. k)))"
proof (rule effect_attempt_after [OF idle_return])
  fix rule assume "rule \<in> yielded (p_return (NewTelemeterPrometheusRecRuleFromString f expr) :: 'w \<Rightarrow> _)"
  then have "Namespace rule = fac_namespace f \<and> Name rule = ''telemetry''"
    by (auto simp: yielded_def dest: telemetry_rule_address)
  with upsert_effects(4) [of rule]
  show "effect I {} (\<Union>(insert {(KPrometheusRule, fac_namespace f, ''telemetry'')} S))
      (attempt m2 (CreateOrUpdatePrometheusRule c rule) (\<lambda>_. k))"
    by (intro then_add assms) simp
qed

lemma telemeter_effect:
  "effect I {} (telemeter_objects f \<union> telemeter_left_behind f) (TelemeterClientTask_create c f cfg)"
proof -
  have "effect I {} (\<Union>{
     addresses KServiceAccount (TelemeterClientServiceAccount f),
     cluster_addresses KClusterRole (TelemeterClientClusterRole f),
     cluster_addresses KClusterRoleBinding (TelemeterClientClusterRoleBinding f),
     cluster_addresses KClusterRoleBinding (TelemeterClientClusterRoleBindingView f),
     addresses KService (TelemeterClientService f),
     (\<Union>ca. addresses KDeployment (TelemeterClientDeployment f ca)),
     {(KPrometheusRule, fac_namespace f, ''telemetry'')},
     addresses KServiceMonitor (TelemeterClientServiceMonitor f)}) (TelemeterClientTask_create c f cfg)"
    unfolding TelemeterClientTask_create_def
    by (rule hashed_create_steps telemetry_rule_step | (rule workload_add_step, rule from_files, rule located, assumption) | rule read_steps)+
  then show ?thesis
    by (rule effect_cong) (auto simp: telemeter_objects_def telemeter_left_behind_def)
qed

text \<open>The cluster roles of the operator.\<close>

lemma monitoring_cluster_role_file: "from_file f (monitoring_cluster_role f name)"
  unfolding monitoring_cluster_role_def by (simp add: from_files)

lemma cluster_role_loop:
  "effect I {} (\<Union>name\<in>set names. cluster_addresses KClusterRole (monitoring_cluster_role f name))
    (p_for names (\<lambda>name. attempt (m1 name) (monitoring_cluster_role f name)
      (\<lambda>cr. p_wrap (m2 name) (CreateOrUpdateClusterRole c cr))))"
proof (rule effect_for_add, rule effect_attempt_after [OF from_file_idle [OF monitoring_cluster_role_file]])
  fix name cr assume "cr \<in> yielded (monitoring_cluster_role f name)"
  from from_file_addresses(2) [OF monitoring_cluster_role_file this]
  show "effect I {} (cluster_addresses KClusterRole (monitoring_cluster_role f name))
      (p_wrap (m2 name) (CreateOrUpdateClusterRole c cr))"
    by (simp add: effect_wrap upsert_effects)
qed

lemma then_add_loop:
  assumes "effect I {} B m" and "effect I {} (\<Union>S) k"
  shows "effect I {} (\<Union>(insert B S)) (p_bind m (\<lambda>_. k))"
  using effect_bind [OF assms] by simp

lemma monitoring_operator_effect:
  "effect I {} (monitoring_operator_objects f) (ClusterMonitoringOperatorTask_Run cr checked issued c f)"
  unfolding ClusterMonitoringOperatorTask_Run_def monitoring_operator_objects_def
  by (rule hashed_create_steps | (rule then_add_loop, rule cluster_role_loop) | rule read_steps)+

lemma sharing_effect: "idle I (ConfigSharingTask_Run c f)"
  unfolding ConfigSharingTask_Run_def
  by (rule hashed_create_steps | rule read_steps)+

text \<open>Prometheus, with and without etcd.\<close>

lemma prometheus_before_monitors:
  assumes "effect I R A (PrometheusTask_monitors c f cfg)"
  shows "effect I R ((prometheus_objects f - R) \<union> A) (PrometheusTask_Run c f cfg)"
proof -
  have etcd: "idle I (if enabled then m else p_return (Ok ()))" if "idle I m" for enabled and m :: "('w, unit) prog"
    using that by simp
  have "effect I {} (prometheus_objects f)
    (p_bind (PrometheusTask_route c f) (\<lambda>host. p_bind (PrometheusTask_secrets c f) (\<lambda>_.
     p_bind (PrometheusTask_access c f) (\<lambda>_. p_bind (PrometheusTask_services c f cfg) (\<lambda>_.
     p_bind (PrometheusTask_grpc c f) (\<lambda>s. PrometheusTask_object c f host s))))))"
    unfolding PrometheusTask_route_def PrometheusTask_secrets_def PrometheusTask_access_def
      PrometheusTask_services_def PrometheusTask_grpc_def PrometheusTask_object_def prometheus_objects_def flatten
    by (rule hashed_create_steps etcd | (rule workload_add_step, rule from_files, rule located, assumption) | rule read_steps)+
  from effect_bind [OF this assms] show ?thesis
    unfolding PrometheusTask_Run_def by (simp add: p_bind_assoc)
qed

lemma retired_loop:
  "effect I (retired_monitors c) {} (p_for [''cluster-version-operator'', ''kube-apiserver'', ''kube-controller-manager'',
     ''kube-scheduler'', ''openshift-apiserver''] (\<lambda>name.
       p_wrap (msg name) (DeleteServiceMonitorByNamespaceAndName c (namespace c) name)))"
  by (rule effect_cong, rule effect_for_remove, rule effect_wrap, rule client_effects)
    (auto simp: retired_monitors_def)

lemma retired_last:
  "effect I (retired_monitors c) {} (p_bind (p_for [''cluster-version-operator'', ''kube-apiserver'',
     ''kube-controller-manager'', ''kube-scheduler'', ''openshift-apiserver''] (\<lambda>name.
       p_wrap (msg name) (DeleteServiceMonitorByNamespaceAndName c (namespace c) name))) (\<lambda>_. p_return r))"
  using effect_bind [OF retired_loop idle_return] by simp

text \<open>The steps before a removal.\<close>

lemma add_before:
  assumes "from_file f m" and "\<And>x. effect I {} {(K, Namespace x, Name x)} (op x)" and "effect I R A k"
  shows "effect I R ((addresses K m - R) \<union> A) (attempt m1 m (\<lambda>x. attempt m2 (op x) (\<lambda>_. k)))"
proof (rule effect_attempt_after [OF from_file_idle [OF assms(1)]])
  fix x assume "x \<in> yielded m"
  from effect_attempt [OF assms(2,3)] from_file_addresses(1) [OF assms(1) this]
  show "effect I R ((addresses K m - R) \<union> A) (attempt m2 (op x) (\<lambda>_. k))" by simp
qed

lemma etcd_switch:
  assumes "from_file f m" and "effect I R A k"
  shows "effect I (if enabled then R else addresses KServiceMonitor m \<union> R)
      (if enabled then (addresses KServiceMonitor m - R) \<union> A else A)
    (attempt m1 m (\<lambda>sm. p_bind (p_return (Ok enabled)) (\<lambda>enabled. p_bind (if enabled then
       attempt m2 (CreateOrUpdateServiceMonitor c sm) (\<lambda>_. p_return (Ok ()))
     else attempt m3 (DeleteServiceMonitor c sm) (\<lambda>_. p_return (Ok ()))) (\<lambda>_. k))))"
proof (rule effect_attempt_after [OF from_file_idle [OF assms(1)]])
  fix sm assume "sm \<in> yielded m"
  from from_file_addresses(1) [OF assms(1) this]
    effect_attempt [OF upsert_effects(7) [of sm] assms(2)] effect_attempt [OF DeleteServiceMonitor_effects(2) [of sm] assms(2)]
  show "effect I (if enabled then R else addresses KServiceMonitor m \<union> R)
      (if enabled then (addresses KServiceMonitor m - R) \<union> A else A)
    (p_bind (p_return (Ok enabled)) (\<lambda>enabled. p_bind (if enabled then
       attempt m2 (CreateOrUpdateServiceMonitor c sm) (\<lambda>_. p_return (Ok ()))
     else attempt m3 (DeleteServiceMonitor c sm) (\<lambda>_. p_return (Ok ()))) (\<lambda>_. k)))"
    by (cases enabled) (simp_all add: flatten)
qed

text \<open>
  With etcd monitoring its service monitor is one of the objects; without, it is removed. The retired
  monitors are removed in any case.
\<close>

lemma prometheus_effect:
  assumes "config_etcd_enabled cfg = Ok enabled"
  shows "effect I (prometheus_removes c f enabled)
    ((prometheus_objects f \<union> addresses KServiceMonitor (PrometheusK8sKubeletServiceMonitor f)) - prometheus_removes c f enabled
      \<union> (prometheus_monitors f enabled - retired_monitors c))
    (PrometheusTask_Run c f cfg)"
proof -
  let ?K = "addresses KServiceMonitor (PrometheusK8sKubeletServiceMonitor f)"
  have "effect I (prometheus_removes c f enabled)
      ((?K - prometheus_removes c f enabled) \<union> (prometheus_monitors f enabled - retired_monitors c))
      (PrometheusTask_monitors c f cfg)"
    unfolding PrometheusTask_monitors_def assms
    by (rule effect_cong, (rule add_before etcd_switch retired_last | rule from_files | rule client_effects)+)
      (auto simp: prometheus_removes_def prometheus_monitors_def)
  from prometheus_before_monitors [OF this] show ?thesis
    by (rule effect_cong) auto
qed

end

end
