(* ===== verification/Tracked_Inventory.thy ===== *)
theory Tracked_Inventory
  imports Inventory Cluster
begin

text \<open>
  The inventory of the cluster that the object trackers keep, and the proof that a client of this cluster
  meets the interface of \<open>Inventory\<close>.
\<close>

section \<open>The inventory of a tracked cluster\<close>

text \<open>Every object is stored under its own namespace and name.\<close>

definition addressed :: "'z ObjectMeta_scheme store \<Rightarrow> bool" where
  "addressed m \<longleftrightarrow> fmpred (\<lambda>(ns, n) x. Namespace x = ns \<and> Name x = n) m"

fun kept_under :: "kind \<Rightarrow> Cluster \<Rightarrow> (string \<times> string) fset" where
  "kept_under KSecret w = fmdom (tracked_Secrets w)"
| "kept_under KConfigMap w = fmdom (tracked_ConfigMaps w)"
| "kept_under KService w = fmdom (tracked_Services w)"
| "kept_under KServiceAccount w = fmdom (tracked_ServiceAccounts w)"
| "kept_under KRole w = fmdom (tracked_Roles w)"
| "kept_under KClusterRole w = fmdom (tracked_ClusterRoles w)"
| "kept_under KRoleBinding w = fmdom (tracked_RoleBindings w)"
| "kept_under KClusterRoleBinding w = fmdom (tracked_ClusterRoleBindings w)"
| "kept_under KValidatingWebhook w = fmdom (tracked_ValidatingWebhookConfigurations w)"
| "kept_under KDeployment w = fmdom (tracked_Deployments w)"
| "kept_under KDaemonSet w = fmdom (tracked_DaemonSets w)"
| "kept_under KSecurityContextConstraints w = fmdom (tracked_SCCs w)"
| "kept_under KRoute w = fmdom (tracked_Routes w)"
| "kept_under KAPIService w = fmdom (tracked_APIServices w)"
| "kept_under KPrometheus w = fmdom (tracked_Prometheuses w)"
| "kept_under KAlertmanager w = fmdom (tracked_Alertmanagers w)"
| "kept_under KThanosRuler w = fmdom (tracked_ThanosRulers w)"
| "kept_under KPrometheusRule w = fmdom (tracked_PrometheusRules w)"
| "kept_under KServiceMonitor w = fmdom (tracked_ServiceMonitors w)"

definition cluster_sound :: "Cluster \<Rightarrow> bool" where
  "cluster_sound w \<longleftrightarrow> addressed (tracked_Secrets w) \<and> addressed (tracked_ConfigMaps w) \<and> addressed (tracked_Services w)
     \<and> addressed (tracked_ServiceAccounts w) \<and> addressed (tracked_Roles w) \<and> addressed (tracked_ClusterRoles w)
     \<and> addressed (tracked_RoleBindings w) \<and> addressed (tracked_ClusterRoleBindings w) \<and> addressed (tracked_ValidatingWebhookConfigurations w)
     \<and> addressed (tracked_Deployments w) \<and> addressed (tracked_DaemonSets w) \<and> addressed (tracked_SCCs w)
     \<and> addressed (tracked_Routes w) \<and> addressed (tracked_APIServices w) \<and> addressed (tracked_Prometheuses w)
     \<and> addressed (tracked_Alertmanagers w) \<and> addressed (tracked_ThanosRulers w) \<and> addressed (tracked_PrometheusRules w)
     \<and> addressed (tracked_ServiceMonitors w)"

definition cluster_inventory :: "address set \<Rightarrow> Cluster inventory" where
  "cluster_inventory ours = \<lparr>sound = cluster_sound, stored = (\<lambda>w. {(k, a). a |\<in>| kept_under k w}), own = ours\<rparr>"

text \<open>One kind of this cluster: its map decides about its objects and about no others.\<close>

definition kind_of_cluster :: "kind \<Rightarrow> (Cluster, 'z ObjectMeta_scheme) kind_store \<Rightarrow> bool" where
  "kind_of_cluster K S \<longleftrightarrow>
     (\<forall>k w. kept_under k (ks_pop S w) = kept_under k w) \<and>
     (\<forall>w. cluster_sound (ks_pop S w) \<longleftrightarrow> cluster_sound w) \<and>
     (\<forall>w. kept_under K w = fmdom (ks_get S w)) \<and>
     (\<forall>k m w. kept_under k (ks_put S m w) = (if k = K then fmdom m else kept_under k w)) \<and>
     (\<forall>w. cluster_sound w \<longrightarrow> addressed (ks_get S w)) \<and>
     (\<forall>m w. cluster_sound w \<longrightarrow> addressed m \<longrightarrow> cluster_sound (ks_put S m w))"

lemma all_kinds:
  "(\<forall>k. P k) \<longleftrightarrow> P KSecret \<and> P KConfigMap \<and> P KService \<and> P KServiceAccount \<and> P KRole \<and> P KClusterRole
     \<and> P KRoleBinding \<and> P KClusterRoleBinding \<and> P KValidatingWebhook \<and> P KDeployment \<and> P KDaemonSet
     \<and> P KSecurityContextConstraints \<and> P KRoute \<and> P KAPIService \<and> P KPrometheus \<and> P KAlertmanager
     \<and> P KThanosRuler \<and> P KPrometheusRule \<and> P KServiceMonitor"
proof (intro iffI allI)
  show "P k" if "P KSecret \<and> P KConfigMap \<and> P KService \<and> P KServiceAccount \<and> P KRole \<and> P KClusterRole
     \<and> P KRoleBinding \<and> P KClusterRoleBinding \<and> P KValidatingWebhook \<and> P KDeployment \<and> P KDaemonSet
     \<and> P KSecurityContextConstraints \<and> P KRoute \<and> P KAPIService \<and> P KPrometheus \<and> P KAlertmanager
     \<and> P KThanosRuler \<and> P KPrometheusRule \<and> P KServiceMonitor" for k using that by (cases k) simp_all
qed simp

lemma kinds_of_cluster:
  "kind_of_cluster KSecret Secrets_tracker"
  "kind_of_cluster KConfigMap ConfigMaps_tracker"
  "kind_of_cluster KService Services_tracker"
  "kind_of_cluster KServiceAccount ServiceAccounts_tracker"
  "kind_of_cluster KRole Roles_tracker"
  "kind_of_cluster KClusterRole ClusterRoles_tracker"
  "kind_of_cluster KRoleBinding RoleBindings_tracker"
  "kind_of_cluster KClusterRoleBinding ClusterRoleBindings_tracker"
  "kind_of_cluster KValidatingWebhook ValidatingWebhookConfigurations_tracker"
  "kind_of_cluster KDeployment Deployments_tracker"
  "kind_of_cluster KDaemonSet DaemonSets_tracker"
  "kind_of_cluster KSecurityContextConstraints SCCs_tracker"
  "kind_of_cluster KRoute Routes_tracker"
  "kind_of_cluster KAPIService APIServices_tracker"
  "kind_of_cluster KPrometheus Prometheuses_tracker"
  "kind_of_cluster KAlertmanager Alertmanagers_tracker"
  "kind_of_cluster KThanosRuler ThanosRulers_tracker"
  "kind_of_cluster KPrometheusRule PrometheusRules_tracker"
  "kind_of_cluster KServiceMonitor ServiceMonitors_tracker"
  by (simp_all add: kind_of_cluster_def cluster_sound_def all_kinds tracker_defs)

lemma inventory_of_cluster [simp]:
  "sound (cluster_inventory ours) = cluster_sound"
  "(k, a) \<in> stored (cluster_inventory ours) w \<longleftrightarrow> a |\<in>| kept_under k w"
  "own (cluster_inventory ours) = ours"
  by (simp_all add: cluster_inventory_def)

lemma seen_in_cluster: "(k, a) \<in> seen (cluster_inventory ours) w \<longleftrightarrow> a |\<in>| kept_under k w \<and> (k, a) \<in> ours"
  by (simp add: seen_def)

lemma same_inventory:
  "(\<And>k. kept_under k w' = kept_under k w) \<Longrightarrow> seen (cluster_inventory ours) w' = seen (cluster_inventory ours) w"
  by (auto simp: seen_def cluster_inventory_def)

section \<open>The tracker of a kind meets the interface\<close>

lemma kind_of_clusterD:
  assumes "kind_of_cluster K S"
  shows "kept_under k (ks_pop S w) = kept_under k w" and "cluster_sound (ks_pop S w) \<longleftrightarrow> cluster_sound w"
    and "kept_under K w = fmdom (ks_get S w)" and "fmdom (ks_get S (ks_pop S w)) = fmdom (ks_get S w)"
    and "kept_under k (ks_put S m w) = (if k = K then fmdom m else kept_under k w)"
    and "cluster_sound w \<Longrightarrow> addressed (ks_get S w)"
    and "cluster_sound w \<Longrightarrow> addressed m \<Longrightarrow> cluster_sound (ks_put S m w)"
  using assms unfolding kind_of_cluster_def by metis+

text \<open>What a reaction does to the inventory, by what the call does after the fault was taken.\<close>

lemma react_effect:
  assumes S: "kind_of_cluster K S" and m: "effect (cluster_inventory ours) R A m"
  shows "effect (cluster_inventory ours) R A (react S m)"
proof (rule effectI)
  let ?I = "cluster_inventory ours"
  fix w assume "sound ?I w"
  with S have s: "sound ?I (ks_pop S w)" and e: "seen ?I (ks_pop S w) = seen ?I w"
    by (auto simp: kind_of_cluster_def intro!: same_inventory)
  have "outcome ?I R A w (m (ks_pop S w))"
    using effectD [OF m s] outcome_cong [OF e] by blast
  moreover have "outcome ?I R A w (Err x, ks_pop S w)" for x
    using s e by simp
  ultimately show "outcome ?I R A w (react S m w)"
    by (auto simp: react_def split: list.split option.split)
qed

lemma tracker_Get_idle: "idle (cluster_inventory ours) (tracker_Get S ns n)"
  by (rule effectI) (auto simp: tracker_Get_def outcome_idle split: option.split)

lemma tracker_List_idle: "idle (cluster_inventory ours) (tracker_List S ns sel)"
  by (rule effectI) (simp add: tracker_List_def outcome_idle)

lemma addressed_upd:
  "addressed m \<Longrightarrow> Namespace x = ns \<Longrightarrow> Name x = n \<Longrightarrow> addressed (fmupd (ns, n) x m)"
  by (auto simp: addressed_def fmpred_iff split: if_splits)

lemma addressed_drop: "addressed m \<Longrightarrow> addressed (fmdrop a m)"
  by (auto simp: addressed_def fmpred_iff split: if_splits)

lemma tracker_add_effect:
  assumes S: "kind_of_cluster K S"
  shows "effect (cluster_inventory ours) {} {(K, ns, Name x)} (tracker_add S b ns x)"
proof (rule effectI)
  let ?I = "cluster_inventory ours"
  fix w assume s: "sound ?I w"
  note kept = kind_of_clusterD(3,5) [OF S]
  have stored: "outcome ?I {} {(K, ns, Name x)} w (Ok y, ks_put S (fmupd (ns, Name x) y (ks_get S w)) w)"
    if "Namespace y = ns" "Name y = Name x" for y
    using s kind_of_clusterD(6,7) [OF S] that
    by (auto simp: kept addressed_upd seen_in_cluster split: if_splits)
  show "outcome ?I {} {(K, ns, Name x)} w (tracker_add S b ns x w)"
    using s stored by (auto simp: tracker_add_def Let_def)
qed

lemma tracker_Delete_effect:
  assumes S: "kind_of_cluster K S"
  shows "effect (cluster_inventory ours) {(K, ns, n)} {} (tracker_Delete S ns n)"
proof (rule effectI)
  let ?I = "cluster_inventory ours"
  fix w assume s: "sound ?I w"
  note kept = kind_of_clusterD(3,5) [OF S]
  have "outcome ?I {(K, ns, n)} {} w (Ok (), ks_put S (fmdrop (ns, n) (ks_get S w)) w)"
    using s kind_of_clusterD(6,7) [OF S] by (auto simp: kept addressed_drop seen_in_cluster split: if_splits)
  then show "outcome ?I {(K, ns, n)} {} w (tracker_Delete S ns n w)"
    using s by (auto simp: tracker_Delete_def)
qed

lemma tracked_kind_cluster:
  assumes S: "kind_of_cluster K S"
  shows "tracked_kind (cluster_inventory ours) K (tracker_resource S)"
proof
  let ?I = "cluster_inventory ours" and ?R = "tracker_resource S"
  note resource = tracker_resource_def
  show "idle ?I (r_Get ?R ns n)" for ns n
    by (simp add: resource react_effect [OF S] tracker_Get_idle)
  show "idle ?I (r_List ?R ns sel)" for ns sel
    by (simp add: resource react_effect [OF S] tracker_List_idle)
  show "effect ?I {} {(K, ns, Name x)} (r_Create ?R ns x)" "effect ?I {} {(K, ns, Name x)} (r_Update ?R ns x)" for ns x
    by (simp_all add: resource react_effect [OF S] tracker_add_effect [OF S])
  show "effect ?I {(K, ns, n)} {} (r_Delete ?R ns n opts)" for ns n opts
    by (simp add: resource react_effect [OF S] tracker_Delete_effect [OF S])
  show "(K, ns, n) \<in> stored ?I w'" if "r_Get ?R ns n w = (Ok x, w')" for ns n w x w'
    using that S by (auto simp: resource tracker_Get_def kind_of_cluster_def dest!: react_Ok
        intro: fmdomI split: option.splits)
  show "Name x = n \<and> Namespace x = ns" if "sound ?I w" "r_Get ?R ns n w = (Ok x, w')" for ns n w x w'
  proof -
    from that(1) S have "addressed (ks_get S (ks_pop S w))" by (simp add: kind_of_cluster_def)
    with react_Ok [of S "tracker_Get S ns n" w x w'] that(2) show ?thesis
      by (auto simp: resource tracker_Get_def addressed_def fmpred_iff split: option.splits)
  qed
  show "seen ?I w' = seen ?I w \<and> (K, ns, n) \<notin> seen ?I w"
    if "sound ?I w" "r_Delete ?R ns n opts w = (Err e, w')" "IsNotFound e" for ns n opts w e w'
  proof -
    note p = kind_of_clusterD(1,3,4) [OF S]
    from that(2,3) have "tracker_Delete S ns n (ks_pop S w) = (Err e, w')"
      by (auto simp: resource dest!: react_cases)
    then show ?thesis
      by (auto simp: tracker_Delete_def p seen_def intro!: same_inventory split: if_splits)
  qed
qed

text \<open>The kinds that the inventory does not count.\<close>

definition uncounted_kind :: "(Cluster, 'z ObjectMeta_scheme) kind_store \<Rightarrow> bool" where
  "uncounted_kind S \<longleftrightarrow>
     (\<forall>k w. kept_under k (ks_pop S w) = kept_under k w) \<and> (\<forall>w. cluster_sound (ks_pop S w) \<longleftrightarrow> cluster_sound w) \<and>
     (\<forall>k m w. kept_under k (ks_put S m w) = kept_under k w) \<and> (\<forall>m w. cluster_sound (ks_put S m w) \<longleftrightarrow> cluster_sound w)"

lemma uncounted_kinds:
  "uncounted_kind Pods_tracker" "uncounted_kind Namespaces_tracker" "uncounted_kind ClusterVersions_tracker"
  "uncounted_kind Proxies_tracker" "uncounted_kind Infrastructures_tracker" "uncounted_kind ClusterOperators_tracker"
  by (simp_all add: uncounted_kind_def cluster_sound_def all_kinds tracker_defs)

lemma uncounted_idle:
  assumes "uncounted_kind S"
  shows "idle (cluster_inventory ours) (r_Get (tracker_resource S) ns n)"
    and "idle (cluster_inventory ours) (r_List (tracker_resource S) ns sel)"
    and "idle (cluster_inventory ours) (r_Create (tracker_resource S) ns x)"
    and "idle (cluster_inventory ours) (r_UpdateStatus (tracker_resource S) ns x)"
proof -
  have kept: "kept_under k (ks_pop S w) = kept_under k w" "kept_under k (ks_put S m w) = kept_under k w" for k m w
    using assms by (simp_all add: uncounted_kind_def)
  have sound: "cluster_sound (ks_pop S w) = cluster_sound w" "cluster_sound (ks_put S m w) = cluster_sound w" for m w
    using assms by (simp_all add: uncounted_kind_def)
  show "idle (cluster_inventory ours) (r_Get (tracker_resource S) ns n)"
    "idle (cluster_inventory ours) (r_List (tracker_resource S) ns sel)"
    "idle (cluster_inventory ours) (r_Create (tracker_resource S) ns x)"
    "idle (cluster_inventory ours) (r_UpdateStatus (tracker_resource S) ns x)"
    by (auto simp: idle_iff tracker_resource_def tracker_Get_def tracker_List_def tracker_add_def Let_def sound kept
        intro!: same_inventory dest!: react_cases split: option.splits if_splits)
qed

section \<open>The client of the tracked cluster\<close>

interpretation quiet: client_inventory "cluster_inventory ours" quiet_client for ours
proof (intro client_inventory.intro client_inventory_axioms.intro)
  let ?I = "cluster_inventory ours"
  show "calm ?I (next_tick quiet_client)" by (simp add: calm_def)
  show "idle ?I (PrometheusStatus quiet_client p)" "idle ?I (AlertmanagerStatus quiet_client a)"
    "idle ?I (ThanosRulerStatus quiet_client t)" for p a t
    by (simp_all add: quiet_client_def fake_client_def)
  show "idle ?I (r_List (Pods quiet_client) ns sel)" "idle ?I (r_List (Namespaces quiet_client) ns sel)" for ns sel
    by (simp_all add: uncounted_idle uncounted_kinds)
qed (simp_all add: tracked_kind_cluster kinds_of_cluster)

end
