(* ===== verification/Reconciliation.thy ===== *)
theory Reconciliation
  imports Task_Effects
begin

text \<open>
  What a reconciliation does to the inventory of the cluster: the plan of every task under a
  configuration, the plans of all tasks together, whatever the order in which they complete, and
  \<open>sync\<close>, which computes the configuration and runs them.
\<close>

section \<open>The plan of a task\<close>

text \<open>A plan is what a task removes and what it adds.\<close>

type_synonym plan = "address set \<times> address set"

text \<open>A component that is switched on or off; \<open>extra\<close> is added with it and stays when it is removed.\<close>

definition switched :: "bool res \<Rightarrow> address set \<Rightarrow> address set \<Rightarrow> plan" where
  "switched enabled objects extra = (case enabled of
      Ok True \<Rightarrow> ({}, objects \<union> extra)
    | Ok False \<Rightarrow> (objects, {})
    | _ \<Rightarrow> ({}, {}))"

definition telemeter_enabled :: "Config \<Rightarrow> bool res" where
  "telemeter_enabled cfg = r_bind (deref (cfg_ClusterMonitoringConfiguration cfg)) (\<lambda>m.
     Ok (TelemeterClientConfig_IsEnabled (cmc_TelemeterClientConfig m) \<and> \<not> cfg_RemoteWrite cfg))"

definition prometheus_plan :: "'w Client \<Rightarrow> 'w Factory \<Rightarrow> bool res \<Rightarrow> plan" where
  "prometheus_plan c f etcd = (case etcd of
      Ok enabled \<Rightarrow> (prometheus_removes c f enabled,
        (prometheus_objects f \<union> addresses KServiceMonitor (PrometheusK8sKubeletServiceMonitor f)
           - prometheus_removes c f enabled) \<union> (prometheus_monitors f enabled - retired_monitors c))
    | _ \<Rightarrow> ({}, {}))"

definition task_plan :: "'w Client \<Rightarrow> 'w Factory \<Rightarrow> Config \<Rightarrow> string \<Rightarrow> plan" where
  "task_plan c f cfg name = (
     if name = ''Updating Prometheus Operator'' then ({}, prometheus_operator_objects f)
     else if name = ''Updating user workload Prometheus Operator''
       then switched (IsUserWorkloadEnabled cfg) (user_workload_operator_objects f) {}
     else if name = ''Updating Cluster Monitoring Operator'' then ({}, monitoring_operator_objects f)
     else if name = ''Updating Grafana'' then ({}, grafana_objects f)
     else if name = ''Updating Prometheus-k8s'' then prometheus_plan c f (config_etcd_enabled cfg)
     else if name = ''Updating Prometheus-user-workload''
       then switched (IsUserWorkloadEnabled cfg) (user_workload_prometheus_objects f) {}
     else if name = ''Updating Alertmanager'' then ({}, alertmanager_objects f)
     else if name = ''Updating node-exporter'' then ({}, node_exporter_objects f)
     else if name = ''Updating kube-state-metrics'' then ({}, kube_state_metrics_objects f)
     else if name = ''Updating openshift-state-metrics'' then ({}, openshift_state_metrics_objects f)
     else if name = ''Updating prometheus-adapter'' then ({}, adapter_objects f)
     else if name = ''Updating Telemeter client''
       then switched (telemeter_enabled cfg) (telemeter_objects f) (telemeter_left_behind f)
     else if name = ''Updating configuration sharing'' then ({}, {})
     else if name = ''Updating Thanos Querier'' then ({}, thanos_querier_objects f)
     else switched (IsUserWorkloadEnabled cfg) (thanos_ruler_objects f) (thanos_ruler_left_behind f))"

text \<open>The plans of all tasks together.\<close>

definition removals :: "'w Client \<Rightarrow> 'w Factory \<Rightarrow> Config \<Rightarrow> address set" where
  "removals c f cfg = (\<Union>name\<in>set task_names. fst (task_plan c f cfg name))"

definition additions :: "'w Client \<Rightarrow> 'w Factory \<Rightarrow> Config \<Rightarrow> address set" where
  "additions c f cfg = (\<Union>name\<in>set task_names. snd (task_plan c f cfg name))"

text \<open>A complete configuration says which components are switched on.\<close>

lemma complete_switches:
  assumes "complete cfg"
  shows "\<exists>b. IsUserWorkloadEnabled cfg = Ok b" and "\<exists>b. telemeter_enabled cfg = Ok b"
    and "\<exists>b. config_etcd_enabled cfg = Ok b"
  using assms
  by (auto simp: complete_def IsUserWorkloadEnabled_def telemeter_enabled_def config_etcd_enabled_def
      UserWorkloadConfig_isEnabled_def split: option.splits elim!: complete_cmcE)

context hashed_reconciler begin

lemma switched_effect:
  assumes "\<exists>b. enabled = Ok b" and "effect I {} (A \<union> B) create" and "effect I A {} destroy"
  shows "effect I (fst (switched enabled A B)) (snd (switched enabled A B))
    (p_bind (p_return enabled) (\<lambda>enabled. if enabled then create else destroy))"
  using assms by (cases enabled) (auto simp: switched_def)

lemma telemeter_run:
  "TelemeterClientTask_Run c f cfg = p_bind (p_return (telemeter_enabled cfg)) (\<lambda>enabled.
     if enabled then TelemeterClientTask_create c f cfg else TelemeterClientTask_destroy c f)"
  by (rule ext) (auto simp: TelemeterClientTask_Run_def telemeter_enabled_def Let_def p_bind_def
      deref_def split: option.split)

lemma task_effect:
  assumes "complete cfg"
  shows "effect I (fst (task_plan c f cfg name)) (snd (task_plan c f cfg name))
    (task_of cr checked issued ns c f cfg name)"
proof -
  obtain etcd where etcd: "config_etcd_enabled cfg = Ok etcd" using complete_switches(3) [OF assms] by blast
  note switches = complete_switches(1,2) [OF assms]
  have user: "effect I (fst (switched (IsUserWorkloadEnabled cfg) (user_workload_operator_objects f) {}))
      (snd (switched (IsUserWorkloadEnabled cfg) (user_workload_operator_objects f) {}))
      (PrometheusOperatorUserWorkloadTask_Run c f cfg)"
    unfolding PrometheusOperatorUserWorkloadTask_Run_def
    by (rule switched_effect) (use switches user_workload_operator_effect user_workload_operator_removed in auto)
  have user': "effect I (fst (switched (IsUserWorkloadEnabled cfg) (user_workload_prometheus_objects f) {}))
      (snd (switched (IsUserWorkloadEnabled cfg) (user_workload_prometheus_objects f) {}))
      (PrometheusUserWorkloadTask_Run c f cfg)"
    unfolding PrometheusUserWorkloadTask_Run_def
    by (rule switched_effect) (use switches user_workload_prometheus_effect user_workload_prometheus_removed in auto)
  have ruler: "effect I (fst (switched (IsUserWorkloadEnabled cfg) (thanos_ruler_objects f) (thanos_ruler_left_behind f)))
      (snd (switched (IsUserWorkloadEnabled cfg) (thanos_ruler_objects f) (thanos_ruler_left_behind f)))
      (ThanosRulerUserWorkloadTask_Run c f cfg)"
    unfolding ThanosRulerUserWorkloadTask_Run_def
    by (rule switched_effect) (use switches thanos_ruler_effect thanos_ruler_removed in auto)
  have telemeter: "effect I (fst (switched (telemeter_enabled cfg) (telemeter_objects f) (telemeter_left_behind f)))
      (snd (switched (telemeter_enabled cfg) (telemeter_objects f) (telemeter_left_behind f)))
      (TelemeterClientTask_Run c f cfg)"
    unfolding telemeter_run
    by (rule switched_effect) (use switches telemeter_effect telemeter_removed in auto)
  note effects = prometheus_operator_effect node_exporter_effect kube_state_metrics_effect
    openshift_state_metrics_effect grafana_effect alertmanager_effect thanos_querier_effect adapter_effect
    monitoring_operator_effect sharing_effect user user' ruler telemeter prometheus_effect [OF etcd]
  show ?thesis
    unfolding task_plan_def task_of_def prometheus_plan_def etcd
    by (simp add: effects)
qed

end

section \<open>All tasks\<close>

text \<open>
  What is true of the inventory after programs that remove \<open>R\<close> and add \<open>A\<close>, in any order: everything
  outside \<open>R\<close> and \<open>A\<close> is as it was; what is added and not removed is there; what is removed and not
  added is gone.
\<close>

definition reached :: "address set \<Rightarrow> plan \<Rightarrow> address set \<Rightarrow> address set \<Rightarrow> bool" where
  "reached ours plan before after \<longleftrightarrow> (case plan of (R, A) \<Rightarrow>
     before - R \<subseteq> after \<and> after \<subseteq> before \<union> A \<and> (A \<inter> ours) - R \<subseteq> after \<and> after \<inter> (R - A) = {})"

definition untouched :: "plan \<Rightarrow> address set \<Rightarrow> address set \<Rightarrow> bool" where
  "untouched plan before after \<longleftrightarrow> (case plan of (R, A) \<Rightarrow> after - (R \<union> A) = before - (R \<union> A))"

lemma reached_untouched: "reached ours plan S S' \<Longrightarrow> untouched plan S S'"
  by (cases plan) (auto simp: reached_def untouched_def)

lemma reached_then:
  "reached ours (R, A) S S' \<Longrightarrow> reached ours (R', A') S' S'' \<Longrightarrow> reached ours (R \<union> R', A \<union> A') S S''"
  unfolding reached_def by simp blast

lemma untouched_then:
  "untouched (R, A) S S' \<Longrightarrow> untouched (R', A') S' S'' \<Longrightarrow> untouched (R \<union> R', A \<union> A') S S''"
  unfolding untouched_def by simp blast

lemma outcome_reached: "outcome I R A w (Ok x, w') \<Longrightarrow> reached (own I) (R, A) (seen I w) (seen I w')"
  using seen_own [of I w] by (auto simp: reached_def)

lemma outcome_untouched: "outcome I R A w (r, w') \<Longrightarrow> untouched (R, A) (seen I w) (seen I w')"
  by (cases r) (auto simp: untouched_def)

lemma group_wait_first: "group_wait gs (Some e) w = (Ok r, w') \<Longrightarrow> r \<noteq> None"
  by (induction gs arbitrary: w) (auto simp: p_catch_def split: prod.splits res.splits)

lemma group_effects:
  assumes "\<And>t. t \<in> set ts \<Longrightarrow> effect I (R t) (A t) (Task_Run t)"
    and "sound I w" and "group_wait (map goroutine ts) first w = (Ok e, w')"
  shows "sound I w' \<and> untouched (\<Union>t\<in>set ts. R t, \<Union>t\<in>set ts. A t) (seen I w) (seen I w') \<and>
    (e = None \<longrightarrow> reached (own I) (\<Union>t\<in>set ts. R t, \<Union>t\<in>set ts. A t) (seen I w) (seen I w'))"
  using assms
proof (induction ts arbitrary: w first)
  case Nil
  then show ?case by (simp add: untouched_def reached_def)
next
  case (Cons t ts)
  let ?R = "\<Union>t\<in>set ts. R t" and ?A = "\<Union>t\<in>set ts. A t"
  obtain r u where t: "Task_Run t w = (r, u)" by (cases "Task_Run t w")
  have o: "outcome I (R t) (A t) w (r, u)" using effectD [OF Cons.prems(1) Cons.prems(2), of t] t by simp
  then have s: "sound I u" by (cases r) simp_all
  obtain first' where rest: "group_wait (map goroutine ts) first' u = (Ok e, w')"
    and ok: "e = None \<Longrightarrow> \<exists>x. r = Ok x"
  proof (cases r)
    case (Ok x)
    with t have "goroutine t w = (Ok (), u)" by (simp add: goroutine_def ExecuteTask_def p_catch_eqs)
    with Cons.prems(3) Ok that [of first] show ?thesis by (simp add: p_catch_eqs split: option.splits)
  next
    case (Err e')
    with t have "goroutine t w = (Err (task_error (TaskSpec_Name t, e')), u)"
      by (simp add: goroutine_def ExecuteTask_def p_catch_eqs task_error_def)
    with Cons.prems(3) that show ?thesis
      by (cases first) (auto simp: p_catch_eqs dest: group_wait_first)
  next
    case Panic
    with t have "goroutine t w = (Panic, u)" by (simp add: goroutine_def ExecuteTask_def p_catch_eqs)
    with Cons.prems(3) show ?thesis by (simp add: p_catch_eqs)
  qed
  have tail: "sound I w' \<and> untouched (?R, ?A) (seen I u) (seen I w') \<and>
      (e = None \<longrightarrow> reached (own I) (?R, ?A) (seen I u) (seen I w'))"
    by (rule Cons.IH [OF Cons.prems(1) s rest]) simp
  with untouched_then [OF outcome_untouched [OF o], of ?R ?A "seen I w'"]
  have "sound I w' \<and> untouched (R t \<union> ?R, A t \<union> ?A) (seen I w) (seen I w')" by blast
  moreover have "reached (own I) (R t \<union> ?R, A t \<union> ?A) (seen I w) (seen I w')" if n: "e = None"
  proof -
    from ok [OF n] obtain x where "r = Ok x" by blast
    with o have "reached (own I) (R t, A t) (seen I w) (seen I u)" by (simp only: outcome_reached)
    from reached_then [OF this] tail n show ?thesis by blast
  qed
  ultimately show ?case by simp
qed

section \<open>Reconciliation\<close>

text \<open>The plans of all tasks under the configuration that the factory is made from.\<close>

definition sync_plan :: "'w Factory \<Rightarrow> 'w Operator \<Rightarrow> Config \<Rightarrow> plan" where
  "sync_plan env o' cfg = (let f = NewFactory env (op_namespace o') (op_namespaceUserWorkload o') cfg
     in (removals (op_client o') f cfg, additions (op_client o') f cfg))"

text \<open>
  An operator and its inventory. Besides what the tasks need, the cached configuration map, the reads that
  complete the configuration and the reports of the status touch no object of the inventory.
\<close>

locale operator_inventory = hashed_reconciler I "op_client o'" env
  for I :: "'w inventory" and o' :: "'w Operator" and env :: "'w Factory" +
  assumes cached_idle: "idle I (GetByKey o' key)"
    and cluster_version_idle: "idle I (r_Get (ClusterVersions (op_client o')) ns n)"
    and proxy_idle: "idle I (r_Get (Proxies (op_client o')) ns n)"
    and infrastructure_idle: "idle I (r_Get (Infrastructures (op_client o')) ns n)"
    and status_idle: "idle I (r_Get (ClusterOperators (op_client o')) ns n)"
      "idle I (r_Create (ClusterOperators (op_client o')) ns co)"
      "idle I (r_UpdateStatus (ClusterOperators (op_client o')) ns co)"
begin

lemma tasks_of_configuration: "hashed_reconciler I (op_client o') (NewFactory env ns nsUserWorkload cfg)"
proof (intro hashed_reconciler.intro reconciler.intro hashed_reconciler_axioms.intro)
  have "asset (NewFactory env ns nsUserWorkload cfg) name = asset env name"
    "rand_Read (NewFactory env ns nsUserWorkload cfg) = rand_Read env" for name
    by (simp_all add: NewFactory_def asset_def)
  then show "steady_factory I (NewFactory env ns nsUserWorkload cfg)"
    using same_asset asset_idle rand_idle by unfold_locales simp_all
qed (use client_inventory_axioms no_secret no_configmap in auto)

lemma idle_load: "idle I load \<Longrightarrow> idle I (load_with msg load cfg k)"
  unfolding load_with_def by (rule effect_catch) (auto split: sum.split)

lemma configuration_idle: "idle I (operator_Config o' key)"
  unfolding operator_Config_def loadConfig_def user_workload_step_def loadUserWorkloadConfig_def
    telemeter_step_def LoadClusterID_def LoadToken_def LoadProxy_def LoadPlatform_def etcd_step_def
    GetClusterVersion_def GetProxy_def GetInfrastructure_def Let_def
  by (intro effect_after effect_attempt_after cached_idle idle_return effect_catch idle_load client_effects
      cluster_version_idle proxy_idle infrastructure_idle secrets.get_idle; auto split: option.split sum.split)+

lemma report_idle: "idle I (logged (report ord (StatusReporter (op_client o')) now change))"
proof -
  have "idle I (discard (r_UpdateStatus (ClusterOperators (op_client o')) '''' co))" for co
    unfolding discard_def by (intro effect_after status_idle idle_return)
  then have "idle I (report ord (StatusReporter (op_client o')) now change)"
    unfolding report_def Let_def StatusReporter_def NewStatusReporter_def
    by (auto intro!: effect_catch status_idle split: sum.split)
  then show ?thesis unfolding logged_def by (rule effect_catch) simp
qed

lemma reports_idle:
  "idle I (logged (SetDone ord (StatusReporter (op_client o')) now))"
  "idle I (logged (SetInProgress ord (StatusReporter (op_client o')) now))"
  "idle I (logged (SetFailed ord (StatusReporter (op_client o')) now msg reason))"
  by (simp_all add: SetDone_def SetInProgress_def SetFailed_def report_idle)

text \<open>The tasks of this operator work with its own client and with the factory of the configuration.\<close>

lemma runner_effects:
  fixes cr checked issued cfg
  defines "p \<equiv> with_tasks cr checked issued env o'"
  assumes "complete cfg" and "completion_order (sync_runner p cfg) order" and "sound I w"
    and run: "RunAll order (sync_runner p cfg) w = (Ok (name, e), w')"
  shows "sound I w' \<and> untouched (sync_plan env o' cfg) (seen I w) (seen I w') \<and>
    (e = None \<longrightarrow> reached (own I) (sync_plan env o' cfg) (seen I w) (seen I w'))"
proof -
  define f where "f = NewFactory env (op_namespace o') (op_namespaceUserWorkload o') cfg"
  let ?c = "op_client o'"
  let ?ts = "map ((!) (runner_tasks (sync_runner p cfg))) order"
  let ?R = "\<lambda>t. fst (task_plan ?c f cfg (TaskSpec_Name t))" and ?A = "\<lambda>t. snd (task_plan ?c f cfg (TaskSpec_Name t))"
  have tasks: "runner_tasks (sync_runner p cfg) =
      map (\<lambda>n. NewTaskSpec n (task_of cr checked issued (op_namespace o') ?c f cfg n)) task_names"
    by (simp add: sync_runner_def NewTaskRunner_def p_def with_tasks_def f_def)
  have set_ts: "set ?ts = (\<lambda>n. NewTaskSpec n (task_of cr checked issued (op_namespace o') ?c f cfg n)) ` set task_names"
  proof -
    have "set ?ts = set (runner_tasks (sync_runner p cfg))"
      using mset_completion_order [OF assms(3), of "\<lambda>t. t"] by (intro mset_eq_setD) simp
    then show ?thesis by (simp only: tasks set_map)
  qed
  have "effect I (fst (task_plan ?c f cfg n)) (snd (task_plan ?c f cfg n))
      (task_of cr checked issued (op_namespace o') ?c f cfg n)" for n
    unfolding f_def by (rule hashed_reconciler.task_effect [OF tasks_of_configuration assms(2)])
  then have effects: "effect I (?R t) (?A t) (Task_Run t)" if "t \<in> set ?ts" for t
    using that unfolding set_ts by (auto simp: NewTaskSpec_def)
  have unions: "(\<Union>t\<in>set ?ts. ?R t) = removals ?c f cfg" "(\<Union>t\<in>set ?ts. ?A t) = additions ?c f cfg"
    unfolding set_ts removals_def additions_def by (simp_all add: NewTaskSpec_def)
  obtain e' where group: "group_wait (map goroutine ?ts) None w = (Ok e', w')" and none: "e = None \<Longrightarrow> e' = None"
  proof -
    obtain q u where g: "group_wait (map goroutine ?ts) None w = (q, u)" by (cases "group_wait (map goroutine ?ts) None w")
    with run that show ?thesis
      by (cases q) (auto simp: RunAll_def p_bind_def comp_def split: option.splits error.splits)
  qed
  show ?thesis
    using group_effects [where R = ?R and A = ?A, OF effects assms(4) group] none unfolding unions
    by (simp add: sync_plan_def f_def Let_def)
qed

lemma with_tasks_fields:
  "op_client (with_tasks cr checked issued env o') = op_client o'"
  "GetByKey (with_tasks cr checked issued env o') = GetByKey o'"
  "op_namespaceUserWorkload (with_tasks cr checked issued env o') = op_namespaceUserWorkload o'"
  "op_userWorkloadConfigMapName (with_tasks cr checked issued env o') = op_userWorkloadConfigMapName o'"
  "decode_config (with_tasks cr checked issued env o') = decode_config o'"
  "decode_user_config (with_tasks cr checked issued env o') = decode_user_config o'"
  "unmarshal_pull_secret (with_tasks cr checked issued env o') = unmarshal_pull_secret o'"
  by (simp_all add: with_tasks_def)

lemma with_tasks_Config: "operator_Config (with_tasks cr checked issued env o') = operator_Config o'"
  by (rule ext) (unfold operator_Config_def loadConfig_def user_workload_step_def loadUserWorkloadConfig_def
      telemeter_step_def etcd_step_def with_tasks_fields, rule refl)

lemma logged_no_error: "logged m w \<noteq> (Err e, w')"
  by (auto simp: logged_def p_catch_def split: prod.splits res.splits)

lemma group_wait_no_error: "group_wait gs first w \<noteq> (Err e, w')"
  by (induction gs arbitrary: first w) (auto simp: p_catch_def split: prod.splits res.splits)

lemma RunAll_no_error: "RunAll order tr w \<noteq> (Err e, w')"
  by (auto simp: RunAll_def p_bind_def group_wait_no_error split: prod.splits res.splits option.splits error.splits)

text \<open>A reconciliation that reports success has carried out the plans of the configuration that it computed.\<close>

lemma sync_effect:
  fixes cr checked issued
  defines "p \<equiv> with_tasks cr checked issued env o'"
  assumes "distinct order" and "set order = {..<15}" and s: "sound I w"
    and run: "sync p order key w = (r, w')" and r: "r \<noteq> Panic"
  shows "sound I w' \<and> (case operator_Config p key w of (Ok config, _) \<Rightarrow>
      (\<exists>cfg. prepare_config o' config = Ok cfg \<and> untouched (sync_plan env o' cfg) (seen I w) (seen I w') \<and>
         (r = Ok () \<longrightarrow> reached (own I) (sync_plan env o' cfg) (seen I w) (seen I w')))
    | _ \<Rightarrow> seen I w' = seen I w)"
proof -
  have p: "op_client p = op_client o'" "GetByKey p = GetByKey o'" "op_range p = op_range o'" "clock p = clock o'"
    "prepare_config p = prepare_config o'"
    by (simp_all add: p_def with_tasks_def prepare_config_def [abs_def])
  have conf_idle: "idle I (operator_Config p key)"
    using configuration_idle by (simp add: p_def with_tasks_Config)
  obtain q u where conf: "operator_Config p key w = (q, u)" by (cases "operator_Config p key w")
  from idleD [OF conf_idle s conf] have u: "sound I u" "seen I u = seen I w" by auto
  show ?thesis
  proof (cases q)
    case (Err e)
    have "idle I (p_bind (report_failed p e ''InvalidConfiguration'') (\<lambda>_. p_return (Err e)))"
      unfolding report_failed_def p by (intro effect_after reports_idle idle_return)
    from idleD [OF this u(1)] run conf Err u(2) show ?thesis by (auto simp: sync_def p_catch_eqs)
  next
    case Panic
    with run conf r show ?thesis by (simp add: sync_def p_catch_eqs)
  next
    case (Ok config)
    with conf prepare_config_complete [of config p] operator_Config_is_complete [of p key w config u]
    obtain cfg where prep: "prepare_config o' config = Ok cfg" and complete: "complete cfg" unfolding p by blast
    let ?done = "p_bind (logged (SetInProgress (op_range p) (StatusReporter (op_client p)) (clock p))) (\<lambda>_. run_tasks p order cfg)"
    have run': "?done u = (r, w')"
      using run conf Ok prep by (simp add: sync_def p_catch_eqs p)
    obtain t v where report: "logged (SetInProgress (op_range o') (StatusReporter (op_client o')) (clock o')) u = (t, v)"
      by (metis surj_pair)
    from idleD [OF reports_idle(2) u(1) report] have v: "sound I v" "seen I v = seen I w" using u(2) by auto
    from run' report r have tasks: "run_tasks p order cfg v = (r, w')"
      by (cases t) (auto simp: p_bind_def p logged_no_error)
    then obtain name e v2 where all: "RunAll order (sync_runner p cfg) v = (Ok (name, e), v2)"
      using r by (auto simp: run_tasks_def p_bind_def RunAll_no_error split: prod.splits res.splits)
    have "completion_order (sync_runner p cfg) order"
      using assms(2,3) by (simp add: completion_order_def sync_runner_def NewTaskRunner_def task_names_def)
    from runner_effects [OF complete this [unfolded p_def] v(1) all [unfolded p_def]] v(2)
    have v2: "sound I v2" and plans: "untouched (sync_plan env o' cfg) (seen I w) (seen I v2)"
      "e = None \<Longrightarrow> reached (own I) (sync_plan env o' cfg) (seen I w) (seen I v2)" by auto
    have last: "sound I w' \<and> seen I w' = seen I v2 \<and> (r = Ok () \<longrightarrow> e = None)"
    proof (cases e)
      case None
      have "idle I (p_bind (logged (SetDone (op_range o') (StatusReporter (op_client o')) (clock o'))) (\<lambda>_. p_return (Ok ())))"
        by (intro effect_after reports_idle idle_return)
      from idleD [OF this v2, of r w'] tasks all None show ?thesis by (simp add: run_tasks_def p_bind_def p)
    next
      case (Some err)
      have "idle I (p_bind (report_failed p err (failedTaskReason name)) (\<lambda>_. p_return (Err err)))"
        unfolding report_failed_def p by (intro effect_after reports_idle idle_return)
      from idleD [OF this v2, of r w'] tasks all Some show ?thesis
        by (auto simp: run_tasks_def p_bind_def split: prod.splits res.splits)
    qed
    with plans conf Ok prep show ?thesis by auto
  qed
qed

end

end
