(* ===== verification/Cluster_Manifests.thy ===== *)
theory Cluster_Manifests
  imports Reconciliation Tracked_Inventory
begin

text \<open>
  A manifest factory over the tracked cluster, and the proof that it and the cluster's client meet the
  interfaces under which the tasks are verified. Every manifest decodes to an object that is named by the
  file it was read from, with what the methods look at: a subject of a binding, three monitored endpoints,
  the data of a secret.
\<close>

section \<open>Decoded manifests\<close>

definition manifest_meta :: "string \<Rightarrow> ObjectMeta" where
  "manifest_meta n = object_meta '''' n []"

definition manifest_subjects :: "Subject list" where
  "manifest_subjects = [\<lparr>Subject_Kind = ''ServiceAccount'', Subject_Name = ''operand'', Subject_Namespace = ''''\<rparr>]"

definition manifest_endpoints :: "Endpoint list" where
  "manifest_endpoints = map (\<lambda>port. \<lparr>Port = port, TLSConfig_ServerName = Some '''', Endpoint_rest = ''''\<rparr>)
     [''web'', ''metrics'', ''telemetry'']"

definition manifest_container :: Container where
  "manifest_container = \<lparr>Container_Name = ''operand'', Image = '''', Args = [], Command = [], Env = [],
     VolumeMounts = [], Container_Resources = '''', Container_rest = ''''\<rparr>"

definition manifest_pod :: PodSpec where
  "manifest_pod = \<lparr>Containers = [manifest_container], InitContainers = [], Volumes = [], NodeSelector = None,
     Tolerations = [], PodSpec_rest = ''''\<rparr>"

definition manifest_prometheus :: PrometheusSpec where
  "manifest_prometheus = \<lparr>LogLevel = '''', Retention = '''', Prom_Image = None, ExternalURL = '''', Prom_Resources = '''',
     Prom_NodeSelector = None, Prom_Tolerations = [], ExternalLabels = None, Storage = None, RemoteWrite = [],
     Prom_Secrets = [], Thanos_Image = Some None,
     Alerting = Some [\<lparr>AE_Namespace = '''', AE_ServerName = Some '''', AE_rest = ''''\<rparr>],
     Prom_Containers = [], Prom_Volumes = [], Prom_Replicas = Some 2, EnforcedSampleLimit = None,
     PrometheusSpec_rest = ''''\<rparr>"

definition manifest_alertmanager :: AlertmanagerSpec where
  "manifest_alertmanager = \<lparr>AM_Image = None, AM_ExternalURL = '''', AM_Resources = '''', AM_Storage = None,
     AM_NodeSelector = None, AM_Tolerations = [], AM_Containers = [], AM_VolumeMounts = [], AM_Volumes = [],
     AM_Replicas = Some 3, AlertmanagerSpec_rest = ''''\<rparr>"

definition manifest_ruler :: ThanosRulerSpec where
  "manifest_ruler = \<lparr>TR_Image = '''', TR_LogLevel = '''', TR_Resources = '''', TR_Storage = None, TR_NodeSelector = None,
     TR_Tolerations = [], TR_Containers = [], TR_Volumes = [], AlertQueryURL = '''', TR_Replicas = Some 2,
     ThanosRulerSpec_rest = ''''\<rparr>"

definition manifest_datasource :: GrafanaDatasource where
  "manifest_datasource = \<lparr>Access = ''proxy'', BasicAuth = True, BasicAuthPassword = '''', BasicAuthUser = ''internal'',
     Editable = False, JsonData = None, GD_Name = ''prometheus'', OrgId = 1, GD_Type = ''prometheus'',
     Url = ''https://prometheus'', GD_Version = 1\<rparr>"

definition manifest_deployment :: "string \<Rightarrow> Deployment" where
  "manifest_deployment n = (sample_deployment '''' n 0)
     \<lparr>Deployment_Spec := \<lparr>Template_Spec = manifest_pod, DeploymentSpec_rest = ''''\<rparr>\<rparr>"

definition manifest_role :: "string \<Rightarrow> Role" where
  "manifest_role n = ObjectMeta.extend (manifest_meta n) \<lparr>Role_Rules = ''''\<rparr>"

definition manifest_rolebinding :: "string \<Rightarrow> RoleBinding" where
  "manifest_rolebinding n = ObjectMeta.extend (manifest_meta n) \<lparr>RoleRef = '''', Subjects = manifest_subjects\<rparr>"

definition manifest_configmap :: "string \<Rightarrow> ConfigMap" where
  "manifest_configmap n = ObjectMeta.extend (manifest_meta n) \<lparr>CM_Data = gm_of_list [(''ca-bundle.crt'', ''CA'')]\<rparr>"

section \<open>The factory\<close>

definition cluster_factory :: "Cluster Factory" where
  "cluster_factory = \<lparr>
     fac_namespace = ''openshift-monitoring'',
     fac_namespaceUserWorkload = ''openshift-user-workload-monitoring'',
     fac_config = NewDefaultConfig,
     fac_assets = (\<lambda>_. NewAssets ''assets''),
     put_assets = (\<lambda>_ w. w),
     ReadFile = (\<lambda>_ path. Ok path),
     rand_Read = (\<lambda>n. p_return (Ok (replicate n CHR ''x''))),
     yaml_DaemonSet = (\<lambda>n. Inr (ObjectMeta.extend (manifest_meta n)
       \<lparr>DS_Template_Spec = manifest_pod, DS_rest = '''', DaemonSet_Status = \<lparr>DS_ObservedGeneration = 0,
        UpdatedNumberScheduled = 1, DesiredNumberScheduled = 1, NumberUnavailable = 0\<rparr>\<rparr>)),
     yaml_Service = (\<lambda>n. Inr (sample_service '''' n '''')),
     yaml_Route = (\<lambda>n. Inr (ObjectMeta.extend (manifest_meta n) \<lparr>Host = ''example.com'', Route_Path = '''',
       TLS_Termination = None, Ingress = [[\<lparr>RC_Type = ''Admitted'', RC_Status = ''True''\<rparr>]]\<rparr>)),
     yaml_Secret = (\<lambda>n. Inr (sample_secret '''' n [] [(''datasources.yaml'', ''{}'')])),
     yaml_RoleBinding = (\<lambda>n. Inr (manifest_rolebinding n)),
     yaml_RoleList = (\<lambda>n. Inr [manifest_role n]),
     yaml_RoleBindingList = (\<lambda>n. Inr [manifest_rolebinding n]),
     yaml_Role = (\<lambda>n. Inr (manifest_role n)),
     yaml_ConfigMap = (\<lambda>n. Inr (manifest_configmap n)),
     yaml_ConfigMapList = (\<lambda>n. Inr [manifest_configmap n]),
     yaml_ServiceAccount = (\<lambda>n. Inr (ObjectMeta.extend (manifest_meta n) \<lparr>SA_rest = ''''\<rparr>)),
     yaml_Prometheus = (\<lambda>n. Inr (ObjectMeta.extend (manifest_meta n) \<lparr>Prometheus_Spec = manifest_prometheus\<rparr>)),
     yaml_PrometheusRule = (\<lambda>n. Inr (ObjectMeta.extend (manifest_meta n) \<lparr>Groups = []\<rparr>)),
     yaml_Alertmanager = (\<lambda>n. Inr (ObjectMeta.extend (manifest_meta n) \<lparr>Alertmanager_Spec = manifest_alertmanager\<rparr>)),
     yaml_ThanosRuler = (\<lambda>n. Inr (ObjectMeta.extend (manifest_meta n) \<lparr>ThanosRuler_Spec = manifest_ruler\<rparr>)),
     yaml_ServiceMonitor = (\<lambda>n. Inr (ObjectMeta.extend (manifest_meta n)
       \<lparr>Endpoints = manifest_endpoints, ServiceMonitor_rest = ''''\<rparr>)),
     yaml_Deployment = (\<lambda>n. Inr (manifest_deployment n)),
     yaml_APIService = (\<lambda>n. Inr (ObjectMeta.extend (manifest_meta n) \<lparr>CABundle = '''', APIService_rest = ''''\<rparr>)),
     yaml_SecurityContextConstraints = (\<lambda>n. Inr (ObjectMeta.extend (manifest_meta n) \<lparr>SCC_rest = ''''\<rparr>)),
     yaml_ClusterRoleBinding = (\<lambda>n. Inr (ObjectMeta.extend (manifest_meta n)
       \<lparr>CRB_RoleRef = '''', CRB_Subjects = manifest_subjects\<rparr>)),
     yaml_ClusterRole = (\<lambda>n. Inr (sample_clusterrole n)),
     yaml_ValidatingWebhook = (\<lambda>n. Inr (ObjectMeta.extend (manifest_meta n) \<lparr>Webhook_rest = ''''\<rparr>)),
     unmarshal_datasources = (\<lambda>_. Inr \<lparr>ApiVersion = 1, Datasources = [Some manifest_datasource]\<rparr>),
     marshal_datasources = (\<lambda>_. Inr ''{}''),
     unmarshal_strings = (\<lambda>_. Ok []),
     marshal_map = (\<lambda>_. ''{}''),
     sha1_Sum = (\<lambda>s. s),
     promql_parse = (\<lambda>_. Ok []),
     map_order = (\<lambda>ks. ks)\<rparr>"

text \<open>A file is read from its path below the directory of the assets, and contains that path.\<close>

lemma cluster_asset: "name \<noteq> '''' \<Longrightarrow> asset cluster_factory name w = (Ok (''assets/'' @ name), w)"
  by (simp add: asset_def cluster_factory_def MustNewAssetReader_def GetAsset_def NewAssets_def filepath_Join_def Let_def)

lemma cluster_asset_total: "\<exists>path. \<forall>w. asset cluster_factory name w = (Ok path, w)"
  by (cases "name = ''''") (auto simp: cluster_asset asset_def cluster_factory_def MustNewAssetReader_def
      GetAsset_def NewAssets_def filepath_Join_def Let_def)

section \<open>The interfaces are met\<close>

lemma cluster_factory_steady: "steady_factory (cluster_inventory ours) cluster_factory"
proof
  let ?I = "cluster_inventory ours"
  show "fst (asset cluster_factory name w) = fst (asset cluster_factory name w')" for name w w'
    using cluster_asset_total [of name] by auto
  show "idle ?I (asset cluster_factory name)" for name
    using cluster_asset_total [of name] by (auto simp: idle_iff)
  show "idle ?I (rand_Read cluster_factory n)" for n
    by (simp add: cluster_factory_def)
qed

interpretation cluster_tasks: reconciler "cluster_inventory ours" quiet_client cluster_factory for ours
  by (intro reconciler.intro quiet.client_inventory_axioms cluster_factory_steady)

text \<open>The objects that are accounted for with every task: all kinds but secrets and config maps.\<close>

definition counted :: "address set" where
  "counted = {(k, a). k \<noteq> KSecret \<and> k \<noteq> KConfigMap}"

interpretation cluster_hashed: hashed_reconciler "cluster_inventory counted" quiet_client cluster_factory
  by unfold_locales (simp_all add: counted_def)

interpretation cluster_operator: operator_inventory "cluster_inventory counted" sample_operator cluster_factory
proof (intro operator_inventory.intro operator_inventory_axioms.intro)
  show "hashed_reconciler (cluster_inventory counted) (op_client sample_operator) cluster_factory"
    using cluster_hashed.hashed_reconciler_axioms by simp
qed (simp_all add: uncounted_idle uncounted_kinds)

end
