(* ===== verification/Progress.thy ===== *)
theory Progress
  imports Cluster_Manifests
begin

text \<open>
  Progress: on a cluster whose server answers, whose workloads have rolled out and on which the objects
  are stored that other components provide, the tasks come to their end and return nil.
\<close>

section \<open>Programs that succeed\<close>

text \<open>In worlds with \<open>H\<close> the program returns a value with \<open>Q\<close>, and \<open>H\<close> holds again.\<close>

definition goes :: "('w \<Rightarrow> bool) \<Rightarrow> ('w, 'a) prog \<Rightarrow> ('a \<Rightarrow> bool) \<Rightarrow> 'w \<Rightarrow> bool" where
  "goes H m Q w \<longleftrightarrow> (\<exists>x w'. m w = (Ok x, w') \<and> H w' \<and> Q x)"

definition works :: "('w \<Rightarrow> bool) \<Rightarrow> ('w, 'a) prog \<Rightarrow> ('a \<Rightarrow> bool) \<Rightarrow> bool" where
  "works H m Q \<longleftrightarrow> (\<forall>w. H w \<longrightarrow> goes H m Q w)"

lemma worksI: "(\<And>w. H w \<Longrightarrow> goes H m Q w) \<Longrightarrow> works H m Q"
  by (simp add: works_def)

lemma worksD: "works H m Q \<Longrightarrow> H w \<Longrightarrow> goes H m Q w"
  by (simp add: works_def)

lemma goesI: "m w = (Ok x, w') \<Longrightarrow> H w' \<Longrightarrow> Q x \<Longrightarrow> goes H m Q w"
  by (auto simp: goes_def)

lemma goes_weaken: "goes H m P w \<Longrightarrow> (\<And>x. P x \<Longrightarrow> Q x) \<Longrightarrow> goes H m Q w"
  by (auto simp: goes_def)

lemma works_weaken: "works H m P \<Longrightarrow> (\<And>x. P x \<Longrightarrow> Q x) \<Longrightarrow> works H m Q"
  by (auto simp: works_def intro: goes_weaken)

lemma goes_bind: "goes H m P w \<Longrightarrow> (\<And>x. P x \<Longrightarrow> works H (k x) Q) \<Longrightarrow> goes H (p_bind m k) Q w"
  by (auto simp: goes_def works_def p_bind_def)

lemma works_bind: "works H m P \<Longrightarrow> (\<And>x. P x \<Longrightarrow> works H (k x) Q) \<Longrightarrow> works H (p_bind m k) Q"
  by (auto simp: works_def intro: goes_bind)

lemma goes_wrap: "goes H m Q w \<Longrightarrow> goes H (p_wrap msg m) Q w"
  by (auto simp: goes_def p_wrap_def)

lemma works_wrap: "works H m Q \<Longrightarrow> works H (p_wrap msg m) Q"
  by (auto simp: works_def intro: goes_wrap)

lemma works_attempt: "works H m P \<Longrightarrow> (\<And>x. P x \<Longrightarrow> works H (k x) Q) \<Longrightarrow> works H (attempt msg m k) Q"
  unfolding attempt_def by (intro works_bind [of H "p_wrap msg m"] works_wrap)

lemma works_return: "Q x \<Longrightarrow> works H (p_return (Ok x)) Q"
  by (simp add: works_def goes_def)

lemma works_result: "r = Ok x \<Longrightarrow> Q x \<Longrightarrow> works H (p_return r) Q"
  by (simp add: works_return)

lemma goes_discard: "goes H m Q w \<Longrightarrow> goes H (discard m) (\<lambda>_. True) w"
  unfolding discard_def by (rule goes_bind [where P = Q]) (auto intro: works_return)

lemma works_catch: "works H m P \<Longrightarrow> (\<And>x. P x \<Longrightarrow> works H (h (Inr x)) Q) \<Longrightarrow> works H (p_catch m h) Q"
  unfolding works_def goes_def p_catch_def by fastforce

lemma works_for: "(\<And>x. x \<in> set xs \<Longrightarrow> works H (g x) (\<lambda>_. True)) \<Longrightarrow> works H (p_for xs g) (\<lambda>_. True)"
proof (induction xs)
  case (Cons x xs)
  then have "works H (p_bind (g x) (\<lambda>_. p_for xs g)) (\<lambda>_. True)"
    by (intro works_bind [of H "g x" "\<lambda>_. True"]) auto
  then show ?case by simp
qed (simp add: works_return)

text \<open>A poll whose condition is met at once.\<close>

lemma poll_at_once:
  assumes "tick w = (True, w)" and "cond ((None, v0), w) = (Ok True, ((l, v), w'))"
  shows "PollLastErr msg i t tick v0 cond w = (Ok v, w')"
  using assms by (simp add: PollLastErr_def Poll_def WaitFor.simps world_tick_def)

lemma polled_at_once:
  assumes "works H cond (\<lambda>b. b)"
  shows "works H (Poll i t (\<lambda>w. (True, w)) cond) (\<lambda>_. True)"
proof (rule worksI)
  fix w assume "H w"
  from worksD [OF assms this] obtain w' where "cond w = (Ok True, w')" "H w'" by (auto simp: goes_def)
  then show "goes H (Poll i t (\<lambda>w. (True, w)) cond) (\<lambda>_. True) w"
    by (simp add: goes_def Poll_def WaitFor.simps)
qed

section \<open>Kinds of a cluster that is settled\<close>

text \<open>
  A kind of which all stored objects are \<open>fine\<close> and of which the objects at the addresses \<open>anchors\<close> are
  there. Calls do not fail, and what keeps the stored objects fine and the anchors in place keeps \<open>H\<close>.
\<close>

locale fair_kind =
  fixes H :: "'w \<Rightarrow> bool" and S :: "('w, 'z ObjectMeta_scheme) kind_store"
    and fine :: "string \<times> string \<Rightarrow> 'z ObjectMeta_scheme \<Rightarrow> bool" and anchors :: "(string \<times> string) set"
  assumes lawful: "lawful_store S"
    and no_faults: "H w \<Longrightarrow> ks_faults S w = [] \<and> ks_pop S w = w"
    and all_fine: "H w \<Longrightarrow> fmpred fine (ks_get S w) \<and> anchors \<subseteq> fset (fmdom (ks_get S w))"
    and put_fine: "H w \<Longrightarrow> fmpred fine m \<Longrightarrow> anchors \<subseteq> fset (fmdom m) \<Longrightarrow> H (ks_put S m w)"
    and fine_metadata: "fine k (mergeMetadata x (y :: 'z ObjectMeta_scheme)) = fine k x" "fine k (x\<lparr>ResourceVersion := v\<rparr>) = fine k x"
begin

abbreviation "there w ns n \<equiv> fmlookup (ks_get S w) (ns, n)"

lemma stored_fine: "H w \<Longrightarrow> there w ns n = Some x \<Longrightarrow> fine (ns, n) x"
  using all_fine by (auto simp: fmpred_iff)

lemma anchored: "H w \<Longrightarrow> (ns, n) \<in> anchors \<Longrightarrow> \<exists>x. there w ns n = Some x \<and> fine (ns, n) x"
  using all_fine [of w] by (fastforce simp: fmpred_iff fmlookup_dom_iff)

lemma react_H: "H w \<Longrightarrow> react S m w = m w"
  using no_faults [of w] by (simp add: react_def)

lemma get_there: "H w \<Longrightarrow> there w ns n = Some x \<Longrightarrow> r_Get (tracker_resource S) ns n w = (Ok x, w)"
  by (simp add: tracker_resource_def react_H tracker_Get_def)

lemma get_missing: "H w \<Longrightarrow> there w ns n = None \<Longrightarrow> r_Get (tracker_resource S) ns n w = (Err NotFound, w)"
  by (simp add: tracker_resource_def react_H tracker_Get_def)

text \<open>An object is placed by the call, or it names the namespace of the call.\<close>

definition sits :: "string \<Rightarrow> 'z ObjectMeta_scheme \<Rightarrow> bool" where
  "sits ns x \<longleftrightarrow> Namespace x = '''' \<or> Namespace x = ns"

lemma sits_own [simp]: "sits (Namespace x) x"
  by (simp add: sits_def)

lemma sits_metadata [simp]: "sits ns (mergeMetadata x y) = sits ns x" "sits ns (x\<lparr>ResourceVersion := v\<rparr>) = sits ns x"
  by (simp_all add: sits_def)

definition put_at :: "string \<Rightarrow> 'z ObjectMeta_scheme \<Rightarrow> 'w \<Rightarrow> 'w" where
  "put_at ns x w = ks_put S (fmupd (ns, Name x) (x\<lparr>Namespace := ns\<rparr>) (ks_get S w)) w"

lemma put_at_there [simp]: "there (put_at ns x w) ns (Name x) = Some (x\<lparr>Namespace := ns\<rparr>)"
  using lawful by (simp add: put_at_def lawful_store_def)

lemma put_at_H: "H w \<Longrightarrow> fine (ns, Name x) (x\<lparr>Namespace := ns\<rparr>) \<Longrightarrow> H (put_at ns x w)"
  unfolding put_at_def using all_fine [of w] by (intro put_fine) (auto simp: fmpred_iff)

lemma create_runs: "H w \<Longrightarrow> sits ns x \<Longrightarrow> there w ns (Name x) = None \<Longrightarrow>
    r_Create (tracker_resource S) ns x w = (Ok (x\<lparr>Namespace := ns\<rparr>), put_at ns x w)"
  by (auto simp: tracker_resource_def react_H tracker_add_def Let_def put_at_def sits_def fmlookup_dom_iff)

lemma update_runs: "H w \<Longrightarrow> sits ns x \<Longrightarrow> there w ns (Name x) = Some old \<Longrightarrow>
    r_Update (tracker_resource S) ns x w = (Ok (x\<lparr>Namespace := ns\<rparr>), put_at ns x w)"
  by (auto simp: tracker_resource_def react_H tracker_add_def Let_def put_at_def sits_def fmlookup_dom_iff)

lemma delete_runs:
  "H w \<Longrightarrow> r_Delete (tracker_resource S) ns n opts w =
     (if there w ns n = None then (Err NotFound, w) else (Ok (), ks_put S (fmdrop (ns, n) (ks_get S w)) w))"
  by (auto simp: tracker_resource_def react_H tracker_Delete_def fmlookup_dom_iff)

lemma drop_H: "H w \<Longrightarrow> (ns, n) \<notin> anchors \<Longrightarrow> H (ks_put S (fmdrop (ns, n) (ks_get S w)) w)"
  using all_fine [of w] by (intro put_fine) (auto simp: fmpred_iff)

text \<open>The shapes of the client's methods.\<close>

lemma create_works:
  assumes "H w" "sits ns x" "there w ns (Name x) = None" "fine (ns, Name x) (x\<lparr>Namespace := ns\<rparr>)"
  shows "goes H (create_object (tracker_resource S) ns kind x) (\<lambda>_. True) w"
  unfolding create_object_def using create_runs [OF assms(1-3)] put_at_H [OF assms(1,4)]
  by (auto intro!: goes_discard goes_wrap goesI)

lemma update_works:
  assumes "H w" "sits ns x" "there w ns (Name x) = Some old" "fine (ns, Name x) (x\<lparr>Namespace := ns\<rparr>)"
  shows "goes H (update_object (tracker_resource S) ns kind x) (\<lambda>_. True) w"
  unfolding update_object_def using update_runs [OF assms(1-3)] put_at_H [OF assms(1,4)]
  by (auto intro!: goes_discard goes_wrap goesI)

lemma get_or_works:
  assumes "\<And>w. H w \<Longrightarrow> there w ns (Name x) = None \<Longrightarrow> goes H missing Q w"
    and "\<And>w old. H w \<Longrightarrow> there w ns (Name x) = Some old \<Longrightarrow> goes H (found old) Q w"
  shows "works H (get_or (tracker_resource S) ns kind x missing found) Q"
proof (rule worksI)
  fix w assume w: "H w"
  show "goes H (get_or (tracker_resource S) ns kind x missing found) Q w"
  proof (cases "there w ns (Name x)")
    case None
    with assms(1) [OF w] get_missing [OF w] show ?thesis by (simp add: goes_def get_or_def p_catch_eqs)
  next
    case (Some old)
    with assms(2) [OF w] get_there [OF w] show ?thesis by (simp add: goes_def get_or_def p_catch_eqs)
  qed
qed

lemma get_or_create_works:
  assumes "sits ns x" and "fine (ns, Name x) (x\<lparr>Namespace := ns\<rparr>)"
    and "\<And>w old. H w \<Longrightarrow> there w ns (Name x) = Some old \<Longrightarrow> goes H (found old) (\<lambda>_. True) w"
  shows "works H (get_or_create (tracker_resource S) ns kind x found) (\<lambda>_. True)"
  unfolding get_or_create_def by (intro get_or_works create_works assms)

lemma upsert_works:
  assumes "sits ns x" and "fine (ns, Name x) (x\<lparr>Namespace := ns\<rparr>)"
    and "\<And>old. Name (g old) = Name x \<and> sits ns (g old) \<and> fine (ns, Name x) ((g old)\<lparr>Namespace := ns\<rparr>)"
  shows "works H (get_or_create (tracker_resource S) ns kind x
    (\<lambda>old. update_object (tracker_resource S) ns kind' (g old))) (\<lambda>_. True)"
  using assms by (intro get_or_create_works update_works) auto

lemma upsert_unless_works:
  assumes "sits ns x" and "fine (ns, Name x) (x\<lparr>Namespace := ns\<rparr>)"
    and "\<And>old. Name (g old) = Name x \<and> sits ns (g old) \<and> fine (ns, Name x) ((g old)\<lparr>Namespace := ns\<rparr>)"
  shows "works H (get_or_create (tracker_resource S) ns kind x (\<lambda>old. if same old then p_return (Ok ())
    else update_object (tracker_resource S) ns kind' (g old))) (\<lambda>_. True)"
  using assms by (intro get_or_create_works) (auto intro: update_works goesI)

lemma create_only_works:
  assumes "sits ns x" and "fine (ns, Name x) (x\<lparr>Namespace := ns\<rparr>)"
  shows "works H (get_or_create (tracker_resource S) ns kind x (\<lambda>_. p_return (Ok ()))) (\<lambda>_. True)"
  by (intro get_or_create_works assms) (auto intro: goesI)

text \<open>After an upsert the object is there.\<close>

lemma upsert_puts:
  assumes w: "H w" and x: "sits ns x" "fine (ns, Name x) (x\<lparr>Namespace := ns\<rparr>)"
    and g: "\<And>old. Name (g old) = Name x \<and> sits ns (g old) \<and> fine (ns, Name x) ((g old)\<lparr>Namespace := ns\<rparr>)"
  shows "\<exists>y w'. get_or_create (tracker_resource S) ns kind x (\<lambda>old. update_object (tracker_resource S) ns kind' (g old)) w = (Ok (), w')
    \<and> H w' \<and> there w' ns (Name x) = Some y"
proof (cases "there w ns (Name x)")
  case None
  from get_missing [OF w None] create_runs [OF w x(1) None] put_at_H [OF w x(2)] put_at_there [of ns x w]
  show ?thesis
    by (auto simp: get_or_create_def get_or_def create_object_def discard_def p_bind_def p_wrap_def p_catch_def)
next
  case (Some old)
  have g': "Name (g old) = Name x" "sits ns (g old)" "fine (ns, Name (g old)) ((g old)\<lparr>Namespace := ns\<rparr>)"
    using g [of old] by auto
  have there: "there w ns (Name (g old)) = Some old" using Some g' by simp
  from get_there [OF w Some] update_runs [OF w g'(2) there] put_at_H [OF w g'(3)] put_at_there [of ns "g old" w] g'(1)
  show ?thesis
    by (auto simp: get_or_create_def get_or_def update_object_def discard_def p_bind_def p_wrap_def p_catch_def)
qed

text \<open>Lists, and the deletion of what a list selects.\<close>

lemma list_runs:
  assumes "H w"
  obtains xs where "r_List (tracker_resource S) ns sel w = (Ok xs, w)"
    and "set xs = {x. \<exists>m n. (ns = '''' \<or> m = ns) \<and> there w m n = Some x \<and> selector_matches sel (Labels x)}"
    and "ns \<noteq> '''' \<Longrightarrow> (\<And>n x. there w ns n = Some x \<Longrightarrow> Name x = n) \<Longrightarrow> distinct (map Name xs)"
proof -
  let ?keys = "filter (\<lambda>(m, n). ns = '''' \<or> m = ns) (sorted_list_of_fset (fmdom (ks_get S w)))"
  let ?xs = "filter (\<lambda>x. selector_matches sel (Labels x)) (map (\<lambda>k. the (fmlookup (ks_get S w) k)) ?keys)"
  have l: "r_List (tracker_resource S) ns sel w = (Ok ?xs, w)"
    using assms by (simp add: tracker_resource_def react_H tracker_List_def)
  have t: "fst (tracker_List S ns sel w) = Ok ?xs" by (simp add: tracker_List_def)
  have d: "distinct (map Name ?xs)" if "ns \<noteq> ''''" and n: "\<And>n x. there w ns n = Some x \<Longrightarrow> Name x = n"
  proof -
    have "distinct (map (\<lambda>k. Name (the (fmlookup (ks_get S w) k))) ?keys)"
      using that by (auto simp: distinct_map inj_on_def fmlookup_dom_iff sorted_list_of_fset.rep_eq)
    then have "distinct (map Name (map (\<lambda>k. the (fmlookup (ks_get S w) k)) ?keys))" by (simp add: comp_def)
    then show ?thesis by (rule distinct_map_filter)
  qed
  from that [OF l tracker_List_set [OF t] d] show ?thesis by blast
qed

lemma list_works: "works H (r_List (tracker_resource S) ns sel) (\<lambda>_. True)"
proof (rule worksI)
  fix w assume w: "H w"
  then obtain xs where "r_List (tracker_resource S) ns sel w = (Ok xs, w)" by (rule list_runs [of w ns sel])
  with w show "goes H (r_List (tracker_resource S) ns sel) (\<lambda>_. True) w" by (simp add: goes_def)
qed

lemma deletions_work:
  assumes "H w" and "distinct (map Name xs)"
    and "\<And>x. x \<in> set xs \<Longrightarrow> there w ns (Name x) \<noteq> None \<and> (ns, Name x) \<notin> anchors"
  shows "goes H (p_for xs (\<lambda>x. p_wrap (msg x) (r_Delete (tracker_resource S) ns (Name x) opts))) (\<lambda>_. True) w"
  using assms
proof (induction xs arbitrary: w)
  case (Cons x xs)
  let ?w = "ks_put S (fmdrop (ns, Name x) (ks_get S w)) w"
  have d: "r_Delete (tracker_resource S) ns (Name x) opts w = (Ok (), ?w)"
    using delete_runs [OF Cons.prems(1), of ns "Name x" opts] Cons.prems(3) [of x] by simp
  have h: "H ?w" using drop_H [OF Cons.prems(1)] Cons.prems(3) [of x] by simp
  have rest: "there ?w ns (Name y) \<noteq> None \<and> (ns, Name y) \<notin> anchors" if "y \<in> set xs" for y
  proof -
    from that Cons.prems(2) have "Name y \<noteq> Name x" by (auto simp: image_iff)
    with that Cons.prems(3) [of y] lawful show ?thesis by (simp add: lawful_store_def)
  qed
  from Cons.IH [OF h _ rest] Cons.prems(2) d show ?case by (simp add: goes_def p_bind_def p_wrap_def)
qed (simp add: goes_def)

lemma delete_selected_works:
  assumes "ns \<noteq> ''''" and "\<And>a x. fine a x \<Longrightarrow> Name x = snd a"
    and "\<And>a x. fine a x \<Longrightarrow> a \<in> anchors \<Longrightarrow> \<not> selector_matches ls (Labels x)"
  shows "works H (attempt m1 (r_List (tracker_resource S) ns ls) (\<lambda>items. p_for items (\<lambda>x.
    p_wrap (msg x) (r_Delete (tracker_resource S) ns (Name x) opts)))) (\<lambda>_. True)"
proof (rule worksI)
  fix w assume w: "H w"
  note fine = stored_fine [OF w]
  obtain xs where l: "r_List (tracker_resource S) ns ls w = (Ok xs, w)"
    and s: "set xs = {x. \<exists>m n. (ns = '''' \<or> m = ns) \<and> there w m n = Some x \<and> selector_matches ls (Labels x)}"
    and d: "distinct (map Name xs)"
    by (rule list_runs [OF w, of ns ls]) (use assms(1,2) fine in fastforce)
  have "there w ns (Name x) \<noteq> None \<and> (ns, Name x) \<notin> anchors" if "x \<in> set xs" for x
    using that s assms fine by fastforce
  from deletions_work [OF w d this] l
  show "goes H (attempt m1 (r_List (tracker_resource S) ns ls) (\<lambda>items. p_for items (\<lambda>x.
      p_wrap (msg x) (r_Delete (tracker_resource S) ns (Name x) opts)))) (\<lambda>_. True) w"
    by (simp add: goes_def attempt_def p_bind_def p_wrap_def)
qed

lemma removal_works:
  assumes "(ns, n) \<notin> anchors"
  shows "works H (delete_if_present (tracker_resource S) ns n opts) (\<lambda>_. True)"
  using assms drop_H by (auto simp: works_def goes_def delete_if_present_def p_catch_def delete_runs)

end

section \<open>The settled cluster\<close>

text \<open>
  The objects that the tasks read and that are there once the cluster has been reconciled: the certificates
  that the operator issues, the data sources of Grafana, the certificates that the cluster issues for the
  adapter, the authorities of the kubelets and of the extension API server, and the routes.
\<close>

definition secret_anchors :: "(string \<times> string) set" where
  "secret_anchors = Pair ''openshift-monitoring'' ` {''assets/cluster-monitoring-operator/grpc-tls-secret.yaml'',
     ''assets/grafana/dashboard-datasources.yaml'', ''prometheus-adapter-tls''}"

definition configmap_anchors :: "(string \<times> string) set" where
  "configmap_anchors = {(''openshift-config-managed'', ''kubelet-serving-ca''),
     (''kube-system'', ''extension-apiserver-authentication'')}"

definition route_anchors :: "(string \<times> string) set" where
  "route_anchors = (\<lambda>dir. (''openshift-monitoring'', ''assets/'' @ dir @ ''/route.yaml'')) `
     {''prometheus-k8s'', ''alertmanager'', ''grafana'', ''thanos-querier''}"

definition bundle_names :: "string set" where
  "bundle_names = (\<lambda>dir. ''assets/'' @ dir @ ''/trusted-ca-bundle.yaml'') `
     {''prometheus-k8s'', ''alertmanager'', ''grafana'', ''thanos-querier'', ''telemeter-client'', ''thanos-ruler''}"

text \<open>
  What is required of stored objects. The objects from which an operator completes its configuration, the
  pull secret and the authority of etcd, are not there.
\<close>

definition has_keys :: "string list \<Rightarrow> string gomap \<Rightarrow> bool" where
  "has_keys ks m \<longleftrightarrow> list_all (\<lambda>k. gm_lookup m k \<noteq> None) ks"

text \<open>The certificates of the adapter, and the authorities and headers of the extension API server.\<close>

definition adapter_certificates :: "string gomap" where
  "adapter_certificates = gm_of_list [(''tls.crt'', ''C''), (''tls.key'', ''K'')]"

definition api_authorities :: "string gomap" where
  "api_authorities = gm_of_list [(''client-ca-file'', ''A''), (''requestheader-client-ca-file'', ''R''),
     (''requestheader-allowed-names'', ''[]''), (''requestheader-extra-headers-prefix'', ''[]''),
     (''requestheader-group-headers'', ''[]''), (''requestheader-username-headers'', ''[]'')]"

definition fine_secret :: "string \<times> string \<Rightarrow> Secret \<Rightarrow> bool" where
  "fine_secret a s \<longleftrightarrow> a = (Namespace s, Name s) \<and> a \<noteq> (''openshift-config'', ''pull-secret'') \<and> (a \<in> secret_anchors \<longrightarrow> secret_complaint s = None \<and> gm_lookup (Labels s) name_label = None) \<and>
     (snd a = ''prometheus-adapter-tls'' \<longrightarrow> Data s = adapter_certificates) \<and>
     (snd a = ''assets/cluster-monitoring-operator/grpc-tls-secret.yaml'' \<longrightarrow>
        has_keys [''ca.crt'', ''ca.key''] (Data s) \<and> gm_lookup (Annotations s) forced_rotate = None)"

definition fine_configmap :: "string \<times> string \<Rightarrow> ConfigMap \<Rightarrow> bool" where
  "fine_configmap a cm \<longleftrightarrow> a = (Namespace cm, Name cm) \<and> a \<noteq> (''openshift-config'', ''etcd-metric-serving-ca'') \<and> (a \<in> configmap_anchors \<longrightarrow> gm_lookup (Labels cm) name_label = None) \<and>
     (snd a \<in> bundle_names \<longrightarrow> bundle_complaint cm = None) \<and>
     (snd a = ''extension-apiserver-authentication'' \<longrightarrow>
        CM_Data cm = api_authorities)"

definition settled :: "Cluster \<Rightarrow> bool" where
  "settled w \<longleftrightarrow> faults w = [] \<and> tracked_Pods w = fmempty \<and> tracked_ClusterVersions w = fmempty
     \<and> tracked_Proxies w = fmempty \<and> tracked_Infrastructures w = fmempty
     \<and> fmpred fine_secret (tracked_Secrets w) \<and> secret_anchors \<subseteq> fset (fmdom (tracked_Secrets w))
     \<and> fmpred fine_configmap (tracked_ConfigMaps w) \<and> configmap_anchors \<subseteq> fset (fmdom (tracked_ConfigMaps w))
     \<and> fmpred (\<lambda>_ r. route_complaint r = None) (tracked_Routes w) \<and> route_anchors \<subseteq> fset (fmdom (tracked_Routes w))
     \<and> fmpred (\<lambda>_ d. deployment_complaint d = None) (tracked_Deployments w)
     \<and> fmpred (\<lambda>_ d. daemonset_complaint d = None) (tracked_DaemonSets w)
     \<and> fmpred (\<lambda>_ p. Prom_Replicas (Prometheus_Spec p) = Some 2) (tracked_Prometheuses w)
     \<and> fmpred (\<lambda>_ a. AM_Replicas (Alertmanager_Spec a) = Some 3) (tracked_Alertmanagers w)
     \<and> fmpred (\<lambda>_ t. TR_Replicas (ThanosRuler_Spec t) = Some 2) (tracked_ThanosRulers w)"

lemma merged_label:
  "gm_lookup (Labels (mergeMetadata x y)) name_label = gm_lookup (Labels x) name_label"
  "gm_lookup (Annotations (mergeMetadata x y)) forced_rotate = gm_lookup (Annotations x) forced_rotate"
  by (auto simp: mergeMetadata_def mergo_Merge_lookup delete_prefixed_lookup name_label_def forced_rotate_def
      metadataPrefix_def split: option.splits)

lemma merged_more:
  "secret_complaint (mergeMetadata s t) = secret_complaint s" "Data (mergeMetadata s t) = Data s"
  "bundle_complaint (mergeMetadata cm cm') = bundle_complaint cm" "CM_Data (mergeMetadata cm cm') = CM_Data cm"
  "route_complaint (mergeMetadata r r') = route_complaint r"
  "deployment_complaint (mergeMetadata d d') = deployment_complaint d"
  "daemonset_complaint (mergeMetadata ds ds') = daemonset_complaint ds"
  "Prometheus_Spec (mergeMetadata p p') = Prometheus_Spec p"
  "Alertmanager_Spec (mergeMetadata a a') = Alertmanager_Spec a"
  "ThanosRuler_Spec (mergeMetadata tr tr') = ThanosRuler_Spec tr"
  by (simp_all add: mergeMetadata_def secret_complaint_def bundle_complaint_def route_complaint_def
      deployment_complaint_def daemonset_complaint_def Let_def)

lemma versioned_more:
  "secret_complaint (s\<lparr>ResourceVersion := v\<rparr>) = secret_complaint s"
  "bundle_complaint (cm\<lparr>ResourceVersion := v\<rparr>) = bundle_complaint cm"
  "route_complaint (r\<lparr>ResourceVersion := v\<rparr>) = route_complaint r"
  "deployment_complaint (d\<lparr>ResourceVersion := v\<rparr>) = deployment_complaint d"
  "daemonset_complaint (ds\<lparr>ResourceVersion := v\<rparr>) = daemonset_complaint ds"
  by (simp_all add: secret_complaint_def bundle_complaint_def route_complaint_def
      deployment_complaint_def daemonset_complaint_def Let_def)

lemma fmpred_any: "fmpred (\<lambda>_ _. True) m"
  by (simp add: fmpred_iff)

lemmas settled_simps = settled_def tracker_defs lawful_store_def fmpred_any merged_label merged_more versioned_more

interpretation settled_secrets: fair_kind settled Secrets_tracker fine_secret secret_anchors
  by unfold_locales (simp_all add: settled_simps fine_secret_def fine_configmap_def)

interpretation settled_configmaps: fair_kind settled ConfigMaps_tracker fine_configmap configmap_anchors
  by unfold_locales (simp_all add: settled_simps fine_secret_def fine_configmap_def)

interpretation settled_routes: fair_kind settled Routes_tracker "\<lambda>_ r. route_complaint r = None" route_anchors
  by unfold_locales (simp_all add: settled_simps)

interpretation settled_deployments: fair_kind settled Deployments_tracker "\<lambda>_ d. deployment_complaint d = None" "{}"
  by unfold_locales (simp_all add: settled_simps)

interpretation settled_daemonsets: fair_kind settled DaemonSets_tracker "\<lambda>_ d. daemonset_complaint d = None" "{}"
  by unfold_locales (simp_all add: settled_simps)

interpretation settled_prometheuses: fair_kind settled Prometheuses_tracker "\<lambda>_ p. Prom_Replicas (Prometheus_Spec p) = Some 2" "{}"
  by unfold_locales (simp_all add: settled_simps)

interpretation settled_alertmanagers: fair_kind settled Alertmanagers_tracker "\<lambda>_ a. AM_Replicas (Alertmanager_Spec a) = Some 3" "{}"
  by unfold_locales (simp_all add: settled_simps)

interpretation settled_rulers: fair_kind settled ThanosRulers_tracker "\<lambda>_ t. TR_Replicas (ThanosRuler_Spec t) = Some 2" "{}"
  by unfold_locales (simp_all add: settled_simps)

interpretation settled_services: fair_kind settled Services_tracker "\<lambda>_ _. True" "{}"
  by unfold_locales (simp_all add: settled_simps)

interpretation settled_accounts: fair_kind settled ServiceAccounts_tracker "\<lambda>_ _. True" "{}"
  by unfold_locales (simp_all add: settled_simps)

interpretation settled_roles: fair_kind settled Roles_tracker "\<lambda>_ _. True" "{}"
  by unfold_locales (simp_all add: settled_simps)

interpretation settled_clusterroles: fair_kind settled ClusterRoles_tracker "\<lambda>_ _. True" "{}"
  by unfold_locales (simp_all add: settled_simps)

interpretation settled_rolebindings: fair_kind settled RoleBindings_tracker "\<lambda>_ _. True" "{}"
  by unfold_locales (simp_all add: settled_simps)

interpretation settled_clusterrolebindings: fair_kind settled ClusterRoleBindings_tracker "\<lambda>_ _. True" "{}"
  by unfold_locales (simp_all add: settled_simps)

interpretation settled_webhooks: fair_kind settled ValidatingWebhookConfigurations_tracker "\<lambda>_ _. True" "{}"
  by unfold_locales (simp_all add: settled_simps)

interpretation settled_constraints: fair_kind settled SCCs_tracker "\<lambda>_ _. True" "{}"
  by unfold_locales (simp_all add: settled_simps)

interpretation settled_apiservices: fair_kind settled APIServices_tracker "\<lambda>_ _. True" "{}"
  by unfold_locales (simp_all add: settled_simps)

interpretation settled_rules: fair_kind settled PrometheusRules_tracker "\<lambda>_ _. True" "{}"
  by unfold_locales (simp_all add: settled_simps)

interpretation settled_monitors: fair_kind settled ServiceMonitors_tracker "\<lambda>_ _. True" "{}"
  by unfold_locales (simp_all add: settled_simps)

interpretation settled_namespaces: fair_kind settled Namespaces_tracker "\<lambda>_ _. True" "{}"
  by unfold_locales (simp_all add: settled_simps)

section \<open>The client's methods succeed\<close>

named_theorems methods_work

lemma same_namespace: "Namespace x = ns \<Longrightarrow> x\<lparr>Namespace := ns\<rparr> = x"
  by auto

lemma cluster_upserts_work [methods_work]:
  "Namespace wh = '''' \<Longrightarrow> works settled (CreateOrUpdateValidatingWebhookConfiguration quiet_client wh) (\<lambda>_. True)"
  "Namespace scc = '''' \<Longrightarrow> works settled (CreateOrUpdateSecurityContextConstraints quiet_client scc) (\<lambda>_. True)"
  "Namespace cr = '''' \<Longrightarrow> works settled (CreateOrUpdateClusterRole quiet_client cr) (\<lambda>_. True)"
  "Namespace api = '''' \<Longrightarrow> works settled (CreateOrUpdateAPIService quiet_client api) (\<lambda>_. True)"
  unfolding CreateOrUpdateValidatingWebhookConfiguration_def CreateOrUpdateSecurityContextConstraints_def
    CreateOrUpdateClusterRole_def CreateOrUpdateAPIService_def quiet_client_simps
  by (rule settled_webhooks.upsert_works settled_constraints.upsert_works settled_clusterroles.upsert_works
      settled_apiservices.upsert_works;
      simp add: with_resource_version_def settled_webhooks.sits_def settled_constraints.sits_def
        settled_clusterroles.sits_def settled_apiservices.sits_def Let_def)+

lemma upserts_work [methods_work]:
  "works settled (CreateOrUpdatePrometheusRule quiet_client pr) (\<lambda>_. True)"
  "works settled (CreateOrUpdateServiceMonitor quiet_client sm) (\<lambda>_. True)"
  "works settled (CreateOrUpdateRole quiet_client r) (\<lambda>_. True)"
  "fine_secret (Namespace s, Name s) s \<Longrightarrow> works settled (CreateOrUpdateSecret quiet_client s) (\<lambda>_. True)"
  "fine_configmap (Namespace cm, Name cm) cm \<Longrightarrow> works settled (CreateOrUpdateConfigMap quiet_client cm) (\<lambda>_. True)"
  unfolding CreateOrUpdatePrometheusRule_def CreateOrUpdateServiceMonitor_def CreateOrUpdateRole_def
    CreateOrUpdateSecret_def CreateOrUpdateConfigMap_def quiet_client_simps
  by (rule settled_rules.upsert_works settled_monitors.upsert_works settled_roles.upsert_works
      settled_secrets.upsert_works settled_configmaps.upsert_works;
      simp add: with_resource_version_def same_namespace settled_secrets.fine_metadata
        settled_configmaps.fine_metadata)+

lemma upserts_unless_work [methods_work]:
  "works settled (CreateOrUpdateService quiet_client svc) (\<lambda>_. True)"
  "works settled (CreateOrUpdateRoleBinding quiet_client rb) (\<lambda>_. True)"
  unfolding CreateOrUpdateService_def CreateOrUpdateRoleBinding_def quiet_client_simps
  by (rule settled_services.upsert_unless_works settled_rolebindings.upsert_unless_works;
      simp add: required_service_def with_resource_version_def settled_services.sits_def Let_def)+

lemma creations_work [methods_work]:
  "works settled (CreateOrUpdateServiceAccount quiet_client sa) (\<lambda>_. True)"
  "fine_secret (Namespace s, Name s) s \<Longrightarrow> works settled (CreateIfNotExistSecret quiet_client s) (\<lambda>_. True)"
  unfolding CreateOrUpdateServiceAccount_def CreateIfNotExistSecret_def quiet_client_simps
  by (rule settled_accounts.create_only_works settled_secrets.create_only_works; simp)+

lemma CreateOrUpdateClusterRoleBinding_works [methods_work]:
  assumes "Namespace crb = ''''"
  shows "works settled (CreateOrUpdateClusterRoleBinding quiet_client crb) (\<lambda>_. True)"
proof -
  let ?R = "tracker_resource ClusterRoleBindings_tracker"
  have sits: "settled_clusterrolebindings.sits '''' (mergeMetadata crb old)" for old :: ClusterRoleBinding
    using assms by (simp add: settled_clusterrolebindings.sits_def)
  have again: "goes settled (attempt msg (r_Delete ?R '''' (Name crb) opts)
      (\<lambda>_. discard (p_wrap msg' (r_Create ?R '''' (mergeMetadata crb old))))) (\<lambda>_. True) w"
    if w: "settled w" and old: "settled_clusterrolebindings.there w '''' (Name crb) = Some old" for w msg msg' opts old
  proof -
    let ?w = "ks_put ClusterRoleBindings_tracker (fmdrop ('''', Name crb) (ks_get ClusterRoleBindings_tracker w)) w"
    have d: "r_Delete ?R '''' (Name crb) opts w = (Ok (), ?w)" and h: "settled ?w"
      using settled_clusterrolebindings.delete_runs [OF w, of "''''" "Name crb" opts]
        settled_clusterrolebindings.drop_H [OF w, of "''''" "Name crb"] old by simp_all
    have "settled_clusterrolebindings.there ?w '''' (Name (mergeMetadata crb old)) = None"
      by (simp add: ClusterRoleBindings_tracker_def)
    from settled_clusterrolebindings.create_runs [OF h sits this]
      settled_clusterrolebindings.put_at_H [OF h, of "''''" "mergeMetadata crb old"] d
    show ?thesis by (simp add: goes_def attempt_def p_bind_def discard_def p_wrap_def)
  qed
  show ?thesis
    unfolding CreateOrUpdateClusterRoleBinding_def quiet_client_simps
    by (rule settled_clusterrolebindings.get_or_create_works)
      (use assms again in \<open>auto simp: settled_clusterrolebindings.sits_def intro: goesI\<close>)
qed

lemma CreateIfNotExistConfigMap_works [methods_work]:
  assumes "fine_configmap (Namespace cm, Name cm) cm"
  shows "works settled (CreateIfNotExistConfigMap quiet_client cm)
    (\<lambda>x. Name x = Name cm \<and> Namespace x = Namespace cm)"
  unfolding CreateIfNotExistConfigMap_def quiet_client_simps
proof (rule settled_configmaps.get_or_works)
  fix w assume w: "settled w" and missing: "settled_configmaps.there w (Namespace cm) (Name cm) = None"
  from settled_configmaps.create_runs [OF w settled_configmaps.sits_own missing]
    settled_configmaps.put_at_H [OF w, of "Namespace cm" cm] assms
  show "goes settled (p_wrap msg (r_Create (tracker_resource ConfigMaps_tracker) (Namespace cm) cm))
      (\<lambda>x. Name x = Name cm \<and> Namespace x = Namespace cm) w" for msg
    by (simp add: goes_def p_wrap_def same_namespace)
next
  fix w old assume "settled w" and "settled_configmaps.there w (Namespace cm) (Name cm) = Some old"
  then show "goes settled (p_return (Ok old)) (\<lambda>x. Name x = Name cm \<and> Namespace x = Namespace cm) w"
    using settled_configmaps.stored_fine [of w "Namespace cm" "Name cm" old] by (simp add: goes_def fine_configmap_def)
qed

text \<open>Waiting for what is there.\<close>

lemma waits_work:
  "settled_deployments.there w (Namespace d) (Name d) = Some d' \<Longrightarrow> settled w \<Longrightarrow>
     WaitForDeploymentRollout quiet_client d w = (Ok (), w)"
  "settled_daemonsets.there w (Namespace ds) (Name ds) = Some ds' \<Longrightarrow> settled w \<Longrightarrow>
     WaitForDaemonSetRollout quiet_client ds w = (Ok (), w)"
  "settled_routes.there w (Namespace r) (Name r) = Some r' \<Longrightarrow> settled w \<Longrightarrow>
     WaitForRouteReady quiet_client r w = (Ok (Host r'), w)"
  using settled_deployments.get_there [of w "Namespace d" "Name d" d'] settled_deployments.stored_fine [of w "Namespace d" "Name d" d']
    settled_daemonsets.get_there [of w "Namespace ds" "Name ds" ds'] settled_daemonsets.stored_fine [of w "Namespace ds" "Name ds" ds']
    settled_routes.get_there [of w "Namespace r" "Name r" r'] settled_routes.stored_fine [of w "Namespace r" "Name r" r']
  unfolding WaitForDeploymentRollout_def WaitForDaemonSetRollout_def WaitForRouteReady_def quiet_client_simps
  by (auto intro!: poll_at_once simp: p_bind_def world_call_def conclude_def finished_def)

text \<open>Workloads that are applied and then waited for.\<close>

lemma CreateOrUpdateDeployment_works [methods_work]:
  assumes "deployment_complaint d = None"
  shows "works settled (CreateOrUpdateDeployment quiet_client d) (\<lambda>_. True)"
proof -
  have complaint: "deployment_complaint (x\<lparr>Namespace := ns\<rparr>) = deployment_complaint x" for x :: Deployment and ns
    by (simp add: deployment_complaint_def Let_def)
  have wait: "WaitForDeploymentRollout quiet_client (x\<lparr>Namespace := Namespace x\<rparr>)
      (settled_deployments.put_at (Namespace x) x w) = (Ok (), settled_deployments.put_at (Namespace x) x w)"
    and put: "settled (settled_deployments.put_at (Namespace x) x w)"
    if "settled w" "deployment_complaint x = None" for x w
    using settled_deployments.put_at_H [OF that(1), of "Namespace x" x] settled_deployments.put_at_there [of "Namespace x" x w]
      that(2) by (auto simp: same_namespace intro!: waits_work)
  have create: "goes settled (CreateDeployment quiet_client x) (\<lambda>_. True) w"
    if "settled w" "settled_deployments.there w (Namespace x) (Name x) = None" "deployment_complaint x = None" for w x
    using settled_deployments.create_runs [OF that(1) settled_deployments.sits_own that(2)] wait [OF that(1,3)] put [OF that(1,3)]
    by (simp add: CreateDeployment_def goes_def p_bind_def)
  have update: "goes settled (UpdateDeployment quiet_client x) (\<lambda>_. True) w"
    if "settled w" "settled_deployments.there w (Namespace x) (Name x) = Some old" "deployment_complaint x = None" for w x old
    using settled_deployments.update_runs [OF that(1) settled_deployments.sits_own that(2)] wait [OF that(1,3)] put [OF that(1,3)]
    by (simp add: UpdateDeployment_def goes_def p_bind_def)
  show ?thesis
    unfolding CreateOrUpdateDeployment_def quiet_client_simps
  proof (rule settled_deployments.get_or_works)
    fix w assume "settled w" "settled_deployments.there w (Namespace d) (Name d) = None"
    from create [OF this assms] show "goes settled (p_wrap msg (CreateDeployment quiet_client d)) (\<lambda>_. True) w" for msg
      by (rule goes_wrap)
  next
    fix w old assume w: "settled w" and old: "settled_deployments.there w (Namespace d) (Name d) = Some old"
    from update [OF w, of "mergeMetadata d old" old] old assms
    have "goes settled (UpdateDeployment quiet_client (mergeMetadata d old)) (\<lambda>_. True) w" by (simp add: merged_more)
    then have "goes settled (update_or_recreate kind (UpdateDeployment quiet_client (mergeMetadata d old)) delete again) (\<lambda>_. True) w"
      for kind delete again
      by (auto simp: goes_def update_or_recreate_def p_catch_def)
    with w show "goes settled (if Deployment_Spec d = Deployment_Spec old then p_return (Ok ())
        else let required = mergeMetadata d old in update_or_recreate ''Deployment'' (UpdateDeployment quiet_client required)
          (DeleteDeployment quiet_client old) (CreateDeployment quiet_client required)) (\<lambda>_. True) w"
      by (simp add: goes_def Let_def)
  qed
qed

lemma CreateOrUpdateDaemonSet_works [methods_work]:
  assumes "daemonset_complaint d = None"
  shows "works settled (CreateOrUpdateDaemonSet quiet_client d) (\<lambda>_. True)"
proof -
  have wait: "WaitForDaemonSetRollout quiet_client (x\<lparr>Namespace := Namespace x\<rparr>)
      (settled_daemonsets.put_at (Namespace x) x w) = (Ok (), settled_daemonsets.put_at (Namespace x) x w)"
    and put: "settled (settled_daemonsets.put_at (Namespace x) x w)"
    if "settled w" "daemonset_complaint x = None" for x w
    using settled_daemonsets.put_at_H [OF that(1), of "Namespace x" x] settled_daemonsets.put_at_there [of "Namespace x" x w]
      that(2) by (auto simp: same_namespace intro!: waits_work)
  show ?thesis
    unfolding CreateOrUpdateDaemonSet_def quiet_client_simps
  proof (rule settled_daemonsets.get_or_works)
    fix w assume w: "settled w" and missing: "settled_daemonsets.there w (Namespace d) (Name d) = None"
    from settled_daemonsets.create_runs [OF w settled_daemonsets.sits_own missing] wait [OF w assms] put [OF w assms]
    show "goes settled (p_wrap msg (CreateDaemonSet quiet_client d)) (\<lambda>_. True) w" for msg
      by (simp add: CreateDaemonSet_def goes_def p_bind_def p_wrap_def)
  next
    fix w old assume w: "settled w" and old: "settled_daemonsets.there w (Namespace d) (Name d) = Some old"
    let ?x = "mergeMetadata d old"
    have x: "daemonset_complaint ?x = None" using assms by (simp add: merged_more)
    have "settled_daemonsets.there w (Namespace ?x) (Name ?x) = Some old" using old by simp
    from settled_daemonsets.update_runs [OF w settled_daemonsets.sits_own this] wait [OF w x] put [OF w x]
    show "goes settled (let required = mergeMetadata d old in update_or_recreate ''DaemonSet''
        (UpdateDaemonSet quiet_client required) (DeleteDaemonSet quiet_client old) (CreateDaemonSet quiet_client required))
      (\<lambda>_. True) w"
      by (simp add: UpdateDaemonSet_def goes_def p_bind_def update_or_recreate_def p_catch_def Let_def)
  qed
qed

text \<open>The custom resources, which a task applies and then waits for.\<close>

lemma operand_waits:
  "settled w \<Longrightarrow> settled_prometheuses.there w (Namespace p) (Name p) = Some p' \<Longrightarrow>
     WaitForPrometheus quiet_client p w = (Ok (), w)"
  "settled w \<Longrightarrow> settled_alertmanagers.there w (Namespace a) (Name a) = Some a' \<Longrightarrow>
     WaitForAlertmanager quiet_client a w = (Ok (), w)"
  "settled w \<Longrightarrow> settled_rulers.there w (Namespace t) (Name t) = Some t' \<Longrightarrow>
     WaitForThanosRuler quiet_client t w = (Ok (), w)"
proof -
  have status: "PrometheusStatus quiet_client p = p_return (Ok \<lparr>RS_UpdatedReplicas = 2, RS_AvailableReplicas = 2\<rparr>)"
    "AlertmanagerStatus quiet_client a = p_return (Ok \<lparr>RS_UpdatedReplicas = 3, RS_AvailableReplicas = 3\<rparr>)"
    "ThanosRulerStatus quiet_client t = p_return (Ok \<lparr>RS_UpdatedReplicas = 2, RS_AvailableReplicas = 2\<rparr>)" for p a t
    by (simp_all add: quiet_client_def fake_client_def)
  note simps = p_bind_def p_wrap_def attempt_def world_call_def conclude_replicas_def conclude_def finished_def
    replicas_complaint_def status
  show "settled w \<Longrightarrow> settled_prometheuses.there w (Namespace p) (Name p) = Some p' \<Longrightarrow>
      WaitForPrometheus quiet_client p w = (Ok (), w)"
    using settled_prometheuses.get_there [of w "Namespace p" "Name p" p']
      settled_prometheuses.stored_fine [of w "Namespace p" "Name p" p']
    unfolding WaitForPrometheus_def quiet_client_simps by (auto intro!: poll_at_once simp: simps)
  show "settled w \<Longrightarrow> settled_alertmanagers.there w (Namespace a) (Name a) = Some a' \<Longrightarrow>
      WaitForAlertmanager quiet_client a w = (Ok (), w)"
    using settled_alertmanagers.get_there [of w "Namespace a" "Name a" a']
      settled_alertmanagers.stored_fine [of w "Namespace a" "Name a" a']
    unfolding WaitForAlertmanager_def quiet_client_simps by (auto intro!: poll_at_once simp: simps)
  show "settled w \<Longrightarrow> settled_rulers.there w (Namespace t) (Name t) = Some t' \<Longrightarrow>
      WaitForThanosRuler quiet_client t w = (Ok (), w)"
    using settled_rulers.get_there [of w "Namespace t" "Name t" t']
      settled_rulers.stored_fine [of w "Namespace t" "Name t" t']
    unfolding WaitForThanosRuler_def quiet_client_simps by (auto intro!: poll_at_once simp: simps)
qed

lemma applied_then:
  assumes "\<And>w. settled w \<Longrightarrow> \<exists>w'. apply w = (Ok (), w') \<and> settled w' \<and> (\<exists>v. wait w' = (Ok v, w'))"
    and "\<And>v. works settled (k v) Q"
  shows "works settled (attempt m1 apply (\<lambda>_. attempt m2 wait k)) Q"
proof (rule worksI)
  fix w assume "settled w"
  with assms(1) obtain w' v where "apply w = (Ok (), w')" "settled w'" "wait w' = (Ok v, w')" by blast
  with worksD [OF assms(2) [of v], of w']
  show "goes settled (attempt m1 apply (\<lambda>_. attempt m2 wait k)) Q w"
    by (simp add: goes_def attempt_def p_bind_def p_wrap_def)
qed

lemma CreateOrUpdatePrometheus_then:
  assumes "Prom_Replicas (Prometheus_Spec p) = Some 2" and "\<And>v. works settled (k v) Q"
  shows "works settled (attempt m1 (CreateOrUpdatePrometheus quiet_client p)
    (\<lambda>_. attempt m2 (WaitForPrometheus quiet_client p) k)) Q"
proof (rule applied_then [OF _ assms(2)])
  fix w assume w: "settled w"
  from settled_prometheuses.upsert_puts [OF w, of "Namespace p" p
      "\<lambda>old. with_resource_version (mergeMetadata p old) old" "''Prometheus''" "''Prometheus''"]
  show "\<exists>w'. CreateOrUpdatePrometheus quiet_client p w = (Ok (), w') \<and> settled w' \<and>
      (\<exists>v. WaitForPrometheus quiet_client p w' = (Ok v, w'))"
    using assms(1) unfolding CreateOrUpdatePrometheus_def quiet_client_simps
    by (auto simp: with_resource_version_def merged_more intro: operand_waits)
qed

lemma CreateOrUpdateAlertmanager_then:
  assumes "AM_Replicas (Alertmanager_Spec a) = Some 3" and "\<And>v. works settled (k v) Q"
  shows "works settled (attempt m1 (CreateOrUpdateAlertmanager quiet_client a)
    (\<lambda>_. attempt m2 (WaitForAlertmanager quiet_client a) k)) Q"
proof (rule applied_then [OF _ assms(2)])
  fix w assume w: "settled w"
  from settled_alertmanagers.upsert_puts [OF w, of "Namespace a" a
      "\<lambda>old. with_resource_version (mergeMetadata a old) old" "''Alertmanager''" "''Alertmanager''"]
  show "\<exists>w'. CreateOrUpdateAlertmanager quiet_client a w = (Ok (), w') \<and> settled w' \<and>
      (\<exists>v. WaitForAlertmanager quiet_client a w' = (Ok v, w'))"
    using assms(1) unfolding CreateOrUpdateAlertmanager_def quiet_client_simps
    by (auto simp: with_resource_version_def merged_more intro: operand_waits)
qed

lemma CreateOrUpdateThanosRuler_then:
  assumes "TR_Replicas (ThanosRuler_Spec t) = Some 2" and "\<And>v. works settled (k v) Q"
  shows "works settled (attempt m1 (CreateOrUpdateThanosRuler quiet_client t)
    (\<lambda>_. attempt m2 (WaitForThanosRuler quiet_client t) k)) Q"
proof (rule applied_then [OF _ assms(2)])
  fix w assume w: "settled w"
  from settled_rulers.upsert_puts [OF w, of "Namespace t" t
      "\<lambda>old. with_resource_version (mergeMetadata t old) old" "''Thanos Ruler''" "''Thanos Ruler''"]
  show "\<exists>w'. CreateOrUpdateThanosRuler quiet_client t w = (Ok (), w') \<and> settled w' \<and>
      (\<exists>v. WaitForThanosRuler quiet_client t w' = (Ok v, w'))"
    using assms(1) unfolding CreateOrUpdateThanosRuler_def quiet_client_simps
    by (auto simp: with_resource_version_def merged_more intro: operand_waits)
qed

lemma CreateRoute_then:
  assumes "route_complaint r = None" and "\<And>v. works settled (k v) Q"
  shows "works settled (attempt m1 (CreateRouteIfNotExists quiet_client r)
    (\<lambda>_. attempt m2 (WaitForRouteReady quiet_client r) k)) Q"
proof (rule applied_then [OF _ assms(2)])
  fix w assume w: "settled w"
  show "\<exists>w'. CreateRouteIfNotExists quiet_client r w = (Ok (), w') \<and> settled w' \<and>
      (\<exists>v. WaitForRouteReady quiet_client r w' = (Ok v, w'))"
  proof (cases "settled_routes.there w (Namespace r) (Name r)")
    case None
    from settled_routes.get_missing [OF w None] settled_routes.create_runs [OF w settled_routes.sits_own None]
      settled_routes.put_at_H [OF w, of "Namespace r" r] settled_routes.put_at_there [of "Namespace r" r w] assms(1)
    show ?thesis
      by (auto simp: CreateRouteIfNotExists_def create_object_def discard_def p_bind_def p_wrap_def p_catch_eqs same_namespace
          intro!: exI waits_work(3))
  next
    case (Some old)
    with settled_routes.get_there [OF w Some] w show ?thesis
      by (auto simp: CreateRouteIfNotExists_def p_catch_eqs intro: waits_work)
  qed
qed

text \<open>Reading what is anchored.\<close>

lemma anchored_reads:
  "(ns, n) \<in> secret_anchors \<Longrightarrow> works settled (GetSecret quiet_client ns n) (fine_secret (ns, n))"
  "(ns, n) \<in> configmap_anchors \<Longrightarrow> works settled (GetConfigmap quiet_client ns n) (fine_configmap (ns, n))"
  "(Namespace r, Name r) \<in> route_anchors \<Longrightarrow> works settled (GetRouteURL quiet_client r) (\<lambda>_. True)"
  unfolding works_def goes_def GetSecret_def GetConfigmap_def GetRouteURL_def quiet_client_simps
  using settled_secrets.anchored settled_configmaps.anchored settled_routes.anchored
  by (fastforce simp: attempt_def p_bind_def p_wrap_def
      dest: settled_secrets.get_there settled_configmaps.get_there settled_routes.get_there)+

lemma WaitForSecret_works:
  assumes "(Namespace s, Name s) \<in> secret_anchors"
  shows "works settled (WaitForSecret quiet_client s) (\<lambda>r. r \<noteq> None)"
proof (rule worksI)
  fix w assume w: "settled w"
  from settled_secrets.anchored [OF this assms] obtain x where
    x: "settled_secrets.there w (Namespace s) (Name s) = Some x" "fine_secret (Namespace s, Name s) x" by blast
  from settled_secrets.get_there [OF w x(1)] x(2) assms
  have "WaitForSecret quiet_client s w = (Ok (Some x), w)"
    unfolding WaitForSecret_def quiet_client_simps
    by (intro poll_at_once) (auto simp: fine_secret_def p_catch_def world_call_def conclude_def finished_def)
  with w show "goes settled (WaitForSecret quiet_client s) (\<lambda>r. r \<noteq> None) w" by (simp add: goes_def)
qed

lemma lists_work [methods_work]:
  "works settled (NamespacesToMonitor quiet_client) (\<lambda>_. True)"
  "works settled (AssurePrometheusOperatorCRsExist quiet_client) (\<lambda>_. True)"
proof -
  show "works settled (NamespacesToMonitor quiet_client) (\<lambda>_. True)"
    unfolding NamespacesToMonitor_def quiet_client_simps
    by (rule works_attempt [OF settled_namespaces.list_works]) (simp add: works_return)
  have "works settled (p_bind (r_List (Prometheuses quiet_client) ns '''') (\<lambda>_.
      p_bind (r_List (Alertmanagers quiet_client) ns '''') (\<lambda>_.
      p_bind (r_List (ServiceMonitors quiet_client) ns '''') (\<lambda>_. p_return (Ok True))))) (\<lambda>b. b)" for ns
    unfolding quiet_client_simps
    by (rule works_bind settled_prometheuses.list_works settled_alertmanagers.list_works settled_monitors.list_works
        works_return TrueI)+
  from polled_at_once [OF this] show "works settled (AssurePrometheusOperatorCRsExist quiet_client) (\<lambda>_. True)"
    unfolding AssurePrometheusOperatorCRsExist_def by simp
qed

text \<open>The old copies of a hashed object are deleted; what is anchored carries no label of such copies.\<close>

lemma unhashed_unselected:
  "selector_safe prefix \<Longrightarrow> selector_safe hash \<Longrightarrow> gm_lookup ls name_label = None \<Longrightarrow>
     \<not> selector_matches (hashed_selector prefix hash) ls"
  by (simp add: hashed_selector_matches name_label_def)

lemma hashed_deletions_work [methods_work]:
  assumes "ns \<noteq> ''''" and "selector_safe prefix" and "selector_safe hash"
  shows "works settled (DeleteHashedSecret quiet_client ns prefix hash) (\<lambda>_. True)"
    and "works settled (DeleteHashedConfigMap quiet_client ns prefix hash) (\<lambda>_. True)"
  unfolding DeleteHashedSecret_def DeleteHashedConfigMap_def delete_selected_def quiet_client_simps
  by (rule settled_secrets.delete_selected_works settled_configmaps.delete_selected_works;
      use assms unhashed_unselected in \<open>auto simp: fine_secret_def fine_configmap_def\<close>)+

lemma adapter_deletions_work [methods_work]:
  assumes "ns \<noteq> ''''" and "selector_safe hash"
  shows "works settled (deleteOldPrometheusAdapterSecrets quiet_client ns hash) (\<lambda>_. True)"
proof -
  have sel: "''monitoring.openshift.io/name=prometheus-adapter,monitoring.openshift.io/hash!='' @ hash =
      hashed_selector ''prometheus-adapter'' hash" by (simp add: hashed_selector_def)
  have "selector_safe ''prometheus-adapter''" by (simp add: selector_safe_def)
  from unhashed_unselected [OF this assms(2)] show ?thesis
    unfolding deleteOldPrometheusAdapterSecrets_def quiet_client_simps sel
    by (intro settled_secrets.delete_selected_works) (use assms(1) in \<open>auto simp: fine_secret_def\<close>)
qed

text \<open>Operands whose pods are gone.\<close>

lemma operand_removals_work [methods_work]:
  "works settled (DeletePrometheus quiet_client p) (\<lambda>_. True)"
  "works settled (DeleteThanosRuler quiet_client t) (\<lambda>_. True)"
proof -
  have "r_List (Pods quiet_client) ns sel w = (Ok [], w)" if "settled w" for ns sel w
    using that by (simp add: settled_def tracker_resource_def react_def tracker_List_def Pods_tracker_def
        sorted_list_of_fset.rep_eq)
  then have pods: "works settled (wait_for_no_pods msg quiet_client ns sel) (\<lambda>_. True)" for msg ns sel
    unfolding works_def goes_def wait_for_no_pods_def quiet_client_simps(30)
    by (auto intro!: poll_at_once simp: attempt_def p_bind_def p_wrap_def world_call_def conclude_def finished_def pods_complaint_def)
  show "works settled (DeletePrometheus quiet_client p) (\<lambda>_. True)" "works settled (DeleteThanosRuler quiet_client t) (\<lambda>_. True)"
    unfolding DeletePrometheus_def DeleteThanosRuler_def delete_ignoring_missing_def quiet_client_simps
    by (rule works_bind, rule works_wrap, rule settled_prometheuses.removal_works settled_rulers.removal_works, simp, rule pods)+
qed

text \<open>Removals.\<close>

lemma removals_work [methods_work]:
  "works settled (DeleteServiceAccount quiet_client sa) (\<lambda>_. True)"
  "works settled (DeleteClusterRole quiet_client cr) (\<lambda>_. True)"
  "works settled (DeleteClusterRoleBinding quiet_client crb) (\<lambda>_. True)"
  "works settled (DeleteService quiet_client svc) (\<lambda>_. True)"
  "works settled (DeletePrometheusRule quiet_client pr) (\<lambda>_. True)"
  "works settled (DeleteRoleBinding quiet_client rb) (\<lambda>_. True)"
  "works settled (DeleteRole quiet_client r) (\<lambda>_. True)"
  "works settled (DeleteDeployment quiet_client d) (\<lambda>_. True)"
  "works settled (DeleteServiceMonitor quiet_client sm) (\<lambda>_. True)"
  "works settled (DeleteServiceMonitorByNamespaceAndName quiet_client ns n) (\<lambda>_. True)"
  unfolding DeleteServiceAccount_def DeleteClusterRole_def DeleteClusterRoleBinding_def DeleteService_def
    DeletePrometheusRule_def DeleteRoleBinding_def DeleteRole_def DeleteDeployment_def DeleteServiceMonitor_def
    DeleteServiceMonitorByNamespaceAndName_def delete_ignoring_missing_def quiet_client_simps
  by (intro works_wrap settled_accounts.removal_works settled_clusterroles.removal_works
      settled_clusterrolebindings.removal_works settled_services.removal_works settled_rules.removal_works
      settled_rolebindings.removal_works settled_roles.removal_works settled_deployments.removal_works
      settled_monitors.removal_works; simp)+

lemma anchored_removals_work [methods_work]:
  "(Namespace s, Name s) \<notin> secret_anchors \<Longrightarrow> works settled (DeleteSecret quiet_client s) (\<lambda>_. True)"
  "(Namespace cm, Name cm) \<notin> configmap_anchors \<Longrightarrow> works settled (DeleteConfigMap quiet_client cm) (\<lambda>_. True)"
  "(Namespace r, Name r) \<notin> route_anchors \<Longrightarrow> works settled (DeleteRoute quiet_client r) (\<lambda>_. True)"
  unfolding DeleteSecret_def DeleteConfigMap_def DeleteRoute_def quiet_client_simps
  by (intro settled_secrets.removal_works settled_configmaps.removal_works settled_routes.removal_works; simp)+

text \<open>The trusted authorities are published; the root config map holds a bundle.\<close>

definition bundle_owners :: "string set" where
  "bundle_owners = {''prometheus'', ''alertmanager'', ''grafana'', ''thanos-querier'', ''thanos-ruler'', ''telemeter''}"

text \<open>The published copies are none of the objects that are read; their names begin differently.\<close>

lemma bundle_owner:
  assumes "prefix \<in> bundle_owners"
  shows "selector_safe prefix" and "Name x = prefix @ suffix \<Longrightarrow> fine_configmap (Namespace x, Name x) x"
proof -
  show "selector_safe prefix" using assms by (auto simp: bundle_owners_def selector_safe_def)
  assume n: "Name x = prefix @ suffix"
  have "take 2 (Name x) \<in> {''pr'', ''al'', ''gr'', ''th'', ''te''}"
    using assms unfolding n by (auto simp: bundle_owners_def)
  moreover have "take 2 n = ''as''" if "n \<in> bundle_names" for n
    using that by (auto simp: bundle_names_def)
  ultimately have "Name x \<notin> bundle_names" "Name x \<noteq> ''kubelet-serving-ca''" "Name x \<noteq> ''etcd-metric-serving-ca''"
    "Name x \<noteq> ''extension-apiserver-authentication''" by auto
  then show "fine_configmap (Namespace x, Name x) x" by (auto simp: fine_configmap_def configmap_anchors_def)
qed

lemma hashed_bundle:
  assumes "bundle_complaint cm = None" and "Namespace cm \<noteq> ''''"
  shows "\<exists>hashed h. HashTrustedCA f cm prefix = Ok hashed \<and> Namespace hashed = Namespace cm \<and>
    Name hashed = prefix @ ''-trusted-ca-bundle-'' @ FormatUint h \<and> gm_get (Labels hashed) hash_label = FormatUint h"
proof -
  from assms(1) obtain v where "gm_lookup (CM_Data cm) TrustedCABundleKey = Some v" "v \<noteq> ''''"
    by (auto simp: bundle_complaint_def split: option.splits if_splits)
  with assms(2) show ?thesis by (auto simp: HashTrustedCA_def Let_def gm_get_def)
qed

lemma syncTrustedCABundle_works [methods_work]:
  assumes cm: "fine_configmap (Namespace cm, Name cm) cm" "Name cm \<in> bundle_names" "Namespace cm \<noteq> ''''"
    and prefix: "prefix \<in> bundle_owners"
  shows "works settled (syncTrustedCABundle prefix quiet_client f cm) (\<lambda>_. True)"
proof (rule worksI)
  fix w assume w: "settled w"
  obtain x w1 where create: "CreateIfNotExistConfigMap quiet_client cm w = (Ok x, w1)" and w1: "settled w1"
    and x: "Name x = Name cm" "Namespace x = Namespace cm"
    and there: "settled_configmaps.there w1 (Namespace cm) (Name cm) = Some x"
  proof (cases "settled_configmaps.there w (Namespace cm) (Name cm)")
    case None
    from that [of cm "settled_configmaps.put_at (Namespace cm) cm w"] settled_configmaps.get_missing [OF w None]
      settled_configmaps.create_runs [OF w settled_configmaps.sits_own None]
      settled_configmaps.put_at_H [OF w, of "Namespace cm" cm] settled_configmaps.put_at_there [of "Namespace cm" cm w] cm(1)
    show ?thesis by (simp add: CreateIfNotExistConfigMap_def get_or_def p_catch_def p_wrap_def same_namespace)
  next
    case (Some old)
    from that [of old w] settled_configmaps.get_there [OF w Some] settled_configmaps.stored_fine [OF w Some] Some w
    show ?thesis by (simp add: CreateIfNotExistConfigMap_def get_or_def p_catch_def fine_configmap_def)
  qed
  have full: "bundle_complaint x = None"
    using settled_configmaps.stored_fine [OF w1 there] cm(2) by (simp add: fine_configmap_def)
  have wait: "wait_for_bundle quiet_client x w1 = (Ok (Some x), w1)"
    using settled_configmaps.get_there [OF w1 there] full x
    by (simp add: wait_for_bundle_def bundle_condition_def PollImmediate_def GetConfigmap_def p_bind_def p_catch_def
        world_call_def conclude_def finished_def)
  obtain hashed h where hashed: "HashTrustedCA f x prefix = Ok hashed" "Namespace hashed = Namespace x"
    "Name hashed = prefix @ ''-trusted-ca-bundle-'' @ FormatUint h" "gm_get (Labels hashed) hash_label = FormatUint h"
    using hashed_bundle [OF full, of f prefix] x cm(3) by auto
  have "works settled
      (attempt m1 (CreateOrUpdateConfigMap quiet_client hashed) (\<lambda>_.
       attempt m2 (DeleteHashedConfigMap quiet_client (Namespace x) prefix (gm_get (Labels hashed) hash_label)) (\<lambda>_.
       p_return (Ok hashed)))) (\<lambda>_. True)" for m1 m2
    unfolding hashed(4)
    by (intro works_attempt [OF upserts_work(5)] works_attempt [OF hashed_deletions_work(2)] works_return)
      (use bundle_owner(2) [OF prefix hashed(3)] bundle_owner(1) [OF prefix] x cm(3) in auto)
  from worksD [OF this w1] create wait hashed(1)
  show "goes settled (syncTrustedCABundle prefix quiet_client f cm) (\<lambda>_. True) w"
    by (simp add: syncTrustedCABundle_def goes_def attempt_def p_bind_def p_wrap_def)
qed

end
