(* ===== verification/Manifest_Progress.thy ===== *)
theory Manifest_Progress
  imports Progress
begin

text \<open>
  Every object that the tasks build from the manifests of the sample factory is built, and is what the
  client's methods need of it on a settled cluster.
\<close>

section \<open>Building objects\<close>

lemma works_returned: "(case r of Ok x \<Rightarrow> Q x | _ \<Rightarrow> False) \<Longrightarrow> works H (p_return r) Q"
  by (cases r) (simp_all add: works_return)

lemma cluster_from_asset:
  "name \<noteq> '''' \<Longrightarrow> from_asset cluster_factory new name adapt = p_return (r_bind (new (''assets/'' @ name)) adapt)"
  by (rule ext) (simp add: from_asset_def p_bind_def cluster_asset)

lemma cluster_factory_fields [simp]:
  "fac_namespace cluster_factory = ''openshift-monitoring''"
  "fac_namespaceUserWorkload cluster_factory = ''openshift-user-workload-monitoring''"
  "fac_config cluster_factory = NewDefaultConfig"
  by (simp_all add: cluster_factory_def)

lemmas manifests_read = NewDaemonSet_def NewService_def NewRoute_def NewSecret_def NewRoleBinding_def NewRoleList_def
  NewRoleBindingList_def NewConfigMapList_def NewRole_def NewConfigMap_def NewServiceAccount_def NewPrometheus_def
  NewPrometheusRule_def NewAlertmanager_def NewThanosRuler_def NewServiceMonitor_def NewDeployment_def
  NewAPIService_def NewSecurityContextConstraints_def NewClusterRoleBinding_def NewClusterRole_def
  NewValidatingWebhook_def read_DaemonSet_def read_Service_def read_Route_def read_Secret_def read_RoleBinding_def
  read_RoleList_def read_RoleBindingList_def read_ConfigMapList_def read_Role_def read_ConfigMap_def
  read_ServiceAccount_def read_Prometheus_def read_PrometheusRule_def read_Alertmanager_def read_ThanosRuler_def
  read_ServiceMonitor_def read_Deployment_def read_APIService_def read_SecurityContextConstraints_def
  read_ClusterRoleBinding_def read_ClusterRole_def read_ValidatingWebhook_def decoded_def default_namespace_def

lemma manifests_decode:
  "yaml_DaemonSet cluster_factory n = Inr (ObjectMeta.extend (manifest_meta n) \<lparr>DS_Template_Spec =
      manifest_pod, DS_rest = '''', DaemonSet_Status = \<lparr>DS_ObservedGeneration = 0, UpdatedNumberScheduled = 1, DesiredNumberScheduled = 1, NumberUnavailable = 0\<rparr>\<rparr>)"
  "yaml_Service cluster_factory n = Inr (sample_service '''' n '''')"
  "yaml_Route cluster_factory n = Inr (ObjectMeta.extend (manifest_meta n) \<lparr>Host = ''example.com'', Route_Path
      = '''', TLS_Termination = None, Ingress = [[\<lparr>RC_Type = ''Admitted'', RC_Status = ''True''\<rparr>]]\<rparr>)"
  "yaml_Secret cluster_factory n = Inr (sample_secret '''' n [] [(''datasources.yaml'', ''{}'')])"
  "yaml_RoleBinding cluster_factory n = Inr (manifest_rolebinding n)"
  "yaml_RoleList cluster_factory n = Inr [manifest_role n]"
  "yaml_RoleBindingList cluster_factory n = Inr [manifest_rolebinding n]"
  "yaml_Role cluster_factory n = Inr (manifest_role n)"
  "yaml_ConfigMap cluster_factory n = Inr (manifest_configmap n)"
  "yaml_ConfigMapList cluster_factory n = Inr [manifest_configmap n]"
  "yaml_ServiceAccount cluster_factory n = Inr (ObjectMeta.extend (manifest_meta n) \<lparr>SA_rest = ''''\<rparr>)"
  "yaml_Prometheus cluster_factory n = Inr (ObjectMeta.extend (manifest_meta n) \<lparr>Prometheus_Spec =
      manifest_prometheus\<rparr>)"
  "yaml_PrometheusRule cluster_factory n = Inr (ObjectMeta.extend (manifest_meta n) \<lparr>Groups = []\<rparr>)"
  "yaml_Alertmanager cluster_factory n = Inr (ObjectMeta.extend (manifest_meta n) \<lparr>Alertmanager_Spec =
      manifest_alertmanager\<rparr>)"
  "yaml_ThanosRuler cluster_factory n = Inr (ObjectMeta.extend (manifest_meta n) \<lparr>ThanosRuler_Spec =
      manifest_ruler\<rparr>)"
  "yaml_ServiceMonitor cluster_factory n = Inr (ObjectMeta.extend (manifest_meta n) \<lparr>Endpoints =
      manifest_endpoints, ServiceMonitor_rest = ''''\<rparr>)"
  "yaml_Deployment cluster_factory n = Inr (manifest_deployment n)"
  "yaml_APIService cluster_factory n = Inr (ObjectMeta.extend (manifest_meta n) \<lparr>CABundle = '''',
      APIService_rest = ''''\<rparr>)"
  "yaml_SecurityContextConstraints cluster_factory n = Inr (ObjectMeta.extend (manifest_meta n) \<lparr>SCC_rest =
      ''''\<rparr>)"
  "yaml_ClusterRoleBinding cluster_factory n = Inr (ObjectMeta.extend (manifest_meta n) \<lparr>CRB_RoleRef = '''',
      CRB_Subjects = manifest_subjects\<rparr>)"
  "yaml_ClusterRole cluster_factory n = Inr (sample_clusterrole n)"
  "yaml_ValidatingWebhook cluster_factory n = Inr (ObjectMeta.extend (manifest_meta n) \<lparr>Webhook_rest =
      ''''\<rparr>)"
  "unmarshal_datasources cluster_factory n = Inr \<lparr>ApiVersion = 1, Datasources = [Some
      manifest_datasource]\<rparr>"
  "marshal_datasources cluster_factory d = Inr ''{}''"
  "unmarshal_strings cluster_factory s = Ok []"
  "marshal_map cluster_factory m = ''{}''"
  "rand_Read cluster_factory k = p_return (Ok (replicate k CHR ''x''))"
  by (simp_all add: cluster_factory_def)

lemmas built = cluster_from_asset works_returned manifests_read manifests_decode placed_def bound_in_def
  set_ServerName_def manifest_subjects_def manifest_endpoints_def sample_defs manifest_meta_def
  manifest_rolebinding_def manifest_role_def manifest_configmap_def

text \<open>What is required of the stored objects holds of the objects of the manifests.\<close>

lemmas fine_here = fine_secret_def fine_configmap_def secret_anchors_def configmap_anchors_def bundle_names_def
  bundle_complaint_def TrustedCABundleKey_def

text \<open>The default configuration has all its parts; etcd, telemetry and user workloads are off.\<close>

lemmas default_parts = NewDefaultConfig_def applyDefaults_def applyDefaults_cmc_def NewDefaultUserWorkloadMonitoringConfig_def
  applyDefaults_user_def zero_Config_def zero_ClusterMonitoringConfiguration_def zero_UserWorkloadConfiguration_def
  default_PrometheusK8sConfig_def default_to_def zero_PrometheusK8sConfig_def zero_TelemeterClientConfig_def Let_def

lemma cluster_parts [simp]:
  "etcd_enabled cluster_factory = Ok False"
  "config_etcd_enabled NewDefaultConfig = Ok False"
  "IsUserWorkloadEnabled NewDefaultConfig = Ok False"
  "telemeter_enabled NewDefaultConfig = Ok False"
  by (simp_all add: etcd_enabled_def config_etcd_enabled_def EtcdConfig_IsEnabled_def IsUserWorkloadEnabled_def
      UserWorkloadConfig_isEnabled_def telemeter_enabled_def TelemeterClientConfig_IsEnabled_def default_parts)

lemma configmap_ConfigMap_built [methods_work]:
  "works settled (PrometheusOperatorCertsCABundle cluster_factory) (\<lambda>x. fine_configmap (Namespace x, Name x) x)"
  "works settled (GrafanaDashboardSources cluster_factory) (\<lambda>x. fine_configmap (Namespace x, Name x) x)"
  "works settled (PrometheusK8sServingCertsCABundle cluster_factory) (\<lambda>x. fine_configmap (Namespace x, Name x) x)"
  "works settled (PrometheusAdapterConfigMap cluster_factory) (\<lambda>x. fine_configmap (Namespace x, Name x) x)"
  "works settled (PrometheusAdapterConfigMapPrometheus cluster_factory) (\<lambda>x. fine_configmap (Namespace x, Name x) x)"
  unfolding PrometheusOperatorCertsCABundle_def GrafanaDashboardSources_def PrometheusK8sServingCertsCABundle_def
    PrometheusAdapterConfigMap_def PrometheusAdapterConfigMapPrometheus_def
      by (simp_all add: built fine_here)

lemma plain_ServiceAccount_built [methods_work]:
  "works settled (PrometheusOperatorServiceAccount cluster_factory) (\<lambda>_. True)"
  "works settled (GrafanaServiceAccount cluster_factory) (\<lambda>_. True)"
  "works settled (PrometheusK8sServiceAccount cluster_factory) (\<lambda>_. True)"
  "works settled (AlertmanagerServiceAccount cluster_factory) (\<lambda>_. True)"
  "works settled (NodeExporterServiceAccount cluster_factory) (\<lambda>_. True)"
  "works settled (KubeStateMetricsServiceAccount cluster_factory) (\<lambda>_. True)"
  "works settled (OpenShiftStateMetricsServiceAccount cluster_factory) (\<lambda>_. True)"
  "works settled (PrometheusAdapterServiceAccount cluster_factory) (\<lambda>_. True)"
  "works settled (TelemeterClientServiceAccount cluster_factory) (\<lambda>_. True)"
  "works settled (ThanosQuerierServiceAccount cluster_factory) (\<lambda>_. True)"
  "works settled (PrometheusOperatorUserWorkloadServiceAccount cluster_factory) (\<lambda>_. True)"
  "works settled (PrometheusUserWorkloadServiceAccount cluster_factory) (\<lambda>_. True)"
  "works settled (ThanosRulerServiceAccount cluster_factory) (\<lambda>_. True)"
  unfolding PrometheusOperatorServiceAccount_def GrafanaServiceAccount_def PrometheusK8sServiceAccount_def
    AlertmanagerServiceAccount_def NodeExporterServiceAccount_def KubeStateMetricsServiceAccount_def
    OpenShiftStateMetricsServiceAccount_def PrometheusAdapterServiceAccount_def
    TelemeterClientServiceAccount_def ThanosQuerierServiceAccount_def
    PrometheusOperatorUserWorkloadServiceAccount_def PrometheusUserWorkloadServiceAccount_def
    ThanosRulerServiceAccount_def
  by (simp_all add: built)

lemma cluster_ClusterRole_built [methods_work]:
  "works settled (PrometheusOperatorClusterRole cluster_factory) (\<lambda>x. Namespace x = '''')"
  "works settled (ClusterMonitoringClusterRole cluster_factory) (\<lambda>x. Namespace x = '''')"
  "works settled (ClusterMonitoringRulesEditClusterRole cluster_factory) (\<lambda>x. Namespace x = '''')"
  "works settled (ClusterMonitoringRulesViewClusterRole cluster_factory) (\<lambda>x. Namespace x = '''')"
  "works settled (ClusterMonitoringEditClusterRole cluster_factory) (\<lambda>x. Namespace x = '''')"
  "works settled (GrafanaClusterRole cluster_factory) (\<lambda>x. Namespace x = '''')"
  "works settled (PrometheusK8sClusterRole cluster_factory) (\<lambda>x. Namespace x = '''')"
  "works settled (AlertmanagerClusterRole cluster_factory) (\<lambda>x. Namespace x = '''')"
  "works settled (NodeExporterClusterRole cluster_factory) (\<lambda>x. Namespace x = '''')"
  "works settled (KubeStateMetricsClusterRole cluster_factory) (\<lambda>x. Namespace x = '''')"
  "works settled (OpenShiftStateMetricsClusterRole cluster_factory) (\<lambda>x. Namespace x = '''')"
  "works settled (PrometheusAdapterClusterRole cluster_factory) (\<lambda>x. Namespace x = '''')"
  "works settled (PrometheusAdapterClusterRoleServerResources cluster_factory) (\<lambda>x. Namespace x = '''')"
  "works settled (PrometheusAdapterClusterRoleAggregatedMetricsReader cluster_factory) (\<lambda>x. Namespace x = '''')"
  "works settled (TelemeterClientClusterRole cluster_factory) (\<lambda>x. Namespace x = '''')"
  "works settled (ThanosQuerierClusterRole cluster_factory) (\<lambda>x. Namespace x = '''')"
  "works settled (PrometheusOperatorUserWorkloadClusterRole cluster_factory) (\<lambda>x. Namespace x = '''')"
  "works settled (PrometheusUserWorkloadClusterRole cluster_factory) (\<lambda>x. Namespace x = '''')"
  "works settled (ThanosRulerClusterRole cluster_factory) (\<lambda>x. Namespace x = '''')"
  unfolding PrometheusOperatorClusterRole_def ClusterMonitoringClusterRole_def
    ClusterMonitoringRulesEditClusterRole_def ClusterMonitoringRulesViewClusterRole_def
    ClusterMonitoringEditClusterRole_def GrafanaClusterRole_def PrometheusK8sClusterRole_def
    AlertmanagerClusterRole_def NodeExporterClusterRole_def KubeStateMetricsClusterRole_def
    OpenShiftStateMetricsClusterRole_def PrometheusAdapterClusterRole_def
    PrometheusAdapterClusterRoleServerResources_def PrometheusAdapterClusterRoleAggregatedMetricsReader_def
    TelemeterClientClusterRole_def ThanosQuerierClusterRole_def
    PrometheusOperatorUserWorkloadClusterRole_def PrometheusUserWorkloadClusterRole_def
    ThanosRulerClusterRole_def
  by (simp_all add: built)

lemma cluster_ClusterRoleBinding_built [methods_work]:
  "works settled (PrometheusOperatorClusterRoleBinding cluster_factory) (\<lambda>x. Namespace x = '''')"
  "works settled (GrafanaClusterRoleBinding cluster_factory) (\<lambda>x. Namespace x = '''')"
  "works settled (PrometheusK8sClusterRoleBinding cluster_factory) (\<lambda>x. Namespace x = '''')"
  "works settled (AlertmanagerClusterRoleBinding cluster_factory) (\<lambda>x. Namespace x = '''')"
  "works settled (NodeExporterClusterRoleBinding cluster_factory) (\<lambda>x. Namespace x = '''')"
  "works settled (KubeStateMetricsClusterRoleBinding cluster_factory) (\<lambda>x. Namespace x = '''')"
  "works settled (OpenShiftStateMetricsClusterRoleBinding cluster_factory) (\<lambda>x. Namespace x = '''')"
  "works settled (PrometheusAdapterClusterRoleBinding cluster_factory) (\<lambda>x. Namespace x = '''')"
  "works settled (PrometheusAdapterClusterRoleBindingDelegator cluster_factory) (\<lambda>x. Namespace x = '''')"
  "works settled (PrometheusAdapterClusterRoleBindingView cluster_factory) (\<lambda>x. Namespace x = '''')"
  "works settled (TelemeterClientClusterRoleBinding cluster_factory) (\<lambda>x. Namespace x = '''')"
  "works settled (ThanosQuerierClusterRoleBinding cluster_factory) (\<lambda>x. Namespace x = '''')"
  "works settled (PrometheusOperatorUserWorkloadClusterRoleBinding cluster_factory) (\<lambda>x. Namespace x = '''')"
  "works settled (PrometheusUserWorkloadClusterRoleBinding cluster_factory) (\<lambda>x. Namespace x = '''')"
  "works settled (ThanosRulerClusterRoleBinding cluster_factory) (\<lambda>x. Namespace x = '''')"
  unfolding PrometheusOperatorClusterRoleBinding_def GrafanaClusterRoleBinding_def
    PrometheusK8sClusterRoleBinding_def AlertmanagerClusterRoleBinding_def
    NodeExporterClusterRoleBinding_def KubeStateMetricsClusterRoleBinding_def
    OpenShiftStateMetricsClusterRoleBinding_def PrometheusAdapterClusterRoleBinding_def
    PrometheusAdapterClusterRoleBindingDelegator_def PrometheusAdapterClusterRoleBindingView_def
    TelemeterClientClusterRoleBinding_def ThanosQuerierClusterRoleBinding_def
    PrometheusOperatorUserWorkloadClusterRoleBinding_def PrometheusUserWorkloadClusterRoleBinding_def
    ThanosRulerClusterRoleBinding_def
  by (simp_all add: built)

lemma plain_Service_built [methods_work]:
  "works settled (PrometheusOperatorService cluster_factory) (\<lambda>_. True)"
  "works settled (ClusterMonitoringOperatorService cluster_factory) (\<lambda>_. True)"
  "works settled (GrafanaService cluster_factory) (\<lambda>_. True)"
  "works settled (PrometheusK8sService cluster_factory) (\<lambda>_. True)"
  "works settled (PrometheusK8sServiceThanosSidecar cluster_factory) (\<lambda>_. True)"
  "works settled (AlertmanagerService cluster_factory) (\<lambda>_. True)"
  "works settled (NodeExporterService cluster_factory) (\<lambda>_. True)"
  "works settled (KubeStateMetricsService cluster_factory) (\<lambda>_. True)"
  "works settled (OpenShiftStateMetricsService cluster_factory) (\<lambda>_. True)"
  "works settled (PrometheusAdapterService cluster_factory) (\<lambda>_. True)"
  "works settled (TelemeterClientService cluster_factory) (\<lambda>_. True)"
  "works settled (ThanosQuerierService cluster_factory) (\<lambda>_. True)"
  "works settled (PrometheusOperatorUserWorkloadService cluster_factory) (\<lambda>_. True)"
  "works settled (PrometheusUserWorkloadService cluster_factory) (\<lambda>_. True)"
  "works settled (PrometheusUserWorkloadServiceThanosSidecar cluster_factory) (\<lambda>_. True)"
  "works settled (ThanosRulerService cluster_factory) (\<lambda>_. True)"
  unfolding PrometheusOperatorService_def ClusterMonitoringOperatorService_def GrafanaService_def
    PrometheusK8sService_def PrometheusK8sServiceThanosSidecar_def AlertmanagerService_def
    NodeExporterService_def KubeStateMetricsService_def OpenShiftStateMetricsService_def
    PrometheusAdapterService_def TelemeterClientService_def ThanosQuerierService_def
    PrometheusOperatorUserWorkloadService_def PrometheusUserWorkloadService_def
    PrometheusUserWorkloadServiceThanosSidecar_def ThanosRulerService_def
  by (simp_all add: built)

lemma cluster_ValidatingWebhookConfiguration_built [methods_work]:
  "works settled (PrometheusRuleValidatingWebhook cluster_factory) (\<lambda>x. Namespace x = '''')"
  unfolding PrometheusRuleValidatingWebhook_def
  by (simp_all add: built)

lemma plain_ServiceMonitor_built [methods_work]:
  "works settled (PrometheusOperatorServiceMonitor cluster_factory) (\<lambda>_. True)"
  "works settled (ClusterMonitoringOperatorServiceMonitor cluster_factory) (\<lambda>_. True)"
  "works settled (GrafanaServiceMonitor cluster_factory) (\<lambda>_. True)"
  "works settled (PrometheusK8sKubeletServiceMonitor cluster_factory) (\<lambda>_. True)"
  "works settled (PrometheusK8sEtcdServiceMonitor cluster_factory) (\<lambda>_. True)"
  "works settled (PrometheusK8sPrometheusServiceMonitor cluster_factory) (\<lambda>_. True)"
  "works settled (PrometheusK8sThanosSidecarServiceMonitor cluster_factory) (\<lambda>_. True)"
  "works settled (AlertmanagerServiceMonitor cluster_factory) (\<lambda>_. True)"
  "works settled (NodeExporterServiceMonitor cluster_factory) (\<lambda>_. True)"
  "works settled (KubeStateMetricsServiceMonitor cluster_factory) (\<lambda>_. True)"
  "works settled (OpenShiftStateMetricsServiceMonitor cluster_factory) (\<lambda>_. True)"
  "works settled (PrometheusAdapterServiceMonitor cluster_factory) (\<lambda>_. True)"
  "works settled (TelemeterClientServiceMonitor cluster_factory) (\<lambda>_. True)"
  "works settled (ThanosQuerierServiceMonitor cluster_factory) (\<lambda>_. True)"
  "works settled (PrometheusOperatorUserWorkloadServiceMonitor cluster_factory) (\<lambda>_. True)"
  "works settled (PrometheusUserWorkloadThanosSidecarServiceMonitor cluster_factory) (\<lambda>_. True)"
  "works settled (PrometheusUserWorkloadPrometheusServiceMonitor cluster_factory) (\<lambda>_. True)"
  "works settled (ThanosRulerServiceMonitor cluster_factory) (\<lambda>_. True)"
  unfolding PrometheusOperatorServiceMonitor_def ClusterMonitoringOperatorServiceMonitor_def
    GrafanaServiceMonitor_def PrometheusK8sKubeletServiceMonitor_def PrometheusK8sEtcdServiceMonitor_def
    PrometheusK8sPrometheusServiceMonitor_def PrometheusK8sThanosSidecarServiceMonitor_def
    AlertmanagerServiceMonitor_def NodeExporterServiceMonitor_def KubeStateMetricsServiceMonitor_def
    OpenShiftStateMetricsServiceMonitor_def PrometheusAdapterServiceMonitor_def
    TelemeterClientServiceMonitor_def ThanosQuerierServiceMonitor_def
    PrometheusOperatorUserWorkloadServiceMonitor_def PrometheusUserWorkloadThanosSidecarServiceMonitor_def
    PrometheusUserWorkloadPrometheusServiceMonitor_def ThanosRulerServiceMonitor_def
  by (simp_all add: built)

lemma plain_Role_built [methods_work]:
  "works settled (ClusterMonitoringEditUserWorkloadConfigRole cluster_factory) (\<lambda>_. True)"
  "works settled (PrometheusK8sRoleConfig cluster_factory) (\<lambda>_. True)"
  "works settled (PrometheusUserWorkloadRoleConfig cluster_factory) (\<lambda>_. True)"
  unfolding ClusterMonitoringEditUserWorkloadConfigRole_def PrometheusK8sRoleConfig_def
    PrometheusUserWorkloadRoleConfig_def
  by (simp_all add: built)

lemma route_Route_built [methods_work]:
  "works settled (GrafanaRoute cluster_factory) (\<lambda>r. route_complaint r = None \<and> (Namespace r, Name r) \<in> route_anchors)"
  "works settled (PrometheusK8sRoute cluster_factory) (\<lambda>r. route_complaint r = None \<and> (Namespace r, Name r) \<in> route_anchors)"
  "works settled (AlertmanagerRoute cluster_factory) (\<lambda>r. route_complaint r = None \<and> (Namespace r, Name r) \<in> route_anchors)"
  "works settled (ThanosQuerierRoute cluster_factory) (\<lambda>r. route_complaint r = None \<and> (Namespace r, Name r) \<in> route_anchors)"
  unfolding GrafanaRoute_def PrometheusK8sRoute_def AlertmanagerRoute_def ThanosQuerierRoute_def
      by (simp_all add: built route_complaint_def route_anchors_def)

lemma secret_Secret_built [methods_work]:
  "works settled (GrafanaConfig_secret cluster_factory) (\<lambda>s. fine_secret (Namespace s, Name s) s)"
  "works settled (PrometheusRBACProxySecret cluster_factory) (\<lambda>s. fine_secret (Namespace s, Name s) s)"
  "works settled (AlertmanagerConfig cluster_factory) (\<lambda>s. fine_secret (Namespace s, Name s) s)"
  "works settled (AlertmanagerRBACProxySecret cluster_factory) (\<lambda>s. fine_secret (Namespace s, Name s) s)"
  "works settled (ThanosQuerierRBACProxySecret cluster_factory) (\<lambda>s. fine_secret (Namespace s, Name s) s)"
  "works settled (ThanosQuerierRBACProxyRulesSecret cluster_factory) (\<lambda>s. fine_secret (Namespace s, Name s) s)"
  unfolding GrafanaConfig_secret_def PrometheusRBACProxySecret_def     AlertmanagerConfig_def AlertmanagerRBACProxySecret_def ThanosQuerierRBACProxySecret_def
    ThanosQuerierRBACProxyRulesSecret_def           by (simp_all add: built fine_here)

lemma bundle_ConfigMap_built [methods_work]:
  "works settled (GrafanaTrustedCABundle cluster_factory) (\<lambda>x. fine_configmap (Namespace x, Name x) x \<and> Name x \<in> bundle_names \<and> Namespace x \<noteq> '''')"
  "works settled (PrometheusK8sTrustedCABundle cluster_factory) (\<lambda>x. fine_configmap (Namespace x, Name x) x \<and> Name x \<in> bundle_names \<and> Namespace x \<noteq> '''')"
  "works settled (AlertmanagerTrustedCABundle cluster_factory) (\<lambda>x. fine_configmap (Namespace x, Name x) x \<and> Name x \<in> bundle_names \<and> Namespace x \<noteq> '''')"
  "works settled (ThanosQuerierTrustedCABundle cluster_factory) (\<lambda>x. fine_configmap (Namespace x, Name x) x \<and> Name x \<in> bundle_names \<and> Namespace x \<noteq> '''')"
  unfolding GrafanaTrustedCABundle_def PrometheusK8sTrustedCABundle_def AlertmanagerTrustedCABundle_def
    ThanosQuerierTrustedCABundle_def   by (simp_all add: built fine_here)

lemma plain_Role_list_built [methods_work]:
  "works settled (PrometheusK8sRoleList cluster_factory) (\<lambda>_. True)"
  "works settled (PrometheusUserWorkloadRoleList cluster_factory) (\<lambda>_. True)"
  unfolding PrometheusK8sRoleList_def PrometheusUserWorkloadRoleList_def
  by (simp_all add: built)

lemma plain_RoleBinding_list_built [methods_work]:
  "works settled (PrometheusK8sRoleBindingList cluster_factory) (\<lambda>_. True)"
  "works settled (PrometheusUserWorkloadRoleBindingList cluster_factory) (\<lambda>_. True)"
  unfolding PrometheusK8sRoleBindingList_def PrometheusUserWorkloadRoleBindingList_def
  by (simp_all add: built)

lemma plain_RoleBinding_built [methods_work]:
  "works settled (PrometheusK8sRoleBindingConfig cluster_factory) (\<lambda>_. True)"
  "works settled (PrometheusAdapterRoleBindingAuthReader cluster_factory) (\<lambda>_. True)"
  "works settled (PrometheusUserWorkloadRoleBindingConfig cluster_factory) (\<lambda>_. True)"
  unfolding PrometheusK8sRoleBindingConfig_def PrometheusAdapterRoleBindingAuthReader_def
    PrometheusUserWorkloadRoleBindingConfig_def
  by (simp_all add: built)

lemma plain_PrometheusRule_built [methods_work]:
  "works settled (PrometheusK8sRules cluster_factory) (\<lambda>_. True)"
  "works settled (ThanosQuerierPrometheusRule cluster_factory) (\<lambda>_. True)"
  "works settled (ThanosRulerPrometheusRule cluster_factory) (\<lambda>_. True)"
  unfolding PrometheusK8sRules_def ThanosQuerierPrometheusRule_def ThanosRulerPrometheusRule_def
  by (simp_all add: built Let_def)

lemma cluster_SecurityContextConstraints_built [methods_work]:
  "works settled (NodeExporterSecurityContextConstraints cluster_factory) (\<lambda>x. Namespace x = '''')"
  unfolding NodeExporterSecurityContextConstraints_def
  by (simp_all add: built)

lemma cluster_APIService_built [methods_work]:
  "works settled (PrometheusAdapterAPIService cluster_factory) (\<lambda>x. Namespace x = '''')"
  unfolding PrometheusAdapterAPIService_def
  by (simp_all add: built)


text \<open>Passwords are drawn, and secrets that hold them are none of those that are anchored.\<close>

lemma password_works: "works settled (password cluster_factory n) (\<lambda>_. True)"
  by (simp add: password_def works_def goes_def p_bind_def manifests_decode GeneratePassword_def)

lemma session_secret_works:
  assumes "name \<noteq> ''''" "name \<noteq> ''cluster-monitoring-operator/grpc-tls-secret.yaml''" "name \<noteq> ''grafana/dashboard-datasources.yaml''"
  shows "works settled (session_secret cluster_factory name ns) (\<lambda>s. fine_secret (Namespace s, Name s) s)"
  unfolding session_secret_def
proof (rule works_bind)
  show "works settled (from_asset cluster_factory (NewSecret cluster_factory) name Ok)
      (\<lambda>s. Name s = ''assets/'' @ name \<and> Data s \<noteq> None)"
    using assms(1) by (simp add: built gm_of_list_def)
next
  fix s :: Secret assume "Name s = ''assets/'' @ name \<and> Data s \<noteq> None"
  with assms show "works settled (p_bind (password cluster_factory 43)
      (\<lambda>p. p_return (r_bind (gm_set (Data s) ''session_secret'' p) (\<lambda>m. Ok (s\<lparr>Data := m, Namespace := ns\<rparr>)))))
      (\<lambda>s. fine_secret (Namespace s, Name s) s)"
    by (intro works_bind [OF password_works] works_returned) (auto simp: fine_secret_def secret_anchors_def)
qed

lemma session_secrets_built [methods_work]:
  "works settled (AlertmanagerProxySecret cluster_factory) (\<lambda>s. fine_secret (Namespace s, Name s) s)"
  "works settled (PrometheusK8sProxySecret cluster_factory) (\<lambda>s. fine_secret (Namespace s, Name s) s)"
  "works settled (ThanosQuerierOauthCookieSecret cluster_factory) (\<lambda>s. fine_secret (Namespace s, Name s) s)"
  "works settled (GrafanaProxySecret cluster_factory) (\<lambda>s. fine_secret (Namespace s, Name s) s)"
  unfolding AlertmanagerProxySecret_def PrometheusK8sProxySecret_def ThanosQuerierOauthCookieSecret_def
    GrafanaProxySecret_def
  by (simp_all add: session_secret_works)

lemma htpasswd_secrets_built [methods_work]:
  "works settled (PrometheusK8sHtpasswdSecret cluster_factory pw) (\<lambda>s. fine_secret (Namespace s, Name s) s)"
  "works settled (ThanosQuerierHtpasswdSecret cluster_factory pw) (\<lambda>s. fine_secret (Namespace s, Name s) s)"
  unfolding PrometheusK8sHtpasswdSecret_def ThanosQuerierHtpasswdSecret_def
  by (simp_all add: built generateHtpasswdSecret_def fine_here gm_of_list_def)

text \<open>The secrets that are waited for.\<close>

lemma anchored_Secret_built [methods_work]:
  "works settled (GRPCSecret cluster_factory) (\<lambda>s. (Namespace s, Name s) \<in> secret_anchors)"
  "works settled (GrafanaDatasources_secret cluster_factory)
     (\<lambda>s. (Namespace s, Name s) \<in> secret_anchors \<and> fine_secret (Namespace s, Name s) s)"
proof -
  show "works settled (GRPCSecret cluster_factory) (\<lambda>s. (Namespace s, Name s) \<in> secret_anchors)"
    by (simp add: GRPCSecret_def built secret_anchors_def)
  have "works settled (from_asset cluster_factory (NewSecret cluster_factory) ''grafana/dashboard-datasources.yaml'' Ok)
      (\<lambda>s. s = sample_secret ''openshift-monitoring'' ''assets/grafana/dashboard-datasources.yaml'' [] [(''datasources.yaml'', ''{}'')])"
    by (simp add: built)
  then show "works settled (GrafanaDatasources_secret cluster_factory)
      (\<lambda>s. (Namespace s, Name s) \<in> secret_anchors \<and> fine_secret (Namespace s, Name s) s)"
    unfolding GrafanaDatasources_secret_def
    apply (rule works_bind)
    apply (rule works_bind [where P = "\<lambda>d. d = \<lparr>ApiVersion = 1, Datasources = [Some manifest_datasource]\<rparr>"])
    apply (rule works_returned, simp add: built)
    apply (rule works_catch [OF password_works])
    apply (rule works_returned)
    apply (simp add: built with_password_def secret_anchors_def fine_secret_def secret_complaint_def gm_of_list_def name_label_def
      fmlookup_ran_iff)
    done
qed

text \<open>The other objects.\<close>

lemma special_built [methods_work]:
  "works settled (GrafanaDashboardDefinitions cluster_factory) (\<lambda>cms. \<forall>cm\<in>set cms. fine_configmap (Namespace cm, Name cm) cm)"
  "works settled (PrometheusK8sKubeletServingCABundle cluster_factory m) (\<lambda>cm. fine_configmap (Namespace cm, Name cm) cm)"
  by (simp_all add: GrafanaDashboardDefinitions_def PrometheusK8sKubeletServingCABundle_def built fine_here)

section \<open>Workloads\<close>

lemmas workloads_built = on_template_def manifest_deployment_def manifest_pod_def manifest_container_def
  only_containers_def on_containers_def cmc_of_def images_of_def user_cfg_of_def default_parts
  deployment_complaint_def daemonset_complaint_def grafana_container_def querier_container_def
  unchanged_volumes_def placed_pods_def placed_pods_nonempty_def

lemma Deployment_built [methods_work]:
  "works settled (KubeStateMetricsDeployment cluster_factory) (\<lambda>d. deployment_complaint d = None)"
  "works settled (OpenShiftStateMetricsDeployment cluster_factory) (\<lambda>d. deployment_complaint d = None)"
  "works settled (PrometheusOperatorDeployment cluster_factory nss) (\<lambda>d. deployment_complaint d = None)"
  "works settled (GrafanaDeployment cluster_factory bnd) (\<lambda>d. deployment_complaint d = None)"
  "works settled (ThanosQuerierDeployment cluster_factory (Some grpc) enabled bnd) (\<lambda>d. deployment_complaint d = None)"
  "works settled (PrometheusOperatorUserWorkloadDeployment cluster_factory nss) (\<lambda>d. deployment_complaint d = None)"
  "works settled (TelemeterClientDeployment cluster_factory bnd) (\<lambda>d. deployment_complaint d = None)"
  unfolding KubeStateMetricsDeployment_def OpenShiftStateMetricsDeployment_def PrometheusOperatorDeployment_def
    GrafanaDeployment_def ThanosQuerierDeployment_def PrometheusOperatorUserWorkloadDeployment_def
    TelemeterClientDeployment_def telemeter_container_def telemeter_of_factory_def
  by (simp_all add: built workloads_built)

lemma DaemonSet_built [methods_work]:
  "works settled (NodeExporterDaemonSet cluster_factory) (\<lambda>d. daemonset_complaint d = None)"
  unfolding NodeExporterDaemonSet_def by (simp add: built workloads_built)

lemma adapter_Deployment_built [methods_work]:
  assumes "has_keys [''requestheader-allowed-names'', ''requestheader-extra-headers-prefix'',
    ''requestheader-group-headers'', ''requestheader-username-headers''] requestheader"
  shows "works settled (PrometheusAdapterDeployment cluster_factory n requestheader) (\<lambda>d. deployment_complaint d = None)"
  using assms
  by (auto simp: PrometheusAdapterDeployment_def built workloads_built has_keys_def reader_slice_def reader_value_def
      newErrMapReader_def reader_Error_def)

text \<open>What the operands need of the default configuration.\<close>

lemma default_operands:
  "\<exists>m. cmc_of cluster_factory = Ok m \<and> (\<exists>am. cmc_AlertmanagerMainConfig m = Some am) \<and>
     (\<exists>pk. cmc_PrometheusK8sConfig m = Some pk \<and> pk_RemoteWrite pk = []) \<and>
     \<not> TelemeterClientConfig_IsEnabled (cmc_TelemeterClientConfig m)"
  "\<exists>i. images_of cluster_factory = Ok i"
  by (simp_all add: cmc_of_def images_of_def TelemeterClientConfig_IsEnabled_def default_parts)

lemma operand_built [methods_work]:
  "works settled (AlertmanagerMain cluster_factory host bnd) (\<lambda>a. AM_Replicas (Alertmanager_Spec a) = Some 3)"
  "works settled (PrometheusK8s cluster_factory host (Some grpc) bnd) (\<lambda>p. Prom_Replicas (Prometheus_Spec p) = Some 2)"
proof -
  obtain m i am pk where m: "cmc_of cluster_factory = Ok m" "images_of cluster_factory = Ok i"
      "cmc_AlertmanagerMainConfig m = Some am" "cmc_PrometheusK8sConfig m = Some pk"
      "\<not> TelemeterClientConfig_IsEnabled (cmc_TelemeterClientConfig m)" "pk_RemoteWrite pk = []"
    using default_operands by blast
  show "works settled (AlertmanagerMain cluster_factory host bnd) (\<lambda>a. AM_Replicas (Alertmanager_Spec a) = Some 3)"
    by (simp add: AlertmanagerMain_def built m manifest_alertmanager_def)

  have "\<exists>s. PrometheusK8s_spec cluster_factory host (Some grpc) bnd manifest_prometheus = Ok s \<and> Prom_Replicas s = Some 2"
    by (auto simp: PrometheusK8s_spec_def m manifest_prometheus_def remote_writes_def proxy_loop_def thanos_image_def
        first_alertmanager_def prometheus_bundle_def split: option.split)
  then show "works settled (PrometheusK8s cluster_factory host (Some grpc) bnd) (\<lambda>p. Prom_Replicas (Prometheus_Spec p) = Some 2)"
    by (auto simp: PrometheusK8s_def built)
qed

end
