(* ===== verification/Task_Progress.thy ===== *)
theory Task_Progress
  imports Manifest_Progress
begin

text \<open>
  Every task of the sample factory under the default configuration, in which etcd, telemetry and user
  workloads are off, comes to its end and returns nil when the cluster is settled, and leaves it settled.
\<close>

section \<open>Steps that tasks share\<close>

lemma works_deref: "r \<noteq> None \<Longrightarrow> (\<And>x. works H (k x) Q) \<Longrightarrow> works H (p_bind (p_return (deref r)) k) Q"
  by (auto simp: works_def goes_def p_bind_def)

lemma works_value: "r = Ok x \<Longrightarrow> works H (k x) Q \<Longrightarrow> works H (p_bind (p_return r) k) Q"
  by (simp add: works_def goes_def p_bind_def)

lemma works_if_not:
  "works H m (\<lambda>_. True) \<Longrightarrow> (\<And>x. works H (k x) Q) \<Longrightarrow> works H (p_bind (if False then m' else m) k) Q"
  by (auto intro: works_bind)

lemma works_read_or:
  assumes "works H m P" and "\<And>x. P x \<Longrightarrow> works H (k x) Q"
  shows "works H (p_catch m (\<lambda>r. p_bind (p_return (case r of Inl e \<Rightarrow> g e | Inr x \<Rightarrow> Ok x)) k)) Q"
  by (rule works_catch [OF assms(1)], rule works_value, rule sum.case(2), rule assms(2))

text \<open>The certificates of the operator are not due: the sample library dates them from 0 to 100.\<close>

lemma rotated_keeps:
  assumes "has_keys [''ca.crt'', ''ca.key''] (Data s)" and "gm_lookup (Annotations s) forced_rotate = None"
  shows "rotated simple_crypto 10 10 s = Ok s"
  using assms
  by (auto simp: rotated_def RotateGRPCSecret_def due_def current_CA_def has_keys_def gm_has_def simple_crypto_def
      needsNewCert_def truncating_div_def Let_def)

definition grpc_address :: "string \<times> string" where
  "grpc_address = (''openshift-monitoring'', ''assets/cluster-monitoring-operator/grpc-tls-secret.yaml'')"

lemma GRPCSecret_works: "works settled (GRPCSecret cluster_factory) (\<lambda>s. (Namespace s, Name s) = grpc_address)"
  by (simp add: GRPCSecret_def built grpc_address_def)

lemma grpc_anchored: "a = grpc_address \<Longrightarrow> a \<in> secret_anchors"
  by (simp add: grpc_address_def secret_anchors_def)

lemma rotation_works:
  assumes s: "(Namespace s, Name s) = grpc_address"
  shows "works settled (p_catch (GetSecret quiet_client (Namespace s) (Name s)) (\<lambda>r.
    p_bind (p_return (case r of Inl e \<Rightarrow> g e | Inr x \<Rightarrow> Ok x)) (\<lambda>s.
    attempt m1 (p_return (rotated simple_crypto 10 10 s)) (\<lambda>s. p_wrap m2 (CreateOrUpdateSecret quiet_client s))))) (\<lambda>_. True)"
proof (rule works_read_or)
  show "works settled (GetSecret quiet_client (Namespace s) (Name s)) (fine_secret grpc_address)"
    using anchored_reads(1) [OF grpc_anchored [OF s]] unfolding s .
next
  fix x assume x: "fine_secret grpc_address x"
  then have keeps: "rotated simple_crypto 10 10 x = Ok x" and here: "fine_secret (Namespace x, Name x) x"
    by (auto simp: fine_secret_def grpc_address_def intro: rotated_keeps)
  show "works settled (attempt m1 (p_return (rotated simple_crypto 10 10 x))
      (\<lambda>s. p_wrap m2 (CreateOrUpdateSecret quiet_client s))) (\<lambda>_. True)"
    unfolding keeps
    by (rule works_attempt [OF works_return [where Q = "\<lambda>y. y = x"]]) (simp_all add: works_wrap upserts_work here)
qed

text \<open>The password of Grafana's data source.\<close>

lemma datasources_work:
  assumes "\<And>pw. works H (k pw) Q"
  shows "works H (attempt m (p_return (decoded (unmarshal_datasources cluster_factory s)))
    (\<lambda>d. p_bind (p_return (first_password d)) k)) Q"
  using assms by (auto simp: works_def goes_def attempt_def p_bind_def p_wrap_def manifests_decode decoded_def first_password_def)

text \<open>Copies that are published under their hash, and the removal of older copies.\<close>

definition copied :: "Secret \<Rightarrow> bool" where
  "copied s \<longleftrightarrow> Namespace s \<noteq> '''' \<and> (\<forall>kvs. fine_secret (Namespace s, Name (HashSecret s kvs)) (HashSecret s kvs)
     \<and> (Namespace s, Name (HashSecret s kvs)) \<notin> secret_anchors)"

lemma copied_Secret_built [methods_work]:
  "works settled (PrometheusK8sGrpcTLSSecret cluster_factory) copied"
  "works settled (ThanosQuerierGrpcTLSSecret cluster_factory) copied"
  "works settled (PrometheusUserWorkloadGrpcTLSSecret cluster_factory) copied"
  "works settled (ThanosRulerGrpcTLSSecret cluster_factory) copied"
  unfolding PrometheusK8sGrpcTLSSecret_def ThanosQuerierGrpcTLSSecret_def PrometheusUserWorkloadGrpcTLSSecret_def
    ThanosRulerGrpcTLSSecret_def copied_def
  by (simp_all add: built fine_secret_def secret_anchors_def)

lemma copied:
  assumes "copied s"
  shows "fine_secret (Namespace (HashSecret s kvs), Name (HashSecret s kvs)) (HashSecret s kvs)"
    and "(Namespace (HashSecret s kvs), Name (HashSecret s kvs)) \<notin> secret_anchors"
    and "Namespace (HashSecret s kvs) \<noteq> ''''"
  using assms unfolding copied_def HashSecret_simps(1) by blast+

lemma hash_of_copy: "selector_safe (gm_get (Labels (HashSecret s kvs)) hash_label)"
  by (simp add: gm_get_def)

section \<open>Phases\<close>

text \<open>A task is walked through step by step; what is left are the side conditions of its steps.\<close>

lemma route_works: "works settled (PrometheusTask_route quiet_client cluster_factory) (\<lambda>_. True)"
  unfolding PrometheusTask_route_def
  by (rule CreateRoute_then works_attempt works_return anchored_reads(2) methods_work TrueI | assumption
      | (simp add: configmap_anchors_def; fail))+

lemma secrets_work: "works settled (PrometheusTask_secrets quiet_client cluster_factory) (\<lambda>_. True)"
  unfolding PrometheusTask_secrets_def
  by (rule works_attempt works_return works_deref datasources_work WaitForSecret_works methods_work TrueI | assumption
      | (erule conjunct1 conjunct2))+

lemma access_works: "works settled (PrometheusTask_access quiet_client cluster_factory) (\<lambda>_. True)"
  unfolding PrometheusTask_access_def
  by (rule works_attempt works_return works_wrap works_bind [OF works_for] methods_work TrueI | assumption)+

lemma services_work: "works settled (PrometheusTask_services quiet_client cluster_factory NewDefaultConfig) (\<lambda>_. True)"
  unfolding PrometheusTask_services_def
  by (rule works_attempt works_value [OF cluster_parts(2)] works_if_not works_return methods_work TrueI | assumption)+

lemma grpc_works: "works settled (PrometheusTask_grpc quiet_client cluster_factory) (\<lambda>_. True)"
  unfolding PrometheusTask_grpc_def Let_def
  by (rule works_attempt [OF GRPCSecret_works] works_attempt works_return works_deref WaitForSecret_works methods_work hash_of_copy TrueI
      | assumption | erule grpc_anchored copied | (simp add: selector_safe_def; fail))+

lemma object_works: "works settled (PrometheusTask_object quiet_client cluster_factory host s) (\<lambda>_. True)"
  unfolding PrometheusTask_object_def
  by (rule CreateOrUpdatePrometheus_then works_attempt works_return methods_work TrueI | assumption
      | (simp add: bundle_owners_def; fail))+

lemma monitors_work: "works settled (PrometheusTask_monitors quiet_client cluster_factory NewDefaultConfig) (\<lambda>_. True)"
  unfolding PrometheusTask_monitors_def
  by (rule works_attempt works_value [OF cluster_parts(2)] works_if_not works_bind [OF works_for] works_return works_wrap
      methods_work TrueI | assumption)+

section \<open>Tasks\<close>

lemma PrometheusOperatorTask_works: "works settled (PrometheusOperatorTask_Run quiet_client cluster_factory) (\<lambda>_. True)"
  unfolding PrometheusOperatorTask_Run_def
  by (rule works_attempt works_wrap methods_work | assumption)+

lemma monitoring_cluster_role_works [methods_work]:
  "works settled (monitoring_cluster_role cluster_factory name) (\<lambda>x. Namespace x = '''')"
  unfolding monitoring_cluster_role_def by (simp add: methods_work)

lemma ClusterMonitoringOperatorTask_works:
  "works settled (ClusterMonitoringOperatorTask_Run simple_crypto 10 10 quiet_client cluster_factory) (\<lambda>_. True)"
  unfolding ClusterMonitoringOperatorTask_Run_def
  by (rule works_attempt [OF GRPCSecret_works] rotation_works works_attempt works_wrap works_bind [OF works_for] methods_work | assumption)+

lemma GrafanaTask_works: "works settled (GrafanaTask_Run quiet_client cluster_factory) (\<lambda>_. True)"
  unfolding GrafanaTask_Run_def CreateOrUpdateConfigMapList_def
  by (rule CreateRoute_then works_attempt works_wrap works_for methods_work | assumption | erule conjunct1 conjunct2
      | (simp add: bundle_owners_def; fail))+

lemma PrometheusTask_works: "works settled (PrometheusTask_Run quiet_client cluster_factory NewDefaultConfig) (\<lambda>_. True)"
  unfolding PrometheusTask_Run_def
  by (rule works_bind route_works secrets_work access_works services_work grpc_works object_works monitors_work)+

lemma AlertmanagerTask_works: "works settled (AlertmanagerTask_Run quiet_client cluster_factory) (\<lambda>_. True)"
  unfolding AlertmanagerTask_Run_def
  by (rule CreateRoute_then CreateOrUpdateAlertmanager_then works_attempt works_wrap methods_work | assumption | erule conjunct1
      | (simp add: bundle_owners_def; fail))+

lemma NodeExporterTask_works: "works settled (NodeExporterTask_Run quiet_client cluster_factory) (\<lambda>_. True)"
  unfolding NodeExporterTask_Run_def by (rule works_attempt works_wrap methods_work | assumption)+

lemma KubeStateMetricsTask_works: "works settled (KubeStateMetricsTask_Run quiet_client cluster_factory) (\<lambda>_. True)"
  unfolding KubeStateMetricsTask_Run_def by (rule works_attempt works_wrap methods_work | assumption)+

lemma OpenShiftStateMetricsTask_works: "works settled (OpenShiftStateMetricsTask_Run quiet_client cluster_factory) (\<lambda>_. True)"
  unfolding OpenShiftStateMetricsTask_Run_def by (rule works_attempt works_wrap methods_work | assumption)+

text \<open>The adapter reads its certificates and the authorities of the extension API server.\<close>

lemma adapter_secret_works:
  assumes "fine_secret (''openshift-monitoring'', ''prometheus-adapter-tls'') t"
    and "fine_configmap (''kube-system'', ''extension-apiserver-authentication'') cm"
  shows "works settled (p_return (PrometheusAdapterSecret cluster_factory t cm))
    (\<lambda>s. fine_secret (Namespace s, Name s) s \<and> selector_safe (gm_get (Labels s) hash_label))"
proof -
  have d: "Data t = adapter_certificates" "CM_Data cm = api_authorities"
    using assms by (simp_all add: fine_secret_def fine_configmap_def)
  let ?h = "FormatUint (fnv64 ''ARCK'')"
  obtain s where s: "PrometheusAdapterSecret cluster_factory t cm = Ok s" and name: "Name s = ''prometheus-adapter-'' @ ?h"
    and label: "gm_lookup (Labels s) hash_label = Some ?h"
    by (simp add: PrometheusAdapterSecret_def d adapter_certificates_def api_authorities_def gm_of_list_def
        copy_into_def reader_value_def newErrMapReader_def reader_Error_def Let_def)
  have "fnv64 ''ARCK'' \<noteq> 30396"
    by (simp add: fnv64_def fnv_offset64_def fnv_prime64_def)
  moreover have "numeral_value ''tls'' = 30396" by (simp add: numeral_value_def digit_value_def)
  then have "unat (fnv64 ''ARCK'') = 30396" if "?h = ''tls''"
    using arg_cong [OF that, of numeral_value] by (simp only: numeral_value_FormatUint)
  ultimately have "?h \<noteq> ''tls''" by (auto simp: word_unat_eq_iff)
  then show ?thesis
    unfolding s by (intro works_return) (simp add: name label gm_get_def fine_secret_def secret_anchors_def)
qed

lemma adapter_access_works: "works settled (PrometheusAdapterTask_access quiet_client cluster_factory) (\<lambda>_. True)"
  unfolding PrometheusAdapterTask_access_def by (rule works_attempt works_return methods_work TrueI | assumption)+

lemma adapter_workload_works:
  "works settled (PrometheusAdapterTask_workload ''openshift-monitoring'' quiet_client cluster_factory) (\<lambda>_. True)"
  unfolding PrometheusAdapterTask_workload_def
  by (rule works_attempt works_return anchored_reads(1,2) adapter_secret_works methods_work TrueI | assumption
      | erule conjunct1 conjunct2 | (simp add: secret_anchors_def configmap_anchors_def; fail)
      | (simp add: fine_configmap_def api_authorities_def gm_of_list_def has_keys_def; fail))+

lemma PrometheusAdapterTask_works:
  "works settled (PrometheusAdapterTask_Run ''openshift-monitoring'' quiet_client cluster_factory) (\<lambda>_. True)"
  unfolding PrometheusAdapterTask_Run_def by (rule works_bind adapter_access_works adapter_workload_works)+

text \<open>The shared configuration names the hosts of the routes.\<close>

lemma sharing_works:
  "works settled (p_return (SharingConfig (Some a) (Some b) (Some c) (Some d))) (\<lambda>cm. fine_configmap (Namespace cm, Name cm) cm)"
  by (simp add: SharingConfig_def works_return fine_here sharedConfigMap_def configManagedNamespace_def
      ObjectMeta.defs)

lemma ConfigSharingTask_works: "works settled (ConfigSharingTask_Run quiet_client cluster_factory) (\<lambda>_. True)"
  unfolding ConfigSharingTask_Run_def
  by (rule works_attempt works_bind [OF sharing_works] works_return anchored_reads(3) methods_work TrueI | assumption | erule conjunct2)+

lemma querier_access_works: "works settled (ThanosQuerierTask_access quiet_client cluster_factory) (\<lambda>_. True)"
  unfolding ThanosQuerierTask_access_def
  by (rule CreateRoute_then works_attempt works_return works_deref datasources_work WaitForSecret_works methods_work TrueI | assumption
      | erule conjunct1)+

lemma querier_workload_works: "works settled (ThanosQuerierTask_workload quiet_client cluster_factory NewDefaultConfig) (\<lambda>_. True)"
  unfolding ThanosQuerierTask_workload_def Let_def
  by (rule works_attempt [OF GRPCSecret_works] works_value [OF cluster_parts(3)] works_attempt works_return works_deref
      WaitForSecret_works methods_work hash_of_copy TrueI
      | assumption | erule grpc_anchored copied | (simp add: selector_safe_def bundle_owners_def; fail))+

lemma ThanosQuerierTask_works: "works settled (ThanosQuerierTask_Run quiet_client cluster_factory NewDefaultConfig) (\<lambda>_. True)"
  unfolding ThanosQuerierTask_Run_def by (rule works_bind querier_access_works querier_workload_works)+

section \<open>Tasks that can be switched off\<close>

text \<open>What they build, to create it or to delete it: objects of their own, none of which is anchored.\<close>

definition own_secret :: "Secret \<Rightarrow> bool" where
  "own_secret s \<longleftrightarrow> fine_secret (Namespace s, Name s) s \<and> (Namespace s, Name s) \<notin> secret_anchors"

definition own_configmap :: "ConfigMap \<Rightarrow> bool" where
  "own_configmap cm \<longleftrightarrow> fine_configmap (Namespace cm, Name cm) cm \<and> (Namespace cm, Name cm) \<notin> configmap_anchors"

lemma own_Secret_built:
  "works settled (ThanosRulerOauthCookieSecret cluster_factory) own_secret"
  "works settled (ThanosRulerQueryConfigSecret cluster_factory) own_secret"
  "works settled (ThanosRulerAlertmanagerConfigSecret cluster_factory) own_secret"
proof -
  show "works settled (ThanosRulerQueryConfigSecret cluster_factory) own_secret"
    "works settled (ThanosRulerAlertmanagerConfigSecret cluster_factory) own_secret"
    unfolding ThanosRulerQueryConfigSecret_def ThanosRulerAlertmanagerConfigSecret_def
    by (simp_all add: built own_secret_def fine_here)
  have read: "works settled (from_asset cluster_factory (NewSecret cluster_factory) ''thanos-ruler/oauth-cookie-secret.yaml'' Ok)
      (\<lambda>s. Name s = ''assets/thanos-ruler/oauth-cookie-secret.yaml'' \<and> Data s \<noteq> None)"
    by (simp add: built gm_of_list_def)
  show "works settled (ThanosRulerOauthCookieSecret cluster_factory) own_secret"
    unfolding ThanosRulerOauthCookieSecret_def session_secret_def
    by (intro works_bind [OF read] works_bind [OF password_works] works_returned) (auto simp: own_secret_def fine_secret_def secret_anchors_def)
qed

lemma own_ConfigMap_built:
  "works settled (PrometheusUserWorkloadServingCertsCABundle cluster_factory) own_configmap"
  "works settled (TelemeterClientServingCertsCABundle cluster_factory) own_configmap"
  "works settled (ThanosRulerTrustedCABundle cluster_factory)
     (\<lambda>cm. own_configmap cm \<and> Name cm \<in> bundle_names \<and> Namespace cm \<noteq> '''')"
  "works settled (ThanosRulerRoute cluster_factory) (\<lambda>r. route_complaint r = None \<and> (Namespace r, Name r) \<notin> route_anchors)"
  unfolding PrometheusUserWorkloadServingCertsCABundle_def TelemeterClientServingCertsCABundle_def
    ThanosRulerTrustedCABundle_def ThanosRulerRoute_def
  by (simp_all add: built own_configmap_def fine_here route_anchors_def route_complaint_def)

lemma TelemeterClientSecret_built:
  "works settled (TelemeterClientSecret cluster_factory) own_secret"
proof -
  have read: "works settled (from_asset cluster_factory (NewSecret cluster_factory) ''telemeter-client/secret.yaml'' Ok)
      (\<lambda>s. Name s = ''assets/telemeter-client/secret.yaml'' \<and> Data s \<noteq> None)"
    by (simp add: built gm_of_list_def)
  obtain t where "telemeter_of_factory cluster_factory = Ok t"
    by (simp add: telemeter_of_factory_def cmc_of_def default_parts)
  then show ?thesis
    unfolding TelemeterClientSecret_def
    by (intro works_bind [OF read] works_catch [OF password_works] works_returned) (auto simp: own_secret_def fine_secret_def secret_anchors_def)
qed

lemma user_operands_built:
  "works settled (PrometheusUserWorkload cluster_factory (Some s)) (\<lambda>p. Prom_Replicas (Prometheus_Spec p) = Some 2)"
  "works settled (ThanosRulerCustomResource cluster_factory host bnd (Some s)) (\<lambda>t. TR_Replicas (ThanosRuler_Spec t) = Some 2)"
proof -
  obtain u p r i where u: "user_cfg_of cluster_factory = Ok u" "uwc_Prometheus u = Some p" "uwc_ThanosRuler u = Some r"
    and i: "images_of cluster_factory = Ok i"
    by (simp add: user_cfg_of_def images_of_def default_parts)
  show "works settled (PrometheusUserWorkload cluster_factory (Some s)) (\<lambda>p. Prom_Replicas (Prometheus_Spec p) = Some 2)"
    by (simp add: PrometheusUserWorkload_def built u i manifest_prometheus_def thanos_image_def first_alertmanager_def Let_def)
  show "works settled (ThanosRulerCustomResource cluster_factory host bnd (Some s)) (\<lambda>t. TR_Replicas (ThanosRuler_Spec t) = Some 2)"
    by (simp add: ThanosRulerCustomResource_def built u i manifest_ruler_def Let_def)
qed

lemma user_bindings_built:
  "works settled (ThanosRulerMonitoringClusterRoleBinding cluster_factory) (\<lambda>x. Namespace x = '''')"
  "works settled (TelemeterClientClusterRoleBindingView cluster_factory) (\<lambda>x. Namespace x = '''')"
  "works settled (TelemeterTrustedCABundle cluster_factory)
     (\<lambda>x. fine_configmap (Namespace x, Name x) x \<and> Name x \<in> bundle_names \<and> Namespace x \<noteq> '''')"
  unfolding ThanosRulerMonitoringClusterRoleBinding_def TelemeterClientClusterRoleBindingView_def TelemeterTrustedCABundle_def
  by (simp_all add: built fine_here)

lemma own_parts:
  "own_secret s \<Longrightarrow> fine_secret (Namespace s, Name s) s" "own_secret s \<Longrightarrow> (Namespace s, Name s) \<notin> secret_anchors"
  "own_configmap cm \<Longrightarrow> fine_configmap (Namespace cm, Name cm) cm"
  "own_configmap cm \<Longrightarrow> (Namespace cm, Name cm) \<notin> configmap_anchors"
  by (simp_all add: own_secret_def own_configmap_def)

lemmas own_built = own_Secret_built own_ConfigMap_built TelemeterClientSecret_built user_operands_built user_bindings_built
  anchored_removals_work

lemma user_operator_creation_works:
  "works settled (PrometheusOperatorUserWorkloadTask_create quiet_client cluster_factory) (\<lambda>_. True)"
  unfolding PrometheusOperatorUserWorkloadTask_create_def by (rule works_attempt works_wrap methods_work | assumption)+

lemma user_prometheus_creation_works:
  "works settled (PrometheusUserWorkloadTask_create quiet_client cluster_factory) (\<lambda>_. True)"
proof -
  have access: "works settled (PrometheusUserWorkloadTask_create_access quiet_client cluster_factory) (\<lambda>_. True)"
    unfolding PrometheusUserWorkloadTask_create_access_def
    by (rule works_attempt works_return works_wrap works_bind [OF works_for] own_built methods_work TrueI | assumption | erule own_parts)+
  have workload: "works settled (PrometheusUserWorkloadTask_create_workload quiet_client cluster_factory) (\<lambda>_. True)"
    unfolding PrometheusUserWorkloadTask_create_workload_def Let_def
    by (rule works_attempt [OF GRPCSecret_works] CreateOrUpdatePrometheus_then works_attempt works_return works_deref
        WaitForSecret_works own_built methods_work hash_of_copy TrueI
        | assumption | erule grpc_anchored copied | (simp add: selector_safe_def; fail))+
  show ?thesis unfolding PrometheusUserWorkloadTask_create_def by (rule works_bind access workload)+
qed

lemma ruler_creation_works:
  "works settled (ThanosRulerUserWorkloadTask_create quiet_client cluster_factory) (\<lambda>_. True)"
proof -
  have access: "works settled (ThanosRulerUserWorkloadTask_create_access quiet_client cluster_factory) (\<lambda>_. True)"
    unfolding ThanosRulerUserWorkloadTask_create_access_def
    by (rule CreateRoute_then works_attempt works_return own_built methods_work TrueI | assumption | erule own_parts conjunct1)+
  have route: "works settled (p_catch (GetRouteURL quiet_client r) (\<lambda>q. p_bind (p_return (case q of Inl _ \<Rightarrow> Panic | Inr u \<Rightarrow> Ok u)) k)) (\<lambda>_. True)"
    if "(Namespace r, Name r) \<in> route_anchors" "\<And>u. works settled (k u) (\<lambda>_. True)" for r and k :: "URL \<Rightarrow> (Cluster, unit) prog"
    using that works_read_or [OF anchored_reads(3), of r k "\<lambda>_. True" "\<lambda>_. Panic"] by simp
  have workload: "works settled (ThanosRulerUserWorkloadTask_create_workload quiet_client cluster_factory) (\<lambda>_. True)"
    unfolding ThanosRulerUserWorkloadTask_create_workload_def Let_def
    by (rule works_attempt [OF GRPCSecret_works] route CreateOrUpdateThanosRuler_then works_attempt works_return works_deref
        WaitForSecret_works own_built methods_work hash_of_copy TrueI
        | assumption | erule grpc_anchored copied own_parts conjunct2 | (simp add: selector_safe_def bundle_owners_def own_parts; fail))+
  show ?thesis unfolding ThanosRulerUserWorkloadTask_create_def by (rule works_bind access workload)+
qed

lemma telemeter_creation_works:
  "works settled (TelemeterClientTask_create quiet_client cluster_factory NewDefaultConfig) (\<lambda>_. True)"
proof -
  have matches: "matches_of NewDefaultConfig = Ok []"
    by (simp add: matches_of_def default_parts)
  have rule: "works settled (p_return (generateTelemeterWhitelistRec cluster_factory [])) (\<lambda>_. True)"
    "works settled (p_return (NewTelemeterPrometheusRecRuleFromString cluster_factory e)) (\<lambda>_. True)" for e
    by (simp_all add: generateTelemeterWhitelistRec_def GroupLabelSelectors_def NewTelemeterPrometheusRecRuleFromString_def
        works_return split: res.split)
  show ?thesis
    unfolding TelemeterClientTask_create_def matches
    by (rule works_attempt works_value [OF refl] works_wrap rule own_built methods_work
        | assumption | erule own_parts conjunct1 conjunct2 | (simp add: bundle_owners_def; fail))+
qed

text \<open>With the default configuration they are removed.\<close>

lemma user_operator_removal_works:
  "works settled (PrometheusOperatorUserWorkloadTask_destroy quiet_client cluster_factory) (\<lambda>_. True)"
  unfolding PrometheusOperatorUserWorkloadTask_destroy_def by (rule works_attempt works_wrap methods_work | assumption)+

lemma user_prometheus_removal_works:
  "works settled (PrometheusUserWorkloadTask_destroy quiet_client cluster_factory) (\<lambda>_. True)"
proof -
  have workload: "works settled (PrometheusUserWorkloadTask_destroy_workload quiet_client cluster_factory) (\<lambda>_. True)"
    unfolding PrometheusUserWorkloadTask_destroy_workload_def Let_def
    by (rule works_attempt [OF GRPCSecret_works] works_attempt works_return works_deref WaitForSecret_works own_built methods_work TrueI
        | assumption | erule grpc_anchored copied own_parts)+
  have access: "works settled (PrometheusUserWorkloadTask_destroy_access quiet_client cluster_factory) (\<lambda>_. True)"
    unfolding PrometheusUserWorkloadTask_destroy_access_def
    by (rule works_attempt works_bind [OF works_for] works_wrap own_built methods_work | assumption | erule own_parts)+
  show ?thesis unfolding PrometheusUserWorkloadTask_destroy_def by (rule works_bind workload access)+
qed

lemma ruler_removal_works:
  "works settled (ThanosRulerUserWorkloadTask_destroy quiet_client cluster_factory) (\<lambda>_. True)"
proof -
  have access: "works settled (ThanosRulerUserWorkloadTask_destroy_access quiet_client cluster_factory) (\<lambda>_. True)"
    unfolding ThanosRulerUserWorkloadTask_destroy_access_def
    by (rule works_attempt works_return own_built methods_work TrueI | assumption | erule own_parts conjunct2)+
  have workload: "works settled (ThanosRulerUserWorkloadTask_destroy_workload quiet_client cluster_factory) (\<lambda>_. True)"
    unfolding ThanosRulerUserWorkloadTask_destroy_workload_def Let_def
    by (rule works_attempt [OF GRPCSecret_works] works_attempt works_wrap works_deref WaitForSecret_works own_built methods_work
        | assumption | erule grpc_anchored copied conjunct1 conjunct2 | (simp add: selector_safe_def own_parts; fail))+
  show ?thesis unfolding ThanosRulerUserWorkloadTask_destroy_def by (rule works_bind access workload)+
qed

lemma telemeter_removal_works: "works settled (TelemeterClientTask_destroy quiet_client cluster_factory) (\<lambda>_. True)"
  unfolding TelemeterClientTask_destroy_def
  by (rule works_attempt works_wrap own_built methods_work | assumption | erule own_parts)+

lemma switched_off_works:
  "works settled (PrometheusOperatorUserWorkloadTask_Run quiet_client cluster_factory NewDefaultConfig) (\<lambda>_. True)"
  "works settled (PrometheusUserWorkloadTask_Run quiet_client cluster_factory NewDefaultConfig) (\<lambda>_. True)"
  "works settled (ThanosRulerUserWorkloadTask_Run quiet_client cluster_factory NewDefaultConfig) (\<lambda>_. True)"
  "works settled (TelemeterClientTask_Run quiet_client cluster_factory NewDefaultConfig) (\<lambda>_. True)"
  unfolding PrometheusOperatorUserWorkloadTask_Run_def PrometheusUserWorkloadTask_Run_def ThanosRulerUserWorkloadTask_Run_def
    cluster_hashed.telemeter_run cluster_parts
  by (rule works_value [OF refl], simp only: if_False,
      rule user_operator_removal_works user_prometheus_removal_works ruler_removal_works telemeter_removal_works)+

section \<open>All tasks\<close>

lemma every_task_works:
  "works settled (task_of simple_crypto 10 10 ''openshift-monitoring'' quiet_client cluster_factory NewDefaultConfig name) (\<lambda>_. True)"
  unfolding task_of_def
  by (simp add: PrometheusOperatorTask_works ClusterMonitoringOperatorTask_works GrafanaTask_works PrometheusTask_works
      AlertmanagerTask_works NodeExporterTask_works KubeStateMetricsTask_works OpenShiftStateMetricsTask_works
      PrometheusAdapterTask_works ConfigSharingTask_works ThanosQuerierTask_works switched_off_works)

end
