(* ===== verification/Sync_Progress.thy ===== *)
theory Sync_Progress
  imports Task_Progress
begin

text \<open>
  A reconciliation of a settled cluster succeeds: the configuration is the default one, the status reports
  leave the cluster settled, and so does every task, in whatever order they complete.
\<close>

section \<open>Reports\<close>

text \<open>Programs that may return an error but neither panic nor unsettle the cluster.\<close>

definition survives :: "('w \<Rightarrow> bool) \<Rightarrow> ('w, 'a) prog \<Rightarrow> bool" where
  "survives H m \<longleftrightarrow> (\<forall>w. H w \<longrightarrow> H (snd (m w)) \<and> fst (m w) \<noteq> Panic)"

lemma survives_return: "r \<noteq> Panic \<Longrightarrow> survives H (p_return r)"
  by (simp add: survives_def)

lemma survives_bind: "survives H m \<Longrightarrow> (\<And>x. survives H (k x)) \<Longrightarrow> survives H (p_bind m k)"
  by (fastforce simp: survives_def p_bind_def split: prod.split res.split)

lemma survives_catch: "survives H m \<Longrightarrow> (\<And>x. survives H (h x)) \<Longrightarrow> survives H (p_catch m h)"
  by (fastforce simp: survives_def p_catch_def split: prod.split res.split)

lemma logged_works: "survives H m \<Longrightarrow> works H (logged m) (\<lambda>_. True)"
  by (fastforce simp: survives_def works_def goes_def logged_def p_catch_def split: prod.split res.split)

interpretation settled_operators: fair_kind settled ClusterOperators_tracker "\<lambda>_ _. True" "{}"
  by unfold_locales (simp_all add: settled_simps)

lemma status_calls_survive:
  "survives settled (r_Get (tracker_resource ClusterOperators_tracker) ns n)"
  "survives settled (r_Create (tracker_resource ClusterOperators_tracker) ns co)"
  "survives settled (r_UpdateStatus (tracker_resource ClusterOperators_tracker) ns co)"
proof -
  have react: "react ClusterOperators_tracker m w = m w" if "settled w" for m :: "(Cluster, 'a) prog" and w
    using settled_operators.no_faults [OF that] by (simp add: react_def)
  have put: "settled (ks_put ClusterOperators_tracker m w)" if "settled w" for m w
    using settled_operators.put_fine [OF that, of m] by (simp add: fmpred_any)
  show "survives settled (r_Get (tracker_resource ClusterOperators_tracker) ns n)"
    "survives settled (r_Create (tracker_resource ClusterOperators_tracker) ns co)"
    "survives settled (r_UpdateStatus (tracker_resource ClusterOperators_tracker) ns co)"
    unfolding survives_def
    by (auto simp: tracker_resource_def react put tracker_Get_def tracker_add_def Let_def split: option.split)
qed

lemma report_works: "works settled (logged (report ord (StatusReporter quiet_client) now f)) (\<lambda>_. True)"
proof (rule logged_works)
  have update: "survives settled (discard (r_UpdateStatus (tracker_resource ClusterOperators_tracker) '''' co))" for co
    unfolding discard_def by (intro survives_bind survives_return status_calls_survive) simp
  show "survives settled (report ord (StatusReporter quiet_client) now f)"
    unfolding report_def Let_def StatusReporter_def NewStatusReporter_def StatusReporter.simps quiet_client_simps
    by (intro survives_catch status_calls_survive) (auto intro!: survives_catch survives_return status_calls_survive update split: sum.split)
qed

section \<open>The tasks of a reconciliation\<close>

lemma goroutines_work:
  assumes "\<And>t. t \<in> set ts \<Longrightarrow> works H (Task_Run t) (\<lambda>_. True)"
  shows "works H (group_wait (map goroutine ts) None) (\<lambda>e. e = None)"
  using assms
proof (induction ts)
  case (Cons t ts)
  have t: "works H (goroutine t) (\<lambda>_. True)"
    unfolding goroutine_def ExecuteTask_def
    by (rule works_catch [OF Cons.prems]) (auto simp: works_return)
  have "works H (group_wait (map goroutine ts) None) (\<lambda>e. e = None)" by (rule Cons.IH) (simp add: Cons.prems)
  with t show ?case by (auto intro: works_catch)
qed (simp add: works_return)

lemma RunAll_works:
  assumes "\<And>t. t \<in> set (runner_tasks tr) \<Longrightarrow> works H (Task_Run t) (\<lambda>_. True)"
    and "set order \<subseteq> {..<length (runner_tasks tr)}"
  shows "works H (RunAll order tr) (\<lambda>x. snd x = None)"
proof -
  let ?ts = "map ((!) (runner_tasks tr)) order"
  have "works H (group_wait (map goroutine ?ts) None) (\<lambda>e. e = None)"
    by (rule goroutines_work) (use assms in auto)
  then show ?thesis
    unfolding RunAll_def by (intro works_bind [where P = "\<lambda>e. e = None"]) (simp_all add: comp_def works_return)
qed

section \<open>A reconciliation\<close>

text \<open>The configuration is the default one, so that the tasks are those of the sample factory.\<close>

lemma settled_unconfigured:
  assumes "settled w"
  shows "unconfigured w"
proof -
  have s: "x = None" if "fmlookup (tracked_Secrets w) (''openshift-config'', ''pull-secret'') = x" for x
  proof (cases x)
    case (Some v)
    with that settled_secrets.stored_fine [OF assms, of _ _ v] have "fine_secret (''openshift-config'', ''pull-secret'') v"
      by (simp add: Secrets_tracker_def)
    then show ?thesis by (simp add: fine_secret_def)
  qed
  have c: "x = None" if "fmlookup (tracked_ConfigMaps w) (''openshift-config'', ''etcd-metric-serving-ca'') = x" for x
  proof (cases x)
    case (Some v)
    with that settled_configmaps.stored_fine [OF assms, of _ _ v]
    have "fine_configmap (''openshift-config'', ''etcd-metric-serving-ca'') v" by (simp add: ConfigMaps_tracker_def)
    then show ?thesis by (simp add: fine_configmap_def)
  qed
  have "fmlookup (tracked_Secrets w) (''openshift-config'', ''pull-secret'') = None"
    "fmlookup (tracked_ConfigMaps w) (''openshift-config'', ''etcd-metric-serving-ca'') = None" by (rule s c, rule refl)+
  with assms show ?thesis by (simp add: settled_def unconfigured_def)
qed

lemma default_prepared: "prepare_config sample_operator NewDefaultConfig = Ok NewDefaultConfig"
  by (simp add: prepare_config_def sample_operator_def SetImages_def SetTelemetryMatches_def SetRemoteWrite_def on_cmc_def
      through_def default_parts zero_Images_def gm_get_def)

lemma default_factory:
  "NewFactory cluster_factory (op_namespace sample_operator) (op_namespaceUserWorkload sample_operator) NewDefaultConfig = cluster_factory"
  by (simp add: NewFactory_def cluster_factory_def sample_operator_def)

lemma sync_works:
  fixes key
  assumes w: "settled w" and order: "set order = {..<15}"
  shows "goes settled (sync (with_tasks simple_crypto 10 10 cluster_factory sample_operator) order key) (\<lambda>_. True) w"
proof -
  let ?p = "with_tasks simple_crypto 10 10 cluster_factory sample_operator"
  have p: "op_client ?p = quiet_client" "op_range ?p = op_range sample_operator" "clock ?p = clock sample_operator"
    "prepare_config ?p = prepare_config sample_operator"
    by (simp_all add: with_tasks_def prepare_config_def [abs_def])
  have conf: "operator_Config ?p key w = (Ok NewDefaultConfig, w)"
    using sample_operator_Config [OF settled_unconfigured [OF w]] by (simp add: cluster_operator.with_tasks_Config)
  have tasks: "runner_tasks (sync_runner ?p NewDefaultConfig) = map (\<lambda>n. NewTaskSpec n
      (task_of simple_crypto 10 10 (op_namespace sample_operator) quiet_client cluster_factory NewDefaultConfig n)) task_names"
    by (simp add: sync_runner_def NewTaskRunner_def with_tasks_def default_factory)
  have run: "works settled (RunAll order (sync_runner ?p NewDefaultConfig)) (\<lambda>x. snd x = None)"
  proof (rule RunAll_works; unfold tasks)
    show "set order \<subseteq> {..<length (map (\<lambda>n. NewTaskSpec n
        (task_of simple_crypto 10 10 (op_namespace sample_operator) quiet_client cluster_factory NewDefaultConfig n)) task_names)}"
      using order by (simp add: task_names_def)
    have "op_namespace sample_operator = ''openshift-monitoring''" by (simp add: sample_operator_def)
    then show "works settled (Task_Run t) (\<lambda>_. True)" if "t \<in> set (map (\<lambda>n. NewTaskSpec n
        (task_of simple_crypto 10 10 (op_namespace sample_operator) quiet_client cluster_factory NewDefaultConfig n)) task_names)" for t
      using that unfolding set_map by (auto simp: NewTaskSpec_def every_task_works)
  qed
  have "works settled (run_tasks ?p order NewDefaultConfig) (\<lambda>_. True)"
    unfolding run_tasks_def p
    by (rule works_bind [OF run]) (auto intro!: works_bind [OF report_works] works_return simp: SetDone_def split: prod.split)
  then have "works settled (p_bind (logged (SetInProgress (op_range ?p) (StatusReporter quiet_client) (clock ?p)))
      (\<lambda>_. run_tasks ?p order NewDefaultConfig)) (\<lambda>_. True)"
    unfolding SetInProgress_def by (intro works_bind [OF report_works])
  from worksD [OF this w] conf show ?thesis
    by (simp add: goes_def sync_def p_catch_eqs p default_prepared)
qed

section \<open>A settled cluster\<close>

definition stored_secrets :: "((string \<times> string) \<times> Secret) list" where
  "stored_secrets = map (\<lambda>(n, d). ((''openshift-monitoring'', n), sample_secret ''openshift-monitoring'' n [] d))
     [(''assets/cluster-monitoring-operator/grpc-tls-secret.yaml'', [(''ca.crt'', ''C''), (''ca.key'', ''K'')]),
      (''assets/grafana/dashboard-datasources.yaml'', [(''prometheus.yaml'', ''{}'')]),
      (''prometheus-adapter-tls'', [(''tls.crt'', ''C''), (''tls.key'', ''K'')])]"

definition stored_configmaps :: "((string \<times> string) \<times> ConfigMap) list" where
  "stored_configmaps = [
     ((''openshift-config-managed'', ''kubelet-serving-ca''),
      sample_configmap ''openshift-config-managed'' ''kubelet-serving-ca'' [] []),
     ((''kube-system'', ''extension-apiserver-authentication''),
      (sample_configmap ''kube-system'' ''extension-apiserver-authentication'' [] [])\<lparr>CM_Data := api_authorities\<rparr>)]"

definition stored_routes :: "((string \<times> string) \<times> Route) list" where
  "stored_routes = map (\<lambda>dir. ((''openshift-monitoring'', ''assets/'' @ dir @ ''/route.yaml''),
     ObjectMeta.extend (object_meta ''openshift-monitoring'' (''assets/'' @ dir @ ''/route.yaml'') [])
       \<lparr>Host = ''example.com'', Route_Path = '''', TLS_Termination = None,
        Ingress = [[\<lparr>RC_Type = ''Admitted'', RC_Status = ''True''\<rparr>]]\<rparr>))
     [''prometheus-k8s'', ''alertmanager'', ''grafana'', ''thanos-querier'']"

definition settled_cluster :: Cluster where
  "settled_cluster = empty_cluster\<lparr>tracked_Secrets := fmap_of_list stored_secrets,
     tracked_ConfigMaps := fmap_of_list stored_configmaps, tracked_Routes := fmap_of_list stored_routes\<rparr>"

lemma fmpred_of_list: "list_all (\<lambda>(k, v). P k v) xs \<Longrightarrow> fmpred P (fmap_of_list xs)"
  by (auto simp: fmpred_iff fmap_of_list.rep_eq list_all_iff dest: map_of_SomeD)

lemma listed_fine:
  "list_all (\<lambda>(k, v). fine_secret k v) stored_secrets"
  "list_all (\<lambda>(k, v). fine_configmap k v) stored_configmaps"
  "list_all (\<lambda>(k, v). route_complaint v = None) stored_routes"
  by (simp_all add: stored_secrets_def stored_configmaps_def stored_routes_def sample_defs fine_secret_def fine_configmap_def
      secret_anchors_def bundle_names_def secret_complaint_def adapter_certificates_def has_keys_def gm_of_list_def
      fmlookup_ran_iff route_complaint_def)

lemma stored_addressed:
  "list_all (\<lambda>((ns, n), v). Namespace v = ns \<and> Name v = n) stored_secrets"
  "list_all (\<lambda>((ns, n), v). Namespace v = ns \<and> Name v = n) stored_configmaps"
  "list_all (\<lambda>((ns, n), v). Namespace v = ns \<and> Name v = n) stored_routes"
  by (simp_all add: stored_secrets_def stored_configmaps_def stored_routes_def sample_defs)

lemma settled_cluster_settled: "settled settled_cluster"
proof -
  have "secret_anchors \<subseteq> set (map fst stored_secrets)" "configmap_anchors \<subseteq> set (map fst stored_configmaps)"
    "route_anchors \<subseteq> set (map fst stored_routes)"
    by (simp_all add: stored_secrets_def stored_configmaps_def stored_routes_def secret_anchors_def configmap_anchors_def
        route_anchors_def)
  then show ?thesis
    using listed_fine by (simp add: settled_def settled_cluster_def empty_cluster_def fmpred_of_list fset_of_list.rep_eq)
qed

lemma settled_cluster_sound: "sound (cluster_inventory ours) settled_cluster"
  using stored_addressed
  by (auto simp: cluster_inventory_def cluster_sound_def addressed_def settled_cluster_def empty_cluster_def case_prod_unfold
      intro!: fmpred_of_list)

end
