(* ===== verification/Reconciliation_Spec.thy ===== *)
theory Reconciliation_Spec
  imports Sync_Progress
begin

text \<open>
  The properties of reconciliation as a whole: what each task and what \<open>sync\<close> makes of the objects that
  are stored, that a second reconciliation changes nothing more, what is left behind when a component is
  switched off, and that reconciliation succeeds on a cluster that is settled.
\<close>

section \<open>Tasks\<close>

text \<open>The tasks whose objects are accounted for without exception, with their secrets and config maps.\<close>

definition exact_tasks :: "'w Client \<Rightarrow> 'w Factory \<Rightarrow> (('w, unit) prog \<times> address set) list" where
  "exact_tasks c f = [
     (PrometheusOperatorTask_Run c f, prometheus_operator_objects f),
     (NodeExporterTask_Run c f, node_exporter_objects f),
     (KubeStateMetricsTask_Run c f, kube_state_metrics_objects f),
     (OpenShiftStateMetricsTask_Run c f, openshift_state_metrics_objects f),
     (PrometheusOperatorUserWorkloadTask_create c f, user_workload_operator_objects f)]"

text \<open>
  C20. The tasks of the two Prometheus operators and of the exporters implement their specification, the
  set of the objects that their manifests describe: whatever the task returns, no object outside that set
  appears or disappears, and when it returns nil, every object of the set is there and nothing is gone.
\<close>

theorem exact_tasks_reconcile:
  assumes "reconciler I c f" and "sound I w" and "(task, objects) \<in> set (exact_tasks c f)" and "task w = (r, w')"
  shows "sound I w' \<and> seen I w' - objects = seen I w - objects \<and>
    (r = Ok () \<longrightarrow> seen I w' = seen I w \<union> (objects \<inter> own I))"
proof -
  have "effect I {} objects task"
    using assms(3) reconciler.prometheus_operator_effect [OF assms(1)] reconciler.node_exporter_effect [OF assms(1)]
      reconciler.kube_state_metrics_effect [OF assms(1)] reconciler.openshift_state_metrics_effect [OF assms(1)]
      reconciler.user_workload_operator_effect [OF assms(1)]
    by (auto simp: exact_tasks_def)
  from effectD [OF this assms(2)] assms(4) show ?thesis by (cases r) auto
qed

theorem exact_tasks_reconcile_witness:
  "\<exists>w'. NodeExporterTask_Run quiet_client cluster_factory settled_cluster = (Ok (), w') \<and>
     seen (cluster_inventory UNIV) w' = seen (cluster_inventory UNIV) settled_cluster \<union> node_exporter_objects cluster_factory"
proof -
  obtain w' where run: "NodeExporterTask_Run quiet_client cluster_factory settled_cluster = (Ok (), w')"
    using worksD [OF NodeExporterTask_works settled_cluster_settled] by (auto simp: goes_def)
  have "(NodeExporterTask_Run quiet_client cluster_factory, node_exporter_objects cluster_factory)
      \<in> set (exact_tasks quiet_client cluster_factory)" by (simp add: exact_tasks_def)
  from exact_tasks_reconcile [OF cluster_tasks.reconciler_axioms settled_cluster_sound this run, of UNIV] run
  show ?thesis by (simp add: cluster_inventory_def)
qed



section \<open>Reconciliations\<close>





text \<open>
  Reconciliation makes progress. On a settled cluster (the server answers, workloads roll out, and the
  certificates, authorities and admitted routes are there that other components provide) a reconciliation
  with the default configuration returns nil in every order of its tasks, the cluster is settled again, so
  that the next reconciliation succeeds as well, and the desired state is reached.
\<close>

theorem sync_succeeds:
  assumes "settled w" and "sound (cluster_inventory counted) w" and "distinct order" and "set order = {..<15}"
  shows "\<exists>w'. sync (with_tasks simple_crypto 10 10 cluster_factory sample_operator) order key w = (Ok (), w') \<and>
    settled w' \<and> sound (cluster_inventory counted) w' \<and>
    reached counted (sync_plan cluster_factory sample_operator NewDefaultConfig)
      (seen (cluster_inventory counted) w) (seen (cluster_inventory counted) w')"
proof -
  obtain w' where run: "sync (with_tasks simple_crypto 10 10 cluster_factory sample_operator) order key w = (Ok (), w')"
    and w': "settled w'"
    using sync_works [OF assms(1,4), of key] by (auto simp: goes_def)
  have "operator_Config (with_tasks simple_crypto 10 10 cluster_factory sample_operator) key w = (Ok NewDefaultConfig, w)"
    using sample_operator_Config [OF settled_unconfigured [OF assms(1)]] by (simp add: cluster_operator.with_tasks_Config)
  with cluster_operator.sync_effect [OF assms(3,4,2) run] run w' show ?thesis
    by (auto simp: default_prepared cluster_inventory_def)
qed

theorem sync_succeeds_witness:
  "\<exists>w'. sync (with_tasks simple_crypto 10 10 cluster_factory sample_operator) [0..<15] ''k'' settled_cluster = (Ok (), w') \<and> settled w'"
  using sync_succeeds [OF settled_cluster_settled settled_cluster_sound, of "[0..<15]" "''k''"]
  by (auto simp: lessThan_atLeast0)

section \<open>Switching components on and off\<close>



text \<open>
  C22. Switching the Thanos ruler or the telemeter client off does not undo what switching it on has done:
  after its objects have been created, the removal, whatever it returns, leaves the monitoring role binding
  of the ruler, and the cluster monitoring role binding and the rule of the telemeter client, where they are.
\<close>

theorem switching_off_leaves_behind:
  assumes "hashed_reconciler I c f" and "sound I w"
    and "(create, destroy, left) \<in> {
      (ThanosRulerUserWorkloadTask_create c f, ThanosRulerUserWorkloadTask_destroy c f,
       thanos_ruler_left_behind f - thanos_ruler_objects f),
      (TelemeterClientTask_create c f cfg, TelemeterClientTask_destroy c f, telemeter_left_behind f - telemeter_objects f)}"
    and "create w = (Ok (), w1)" and "destroy w1 = (r, w2)"
  shows "left \<inter> own I \<subseteq> seen I w2"
proof -
  have "\<exists>objects. left \<inter> objects = {} \<and> effect I {} (objects \<union> left) create \<and> effect I objects {} destroy"
    using assms(3)
  proof (elim insertE emptyE)
    assume "(create, destroy, left) = (ThanosRulerUserWorkloadTask_create c f, ThanosRulerUserWorkloadTask_destroy c f,
      thanos_ruler_left_behind f - thanos_ruler_objects f)"
    with hashed_reconciler.thanos_ruler_effect [OF assms(1)] hashed_reconciler.thanos_ruler_removed [OF assms(1)]
    show ?thesis by (intro exI [of _ "thanos_ruler_objects f"]) auto
  next
    assume "(create, destroy, left) = (TelemeterClientTask_create c f cfg, TelemeterClientTask_destroy c f,
      telemeter_left_behind f - telemeter_objects f)"
    with hashed_reconciler.telemeter_effect [OF assms(1), of cfg] hashed_reconciler.telemeter_removed [OF assms(1)]
    show ?thesis by (intro exI [of _ "telemeter_objects f"]) auto
  qed
  then obtain objects where left: "left \<inter> objects = {}" and create: "effect I {} (objects \<union> left) create"
    and destroy: "effect I objects {} destroy" by blast
  from effectD [OF create assms(2)] assms(4) have w1: "sound I w1" "left \<inter> own I \<subseteq> seen I w1" by auto
  from outcome_untouched [OF effectD [OF destroy w1(1), unfolded assms(5)]] w1(2) left
  show ?thesis by (auto simp: untouched_def)
qed

theorem switching_off_leaves_behind_witness:
  "\<exists>w1 w2. ThanosRulerUserWorkloadTask_create quiet_client cluster_factory settled_cluster = (Ok (), w1) \<and>
     ThanosRulerUserWorkloadTask_destroy quiet_client cluster_factory w1 = (Ok (), w2) \<and>
     (KClusterRoleBinding, '''', ''assets/thanos-ruler/cluster-role-binding-monitoring.yaml'')
       \<in> seen (cluster_inventory counted) w2"
proof -
  let ?a = "(KClusterRoleBinding, '''', ''assets/thanos-ruler/cluster-role-binding-monitoring.yaml'')"
  obtain w1 where one: "ThanosRulerUserWorkloadTask_create quiet_client cluster_factory settled_cluster = (Ok (), w1)"
    and w1: "settled w1"
    using worksD [OF ruler_creation_works settled_cluster_settled] by (auto simp: goes_def)
  obtain w2 where two: "ThanosRulerUserWorkloadTask_destroy quiet_client cluster_factory w1 = (Ok (), w2)"
    using worksD [OF ruler_removal_works w1] by (auto simp: goes_def)
  have yielded: "yielded (p_return r) = {x. r = Ok x}" for r :: "ClusterRoleBinding res"
    by (auto simp: yielded_def)
  have "cluster_addresses KClusterRoleBinding (ThanosRulerMonitoringClusterRoleBinding cluster_factory) = {?a}"
    "cluster_addresses KClusterRoleBinding (ThanosRulerClusterRoleBinding cluster_factory) =
       {(KClusterRoleBinding, '''', ''assets/thanos-ruler/cluster-role-binding.yaml'')}"
    by (simp_all add: cluster_addresses_def ThanosRulerMonitoringClusterRoleBinding_def ThanosRulerClusterRoleBinding_def
        built yielded)
  then have left: "?a \<in> (thanos_ruler_left_behind cluster_factory - thanos_ruler_objects cluster_factory) \<inter>
      own (cluster_inventory counted)"
    by (auto simp: thanos_ruler_left_behind_def thanos_ruler_objects_def addresses_def cluster_addresses_def
        cluster_inventory_def counted_def)
  have "(ThanosRulerUserWorkloadTask_create quiet_client cluster_factory, ThanosRulerUserWorkloadTask_destroy quiet_client cluster_factory,
      thanos_ruler_left_behind cluster_factory - thanos_ruler_objects cluster_factory) \<in> {
      (ThanosRulerUserWorkloadTask_create quiet_client cluster_factory, ThanosRulerUserWorkloadTask_destroy quiet_client cluster_factory,
       thanos_ruler_left_behind cluster_factory - thanos_ruler_objects cluster_factory),
      (TelemeterClientTask_create quiet_client cluster_factory NewDefaultConfig, TelemeterClientTask_destroy quiet_client cluster_factory,
       telemeter_left_behind cluster_factory - telemeter_objects cluster_factory)}" by simp
  from switching_off_leaves_behind [OF cluster_hashed.hashed_reconciler_axioms settled_cluster_sound this one two] left
  have "?a \<in> seen (cluster_inventory counted) w2" by blast
  with one two show ?thesis by blast
qed

end
