(* ===== verification/Interleaving.thy ===== *)
theory Interleaving
  imports Cluster_Manifests
begin

text \<open>
  Tasks run at the same time: between any two calls of one task to the API server, the other tasks and
  the other controllers of the cluster make theirs. Here the client of a task is put among such
  interference, and every interface of the inventory is shown to survive it, on the condition that nobody
  else creates or removes the objects that are counted.
\<close>

section \<open>Interference\<close>

text \<open>
  \<open>interfere\<close> is what the others do between two calls. It is a function of the world, which holds whatever
  decides on their next steps, so that it stands for any schedule.
\<close>

definition shared :: "('w \<Rightarrow> 'w) \<Rightarrow> ('w, 'o) resource \<Rightarrow> ('w, 'o) resource" where
  "shared interfere R = \<lparr>
     r_Get = \<lambda>ns n w. r_Get R ns n (interfere w),
     r_List = \<lambda>ns sel w. r_List R ns sel (interfere w),
     r_Create = \<lambda>ns x w. r_Create R ns x (interfere w),
     r_Update = \<lambda>ns x w. r_Update R ns x (interfere w),
     r_UpdateStatus = \<lambda>ns x w. r_UpdateStatus R ns x (interfere w),
     r_Delete = \<lambda>ns n opts w. r_Delete R ns n opts (interfere w)\<rparr>"

definition interleaved :: "('w \<Rightarrow> 'w) \<Rightarrow> 'w Client \<Rightarrow> 'w Client" where
  "interleaved interfere c = \<lparr>
     version = version c, namespace = namespace c,
     userWorkloadNamespace = userWorkloadNamespace c, namespaceSelector = namespaceSelector c,
     Secrets = shared interfere (Secrets c),
     ConfigMaps = shared interfere (ConfigMaps c),
     Services = shared interfere (Services c),
     ServiceAccounts = shared interfere (ServiceAccounts c),
     Namespaces = shared interfere (Namespaces c),
     Pods = shared interfere (Pods c),
     Roles = shared interfere (Roles c),
     ClusterRoles = shared interfere (ClusterRoles c),
     RoleBindings = shared interfere (RoleBindings c),
     ClusterRoleBindings = shared interfere (ClusterRoleBindings c),
     ValidatingWebhookConfigurations = shared interfere (ValidatingWebhookConfigurations c),
     Deployments = shared interfere (Deployments c),
     DaemonSets = shared interfere (DaemonSets c),
     StatefulSets = shared interfere (StatefulSets c),
     SCCs = shared interfere (SCCs c),
     Routes = shared interfere (Routes c),
     APIServices = shared interfere (APIServices c),
     Prometheuses = shared interfere (Prometheuses c),
     Alertmanagers = shared interfere (Alertmanagers c),
     ThanosRulers = shared interfere (ThanosRulers c),
     PrometheusRules = shared interfere (PrometheusRules c),
     ServiceMonitors = shared interfere (ServiceMonitors c),
     CustomResourceDefinitions = shared interfere (CustomResourceDefinitions c),
     ClusterVersions = shared interfere (ClusterVersions c),
     Proxies = shared interfere (Proxies c),
     Infrastructures = shared interfere (Infrastructures c),
     ClusterOperators = shared interfere (ClusterOperators c),
     PrometheusStatus = \<lambda>p w. PrometheusStatus c p (interfere w),
     AlertmanagerStatus = \<lambda>a w. AlertmanagerStatus c a (interfere w),
     ThanosRulerStatus = \<lambda>t w. ThanosRulerStatus c t (interfere w),
     next_tick = \<lambda>w. next_tick c (interfere w)\<rparr>"

lemma shared_simps [simp]:
  "r_Get (shared interfere R) ns n w = r_Get R ns n (interfere w)"
  "r_List (shared interfere R) ns sel w = r_List R ns sel (interfere w)"
  "r_Create (shared interfere R) ns x w = r_Create R ns x (interfere w)"
  "r_Update (shared interfere R) ns x w = r_Update R ns x (interfere w)"
  "r_UpdateStatus (shared interfere R) ns x w = r_UpdateStatus R ns x (interfere w)"
  "r_Delete (shared interfere R) ns n opts w = r_Delete R ns n opts (interfere w)"
  by (simp_all add: shared_def)

lemma interleaved_simps [simp]:
  "namespace (interleaved interfere c) = namespace c"
  "Secrets (interleaved interfere c) = shared interfere (Secrets c)"
  "ConfigMaps (interleaved interfere c) = shared interfere (ConfigMaps c)"
  "Services (interleaved interfere c) = shared interfere (Services c)"
  "ServiceAccounts (interleaved interfere c) = shared interfere (ServiceAccounts c)"
  "Namespaces (interleaved interfere c) = shared interfere (Namespaces c)"
  "Pods (interleaved interfere c) = shared interfere (Pods c)"
  "Roles (interleaved interfere c) = shared interfere (Roles c)"
  "ClusterRoles (interleaved interfere c) = shared interfere (ClusterRoles c)"
  "RoleBindings (interleaved interfere c) = shared interfere (RoleBindings c)"
  "ClusterRoleBindings (interleaved interfere c) = shared interfere (ClusterRoleBindings c)"
  "ValidatingWebhookConfigurations (interleaved interfere c) = shared interfere (ValidatingWebhookConfigurations c)"
  "Deployments (interleaved interfere c) = shared interfere (Deployments c)"
  "DaemonSets (interleaved interfere c) = shared interfere (DaemonSets c)"
  "StatefulSets (interleaved interfere c) = shared interfere (StatefulSets c)"
  "SCCs (interleaved interfere c) = shared interfere (SCCs c)"
  "Routes (interleaved interfere c) = shared interfere (Routes c)"
  "APIServices (interleaved interfere c) = shared interfere (APIServices c)"
  "Prometheuses (interleaved interfere c) = shared interfere (Prometheuses c)"
  "Alertmanagers (interleaved interfere c) = shared interfere (Alertmanagers c)"
  "ThanosRulers (interleaved interfere c) = shared interfere (ThanosRulers c)"
  "PrometheusRules (interleaved interfere c) = shared interfere (PrometheusRules c)"
  "ServiceMonitors (interleaved interfere c) = shared interfere (ServiceMonitors c)"
  "CustomResourceDefinitions (interleaved interfere c) = shared interfere (CustomResourceDefinitions c)"
  "ClusterVersions (interleaved interfere c) = shared interfere (ClusterVersions c)"
  "Proxies (interleaved interfere c) = shared interfere (Proxies c)"
  "Infrastructures (interleaved interfere c) = shared interfere (Infrastructures c)"
  "ClusterOperators (interleaved interfere c) = shared interfere (ClusterOperators c)"
  "PrometheusStatus (interleaved interfere c) p w = PrometheusStatus c p (interfere w)"
  "AlertmanagerStatus (interleaved interfere c) a w = AlertmanagerStatus c a (interfere w)"
  "ThanosRulerStatus (interleaved interfere c) t w = ThanosRulerStatus c t (interfere w)"
  "next_tick (interleaved interfere c) = (\<lambda>w. next_tick c (interfere w))"
  by (simp_all add: interleaved_def)

section \<open>What interference leaves alone\<close>

locale interference =
  fixes I :: "'w inventory" and interfere :: "'w \<Rightarrow> 'w"
  assumes stays_sound: "sound I w \<Longrightarrow> sound I (interfere w)"
    and stays_seen: "sound I w \<Longrightarrow> seen I (interfere w) = seen I w"
begin

text \<open>A call keeps its effect when it happens after the interference.\<close>

lemma effect_delayed:
  assumes "effect I R A m" and "\<And>w. m' w = m (interfere w)"
  shows "effect I R A m'"
proof (rule effectI)
  fix w assume w: "sound I w"
  from effectD [OF assms(1) stays_sound [OF w]] show "outcome I R A w (m' w)"
    unfolding assms(2) outcome_cong [OF stays_seen [OF w]] .
qed

lemma tracked_kind_shared:
  fixes R :: "('w, 'z ObjectMeta_scheme) resource"
  assumes "tracked_kind I K R"
  shows "tracked_kind I K (shared interfere R)"
proof
  show "idle I (r_Get (shared interfere R) ns n)" "idle I (r_List (shared interfere R) ns sel)" for ns n sel
    by (rule effect_delayed [OF tracked_kind.get_idle [OF assms]] effect_delayed [OF tracked_kind.list_idle [OF assms]]; simp)+
  show "effect I {} {(K, ns, Name x)} (r_Create (shared interfere R) ns x)"
    "effect I {} {(K, ns, Name x)} (r_Update (shared interfere R) ns x)" for ns x
    by (rule effect_delayed [OF tracked_kind.create_adds [OF assms]] effect_delayed [OF tracked_kind.update_keeps [OF assms]]; simp)+
  show "effect I {(K, ns, n)} {} (r_Delete (shared interfere R) ns n opts)" for ns n opts
    by (rule effect_delayed [OF tracked_kind.delete_removes [OF assms]]) simp
  show "(K, ns, n) \<in> stored I w'" if "r_Get (shared interfere R) ns n w = (Ok x, w')" for ns n w x w'
    using that tracked_kind.get_found [OF assms] by simp
  show "Name x = n \<and> Namespace x = ns" if "sound I w" "r_Get (shared interfere R) ns n w = (Ok x, w')" for ns n w x w'
    using tracked_kind.get_addressed [OF assms stays_sound [OF that(1)]] that(2) by simp
  show "seen I w' = seen I w \<and> (K, ns, n) \<notin> seen I w"
    if "sound I w" "r_Delete (shared interfere R) ns n opts w = (Err e, w')" "IsNotFound e" for ns n opts w e w'
    using that tracked_kind.delete_missing [OF assms, of "interfere w"] stays_sound stays_seen by simp
qed

lemma calm_shared: "calm I tick \<Longrightarrow> calm I (\<lambda>w. tick (interfere w))"
  unfolding calm_def using stays_sound stays_seen by metis

lemma client_inventory_interleaved:
  assumes "client_inventory I c"
  shows "client_inventory I (interleaved interfere c)"
proof (intro client_inventory.intro client_inventory_axioms.intro)
  show "calm I (next_tick (interleaved interfere c))"
    using calm_shared [OF client_inventory.tick [OF assms]] by simp
  show "idle I (PrometheusStatus (interleaved interfere c) p)" "idle I (AlertmanagerStatus (interleaved interfere c) a)"
    "idle I (ThanosRulerStatus (interleaved interfere c) t)" for p a t
    by (rule effect_delayed [OF client_inventory.operand_status(1) [OF assms]]
        effect_delayed [OF client_inventory.operand_status(2) [OF assms]]
        effect_delayed [OF client_inventory.operand_status(3) [OF assms]]; simp)+
  show "idle I (r_List (Pods (interleaved interfere c)) ns sel)"
    "idle I (r_List (Namespaces (interleaved interfere c)) ns sel)" for ns sel
    by (rule effect_delayed [OF client_inventory.pods_list [OF assms]]
        effect_delayed [OF client_inventory.namespaces_list [OF assms]]; simp)+
qed (simp_all add: tracked_kind_shared client_inventory.axioms [OF assms])

lemma hashed_reconciler_interleaved:
  assumes "hashed_reconciler I c f"
  shows "hashed_reconciler I (interleaved interfere c) f"
  using assms client_inventory_interleaved unfolding hashed_reconciler_def reconciler_def by blast

text \<open>The whole operator among other controllers.\<close>

lemma operator_inventory_interleaved:
  assumes "operator_inventory I o' env"
  shows "operator_inventory I (o'\<lparr>op_client := interleaved interfere (op_client o')\<rparr>) env"
proof (intro operator_inventory.intro operator_inventory_axioms.intro)
  let ?o = "o'\<lparr>op_client := interleaved interfere (op_client o')\<rparr>"
  show "hashed_reconciler I (op_client ?o) env"
    using hashed_reconciler_interleaved [OF operator_inventory.axioms(1) [OF assms]] by simp
  show "idle I (GetByKey ?o key)" for key using operator_inventory.cached_idle [OF assms] by simp
  show "idle I (r_Get (ClusterVersions (op_client ?o)) ns n)" "idle I (r_Get (Proxies (op_client ?o)) ns n)"
    "idle I (r_Get (Infrastructures (op_client ?o)) ns n)" "idle I (r_Get (ClusterOperators (op_client ?o)) ns n)" for ns n
    by (rule effect_delayed [OF operator_inventory.cluster_version_idle [OF assms]]
        effect_delayed [OF operator_inventory.proxy_idle [OF assms]]
        effect_delayed [OF operator_inventory.infrastructure_idle [OF assms]]
        effect_delayed [OF operator_inventory.status_idle(1) [OF assms]]; simp)+
  show "idle I (r_Create (ClusterOperators (op_client ?o)) ns co)"
    "idle I (r_UpdateStatus (ClusterOperators (op_client ?o)) ns co)" for ns co
    by (rule effect_delayed [OF operator_inventory.status_idle(2) [OF assms]]
        effect_delayed [OF operator_inventory.status_idle(3) [OF assms]]; simp)+
qed

end

text \<open>
  What may interfere: any call that has no effect on what is counted, such as one that creates or removes
  an object outside it, whatever the call returns; and several of them one after the other.
\<close>

lemma interference_idle: "idle I m \<Longrightarrow> interference I (\<lambda>w. snd (m w))"
  by unfold_locales (metis idleD prod.collapse)+

lemma interference_foreign:
  assumes "effect I R A m" and "(R \<union> A) \<inter> own I = {}"
  shows "interference I (\<lambda>w. snd (m w))"
  using interference_idle [OF idle_foreign [OF assms(1)]] assms(2) by blast

lemma interference_comp: "interference I e \<Longrightarrow> interference I e' \<Longrightarrow> interference I (\<lambda>w. e' (e w))"
  by (simp add: interference_def)

lemma monitors_interleaved:
  "retired_monitors (interleaved interfere c) = retired_monitors c"
  "prometheus_removes (interleaved interfere c) = prometheus_removes c"
  by (simp_all add: fun_eq_iff prometheus_removes_def retired_monitors_def)

lemma task_plan_interleaved: "task_plan (interleaved interfere c) f cfg name = task_plan c f cfg name"
  unfolding task_plan_def prometheus_plan_def monitors_interleaved ..

section \<open>Tasks among other tasks\<close>

text \<open>
  C8. Tasks tolerate each other. A task carries out its plan also when, between any two of its calls to the
  API server, other tasks and other controllers make calls of their own in any number and order, as long as
  none of these creates or removes an object that is counted (such as the objects of this task): whatever
  the task returns, it touches none of them outside its plan, and when it returns nil, those that it plans
  to remove are gone and those that it plans to add are there.
\<close>

theorem tasks_tolerate_interference:
  assumes "hashed_reconciler I c f" and "complete cfg" and "sound I w"
    and "\<And>w. sound I w \<Longrightarrow> sound I (interfere w) \<and> seen I (interfere w) = seen I w"
    and "task_of cr checked issued ns (interleaved interfere c) f cfg name w = (r, w')"
  shows "sound I w' \<and> untouched (task_plan c f cfg name) (seen I w) (seen I w') \<and>
    (r = Ok () \<longrightarrow> seen I w' = (seen I w - fst (task_plan c f cfg name)) \<union> (snd (task_plan c f cfg name) \<inter> own I))"
proof -
  have "interference I interfere" using assms(4) by unfold_locales simp_all
  from interference.hashed_reconciler_interleaved [OF this assms(1)]
  have "effect I (fst (task_plan c f cfg name)) (snd (task_plan c f cfg name))
      (task_of cr checked issued ns (interleaved interfere c) f cfg name)"
    using hashed_reconciler.task_effect [OF _ assms(2)] by (metis task_plan_interleaved)
  from effectD [OF this assms(3), unfolded assms(5)]
  have o: "outcome I (fst (task_plan c f cfg name)) (snd (task_plan c f cfg name)) w (r, w')" .
  from outcome_untouched [OF this] have "untouched (task_plan c f cfg name) (seen I w) (seen I w')" by simp
  with o show ?thesis by (cases r) auto
qed

text \<open>A rival: the whole Alertmanager task runs between any two calls.\<close>

definition rival :: "Cluster \<Rightarrow> Cluster" where
  "rival = (\<lambda>w. snd (AlertmanagerTask_Run quiet_client cluster_factory w))"

definition uncontested :: "address set" where
  "uncontested = counted - alertmanager_objects cluster_factory"

interpretation contested: hashed_reconciler "cluster_inventory uncontested" quiet_client cluster_factory
  by unfold_locales (simp_all add: uncontested_def counted_def)

interpretation rivals: interference "cluster_inventory uncontested" rival
  unfolding rival_def
  by (rule interference_foreign [OF contested.alertmanager_effect]) (auto simp: uncontested_def)

theorem tasks_tolerate_interference_witness:
  "\<exists>r w'. task_of simple_crypto 10 10 ''openshift-monitoring'' (interleaved rival quiet_client) cluster_factory NewDefaultConfig
      ''Updating node-exporter'' empty_cluster = (r, w') \<and>
    untouched ({}, node_exporter_objects cluster_factory) (seen (cluster_inventory uncontested) empty_cluster)
      (seen (cluster_inventory uncontested) w') \<and>
    (r = Ok () \<longrightarrow> node_exporter_objects cluster_factory \<inter> uncontested \<subseteq> seen (cluster_inventory uncontested) w')"
proof -
  let ?I = "cluster_inventory uncontested" and ?name = "''Updating node-exporter''"
  obtain r w' where run: "task_of simple_crypto 10 10 ''openshift-monitoring'' (interleaved rival quiet_client) cluster_factory
      NewDefaultConfig ?name empty_cluster = (r, w')" by (metis surj_pair)
  have "sound ?I empty_cluster" by (simp add: empty_cluster_def cluster_inventory_def cluster_sound_def addressed_def)
  from tasks_tolerate_interference [OF contested.hashed_reconciler_axioms complete_NewDefaultConfig this
      conjI [OF rivals.stays_sound rivals.stays_seen] run]
  have "untouched (task_plan quiet_client cluster_factory NewDefaultConfig ?name) (seen ?I empty_cluster) (seen ?I w') \<and>
    (r = Ok () \<longrightarrow> seen ?I w' = (seen ?I empty_cluster - fst (task_plan quiet_client cluster_factory NewDefaultConfig ?name)) \<union>
      (snd (task_plan quiet_client cluster_factory NewDefaultConfig ?name) \<inter> own ?I))" by blast
  moreover have "task_plan quiet_client cluster_factory NewDefaultConfig ?name = ({}, node_exporter_objects cluster_factory)"
    by (simp add: task_plan_def)
  moreover have "own ?I = uncontested" by (simp add: cluster_inventory_def)
  ultimately show ?thesis using run by auto
qed

text \<open>The operator as a whole, when other controllers act between its calls.\<close>

theorem sync_tolerates_interference:
  assumes "operator_inventory I o' env" and "interference I interfere" and "distinct order" and "set order = {..<15}"
    and "sound I w" and "r \<noteq> Panic"
    and "sync (with_tasks cr checked issued env (o'\<lparr>op_client := interleaved interfere (op_client o')\<rparr>)) order key w = (r, w')"
  shows "sound I w' \<and> (case operator_Config (with_tasks cr checked issued env
        (o'\<lparr>op_client := interleaved interfere (op_client o')\<rparr>)) key w of
      (Ok config, _) \<Rightarrow> (\<exists>cfg. prepare_config o' config = Ok cfg \<and>
         untouched (sync_plan env o' cfg) (seen I w) (seen I w') \<and>
         (r = Ok () \<longrightarrow> reached (own I) (sync_plan env o' cfg) (seen I w) (seen I w')))
    | _ \<Rightarrow> seen I w' = seen I w)"
proof -
  let ?o = "o'\<lparr>op_client := interleaved interfere (op_client o')\<rparr>"
  have same: "prepare_config ?o config = prepare_config o' config" "sync_plan env ?o cfg = sync_plan env o' cfg" for config cfg
    by (simp_all add: prepare_config_def sync_plan_def removals_def additions_def task_plan_interleaved Let_def)
  from operator_inventory.sync_effect [OF interference.operator_inventory_interleaved [OF assms(2,1)] assms(3-5,7,6)]
  show ?thesis unfolding same .
qed

end
