(* ===== verification/Asset_Files.thy ===== *)
theory Asset_Files
  imports Cluster_Manifests
begin

text \<open>
  The files that the operator is shipped with: the variables of \<open>pkg/manifests/manifests.go\<close> that name the
  manifests below the directory of the assets, and the proof that the tasks read no other file. Whatever
  else lies in that directory, or is missing from it, makes no difference to a reconciliation.
\<close>

section \<open>The names of the assets\<close>

text \<open>Every variable with the file that it names, component by component.\<close>

definition assets_alertmanager :: "(string \<times> string) list" where
  "assets_alertmanager = [
     (''AlertmanagerConfig'', ''alertmanager/secret.yaml''),
     (''AlertmanagerService'', ''alertmanager/service.yaml''),
     (''AlertmanagerProxySecret'', ''alertmanager/proxy-secret.yaml''),
     (''AlertmanagerMain'', ''alertmanager/alertmanager.yaml''),
     (''AlertmanagerServiceAccount'', ''alertmanager/service-account.yaml''),
     (''AlertmanagerClusterRoleBinding'', ''alertmanager/cluster-role-binding.yaml''),
     (''AlertmanagerClusterRole'', ''alertmanager/cluster-role.yaml''),
     (''AlertmanagerRBACProxySecret'', ''alertmanager/kube-rbac-proxy-secret.yaml''),
     (''AlertmanagerRoute'', ''alertmanager/route.yaml''),
     (''AlertmanagerServiceMonitor'', ''alertmanager/service-monitor.yaml''),
     (''AlertmanagerTrustedCABundle'', ''alertmanager/trusted-ca-bundle.yaml'')]"

definition assets_kube_state_metrics :: "(string \<times> string) list" where
  "assets_kube_state_metrics = [
     (''KubeStateMetricsClusterRoleBinding'', ''kube-state-metrics/cluster-role-binding.yaml''),
     (''KubeStateMetricsClusterRole'', ''kube-state-metrics/cluster-role.yaml''),
     (''KubeStateMetricsDeployment'', ''kube-state-metrics/deployment.yaml''),
     (''KubeStateMetricsServiceAccount'', ''kube-state-metrics/service-account.yaml''),
     (''KubeStateMetricsService'', ''kube-state-metrics/service.yaml''),
     (''KubeStateMetricsServiceMonitor'', ''kube-state-metrics/service-monitor.yaml'')]"

definition assets_openshift_state_metrics :: "(string \<times> string) list" where
  "assets_openshift_state_metrics = [
     (''OpenShiftStateMetricsClusterRoleBinding'', ''openshift-state-metrics/cluster-role-binding.yaml''),
     (''OpenShiftStateMetricsClusterRole'', ''openshift-state-metrics/cluster-role.yaml''),
     (''OpenShiftStateMetricsDeployment'', ''openshift-state-metrics/deployment.yaml''),
     (''OpenShiftStateMetricsServiceAccount'', ''openshift-state-metrics/service-account.yaml''),
     (''OpenShiftStateMetricsService'', ''openshift-state-metrics/service.yaml''),
     (''OpenShiftStateMetricsServiceMonitor'', ''openshift-state-metrics/service-monitor.yaml'')]"

definition assets_node_exporter :: "(string \<times> string) list" where
  "assets_node_exporter = [
     (''NodeExporterDaemonSet'', ''node-exporter/daemonset.yaml''),
     (''NodeExporterService'', ''node-exporter/service.yaml''),
     (''NodeExporterServiceAccount'', ''node-exporter/service-account.yaml''),
     (''NodeExporterClusterRole'', ''node-exporter/cluster-role.yaml''),
     (''NodeExporterClusterRoleBinding'', ''node-exporter/cluster-role-binding.yaml''),
     (''NodeExporterSecurityContextConstraints'', ''node-exporter/security-context-constraints.yaml''),
     (''NodeExporterServiceMonitor'', ''node-exporter/service-monitor.yaml'')]"

definition assets_prometheus_k8s :: "(string \<times> string) list" where
  "assets_prometheus_k8s = [
     (''PrometheusK8sClusterRoleBinding'', ''prometheus-k8s/cluster-role-binding.yaml''),
     (''PrometheusK8sRoleBindingConfig'', ''prometheus-k8s/role-binding-config.yaml''),
     (''PrometheusK8sRoleBindingList'', ''prometheus-k8s/role-binding-specific-namespaces.yaml''),
     (''PrometheusK8sClusterRole'', ''prometheus-k8s/cluster-role.yaml''),
     (''PrometheusK8sRoleConfig'', ''prometheus-k8s/role-config.yaml''),
     (''PrometheusK8sRoleList'', ''prometheus-k8s/role-specific-namespaces.yaml''),
     (''PrometheusK8sRules'', ''prometheus-k8s/rules.yaml''),
     (''PrometheusK8sServiceAccount'', ''prometheus-k8s/service-account.yaml''),
     (''PrometheusK8s'', ''prometheus-k8s/prometheus.yaml''),
     (''PrometheusK8sKubeletServiceMonitor'', ''prometheus-k8s/service-monitor-kubelet.yaml''),
     (''PrometheusK8sPrometheusServiceMonitor'', ''prometheus-k8s/service-monitor.yaml''),
     (''PrometheusK8sService'', ''prometheus-k8s/service.yaml''),
     (''PrometheusK8sServiceThanosSidecar'', ''prometheus-k8s/service-thanos-sidecar.yaml''),
     (''PrometheusK8sProxySecret'', ''prometheus-k8s/proxy-secret.yaml''),
     (''PrometheusRBACProxySecret'', ''prometheus-k8s/kube-rbac-proxy-secret.yaml''),
     (''PrometheusK8sRoute'', ''prometheus-k8s/route.yaml''),
     (''PrometheusK8sHtpasswd'', ''prometheus-k8s/htpasswd-secret.yaml''),
     (''PrometheusK8sEtcdServiceMonitor'', ''prometheus-k8s/service-monitor-etcd.yaml''),
     (''PrometheusK8sServingCertsCABundle'', ''prometheus-k8s/serving-certs-ca-bundle.yaml''),
     (''PrometheusK8sKubeletServingCABundle'', ''prometheus-k8s/kubelet-serving-ca-bundle.yaml''),
     (''PrometheusK8sGrpcTLSSecret'', ''prometheus-k8s/grpc-tls-secret.yaml''),
     (''PrometheusK8sTrustedCABundle'', ''prometheus-k8s/trusted-ca-bundle.yaml''),
     (''PrometheusK8sThanosSidecarServiceMonitor'', ''prometheus-k8s/service-monitor-thanos-sidecar.yaml'')]"

definition assets_prometheus_user_workload :: "(string \<times> string) list" where
  "assets_prometheus_user_workload = [
     (''PrometheusUserWorkloadServingCertsCABundle'', ''prometheus-user-workload/serving-certs-ca-bundle.yaml''),
     (''PrometheusUserWorkloadServiceAccount'', ''prometheus-user-workload/service-account.yaml''),
     (''PrometheusUserWorkloadClusterRole'', ''prometheus-user-workload/cluster-role.yaml''),
     (''PrometheusUserWorkloadClusterRoleBinding'', ''prometheus-user-workload/cluster-role-binding.yaml''),
     (''PrometheusUserWorkloadRoleConfig'', ''prometheus-user-workload/role-config.yaml''),
     (''PrometheusUserWorkloadRoleList'', ''prometheus-user-workload/role-specific-namespaces.yaml''),
     (''PrometheusUserWorkloadRoleBindingList'', ''prometheus-user-workload/role-binding-specific-namespaces.yaml''),
     (''PrometheusUserWorkloadRoleBindingConfig'', ''prometheus-user-workload/role-binding-config.yaml''),
     (''PrometheusUserWorkloadService'', ''prometheus-user-workload/service.yaml''),
     (''PrometheusUserWorkloadServiceThanosSidecar'', ''prometheus-user-workload/service-thanos-sidecar.yaml''),
     (''PrometheusUserWorkload'', ''prometheus-user-workload/prometheus.yaml''),
     (''PrometheusUserWorkloadPrometheusServiceMonitor'', ''prometheus-user-workload/service-monitor.yaml''),
     (''PrometheusUserWorkloadGrpcTLSSecret'', ''prometheus-user-workload/grpc-tls-secret.yaml''),
     (''PrometheusUserWorkloadThanosSidecarServiceMonitor'', ''prometheus-user-workload/service-monitor-thanos-sidecar.yaml'')]"

definition assets_prometheus_adapter :: "(string \<times> string) list" where
  "assets_prometheus_adapter = [
     (''PrometheusAdapterAPIService'', ''prometheus-adapter/api-service.yaml''),
     (''PrometheusAdapterClusterRole'', ''prometheus-adapter/cluster-role.yaml''),
     (''PrometheusAdapterClusterRoleBinding'', ''prometheus-adapter/cluster-role-binding.yaml''),
     (''PrometheusAdapterClusterRoleBindingDelegator'', ''prometheus-adapter/cluster-role-binding-delegator.yaml''),
     (''PrometheusAdapterClusterRoleBindingView'', ''prometheus-adapter/cluster-role-binding-view.yaml''),
     (''PrometheusAdapterClusterRoleServerResources'', ''prometheus-adapter/cluster-role-server-resources.yaml''),
     (''PrometheusAdapterClusterRoleAggregatedMetricsReader'', ''prometheus-adapter/cluster-role-aggregated-metrics-reader.yaml''),
     (''PrometheusAdapterConfigMap'', ''prometheus-adapter/config-map.yaml''),
     (''PrometheusAdapterConfigMapPrometheus'', ''prometheus-adapter/configmap-prometheus.yaml''),
     (''PrometheusAdapterDeployment'', ''prometheus-adapter/deployment.yaml''),
     (''PrometheusAdapterRoleBindingAuthReader'', ''prometheus-adapter/role-binding-auth-reader.yaml''),
     (''PrometheusAdapterService'', ''prometheus-adapter/service.yaml''),
     (''PrometheusAdapterServiceMonitor'', ''prometheus-adapter/service-monitor.yaml''),
     (''PrometheusAdapterServiceAccount'', ''prometheus-adapter/service-account.yaml'')]"

definition assets_prometheus_operator :: "(string \<times> string) list" where
  "assets_prometheus_operator = [
     (''PrometheusOperatorClusterRoleBinding'', ''prometheus-operator/cluster-role-binding.yaml''),
     (''PrometheusOperatorClusterRole'', ''prometheus-operator/cluster-role.yaml''),
     (''PrometheusOperatorServiceAccount'', ''prometheus-operator/service-account.yaml''),
     (''PrometheusOperatorDeployment'', ''prometheus-operator/deployment.yaml''),
     (''PrometheusOperatorService'', ''prometheus-operator/service.yaml''),
     (''PrometheusOperatorServiceMonitor'', ''prometheus-operator/service-monitor.yaml''),
     (''PrometheusOperatorCertsCABundle'', ''prometheus-operator/operator-certs-ca-bundle.yaml''),
     (''PrometheusOperatorRuleValidatingWebhook'', ''prometheus-operator/prometheus-rule-validating-webhook.yaml'')]"

definition assets_prometheus_operator_user_workload :: "(string \<times> string) list" where
  "assets_prometheus_operator_user_workload = [
     (''PrometheusOperatorUserWorkloadServiceAccount'', ''prometheus-operator-user-workload/service-account.yaml''),
     (''PrometheusOperatorUserWorkloadClusterRole'', ''prometheus-operator-user-workload/cluster-role.yaml''),
     (''PrometheusOperatorUserWorkloadClusterRoleBinding'', ''prometheus-operator-user-workload/cluster-role-binding.yaml''),
     (''PrometheusOperatorUserWorkloadService'', ''prometheus-operator-user-workload/service.yaml''),
     (''PrometheusOperatorUserWorkloadDeployment'', ''prometheus-operator-user-workload/deployment.yaml''),
     (''PrometheusOperatorUserWorkloadServiceMonitor'', ''prometheus-operator-user-workload/service-monitor.yaml'')]"

definition assets_grafana :: "(string \<times> string) list" where
  "assets_grafana = [
     (''GrafanaClusterRoleBinding'', ''grafana/cluster-role-binding.yaml''),
     (''GrafanaClusterRole'', ''grafana/cluster-role.yaml''),
     (''GrafanaConfigSecret'', ''grafana/config.yaml''),
     (''GrafanaDatasourcesSecret'', ''grafana/dashboard-datasources.yaml''),
     (''GrafanaDashboardDefinitions'', ''grafana/dashboard-definitions.yaml''),
     (''GrafanaDashboardSources'', ''grafana/dashboard-sources.yaml''),
     (''GrafanaDeployment'', ''grafana/deployment.yaml''),
     (''GrafanaProxySecret'', ''grafana/proxy-secret.yaml''),
     (''GrafanaRoute'', ''grafana/route.yaml''),
     (''GrafanaServiceAccount'', ''grafana/service-account.yaml''),
     (''GrafanaService'', ''grafana/service.yaml''),
     (''GrafanaServiceMonitor'', ''grafana/service-monitor.yaml''),
     (''GrafanaTrustedCABundle'', ''grafana/trusted-ca-bundle.yaml'')]"

definition assets_cluster_monitoring_operator :: "(string \<times> string) list" where
  "assets_cluster_monitoring_operator = [
     (''ClusterMonitoringOperatorService'', ''cluster-monitoring-operator/service.yaml''),
     (''ClusterMonitoringOperatorServiceMonitor'', ''cluster-monitoring-operator/service-monitor.yaml''),
     (''ClusterMonitoringClusterRole'', ''cluster-monitoring-operator/cluster-role.yaml''),
     (''ClusterMonitoringRulesEditClusterRole'', ''cluster-monitoring-operator/monitoring-rules-edit-cluster-role.yaml''),
     (''ClusterMonitoringRulesViewClusterRole'', ''cluster-monitoring-operator/monitoring-rules-view-cluster-role.yaml''),
     (''ClusterMonitoringEditClusterRole'', ''cluster-monitoring-operator/monitoring-edit-cluster-role.yaml''),
     (''ClusterMonitoringEditUserWorkloadConfigRole'', ''cluster-monitoring-operator/user-workload-config-edit-role.yaml''),
     (''ClusterMonitoringGrpcTLSSecret'', ''cluster-monitoring-operator/grpc-tls-secret.yaml'')]"

definition assets_telemeter_client :: "(string \<times> string) list" where
  "assets_telemeter_client = [
     (''TelemeterClientClusterRole'', ''telemeter-client/cluster-role.yaml''),
     (''TelemeterClientClusterRoleBinding'', ''telemeter-client/cluster-role-binding.yaml''),
     (''TelemeterClientClusterRoleBindingView'', ''telemeter-client/cluster-role-binding-view.yaml''),
     (''TelemeterClientDeployment'', ''telemeter-client/deployment.yaml''),
     (''TelemeterClientSecret'', ''telemeter-client/secret.yaml''),
     (''TelemeterClientService'', ''telemeter-client/service.yaml''),
     (''TelemeterClientServiceAccount'', ''telemeter-client/service-account.yaml''),
     (''TelemeterClientServiceMonitor'', ''telemeter-client/service-monitor.yaml''),
     (''TelemeterClientServingCertsCABundle'', ''telemeter-client/serving-certs-ca-bundle.yaml'')]"

definition assets_thanos_querier :: "(string \<times> string) list" where
  "assets_thanos_querier = [
     (''ThanosQuerierDeployment'', ''thanos-querier/deployment.yaml''),
     (''ThanosQuerierService'', ''thanos-querier/service.yaml''),
     (''ThanosQuerierServiceMonitor'', ''thanos-querier/service-monitor.yaml''),
     (''ThanosQuerierPrometheusRule'', ''thanos-querier/prometheus-rule.yaml''),
     (''ThanosQuerierRoute'', ''thanos-querier/route.yaml''),
     (''ThanosQuerierOauthCookieSecret'', ''thanos-querier/oauth-cookie-secret.yaml''),
     (''ThanosQuerierHtpasswdSecret'', ''thanos-querier/oauth-htpasswd-secret.yaml''),
     (''ThanosQuerierRBACProxySecret'', ''thanos-querier/kube-rbac-proxy-secret.yaml''),
     (''ThanosQuerierRBACProxyRulesSecret'', ''thanos-querier/kube-rbac-proxy-rules-secret.yaml''),
     (''ThanosQuerierServiceAccount'', ''thanos-querier/service-account.yaml''),
     (''ThanosQuerierClusterRole'', ''thanos-querier/cluster-role.yaml''),
     (''ThanosQuerierClusterRoleBinding'', ''thanos-querier/cluster-role-binding.yaml''),
     (''ThanosQuerierGrpcTLSSecret'', ''thanos-querier/grpc-tls-secret.yaml''),
     (''ThanosQuerierTrustedCABundle'', ''thanos-querier/trusted-ca-bundle.yaml'')]"

definition assets_thanos_ruler :: "(string \<times> string) list" where
  "assets_thanos_ruler = [
     (''ThanosRulerCustomResource'', ''thanos-ruler/thanos-ruler.yaml''),
     (''ThanosRulerService'', ''thanos-ruler/service.yaml''),
     (''ThanosRulerRoute'', ''thanos-ruler/route.yaml''),
     (''ThanosRulerOauthCookieSecret'', ''thanos-ruler/oauth-cookie-secret.yaml''),
     (''ThanosRulerHtpasswdSecret'', ''thanos-ruler/oauth-htpasswd-secret.yaml''),
     (''ThanosRulerQueryConfigSecret'', ''thanos-ruler/query-config-secret.yaml''),
     (''ThanosRulerAlertmanagerConfigSecret'', ''thanos-ruler/alertmanagers-config-secret.yaml''),
     (''ThanosRulerServiceAccount'', ''thanos-ruler/service-account.yaml''),
     (''ThanosRulerClusterRole'', ''thanos-ruler/cluster-role.yaml''),
     (''ThanosRulerClusterRoleBinding'', ''thanos-ruler/cluster-role-binding.yaml''),
     (''ThanosRulerMonitoringClusterRoleBinding'', ''thanos-ruler/cluster-role-binding-monitoring.yaml''),
     (''ThanosRulerGrpcTLSSecret'', ''thanos-ruler/grpc-tls-secret.yaml''),
     (''ThanosRulerTrustedCABundle'', ''thanos-ruler/trusted-ca-bundle.yaml''),
     (''ThanosRulerServiceMonitor'', ''thanos-ruler/service-monitor.yaml''),
     (''ThanosRulerPrometheusRule'', ''thanos-ruler/thanos-ruler-prometheus-rule.yaml'')]"

definition assets_telemeter_bundle :: "(string \<times> string) list" where
  "assets_telemeter_bundle = [
     (''TelemeterTrustedCABundle'', ''telemeter-client/trusted-ca-bundle.yaml'')]"

definition asset_variables :: "(string \<times> string) list" where
  "asset_variables = assets_alertmanager @ assets_kube_state_metrics @ assets_openshift_state_metrics
     @ assets_node_exporter @ assets_prometheus_k8s @ assets_prometheus_user_workload
     @ assets_prometheus_adapter @ assets_prometheus_operator @ assets_prometheus_operator_user_workload
     @ assets_grafana @ assets_cluster_monitoring_operator @ assets_telemeter_client
     @ assets_thanos_querier @ assets_thanos_ruler @ assets_telemeter_bundle"

definition asset_files :: "string list" where
  "asset_files = map snd asset_variables"

lemmas asset_defs = asset_files_def asset_variables_def
  assets_alertmanager_def assets_kube_state_metrics_def assets_openshift_state_metrics_def
  assets_node_exporter_def assets_prometheus_k8s_def assets_prometheus_user_workload_def
  assets_prometheus_adapter_def assets_prometheus_operator_def assets_prometheus_operator_user_workload_def
  assets_grafana_def assets_cluster_monitoring_operator_def assets_telemeter_client_def
  assets_thanos_querier_def assets_thanos_ruler_def assets_telemeter_bundle_def

section \<open>Reading other files\<close>

text \<open>Two file systems that agree on the assets, wherever the directory of the assets is.\<close>

definition same_assets :: "'w Factory \<Rightarrow> ('w \<Rightarrow> string \<Rightarrow> string res) \<Rightarrow> bool" where
  "same_assets f rd \<longleftrightarrow> (\<forall>w. \<forall>name\<in>set asset_files.
     rd w (filepath_Join (assetsDir (fac_assets f w)) name) = ReadFile f w (filepath_Join (assetsDir (fac_assets f w)) name))"

named_theorems unread

text \<open>What does not read a file is the same with another file system.\<close>

lemma unread_fields [unread]:
  "fac_namespace (f\<lparr>ReadFile := rd\<rparr>) = fac_namespace f"
  "fac_namespaceUserWorkload (f\<lparr>ReadFile := rd\<rparr>) = fac_namespaceUserWorkload f"
  "fac_config (f\<lparr>ReadFile := rd\<rparr>) = fac_config f"
  "fac_assets (f\<lparr>ReadFile := rd\<rparr>) = fac_assets f"
  "put_assets (f\<lparr>ReadFile := rd\<rparr>) = put_assets f"
  "rand_Read (f\<lparr>ReadFile := rd\<rparr>) = rand_Read f"
  "yaml_DaemonSet (f\<lparr>ReadFile := rd\<rparr>) = yaml_DaemonSet f"
  "yaml_Service (f\<lparr>ReadFile := rd\<rparr>) = yaml_Service f"
  "yaml_Route (f\<lparr>ReadFile := rd\<rparr>) = yaml_Route f"
  "yaml_Secret (f\<lparr>ReadFile := rd\<rparr>) = yaml_Secret f"
  "yaml_RoleBinding (f\<lparr>ReadFile := rd\<rparr>) = yaml_RoleBinding f"
  "yaml_RoleList (f\<lparr>ReadFile := rd\<rparr>) = yaml_RoleList f"
  "yaml_RoleBindingList (f\<lparr>ReadFile := rd\<rparr>) = yaml_RoleBindingList f"
  "yaml_Role (f\<lparr>ReadFile := rd\<rparr>) = yaml_Role f"
  "yaml_ConfigMap (f\<lparr>ReadFile := rd\<rparr>) = yaml_ConfigMap f"
  "yaml_ConfigMapList (f\<lparr>ReadFile := rd\<rparr>) = yaml_ConfigMapList f"
  "yaml_ServiceAccount (f\<lparr>ReadFile := rd\<rparr>) = yaml_ServiceAccount f"
  "yaml_Prometheus (f\<lparr>ReadFile := rd\<rparr>) = yaml_Prometheus f"
  "yaml_PrometheusRule (f\<lparr>ReadFile := rd\<rparr>) = yaml_PrometheusRule f"
  "yaml_Alertmanager (f\<lparr>ReadFile := rd\<rparr>) = yaml_Alertmanager f"
  "yaml_ThanosRuler (f\<lparr>ReadFile := rd\<rparr>) = yaml_ThanosRuler f"
  "yaml_ServiceMonitor (f\<lparr>ReadFile := rd\<rparr>) = yaml_ServiceMonitor f"
  "yaml_Deployment (f\<lparr>ReadFile := rd\<rparr>) = yaml_Deployment f"
  "yaml_APIService (f\<lparr>ReadFile := rd\<rparr>) = yaml_APIService f"
  "yaml_SecurityContextConstraints (f\<lparr>ReadFile := rd\<rparr>) = yaml_SecurityContextConstraints f"
  "yaml_ClusterRoleBinding (f\<lparr>ReadFile := rd\<rparr>) = yaml_ClusterRoleBinding f"
  "yaml_ClusterRole (f\<lparr>ReadFile := rd\<rparr>) = yaml_ClusterRole f"
  "yaml_ValidatingWebhook (f\<lparr>ReadFile := rd\<rparr>) = yaml_ValidatingWebhook f"
  "unmarshal_datasources (f\<lparr>ReadFile := rd\<rparr>) = unmarshal_datasources f"
  "marshal_datasources (f\<lparr>ReadFile := rd\<rparr>) = marshal_datasources f"
  "unmarshal_strings (f\<lparr>ReadFile := rd\<rparr>) = unmarshal_strings f"
  "marshal_map (f\<lparr>ReadFile := rd\<rparr>) = marshal_map f"
  "sha1_Sum (f\<lparr>ReadFile := rd\<rparr>) = sha1_Sum f"
  "promql_parse (f\<lparr>ReadFile := rd\<rparr>) = promql_parse f"
  "map_order (f\<lparr>ReadFile := rd\<rparr>) = map_order f"
  by simp_all

lemma unread_parts_1 [unread]:
  "password (f\<lparr>ReadFile := rd\<rparr>) = password f"
  "read_DaemonSet (f\<lparr>ReadFile := rd\<rparr>) = read_DaemonSet f"
  "read_Service (f\<lparr>ReadFile := rd\<rparr>) = read_Service f"
  "read_Route (f\<lparr>ReadFile := rd\<rparr>) = read_Route f"
  "read_Secret (f\<lparr>ReadFile := rd\<rparr>) = read_Secret f"
  "read_RoleBinding (f\<lparr>ReadFile := rd\<rparr>) = read_RoleBinding f"
  "read_RoleList (f\<lparr>ReadFile := rd\<rparr>) = read_RoleList f"
  "read_RoleBindingList (f\<lparr>ReadFile := rd\<rparr>) = read_RoleBindingList f"
  "read_ConfigMapList (f\<lparr>ReadFile := rd\<rparr>) = read_ConfigMapList f"
  "read_Role (f\<lparr>ReadFile := rd\<rparr>) = read_Role f"
  "read_ConfigMap (f\<lparr>ReadFile := rd\<rparr>) = read_ConfigMap f"
  "read_ServiceAccount (f\<lparr>ReadFile := rd\<rparr>) = read_ServiceAccount f"
  "read_Prometheus (f\<lparr>ReadFile := rd\<rparr>) = read_Prometheus f"
  "read_PrometheusRule (f\<lparr>ReadFile := rd\<rparr>) = read_PrometheusRule f"
  "read_Alertmanager (f\<lparr>ReadFile := rd\<rparr>) = read_Alertmanager f"
  "read_ThanosRuler (f\<lparr>ReadFile := rd\<rparr>) = read_ThanosRuler f"
  unfolding password_def [abs_def] read_DaemonSet_def [abs_def] read_Service_def [abs_def] read_Route_def [abs_def]
    read_Secret_def [abs_def] read_RoleBinding_def [abs_def] read_RoleList_def [abs_def] read_RoleBindingList_def [abs_def]
    read_ConfigMapList_def [abs_def] read_Role_def [abs_def] read_ConfigMap_def [abs_def] read_ServiceAccount_def [abs_def]
    read_Prometheus_def [abs_def] read_PrometheusRule_def [abs_def] read_Alertmanager_def [abs_def] read_ThanosRuler_def [abs_def]
  by (simp_all only: unread from_asset_def session_secret_def)

lemma unread_parts_2 [unread]:
  "read_ServiceMonitor (f\<lparr>ReadFile := rd\<rparr>) = read_ServiceMonitor f"
  "read_Deployment (f\<lparr>ReadFile := rd\<rparr>) = read_Deployment f"
  "read_APIService (f\<lparr>ReadFile := rd\<rparr>) = read_APIService f"
  "read_SecurityContextConstraints (f\<lparr>ReadFile := rd\<rparr>) = read_SecurityContextConstraints f"
  "read_ClusterRoleBinding (f\<lparr>ReadFile := rd\<rparr>) = read_ClusterRoleBinding f"
  "read_ClusterRole (f\<lparr>ReadFile := rd\<rparr>) = read_ClusterRole f"
  "read_ValidatingWebhook (f\<lparr>ReadFile := rd\<rparr>) = read_ValidatingWebhook f"
  "NewDaemonSet (f\<lparr>ReadFile := rd\<rparr>) = NewDaemonSet f"
  "NewService (f\<lparr>ReadFile := rd\<rparr>) = NewService f"
  "NewRoute (f\<lparr>ReadFile := rd\<rparr>) = NewRoute f"
  "NewSecret (f\<lparr>ReadFile := rd\<rparr>) = NewSecret f"
  "NewRoleBinding (f\<lparr>ReadFile := rd\<rparr>) = NewRoleBinding f"
  "NewRoleList (f\<lparr>ReadFile := rd\<rparr>) = NewRoleList f"
  "NewRoleBindingList (f\<lparr>ReadFile := rd\<rparr>) = NewRoleBindingList f"
  "NewConfigMapList (f\<lparr>ReadFile := rd\<rparr>) = NewConfigMapList f"
  "NewRole (f\<lparr>ReadFile := rd\<rparr>) = NewRole f"
  unfolding read_ServiceMonitor_def [abs_def] read_Deployment_def [abs_def] read_APIService_def [abs_def] read_SecurityContextConstraints_def [abs_def]
    read_ClusterRoleBinding_def [abs_def] read_ClusterRole_def [abs_def] read_ValidatingWebhook_def [abs_def] NewDaemonSet_def [abs_def]
    NewService_def [abs_def] NewRoute_def [abs_def] NewSecret_def [abs_def] NewRoleBinding_def [abs_def]
    NewRoleList_def [abs_def] NewRoleBindingList_def [abs_def] NewConfigMapList_def [abs_def] NewRole_def [abs_def]
  by (simp_all only: unread from_asset_def session_secret_def)

lemma unread_parts_3 [unread]:
  "NewConfigMap (f\<lparr>ReadFile := rd\<rparr>) = NewConfigMap f"
  "NewServiceAccount (f\<lparr>ReadFile := rd\<rparr>) = NewServiceAccount f"
  "NewPrometheus (f\<lparr>ReadFile := rd\<rparr>) = NewPrometheus f"
  "NewPrometheusRule (f\<lparr>ReadFile := rd\<rparr>) = NewPrometheusRule f"
  "NewAlertmanager (f\<lparr>ReadFile := rd\<rparr>) = NewAlertmanager f"
  "NewThanosRuler (f\<lparr>ReadFile := rd\<rparr>) = NewThanosRuler f"
  "NewServiceMonitor (f\<lparr>ReadFile := rd\<rparr>) = NewServiceMonitor f"
  "NewDeployment (f\<lparr>ReadFile := rd\<rparr>) = NewDeployment f"
  "NewAPIService (f\<lparr>ReadFile := rd\<rparr>) = NewAPIService f"
  "NewSecurityContextConstraints (f\<lparr>ReadFile := rd\<rparr>) = NewSecurityContextConstraints f"
  "NewClusterRoleBinding (f\<lparr>ReadFile := rd\<rparr>) = NewClusterRoleBinding f"
  "NewClusterRole (f\<lparr>ReadFile := rd\<rparr>) = NewClusterRole f"
  "NewValidatingWebhook (f\<lparr>ReadFile := rd\<rparr>) = NewValidatingWebhook f"
  "NewTelemeterPrometheusRecRuleFromString (f\<lparr>ReadFile := rd\<rparr>) = NewTelemeterPrometheusRecRuleFromString f"
  "generateHtpasswdSecret (f\<lparr>ReadFile := rd\<rparr>) = generateHtpasswdSecret f"
  unfolding NewConfigMap_def [abs_def] NewServiceAccount_def [abs_def] NewPrometheus_def [abs_def] NewPrometheusRule_def [abs_def]
    NewAlertmanager_def [abs_def] NewThanosRuler_def [abs_def] NewServiceMonitor_def [abs_def] NewDeployment_def [abs_def]
    NewAPIService_def [abs_def] NewSecurityContextConstraints_def [abs_def] NewClusterRoleBinding_def [abs_def] NewClusterRole_def [abs_def]
    NewValidatingWebhook_def [abs_def] NewTelemeterPrometheusRecRuleFromString_def [abs_def] generateHtpasswdSecret_def [abs_def]
  by (simp_all only: unread from_asset_def session_secret_def)

lemma unread_parts_4 [unread]:
  "cmc_of (f\<lparr>ReadFile := rd\<rparr>) = cmc_of f"
  "etcd_enabled (f\<lparr>ReadFile := rd\<rparr>) = etcd_enabled f"
  "telemeter_of_factory (f\<lparr>ReadFile := rd\<rparr>) = telemeter_of_factory f"
  unfolding cmc_of_def [abs_def] etcd_enabled_def [abs_def] telemeter_of_factory_def [abs_def]
  by (simp_all only: unread from_asset_def session_secret_def Let_def cong: if_cong option.case_cong res.case_cong sum.case_cong list.case_cong)

lemma unread_parts_5 [unread]:
  "proxied (f\<lparr>ReadFile := rd\<rparr>) = proxied f"
  "images_of (f\<lparr>ReadFile := rd\<rparr>) = images_of f"
  "with_image (f\<lparr>ReadFile := rd\<rparr>) = with_image f"
  "oauth_proxy (f\<lparr>ReadFile := rd\<rparr>) = oauth_proxy f"
  "alertmanager_container (f\<lparr>ReadFile := rd\<rparr>) = alertmanager_container f"
  "user_cfg_of (f\<lparr>ReadFile := rd\<rparr>) = user_cfg_of f"
  "grafana_container (f\<lparr>ReadFile := rd\<rparr>) = grafana_container f"
  "querier_container (f\<lparr>ReadFile := rd\<rparr>) = querier_container f"
  "telemeter_container (f\<lparr>ReadFile := rd\<rparr>) = telemeter_container f"
  unfolding proxied_def [abs_def] images_of_def [abs_def] with_image_def [abs_def] oauth_proxy_def [abs_def]
    alertmanager_container_def [abs_def] user_cfg_of_def [abs_def] grafana_container_def [abs_def] querier_container_def [abs_def]
    telemeter_container_def [abs_def]
  by (simp_all only: unread from_asset_def session_secret_def Let_def cong: if_cong option.case_cong res.case_cong sum.case_cong list.case_cong)

lemma unread_parts_6 [unread]:
  "telemetry_spec (f\<lparr>ReadFile := rd\<rparr>) = telemetry_spec f"
  "remote_writes (f\<lparr>ReadFile := rd\<rparr>) = remote_writes f"
  "proxy_loop (f\<lparr>ReadFile := rd\<rparr>) = proxy_loop f"
  "first_alertmanager (f\<lparr>ReadFile := rd\<rparr>) = first_alertmanager f"
  "prometheus_container (f\<lparr>ReadFile := rd\<rparr>) = prometheus_container f"
  unfolding telemetry_spec_def [abs_def] remote_writes_def [abs_def] proxy_loop_def [abs_def] first_alertmanager_def [abs_def]
    prometheus_container_def [abs_def]
  by (simp_all only: unread from_asset_def session_secret_def Let_def cong: if_cong option.case_cong res.case_cong sum.case_cong list.case_cong)

lemma unread_parts_7 [unread]:
  "PrometheusK8s_spec (f\<lparr>ReadFile := rd\<rparr>) = PrometheusK8s_spec f"
  unfolding PrometheusK8s_spec_def [abs_def]
  by (simp_all only: unread from_asset_def session_secret_def Let_def cong: if_cong option.case_cong res.case_cong sum.case_cong list.case_cong)

lemma unread_parts_8 [unread]:
  "HashTrustedCA (f\<lparr>ReadFile := rd\<rparr>) = HashTrustedCA f"
  "PrometheusAdapterSecret (f\<lparr>ReadFile := rd\<rparr>) = PrometheusAdapterSecret f"
  "PrometheusK8sEtcdSecret (f\<lparr>ReadFile := rd\<rparr>) = PrometheusK8sEtcdSecret f"
  unfolding HashTrustedCA_def [abs_def] PrometheusAdapterSecret_def [abs_def] PrometheusK8sEtcdSecret_def [abs_def]
  by (simp_all only: unread from_asset_def session_secret_def Let_def cong: if_cong option.case_cong res.case_cong sum.case_cong list.case_cong)

lemma unread_parts_9 [unread]:
  "syncTrustedCABundle ns c (f\<lparr>ReadFile := rd\<rparr>) = syncTrustedCABundle ns c f"
  unfolding syncTrustedCABundle_def [abs_def]
  by (simp_all only: unread from_asset_def session_secret_def Let_def cong: if_cong option.case_cong res.case_cong sum.case_cong list.case_cong)

lemma unread_parts_10 [unread]:
  "generateTelemeterWhitelistRec (f\<lparr>ReadFile := rd\<rparr>) = generateTelemeterWhitelistRec f"
  unfolding generateTelemeterWhitelistRec_def [abs_def]
  by (simp_all only: unread from_asset_def session_secret_def Let_def cong: if_cong option.case_cong res.case_cong sum.case_cong list.case_cong)

text \<open>What does read files reads assets only.\<close>

locale same_files =
  fixes f :: "'w Factory" and rd :: "'w \<Rightarrow> string \<Rightarrow> string res"
  assumes same: "same_assets f rd"
begin

lemma asset_unread:
  assumes "name \<in> set asset_files"
  shows "asset (f\<lparr>ReadFile := rd\<rparr>) name = asset f name"
proof
  fix w
  have "GetAsset (rd w) name (fac_assets f w) = GetAsset (ReadFile f w) name (fac_assets f w)"
    using same assms by (simp add: same_assets_def GetAsset_def Let_def split: option.split)
  then show "asset (f\<lparr>ReadFile := rd\<rparr>) name w = asset f name w"
    by (simp add: asset_def MustNewAssetReader_def)
qed

lemma assets_unread: "list_all (\<lambda>name. asset (f\<lparr>ReadFile := rd\<rparr>) name = asset f name) asset_files"
  using asset_unread by (auto simp: list_all_iff)

lemmas asset_unreads [unread] = assets_unread [unfolded asset_defs, simplified]

lemma unread_methods_1 [unread]:
  "AlertmanagerConfig (f\<lparr>ReadFile := rd\<rparr>) = AlertmanagerConfig f"
  "AlertmanagerProxySecret (f\<lparr>ReadFile := rd\<rparr>) = AlertmanagerProxySecret f"
  "AlertmanagerService (f\<lparr>ReadFile := rd\<rparr>) = AlertmanagerService f"
  "AlertmanagerServiceAccount (f\<lparr>ReadFile := rd\<rparr>) = AlertmanagerServiceAccount f"
  "AlertmanagerClusterRoleBinding (f\<lparr>ReadFile := rd\<rparr>) = AlertmanagerClusterRoleBinding f"
  "AlertmanagerClusterRole (f\<lparr>ReadFile := rd\<rparr>) = AlertmanagerClusterRole f"
  "AlertmanagerServiceMonitor (f\<lparr>ReadFile := rd\<rparr>) = AlertmanagerServiceMonitor f"
  "AlertmanagerTrustedCABundle (f\<lparr>ReadFile := rd\<rparr>) = AlertmanagerTrustedCABundle f"
  "AlertmanagerRBACProxySecret (f\<lparr>ReadFile := rd\<rparr>) = AlertmanagerRBACProxySecret f"
  "AlertmanagerRoute (f\<lparr>ReadFile := rd\<rparr>) = AlertmanagerRoute f"
  "KubeStateMetricsClusterRoleBinding (f\<lparr>ReadFile := rd\<rparr>) = KubeStateMetricsClusterRoleBinding f"
  "KubeStateMetricsClusterRole (f\<lparr>ReadFile := rd\<rparr>) = KubeStateMetricsClusterRole f"
  "KubeStateMetricsServiceMonitor (f\<lparr>ReadFile := rd\<rparr>) = KubeStateMetricsServiceMonitor f"
  "KubeStateMetricsServiceAccount (f\<lparr>ReadFile := rd\<rparr>) = KubeStateMetricsServiceAccount f"
  "KubeStateMetricsService (f\<lparr>ReadFile := rd\<rparr>) = KubeStateMetricsService f"
  "OpenShiftStateMetricsClusterRoleBinding (f\<lparr>ReadFile := rd\<rparr>) = OpenShiftStateMetricsClusterRoleBinding f"
  unfolding AlertmanagerConfig_def [abs_def] AlertmanagerProxySecret_def [abs_def] AlertmanagerService_def [abs_def] AlertmanagerServiceAccount_def [abs_def]
    AlertmanagerClusterRoleBinding_def [abs_def] AlertmanagerClusterRole_def [abs_def] AlertmanagerServiceMonitor_def [abs_def] AlertmanagerTrustedCABundle_def [abs_def]
    AlertmanagerRBACProxySecret_def [abs_def] AlertmanagerRoute_def [abs_def] KubeStateMetricsClusterRoleBinding_def [abs_def] KubeStateMetricsClusterRole_def [abs_def]
    KubeStateMetricsServiceMonitor_def [abs_def] KubeStateMetricsServiceAccount_def [abs_def] KubeStateMetricsService_def [abs_def] OpenShiftStateMetricsClusterRoleBinding_def [abs_def]
  by (simp_all only: unread from_asset_def session_secret_def Let_def cong: if_cong option.case_cong res.case_cong sum.case_cong list.case_cong)

lemma unread_methods_2 [unread]:
  "OpenShiftStateMetricsClusterRole (f\<lparr>ReadFile := rd\<rparr>) = OpenShiftStateMetricsClusterRole f"
  "OpenShiftStateMetricsServiceMonitor (f\<lparr>ReadFile := rd\<rparr>) = OpenShiftStateMetricsServiceMonitor f"
  "OpenShiftStateMetricsServiceAccount (f\<lparr>ReadFile := rd\<rparr>) = OpenShiftStateMetricsServiceAccount f"
  "OpenShiftStateMetricsService (f\<lparr>ReadFile := rd\<rparr>) = OpenShiftStateMetricsService f"
  "NodeExporterServiceMonitor (f\<lparr>ReadFile := rd\<rparr>) = NodeExporterServiceMonitor f"
  "NodeExporterService (f\<lparr>ReadFile := rd\<rparr>) = NodeExporterService f"
  "NodeExporterSecurityContextConstraints (f\<lparr>ReadFile := rd\<rparr>) = NodeExporterSecurityContextConstraints f"
  "NodeExporterServiceAccount (f\<lparr>ReadFile := rd\<rparr>) = NodeExporterServiceAccount f"
  "NodeExporterClusterRoleBinding (f\<lparr>ReadFile := rd\<rparr>) = NodeExporterClusterRoleBinding f"
  "NodeExporterClusterRole (f\<lparr>ReadFile := rd\<rparr>) = NodeExporterClusterRole f"
  "PrometheusK8sClusterRoleBinding (f\<lparr>ReadFile := rd\<rparr>) = PrometheusK8sClusterRoleBinding f"
  "ThanosQuerierClusterRoleBinding (f\<lparr>ReadFile := rd\<rparr>) = ThanosQuerierClusterRoleBinding f"
  "PrometheusUserWorkloadClusterRoleBinding (f\<lparr>ReadFile := rd\<rparr>) = PrometheusUserWorkloadClusterRoleBinding f"
  "PrometheusK8sClusterRole (f\<lparr>ReadFile := rd\<rparr>) = PrometheusK8sClusterRole f"
  "ThanosQuerierClusterRole (f\<lparr>ReadFile := rd\<rparr>) = ThanosQuerierClusterRole f"
  "PrometheusUserWorkloadClusterRole (f\<lparr>ReadFile := rd\<rparr>) = PrometheusUserWorkloadClusterRole f"
  unfolding OpenShiftStateMetricsClusterRole_def [abs_def] OpenShiftStateMetricsServiceMonitor_def [abs_def] OpenShiftStateMetricsServiceAccount_def [abs_def] OpenShiftStateMetricsService_def [abs_def]
    NodeExporterServiceMonitor_def [abs_def] NodeExporterService_def [abs_def] NodeExporterSecurityContextConstraints_def [abs_def] NodeExporterServiceAccount_def [abs_def]
    NodeExporterClusterRoleBinding_def [abs_def] NodeExporterClusterRole_def [abs_def] PrometheusK8sClusterRoleBinding_def [abs_def] ThanosQuerierClusterRoleBinding_def [abs_def]
    PrometheusUserWorkloadClusterRoleBinding_def [abs_def] PrometheusK8sClusterRole_def [abs_def] ThanosQuerierClusterRole_def [abs_def] PrometheusUserWorkloadClusterRole_def [abs_def]
  by (simp_all only: unread from_asset_def session_secret_def Let_def cong: if_cong option.case_cong res.case_cong sum.case_cong list.case_cong)

lemma unread_methods_3 [unread]:
  "PrometheusK8sRoleConfig (f\<lparr>ReadFile := rd\<rparr>) = PrometheusK8sRoleConfig f"
  "PrometheusUserWorkloadRoleConfig (f\<lparr>ReadFile := rd\<rparr>) = PrometheusUserWorkloadRoleConfig f"
  "PrometheusK8sRoleBindingConfig (f\<lparr>ReadFile := rd\<rparr>) = PrometheusK8sRoleBindingConfig f"
  "PrometheusUserWorkloadRoleBindingConfig (f\<lparr>ReadFile := rd\<rparr>) = PrometheusUserWorkloadRoleBindingConfig f"
  "PrometheusK8sServiceAccount (f\<lparr>ReadFile := rd\<rparr>) = PrometheusK8sServiceAccount f"
  "ThanosQuerierServiceAccount (f\<lparr>ReadFile := rd\<rparr>) = ThanosQuerierServiceAccount f"
  "PrometheusUserWorkloadServiceAccount (f\<lparr>ReadFile := rd\<rparr>) = PrometheusUserWorkloadServiceAccount f"
  "PrometheusK8sProxySecret (f\<lparr>ReadFile := rd\<rparr>) = PrometheusK8sProxySecret f"
  "PrometheusK8sGrpcTLSSecret (f\<lparr>ReadFile := rd\<rparr>) = PrometheusK8sGrpcTLSSecret f"
  "PrometheusUserWorkloadGrpcTLSSecret (f\<lparr>ReadFile := rd\<rparr>) = PrometheusUserWorkloadGrpcTLSSecret f"
  "ThanosQuerierGrpcTLSSecret (f\<lparr>ReadFile := rd\<rparr>) = ThanosQuerierGrpcTLSSecret f"
  "ThanosQuerierOauthCookieSecret (f\<lparr>ReadFile := rd\<rparr>) = ThanosQuerierOauthCookieSecret f"
  "PrometheusK8sHtpasswdSecret (f\<lparr>ReadFile := rd\<rparr>) = PrometheusK8sHtpasswdSecret f"
  "ThanosQuerierHtpasswdSecret (f\<lparr>ReadFile := rd\<rparr>) = ThanosQuerierHtpasswdSecret f"
  "ThanosRulerHtpasswdSecret (f\<lparr>ReadFile := rd\<rparr>) = ThanosRulerHtpasswdSecret f"
  "ThanosRulerQueryConfigSecret (f\<lparr>ReadFile := rd\<rparr>) = ThanosRulerQueryConfigSecret f"
  unfolding PrometheusK8sRoleConfig_def [abs_def] PrometheusUserWorkloadRoleConfig_def [abs_def] PrometheusK8sRoleBindingConfig_def [abs_def] PrometheusUserWorkloadRoleBindingConfig_def [abs_def]
    PrometheusK8sServiceAccount_def [abs_def] ThanosQuerierServiceAccount_def [abs_def] PrometheusUserWorkloadServiceAccount_def [abs_def] PrometheusK8sProxySecret_def [abs_def]
    PrometheusK8sGrpcTLSSecret_def [abs_def] PrometheusUserWorkloadGrpcTLSSecret_def [abs_def] ThanosQuerierGrpcTLSSecret_def [abs_def] ThanosQuerierOauthCookieSecret_def [abs_def]
    PrometheusK8sHtpasswdSecret_def [abs_def] ThanosQuerierHtpasswdSecret_def [abs_def] ThanosRulerHtpasswdSecret_def [abs_def] ThanosRulerQueryConfigSecret_def [abs_def]
  by (simp_all only: unread from_asset_def session_secret_def Let_def cong: if_cong option.case_cong res.case_cong sum.case_cong list.case_cong)

lemma unread_methods_4 [unread]:
  "ThanosRulerAlertmanagerConfigSecret (f\<lparr>ReadFile := rd\<rparr>) = ThanosRulerAlertmanagerConfigSecret f"
  "PrometheusRBACProxySecret (f\<lparr>ReadFile := rd\<rparr>) = PrometheusRBACProxySecret f"
  "ThanosQuerierRBACProxySecret (f\<lparr>ReadFile := rd\<rparr>) = ThanosQuerierRBACProxySecret f"
  "ThanosQuerierRBACProxyRulesSecret (f\<lparr>ReadFile := rd\<rparr>) = ThanosQuerierRBACProxyRulesSecret f"
  "PrometheusK8sServingCertsCABundle (f\<lparr>ReadFile := rd\<rparr>) = PrometheusK8sServingCertsCABundle f"
  "PrometheusUserWorkloadServingCertsCABundle (f\<lparr>ReadFile := rd\<rparr>) = PrometheusUserWorkloadServingCertsCABundle f"
  "PrometheusK8sKubeletServingCABundle (f\<lparr>ReadFile := rd\<rparr>) = PrometheusK8sKubeletServingCABundle f"
  "PrometheusOperatorCertsCABundle (f\<lparr>ReadFile := rd\<rparr>) = PrometheusOperatorCertsCABundle f"
  "PrometheusK8sEtcdServiceMonitor (f\<lparr>ReadFile := rd\<rparr>) = PrometheusK8sEtcdServiceMonitor f"
  "PrometheusK8sThanosSidecarServiceMonitor (f\<lparr>ReadFile := rd\<rparr>) = PrometheusK8sThanosSidecarServiceMonitor f"
  "PrometheusK8sRoute (f\<lparr>ReadFile := rd\<rparr>) = PrometheusK8sRoute f"
  "ThanosQuerierRoute (f\<lparr>ReadFile := rd\<rparr>) = ThanosQuerierRoute f"
  "PrometheusK8sTrustedCABundle (f\<lparr>ReadFile := rd\<rparr>) = PrometheusK8sTrustedCABundle f"
  "PrometheusK8sKubeletServiceMonitor (f\<lparr>ReadFile := rd\<rparr>) = PrometheusK8sKubeletServiceMonitor f"
  "PrometheusK8sPrometheusServiceMonitor (f\<lparr>ReadFile := rd\<rparr>) = PrometheusK8sPrometheusServiceMonitor f"
  "PrometheusUserWorkloadPrometheusServiceMonitor (f\<lparr>ReadFile := rd\<rparr>) = PrometheusUserWorkloadPrometheusServiceMonitor f"
  unfolding ThanosRulerAlertmanagerConfigSecret_def [abs_def] PrometheusRBACProxySecret_def [abs_def] ThanosQuerierRBACProxySecret_def [abs_def] ThanosQuerierRBACProxyRulesSecret_def [abs_def]
    PrometheusK8sServingCertsCABundle_def [abs_def] PrometheusUserWorkloadServingCertsCABundle_def [abs_def] PrometheusK8sKubeletServingCABundle_def [abs_def] PrometheusOperatorCertsCABundle_def [abs_def]
    PrometheusK8sEtcdServiceMonitor_def [abs_def] PrometheusK8sThanosSidecarServiceMonitor_def [abs_def] PrometheusK8sRoute_def [abs_def] ThanosQuerierRoute_def [abs_def]
    PrometheusK8sTrustedCABundle_def [abs_def] PrometheusK8sKubeletServiceMonitor_def [abs_def] PrometheusK8sPrometheusServiceMonitor_def [abs_def] PrometheusUserWorkloadPrometheusServiceMonitor_def [abs_def]
  by (simp_all only: unread from_asset_def session_secret_def Let_def cong: if_cong option.case_cong res.case_cong sum.case_cong list.case_cong)

lemma unread_methods_5 [unread]:
  "PrometheusAdapterClusterRole (f\<lparr>ReadFile := rd\<rparr>) = PrometheusAdapterClusterRole f"
  "PrometheusAdapterClusterRoleServerResources (f\<lparr>ReadFile := rd\<rparr>) = PrometheusAdapterClusterRoleServerResources f"
  "PrometheusAdapterClusterRoleAggregatedMetricsReader (f\<lparr>ReadFile := rd\<rparr>) = PrometheusAdapterClusterRoleAggregatedMetricsReader f"
  "PrometheusAdapterClusterRoleBinding (f\<lparr>ReadFile := rd\<rparr>) = PrometheusAdapterClusterRoleBinding f"
  "PrometheusAdapterClusterRoleBindingDelegator (f\<lparr>ReadFile := rd\<rparr>) = PrometheusAdapterClusterRoleBindingDelegator f"
  "PrometheusAdapterClusterRoleBindingView (f\<lparr>ReadFile := rd\<rparr>) = PrometheusAdapterClusterRoleBindingView f"
  "PrometheusAdapterRoleBindingAuthReader (f\<lparr>ReadFile := rd\<rparr>) = PrometheusAdapterRoleBindingAuthReader f"
  "PrometheusAdapterServiceAccount (f\<lparr>ReadFile := rd\<rparr>) = PrometheusAdapterServiceAccount f"
  "PrometheusAdapterConfigMap (f\<lparr>ReadFile := rd\<rparr>) = PrometheusAdapterConfigMap f"
  "PrometheusAdapterConfigMapPrometheus (f\<lparr>ReadFile := rd\<rparr>) = PrometheusAdapterConfigMapPrometheus f"
  "PrometheusAdapterService (f\<lparr>ReadFile := rd\<rparr>) = PrometheusAdapterService f"
  "PrometheusAdapterServiceMonitor (f\<lparr>ReadFile := rd\<rparr>) = PrometheusAdapterServiceMonitor f"
  "PrometheusAdapterAPIService (f\<lparr>ReadFile := rd\<rparr>) = PrometheusAdapterAPIService f"
  "PrometheusOperatorServiceMonitor (f\<lparr>ReadFile := rd\<rparr>) = PrometheusOperatorServiceMonitor f"
  "PrometheusOperatorUserWorkloadServiceMonitor (f\<lparr>ReadFile := rd\<rparr>) = PrometheusOperatorUserWorkloadServiceMonitor f"
  "PrometheusUserWorkloadThanosSidecarServiceMonitor (f\<lparr>ReadFile := rd\<rparr>) = PrometheusUserWorkloadThanosSidecarServiceMonitor f"
  unfolding PrometheusAdapterClusterRole_def [abs_def] PrometheusAdapterClusterRoleServerResources_def [abs_def] PrometheusAdapterClusterRoleAggregatedMetricsReader_def [abs_def] PrometheusAdapterClusterRoleBinding_def [abs_def]
    PrometheusAdapterClusterRoleBindingDelegator_def [abs_def] PrometheusAdapterClusterRoleBindingView_def [abs_def] PrometheusAdapterRoleBindingAuthReader_def [abs_def] PrometheusAdapterServiceAccount_def [abs_def]
    PrometheusAdapterConfigMap_def [abs_def] PrometheusAdapterConfigMapPrometheus_def [abs_def] PrometheusAdapterService_def [abs_def] PrometheusAdapterServiceMonitor_def [abs_def]
    PrometheusAdapterAPIService_def [abs_def] PrometheusOperatorServiceMonitor_def [abs_def] PrometheusOperatorUserWorkloadServiceMonitor_def [abs_def] PrometheusUserWorkloadThanosSidecarServiceMonitor_def [abs_def]
  by (simp_all only: unread from_asset_def session_secret_def Let_def cong: if_cong option.case_cong res.case_cong sum.case_cong list.case_cong)

lemma unread_methods_6 [unread]:
  "PrometheusOperatorClusterRoleBinding (f\<lparr>ReadFile := rd\<rparr>) = PrometheusOperatorClusterRoleBinding f"
  "PrometheusOperatorUserWorkloadClusterRoleBinding (f\<lparr>ReadFile := rd\<rparr>) = PrometheusOperatorUserWorkloadClusterRoleBinding f"
  "PrometheusOperatorClusterRole (f\<lparr>ReadFile := rd\<rparr>) = PrometheusOperatorClusterRole f"
  "PrometheusOperatorUserWorkloadClusterRole (f\<lparr>ReadFile := rd\<rparr>) = PrometheusOperatorUserWorkloadClusterRole f"
  "PrometheusOperatorServiceAccount (f\<lparr>ReadFile := rd\<rparr>) = PrometheusOperatorServiceAccount f"
  "PrometheusOperatorUserWorkloadServiceAccount (f\<lparr>ReadFile := rd\<rparr>) = PrometheusOperatorUserWorkloadServiceAccount f"
  "PrometheusRuleValidatingWebhook (f\<lparr>ReadFile := rd\<rparr>) = PrometheusRuleValidatingWebhook f"
  "PrometheusOperatorService (f\<lparr>ReadFile := rd\<rparr>) = PrometheusOperatorService f"
  "PrometheusOperatorUserWorkloadService (f\<lparr>ReadFile := rd\<rparr>) = PrometheusOperatorUserWorkloadService f"
  "PrometheusK8sService (f\<lparr>ReadFile := rd\<rparr>) = PrometheusK8sService f"
  "PrometheusK8sServiceThanosSidecar (f\<lparr>ReadFile := rd\<rparr>) = PrometheusK8sServiceThanosSidecar f"
  "PrometheusUserWorkloadService (f\<lparr>ReadFile := rd\<rparr>) = PrometheusUserWorkloadService f"
  "PrometheusUserWorkloadServiceThanosSidecar (f\<lparr>ReadFile := rd\<rparr>) = PrometheusUserWorkloadServiceThanosSidecar f"
  "GrafanaClusterRoleBinding (f\<lparr>ReadFile := rd\<rparr>) = GrafanaClusterRoleBinding f"
  "GrafanaClusterRole (f\<lparr>ReadFile := rd\<rparr>) = GrafanaClusterRole f"
  "GrafanaConfig_secret (f\<lparr>ReadFile := rd\<rparr>) = GrafanaConfig_secret f"
  unfolding PrometheusOperatorClusterRoleBinding_def [abs_def] PrometheusOperatorUserWorkloadClusterRoleBinding_def [abs_def] PrometheusOperatorClusterRole_def [abs_def] PrometheusOperatorUserWorkloadClusterRole_def [abs_def]
    PrometheusOperatorServiceAccount_def [abs_def] PrometheusOperatorUserWorkloadServiceAccount_def [abs_def] PrometheusRuleValidatingWebhook_def [abs_def] PrometheusOperatorService_def [abs_def]
    PrometheusOperatorUserWorkloadService_def [abs_def] PrometheusK8sService_def [abs_def] PrometheusK8sServiceThanosSidecar_def [abs_def] PrometheusUserWorkloadService_def [abs_def]
    PrometheusUserWorkloadServiceThanosSidecar_def [abs_def] GrafanaClusterRoleBinding_def [abs_def] GrafanaClusterRole_def [abs_def] GrafanaConfig_secret_def [abs_def]
  by (simp_all only: unread from_asset_def session_secret_def Let_def cong: if_cong option.case_cong res.case_cong sum.case_cong list.case_cong)

lemma unread_methods_7 [unread]:
  "GrafanaDashboardSources (f\<lparr>ReadFile := rd\<rparr>) = GrafanaDashboardSources f"
  "GrafanaTrustedCABundle (f\<lparr>ReadFile := rd\<rparr>) = GrafanaTrustedCABundle f"
  "GrafanaProxySecret (f\<lparr>ReadFile := rd\<rparr>) = GrafanaProxySecret f"
  "GrafanaRoute (f\<lparr>ReadFile := rd\<rparr>) = GrafanaRoute f"
  "GrafanaServiceAccount (f\<lparr>ReadFile := rd\<rparr>) = GrafanaServiceAccount f"
  "GrafanaService (f\<lparr>ReadFile := rd\<rparr>) = GrafanaService f"
  "GrafanaServiceMonitor (f\<lparr>ReadFile := rd\<rparr>) = GrafanaServiceMonitor f"
  "ClusterMonitoringClusterRole (f\<lparr>ReadFile := rd\<rparr>) = ClusterMonitoringClusterRole f"
  "ClusterMonitoringRulesEditClusterRole (f\<lparr>ReadFile := rd\<rparr>) = ClusterMonitoringRulesEditClusterRole f"
  "ClusterMonitoringRulesViewClusterRole (f\<lparr>ReadFile := rd\<rparr>) = ClusterMonitoringRulesViewClusterRole f"
  "ClusterMonitoringEditClusterRole (f\<lparr>ReadFile := rd\<rparr>) = ClusterMonitoringEditClusterRole f"
  "ClusterMonitoringEditUserWorkloadConfigRole (f\<lparr>ReadFile := rd\<rparr>) = ClusterMonitoringEditUserWorkloadConfigRole f"
  "ClusterMonitoringOperatorService (f\<lparr>ReadFile := rd\<rparr>) = ClusterMonitoringOperatorService f"
  "ClusterMonitoringOperatorServiceMonitor (f\<lparr>ReadFile := rd\<rparr>) = ClusterMonitoringOperatorServiceMonitor f"
  "ThanosQuerierTrustedCABundle (f\<lparr>ReadFile := rd\<rparr>) = ThanosQuerierTrustedCABundle f"
  "ThanosQuerierService (f\<lparr>ReadFile := rd\<rparr>) = ThanosQuerierService f"
  unfolding GrafanaDashboardSources_def [abs_def] GrafanaTrustedCABundle_def [abs_def] GrafanaProxySecret_def [abs_def] GrafanaRoute_def [abs_def]
    GrafanaServiceAccount_def [abs_def] GrafanaService_def [abs_def] GrafanaServiceMonitor_def [abs_def] ClusterMonitoringClusterRole_def [abs_def]
    ClusterMonitoringRulesEditClusterRole_def [abs_def] ClusterMonitoringRulesViewClusterRole_def [abs_def] ClusterMonitoringEditClusterRole_def [abs_def] ClusterMonitoringEditUserWorkloadConfigRole_def [abs_def]
    ClusterMonitoringOperatorService_def [abs_def] ClusterMonitoringOperatorServiceMonitor_def [abs_def] ThanosQuerierTrustedCABundle_def [abs_def] ThanosQuerierService_def [abs_def]
  by (simp_all only: unread from_asset_def session_secret_def Let_def cong: if_cong option.case_cong res.case_cong sum.case_cong list.case_cong)

lemma unread_methods_8 [unread]:
  "ThanosQuerierPrometheusRule (f\<lparr>ReadFile := rd\<rparr>) = ThanosQuerierPrometheusRule f"
  "TelemeterTrustedCABundle (f\<lparr>ReadFile := rd\<rparr>) = TelemeterTrustedCABundle f"
  "TelemeterClientServingCertsCABundle (f\<lparr>ReadFile := rd\<rparr>) = TelemeterClientServingCertsCABundle f"
  "TelemeterClientClusterRole (f\<lparr>ReadFile := rd\<rparr>) = TelemeterClientClusterRole f"
  "TelemeterClientClusterRoleBinding (f\<lparr>ReadFile := rd\<rparr>) = TelemeterClientClusterRoleBinding f"
  "TelemeterClientClusterRoleBindingView (f\<lparr>ReadFile := rd\<rparr>) = TelemeterClientClusterRoleBindingView f"
  "TelemeterClientServiceMonitor (f\<lparr>ReadFile := rd\<rparr>) = TelemeterClientServiceMonitor f"
  "TelemeterClientService (f\<lparr>ReadFile := rd\<rparr>) = TelemeterClientService f"
  "TelemeterClientServiceAccount (f\<lparr>ReadFile := rd\<rparr>) = TelemeterClientServiceAccount f"
  "ThanosRulerService (f\<lparr>ReadFile := rd\<rparr>) = ThanosRulerService f"
  "ThanosRulerServiceAccount (f\<lparr>ReadFile := rd\<rparr>) = ThanosRulerServiceAccount f"
  "ThanosRulerClusterRoleBinding (f\<lparr>ReadFile := rd\<rparr>) = ThanosRulerClusterRoleBinding f"
  "ThanosRulerMonitoringClusterRoleBinding (f\<lparr>ReadFile := rd\<rparr>) = ThanosRulerMonitoringClusterRoleBinding f"
  "ThanosRulerClusterRole (f\<lparr>ReadFile := rd\<rparr>) = ThanosRulerClusterRole f"
  "ThanosRulerPrometheusRule (f\<lparr>ReadFile := rd\<rparr>) = ThanosRulerPrometheusRule f"
  "ThanosRulerServiceMonitor (f\<lparr>ReadFile := rd\<rparr>) = ThanosRulerServiceMonitor f"
  unfolding ThanosQuerierPrometheusRule_def [abs_def] TelemeterTrustedCABundle_def [abs_def] TelemeterClientServingCertsCABundle_def [abs_def] TelemeterClientClusterRole_def [abs_def]
    TelemeterClientClusterRoleBinding_def [abs_def] TelemeterClientClusterRoleBindingView_def [abs_def] TelemeterClientServiceMonitor_def [abs_def] TelemeterClientService_def [abs_def]
    TelemeterClientServiceAccount_def [abs_def] ThanosRulerService_def [abs_def] ThanosRulerServiceAccount_def [abs_def] ThanosRulerClusterRoleBinding_def [abs_def]
    ThanosRulerMonitoringClusterRoleBinding_def [abs_def] ThanosRulerClusterRole_def [abs_def] ThanosRulerPrometheusRule_def [abs_def] ThanosRulerServiceMonitor_def [abs_def]
  by (simp_all only: unread from_asset_def session_secret_def Let_def cong: if_cong option.case_cong res.case_cong sum.case_cong list.case_cong)

lemma unread_methods_9 [unread]:
  "ThanosRulerRoute (f\<lparr>ReadFile := rd\<rparr>) = ThanosRulerRoute f"
  "ThanosRulerTrustedCABundle (f\<lparr>ReadFile := rd\<rparr>) = ThanosRulerTrustedCABundle f"
  "ThanosRulerGrpcTLSSecret (f\<lparr>ReadFile := rd\<rparr>) = ThanosRulerGrpcTLSSecret f"
  "ThanosRulerOauthCookieSecret (f\<lparr>ReadFile := rd\<rparr>) = ThanosRulerOauthCookieSecret f"
  "PrometheusK8sRoleBindingList (f\<lparr>ReadFile := rd\<rparr>) = PrometheusK8sRoleBindingList f"
  "PrometheusUserWorkloadRoleBindingList (f\<lparr>ReadFile := rd\<rparr>) = PrometheusUserWorkloadRoleBindingList f"
  "PrometheusK8sRoleList (f\<lparr>ReadFile := rd\<rparr>) = PrometheusK8sRoleList f"
  "PrometheusUserWorkloadRoleList (f\<lparr>ReadFile := rd\<rparr>) = PrometheusUserWorkloadRoleList f"
  "PrometheusK8sRules (f\<lparr>ReadFile := rd\<rparr>) = PrometheusK8sRules f"
  "GrafanaDatasources_secret (f\<lparr>ReadFile := rd\<rparr>) = GrafanaDatasources_secret f"
  "GrafanaDashboardDefinitions (f\<lparr>ReadFile := rd\<rparr>) = GrafanaDashboardDefinitions f"
  "ThanosQuerierServiceMonitor (f\<lparr>ReadFile := rd\<rparr>) = ThanosQuerierServiceMonitor f"
  "TelemeterClientSecret (f\<lparr>ReadFile := rd\<rparr>) = TelemeterClientSecret f"
  "GRPCSecret (f\<lparr>ReadFile := rd\<rparr>) = GRPCSecret f"
  unfolding ThanosRulerRoute_def [abs_def] ThanosRulerTrustedCABundle_def [abs_def] ThanosRulerGrpcTLSSecret_def [abs_def] ThanosRulerOauthCookieSecret_def [abs_def]
    PrometheusK8sRoleBindingList_def [abs_def] PrometheusUserWorkloadRoleBindingList_def [abs_def] PrometheusK8sRoleList_def [abs_def] PrometheusUserWorkloadRoleList_def [abs_def]
    PrometheusK8sRules_def [abs_def] GrafanaDatasources_secret_def [abs_def] GrafanaDashboardDefinitions_def [abs_def] ThanosQuerierServiceMonitor_def [abs_def]
    TelemeterClientSecret_def [abs_def] GRPCSecret_def [abs_def]
  by (simp_all only: unread from_asset_def session_secret_def Let_def cong: if_cong option.case_cong res.case_cong sum.case_cong list.case_cong)

lemma unread_methods_10 [unread]:
  "AlertmanagerMain (f\<lparr>ReadFile := rd\<rparr>) = AlertmanagerMain f"
  "KubeStateMetricsDeployment (f\<lparr>ReadFile := rd\<rparr>) = KubeStateMetricsDeployment f"
  "OpenShiftStateMetricsDeployment (f\<lparr>ReadFile := rd\<rparr>) = OpenShiftStateMetricsDeployment f"
  "NodeExporterDaemonSet (f\<lparr>ReadFile := rd\<rparr>) = NodeExporterDaemonSet f"
  "PrometheusAdapterDeployment (f\<lparr>ReadFile := rd\<rparr>) = PrometheusAdapterDeployment f"
  "PrometheusOperatorDeployment (f\<lparr>ReadFile := rd\<rparr>) = PrometheusOperatorDeployment f"
  "PrometheusOperatorUserWorkloadDeployment (f\<lparr>ReadFile := rd\<rparr>) = PrometheusOperatorUserWorkloadDeployment f"
  "GrafanaDeployment (f\<lparr>ReadFile := rd\<rparr>) = GrafanaDeployment f"
  "ThanosQuerierDeployment (f\<lparr>ReadFile := rd\<rparr>) = ThanosQuerierDeployment f"
  "TelemeterClientDeployment (f\<lparr>ReadFile := rd\<rparr>) = TelemeterClientDeployment f"
  unfolding AlertmanagerMain_def [abs_def] KubeStateMetricsDeployment_def [abs_def] OpenShiftStateMetricsDeployment_def [abs_def] NodeExporterDaemonSet_def [abs_def]
    PrometheusAdapterDeployment_def [abs_def] PrometheusOperatorDeployment_def [abs_def] PrometheusOperatorUserWorkloadDeployment_def [abs_def] GrafanaDeployment_def [abs_def]
    ThanosQuerierDeployment_def [abs_def] TelemeterClientDeployment_def [abs_def]
  by (simp_all only: unread from_asset_def session_secret_def Let_def cong: if_cong option.case_cong res.case_cong sum.case_cong list.case_cong)

lemma unread_methods_11 [unread]:
  "PrometheusK8s (f\<lparr>ReadFile := rd\<rparr>) = PrometheusK8s f"
  "PrometheusUserWorkload (f\<lparr>ReadFile := rd\<rparr>) = PrometheusUserWorkload f"
  "ThanosRulerCustomResource (f\<lparr>ReadFile := rd\<rparr>) = ThanosRulerCustomResource f"
  unfolding PrometheusK8s_def [abs_def] PrometheusUserWorkload_def [abs_def] ThanosRulerCustomResource_def [abs_def]
  by (simp_all only: unread from_asset_def session_secret_def Let_def cong: if_cong option.case_cong res.case_cong sum.case_cong list.case_cong)

lemma unread_tasks_1 [unread]:
  "PrometheusOperatorTask_Run c (f\<lparr>ReadFile := rd\<rparr>) = PrometheusOperatorTask_Run c f"
  "monitoring_cluster_role (f\<lparr>ReadFile := rd\<rparr>) = monitoring_cluster_role f"
  "ClusterMonitoringOperatorTask_Run cr checked issued c (f\<lparr>ReadFile := rd\<rparr>) = ClusterMonitoringOperatorTask_Run cr checked issued c f"
  "GrafanaTask_Run c (f\<lparr>ReadFile := rd\<rparr>) = GrafanaTask_Run c f"
  "PrometheusTask_route c (f\<lparr>ReadFile := rd\<rparr>) = PrometheusTask_route c f"
  "PrometheusTask_secrets c (f\<lparr>ReadFile := rd\<rparr>) = PrometheusTask_secrets c f"
  "PrometheusTask_access c (f\<lparr>ReadFile := rd\<rparr>) = PrometheusTask_access c f"
  "PrometheusTask_services c (f\<lparr>ReadFile := rd\<rparr>) = PrometheusTask_services c f"
  "PrometheusTask_grpc c (f\<lparr>ReadFile := rd\<rparr>) = PrometheusTask_grpc c f"
  "PrometheusTask_object c (f\<lparr>ReadFile := rd\<rparr>) = PrometheusTask_object c f"
  "PrometheusTask_monitors c (f\<lparr>ReadFile := rd\<rparr>) = PrometheusTask_monitors c f"
  "PrometheusTask_Run c (f\<lparr>ReadFile := rd\<rparr>) = PrometheusTask_Run c f"
  "AlertmanagerTask_Run c (f\<lparr>ReadFile := rd\<rparr>) = AlertmanagerTask_Run c f"
  "NodeExporterTask_Run c (f\<lparr>ReadFile := rd\<rparr>) = NodeExporterTask_Run c f"
  "KubeStateMetricsTask_Run c (f\<lparr>ReadFile := rd\<rparr>) = KubeStateMetricsTask_Run c f"
  "OpenShiftStateMetricsTask_Run c (f\<lparr>ReadFile := rd\<rparr>) = OpenShiftStateMetricsTask_Run c f"
  unfolding PrometheusOperatorTask_Run_def [abs_def] monitoring_cluster_role_def [abs_def] ClusterMonitoringOperatorTask_Run_def [abs_def] GrafanaTask_Run_def [abs_def]
    PrometheusTask_route_def [abs_def] PrometheusTask_secrets_def [abs_def] PrometheusTask_access_def [abs_def] PrometheusTask_services_def [abs_def]
    PrometheusTask_grpc_def [abs_def] PrometheusTask_object_def [abs_def] PrometheusTask_monitors_def [abs_def] PrometheusTask_Run_def [abs_def]
    AlertmanagerTask_Run_def [abs_def] NodeExporterTask_Run_def [abs_def] KubeStateMetricsTask_Run_def [abs_def] OpenShiftStateMetricsTask_Run_def [abs_def]
  by (simp_all only: unread from_asset_def session_secret_def Let_def cong: if_cong option.case_cong res.case_cong sum.case_cong list.case_cong)

lemma unread_tasks_2 [unread]:
  "PrometheusAdapterTask_access c (f\<lparr>ReadFile := rd\<rparr>) = PrometheusAdapterTask_access c f"
  "PrometheusAdapterTask_workload ns c (f\<lparr>ReadFile := rd\<rparr>) = PrometheusAdapterTask_workload ns c f"
  "PrometheusAdapterTask_Run ns c (f\<lparr>ReadFile := rd\<rparr>) = PrometheusAdapterTask_Run ns c f"
  "TelemeterClientTask_create c (f\<lparr>ReadFile := rd\<rparr>) = TelemeterClientTask_create c f"
  "TelemeterClientTask_destroy c (f\<lparr>ReadFile := rd\<rparr>) = TelemeterClientTask_destroy c f"
  "TelemeterClientTask_Run c (f\<lparr>ReadFile := rd\<rparr>) = TelemeterClientTask_Run c f"
  "ConfigSharingTask_Run c (f\<lparr>ReadFile := rd\<rparr>) = ConfigSharingTask_Run c f"
  "ThanosQuerierTask_access c (f\<lparr>ReadFile := rd\<rparr>) = ThanosQuerierTask_access c f"
  "ThanosQuerierTask_workload c (f\<lparr>ReadFile := rd\<rparr>) = ThanosQuerierTask_workload c f"
  "ThanosQuerierTask_Run c (f\<lparr>ReadFile := rd\<rparr>) = ThanosQuerierTask_Run c f"
  unfolding PrometheusAdapterTask_access_def [abs_def] PrometheusAdapterTask_workload_def [abs_def] PrometheusAdapterTask_Run_def [abs_def] TelemeterClientTask_create_def [abs_def]
    TelemeterClientTask_destroy_def [abs_def] TelemeterClientTask_Run_def [abs_def] ConfigSharingTask_Run_def [abs_def] ThanosQuerierTask_access_def [abs_def]
    ThanosQuerierTask_workload_def [abs_def] ThanosQuerierTask_Run_def [abs_def]
  by (simp_all only: unread from_asset_def session_secret_def Let_def cong: if_cong option.case_cong res.case_cong sum.case_cong list.case_cong)

lemma unread_tasks_3 [unread]:
  "PrometheusOperatorUserWorkloadTask_create c (f\<lparr>ReadFile := rd\<rparr>) = PrometheusOperatorUserWorkloadTask_create c f"
  "PrometheusOperatorUserWorkloadTask_destroy c (f\<lparr>ReadFile := rd\<rparr>) = PrometheusOperatorUserWorkloadTask_destroy c f"
  "PrometheusOperatorUserWorkloadTask_Run c (f\<lparr>ReadFile := rd\<rparr>) = PrometheusOperatorUserWorkloadTask_Run c f"
  "PrometheusUserWorkloadTask_create_access c (f\<lparr>ReadFile := rd\<rparr>) = PrometheusUserWorkloadTask_create_access c f"
  "PrometheusUserWorkloadTask_create_workload c (f\<lparr>ReadFile := rd\<rparr>) = PrometheusUserWorkloadTask_create_workload c f"
  "PrometheusUserWorkloadTask_create c (f\<lparr>ReadFile := rd\<rparr>) = PrometheusUserWorkloadTask_create c f"
  "PrometheusUserWorkloadTask_destroy_workload c (f\<lparr>ReadFile := rd\<rparr>) = PrometheusUserWorkloadTask_destroy_workload c f"
  "PrometheusUserWorkloadTask_destroy_access c (f\<lparr>ReadFile := rd\<rparr>) = PrometheusUserWorkloadTask_destroy_access c f"
  "PrometheusUserWorkloadTask_destroy c (f\<lparr>ReadFile := rd\<rparr>) = PrometheusUserWorkloadTask_destroy c f"
  "PrometheusUserWorkloadTask_Run c (f\<lparr>ReadFile := rd\<rparr>) = PrometheusUserWorkloadTask_Run c f"
  "ThanosRulerUserWorkloadTask_create_access c (f\<lparr>ReadFile := rd\<rparr>) = ThanosRulerUserWorkloadTask_create_access c f"
  "ThanosRulerUserWorkloadTask_create_workload c (f\<lparr>ReadFile := rd\<rparr>) = ThanosRulerUserWorkloadTask_create_workload c f"
  "ThanosRulerUserWorkloadTask_create c (f\<lparr>ReadFile := rd\<rparr>) = ThanosRulerUserWorkloadTask_create c f"
  "ThanosRulerUserWorkloadTask_destroy_access c (f\<lparr>ReadFile := rd\<rparr>) = ThanosRulerUserWorkloadTask_destroy_access c f"
  "ThanosRulerUserWorkloadTask_destroy_workload c (f\<lparr>ReadFile := rd\<rparr>) = ThanosRulerUserWorkloadTask_destroy_workload c f"
  "ThanosRulerUserWorkloadTask_destroy c (f\<lparr>ReadFile := rd\<rparr>) = ThanosRulerUserWorkloadTask_destroy c f"
  unfolding PrometheusOperatorUserWorkloadTask_create_def [abs_def] PrometheusOperatorUserWorkloadTask_destroy_def [abs_def] PrometheusOperatorUserWorkloadTask_Run_def [abs_def] PrometheusUserWorkloadTask_create_access_def [abs_def]
    PrometheusUserWorkloadTask_create_workload_def [abs_def] PrometheusUserWorkloadTask_create_def [abs_def] PrometheusUserWorkloadTask_destroy_workload_def [abs_def] PrometheusUserWorkloadTask_destroy_access_def [abs_def]
    PrometheusUserWorkloadTask_destroy_def [abs_def] PrometheusUserWorkloadTask_Run_def [abs_def] ThanosRulerUserWorkloadTask_create_access_def [abs_def] ThanosRulerUserWorkloadTask_create_workload_def [abs_def]
    ThanosRulerUserWorkloadTask_create_def [abs_def] ThanosRulerUserWorkloadTask_destroy_access_def [abs_def] ThanosRulerUserWorkloadTask_destroy_workload_def [abs_def] ThanosRulerUserWorkloadTask_destroy_def [abs_def]
  by (simp_all only: unread from_asset_def session_secret_def Let_def cong: if_cong option.case_cong res.case_cong sum.case_cong list.case_cong)

lemma unread_tasks_4 [unread]:
  "ThanosRulerUserWorkloadTask_Run c (f\<lparr>ReadFile := rd\<rparr>) = ThanosRulerUserWorkloadTask_Run c f"
  unfolding ThanosRulerUserWorkloadTask_Run_def [abs_def]
  by (simp_all only: unread from_asset_def session_secret_def Let_def cong: if_cong option.case_cong res.case_cong sum.case_cong list.case_cong)

lemma task_unread: "task_of cr checked issued ns c (f\<lparr>ReadFile := rd\<rparr>) cfg name = task_of cr checked issued ns c f cfg name"
  by (simp only: task_of_def unread)

end

lemma NewFactory_reads: "NewFactory (env\<lparr>ReadFile := rd\<rparr>) ns nsUserWorkload cfg = (NewFactory env ns nsUserWorkload cfg)\<lparr>ReadFile := rd\<rparr>"
  by (simp add: NewFactory_def)

lemma same_assets_NewFactory: "same_assets (NewFactory env ns nsUserWorkload cfg) rd \<longleftrightarrow> same_assets env rd"
  by (simp add: same_assets_def NewFactory_def)

lemma with_tasks_unread:
  assumes "same_assets env rd"
  shows "with_tasks cr checked issued (env\<lparr>ReadFile := rd\<rparr>) o' = with_tasks cr checked issued env o'"
proof -
  have same: "same_files (NewFactory env ns nsUserWorkload cfg) rd" for ns nsUserWorkload cfg
    using assms by (simp add: same_files_def same_assets_NewFactory)
  have "task_of cr checked issued ns c ((NewFactory env ns' nsUserWorkload cfg)\<lparr>ReadFile := rd\<rparr>) cfg' =
      task_of cr checked issued ns c (NewFactory env ns' nsUserWorkload cfg) cfg'" for ns c ns' nsUserWorkload cfg cfg'
    by (rule ext) (rule same_files.task_unread [OF same])
  then show ?thesis
    by (simp add: with_tasks_def NewFactory_reads)
qed

text \<open>
  C23. The operator needs the files whose names the program lists, and no other: reconciliation does the
  same, with the same result, on two file systems that agree on these 155 files, whatever else they hold
  or lack.
\<close>

theorem reads_listed_assets_only:
  assumes "same_assets env rd"
  shows "sync (with_tasks cr checked issued (env\<lparr>ReadFile := rd\<rparr>) o') order key =
    sync (with_tasks cr checked issued env o') order key \<and> length asset_files = 155"
  by (simp add: with_tasks_unread [OF assms] asset_defs)

text \<open>A directory that holds the listed files and nothing else.\<close>

definition shipped :: "Cluster \<Rightarrow> string \<Rightarrow> string res" where
  "shipped _ path =
     (if path \<in> (\<lambda>name. ''assets/'' @ name) ` set asset_files then Ok path else Err (ErrorString ''no such file''))"

lemma shipped_assets: "same_assets cluster_factory shipped"
proof -
  have "[] \<notin> set asset_files" by (simp add: asset_defs)
  then show ?thesis
    by (auto simp: same_assets_def shipped_def cluster_factory_def NewAssets_def filepath_Join_def)
qed

interpretation shipped_files: same_files cluster_factory shipped
  by unfold_locales (rule shipped_assets)

theorem reads_listed_assets_only_witness:
  "sync (with_tasks simple_crypto 10 10 (cluster_factory\<lparr>ReadFile := shipped\<rparr>) sample_operator) [0..<15] ''k'' =
    sync (with_tasks simple_crypto 10 10 cluster_factory sample_operator) [0..<15] ''k'' \<and>
    shipped empty_cluster ''README.md'' = Err (ErrorString ''no such file'')"
proof
  show "shipped empty_cluster ''README.md'' = Err (ErrorString ''no such file'')"
    by (auto simp: shipped_def)
qed (use reads_listed_assets_only [OF shipped_assets] in blast)

end
