(* ===== verification/Task_List.thy ===== *)
theory Task_List
  imports Tasks
begin

text \<open>
  The tasks as the values that their constructors in \<open>tasks\<close> build, the list of them that \<open>sync\<close> of
  \<open>operator/operator.go\<close> hands to the runner, and the proof that it is the list by which the operator is
  modelled elsewhere, where a task is known by its name only.
\<close>

section \<open>Tasks as values\<close>

text \<open>The types that implement the interface \<open>Task\<close>, with their fields in the order of the structs.\<close>

datatype 'w Task =
  PrometheusOperatorTask "'w Client" "'w Factory"
  | PrometheusOperatorUserWorkloadTask "'w Client" "'w Factory" Config
  | ClusterMonitoringOperatorTask "'w Client" "'w Factory"
  | GrafanaTask "'w Client" "'w Factory"
  | PrometheusTask "'w Client" "'w Factory" Config
  | PrometheusUserWorkloadTask "'w Client" "'w Factory" Config
  | AlertmanagerTask "'w Client" "'w Factory"
  | NodeExporterTask "'w Client" "'w Factory"
  | KubeStateMetricsTask "'w Client" "'w Factory"
  | OpenShiftStateMetricsTask "'w Client" "'w Factory"
  | PrometheusAdapterTask "'w Client" "'w Factory" string
  | TelemeterClientTask "'w Client" "'w Factory" Config
  | ConfigSharingTask "'w Client" "'w Factory"
  | ThanosQuerierTask "'w Client" "'w Factory" Config
  | ThanosRulerUserWorkloadTask "'w Client" "'w Factory" Config

definition NewPrometheusOperatorTask :: "'w Client \<Rightarrow> 'w Factory \<Rightarrow> 'w Task" where
  "NewPrometheusOperatorTask client factory = PrometheusOperatorTask client factory"

definition NewPrometheusOperatorUserWorkloadTask :: "'w Client \<Rightarrow> 'w Factory \<Rightarrow> Config \<Rightarrow> 'w Task" where
  "NewPrometheusOperatorUserWorkloadTask client factory config = PrometheusOperatorUserWorkloadTask client factory config"

definition NewClusterMonitoringOperatorTask :: "'w Client \<Rightarrow> 'w Factory \<Rightarrow> 'w Task" where
  "NewClusterMonitoringOperatorTask client factory = ClusterMonitoringOperatorTask client factory"

definition NewGrafanaTask :: "'w Client \<Rightarrow> 'w Factory \<Rightarrow> 'w Task" where
  "NewGrafanaTask client factory = GrafanaTask client factory"

definition NewPrometheusTask :: "'w Client \<Rightarrow> 'w Factory \<Rightarrow> Config \<Rightarrow> 'w Task" where
  "NewPrometheusTask client factory config = PrometheusTask client factory config"

definition NewPrometheusUserWorkloadTask :: "'w Client \<Rightarrow> 'w Factory \<Rightarrow> Config \<Rightarrow> 'w Task" where
  "NewPrometheusUserWorkloadTask client factory config = PrometheusUserWorkloadTask client factory config"

definition NewAlertmanagerTask :: "'w Client \<Rightarrow> 'w Factory \<Rightarrow> 'w Task" where
  "NewAlertmanagerTask client factory = AlertmanagerTask client factory"

definition NewNodeExporterTask :: "'w Client \<Rightarrow> 'w Factory \<Rightarrow> 'w Task" where
  "NewNodeExporterTask client factory = NodeExporterTask client factory"

definition NewKubeStateMetricsTask :: "'w Client \<Rightarrow> 'w Factory \<Rightarrow> 'w Task" where
  "NewKubeStateMetricsTask client factory = KubeStateMetricsTask client factory"

definition NewOpenShiftStateMetricsTask :: "'w Client \<Rightarrow> 'w Factory \<Rightarrow> 'w Task" where
  "NewOpenShiftStateMetricsTask client factory = OpenShiftStateMetricsTask client factory"

definition NewPrometheusAdapterTaks :: "string \<Rightarrow> 'w Client \<Rightarrow> 'w Factory \<Rightarrow> 'w Task" where
  "NewPrometheusAdapterTaks ns client factory = PrometheusAdapterTask client factory ns"

definition NewTelemeterClientTask :: "'w Client \<Rightarrow> 'w Factory \<Rightarrow> Config \<Rightarrow> 'w Task" where
  "NewTelemeterClientTask client factory config = TelemeterClientTask client factory config"

definition NewConfigSharingTask :: "'w Client \<Rightarrow> 'w Factory \<Rightarrow> 'w Task" where
  "NewConfigSharingTask client factory = ConfigSharingTask client factory"

definition NewThanosQuerierTask :: "'w Client \<Rightarrow> 'w Factory \<Rightarrow> Config \<Rightarrow> 'w Task" where
  "NewThanosQuerierTask client factory config = ThanosQuerierTask client factory config"

definition NewThanosRulerUserWorkloadTask :: "'w Client \<Rightarrow> 'w Factory \<Rightarrow> Config \<Rightarrow> 'w Task" where
  "NewThanosRulerUserWorkloadTask client factory config = ThanosRulerUserWorkloadTask client factory config"

text \<open>\<open>Run\<close> of the interface; the certificate library and the clock are those of the rotation.\<close>

primrec Run :: "'leaf crypto \<Rightarrow> int \<Rightarrow> int \<Rightarrow> 'w Task \<Rightarrow> ('w, unit) prog" where
  "Run cr checked issued (PrometheusOperatorTask c f) = PrometheusOperatorTask_Run c f"
| "Run cr checked issued (PrometheusOperatorUserWorkloadTask c f config) = PrometheusOperatorUserWorkloadTask_Run c f config"
| "Run cr checked issued (ClusterMonitoringOperatorTask c f) = ClusterMonitoringOperatorTask_Run cr checked issued c f"
| "Run cr checked issued (GrafanaTask c f) = GrafanaTask_Run c f"
| "Run cr checked issued (PrometheusTask c f config) = PrometheusTask_Run c f config"
| "Run cr checked issued (PrometheusUserWorkloadTask c f config) = PrometheusUserWorkloadTask_Run c f config"
| "Run cr checked issued (AlertmanagerTask c f) = AlertmanagerTask_Run c f"
| "Run cr checked issued (NodeExporterTask c f) = NodeExporterTask_Run c f"
| "Run cr checked issued (KubeStateMetricsTask c f) = KubeStateMetricsTask_Run c f"
| "Run cr checked issued (OpenShiftStateMetricsTask c f) = OpenShiftStateMetricsTask_Run c f"
| "Run cr checked issued (PrometheusAdapterTask c f ns) = PrometheusAdapterTask_Run ns c f"
| "Run cr checked issued (TelemeterClientTask c f config) = TelemeterClientTask_Run c f config"
| "Run cr checked issued (ConfigSharingTask c f) = ConfigSharingTask_Run c f"
| "Run cr checked issued (ThanosQuerierTask c f config) = ThanosQuerierTask_Run c f config"
| "Run cr checked issued (ThanosRulerUserWorkloadTask c f config) = ThanosRulerUserWorkloadTask_Run c f config"

section \<open>The list of \<open>sync\<close>\<close>

definition sync_tasks :: "'w Operator \<Rightarrow> 'w Factory \<Rightarrow> Config \<Rightarrow> (string \<times> 'w Task) list" where
  "sync_tasks o' factory config = [
     (''Updating Prometheus Operator'', NewPrometheusOperatorTask (op_client o') factory),
     (''Updating user workload Prometheus Operator'', NewPrometheusOperatorUserWorkloadTask (op_client o') factory config),
     (''Updating Cluster Monitoring Operator'', NewClusterMonitoringOperatorTask (op_client o') factory),
     (''Updating Grafana'', NewGrafanaTask (op_client o') factory),
     (''Updating Prometheus-k8s'', NewPrometheusTask (op_client o') factory config),
     (''Updating Prometheus-user-workload'', NewPrometheusUserWorkloadTask (op_client o') factory config),
     (''Updating Alertmanager'', NewAlertmanagerTask (op_client o') factory),
     (''Updating node-exporter'', NewNodeExporterTask (op_client o') factory),
     (''Updating kube-state-metrics'', NewKubeStateMetricsTask (op_client o') factory),
     (''Updating openshift-state-metrics'', NewOpenShiftStateMetricsTask (op_client o') factory),
     (''Updating prometheus-adapter'', NewPrometheusAdapterTaks (op_namespace o') (op_client o') factory),
     (''Updating Telemeter client'', NewTelemeterClientTask (op_client o') factory config),
     (''Updating configuration sharing'', NewConfigSharingTask (op_client o') factory),
     (''Updating Thanos Querier'', NewThanosQuerierTask (op_client o') factory config),
     (''Updating User Workload Thanos Ruler'', NewThanosRulerUserWorkloadTask (op_client o') factory config)]"

definition sync_specs :: "'leaf crypto \<Rightarrow> int \<Rightarrow> int \<Rightarrow> 'w Factory \<Rightarrow> 'w Operator \<Rightarrow> Config \<Rightarrow> 'w TaskSpec list" where
  "sync_specs cr checked issued env o' config =
     map (\<lambda>(name, task). NewTaskSpec name (Run cr checked issued task))
       (sync_tasks o' (NewFactory env (op_namespace o') (op_namespaceUserWorkload o') config) config)"

lemmas constructors = NewPrometheusOperatorTask_def NewPrometheusOperatorUserWorkloadTask_def NewClusterMonitoringOperatorTask_def NewGrafanaTask_def
  NewPrometheusTask_def NewPrometheusUserWorkloadTask_def NewAlertmanagerTask_def NewNodeExporterTask_def
  NewKubeStateMetricsTask_def NewOpenShiftStateMetricsTask_def NewPrometheusAdapterTaks_def NewTelemeterClientTask_def
  NewConfigSharingTask_def NewThanosQuerierTask_def NewThanosRulerUserWorkloadTask_def

lemma sync_task_names: "map fst (sync_tasks o' factory config) = task_names"
  by (simp add: sync_tasks_def task_names_def)

text \<open>Every task of the list is the one that its name stands for, so the runner gets the same tasks.\<close>

lemma sync_tasks_run:
  "list_all (\<lambda>(name, task). Run cr checked issued task =
     task_of cr checked issued (op_namespace o') (op_client o') factory config name) (sync_tasks o' factory config)"
  by (simp add: sync_tasks_def constructors task_of_def)

lemma sync_runner_specs:
  "sync_runner (with_tasks cr checked issued env o') config = NewTaskRunner (sync_specs cr checked issued env o' config)"
proof -
  let ?factory = "NewFactory env (op_namespace o') (op_namespaceUserWorkload o') config"
  have specs: "map (\<lambda>(name, task). NewTaskSpec name (Run cr checked issued task)) (sync_tasks o' ?factory config) =
      map (\<lambda>x. NewTaskSpec (fst x) (task_of cr checked issued (op_namespace o') (op_client o') ?factory config (fst x)))
        (sync_tasks o' ?factory config)"
    using sync_tasks_run [of cr checked issued o' ?factory config] by (intro map_cong refl) (auto simp: list_all_iff)
  show ?thesis
    unfolding sync_runner_def sync_specs_def specs sync_task_names [of o' ?factory config, symmetric]
    by (simp add: with_tasks_def o_def)
qed

end
