(* ===== verification/Construction.thy ===== *)
theory Construction
  imports Operator Informers Command_Line Factory_Base
begin

text \<open>
  How the operator is put together: \<open>New\<close> of \<open>client/client.go\<close> builds the clients of the libraries and
  \<open>New\<close> of \<open>operator/operator.go\<close> the operator with its names, its client and its subscriptions, from the
  arguments that \<open>Main\<close> of \<open>cmd/operator/main.go\<close> takes from the command line.
\<close>

section \<open>The client\<close>

text \<open>The configuration of a connection; what the program leaves as it is is one opaque field.\<close>

record rest_Config =
  QPS :: int
  Burst :: int
  AcceptContentTypes :: string
  ContentType :: string
  rest_Config_rest :: string

text \<open>The clients that the libraries build, with the resources that the operator uses of each.\<close>

record 'w kubernetes_Interface =
  kube_Secrets :: "('w, Secret) resource"
  kube_ConfigMaps :: "('w, ConfigMap) resource"
  kube_Services :: "('w, Service) resource"
  kube_ServiceAccounts :: "('w, ServiceAccount) resource"
  kube_Namespaces :: "('w, NamespaceObject) resource"
  kube_Pods :: "('w, Pod) resource"
  kube_Roles :: "('w, Role) resource"
  kube_ClusterRoles :: "('w, ClusterRole) resource"
  kube_RoleBindings :: "('w, RoleBinding) resource"
  kube_ClusterRoleBindings :: "('w, ClusterRoleBinding) resource"
  kube_ValidatingWebhookConfigurations :: "('w, ValidatingWebhookConfiguration) resource"
  kube_Deployments :: "('w, Deployment) resource"
  kube_DaemonSets :: "('w, DaemonSet) resource"
  kube_StatefulSets :: "('w, StatefulSet) resource"

record 'w monitoring_Interface =
  mon_Prometheuses :: "('w, Prometheus) resource"
  mon_Alertmanagers :: "('w, Alertmanager) resource"
  mon_ThanosRulers :: "('w, ThanosRuler) resource"
  mon_PrometheusRules :: "('w, PrometheusRule) resource"
  mon_ServiceMonitors :: "('w, ServiceMonitor) resource"

record 'w openshift_config_Interface =
  osc_ClusterVersions :: "('w, ClusterVersion) resource"
  osc_Proxies :: "('w, Proxy) resource"
  osc_Infrastructures :: "('w, Infrastructure) resource"
  osc_ClusterOperators :: "('w, ClusterOperator) resource"

text \<open>
  The constructors of the libraries, what the Prometheus operator's library says of the pods of an
  operand, and the clock by which the waits poll.
\<close>

record 'w libraries =
  monitoring_NewForConfig :: "rest_Config \<Rightarrow> error + 'w monitoring_Interface"
  kubernetes_NewForConfig :: "rest_Config \<Rightarrow> error + 'w kubernetes_Interface"
  apiextensions_NewForConfig :: "rest_Config \<Rightarrow> error + ('w, CustomResourceDefinition) resource"
  openshiftconfig_NewForConfig :: "rest_Config \<Rightarrow> error + 'w openshift_config_Interface"
  openshiftsecurity_NewForConfig :: "rest_Config \<Rightarrow> error + ('w, SecurityContextConstraints) resource"
  openshiftroute_NewForConfig :: "rest_Config \<Rightarrow> error + ('w, Route) resource"
  aggregator_NewForConfig :: "rest_Config \<Rightarrow> error + ('w, APIService) resource"
  library_PrometheusStatus :: "'w kubernetes_Interface \<Rightarrow> Prometheus \<Rightarrow> ('w, ReplicaStatus) prog"
  library_AlertmanagerStatus :: "'w kubernetes_Interface \<Rightarrow> Alertmanager \<Rightarrow> ('w, ReplicaStatus) prog"
  library_ThanosRulerStatus :: "'w kubernetes_Interface \<Rightarrow> ThanosRuler \<Rightarrow> ('w, ReplicaStatus) prog"
  ticker :: "'w poller"

definition json_config :: "rest_Config \<Rightarrow> rest_Config" where
  "json_config cfg = cfg\<lparr>AcceptContentTypes := ''application/json'', ContentType := ''application/json''\<rparr>"

definition NewClient :: "'w libraries \<Rightarrow> rest_Config \<Rightarrow> string \<Rightarrow> string \<Rightarrow> string \<Rightarrow> string \<Rightarrow> 'w Client res" where
  "NewClient lib cfg version' namespace' userWorkloadNamespace' namespaceSelector' =
     r_bind (decoded (monitoring_NewForConfig lib cfg)) (\<lambda>mclient.
     r_bind (errors_Wrap ''creating kubernetes clientset client'' (decoded (kubernetes_NewForConfig lib cfg))) (\<lambda>kclient.
     r_bind (errors_Wrap ''creating apiextensions client'' (decoded (apiextensions_NewForConfig lib cfg))) (\<lambda>eclient.
     r_bind (errors_Wrap ''creating openshift config client'' (decoded (openshiftconfig_NewForConfig lib cfg))) (\<lambda>oscclient.
     let jsonClientConfig = json_config cfg in
     r_bind (errors_Wrap ''creating openshift security client''
       (decoded (openshiftsecurity_NewForConfig lib jsonClientConfig))) (\<lambda>ossclient.
     r_bind (errors_Wrap ''creating openshift route client'' (decoded (openshiftroute_NewForConfig lib cfg))) (\<lambda>osrclient.
     r_bind (errors_Wrap ''creating kubernetes aggregator'' (decoded (aggregator_NewForConfig lib cfg))) (\<lambda>aggclient.
     Ok \<lparr>version = version', namespace = namespace', userWorkloadNamespace = userWorkloadNamespace',
       namespaceSelector = namespaceSelector',
       Secrets = kube_Secrets kclient, ConfigMaps = kube_ConfigMaps kclient, Services = kube_Services kclient,
       ServiceAccounts = kube_ServiceAccounts kclient, Namespaces = kube_Namespaces kclient, Pods = kube_Pods kclient,
       Roles = kube_Roles kclient, ClusterRoles = kube_ClusterRoles kclient, RoleBindings = kube_RoleBindings kclient,
       ClusterRoleBindings = kube_ClusterRoleBindings kclient,
       ValidatingWebhookConfigurations = kube_ValidatingWebhookConfigurations kclient,
       Deployments = kube_Deployments kclient, DaemonSets = kube_DaemonSets kclient,
       StatefulSets = kube_StatefulSets kclient, SCCs = ossclient, Routes = osrclient, APIServices = aggclient,
       Prometheuses = mon_Prometheuses mclient, Alertmanagers = mon_Alertmanagers mclient,
       ThanosRulers = mon_ThanosRulers mclient, PrometheusRules = mon_PrometheusRules mclient,
       ServiceMonitors = mon_ServiceMonitors mclient, CustomResourceDefinitions = eclient,
       ClusterVersions = osc_ClusterVersions oscclient, Proxies = osc_Proxies oscclient,
       Infrastructures = osc_Infrastructures oscclient, ClusterOperators = osc_ClusterOperators oscclient,
       PrometheusStatus = library_PrometheusStatus lib kclient,
       AlertmanagerStatus = library_AlertmanagerStatus lib kclient,
       ThanosRulerStatus = library_ThanosRulerStatus lib kclient, next_tick = ticker lib\<rparr>)))))))"

definition Client_Namespace :: "'w Client \<Rightarrow> string" where
  "Client_Namespace c = namespace c"

text \<open>The list-watches for the informers: what they watch and where.\<close>

definition ConfigMapListWatchForNamespace :: "string \<Rightarrow> watched \<times> string" where
  "ConfigMapListWatchForNamespace ns = (ConfigMapObjects, ns)"

definition SecretListWatchForNamespace :: "string \<Rightarrow> watched \<times> string" where
  "SecretListWatchForNamespace ns = (SecretObjects, ns)"

section \<open>The operator\<close>

text \<open>
  A new operator: \<open>runtime\<close> gives it the parts that it takes from libraries (the cache, the decoders, the
  clock) and the tasks; the files of its manifests are read below the directory of the assets.
\<close>

record 'w new_operator =
  new_operator_state :: "'w Operator"
  new_operator_informers :: "informer list"
  new_operator_queue :: work_queue
  new_operator_assets :: Assets

definition NewOperator :: "'w libraries \<Rightarrow> 'w Operator \<Rightarrow> rest_Config \<Rightarrow> operator_arguments \<Rightarrow> 'w new_operator res" where
  "NewOperator lib runtime config a =
     r_bind (NewClient lib config (arg_version a) (arg_namespace a) (arg_namespaceUserWorkload a) (arg_namespaceSelector a)) (\<lambda>c.
     let o' = runtime\<lparr>
       op_images := Some (arg_images a),
       op_telemetryMatches := arg_telemetryMatches a,
       op_configMapName := arg_configMapName a,
       op_userWorkloadConfigMapName := arg_userWorkloadConfigMapName a,
       op_remoteWrite := arg_remoteWrite a,
       op_namespace := arg_namespace a,
       op_namespaceUserWorkload := arg_namespaceUserWorkload a,
       op_client := c\<rparr>
     in Ok \<lparr>new_operator_state = o', new_operator_informers = operator_informers (operator_names.truncate o'),
       new_operator_queue = empty_queue, new_operator_assets = arg_assets a\<rparr>)"

text \<open>The limits that \<open>Main\<close> sets on the connection.\<close>

definition limited :: "int \<Rightarrow> int \<Rightarrow> rest_Config \<Rightarrow> rest_Config" where
  "limited qps burst config = config\<lparr>QPS := qps, Burst := burst\<rparr>"

section \<open>From the command line to the operator\<close>

lemma NewClient_Ok:
  assumes "NewClient lib cfg version' ns nsUserWorkload selector = Ok c"
  shows "version c = version' \<and> namespace c = ns \<and> userWorkloadNamespace c = nsUserWorkload \<and> namespaceSelector c = selector \<and>
    openshiftsecurity_NewForConfig lib (json_config cfg) = Inr (SCCs c) \<and>
    openshiftroute_NewForConfig lib cfg = Inr (Routes c) \<and> aggregator_NewForConfig lib cfg = Inr (APIServices c) \<and>
    apiextensions_NewForConfig lib cfg = Inr (CustomResourceDefinitions c) \<and>
    (\<exists>k. kubernetes_NewForConfig lib cfg = Inr k \<and> Secrets c = kube_Secrets k \<and> ConfigMaps c = kube_ConfigMaps k) \<and>
    (\<exists>m. monitoring_NewForConfig lib cfg = Inr m \<and> Prometheuses c = mon_Prometheuses m) \<and>
    (\<exists>v. openshiftconfig_NewForConfig lib cfg = Inr v \<and> ClusterOperators c = osc_ClusterOperators v)"
  using assms
  by (auto simp: NewClient_def decoded_def r_bind_Ok_iff errors_Wrap_Ok_iff Let_def split: sum.splits)

text \<open>The clients are built in one order, and the first constructor that fails decides on the error.\<close>

lemma NewClient_error:
  "monitoring_NewForConfig lib cfg = Inl e \<Longrightarrow> NewClient lib cfg v ns nsUserWorkload selector = Err e"
  "monitoring_NewForConfig lib cfg = Inr m \<Longrightarrow> kubernetes_NewForConfig lib cfg = Inl e \<Longrightarrow>
    NewClient lib cfg v ns nsUserWorkload selector = Err (Wrapped ''creating kubernetes clientset client'' e)"
  by (simp_all add: NewClient_def decoded_def)


text \<open>Libraries that give the sample client, and a system on which the program starts.\<close>

definition sample_libraries :: "Cluster libraries" where
  "sample_libraries = (let c = quiet_client in \<lparr>
     monitoring_NewForConfig = \<lambda>_. Inr \<lparr>mon_Prometheuses = Prometheuses c, mon_Alertmanagers = Alertmanagers c,
       mon_ThanosRulers = ThanosRulers c, mon_PrometheusRules = PrometheusRules c, mon_ServiceMonitors = ServiceMonitors c\<rparr>,
     kubernetes_NewForConfig = \<lambda>_. Inr \<lparr>kube_Secrets = Secrets c, kube_ConfigMaps = ConfigMaps c, kube_Services = Services c,
       kube_ServiceAccounts = ServiceAccounts c, kube_Namespaces = Namespaces c, kube_Pods = Pods c, kube_Roles = Roles c,
       kube_ClusterRoles = ClusterRoles c, kube_RoleBindings = RoleBindings c, kube_ClusterRoleBindings = ClusterRoleBindings c,
       kube_ValidatingWebhookConfigurations = ValidatingWebhookConfigurations c, kube_Deployments = Deployments c,
       kube_DaemonSets = DaemonSets c, kube_StatefulSets = StatefulSets c\<rparr>,
     apiextensions_NewForConfig = \<lambda>_. Inr (CustomResourceDefinitions c),
     openshiftconfig_NewForConfig = \<lambda>_. Inr \<lparr>osc_ClusterVersions = ClusterVersions c, osc_Proxies = Proxies c,
       osc_Infrastructures = Infrastructures c, osc_ClusterOperators = ClusterOperators c\<rparr>,
     openshiftsecurity_NewForConfig = \<lambda>cfg.
       if AcceptContentTypes cfg = ''application/json'' then Inr (SCCs c) else Inl (ErrorString ''no protobuf''),
     openshiftroute_NewForConfig = \<lambda>_. Inr (Routes c),
     aggregator_NewForConfig = \<lambda>_. Inr (APIServices c),
     library_PrometheusStatus = \<lambda>_. PrometheusStatus c, library_AlertmanagerStatus = \<lambda>_. AlertmanagerStatus c,
     library_ThanosRulerStatus = \<lambda>_. ThanosRulerStatus c, ticker = next_tick c\<rparr>)"

definition sample_main :: "(unit, rest_Config, Cluster new_operator) main_system" where
  "sample_main = \<lparr>os_Open = \<lambda>_. Inr (), decode_telemetry = \<lambda>_. Inr [''a''], file_Close = \<lambda>_. None, os_missing = \<lambda>_. False,
     BuildConfigFromFlags = \<lambda>_ _. Inr \<lparr>QPS = 5, Burst = 10, AcceptContentTypes = '''', ContentType = '''', rest_Config_rest = ''''\<rparr>,
     with_limits = limited,
     operator_New = \<lambda>config a. case NewOperator sample_libraries sample_operator config a of
       Ok o' \<Rightarrow> Inr o' | Err e \<Rightarrow> Inl e | Panic \<Rightarrow> Inl (ErrorString ''panic''),
     operator_Run = \<lambda>_. None\<rparr>"


end
