(* ===== verification/Telemetry_Query.thy ===== *)
theory Telemetry_Query
  imports Cluster_Manifests
begin

text \<open>
  The tool \<open>hack/telemeter_query.go\<close>, which prints the query that selects the telemetry of a cluster. It
  reads the config map from which the operator itself gets its matches, so that what it prints is to be
  the query in the operator's recording rule. The files and the decoders are arguments.
\<close>

section \<open>The tool\<close>

record 'file tool_system =
  tool_Open :: "string \<Rightarrow> error + 'file"
  decode_ConfigMap :: "'file \<Rightarrow> error + ConfigMap"
  decode_telemetryConfig :: "string \<Rightarrow> error + string list"

text \<open>The tool prints a line or panics with a message.\<close>

datatype tool_exit = Prints string | Panics string

text \<open>\<open>args\<close> are the program's name and its arguments.\<close>

definition telemeter_query :: "'file tool_system \<Rightarrow> parser \<Rightarrow> (string list \<Rightarrow> string list) \<Rightarrow> string list \<Rightarrow> tool_exit" where
  "telemeter_query sys parse order args =
     (if length args < 2 then Panics ''expecting at least 1 argument, got 0''
      else case tool_Open sys (args ! 1) of
        Inl e \<Rightarrow> Panics (error_message e)
      | Inr f \<Rightarrow> (case decode_ConfigMap sys f of
          Inl e \<Rightarrow> Panics (''could not decode telemetry config map: '' @ error_message e)
        | Inr cm \<Rightarrow> (case gm_lookup (CM_Data cm) ''metrics.yaml'' of
            None \<Rightarrow> Panics ''could not find metrics.yaml entry in telemetry config map''
          | Some s \<Rightarrow> (case decode_telemetryConfig sys s of
              Inl e \<Rightarrow> Panics (''could not parse telemetry config file: '' @ error_message e)
            | Inr matches \<Rightarrow> (case GroupLabelSelectors parse order matches of
                Err e \<Rightarrow> Panics (''could not generate telemetry query: '' @ error_message e)
              | Panic \<Rightarrow> Panics ''''
              | Ok s \<Rightarrow> Prints s)))))"

section \<open>The tool and the operator\<close>

text \<open>
  C24. The tool prints the query of the operator's telemetry rule: for a config map that holds matches, the
  expression of the rule that the operator generates from these matches counts exactly the series that
  the printed query selects, although both iterate over the labels in orders of their own; and where the
  tool panics on matches that it cannot parse, the operator goes on with a rule without an expression.
\<close>

theorem telemeter_query_is_rule:
  assumes "tool_Open sys path = Inr file" and "decode_ConfigMap sys file = Inr cm"
    and "gm_lookup (CM_Data cm) ''metrics.yaml'' = Some text" and "decode_telemetryConfig sys text = Inr matches"
    and "\<And>m. promql_parse f m \<noteq> Panic"
    and "\<And>xs. mset (order xs) = mset xs" and "\<And>xs. mset (map_order f xs) = mset xs"
  shows "r_bind (generateTelemeterWhitelistRec f matches) (NewTelemeterPrometheusRecRuleFromString f) =
    Ok (default_namespace (fac_namespace f) (telemetry_rule
      (case telemeter_query sys (promql_parse f) order (prog # path # rest) of
         Prints query \<Rightarrow> ''count('' @ query @ '')''
       | Panics _ \<Rightarrow> '''')))"
proof (cases "parseMetricSelectorFromArray (promql_parse f) matches")
  case (Ok lss)
  from grouped_selector [OF this assms(6)] grouped_selector [OF this assms(7)] assms(1-4) show ?thesis
    by (simp add: telemeter_query_def generateTelemeterWhitelistRec_def NewTelemeterPrometheusRecRuleFromString_def)
next
  case (Err e)
  with assms(1-4) show ?thesis
    by (simp add: telemeter_query_def generateTelemeterWhitelistRec_def NewTelemeterPrometheusRecRuleFromString_def
        GroupLabelSelectors_def)
next
  case Panic
  with parse_all_returns [OF assms(5)] show ?thesis by simp
qed

text \<open>A sample of the tool's input and a factory that parses the sample selectors.\<close>

definition sample_tool :: "unit tool_system" where
  "sample_tool = \<lparr>tool_Open = \<lambda>_. Inr (),
     decode_ConfigMap = \<lambda>_. Inr (sample_configmap '''' '''' [] [(''metrics.yaml'', ''matches: [a, b]'')]),
     decode_telemetryConfig = \<lambda>_. Inr [''a'', ''b'']\<rparr>"

theorem telemeter_query_is_rule_witness:
  "\<exists>query. telemeter_query sample_tool example_parse rev [''telemeter_query'', ''config.yaml''] = Prints query \<and>
    r_bind (generateTelemeterWhitelistRec (cluster_factory\<lparr>promql_parse := example_parse\<rparr>) [''a'', ''b''])
      (NewTelemeterPrometheusRecRuleFromString (cluster_factory\<lparr>promql_parse := example_parse\<rparr>)) =
    Ok (default_namespace ''openshift-monitoring'' (telemetry_rule (''count('' @ query @ '')'')))"
proof -
  let ?f = "cluster_factory\<lparr>promql_parse := example_parse\<rparr>"
  let ?run = "telemeter_query sample_tool example_parse rev [''telemeter_query'', ''config.yaml'']"
  obtain lss where "parseMetricSelectorFromArray example_parse [''a'', ''b''] = Ok lss"
    by (simp add: example_parse_def)
  from grouped_selector [OF this, of rev] obtain query where query: "?run = Prints query"
    by (simp add: telemeter_query_def sample_tool_def sample_defs ObjectMeta.defs gm_of_list_def)
  have parses: "promql_parse ?f m \<noteq> Panic" for m by (simp add: example_parse_def)
  have "mset (map_order ?f xs) = mset xs" for xs by (simp add: cluster_factory_def)
  from telemeter_query_is_rule [of sample_tool "''config.yaml''" "()" _ "''matches: [a, b]''" "[''a'', ''b'']" ?f rev
      "''telemeter_query''" "[]", OF _ _ _ _ parses _ this] query
  show ?thesis
    by (simp add: sample_tool_def sample_defs ObjectMeta.defs gm_of_list_def cluster_factory_def)
qed

end
