(* ===== verification/Base_Address.thy ===== *)
theory Base_Address
  imports Factory_Base
begin

text \<open>
  Functions of \<open>pkg/manifests/manifests.go\<close> that no other code calls: the decoding of endpoints and of
  ingresses, and the host of a base address. The decoders are arguments.
\<close>

section \<open>Endpoints and ingresses\<close>

record Endpoints_object = ObjectMeta +
  Endpoints_rest :: string

record Ingress_object = ObjectMeta +
  Ingress_rest :: string

definition read_Endpoints :: "(string \<Rightarrow> error + Endpoints_object) \<Rightarrow> string \<Rightarrow> Endpoints_object res" where
  "read_Endpoints yaml manifest = decoded (yaml manifest)"

definition NewEndpoints :: "'w Factory \<Rightarrow> (string \<Rightarrow> error + Endpoints_object) \<Rightarrow> string \<Rightarrow> Endpoints_object res" where
  "NewEndpoints f yaml manifest =
     r_bind (read_Endpoints yaml manifest) (\<lambda>e. Ok (default_namespace (fac_namespace f) e))"

definition read_Ingress :: "(string \<Rightarrow> error + Ingress_object) \<Rightarrow> string \<Rightarrow> Ingress_object res" where
  "read_Ingress yaml manifest = decoded (yaml manifest)"

definition NewIngress :: "'w Factory \<Rightarrow> (string \<Rightarrow> error + Ingress_object) \<Rightarrow> string \<Rightarrow> Ingress_object res" where
  "NewIngress f yaml manifest =
     r_bind (read_Ingress yaml manifest) (\<lambda>i. Ok (default_namespace (fac_namespace f) i))"

section \<open>The host of an address\<close>

text \<open>The position of the first and of the last occurrence of a byte.\<close>

fun index_of :: "char \<Rightarrow> string \<Rightarrow> nat option" where
  "index_of c [] = None"
| "index_of c (x # xs) = (if x = c then Some 0 else map_option Suc (index_of c xs))"

definition last_index_of :: "char \<Rightarrow> string \<Rightarrow> nat option" where
  "last_index_of c s = map_option (\<lambda>i. length s - Suc i) (index_of c (rev s))"

text \<open>
  \<open>net.SplitHostPort\<close>: host and port, or the reason in the \<open>AddrError\<close>. The port starts after the last
  colon; a host in brackets may contain colons.
\<close>

definition SplitHostPort :: "string \<Rightarrow> string + string \<times> string" where
  "SplitHostPort hostport = (case last_index_of CHR '':'' hostport of
      None \<Rightarrow> Inl ''missing port in address''
    | Some i \<Rightarrow>
        let finish = (\<lambda>host j k.
          if CHR ''['' \<in> set (drop j hostport) then Inl (''unexpected '' @ [CHR 0x27, CHR ''['', CHR 0x27] @ '' in address'')
          else if CHR '']'' \<in> set (drop k hostport) then Inl (''unexpected '' @ [CHR 0x27, CHR '']'', CHR 0x27] @ '' in address'')
          else Inr (host, drop (Suc i) hostport))
        in if hd hostport = CHR ''['' then
             (case index_of CHR '']'' hostport of
                None \<Rightarrow> Inl (''missing '' @ [CHR 0x27, CHR '']'', CHR 0x27] @ '' in address'')
              | Some e \<Rightarrow>
                  if Suc e = length hostport then Inl ''missing port in address''
                  else if Suc e = i then finish (take (e - 1) (tl hostport)) 1 (Suc e)
                  else if hostport ! Suc e = CHR '':'' then Inl ''too many colons in address''
                  else Inl ''missing port in address'')
           else let host = take i hostport
             in if CHR '':'' \<in> set host then Inl ''too many colons in address'' else finish host 0 0)"

definition IsMissingPortInAddressError :: "string \<Rightarrow> bool" where
  "IsMissingPortInAddressError reason \<longleftrightarrow> reason = ''missing port in address''"

text \<open>An error other than a missing port gives an empty host and no error.\<close>

definition hostFromBaseAddress :: "string \<Rightarrow> string res" where
  "hostFromBaseAddress baseAddress = (case SplitHostPort baseAddress of
      Inl reason \<Rightarrow> if \<not> IsMissingPortInAddressError reason then Ok '''' else Ok baseAddress
    | Inr (host, _) \<Rightarrow> if host = '''' then Ok baseAddress else Ok host)"

lemma index_of_None: "index_of c s = None \<longleftrightarrow> c \<notin> set s"
  by (induction s) auto

lemma index_of_append: "c \<notin> set s \<Longrightarrow> index_of c (s @ c # t) = Some (length s)"
  by (induction s) auto

lemma last_index_of_append: "c \<notin> set t \<Longrightarrow> last_index_of c (s @ c # t) = Some (length s)"
  using index_of_append [of c "rev t" "rev s"] by (simp add: last_index_of_def)

text \<open>An address without a port is returned as it is, and the port of one is cut off.\<close>

lemma hostFromBaseAddress_plain:
  assumes "CHR '':'' \<notin> set address"
  shows "hostFromBaseAddress address = Ok address"
  using assms
  by (simp add: hostFromBaseAddress_def SplitHostPort_def last_index_of_def index_of_None [THEN iffD2]
      IsMissingPortInAddressError_def)

lemma hostFromBaseAddress_port:
  assumes "host \<noteq> ''''" and "set host \<inter> {CHR '':'', CHR ''['', CHR '']''} = {}"
    and "set port \<inter> {CHR '':'', CHR ''['', CHR '']''} = {}"
  shows "hostFromBaseAddress (host @ CHR '':'' # port) = Ok host"
proof -
  from assms(1,2) have "hd (host @ CHR '':'' # port) \<noteq> CHR ''[''" by (cases host) auto
  moreover from assms(3) have "last_index_of CHR '':'' (host @ CHR '':'' # port) = Some (length host)"
    by (intro last_index_of_append) auto
  ultimately have "SplitHostPort (host @ CHR '':'' # port) = Inr (host, port)"
    using assms(2,3) by (auto simp: SplitHostPort_def Let_def)
  with assms(1) show ?thesis by (simp add: hostFromBaseAddress_def)
qed

text \<open>A malformed address is not reported.\<close>

lemma hostFromBaseAddress_malformed: "hostFromBaseAddress ''a:b:80'' = Ok ''''"
  by code_simp

end
