(* ===== verification/Worker.thy ===== *)
theory Worker
  imports Informers
begin

text \<open>
  The goroutines of \<open>pkg/operator/operator.go\<close> around the work queue: the worker that takes keys and
  synchronises them (\<open>worker\<close>, \<open>processNextWorkItem\<close>), with its metrics, while informers, the ticker and
  the rate limiter put keys into the queue and \<open>Run\<close> ends.
\<close>

section \<open>The operator while it runs\<close>

text \<open>What the other goroutines do to the queue.\<close>

datatype happening =
    Notified watched string string change
  | Checked bool
  | Expired string
  | StopRequested

definition happen :: "operator_names \<Rightarrow> happening \<Rightarrow> work_queue \<Rightarrow> work_queue" where
  "happen o' h q = (case h of
      Notified kind ns name c \<Rightarrow> notify o' kind ns name c q
    | Checked exists \<Rightarrow> resync_check o' exists q
    | Expired key \<Rightarrow> if key \<in> delayed q then wq_expire key q else q
    | StopRequested \<Rightarrow> wq_ShutDown q)"

definition happen_all :: "operator_names \<Rightarrow> happening list \<Rightarrow> work_queue \<Rightarrow> work_queue" where
  "happen_all o' = fold (happen o')"

text \<open>The counters are nil before \<open>RegisterMetrics\<close>.\<close>

record 'w running_operator =
  op_queue :: work_queue
  reconcileAttempts :: "nat option"
  reconcileErrors :: "nat option"
  op_cluster :: 'w

text \<open>The registry is the set of the registered names; \<open>MustRegister\<close> panics for a name that it has.\<close>

definition metric_names :: "string list" where
  "metric_names = [''cluster_monitoring_operator_reconcile_attempts_total'',
     ''cluster_monitoring_operator_reconcile_errors_total'']"

definition RegisterMetrics :: "string set \<Rightarrow> 'w running_operator \<Rightarrow> string set res \<times> 'w running_operator" where
  "RegisterMetrics r s =
     (if list_ex (\<lambda>name. name \<in> r) metric_names then Panic else Ok (r \<union> set metric_names),
      s\<lparr>reconcileAttempts := Some 0, reconcileErrors := Some 0\<rparr>)"

text \<open>
  \<open>processNextWorkItem\<close>, or \<open>None\<close> while it is blocked in \<open>Get\<close>; \<open>meanwhile\<close> is what happens to the queue
  while \<open>sync\<close> runs. The deferred \<open>Done\<close> is executed on every way out, that of a panic included.
\<close>

definition processNextWorkItem ::
  "(string \<Rightarrow> ('w, unit) prog) \<Rightarrow> (work_queue \<Rightarrow> work_queue) \<Rightarrow> 'w running_operator \<Rightarrow>
   (bool res \<times> 'w running_operator) option" where
  "processNextWorkItem sync meanwhile s = (case wq_Get (op_queue s) of
      None \<Rightarrow> None
    | Some (None, _) \<Rightarrow> Some (Ok False, s)
    | Some (Some key, q) \<Rightarrow> Some (case reconcileAttempts s of
          None \<Rightarrow> (Panic, s\<lparr>op_queue := wq_Done key q\<rparr>)
        | Some n \<Rightarrow> (case sync key (op_cluster s) of (result, w) \<Rightarrow>
            let q' = meanwhile q; s' = s\<lparr>reconcileAttempts := Some (n + 1), op_cluster := w\<rparr>
            in case result of
                Ok _ \<Rightarrow> (Ok True, s'\<lparr>op_queue := finish_item key True q'\<rparr>)
              | Err _ \<Rightarrow> (case reconcileErrors s' of
                    None \<Rightarrow> (Panic, s'\<lparr>op_queue := wq_Done key q'\<rparr>)
                  | Some m \<Rightarrow> (Ok True, s'\<lparr>reconcileErrors := Some (m + 1), op_queue := finish_item key False q'\<rparr>))
              | Panic \<Rightarrow> (Panic, s'\<lparr>op_queue := wq_Done key q'\<rparr>))))"

text \<open>
  The loop of \<open>worker\<close>, for as long as the environment's list of rounds reaches: in a round something
  happens, then \<open>processNextWorkItem\<close> is blocked or handles a key, during which something else happens.
\<close>

datatype worker_outcome = Working | Finished | Crashed

fun worker :: "operator_names \<Rightarrow> (string \<Rightarrow> ('w, unit) prog) \<Rightarrow> (happening list \<times> happening list) list \<Rightarrow>
    'w running_operator \<Rightarrow> worker_outcome \<times> 'w running_operator" where
  "worker o' sync [] s = (Working, s)"
| "worker o' sync ((before, during) # rounds) s = (
     let s1 = s\<lparr>op_queue := happen_all o' before (op_queue s)\<rparr> in
     case processNextWorkItem sync (happen_all o' during) s1 of
       None \<Rightarrow> worker o' sync rounds s1
     | Some (Ok True, s2) \<Rightarrow> worker o' sync rounds s2
     | Some (Ok False, s2) \<Rightarrow> (Finished, s2)
     | Some (_, s2) \<Rightarrow> (Crashed, s2))"

text \<open>
  The loop of \<open>Run\<close> and its deferred \<open>ShutDown\<close>, as what they do to the queue: whether the config map exists
  at the start and at each tick that comes before the stop channel is closed.
\<close>

definition Run_loop :: "bool \<Rightarrow> bool list \<Rightarrow> happening list" where
  "Run_loop exists ticks = map Checked (exists # ticks) @ [StopRequested]"

lemma Run_loop_effect:
  "happen_all o' (Run_loop exists ticks) q =
     wq_ShutDown (if exists \<and> list_all id ticks then q else wq_Add (cmoConfigMap o') q)"
proof -
  have checks: "fold (happen o') (map Checked es) q = (if list_all id es then q else wq_Add (cmoConfigMap o') q)" for es q
    by (induction es arbitrary: q)
      (auto simp: happen_def resync_check_def enqueue_def cmoConfigMap_def wq_Add_twice)
  show ?thesis
    unfolding happen_all_def Run_loop_def fold_append comp_def checks by (simp add: happen_def)
qed

lemma RegisterMetrics_result:
  "fst (RegisterMetrics r s) = (if set metric_names \<inter> r = {} then Ok (r \<union> set metric_names) else Panic)"
  "reconcileAttempts (snd (RegisterMetrics r s)) = Some 0" "reconcileErrors (snd (RegisterMetrics r s)) = Some 0"
  by (auto simp: RegisterMetrics_def metric_names_def)

section \<open>The worker follows the state machine\<close>

text \<open>The queue, with the key that is synchronised, is that of a reachable state of the operator's loop.\<close>

definition tracks :: "operator_names \<Rightarrow> string option \<Rightarrow> work_queue \<Rightarrow> bool" where
  "tracks o' key q \<longleftrightarrow> (\<exists>s. loop_reachable o' s \<and> wq s = q \<and> syncing s = key)"

lemma tracks_step:
  assumes "tracks o' key q"
    and "\<And>s. loop_reachable o' s \<Longrightarrow> wq s = q \<Longrightarrow> syncing s = key \<Longrightarrow>
      \<exists>s'. loop_step o' s s' \<and> wq s' = q' \<and> syncing s' = key'"
  shows "tracks o' key' q'"
  using assms unfolding tracks_def by (metis loop_reachable.step)

lemma tracks_empty [simp]: "tracks o' None empty_queue"
  unfolding tracks_def using loop_reachable.start by (fastforce simp: initial_loop_def)

lemma tracks_happen: "tracks o' key q \<Longrightarrow> tracks o' key (happen o' h q)"
proof (cases h)
  case (Notified kind ns name c)
  then show "tracks o' key q \<Longrightarrow> ?thesis"
    unfolding tracks_def happen_def by simp (metis notify_reachable)
next
  case (Checked exists)
  then show "tracks o' key q \<Longrightarrow> ?thesis"
    unfolding tracks_def happen_def by simp (metis resync_check_reachable)
next
  case (Expired k)
  assume t: "tracks o' key q"
  show ?thesis
  proof (cases "k \<in> delayed q")
    case True
    show ?thesis
      by (rule tracks_step [OF t]) (use True Expired in \<open>auto simp: happen_def intro!: exI loop_step.expired\<close>)
  qed (use t Expired in \<open>simp add: happen_def\<close>)
next
  case StopRequested
  assume t: "tracks o' key q"
  show ?thesis
    by (rule tracks_step [OF t]) (use StopRequested in \<open>auto simp: happen_def intro!: exI loop_step.shut_down\<close>)
qed

lemma tracks_happen_all: "tracks o' key q \<Longrightarrow> tracks o' key (happen_all o' hs q)"
  unfolding happen_all_def by (induction hs arbitrary: q) (simp_all add: tracks_happen)

lemma tracks_Get:
  assumes "tracks o' None q" and "wq_Get q = Some (Some key, q')"
  shows "tracks o' (Some key) q'"
  by (rule tracks_step [OF assms(1)]) (use assms(2) in \<open>fastforce intro!: exI loop_step.begin_sync\<close>)

lemma tracks_finish:
  assumes "tracks o' (Some key) q"
  shows "tracks o' None (finish_item key ok q)"
  by (rule tracks_step [OF assms], cases ok)
    (fastforce intro!: exI loop_step.sync_done, fastforce intro!: exI loop_step.sync_failed)

text \<open>What that says about the queue.\<close>

lemma tracks_inv:
  assumes "tracks o' key q"
  shows "wq_inv q" "dirty q \<subseteq> {cmoConfigMap o'}" "delayed q \<subseteq> {cmoConfigMap o'}"
    "processing q = set_option key" "set_option key \<subseteq> {cmoConfigMap o'}"
proof -
  from assms obtain s where s: "loop_reachable o' s" "q = wq s" "key = syncing s" unfolding tracks_def by blast
  with loop_inv_reachable [OF s(1)]
  show "wq_inv q" "dirty q \<subseteq> {cmoConfigMap o'}" "delayed q \<subseteq> {cmoConfigMap o'}"
    "processing q = set_option key" "set_option key \<subseteq> {cmoConfigMap o'}"
    by (simp_all only: loop_inv_def Let_def)
qed

lemma tracks_queue:
  assumes "tracks o' None q"
  shows "queue q = [] \<or> queue q = [cmoConfigMap o']" "set (queue q) = dirty q"
proof -
  from tracks_inv [OF assms] have q: "distinct (queue q)" "set (queue q) = dirty q" "dirty q \<subseteq> {cmoConfigMap o'}"
    by (auto simp: wq_inv_def)
  then show "set (queue q) = dirty q" by simp
  from q show "queue q = [] \<or> queue q = [cmoConfigMap o']"
    by (cases "queue q"; cases "List.tl (queue q)") auto
qed

section \<open>What is pending\<close>

definition pending :: "operator_names \<Rightarrow> work_queue \<Rightarrow> bool" where
  "pending o' q \<longleftrightarrow> cmoConfigMap o' \<in> dirty q \<or> cmoConfigMap o' \<in> delayed q"

lemma shuttingDown_happen: "shuttingDown q \<Longrightarrow> shuttingDown (happen o' h q)"
  by (auto simp: happen_def notify_eq handleEvent_cases enqueue_def resync_check_def wq_defs split: happening.split)

lemma shuttingDown_happen_all: "shuttingDown q \<Longrightarrow> shuttingDown (happen_all o' hs q)"
  unfolding happen_all_def by (induction hs arbitrary: q) (simp_all add: shuttingDown_happen)

lemma stop_shuts_down: "StopRequested \<in> set hs \<Longrightarrow> shuttingDown (happen_all o' hs q)"
proof (induction hs arbitrary: q)
  case (Cons h hs)
  then show ?case
    by (cases "h = StopRequested")
      (auto simp: happen_all_def happen_def wq_ShutDown_def shuttingDown_happen_all [unfolded happen_all_def])
qed simp

text \<open>Nothing that happens withdraws a key, and nothing that happens after the shutdown adds one.\<close>

lemma dirty_happen: "dirty q \<subseteq> dirty (happen o' h q)"
  by (auto simp: happen_def notify_eq handleEvent_cases enqueue_def resync_check_def wq_defs split: happening.split)

lemma pending_happen: "pending o' q \<Longrightarrow> \<not> shuttingDown (happen o' h q) \<Longrightarrow> pending o' (happen o' h q)"
  by (auto simp: pending_def happen_def notify_eq handleEvent_cases enqueue_def resync_check_def wq_defs
      split: happening.split)

lemma dirty_happen_down: "shuttingDown q \<Longrightarrow> dirty (happen o' h q) = dirty q"
  by (auto simp: happen_def notify_eq handleEvent_cases enqueue_def resync_check_def wq_defs split: happening.split)

lemma dirty_happen_all: "dirty q \<subseteq> dirty (happen_all o' hs q)"
  unfolding happen_all_def by (induction hs arbitrary: q) (simp, metis dirty_happen fold_simps(2) order_trans)

lemma pending_happen_all:
  "pending o' q \<Longrightarrow> \<not> shuttingDown (happen_all o' hs q) \<Longrightarrow> pending o' (happen_all o' hs q)"
proof (induction hs arbitrary: q)
  case (Cons h hs)
  then have "\<not> shuttingDown (happen o' h q)"
    using shuttingDown_happen_all by (fastforce simp: happen_all_def)
  with Cons show ?case by (simp add: happen_all_def pending_happen)
qed (simp add: happen_all_def)

lemma dirty_happen_all_down: "shuttingDown q \<Longrightarrow> dirty (happen_all o' hs q) = dirty q"
  unfolding happen_all_def
  by (induction hs arbitrary: q) (simp_all add: dirty_happen_down shuttingDown_happen)

lemma finish_item_fields [simp]:
  "dirty (finish_item key ok q) = dirty q" "shuttingDown (finish_item key ok q) = shuttingDown q"
  "delayed (finish_item key ok q) = (if ok \<or> shuttingDown q then delayed q else insert key (delayed q))"
  by (auto simp: finish_item_def wq_defs)

section \<open>What the worker achieves\<close>

definition monitored :: "'w running_operator \<Rightarrow> bool" where
  "monitored s \<longleftrightarrow> reconcileAttempts s \<noteq> None \<and> reconcileErrors s \<noteq> None"

definition successes :: "'w running_operator \<Rightarrow> int" where
  "successes s = int (the (reconcileAttempts s)) - int (the (reconcileErrors s))"

text \<open>A turn in which a key was handled, with what \<open>sync\<close> made of it.\<close>

lemma turn_handled:
  assumes "processNextWorkItem sync meanwhile s = Some (Ok b, s2)" and "b"
  shows "\<exists>key q n ok.
    wq_Get (op_queue s) = Some (Some key, q) \<and>
    op_queue s2 = finish_item key ok (meanwhile q) \<and>
    reconcileAttempts s = Some n \<and> reconcileAttempts s2 = Some (n + 1) \<and>
    (if ok then reconcileErrors s2 = reconcileErrors s
     else \<exists>m. reconcileErrors s = Some m \<and> reconcileErrors s2 = Some (m + 1)) \<and>
    sync key (op_cluster s) = (if ok then Ok () else fst (sync key (op_cluster s)), op_cluster s2)"
proof -
  from assms obtain key q n where get: "wq_Get (op_queue s) = Some (Some key, q)" and n: "reconcileAttempts s = Some n"
    by (auto simp: processNextWorkItem_def split: option.splits prod.splits)
  obtain r w where r: "sync key (op_cluster s) = (r, w)" by force
  show ?thesis
  proof (cases r)
    case (Ok u)
    with assms get n r show ?thesis
      by (intro exI [of _ key] exI [of _ q] exI [of _ n] exI [of _ True]) (auto simp: processNextWorkItem_def Let_def)
  next
    case (Err e)
    with assms get n r show ?thesis
      by (intro exI [of _ key] exI [of _ q] exI [of _ n] exI [of _ False]) (auto simp: processNextWorkItem_def Let_def split: option.splits)
  next
    case Panic
    with assms get n r show ?thesis by (auto simp: processNextWorkItem_def Let_def)
  qed
qed

lemma turn_blocked:
  "processNextWorkItem sync meanwhile s = None \<longleftrightarrow> queue (op_queue s) = [] \<and> \<not> shuttingDown (op_queue s)"
  by (auto simp: processNextWorkItem_def wq_Get_def split: list.splits option.splits)

lemma turn_quits:
  "processNextWorkItem sync meanwhile s = Some (Ok False, s2) \<longleftrightarrow>
     queue (op_queue s) = [] \<and> shuttingDown (op_queue s) \<and> s2 = s"
  by (auto simp: processNextWorkItem_def wq_Get_def Let_def split: list.splits option.splits res.splits prod.splits)

text \<open>
  The operator advances: it stays on the state machine, it does not lose a success, and what is pending
  stays pending until a synchronisation has succeeded.
\<close>

definition advances :: "operator_names \<Rightarrow> 'w running_operator \<Rightarrow> 'w running_operator \<Rightarrow> bool" where
  "advances o' s s2 \<longleftrightarrow> tracks o' None (op_queue s2) \<and> monitored s2 \<and> successes s \<le> successes s2 \<and>
     (shuttingDown (op_queue s) \<longrightarrow> shuttingDown (op_queue s2)) \<and>
     (pending o' (op_queue s) \<and> \<not> shuttingDown (op_queue s2) \<longrightarrow>
        successes s < successes s2 \<or> pending o' (op_queue s2))"

lemma advances_trans [trans]: "advances o' s s1 \<Longrightarrow> advances o' s1 s2 \<Longrightarrow> advances o' s s2"
  unfolding advances_def by (auto dest: order_trans le_less_trans less_le_trans)

lemma advances_refl: "tracks o' None (op_queue s) \<Longrightarrow> monitored s \<Longrightarrow> advances o' s s"
  by (simp add: advances_def)

lemma advances_happening:
  assumes "tracks o' None (op_queue s)" and "monitored s"
  shows "advances o' s (s\<lparr>op_queue := happen_all o' hs (op_queue s)\<rparr>)"
  using assms by (auto simp: advances_def tracks_happen_all monitored_def successes_def
      intro: shuttingDown_happen_all pending_happen_all)

lemma advances_turn:
  assumes "tracks o' None (op_queue s)" and "monitored s"
    and "processNextWorkItem sync (happen_all o' hs) s = Some (Ok b, s2)" and "b"
  shows "advances o' s s2"
proof -
  obtain key q n ok where turn: "wq_Get (op_queue s) = Some (Some key, q)"
    "op_queue s2 = finish_item key ok (happen_all o' hs q)"
    "reconcileAttempts s = Some n" "reconcileAttempts s2 = Some (n + 1)"
    "if ok then reconcileErrors s2 = reconcileErrors s
     else \<exists>m. reconcileErrors s = Some m \<and> reconcileErrors s2 = Some (m + 1)"
    using turn_handled [OF assms(3,4)] by blast
  from tracks_Get [OF assms(1) turn(1)] have q: "tracks o' (Some key) q" .
  then have key: "key = cmoConfigMap o'" using tracks_inv(5) by force
  have down: "shuttingDown q = shuttingDown (op_queue s)"
    using turn(1) by (auto simp: wq_Get_def split: list.splits if_splits)
  have errors: "ok \<Longrightarrow> successes s2 = successes s + 1" "\<not> ok \<Longrightarrow> successes s2 = successes s" "monitored s2"
    using turn(3-5) assms(2) by (cases ok; auto simp: successes_def monitored_def)+
  show ?thesis
    unfolding advances_def turn(2)
    using tracks_finish [OF tracks_happen_all [OF q]] errors down
    by (cases ok) (auto simp: key pending_def intro: shuttingDown_happen_all)
qed

lemma worker_advances:
  assumes "worker o' sync rounds s = (Working, s2)" and "tracks o' None (op_queue s)" and "monitored s"
  shows "advances o' s s2"
  using assms
proof (induction rounds arbitrary: s)
  case Nil
  then show ?case by (simp add: advances_refl)
next
  case (Cons round rounds)
  obtain before during where round: "round = (before, during)" by force
  define s1 where "s1 = s\<lparr>op_queue := happen_all o' before (op_queue s)\<rparr>"
  have adv: "advances o' s s1" unfolding s1_def by (rule advances_happening [OF Cons.prems(2,3)])
  then have s1: "tracks o' None (op_queue s1)" "monitored s1" by (simp_all add: advances_def)
  show ?case
  proof (cases "processNextWorkItem sync (happen_all o' during) s1")
    case None
    with Cons.prems(1) round have "worker o' sync rounds s1 = (Working, s2)" by (simp add: s1_def)
    from advances_trans [OF adv Cons.IH [OF this s1]] show ?thesis .
  next
    case (Some turn)
    with Cons.prems(1) round obtain s3 where s3: "turn = (Ok True, s3)" "worker o' sync rounds s3 = (Working, s2)"
      by (cases turn; cases "fst turn") (auto simp: s1_def Let_def split: bool.splits)
    have turn: "advances o' s1 s3"
      by (rule advances_turn [OF s1 Some [unfolded s3(1)]]) simp
    then have "tracks o' None (op_queue s3)" "monitored s3" by (simp_all add: advances_def)
    from advances_trans [OF adv advances_trans [OF turn Cons.IH [OF s3(2) this]]] show ?thesis .
  qed
qed


lemma turn_returns:
  assumes "monitored s" and "\<And>key w. fst (sync key w) \<noteq> Panic"
    and "processNextWorkItem sync meanwhile s = Some turn"
  shows "\<exists>b s2. turn = (Ok b, s2)"
proof (cases "\<exists>key q. wq_Get (op_queue s) = Some (Some key, q)")
  case True
  then obtain key q where get: "wq_Get (op_queue s) = Some (Some key, q)" by blast
  obtain r w where r: "sync key (op_cluster s) = (r, w)" by force
  obtain n m where "reconcileAttempts s = Some n" "reconcileErrors s = Some m"
    using assms(1) by (auto simp: monitored_def)
  with get r assms(3) assms(2) [of key "op_cluster s"] show ?thesis
    by (cases r) (auto simp: processNextWorkItem_def Let_def)
next
  case False
  with assms(3) have "turn = (Ok False, s)" by (auto simp: processNextWorkItem_def split: option.splits)
  then show ?thesis by blast
qed

lemma turn_drains:
  assumes "tracks o' None (op_queue s)" and "monitored s" and "shuttingDown (op_queue s)"
    and "\<And>key w. fst (sync key w) \<noteq> Panic" and "queue (op_queue s) \<noteq> []"
  shows "\<exists>s2. processNextWorkItem sync (happen_all o' hs) s = Some (Ok True, s2) \<and>
    advances o' s s2 \<and> dirty (op_queue s2) = {} \<and>
    the (reconcileAttempts s2) = the (reconcileAttempts s) + 1"
proof -
  obtain turn where turn: "processNextWorkItem sync (happen_all o' hs) s = Some turn"
    using assms(3) turn_blocked by fastforce
  obtain b s2 where b: "turn = (Ok b, s2)" using turn_returns [OF assms(2,4) turn] by blast
  have "b" using turn turn_quits [of sync "happen_all o' hs" s s2] assms(5) by (cases b) (auto simp: b)
  with b have s2: "turn = (Ok True, s2)" by simp
  note handled = turn [unfolded s2]
  obtain key q n ok where t: "wq_Get (op_queue s) = Some (Some key, q)"
    "op_queue s2 = finish_item key ok (happen_all o' hs q)"
    "reconcileAttempts s = Some n" "reconcileAttempts s2 = Some (n + 1)"
    using turn_handled [OF handled TrueI] by fast
  have queued: "queue (op_queue s) = [cmoConfigMap o']" "dirty (op_queue s) = {cmoConfigMap o'}"
    using tracks_queue [OF assms(1)] assms(5) by auto
  have "q = (op_queue s)\<lparr>queue := [], processing := insert key (processing (op_queue s)), dirty := dirty (op_queue s) - {key}\<rparr>"
    "key = cmoConfigMap o'"
    using t(1) by (auto simp: wq_Get_def queued(1))
  then have "dirty q = {}" "shuttingDown q" by (simp_all add: queued(2) assms(3))
  then have "dirty (op_queue s2) = {}" by (simp add: t(2) dirty_happen_all_down)
  with handled s2 t(3,4) advances_turn [OF assms(1,2) handled TrueI] show ?thesis by auto
qed

lemma worker_quits:
  assumes "tracks o' None (op_queue s)" and "shuttingDown (op_queue s)" and "dirty (op_queue s) = {}"
  shows "\<exists>s2. worker o' sync (r # later) s = (Finished, s2) \<and> queue (op_queue s2) = [] \<and>
    reconcileAttempts s2 = reconcileAttempts s"
proof -
  obtain before during where r: "r = (before, during)" by force
  define s1 where "s1 = s\<lparr>op_queue := happen_all o' before (op_queue s)\<rparr>"
  have "queue (op_queue s1) = []" "shuttingDown (op_queue s1)"
    using assms tracks_queue(2) [OF tracks_happen_all [OF assms(1)], of before] dirty_happen_all_down [OF assms(2)]
    by (simp_all add: s1_def shuttingDown_happen_all)
  moreover from this have "processNextWorkItem sync (happen_all o' during) s1 = Some (Ok False, s1)"
    by (simp add: turn_quits)
  ultimately show ?thesis by (simp add: r s1_def)
qed

text \<open>
  C29. The worker ends. Once \<open>Run\<close> has returned and its deferred call has shut the queue down, the worker
  handles one more key at most, which was queued before, and its goroutine returns with an empty queue,
  whatever else happens and whatever the synchronisation returns, as long as it does not panic.
\<close>

theorem worker_ends_after_shutdown:
  assumes "op_queue s = empty_queue" and "monitored s"
    and "worker o' sync earlier s = (Working, s1)"
    and "StopRequested \<in> set before"
    and "\<And>key w. fst (sync key w) \<noteq> Panic"
  shows "\<exists>s2. worker o' sync ((before, during) # next_round # later) s1 = (Finished, s2) \<and>
    queue (op_queue s2) = [] \<and>
    the (reconcileAttempts s2) \<le> the (reconcileAttempts s1) + 1"
proof -
  have s1: "tracks o' None (op_queue s1)" "monitored s1"
    using worker_advances [OF assms(3)] assms(1,2) by (simp_all add: advances_def)
  define s1' where "s1' = s1\<lparr>op_queue := happen_all o' before (op_queue s1)\<rparr>"
  have s1': "tracks o' None (op_queue s1')" "monitored s1'" "shuttingDown (op_queue s1')"
    using advances_happening [OF s1] stop_shuts_down [OF assms(4)] by (simp_all add: s1'_def advances_def)
  show ?thesis
  proof (cases "queue (op_queue s1') = []")
    case True
    with s1'(3) have "processNextWorkItem sync (happen_all o' during) s1' = Some (Ok False, s1')"
      by (simp add: turn_quits)
    with True show ?thesis by (simp add: s1'_def)
  next
    case False
    from turn_drains [OF s1' _ False, of sync during] assms(5) obtain s3 where
      s3: "processNextWorkItem sync (happen_all o' during) s1' = Some (Ok True, s3)" "advances o' s1' s3"
      "dirty (op_queue s3) = {}" "the (reconcileAttempts s3) = the (reconcileAttempts s1') + 1" by blast
    with s1'(3) worker_quits [of o' s3 sync next_round later] show ?thesis by (auto simp: advances_def s1'_def)
  qed
qed

section \<open>Concrete runs\<close>

text \<open>An operator whose first synchronisations fail, as many as its cluster says.\<close>

definition started_operator :: "nat \<Rightarrow> nat running_operator" where
  "started_operator n = \<lparr>op_queue = empty_queue, reconcileAttempts = Some 0, reconcileErrors = Some 0, op_cluster = n\<rparr>"

definition flaky_sync :: "string \<Rightarrow> (nat, unit) prog" where
  "flaky_sync key n = (if n = 0 then (Ok (), 0) else (Err (ErrorString ''no server''), n - 1))"

lemma started_operator_simps [simp]:
  "op_queue (started_operator n) = empty_queue" "monitored (started_operator n)"
  "reconcileAttempts (started_operator n) = Some 0" "reconcileErrors (started_operator n) = Some 0"
  "op_cluster (started_operator n) = n" "successes (started_operator n) = 0"
  by (simp_all add: started_operator_def monitored_def successes_def)

text \<open>The queue when one key has failed once and has been retried.\<close>

lemmas run_simps = happen_all_def happen_def notify_default relevant_change_def processNextWorkItem_def wq_defs
  empty_queue_def finish_item_def flaky_sync_def started_operator_def Let_def

lemma retried_run:
  "\<exists>s2. worker default_names flaky_sync
       [([Notified SecretObjects ''openshift-monitoring'' ''grpc-tls'' Update], []),
        ([Expired ''openshift-monitoring/cluster-monitoring-config''], [])] (started_operator 1) = (Working, s2) \<and>
     queue (op_queue s2) = [] \<and> delayed (op_queue s2) = {} \<and> \<not> shuttingDown (op_queue s2) \<and>
     reconcileAttempts s2 = Some 2 \<and> reconcileErrors s2 = Some 1"
  by (simp add: run_simps)


theorem worker_ends_after_shutdown_witness:
  "\<exists>s2. worker default_names flaky_sync
       [([Checked False, StopRequested], [Checked False]), ([], [])] (started_operator 1) = (Finished, s2) \<and>
     queue (op_queue s2) = []"
proof -
  have "fst (flaky_sync key w) \<noteq> Panic" for key w by (simp add: flaky_sync_def)
  from worker_ends_after_shutdown [of "started_operator 1" default_names flaky_sync "[]" _ "[Checked False, StopRequested]",
      OF _ _ _ _ this] show ?thesis by fastforce
qed

text \<open>One change in the rest state, and a synchronisation that succeeds.\<close>

lemma one_change:
  assumes "op_queue s = empty_queue" and "reconcileAttempts s = Some n"
    and "sync ''openshift-monitoring/cluster-monitoring-config'' (op_cluster s) = (Ok (), w)"
  shows "worker default_names sync [([Notified kind ns name c], [])] s = (Working,
    if relevant_change kind ns name c then s\<lparr>reconcileAttempts := Some (n + 1), op_cluster := w\<rparr> else s)"
proof (cases "relevant_change kind ns name c")
  case True
  with assms show ?thesis
    by (cases s) (auto simp: happen_all_def happen_def notify_default processNextWorkItem_def finish_item_def wq_defs
        empty_queue_def fun_upd_def)
next
  case False
  with assms show ?thesis
    by (cases s) (auto simp: happen_all_def happen_def notify_default processNextWorkItem_def wq_defs empty_queue_def)
qed

end
