(* ===== verification/Operation.thy ===== *)
theory Operation
  imports Worker Reconciliation_Spec
begin

text \<open>
  The operator as a whole: from the change of an object to the reconciled cluster, through the informers,
  the work queue, the worker and the synchronisation with all its tasks.
\<close>



end
