(* ===== verification/Spec2Isabelle.thy ===== *)
theory Spec2Isabelle
  imports Prelude Pascal_Case Promqlgen Images Manifest_Helpers K8s_Objects Api_Server Wait_Poll
    Client_Base Client_Wait Client_Apply Cluster Client_Spec Status_Reporter Config Tls_Rotation
    Task_Runner Work_Queue Operator Hashing Factory_Base Factory_Objects Factory_Workloads
    Factory_Prometheus Factory_Hash Ca_Bundle Tasks_Platform Tasks_User Tasks
    Rollover Workload_Spec Factory_Safety Informers Command_Line
    Inventory Desired_State Task_Effects Tracked_Inventory Reconciliation Cluster_Manifests
    Progress Manifest_Progress Task_Progress Sync_Progress Reconciliation_Spec
    Interleaving Asset_Files Task_List Construction Telemetry_Query Base_Address
    Worker Operation
begin

text \<open>
  A verification development for the cluster monitoring operator, which keeps the monitoring stack of
  an OpenShift cluster (Prometheus, Alertmanager, Grafana, Thanos, exporters) in the state that the
  configuration asks for.

  The program. Events of the cluster lead to one key in a work queue; one synchronisation at a time
  takes it, builds a configuration from the operator's config map and from what the cluster says,
  hands it to a factory of manifests, runs fifteen tasks that create, update or delete objects by the
  client, and reports the outcome in the status of a cluster operator.

  How effects are modelled. A method of the program is a \<open>('w, 'a) prog\<close> of \<open>Prelude\<close>: a function from
  the state of the world to a result and a new world, where a result is a value (\<open>Ok\<close>), an error (\<open>Err\<close>)
  or a panic (\<open>Panic\<close>). A nil pointer is \<open>None\<close> and dereferencing it (\<open>deref\<close>, \<open>through\<close>) panics; an
  assignment to a key of a nil map panics (\<open>gm_set\<close>). Wrapped errors keep their message and cause.

  The theories, with the files under \<open>src/pkg\<close> that they model:

  \<^item> \<open>Prelude\<close>: results, programs, Go maps, string functions and the rules for composed programs
    (\<open>prog_simps\<close>, \<open>res_simps\<close>, \<open>returns\<close>, \<open>keeps\<close>).
  \<^item> \<open>Pascal_Case\<close> (\<open>strings/strings.go\<close>), \<open>Promqlgen\<close> (\<open>promqlgen/promqlgen.go\<close>), \<open>Images\<close>
    (\<open>manifests/image.go\<close> and the images flag of \<open>cmd/operator/main.go\<close>), \<open>Manifest_Helpers\<close>
    (\<open>manifests/errmapreader.go\<close>, \<open>assets.go\<close>, \<open>password.go\<close>).
  \<^item> \<open>K8s_Objects\<close>: the objects as records over \<open>ObjectMeta\<close>; the fields that the program never reads or
    writes are one opaque field, the ones whose names end in \<open>rest\<close>. \<open>Api_Server\<close>: the locales \<open>api_reader\<close> and
    \<open>api_resource\<close> with what the API server promises, and a model of the object tracker of the vendored
    client library. \<open>Cluster\<close> interprets the locale for every kind of object and holds the client that the
    witnesses use.
  \<^item> \<open>Wait_Poll\<close> (the vendored \<open>wait.Poll\<close>), \<open>Client_Base\<close>, \<open>Client_Wait\<close> and \<open>Client_Apply\<close> (\<open>client/client.go\<close>),
    \<open>Client_Spec\<close> (the properties of the client).
  \<^item> \<open>Status_Reporter\<close> (\<open>client/condition.go\<close>, \<open>status_reporter.go\<close>).
  \<^item> \<open>Config\<close> (\<open>manifests/config.go\<close>), \<open>Tls_Rotation\<close> (\<open>manifests/tls.go\<close>).
  \<^item> \<open>Hashing\<close> (FNV-1 and base 32 of Go's library), \<open>Factory_Base\<close>, \<open>Factory_Objects\<close>, \<open>Factory_Workloads\<close>,
    \<open>Factory_Prometheus\<close> and \<open>Factory_Hash\<close> (\<open>manifests/manifests.go\<close>): a method reads an asset, decodes
    it and adapts it (\<open>from_asset\<close>).
  \<^item> \<open>Ca_Bundle\<close> (\<open>tasks/helpers.go\<close>), \<open>Tasks_Platform\<close>, \<open>Tasks_User\<close> and \<open>Tasks\<close> (the other files of
    \<open>tasks\<close>): every task's \<open>Run\<close>, \<open>create\<close> and \<open>destroy\<close>, call by call; the long ones are cut into
    phases (\<open>PrometheusTask_route\<close>, \<open>PrometheusTask_secrets\<close> and so on) that \<open>Run\<close> puts together in the order
    of the code. \<open>with_tasks\<close> gives an operator the tasks that \<open>sync\<close> assembles.
  \<^item> \<open>Task_Runner\<close> (\<open>tasks/tasks.go\<close>), \<open>Work_Queue\<close> (the event handler of \<open>operator/operator.go\<close> and the
    vendored work queue as a state machine), \<open>Informers\<close> (the subscriptions of \<open>New\<close> and the loop of \<open>Run\<close>),
    \<open>Worker\<close> (the worker and its counters, run among the \<open>happening\<close>s of the other goroutines, shutdown included),
    \<open>Operator\<close> (the other methods of \<open>operator/operator.go\<close>), \<open>Command_Line\<close> (\<open>Main\<close> of
    \<open>cmd/operator/main.go\<close>).
  \<^item> \<open>Rollover\<close>, \<open>Workload_Spec\<close> and \<open>Factory_Safety\<close>: properties of the factory together with the client.
  \<^item> \<open>Inventory\<close>: which objects are stored, as a set of addresses (kind, namespace, name); the locale
    \<open>tracked_kind\<close> states what storing and removing an object of one kind does to that set, and \<open>effect\<close>
    what a program does: which addresses it removes and which it adds when it returns nil, and that it
    touches no other whatever it returns. \<open>Tracked_Inventory\<close> shows that the object tracker keeps these laws.
  \<^item> \<open>Desired_State\<close> and \<open>Task_Effects\<close>: the abstract specification, for every component the set of the
    objects that its manifests describe, and the proof, task by task, in the locales \<open>reconciler\<close> and
    \<open>hashed_reconciler\<close>, that the code creates and removes exactly these. \<open>Reconciliation\<close>: the plan of every
    task under a configuration (\<open>task_plan\<close>) and of a synchronisation (\<open>sync_plan\<close>), and the proof for the
    list of tasks and for \<open>sync\<close> (\<open>operator_inventory\<close>).
    \<open>Cluster_Manifests\<close> interprets the locales with a cluster, its client and a set of manifests.
  \<^item> \<open>Progress\<close>, \<open>Manifest_Progress\<close>, \<open>Task_Progress\<close> and \<open>Sync_Progress\<close>: on a \<open>settled\<close> cluster the calls of the
    client, the methods of the factory, the tasks and \<open>sync\<close> return nil. \<open>fair_kind\<close> is the locale for the
    kinds of objects; it is interpreted for every kind that the program uses.
  \<^item> \<open>Reconciliation_Spec\<close>: the properties of reconciliation as a whole. \<open>Interleaving\<close>: the same when the
    calls of other tasks and controllers fall between any two calls of a task; \<open>interference\<close> is the locale
    for what they may do. \<open>Operation\<close>: from the change of an object through informers, queue, worker and
    tasks to the desired state.
  \<^item> \<open>Asset_Files\<close>: the names of the manifests (the variables of \<open>manifests/manifests.go\<close>), and that
    nothing else is read (\<open>same_files\<close>).
  \<^item> \<open>Task_List\<close>: the task types, their constructors and the list that \<open>sync\<close> builds from them.
    \<open>Construction\<close>: \<open>New\<close> of \<open>client/client.go\<close> and of \<open>operator/operator.go\<close>, from the flags of \<open>Main\<close> on.
  \<^item> \<open>Telemetry_Query\<close> (\<open>hack/telemeter_query.go\<close>), and \<open>Base_Address\<close> for the functions of
    \<open>manifests/manifests.go\<close> that nothing calls.

  What the lemmas show. The client is proved against an abstract specification, \<open>ensures_object\<close> (one
  object is brought to its required state, nothing else changes) and idempotent removal, for any server
  that satisfies \<open>api_resource\<close>; waits are shown to end and to return only what they wait for. Objects
  with hashed names replace exactly their older copies (\<open>rolled_over\<close>). The configuration is complete
  whatever the documents leave out, and a complete configuration keeps the setters and the factory from
  panicking. Every workload is its manifest with the configured images, in its namespace, and telemetry
  leaves the cluster by one way at most. The work queue loses no change and never runs two
  synchronisations, and exactly the relevant changes reach it; the worker comes to rest only when each has been
  reconciled, and ends after the shutdown of the queue; the runner executes every task and reports a failure of one; the status does not
  flap. Certificates are renewed in time. Every task carries out its plan; a reconciliation that returns nil
  has reached the desired state, in every order of completion; a second one changes nothing; and one that fails has touched
  nothing outside its plan. On a settled cluster reconciliation does return nil. Tasks tolerate each other,
  and depend on the manifests that they are shipped with and on no other file.

  Bounds. A poll with an interval and a time-out counts \<open>timeout div interval\<close> ticks, 300 for most
  waits and 60 for the trusted authorities, and checks once more when the time is over, as the vendored
  ticker does; this is the recursion measure of \<open>WaitFor\<close>, not fuel that could run out. All other loops
  are structural; \<open>worker\<close>, which runs until the shutdown, recurs over the rounds that the environment gives it, and
  two rounds after the shutdown are enough.

  Parameters. The YAML and JSON codecs, the PromQL parser, the certificate library, SHA-1, the file
  system, the random source, the clock and the status functions of the operands are arguments; so are the
  orders that Go leaves open (iteration over maps, completion of goroutines) and what the rest of the
  cluster does between two polls (\<open>next_tick\<close>).

  Not modelled. The metrics endpoint, the debug server and the signal handling of \<open>cmd/operator/main.go\<close>; the clients
  and the informers of the libraries, beyond how they are constructed and what they watch and handle;
  the sort interface \<open>byType\<close> of \<open>client/condition.go\<close>, which the program does not use; log
  output. In \<open>sync\<close> the tasks run as if each were one step, in any order of completion; \<open>Interleaving\<close> treats
  the calls of one task among those of others.

  Limits of the inventory. Tasks that publish an object under its hash replace the older copies, whose
  names the plan does not know; for them the plans count neither secrets nor config maps (\<open>counted\<close>), which
  \<open>Rollover\<close> treats. What the rest of the cluster does while a task waits (\<open>next_tick\<close>) is assumed to create
  and remove none of the objects that are counted. That reconciliation succeeds is shown for the default
  configuration and for manifests whose objects are named after their files.
\<close>

end
